(* ===== verification/Prelude.thy ===== *)
theory Prelude
  imports Main "HOL-Library.Multiset"
begin

text \<open>
  The library every component of the development uses: the errors the Go code returns, the
  shape of a Go function that returns \<open>(value, error)\<close> and changes shared state, a small
  weakest-precondition calculus for such functions, and the list operations behind the
  update documents the code sends to MongoDB.

  \<^item> \<open>err\<close> holds the error values. The data layer only looks inside an error to ask whether
    it is \<open>mongo.ErrNoDocuments\<close> or a \<open>mongo.CommandError\<close>
    (\<^verbatim>\<open>backend/src/mongodb/thread.go\<close>), so these two are constructors of their own;
    \<open>Err\<close> is an error made by the program with \<open>errors.New\<close> or \<open>fmt.Errorf\<close>. \<open>Panic\<close> is a
    run-time panic (a nil pointer dereference) and \<open>Fatal\<close> a call of \<open>log.Fatal\<close>: both abort
    the caller too, so no \<open>if err != nil\<close> sees them.
  \<^item> \<open>('s, 'a) smonad\<close> is a function from the shared state to an error or a value, and the
    next state. \<open>bindE m k\<close> is the Go idiom
    \<^verbatim>\<open>x, err := m; if err != nil { return nil, err }; k(x)\<close>.
  \<^item> \<open>wp m Q R s\<close> says that running \<open>m\<close> from \<open>s\<close> ends in \<open>Q\<close> when a value is returned
    and in \<open>R\<close> when an error is. The rules of the collection \<open>wp_rules\<close> compute it.
\<close>

section \<open>Errors and programs\<close>

datatype err =
    ErrNoDocuments
  | CommandError string
  | DriverError string
  | Err string
  | Panic string
  | Fatal string

fun aborts :: "err \<Rightarrow> bool" where
  "aborts (Panic _) = True"
| "aborts (Fatal _) = True"
| "aborts _ = False"

type_synonym ('s, 'a) smonad = "'s \<Rightarrow> (err + 'a) \<times> 's"

definition retE :: "'a \<Rightarrow> ('s, 'a) smonad" where
  "retE a = (\<lambda>s. (Inr a, s))"

definition throwE :: "err \<Rightarrow> ('s, 'a) smonad" where
  "throwE e = (\<lambda>s. (Inl e, s))"

definition bindE :: "('s, 'a) smonad \<Rightarrow> ('a \<Rightarrow> ('s, 'b) smonad) \<Rightarrow> ('s, 'b) smonad" where
  "bindE m k = (\<lambda>s. case m s of (r, s') \<Rightarrow> (case r of Inl e \<Rightarrow> (Inl e, s') | Inr a \<Rightarrow> k a s'))"

text \<open>
  \<open>onErr m h k\<close> inspects the error instead of returning it: \<open>h\<close> runs on the error path, \<open>k\<close>
  on the other. It is the general form of \<^verbatim>\<open>if err != nil { ... }\<close>; an abort passes through.
\<close>

definition onErr ::
  "('s, 'a) smonad \<Rightarrow> (err \<Rightarrow> ('s, 'b) smonad) \<Rightarrow> ('a \<Rightarrow> ('s, 'b) smonad) \<Rightarrow> ('s, 'b) smonad" where
  "onErr m h k = (\<lambda>s. case m s of (r, s') \<Rightarrow> (case r of Inl e \<Rightarrow> (if aborts e then (Inl e, s') else h e s') | Inr a \<Rightarrow> k a s'))"

definition getsE :: "('s \<Rightarrow> 'a) \<Rightarrow> ('s, 'a) smonad" where
  "getsE f = (\<lambda>s. (Inr (f s), s))"

definition modifyE :: "('s \<Rightarrow> 's) \<Rightarrow> ('s, unit) smonad" where
  "modifyE f = (\<lambda>s. (Inr (), f s))"

text \<open>A pure computation with an error result, used inside a stateful function.\<close>

definition liftR :: "err + 'a \<Rightarrow> ('s, 'a) smonad" where
  "liftR r = (\<lambda>s. (r, s))"

text \<open>A pointer the code follows (\<^verbatim>\<open>*p\<close>) without a check.\<close>

definition deref :: "'a option \<Rightarrow> ('s, 'a) smonad" where
  "deref p = (case p of None \<Rightarrow> throwE (Panic ''nil pointer dereference'') | Some x \<Rightarrow> retE x)"

text \<open>A Go \<open>for\<close> loop over a slice whose body may return early with an error.\<close>

fun forE :: "'a list \<Rightarrow> ('a \<Rightarrow> ('s, unit) smonad) \<Rightarrow> ('s, unit) smonad" where
  "forE [] b = retE ()"
| "forE (x # xs) b = bindE (b x) (\<lambda>_. forE xs b)"

text \<open>The result of a call that the code discards, error included (\<^verbatim>\<open>_, _ = f()\<close>).\<close>

definition discardE :: "('s, 'a) smonad \<Rightarrow> ('s, unit) smonad" where
  "discardE m = onErr m (\<lambda>_. retE ()) (\<lambda>_. retE ())"

section \<open>Weakest preconditions\<close>

named_theorems wp_rules \<open>backward rules for the operations of the model\<close>

definition wp ::
  "('s, 'a) smonad \<Rightarrow> ('a \<Rightarrow> 's \<Rightarrow> bool) \<Rightarrow> (err \<Rightarrow> 's \<Rightarrow> bool) \<Rightarrow> 's \<Rightarrow> bool" where
  "wp m Q R s = (case m s of (r, s') \<Rightarrow> (case r of Inl e \<Rightarrow> R e s' | Inr a \<Rightarrow> Q a s'))"

lemma wp_retE [simp]: "wp (retE a) Q R = Q a"
  by (simp add: wp_def retE_def fun_eq_iff)

lemma wp_throwE [simp]: "wp (throwE e) Q R = R e"
  by (simp add: wp_def throwE_def fun_eq_iff)

lemma wp_bindE [simp]: "wp (bindE m k) Q R = wp m (\<lambda>a. wp (k a) Q R) R"
  by (simp add: wp_def bindE_def fun_eq_iff split: prod.split sum.split)

lemma wp_onErr [simp]:
  "wp (onErr m h k) Q R =
   wp m (\<lambda>a. wp (k a) Q R) (\<lambda>e s. if aborts e then R e s else wp (h e) Q R s)"
  by (simp add: wp_def onErr_def fun_eq_iff split: prod.split sum.split)

lemma wp_getsE [simp]: "wp (getsE f) Q R s = Q (f s) s"
  by (simp add: wp_def getsE_def)

lemma wp_modifyE [simp]: "wp (modifyE f) Q R s = Q () (f s)"
  by (simp add: wp_def modifyE_def)

lemma wp_liftR [simp]:
  "wp (liftR r) Q R s = (case r of Inl e \<Rightarrow> R e s | Inr a \<Rightarrow> Q a s)"
  by (simp add: wp_def liftR_def)

lemma deref_simps [simp]:
  "deref None = throwE (Panic ''nil pointer dereference'')" "deref (Some x) = retE x"
  by (simp_all add: deref_def)

lemma wp_deref [simp]:
  "wp (deref p) Q R s =
     (case p of None \<Rightarrow> R (Panic ''nil pointer dereference'') s | Some x \<Rightarrow> Q x s)"
  by (simp split: option.split)

lemma bindE_retE [simp]: "bindE (retE a) k = k a"
  by (simp add: bindE_def retE_def)

lemma bindE_throwE [simp]: "bindE (throwE e) k = throwE e"
  by (simp add: bindE_def throwE_def)

lemma run_simps [simp]: "fst (retE a s) = Inr a" "fst (throwE e s) = Inl e"
    "snd (retE a s) = s" "snd (throwE e s) = s"
  by (simp_all add: retE_def throwE_def)

lemma bindE_assoc: "bindE (bindE m k) l = bindE m (\<lambda>a. bindE (k a) l)"
  by (auto simp: bindE_def fun_eq_iff split: prod.split sum.split)

lemma bindE_if_throw:
  "bindE (if b then throwE e else m) k = (if b then throwE e else bindE m k)"
  by simp

lemma wp_discardE [simp]:
  "wp (discardE m) Q R = wp m (\<lambda>_. Q ()) (\<lambda>e s. if aborts e then R e s else Q () s)"
  by (simp add: discardE_def)

lemma wp_mono:
  assumes "wp m Q R s"
    and "\<And>a s'. Q a s' \<Longrightarrow> Q' a s'" and "\<And>e s'. R e s' \<Longrightarrow> R' e s'"
  shows "wp m Q' R' s"
  using assms by (auto simp: wp_def split: prod.splits sum.splits)

text \<open>What a triple says of one concrete run.\<close>

lemma wp_Inr: "wp m Q R s \<Longrightarrow> m s = (Inr a, s') \<Longrightarrow> Q a s'"
  by (simp add: wp_def)

lemma wp_Inl: "wp m Q R s \<Longrightarrow> m s = (Inl e, s') \<Longrightarrow> R e s'"
  by (simp add: wp_def)

lemma wp_run:
  "wp m (\<lambda>a s'. r = Inr a \<longrightarrow> P s') (\<lambda>e s'. r = Inl e \<longrightarrow> P s') s \<Longrightarrow> m s = (r, t) \<Longrightarrow> P t"
  by (auto simp: wp_def split: sum.splits)

lemma wp_conj:
  "wp m Q R s \<Longrightarrow> wp m Q' R' s \<Longrightarrow> wp m (\<lambda>a t. Q a t \<and> Q' a t) (\<lambda>e t. R e t \<and> R' e t) s"
  by (auto simp: wp_def split: prod.splits sum.splits)

text \<open>
  The loop rule: an invariant over the elements already visited. The early return leaves the
  loop with the error of the body.
\<close>

lemma wp_forE:
  assumes "I [] s"
    and step: "\<And>ys x zs t. xs = ys @ x # zs \<Longrightarrow> I ys t \<Longrightarrow> wp (b x) (\<lambda>_ t'. I (ys @ [x]) t') R t"
    and fin: "\<And>t. I xs t \<Longrightarrow> Q () t"
  shows "wp (forE xs b) Q R s"
proof -
  have "\<And>done t. xs = done @ rest \<Longrightarrow> I done t \<Longrightarrow> wp (forE rest b) (\<lambda>_. I xs) R t" for rest
  proof (induction rest)
    case Nil
    then show ?case by simp
  next
    case (Cons x rest)
    have "wp (b x) (\<lambda>_ t'. I (done @ [x]) t') R t"
      using step [of "done" x rest t] Cons.prems by simp
    moreover have "wp (forE rest b) (\<lambda>_. I xs) R t'" if "I (done @ [x]) t'" for t'
      using Cons.IH [of "done @ [x]" t'] Cons.prems(1) that by simp
    ultimately show ?case
      by (simp, elim wp_mono) auto
  qed
  from this [of "[]" xs s] have "wp (forE xs b) (\<lambda>_. I xs) R s"
    using assms(1) by simp
  then show ?thesis
    by (rule wp_mono) (auto intro: fin)
qed

text \<open>An invariant of the body is an invariant of the loop.\<close>

lemma wp_forE_inv:
  assumes "I s" and "\<And>x t. x \<in> set xs \<Longrightarrow> I t \<Longrightarrow> wp (b x) (\<lambda>_. I) (\<lambda>_. I) t"
  shows "wp (forE xs b) (\<lambda>_. I) (\<lambda>_. I) s"
  by (rule wp_forE [where I = "\<lambda>_. I"]) (auto intro: assms)

section \<open>Invariants\<close>

text \<open>A program that keeps \<open>I\<close>, whether it returns a value or an error.\<close>

definition keeps :: "('s \<Rightarrow> bool) \<Rightarrow> ('s, 'a) smonad \<Rightarrow> bool" where
  "keeps I m \<longleftrightarrow> (\<forall>s. I s \<longrightarrow> wp m (\<lambda>_. I) (\<lambda>_. I) s)"

named_theorems keeps_rules \<open>programs that keep an invariant\<close>

lemma keepsI: "(\<And>s. I s \<Longrightarrow> wp m (\<lambda>_. I) (\<lambda>_. I) s) \<Longrightarrow> keeps I m"
  by (simp add: keeps_def)

lemma wp_keeps: "keeps I m \<Longrightarrow> I s \<Longrightarrow> wp m (\<lambda>_. I) (\<lambda>_. I) s"
  by (simp add: keeps_def)

lemma keeps_retE [keeps_rules]: "keeps I (retE a)"
  and keeps_throwE [keeps_rules]: "keeps I (throwE e)"
  and keeps_getsE [keeps_rules]: "keeps I (getsE f)"
  and keeps_liftR [keeps_rules]: "keeps I (liftR r)"
  and keeps_deref [keeps_rules]: "keeps I (deref p)"
  by (simp_all add: keeps_def split: sum.split option.split)

lemma keeps_modifyE: "(\<And>s. I s \<Longrightarrow> I (f s)) \<Longrightarrow> keeps I (modifyE f)"
  by (simp add: keeps_def)

lemma keeps_bindE [keeps_rules]:
  "keeps I m \<Longrightarrow> (\<And>a. keeps I (k a)) \<Longrightarrow> keeps I (bindE m k)"
  by (auto simp: keeps_def intro: wp_mono)

lemma keeps_onErr [keeps_rules]:
  "keeps I m \<Longrightarrow> (\<And>e. keeps I (h e)) \<Longrightarrow> (\<And>a. keeps I (k a)) \<Longrightarrow> keeps I (onErr m h k)"
  by (auto simp: keeps_def intro: wp_mono)

lemma keeps_discardE [keeps_rules]: "keeps I m \<Longrightarrow> keeps I (discardE m)"
  unfolding discardE_def by (intro keeps_rules)

lemma keeps_forE [keeps_rules]: "(\<And>x. x \<in> set xs \<Longrightarrow> keeps I (b x)) \<Longrightarrow> keeps I (forE xs b)"
  by (induction xs) (auto intro!: keeps_rules)

lemma keeps_if [keeps_rules]: "keeps I m \<Longrightarrow> keeps I m' \<Longrightarrow> keeps I (if b then m else m')"
  by simp

lemma keeps_option [keeps_rules]:
  "keeps I m \<Longrightarrow> (\<And>x. keeps I (k x)) \<Longrightarrow> keeps I (case p of None \<Rightarrow> m | Some x \<Rightarrow> k x)"
  by (cases p) auto

lemma keeps_Let [keeps_rules]: "(\<And>x. keeps I (k x)) \<Longrightarrow> keeps I (let x = t in k x)"
  by simp

section \<open>Array operators of update documents\<close>

text \<open>
  The updates the code sends are built from a few array operators. The names are those of the
  documents: \<open>$addToSet\<close>, \<open>$pull\<close>, the positional \<open>$\<close> (the first element the query's array
  condition matches), \<open>$[elem]\<close> with an array filter, \<open>$[]\<close> is \<open>map\<close>.
\<close>

definition addToSet :: "'a \<Rightarrow> 'a list \<Rightarrow> 'a list" where
  "addToSet x xs = (if x \<in> set xs then xs else xs @ [x])"

text \<open>
  For an embedded document \<open>$addToSet\<close> compares the encoded fields in order. The code builds these
  documents from a \<^verbatim>\<open>bson.M\<close>, a Go map with no fixed order, so an equal document may be present
  and not be recognised: \<open>same\<close> says whether the encodings agree.
\<close>

definition addToSetDoc :: "bool \<Rightarrow> 'a \<Rightarrow> 'a list \<Rightarrow> 'a list" where
  "addToSetDoc same x xs = (if x \<in> set xs \<and> same then xs else xs @ [x])"

definition pull :: "('a \<Rightarrow> bool) \<Rightarrow> 'a list \<Rightarrow> 'a list" where
  "pull P xs = filter (\<lambda>x. \<not> P x) xs"

fun positional :: "('a \<Rightarrow> bool) \<Rightarrow> ('a \<Rightarrow> 'a) \<Rightarrow> 'a list \<Rightarrow> 'a list" where
  "positional P g [] = []"
| "positional P g (x # xs) = (if P x then g x # xs else x # positional P g xs)"

definition filtered :: "('a \<Rightarrow> bool) \<Rightarrow> ('a \<Rightarrow> 'a) \<Rightarrow> 'a list \<Rightarrow> 'a list" where
  "filtered P g xs = map (\<lambda>x. if P x then g x else x) xs"

lemma set_addToSet [simp]: "set (addToSet x xs) = insert x (set xs)"
  by (auto simp: addToSet_def)

lemma set_addToSetDoc [simp]: "set (addToSetDoc same x xs) = insert x (set xs)"
  by (auto simp: addToSetDoc_def)

lemma addToSetDoc_new: "x \<notin> set xs \<Longrightarrow> addToSetDoc same x xs = xs @ [x]"
  by (simp add: addToSetDoc_def)

lemma distinct_addToSet [simp]: "distinct (addToSet x xs) = distinct xs"
  by (simp add: addToSet_def)

lemma addToSet_idem [simp]: "addToSet x (addToSet x xs) = addToSet x xs"
  by (simp add: addToSet_def)

lemma set_pull [simp]: "set (pull P xs) = {x \<in> set xs. \<not> P x}"
  by (auto simp: pull_def)

lemma distinct_pull [simp]: "distinct xs \<Longrightarrow> distinct (pull P xs)"
  by (simp add: pull_def)

lemma pull_pull [simp]: "pull P (pull P xs) = pull P xs"
  by (simp add: pull_def)

lemma pull_addToSet: "x \<notin> set xs \<Longrightarrow> pull (\<lambda>y. y = x) (addToSet x xs) = xs"
  by (induction xs) (auto simp: pull_def addToSet_def)

lemma length_positional [simp]: "length (positional P g xs) = length xs"
  by (induction xs) auto

lemma positional_none: "\<forall>x \<in> set xs. \<not> P x \<Longrightarrow> positional P g xs = xs"
  by (induction xs) auto

lemma map_positional: "(\<And>x. P x \<Longrightarrow> f (g x) = f x) \<Longrightarrow> map f (positional P g xs) = map f xs"
  by (induction xs) auto

lemma positional_split:
  "x \<in> set xs \<Longrightarrow> P x \<Longrightarrow>
   \<exists>ys z zs. xs = ys @ z # zs \<and> (\<forall>y \<in> set ys. \<not> P y) \<and> P z \<and> positional P g xs = ys @ g z # zs"
proof (induction xs)
  case Nil
  then show ?case by simp
next
  case (Cons a xs)
  show ?case
  proof (cases "P a")
    case True
    then have "a # xs = [] @ a # xs \<and> (\<forall>y \<in> set []. \<not> P y) \<and> P a \<and>
        positional P g (a # xs) = [] @ g a # xs" by simp
    then show ?thesis by blast
  next
    case False
    with Cons obtain ys z zs where "xs = ys @ z # zs" "\<forall>y \<in> set ys. \<not> P y" "P z"
      "positional P g xs = ys @ g z # zs" by auto
    with False have "a # xs = (a # ys) @ z # zs \<and> (\<forall>y \<in> set (a # ys). \<not> P y) \<and> P z \<and>
        positional P g (a # xs) = (a # ys) @ g z # zs" by simp
    then show ?thesis by blast
  qed
qed

lemma set_positional:
  "y \<in> set (positional P g xs) \<Longrightarrow> y \<in> set xs \<or> (\<exists>x \<in> set xs. P x \<and> y = g x)"
  by (induction xs) (auto split: if_splits)

text \<open>When the key singles out at most one element the positional update is a map.\<close>

lemma positional_distinct:
  "distinct (map k xs) \<Longrightarrow>
   positional (\<lambda>x. k x = a) g xs = map (\<lambda>x. if k x = a then g x else x) xs"
proof (induction xs)
  case Nil
  then show ?case by simp
next
  case (Cons x xs)
  then show ?case by (auto intro!: map_idI [symmetric] simp: image_iff)
qed

lemma positional_eq_filtered:
  "distinct (map k xs) \<Longrightarrow> positional (\<lambda>x. k x = a) g xs = filtered (\<lambda>x. k x = a) g xs"
  by (simp add: positional_distinct filtered_def)

lemma map_filtered: "(\<And>x. P x \<Longrightarrow> f (g x) = f x) \<Longrightarrow> map f (filtered P g xs) = map f xs"
  by (auto simp: filtered_def)

text \<open>A map or filter by key leaves a list without that key unchanged.\<close>

lemma map_if_key: "k \<notin> f ` set xs \<Longrightarrow> map (\<lambda>d. if f d = k then u d else d) xs = xs"
  by (induction xs) auto

lemma filter_neq_key: "k \<notin> f ` set xs \<Longrightarrow> filter (\<lambda>d. f d \<noteq> k) xs = xs"
  by (induction xs) auto

end
