(* ===== verification/Driver.thy ===== *)
theory Driver
  imports Prelude
begin

text \<open>
  The MongoDB driver as the data layer sees it. The driver and the server are not part of the
  program, so a collection is a record of functions, \<open>driver\<close>, that every definition of the
  data layer takes as an argument (through the environment of theory World). Each function
  takes a tick (a count of the driver calls so far, so that two equal calls may have different
  outcomes), the query and the documents of the collection, and gives the result and the
  documents left.

  A query document is a predicate on documents, an update document a function on documents:
  the translation of each \<^verbatim>\<open>bson.M\<close> literal is written where the code writes the literal.

  \<open>driver_spec bad idf d\<close> states what the data layer relies on, from the driver's and the
  server's documentation: which document a call returns, what it changes, when it reports
  \<^verbatim>\<open>ErrNoDocuments\<close>, that a call on one document that returns an error changes nothing, and that one on many
  may have changed any part of them when it does. \<open>bad\<close> is the set of
  errors that may occur at any time: \<open>driver_ok\<close> allows every connection or command error,
  \<open>driver_up\<close> none (used for the properties that say a call succeeds). A server that dies
  between applying a write and answering is outside the model.

  \<open>local_driver\<close> is a collection kept in memory. It satisfies the contract, so the hypotheses of
  the properties can be met; the witnesses run the program on it.
\<close>

section \<open>The operations\<close>

record ('k, 'a) driver =
  drv_insertOne :: "nat \<Rightarrow> ('k \<Rightarrow> 'a) \<Rightarrow> 'a list \<Rightarrow> (err + 'k) \<times> 'a list"
  drv_insertDoc :: "nat \<Rightarrow> 'a \<Rightarrow> 'a list \<Rightarrow> (err + 'k) \<times> 'a list"
  drv_findOne :: "nat \<Rightarrow> ('a \<Rightarrow> bool) \<Rightarrow> 'a list \<Rightarrow> err + 'a"
  drv_find :: "nat \<Rightarrow> ('a \<Rightarrow> bool) \<Rightarrow> 'a list \<Rightarrow> err + 'a list \<times> err option"
  drv_findOneAndUpdate ::
    "nat \<Rightarrow> ('a \<Rightarrow> bool) \<Rightarrow> ('a \<Rightarrow> 'a) \<Rightarrow> 'a list \<Rightarrow> (err + 'a) \<times> 'a list"
  drv_findOneAndDelete :: "nat \<Rightarrow> ('a \<Rightarrow> bool) \<Rightarrow> 'a list \<Rightarrow> (err + 'a) \<times> 'a list"
  drv_updateOne :: "nat \<Rightarrow> ('a \<Rightarrow> bool) \<Rightarrow> ('a \<Rightarrow> 'a) \<Rightarrow> 'a list \<Rightarrow> (err + unit) \<times> 'a list"
  drv_updateMany :: "nat \<Rightarrow> ('a \<Rightarrow> bool) \<Rightarrow> ('a \<Rightarrow> 'a) \<Rightarrow> 'a list \<Rightarrow> (err + nat) \<times> 'a list"
  drv_deleteOne :: "nat \<Rightarrow> ('a \<Rightarrow> bool) \<Rightarrow> 'a list \<Rightarrow> (err + nat) \<times> 'a list"
  drv_deleteMany :: "nat \<Rightarrow> ('a \<Rightarrow> bool) \<Rightarrow> 'a list \<Rightarrow> (err + nat) \<times> 'a list"

section \<open>The documented behaviour\<close>

text \<open>One matching document is replaced (or removed) where it stands.\<close>

definition replaces ::
  "('a \<Rightarrow> bool) \<Rightarrow> ('a \<Rightarrow> 'a) \<Rightarrow> 'a list \<Rightarrow> 'a \<Rightarrow> 'a list \<Rightarrow> bool" where
  "replaces f u ds y ds' \<longleftrightarrow>
     (\<exists>pre x post. ds = pre @ x # post \<and> f x \<and> y = u x \<and> ds' = pre @ y # post)"

definition removes :: "('a \<Rightarrow> bool) \<Rightarrow> 'a list \<Rightarrow> 'a \<Rightarrow> 'a list \<Rightarrow> bool" where
  "removes f ds y ds' \<longleftrightarrow> (\<exists>pre post. ds = pre @ y # post \<and> f y \<and> ds' = pre @ post)"

abbreviation none_matches :: "('a \<Rightarrow> bool) \<Rightarrow> 'a list \<Rightarrow> bool" where
  "none_matches f ds \<equiv> \<forall>x \<in> set ds. \<not> f x"

definition insertOne_spec ::
  "(err \<Rightarrow> bool) \<Rightarrow> ('a \<Rightarrow> 'k) \<Rightarrow> ('k \<Rightarrow> 'a) \<Rightarrow> 'a list \<Rightarrow> (err + 'k) \<times> 'a list \<Rightarrow> bool" where
  "insertOne_spec bad idf mk ds = (\<lambda>(r, ds'). case r of
     Inl e \<Rightarrow> bad e \<and> ds' = ds
   | Inr k \<Rightarrow> k \<notin> idf ` set ds \<and> ds' = ds @ [mk k])"

definition insertDoc_spec ::
  "(err \<Rightarrow> bool) \<Rightarrow> ('a \<Rightarrow> 'k) \<Rightarrow> 'a \<Rightarrow> 'a list \<Rightarrow> (err + 'k) \<times> 'a list \<Rightarrow> bool" where
  "insertDoc_spec bad idf d ds = (\<lambda>(r, ds'). case r of
     Inl e \<Rightarrow> (bad e \<or> e = DriverError ''duplicate key'' \<and> idf d \<in> idf ` set ds) \<and> ds' = ds
   | Inr k \<Rightarrow> k = idf d \<and> k \<notin> idf ` set ds \<and> ds' = ds @ [d])"

definition findOne_spec ::
  "(err \<Rightarrow> bool) \<Rightarrow> ('a \<Rightarrow> bool) \<Rightarrow> 'a list \<Rightarrow> err + 'a \<Rightarrow> bool" where
  "findOne_spec bad f ds r = (case r of
     Inl e \<Rightarrow> bad e \<or> e = ErrNoDocuments \<and> none_matches f ds
   | Inr x \<Rightarrow> x \<in> set ds \<and> f x)"

text \<open>
  A query gives a cursor: the documents it delivers, and the error \<^verbatim>\<open>cur.Err()\<close> reports when it
  stopped early.
\<close>

definition find_spec ::
  "(err \<Rightarrow> bool) \<Rightarrow> ('a \<Rightarrow> bool) \<Rightarrow> 'a list \<Rightarrow> err + 'a list \<times> err option \<Rightarrow> bool" where
  "find_spec bad f ds r = (case r of
     Inl e \<Rightarrow> bad e
   | Inr (xs, None) \<Rightarrow> mset xs = mset (filter f ds)
   | Inr (xs, Some e) \<Rightarrow> bad e \<and> mset xs \<subseteq># mset (filter f ds))"

definition findOneAndUpdate_spec ::
  "(err \<Rightarrow> bool) \<Rightarrow> ('a \<Rightarrow> bool) \<Rightarrow> ('a \<Rightarrow> 'a) \<Rightarrow> 'a list \<Rightarrow> (err + 'a) \<times> 'a list \<Rightarrow> bool" where
  "findOneAndUpdate_spec bad f u ds = (\<lambda>(r, ds'). case r of
     Inl e \<Rightarrow> (bad e \<or> e = ErrNoDocuments \<and> none_matches f ds) \<and> ds' = ds
   | Inr y \<Rightarrow> replaces f u ds y ds')"

definition findOneAndDelete_spec ::
  "(err \<Rightarrow> bool) \<Rightarrow> ('a \<Rightarrow> bool) \<Rightarrow> 'a list \<Rightarrow> (err + 'a) \<times> 'a list \<Rightarrow> bool" where
  "findOneAndDelete_spec bad f ds = (\<lambda>(r, ds'). case r of
     Inl e \<Rightarrow> (bad e \<or> e = ErrNoDocuments \<and> none_matches f ds) \<and> ds' = ds
   | Inr y \<Rightarrow> removes f ds y ds')"

definition updateOne_spec ::
  "(err \<Rightarrow> bool) \<Rightarrow> ('a \<Rightarrow> bool) \<Rightarrow> ('a \<Rightarrow> 'a) \<Rightarrow> 'a list \<Rightarrow> (err + unit) \<times> 'a list \<Rightarrow> bool" where
  "updateOne_spec bad f u ds = (\<lambda>(r, ds'). case r of
     Inl e \<Rightarrow> bad e \<and> ds' = ds
   | Inr _ \<Rightarrow> (\<exists>y. replaces f u ds y ds') \<or> none_matches f ds \<and> ds' = ds)"

text \<open>
  Writes to many documents are not atomic: when one fails, a part \<open>part\<close> of the documents that match may have been written.
\<close>

definition updateMany_spec ::
  "(err \<Rightarrow> bool) \<Rightarrow> ('a \<Rightarrow> bool) \<Rightarrow> ('a \<Rightarrow> 'a) \<Rightarrow> 'a list \<Rightarrow> (err + nat) \<times> 'a list \<Rightarrow> bool" where
  "updateMany_spec bad f u ds = (\<lambda>(r, ds'). case r of
     Inl e \<Rightarrow> bad e \<and> (\<exists>part. ds' = map (\<lambda>x. if f x \<and> part x then u x else x) ds)
   | Inr n \<Rightarrow> n = length (filter (\<lambda>x. f x \<and> u x \<noteq> x) ds) \<and>
              ds' = map (\<lambda>x. if f x then u x else x) ds)"

definition deleteOne_spec ::
  "(err \<Rightarrow> bool) \<Rightarrow> ('a \<Rightarrow> bool) \<Rightarrow> 'a list \<Rightarrow> (err + nat) \<times> 'a list \<Rightarrow> bool" where
  "deleteOne_spec bad f ds = (\<lambda>(r, ds'). case r of
     Inl e \<Rightarrow> bad e \<and> ds' = ds
   | Inr n \<Rightarrow> n = 1 \<and> (\<exists>y. removes f ds y ds') \<or> n = 0 \<and> none_matches f ds \<and> ds' = ds)"

definition deleteMany_spec ::
  "(err \<Rightarrow> bool) \<Rightarrow> ('a \<Rightarrow> bool) \<Rightarrow> 'a list \<Rightarrow> (err + nat) \<times> 'a list \<Rightarrow> bool" where
  "deleteMany_spec bad f ds = (\<lambda>(r, ds'). case r of
     Inl e \<Rightarrow> bad e \<and> (\<exists>part. ds' = filter (\<lambda>x. \<not> (f x \<and> part x)) ds)
   | Inr n \<Rightarrow> n = length (filter f ds) \<and> ds' = filter (\<lambda>x. \<not> f x) ds)"

definition driver_spec :: "(err \<Rightarrow> bool) \<Rightarrow> ('a \<Rightarrow> 'k) \<Rightarrow> ('k, 'a) driver \<Rightarrow> bool" where
  "driver_spec bad idf d \<longleftrightarrow>
     (\<forall>t mk ds. insertOne_spec bad idf mk ds (drv_insertOne d t mk ds)) \<and>
     (\<forall>t x ds. insertDoc_spec bad idf x ds (drv_insertDoc d t x ds)) \<and>
     (\<forall>t f ds. findOne_spec bad f ds (drv_findOne d t f ds)) \<and>
     (\<forall>t f ds. find_spec bad f ds (drv_find d t f ds)) \<and>
     (\<forall>t f u ds. findOneAndUpdate_spec bad f u ds (drv_findOneAndUpdate d t f u ds)) \<and>
     (\<forall>t f ds. findOneAndDelete_spec bad f ds (drv_findOneAndDelete d t f ds)) \<and>
     (\<forall>t f u ds. updateOne_spec bad f u ds (drv_updateOne d t f u ds)) \<and>
     (\<forall>t f u ds. updateMany_spec bad f u ds (drv_updateMany d t f u ds)) \<and>
     (\<forall>t f ds. deleteOne_spec bad f ds (drv_deleteOne d t f ds)) \<and>
     (\<forall>t f ds. deleteMany_spec bad f ds (drv_deleteMany d t f ds))"

text \<open>The errors of a lost connection or a failed command; \<^verbatim>\<open>ErrNoDocuments\<close> is not one of them.\<close>

fun outage :: "err \<Rightarrow> bool" where
  "outage (CommandError _) = True"
| "outage (DriverError _) = True"
| "outage _ = False"

definition never :: "err \<Rightarrow> bool" where
  "never e = False"

lemma outage_not_aborts [simp]: "outage e \<Longrightarrow> \<not> aborts e"
  by (cases e) auto

lemma never_simp [simp]: "\<not> never e"
  by (simp add: never_def)

lemma op_specs_mono:
  assumes "\<forall>e. bad e \<longrightarrow> bad' e"
  shows "insertOne_spec bad idf mk ds r1 \<Longrightarrow> insertOne_spec bad' idf mk ds r1"
    and "insertDoc_spec bad idf x ds r1 \<Longrightarrow> insertDoc_spec bad' idf x ds r1"
    and "findOne_spec bad f ds r2 \<Longrightarrow> findOne_spec bad' f ds r2"
    and "find_spec bad f ds r3 \<Longrightarrow> find_spec bad' f ds r3"
    and "findOneAndUpdate_spec bad f u ds r4 \<Longrightarrow> findOneAndUpdate_spec bad' f u ds r4"
    and "findOneAndDelete_spec bad f ds r4 \<Longrightarrow> findOneAndDelete_spec bad' f ds r4"
    and "updateOne_spec bad f u ds r5 \<Longrightarrow> updateOne_spec bad' f u ds r5"
    and "updateMany_spec bad f u ds r6 \<Longrightarrow> updateMany_spec bad' f u ds r6"
    and "deleteOne_spec bad f ds r6 \<Longrightarrow> deleteOne_spec bad' f ds r6"
    and "deleteMany_spec bad f ds r6 \<Longrightarrow> deleteMany_spec bad' f ds r6"
  using assms
  by (auto simp: insertOne_spec_def insertDoc_spec_def findOne_spec_def find_spec_def
      findOneAndUpdate_spec_def findOneAndDelete_spec_def updateOne_spec_def updateMany_spec_def
      deleteOne_spec_def deleteMany_spec_def split: prod.splits sum.splits option.splits)

lemma driver_specD:
  assumes "driver_spec bad idf d"
  shows "insertOne_spec bad idf mk ds (drv_insertOne d t mk ds)"
    and "insertDoc_spec bad idf x ds (drv_insertDoc d t x ds)"
    and "findOne_spec bad f ds (drv_findOne d t f ds)"
    and "find_spec bad f ds (drv_find d t f ds)"
    and "findOneAndUpdate_spec bad f u ds (drv_findOneAndUpdate d t f u ds)"
    and "findOneAndDelete_spec bad f ds (drv_findOneAndDelete d t f ds)"
    and "updateOne_spec bad f u ds (drv_updateOne d t f u ds)"
    and "updateMany_spec bad f u ds (drv_updateMany d t f u ds)"
    and "deleteOne_spec bad f ds (drv_deleteOne d t f ds)"
    and "deleteMany_spec bad f ds (drv_deleteMany d t f ds)"
  using assms by (simp_all add: driver_spec_def)

lemma driver_spec_mono:
  assumes "driver_spec bad idf d" and "\<forall>e. bad e \<longrightarrow> bad' e"
  shows "driver_spec bad' idf d"
  unfolding driver_spec_def
  by (intro conjI allI op_specs_mono [OF assms(2)] driver_specD [OF assms(1)])

section \<open>Facts about one replaced or removed document\<close>

lemma replaces_set:
  "replaces f u ds y ds' \<Longrightarrow> \<exists>x \<in> set ds. f x \<and> y = u x \<and> set ds' \<subseteq> insert y (set ds) \<and> y \<in> set ds'"
  by (auto simp: replaces_def)

lemma replaces_map:
  "replaces f u ds y ds' \<Longrightarrow> (\<And>x. g (u x) = g x) \<Longrightarrow> map g ds' = map g ds"
  by (auto simp: replaces_def)

lemma replaces_ex: "replaces f u ds y ds' \<Longrightarrow> \<exists>x \<in> set ds. f x \<and> y = u x"
  by (auto simp: replaces_def)

lemma removes_set: "removes f ds y ds' \<Longrightarrow> y \<in> set ds \<and> f y \<and> set ds \<subseteq> insert y (set ds')"
  by (auto simp: removes_def)

text \<open>
  A collection as a map from keys to documents, and the two changes by key the data layer makes.
\<close>

definition lookup :: "('a \<Rightarrow> 'k) \<Rightarrow> 'a list \<Rightarrow> 'k \<rightharpoonup> 'a" where
  "lookup idf ds = map_of (map (\<lambda>d. (idf d, d)) ds)"

definition update_at :: "('a \<Rightarrow> 'k) \<Rightarrow> 'k \<Rightarrow> ('a \<Rightarrow> 'a) \<Rightarrow> 'a list \<Rightarrow> 'a list" where
  "update_at idf k u ds = map (\<lambda>d. if idf d = k then u d else d) ds"

definition remove_at :: "('a \<Rightarrow> 'k) \<Rightarrow> 'k \<Rightarrow> 'a list \<Rightarrow> 'a list" where
  "remove_at idf k ds = filter (\<lambda>d. idf d \<noteq> k) ds"

lemma lookup_Some_in: "lookup idf ds k = Some d \<Longrightarrow> d \<in> set ds \<and> idf d = k"
  by (auto simp: lookup_def dest!: map_of_SomeD)

lemma lookup_in:
  assumes "distinct (map idf ds)" and "d \<in> set ds"
  shows "lookup idf ds (idf d) = Some d"
proof -
  have "distinct (map fst (map (\<lambda>d. (idf d, d)) ds))"
    using assms(1) by (simp add: comp_def)
  then show ?thesis
    unfolding lookup_def using assms(2) by (intro map_of_is_SomeI) auto
qed

lemma lookup_None_iff: "lookup idf ds k = None \<longleftrightarrow> k \<notin> idf ` set ds"
  by (auto simp: lookup_def map_of_eq_None_iff image_image)

lemma lookup_update_at:
  assumes "\<And>d. idf (u d) = idf d"
  shows "lookup idf (update_at idf k u ds) = (lookup idf ds)(k := map_option u (lookup idf ds k))"
  unfolding lookup_def update_at_def
  by (induction ds) (auto simp: fun_eq_iff assms)

lemma lookup_remove_at: "lookup idf (remove_at idf k ds) = (lookup idf ds)(k := None)"
  unfolding lookup_def remove_at_def by (induction ds) (auto simp: fun_eq_iff)

lemma lookup_append_new:
  "idf d \<notin> idf ` set ds \<Longrightarrow> lookup idf (ds @ [d]) = (lookup idf ds)(idf d \<mapsto> d)"
  unfolding lookup_def by (induction ds) (auto simp: fun_eq_iff)

lemma map_update_at: "(\<And>d. g (u d) = g d) \<Longrightarrow> map g (update_at idf k u ds) = map g ds"
  by (simp add: update_at_def)

lemma distinct_remove_at: "distinct (map g ds) \<Longrightarrow> distinct (map g (remove_at idf k ds))"
  by (simp add: remove_at_def distinct_map inj_on_def)

text \<open>
  A query that asks for a key (\<^verbatim>\<open>"_id": id\<close>, possibly with more conditions) selects at most one
  document, so the update is a map over the collection and the deletion a filter.
\<close>

lemma replaces_key:
  assumes "replaces f u ds y ds'" and "distinct (map idf ds)" and "\<And>x. f x \<Longrightarrow> idf x = k"
  shows "\<exists>x \<in> set ds. f x \<and> idf x = k \<and> y = u x \<and> ds' = update_at idf k u ds"
proof -
  obtain pre x post where x: "ds = pre @ x # post" "f x" "y = u x" "ds' = pre @ y # post"
    using assms(1) by (auto simp: replaces_def)
  then have k: "idf x = k" and "k \<notin> idf ` set pre" "k \<notin> idf ` set post"
    using assms(2,3) by auto
  then have "map (\<lambda>d. if idf d = k then u d else d) pre = pre"
    and "map (\<lambda>d. if idf d = k then u d else d) post = post"
    by (simp_all add: map_if_key)
  with x k show ?thesis by (auto simp: update_at_def)
qed

lemma removes_key:
  assumes "removes f ds y ds'" and "distinct (map idf ds)" and "\<And>x. f x \<Longrightarrow> idf x = k"
  shows "y \<in> set ds \<and> f y \<and> idf y = k \<and> ds' = remove_at idf k ds"
proof -
  obtain pre post where x: "ds = pre @ y # post" "f y" "ds' = pre @ post"
    using assms(1) by (auto simp: removes_def)
  moreover have k: "idf y = k" "k \<notin> idf ` set pre" "k \<notin> idf ` set post"
    using x assms(2,3) by auto
  moreover from k have "filter (\<lambda>d. idf d \<noteq> k) pre = pre" "filter (\<lambda>d. idf d \<noteq> k) post = post"
    by (simp_all add: filter_neq_key)
  ultimately show ?thesis by (auto simp: remove_at_def)
qed

lemma distinct_removes: "removes f ds y ds' \<Longrightarrow> distinct (map g ds) \<Longrightarrow> distinct (map g ds')"
  by (auto simp: removes_def)

section \<open>Collections of the shared state\<close>

text \<open>
  A handle is a \<^verbatim>\<open>*mongo.Collection\<close> of the program: a driver and the place of the collection's
  documents in the shared state. \<open>ticks\<close> and \<open>tick\<close> read and advance the call counter.
\<close>

record ('s, 'k, 'a) handle =
  drv :: "('k, 'a) driver"
  docs_of :: "'s \<Rightarrow> 'a list"
  put_docs :: "'a list \<Rightarrow> 's \<Rightarrow> 's"
  ticks :: "'s \<Rightarrow> nat"
  tick :: "'s \<Rightarrow> 's"

definition store :: "('s, 'k, 'a) handle \<Rightarrow> 'r \<times> 'a list \<Rightarrow> 's \<Rightarrow> 'r \<times> 's" where
  "store h = (\<lambda>(r, ds) s. (r, put_docs h ds (tick h s)))"

definition InsertOne :: "('s, 'k, 'a) handle \<Rightarrow> ('k \<Rightarrow> 'a) \<Rightarrow> ('s, 'k) smonad" where
  "InsertOne h mk s = store h (drv_insertOne (drv h) (ticks h s) mk (docs_of h s)) s"

definition InsertDoc :: "('s, 'k, 'a) handle \<Rightarrow> 'a \<Rightarrow> ('s, 'k) smonad" where
  "InsertDoc h d s = store h (drv_insertDoc (drv h) (ticks h s) d (docs_of h s)) s"

definition FindOne :: "('s, 'k, 'a) handle \<Rightarrow> ('a \<Rightarrow> bool) \<Rightarrow> ('s, 'a) smonad" where
  "FindOne h f s = (drv_findOne (drv h) (ticks h s) f (docs_of h s), tick h s)"

text \<open>
  \<open>Find\<close> is \<^verbatim>\<open>Collection.Find\<close> with the loop that reads the whole cursor and the check of
  \<^verbatim>\<open>cur.Err()\<close>: its callers return the same error for a failed query, a failed decode and a
  cursor that stopped early. \<open>FindUnchecked\<close> is the loop without the check.
\<close>

definition Find :: "('s, 'k, 'a) handle \<Rightarrow> ('a \<Rightarrow> bool) \<Rightarrow> ('s, 'a list) smonad" where
  "Find h f s = (case drv_find (drv h) (ticks h s) f (docs_of h s) of
     Inl e \<Rightarrow> (Inl e, tick h s)
   | Inr (xs, None) \<Rightarrow> (Inr xs, tick h s)
   | Inr (xs, Some e) \<Rightarrow> (Inl e, tick h s))"

definition FindUnchecked :: "('s, 'k, 'a) handle \<Rightarrow> ('a \<Rightarrow> bool) \<Rightarrow> ('s, 'a list) smonad" where
  "FindUnchecked h f s = (case drv_find (drv h) (ticks h s) f (docs_of h s) of
     Inl e \<Rightarrow> (Inl e, tick h s)
   | Inr (xs, _) \<Rightarrow> (Inr xs, tick h s))"

text \<open>The cursor itself: the documents it delivers, and the error that stopped it.\<close>

definition FindCursor ::
  "('s, 'k, 'a) handle \<Rightarrow> ('a \<Rightarrow> bool) \<Rightarrow> ('s, 'a list \<times> err option) smonad" where
  "FindCursor h f s = (drv_find (drv h) (ticks h s) f (docs_of h s), tick h s)"

definition FindOneAndUpdate ::
  "('s, 'k, 'a) handle \<Rightarrow> ('a \<Rightarrow> bool) \<Rightarrow> ('a \<Rightarrow> 'a) \<Rightarrow> ('s, 'a) smonad" where
  "FindOneAndUpdate h f u s =
     store h (drv_findOneAndUpdate (drv h) (ticks h s) f u (docs_of h s)) s"

definition FindOneAndDelete :: "('s, 'k, 'a) handle \<Rightarrow> ('a \<Rightarrow> bool) \<Rightarrow> ('s, 'a) smonad" where
  "FindOneAndDelete h f s = store h (drv_findOneAndDelete (drv h) (ticks h s) f (docs_of h s)) s"

definition UpdateOne ::
  "('s, 'k, 'a) handle \<Rightarrow> ('a \<Rightarrow> bool) \<Rightarrow> ('a \<Rightarrow> 'a) \<Rightarrow> ('s, unit) smonad" where
  "UpdateOne h f u s = store h (drv_updateOne (drv h) (ticks h s) f u (docs_of h s)) s"

definition UpdateMany ::
  "('s, 'k, 'a) handle \<Rightarrow> ('a \<Rightarrow> bool) \<Rightarrow> ('a \<Rightarrow> 'a) \<Rightarrow> ('s, nat) smonad" where
  "UpdateMany h f u s = store h (drv_updateMany (drv h) (ticks h s) f u (docs_of h s)) s"

definition DeleteOne :: "('s, 'k, 'a) handle \<Rightarrow> ('a \<Rightarrow> bool) \<Rightarrow> ('s, nat) smonad" where
  "DeleteOne h f s = store h (drv_deleteOne (drv h) (ticks h s) f (docs_of h s)) s"

definition DeleteMany :: "('s, 'k, 'a) handle \<Rightarrow> ('a \<Rightarrow> bool) \<Rightarrow> ('s, nat) smonad" where
  "DeleteMany h f s = store h (drv_deleteMany (drv h) (ticks h s) f (docs_of h s)) s"

section \<open>Backward rules of the operations\<close>

lemma wp_InsertOne [wp_rules]:
  assumes "driver_spec bad idf (drv h)"
    and "\<And>k. k \<notin> idf ` set (docs_of h s) \<Longrightarrow> Q k (put_docs h (docs_of h s @ [mk k]) (tick h s))"
    and "\<And>e. bad e \<Longrightarrow> R e (put_docs h (docs_of h s) (tick h s))"
  shows "wp (InsertOne h mk) Q R s"
  using driver_specD(1) [OF assms(1), of mk "docs_of h s" "ticks h s"] assms(2,3)
  by (auto simp: wp_def InsertOne_def store_def insertOne_spec_def split: prod.splits sum.splits)

lemma wp_InsertDoc [wp_rules]:
  assumes "driver_spec bad idf (drv h)"
    and "idf d \<notin> idf ` set (docs_of h s) \<Longrightarrow>
      Q (idf d) (put_docs h (docs_of h s @ [d]) (tick h s))"
    and "\<And>e. bad e \<or> e = DriverError ''duplicate key'' \<and> idf d \<in> idf ` set (docs_of h s) \<Longrightarrow>
      R e (put_docs h (docs_of h s) (tick h s))"
  shows "wp (InsertDoc h d) Q R s"
  using driver_specD(2) [OF assms(1), of d "docs_of h s" "ticks h s"] assms(2,3)
  by (auto simp: wp_def InsertDoc_def store_def insertDoc_spec_def split: prod.splits sum.splits)

lemma wp_FindOne [wp_rules]:
  assumes "driver_spec bad idf (drv h)"
    and "\<And>x. x \<in> set (docs_of h s) \<Longrightarrow> f x \<Longrightarrow> Q x (tick h s)"
    and "\<And>e. bad e \<or> e = ErrNoDocuments \<and> none_matches f (docs_of h s) \<Longrightarrow> R e (tick h s)"
  shows "wp (FindOne h f) Q R s"
  using driver_specD(3) [OF assms(1), of f "docs_of h s" "ticks h s"] assms(2,3)
  by (auto simp: wp_def FindOne_def findOne_spec_def split: prod.splits sum.splits)

lemma wp_Find [wp_rules]:
  assumes "driver_spec bad idf (drv h)"
    and "\<And>xs. mset xs = mset (filter f (docs_of h s)) \<Longrightarrow> Q xs (tick h s)"
    and "\<And>e. bad e \<Longrightarrow> R e (tick h s)"
  shows "wp (Find h f) Q R s"
  using driver_specD(4) [OF assms(1), of f "docs_of h s" "ticks h s"] assms(2,3)
  by (auto simp: wp_def Find_def find_spec_def split: prod.splits sum.splits option.splits)

lemma wp_FindUnchecked [wp_rules]:
  assumes "driver_spec bad idf (drv h)"
    and "\<And>xs. mset xs = mset (filter f (docs_of h s)) \<or>
      (\<exists>e. bad e) \<and> mset xs \<subseteq># mset (filter f (docs_of h s)) \<Longrightarrow> Q xs (tick h s)"
    and "\<And>e. bad e \<Longrightarrow> R e (tick h s)"
  shows "wp (FindUnchecked h f) Q R s"
proof (cases "drv_find (drv h) (ticks h s) f (docs_of h s)")
  case (Inl e)
  then show ?thesis
    using driver_specD(4) [OF assms(1), of f "docs_of h s" "ticks h s"] assms(3)
    by (simp add: wp_def FindUnchecked_def find_spec_def)
next
  case (Inr r)
  obtain xs c where "r = (xs, c)" by (cases r)
  with Inr show ?thesis
    using driver_specD(4) [OF assms(1), of f "docs_of h s" "ticks h s"] assms(2) [of xs]
    by (cases c) (auto simp: wp_def FindUnchecked_def find_spec_def)
qed

text \<open>The same, for callers that do not look at the order or the number of the results.\<close>

lemma wp_Find_set:
  assumes "driver_spec bad idf (drv h)"
    and "\<And>xs. set xs = {x \<in> set (docs_of h s). f x} \<Longrightarrow> Q xs (tick h s)"
    and "\<And>e. bad e \<Longrightarrow> R e (tick h s)"
  shows "wp (Find h f) Q R s"
proof (rule wp_Find [OF assms(1)])
  fix xs
  assume "mset xs = mset (filter f (docs_of h s))"
  from mset_eq_setD [OF this] have "set xs = {x \<in> set (docs_of h s). f x}" by simp
  then show "Q xs (tick h s)" by (rule assms(2))
qed (rule assms(3))

lemma wp_FindUnchecked_set:
  assumes "driver_spec bad idf (drv h)"
    and "\<And>xs. set xs \<subseteq> {x \<in> set (docs_of h s). f x} \<Longrightarrow>
      (\<And>x. (\<forall>e. \<not> bad e) \<Longrightarrow> x \<in> set (docs_of h s) \<Longrightarrow> f x \<Longrightarrow> x \<in> set xs) \<Longrightarrow> Q xs (tick h s)"
    and "\<And>e. bad e \<Longrightarrow> R e (tick h s)"
  shows "wp (FindUnchecked h f) Q R s"
proof (rule wp_FindUnchecked [OF assms(1)])
  fix xs
  assume *: "mset xs = mset (filter f (docs_of h s)) \<or>
      (\<exists>e. bad e) \<and> mset xs \<subseteq># mset (filter f (docs_of h s))"
  have "set xs \<subseteq> {x \<in> set (docs_of h s). f x}"
    using * mset_eq_setD [of xs "filter f (docs_of h s)"]
      set_mset_mono [of "mset xs" "mset (filter f (docs_of h s))"] by auto
  moreover have "x \<in> set xs" if "\<forall>e. \<not> bad e" "x \<in> set (docs_of h s)" "f x" for x
    using * that mset_eq_setD [of xs "filter f (docs_of h s)"] by auto
  ultimately show "Q xs (tick h s)" by (rule assms(2))
qed (rule assms(3))

lemma wp_FindCursor_set:
  assumes "driver_spec bad idf (drv h)"
    and "\<And>xs. set xs = {x \<in> set (docs_of h s). f x} \<Longrightarrow> Q (xs, None) (tick h s)"
    and "\<And>xs e. set xs \<subseteq> {x \<in> set (docs_of h s). f x} \<Longrightarrow> bad e \<Longrightarrow> Q (xs, Some e) (tick h s)"
    and "\<And>e. bad e \<Longrightarrow> R e (tick h s)"
  shows "wp (FindCursor h f) Q R s"
proof -
  note spec = driver_specD(4) [OF assms(1), of f "docs_of h s" "ticks h s"]
  consider (fail) e where "drv_find (drv h) (ticks h s) f (docs_of h s) = Inl e" "bad e"
    | (all) xs where "drv_find (drv h) (ticks h s) f (docs_of h s) = Inr (xs, None)"
        "mset xs = mset (filter f (docs_of h s))"
    | (some) xs e where "drv_find (drv h) (ticks h s) f (docs_of h s) = Inr (xs, Some e)"
        "mset xs \<subseteq># mset (filter f (docs_of h s))" "bad e"
    using spec by (auto simp: find_spec_def split: sum.splits prod.splits option.splits)
  then show ?thesis
  proof cases
    case fail
    then show ?thesis by (simp add: wp_def FindCursor_def assms(4))
  next
    case all
    from mset_eq_setD [OF all(2)] show ?thesis using all(1) by (simp add: wp_def FindCursor_def assms(2))
  next
    case some
    from set_mset_mono [OF some(2)] show ?thesis
      using some(1,3) by (auto simp: wp_def FindCursor_def intro!: assms(3))
  qed
qed

lemma wp_FindOneAndUpdate [wp_rules]:
  assumes "driver_spec bad idf (drv h)"
    and "\<And>y ds. replaces f u (docs_of h s) y ds \<Longrightarrow> Q y (put_docs h ds (tick h s))"
    and "\<And>e. bad e \<or> e = ErrNoDocuments \<and> none_matches f (docs_of h s) \<Longrightarrow>
      R e (put_docs h (docs_of h s) (tick h s))"
  shows "wp (FindOneAndUpdate h f u) Q R s"
  using driver_specD(5) [OF assms(1), of f u "docs_of h s" "ticks h s"] assms(2,3)
  by (auto simp: wp_def FindOneAndUpdate_def store_def findOneAndUpdate_spec_def
      split: prod.splits sum.splits)

lemma wp_FindOneAndDelete [wp_rules]:
  assumes "driver_spec bad idf (drv h)"
    and "\<And>y ds. removes f (docs_of h s) y ds \<Longrightarrow> Q y (put_docs h ds (tick h s))"
    and "\<And>e. bad e \<or> e = ErrNoDocuments \<and> none_matches f (docs_of h s) \<Longrightarrow>
      R e (put_docs h (docs_of h s) (tick h s))"
  shows "wp (FindOneAndDelete h f) Q R s"
  using driver_specD(6) [OF assms(1), of f "docs_of h s" "ticks h s"] assms(2,3)
  by (auto simp: wp_def FindOneAndDelete_def store_def findOneAndDelete_spec_def
      split: prod.splits sum.splits)

lemma wp_UpdateOne [wp_rules]:
  assumes "driver_spec bad idf (drv h)"
    and "\<And>y ds. replaces f u (docs_of h s) y ds \<Longrightarrow> Q () (put_docs h ds (tick h s))"
    and "none_matches f (docs_of h s) \<Longrightarrow> Q () (put_docs h (docs_of h s) (tick h s))"
    and "\<And>e. bad e \<Longrightarrow> R e (put_docs h (docs_of h s) (tick h s))"
  shows "wp (UpdateOne h f u) Q R s"
  using driver_specD(7) [OF assms(1), of f u "docs_of h s" "ticks h s"] assms(2-4)
  by (auto simp: wp_def UpdateOne_def store_def updateOne_spec_def split: prod.splits sum.splits)

lemma wp_UpdateMany [wp_rules]:
  assumes "driver_spec bad idf (drv h)"
    and "Q (length (filter (\<lambda>x. f x \<and> u x \<noteq> x) (docs_of h s)))
      (put_docs h (map (\<lambda>x. if f x then u x else x) (docs_of h s)) (tick h s))"
    and "\<And>e part. bad e \<Longrightarrow>
      R e (put_docs h (map (\<lambda>x. if f x \<and> part x then u x else x) (docs_of h s)) (tick h s))"
  shows "wp (UpdateMany h f u) Q R s"
  using driver_specD(8) [OF assms(1), of f u "docs_of h s" "ticks h s"] assms(2,3)
  by (auto simp: wp_def UpdateMany_def store_def updateMany_spec_def split: prod.splits sum.splits)

lemma wp_DeleteOne [wp_rules]:
  assumes "driver_spec bad idf (drv h)"
    and "\<And>y ds. removes f (docs_of h s) y ds \<Longrightarrow> Q 1 (put_docs h ds (tick h s))"
    and "none_matches f (docs_of h s) \<Longrightarrow> Q 0 (put_docs h (docs_of h s) (tick h s))"
    and "\<And>e. bad e \<Longrightarrow> R e (put_docs h (docs_of h s) (tick h s))"
  shows "wp (DeleteOne h f) Q R s"
  using driver_specD(9) [OF assms(1), of f "docs_of h s" "ticks h s"] assms(2-4)
  by (auto simp: wp_def DeleteOne_def store_def deleteOne_spec_def split: prod.splits sum.splits)

lemma wp_DeleteMany [wp_rules]:
  assumes "driver_spec bad idf (drv h)"
    and "Q (length (filter f (docs_of h s)))
      (put_docs h (filter (\<lambda>x. \<not> f x) (docs_of h s)) (tick h s))"
    and "\<And>e part. bad e \<Longrightarrow> R e (put_docs h (filter (\<lambda>x. \<not> (f x \<and> part x)) (docs_of h s)) (tick h s))"
  shows "wp (DeleteMany h f) Q R s"
  using driver_specD(10) [OF assms(1), of f "docs_of h s" "ticks h s"] assms(2,3)
  by (auto simp: wp_def DeleteMany_def store_def deleteMany_spec_def split: prod.splits sum.splits)

section \<open>Operations that keep an invariant\<close>

lemma keeps_FindOne [keeps_rules]:
  "(\<And>s. I (tick h s) = I s) \<Longrightarrow> keeps I (FindOne h f)"
  by (auto simp: keeps_def wp_def FindOne_def split: sum.splits)

lemma keeps_Find [keeps_rules]:
  "(\<And>s. I (tick h s) = I s) \<Longrightarrow> keeps I (Find h f)"
  "(\<And>s. I (tick h s) = I s) \<Longrightarrow> keeps I (FindUnchecked h f)"
  by (auto simp: keeps_def wp_def Find_def FindUnchecked_def split: sum.splits option.splits prod.splits)

lemma keeps_store:
  assumes "\<And>s ds. I (put_docs h ds (tick h s)) = I s"
  shows "keeps I (InsertOne h mk)" and "keeps I (InsertDoc h d)"
    and "keeps I (FindOneAndUpdate h f u)" and "keeps I (FindOneAndDelete h f)"
    and "keeps I (UpdateOne h f u)" and "keeps I (UpdateMany h f u)"
    and "keeps I (DeleteOne h f)" and "keeps I (DeleteMany h f)"
  by (auto simp: keeps_def wp_def store_def InsertOne_def InsertDoc_def FindOneAndUpdate_def
      FindOneAndDelete_def UpdateOne_def UpdateMany_def DeleteOne_def DeleteMany_def assms
      split: sum.splits prod.splits)

section \<open>The contract of a collection\<close>

text \<open>
  The data layer relies on a collection being a component of the shared state of its own: writing
  it and reading it back agree, and a call counts. The facts below are proved once for every
  collection and used by the functions that create a document and read it back, and by those
  that update or delete one document by its key.
\<close>

locale collection =
  fixes h :: "('s, 'k, 'a) handle"
  assumes docs_put [simp]: "docs_of h (put_docs h ds s) = ds"
    and put_put [simp]: "put_docs h ds (put_docs h ds' s) = put_docs h ds s"
    and put_docs_of [simp]: "put_docs h (docs_of h s) s = s"
    and docs_tick [simp]: "docs_of h (tick h s) = docs_of h s"
    and tick_put [simp]: "tick h (put_docs h ds s) = put_docs h ds (tick h s)"
begin

lemma put_same_tick [simp]: "put_docs h (docs_of h s) (tick h s) = tick h s"
  using put_docs_of [of "tick h s"] by simp

text \<open>
  Create and read back. When the second call fails the document has been inserted and the
  caller still sees an error.
\<close>

lemma wp_create:
  assumes "driver_spec bad idf (drv h)" and "\<And>k. idf (mk k) = k"
    and "\<And>k. k \<notin> idf ` set (docs_of h s) \<Longrightarrow>
      Q (mk k) (put_docs h (docs_of h s @ [mk k]) (tick h (tick h s)))"
    and "\<And>e. bad e \<Longrightarrow> R e (tick h s)"
    and "\<And>e k. bad e \<Longrightarrow> k \<notin> idf ` set (docs_of h s) \<Longrightarrow>
      R e (put_docs h (docs_of h s @ [mk k]) (tick h (tick h s)))"
  shows "wp (bindE (InsertOne h mk) (\<lambda>k. FindOne h (\<lambda>d. idf d = k))) Q R s"
  unfolding wp_bindE
proof (rule wp_InsertOne [OF assms(1)])
  fix k
  assume k: "k \<notin> idf ` set (docs_of h s)"
  have only: "x = mk k" if "x \<in> set (docs_of h s @ [mk k])" "idf x = k" for x
    using that k by auto
  show "wp (FindOne h (\<lambda>d. idf d = k)) Q R (put_docs h (docs_of h s @ [mk k]) (tick h s))"
  proof (rule wp_FindOne [OF assms(1)])
    fix x
    assume "x \<in> set (docs_of h (put_docs h (docs_of h s @ [mk k]) (tick h s)))" and "idf x = k"
    then have "x = mk k" using only by simp
    then show "Q x (tick h (put_docs h (docs_of h s @ [mk k]) (tick h s)))"
      using assms(3) [OF k] by simp
  qed (use assms(2,5) k in auto)
qed (simp add: assms(4))

lemma wp_update_key:
  assumes "driver_spec bad idf (drv h)" and "distinct (map idf (docs_of h s))"
    and "\<And>x. f x \<Longrightarrow> idf x = k"
    and "\<And>x. x \<in> set (docs_of h s) \<Longrightarrow> f x \<Longrightarrow>
      Q (u x) (put_docs h (update_at idf k u (docs_of h s)) (tick h s))"
    and "\<And>e. bad e \<or> e = ErrNoDocuments \<and> none_matches f (docs_of h s) \<Longrightarrow> R e (tick h s)"
  shows "wp (FindOneAndUpdate h f u) Q R s"
proof (rule wp_FindOneAndUpdate [OF assms(1)])
  fix y ds
  assume "replaces f u (docs_of h s) y ds"
  from replaces_key [OF this assms(2,3)] assms(4) show "Q y (put_docs h ds (tick h s))"
    by auto
qed (simp add: assms(5))

lemma wp_delete_key:
  assumes "driver_spec bad idf (drv h)" and "distinct (map idf (docs_of h s))"
    and "\<And>x. f x \<Longrightarrow> idf x = k"
    and "\<And>x. x \<in> set (docs_of h s) \<Longrightarrow> f x \<Longrightarrow>
      Q x (put_docs h (remove_at idf k (docs_of h s)) (tick h s))"
    and "\<And>e. bad e \<or> e = ErrNoDocuments \<and> none_matches f (docs_of h s) \<Longrightarrow> R e (tick h s)"
  shows "wp (FindOneAndDelete h f) Q R s"
proof (rule wp_FindOneAndDelete [OF assms(1)])
  fix y ds
  assume "removes f (docs_of h s) y ds"
  from removes_key [OF this assms(2,3)] assms(4) show "Q y (put_docs h ds (tick h s))"
    by auto
qed (simp add: assms(5))

end

section \<open>Operations by key\<close>

text \<open>
  The abstract operations on a collection as a map from keys to documents. \<open>obs\<close> is what a
  property observes of the shared state (all of it but the call counter), \<open>g\<close> what the operation
  does beside the collection (resetting a cache of a public page), \<open>P\<close> a further condition of the
  query on the document. \<open>bad\<close> are the errors the driver may report at any time.

  \<^item> \<open>keyed_read\<close>: the document with the key, or \<^verbatim>\<open>ErrNoDocuments\<close>; nothing changes.
  \<^item> \<open>keyed_update\<close>: the document with the key is updated with \<open>u\<close> and returned, every other
    document and every other collection is left alone; on an error nothing changes.
  \<^item> \<open>keyed_delete\<close>: the document with the key is removed and returned.
  \<^item> \<open>created\<close>: a document with a fresh key is added and returned; on an error it may be there all
    the same, since the code inserts and then reads back.
\<close>

definition keyed_read ::
  "(err \<Rightarrow> bool) \<Rightarrow> ('s \<Rightarrow> 's) \<Rightarrow> ('s, 'k, 'a) handle \<Rightarrow> ('a \<Rightarrow> 'k) \<Rightarrow> 'k \<Rightarrow> ('s, 'a) smonad \<Rightarrow> bool"
  where
  "keyed_read bad obs h idf k m \<longleftrightarrow> (\<forall>s. distinct (map idf (docs_of h s)) \<longrightarrow>
     wp m (\<lambda>y s'. lookup idf (docs_of h s) k = Some y \<and> obs s' = obs s)
       (\<lambda>e s'. obs s' = obs s \<and> (bad e \<or> e = ErrNoDocuments \<and> lookup idf (docs_of h s) k = None)) s)"

definition keyed_update ::
  "(err \<Rightarrow> bool) \<Rightarrow> ('s \<Rightarrow> 's) \<Rightarrow> ('s, 'k, 'a) handle \<Rightarrow> ('a \<Rightarrow> 'k) \<Rightarrow> 'k \<Rightarrow> ('a \<Rightarrow> bool) \<Rightarrow>
   ('a \<Rightarrow> 'a) \<Rightarrow> ('s \<Rightarrow> 's) \<Rightarrow> ('s, 'a) smonad \<Rightarrow> bool"
  where
  "keyed_update bad obs h idf k P u g m \<longleftrightarrow> (\<forall>s. distinct (map idf (docs_of h s)) \<longrightarrow>
     wp m (\<lambda>y s'. \<exists>x. lookup idf (docs_of h s) k = Some x \<and> P x \<and> y = u x \<and>
              obs s' = g (put_docs h (update_at idf k u (docs_of h s)) (obs s)))
       (\<lambda>e s'. obs s' = obs s \<and> (bad e \<or> e = ErrNoDocuments \<and>
              (\<forall>x. lookup idf (docs_of h s) k = Some x \<longrightarrow> \<not> P x))) s)"

definition keyed_delete ::
  "(err \<Rightarrow> bool) \<Rightarrow> ('s \<Rightarrow> 's) \<Rightarrow> ('s, 'k, 'a) handle \<Rightarrow> ('a \<Rightarrow> 'k) \<Rightarrow> 'k \<Rightarrow> ('s \<Rightarrow> 's) \<Rightarrow>
   ('s, 'a) smonad \<Rightarrow> bool"
  where
  "keyed_delete bad obs h idf k g m \<longleftrightarrow> (\<forall>s. distinct (map idf (docs_of h s)) \<longrightarrow>
     wp m (\<lambda>y s'. lookup idf (docs_of h s) k = Some y \<and>
              obs s' = g (put_docs h (remove_at idf k (docs_of h s)) (obs s)))
       (\<lambda>e s'. obs s' = obs s \<and> (bad e \<or> e = ErrNoDocuments \<and> lookup idf (docs_of h s) k = None)) s)"

definition created ::
  "(err \<Rightarrow> bool) \<Rightarrow> ('s \<Rightarrow> 's) \<Rightarrow> ('s, 'k, 'a) handle \<Rightarrow> ('a \<Rightarrow> 'k) \<Rightarrow> ('k \<Rightarrow> 'a) \<Rightarrow> ('s \<Rightarrow> 's) \<Rightarrow>
   ('s, 'a) smonad \<Rightarrow> bool"
  where
  "created bad obs h idf mk g m \<longleftrightarrow> (\<forall>s.
     wp m (\<lambda>y s'. \<exists>k. k \<notin> idf ` set (docs_of h s) \<and> y = mk k \<and>
              obs s' = g (put_docs h (docs_of h s @ [mk k]) (obs s)))
       (\<lambda>e s'. bad e \<and> (obs s' = obs s \<or> (\<exists>k. k \<notin> idf ` set (docs_of h s) \<and>
              obs s' = put_docs h (docs_of h s @ [mk k]) (obs s)))) s)"

lemma wp_keyed_read:
  assumes "keyed_read bad obs h idf k m" and "distinct (map idf (docs_of h s))"
    and "\<And>y s'. lookup idf (docs_of h s) k = Some y \<Longrightarrow> obs s' = obs s \<Longrightarrow> Q y s'"
    and "\<And>e s'. obs s' = obs s \<Longrightarrow>
      bad e \<or> e = ErrNoDocuments \<and> lookup idf (docs_of h s) k = None \<Longrightarrow> R e s'"
  shows "wp m Q R s"
  using assms(1,2) by (auto simp: keyed_read_def intro: assms(3,4) elim!: wp_mono)

lemma wp_keyed_update:
  assumes "keyed_update bad obs h idf k P u g m" and "distinct (map idf (docs_of h s))"
    and "\<And>x s'. lookup idf (docs_of h s) k = Some x \<Longrightarrow> P x \<Longrightarrow>
      obs s' = g (put_docs h (update_at idf k u (docs_of h s)) (obs s)) \<Longrightarrow> Q (u x) s'"
    and "\<And>e s'. obs s' = obs s \<Longrightarrow> bad e \<or> e = ErrNoDocuments \<and>
      (\<forall>x. lookup idf (docs_of h s) k = Some x \<longrightarrow> \<not> P x) \<Longrightarrow> R e s'"
  shows "wp m Q R s"
  using assms(1,2) by (auto simp: keyed_update_def intro: assms(3,4) elim!: wp_mono)

lemma wp_keyed_delete:
  assumes "keyed_delete bad obs h idf k g m" and "distinct (map idf (docs_of h s))"
    and "\<And>x s'. lookup idf (docs_of h s) k = Some x \<Longrightarrow>
      obs s' = g (put_docs h (remove_at idf k (docs_of h s)) (obs s)) \<Longrightarrow> Q x s'"
    and "\<And>e s'. obs s' = obs s \<Longrightarrow>
      bad e \<or> e = ErrNoDocuments \<and> lookup idf (docs_of h s) k = None \<Longrightarrow> R e s'"
  shows "wp m Q R s"
  using assms(1,2) by (auto simp: keyed_delete_def intro: assms(3,4) elim!: wp_mono)

lemma wp_created:
  assumes "created bad obs h idf mk g m"
    and "\<And>k s'. k \<notin> idf ` set (docs_of h s) \<Longrightarrow>
      obs s' = g (put_docs h (docs_of h s @ [mk k]) (obs s)) \<Longrightarrow> Q (mk k) s'"
    and "\<And>e s'. bad e \<Longrightarrow> obs s' = obs s \<or> (\<exists>k. k \<notin> idf ` set (docs_of h s) \<and>
      obs s' = put_docs h (docs_of h s @ [mk k]) (obs s)) \<Longrightarrow> R e s'"
  shows "wp m Q R s"
  using assms(1) unfolding created_def
  by (elim allE [of _ s], elim wp_mono) (auto intro: assms(2,3))

text \<open>The operation \<open>g\<close> after a successful call: the code resets a cache last.\<close>

lemma keyed_update_then:
  assumes "keyed_update bad obs h idf k P u (\<lambda>s. s) m" and "\<And>s. obs (g s) = g (obs s)"
  shows "keyed_update bad obs h idf k P u g (bindE m (\<lambda>y. bindE (modifyE g) (\<lambda>_. retE y)))"
  unfolding keyed_update_def
  by (intro allI impI, simp, rule wp_keyed_update [OF assms(1)]) (auto simp: assms(2))

lemma keyed_delete_then:
  assumes "keyed_delete bad obs h idf k (\<lambda>s. s) m" and "\<And>s. obs (g s) = g (obs s)"
  shows "keyed_delete bad obs h idf k g (bindE m (\<lambda>y. bindE (modifyE g) (\<lambda>_. retE y)))"
  unfolding keyed_delete_def
  by (intro allI impI, simp, rule wp_keyed_delete [OF assms(1)]) (auto simp: assms(2))

lemma created_then:
  assumes "created bad obs h idf mk (\<lambda>s. s) m" and "\<And>s. obs (g s) = g (obs s)"
  shows "created bad obs h idf mk g (bindE m (\<lambda>y. bindE (modifyE g) (\<lambda>_. retE y)))"
  unfolding created_def
  by (intro allI, simp, rule wp_created [OF assms(1)]) (auto simp: assms(2))

locale observed = collection +
  fixes obs :: "'a \<Rightarrow> 'a"
  assumes obs_tick [simp]: "obs (tick h s) = obs s"
    and obs_put [simp]: "obs (put_docs h ds s) = put_docs h ds (obs s)"
    and docs_obs [simp]: "docs_of h (obs s) = docs_of h s"
begin

lemma keyed_readI:
  assumes "driver_spec bad idf (drv h)"
  shows "keyed_read bad obs h idf k (FindOne h (\<lambda>d. idf d = k))"
  unfolding keyed_read_def
  by (intro allI impI wp_FindOne [OF assms]) (auto simp: lookup_None_iff lookup_in)

lemma keyed_updateI:
  assumes "driver_spec bad idf (drv h)" and "\<And>x. f x \<longleftrightarrow> idf x = k \<and> P x"
  shows "keyed_update bad obs h idf k P u (\<lambda>s. s) (FindOneAndUpdate h f u)"
  unfolding keyed_update_def
proof (intro allI impI)
  fix s
  assume d: "distinct (map idf (docs_of h s))"
  show "wp (FindOneAndUpdate h f u)
     (\<lambda>y s'. \<exists>x. lookup idf (docs_of h s) k = Some x \<and> P x \<and> y = u x \<and>
         obs s' = put_docs h (update_at idf k u (docs_of h s)) (obs s))
     (\<lambda>e s'. obs s' = obs s \<and> (bad e \<or> e = ErrNoDocuments \<and>
         (\<forall>x. lookup idf (docs_of h s) k = Some x \<longrightarrow> \<not> P x))) s"
    by (rule wp_update_key [OF assms(1) d, of f k])
      (use d in \<open>auto simp: assms(2) lookup_in dest: lookup_Some_in\<close>)
qed

lemma keyed_updateI':
  "driver_spec bad idf (drv h) \<Longrightarrow>
   keyed_update bad obs h idf k (\<lambda>_. True) u (\<lambda>s. s) (FindOneAndUpdate h (\<lambda>d. idf d = k) u)"
  by (rule keyed_updateI) simp_all

lemma obs_docs: "obs s' = obs s \<Longrightarrow> docs_of h s' = docs_of h s"
  using docs_obs [of s'] docs_obs [of s] by simp

text \<open>Read a document, then write back a change computed from what was read.\<close>

lemma keyed_read_updateI:
  assumes "driver_spec bad idf (drv h)" and "keyed_read bad obs h idf k m"
    and "\<And>x. v x x = u x"
  shows "keyed_update bad obs h idf k (\<lambda>_. True) u (\<lambda>s. s)
     (bindE m (\<lambda>x. FindOneAndUpdate h (\<lambda>d. idf d = k) (v x)))"
  unfolding keyed_update_def
proof (intro allI impI)
  fix s
  assume d: "distinct (map idf (docs_of h s))"
  show "wp (bindE m (\<lambda>x. FindOneAndUpdate h (\<lambda>d. idf d = k) (v x)))
     (\<lambda>y s'. \<exists>x. lookup idf (docs_of h s) k = Some x \<and> True \<and> y = u x \<and>
         obs s' = put_docs h (update_at idf k u (docs_of h s)) (obs s))
     (\<lambda>e s'. obs s' = obs s \<and> (bad e \<or> e = ErrNoDocuments \<and>
         (\<forall>x. lookup idf (docs_of h s) k = Some x \<longrightarrow> \<not> True))) s"
    unfolding wp_bindE
  proof (rule wp_keyed_read [OF assms(2) d], goal_cases)
    case (1 y s')
    note docs = obs_docs [OF 1(2)]
    have "update_at idf k (v y) (docs_of h s) = update_at idf k u (docs_of h s)"
      using 1(1) d assms(3) unfolding update_at_def
      by (intro map_cong refl) (auto dest: lookup_in)
    then show ?case
      by (intro wp_keyed_update [OF keyed_updateI' [OF assms(1), of k "v y"]])
        (use 1 d docs assms(3) in auto)
  qed auto
qed

lemma keyed_deleteI:
  assumes "driver_spec bad idf (drv h)"
  shows "keyed_delete bad obs h idf k (\<lambda>s. s) (FindOneAndDelete h (\<lambda>d. idf d = k))"
  unfolding keyed_delete_def
proof (intro allI impI)
  fix s
  assume d: "distinct (map idf (docs_of h s))"
  show "wp (FindOneAndDelete h (\<lambda>d. idf d = k))
     (\<lambda>y s'. lookup idf (docs_of h s) k = Some y \<and>
         obs s' = put_docs h (remove_at idf k (docs_of h s)) (obs s))
     (\<lambda>e s'. obs s' = obs s \<and> (bad e \<or> e = ErrNoDocuments \<and> lookup idf (docs_of h s) k = None)) s"
    by (rule wp_delete_key [OF assms d]) (use d in \<open>auto simp: lookup_in lookup_None_iff\<close>)
qed

text \<open>Read the document, delete it, check the count: the other way the code deletes.\<close>

lemma keyed_delete_countI:
  assumes "driver_spec bad idf (drv h)" and "keyed_read bad obs h idf k m"
  shows "keyed_delete bad obs h idf k (\<lambda>s. s)
     (bindE m (\<lambda>y. bindE (DeleteOne h (\<lambda>d. idf d = k)) (\<lambda>n.
        if n \<noteq> 1 then throwE err else retE y)))"
  unfolding keyed_delete_def
proof (intro allI impI)
  fix s
  assume d: "distinct (map idf (docs_of h s))"
  have docs: "docs_of h s' = docs_of h s" if "obs s' = obs s" for s'
    using docs_obs [of s'] docs_obs [of s] that by simp
  have put: "put_docs h ds (obs s') = put_docs h ds (obs s)" if "obs s' = obs s" for s' ds
    using that by simp
  show "wp (bindE m (\<lambda>y. bindE (DeleteOne h (\<lambda>d. idf d = k)) (\<lambda>n.
        if n \<noteq> 1 then throwE err else retE y)))
     (\<lambda>y s'. lookup idf (docs_of h s) k = Some y \<and>
         obs s' = put_docs h (remove_at idf k (docs_of h s)) (obs s))
     (\<lambda>e s'. obs s' = obs s \<and> (bad e \<or> e = ErrNoDocuments \<and> lookup idf (docs_of h s) k = None)) s"
    unfolding wp_bindE
  proof (rule wp_keyed_read [OF assms(2) d])
    fix y s'
    assume y: "lookup idf (docs_of h s) k = Some y" and s': "obs s' = obs s"
    show "wp (DeleteOne h (\<lambda>d. idf d = k)) (\<lambda>n. wp (if n \<noteq> 1 then throwE err else retE y)
         (\<lambda>y s'. lookup idf (docs_of h s) k = Some y \<and>
            obs s' = put_docs h (remove_at idf k (docs_of h s)) (obs s))
         (\<lambda>e s'. obs s' = obs s \<and>
            (bad e \<or> e = ErrNoDocuments \<and> lookup idf (docs_of h s) k = None)))
       (\<lambda>e s'. obs s' = obs s \<and>
            (bad e \<or> e = ErrNoDocuments \<and> lookup idf (docs_of h s) k = None)) s'"
    proof (rule wp_DeleteOne [OF assms(1)], goal_cases)
      case (1 z ds)
      with removes_key [OF 1 [unfolded docs [OF s']] d, of k] y s' show ?case by simp
    next
      case 2
      with y docs [OF s'] show ?case by (auto dest: lookup_Some_in)
    next
      case (3 e)
      then show ?case using s' docs [OF s'] put_docs_of [of "tick h s'"] by simp
    qed
  qed auto
qed

lemma createdI:
  assumes "driver_spec bad idf (drv h)" and "\<And>k. idf (mk k) = k"
  shows "created bad obs h idf mk (\<lambda>s. s)
     (bindE (InsertOne h mk) (\<lambda>k. FindOne h (\<lambda>d. idf d = k)))"
  unfolding created_def
  by (intro allI wp_create [OF assms(1)]) (auto simp: assms(2))

text \<open>The variant that ends the process (\<^verbatim>\<open>log.Fatal\<close>) when the insertion fails.\<close>

lemma created_fatalI:
  assumes "driver_spec bad idf (drv h)" and "\<And>k. idf (mk k) = k" and "\<And>e. bad e \<Longrightarrow> \<not> aborts e"
  shows "created (\<lambda>e. bad e \<or> e = Fatal msg) obs h idf mk (\<lambda>s. s)
     (onErr (InsertOne h mk) (\<lambda>_. throwE (Fatal msg)) (\<lambda>k. FindOne h (\<lambda>d. idf d = k)))"
  unfolding created_def wp_onErr
proof (intro allI wp_InsertOne [OF assms(1)], goal_cases)
  case (1 s k)
  have only: "x = mk k" if "x \<in> set (docs_of h s @ [mk k])" "idf x = k" for x
    using that 1 by auto
  show ?case
    by (rule wp_FindOne [OF assms(1)]) (use only 1 assms(2) in auto)
next
  case (2 s e)
  then show ?case using assms(3) by simp
qed

end

section \<open>A collection in memory\<close>

fun drop_first :: "('a \<Rightarrow> bool) \<Rightarrow> 'a list \<Rightarrow> 'a list" where
  "drop_first f [] = []"
| "drop_first f (x # xs) = (if f x then xs else x # drop_first f xs)"

definition local_driver :: "('a list \<Rightarrow> 'k) \<Rightarrow> ('a \<Rightarrow> 'k) \<Rightarrow> ('k, 'a) driver" where
  "local_driver fresh idf =
    \<lparr>drv_insertOne = (\<lambda>t mk ds. (Inr (fresh ds), ds @ [mk (fresh ds)])),
     drv_insertDoc = (\<lambda>t d ds. if idf d \<in> set (map idf ds)
       then (Inl (DriverError ''duplicate key''), ds) else (Inr (idf d), ds @ [d])),
     drv_findOne = (\<lambda>t f ds. case List.find f ds of
       None \<Rightarrow> Inl ErrNoDocuments | Some x \<Rightarrow> Inr x),
     drv_find = (\<lambda>t f ds. Inr (filter f ds, None)),
     drv_findOneAndUpdate = (\<lambda>t f u ds. case List.find f ds of
       None \<Rightarrow> (Inl ErrNoDocuments, ds) | Some x \<Rightarrow> (Inr (u x), positional f u ds)),
     drv_findOneAndDelete = (\<lambda>t f ds. case List.find f ds of
       None \<Rightarrow> (Inl ErrNoDocuments, ds) | Some x \<Rightarrow> (Inr x, drop_first f ds)),
     drv_updateOne = (\<lambda>t f u ds. (Inr (), positional f u ds)),
     drv_updateMany = (\<lambda>t f u ds. (Inr (length (filter (\<lambda>x. f x \<and> u x \<noteq> x) ds)),
       map (\<lambda>x. if f x then u x else x) ds)),
     drv_deleteOne = (\<lambda>t f ds. case List.find f ds of
       None \<Rightarrow> (Inr 0, ds) | Some x \<Rightarrow> (Inr 1, drop_first f ds)),
     drv_deleteMany = (\<lambda>t f ds. (Inr (length (filter f ds)), filter (\<lambda>x. \<not> f x) ds))\<rparr>"

lemma positional_replaces:
  "List.find f ds = Some x \<Longrightarrow> replaces f u ds (u x) (positional f u ds)"
proof (induction ds)
  case Nil
  then show ?case by simp
next
  case (Cons d ds)
  show ?case
  proof (cases "f d")
    case True
    with Cons.prems show ?thesis
      unfolding replaces_def by (intro exI [of _ "[]"] exI [of _ d] exI [of _ ds]) auto
  next
    case False
    with Cons obtain pre a post where "ds = pre @ a # post" "f a" "u x = u a"
      "positional f u ds = pre @ u x # post"
      by (auto simp: replaces_def)
    with False show ?thesis
      unfolding replaces_def by (intro exI [of _ "d # pre"]) auto
  qed
qed

lemma drop_first_removes:
  "List.find f ds = Some x \<Longrightarrow> removes f ds x (drop_first f ds)"
proof (induction ds)
  case Nil
  then show ?case by simp
next
  case (Cons d ds)
  show ?case
  proof (cases "f d")
    case True
    with Cons.prems show ?thesis
      unfolding removes_def by (intro exI [of _ "[]"] exI [of _ ds]) auto
  next
    case False
    with Cons obtain pre post where "ds = pre @ x # post" "f x" "drop_first f ds = pre @ post"
      by (auto simp: removes_def)
    with False show ?thesis
      unfolding removes_def by (intro exI [of _ "d # pre"] exI [of _ post]) auto
  qed
qed

lemma positional_updateOne:
  "(\<exists>y. replaces f u ds y (positional f u ds)) \<or> none_matches f ds \<and> positional f u ds = ds"
  by (cases "List.find f ds") (auto simp: find_None_iff positional_none dest: positional_replaces)

lemma drop_first_deleteOne:
  "List.find f ds = Some x \<Longrightarrow> \<exists>y. removes f ds y (drop_first f ds)"
  by (auto dest: drop_first_removes)

lemma find_Some_in: "List.find f ds = Some x \<Longrightarrow> x \<in> set ds \<and> f x"
  by (auto simp: find_Some_iff)

lemma local_driver_up:
  assumes "\<And>ds. fresh ds \<notin> idf ` set ds"
  shows "driver_spec never idf (local_driver fresh idf)"
  unfolding driver_spec_def
  by (auto simp: local_driver_def insertOne_spec_def insertDoc_spec_def findOne_spec_def find_spec_def
      findOneAndUpdate_spec_def findOneAndDelete_spec_def updateOne_spec_def updateMany_spec_def
      deleteOne_spec_def deleteMany_spec_def assms find_None_iff positional_replaces
      drop_first_removes positional_updateOne drop_first_deleteOne dest: find_Some_in
      split: option.splits)

text \<open>A key that no document has: one more than the largest.\<close>

definition fresh_nat :: "('a \<Rightarrow> nat) \<Rightarrow> 'a list \<Rightarrow> nat" where
  "fresh_nat idf ds = Suc (foldr (\<lambda>d m. max (idf d) m) ds 0)"

definition fresh_int :: "('a \<Rightarrow> int) \<Rightarrow> 'a list \<Rightarrow> int" where
  "fresh_int idf ds = 1 + foldr (\<lambda>d m. max (idf d) m) ds 0"

lemma foldr_max_ge: "d \<in> set ds \<Longrightarrow> idf d \<le> foldr (\<lambda>d m. max (idf d) m) ds (z :: 'b :: linorder)"
  by (induction ds) (auto simp: le_max_iff_disj)

lemma fresh_nat: "fresh_nat idf ds \<notin> idf ` set ds"
  using foldr_max_ge [of _ ds idf 0] by (force simp: fresh_nat_def)

lemma fresh_int: "fresh_int idf ds \<notin> idf ` set ds"
  using foldr_max_ge [of _ ds idf 0] by (force simp: fresh_int_def)

end
