(* ===== verification/ParticipationStatus.thy ===== *)
theory ParticipationStatus
  imports Prelude
begin

text \<open>
  \<^verbatim>\<open>backend/src/models/participationStatus.go\<close>: the status of a company's or a speaker's
  participation, its state machine (\<open>Next\<close>, \<open>ValidSteps\<close>) and its parser.

  The Go type is a string type with nine named constants, and the database or a zero value may
  hold any other string: \<open>OtherStatus\<close> carries those. The locale \<open>string_enum\<close> is the contract
  of such a parser; theory Kinds interprets it for the other enumerations. The locale
  \<open>step_machine\<close> is what the data layer relies on when it advances a participation.
\<close>

section \<open>The statuses\<close>

datatype participationStatus =
    Suggested | Selected | OnHold | Contacted | InConversations | Accepted | Rejected | GivenUp
  | Announced | OtherStatus string

fun status_string :: "participationStatus \<Rightarrow> string" where
  "status_string Suggested = ''SUGGESTED''"
| "status_string Selected = ''SELECTED''"
| "status_string OnHold = ''ON_HOLD''"
| "status_string Contacted = ''CONTACTED''"
| "status_string InConversations = ''IN_CONVERSATIONS''"
| "status_string Accepted = ''ACCEPTED''"
| "status_string Rejected = ''REJECTED''"
| "status_string GivenUp = ''GIVEN_UP''"
| "status_string Announced = ''ANNOUNCED''"
| "status_string (OtherStatus s) = s"

definition named_statuses :: "participationStatus list" where
  "named_statuses = [Suggested, Selected, OnHold, Contacted, InConversations, Accepted, Rejected,
     GivenUp, Announced]"

section \<open>Next, ValidSteps and Parse\<close>

fun ParticipationStatus_Next :: "participationStatus \<Rightarrow> int \<Rightarrow> err + participationStatus" where
  "ParticipationStatus_Next Suggested step =
     (if step = 1 then Inr Selected
      else if step = 2 then Inr OnHold
      else Inl (Err ''Invalid step''))"
| "ParticipationStatus_Next Selected step =
     (if step = 1 then Inr Contacted else Inl (Err ''Invalid step''))"
| "ParticipationStatus_Next OnHold step =
     (if step = 1 then Inr Selected else Inl (Err ''Invalid step''))"
| "ParticipationStatus_Next Contacted step =
     (if step = 1 then Inr InConversations
      else if step = 2 then Inr Rejected
      else if step = 3 then Inr GivenUp
      else Inl (Err ''Invalid step''))"
| "ParticipationStatus_Next InConversations step =
     (if step = 1 then Inr Accepted
      else if step = 2 then Inr Rejected
      else if step = 3 then Inr GivenUp
      else Inl (Err ''Invalid step''))"
| "ParticipationStatus_Next Accepted step =
     (if step = 1 then Inr Announced else Inl (Err ''Invalid step''))"
| "ParticipationStatus_Next _ step = Inl (Err ''No steps available'')"

record validStep =
  vs_step :: int
  vs_next :: participationStatus

abbreviation valid_step :: "int \<Rightarrow> participationStatus \<Rightarrow> validStep" where
  "valid_step k st \<equiv> \<lparr>vs_step = k, vs_next = st\<rparr>"

fun ParticipationStatus_ValidSteps :: "participationStatus \<Rightarrow> validStep list" where
  "ParticipationStatus_ValidSteps Suggested = [valid_step 1 Selected, valid_step 2 OnHold]"
| "ParticipationStatus_ValidSteps Selected = [valid_step 1 Contacted]"
| "ParticipationStatus_ValidSteps OnHold = [valid_step 1 Selected]"
| "ParticipationStatus_ValidSteps Contacted =
     [valid_step 1 InConversations, valid_step 2 Rejected, valid_step 3 GivenUp]"
| "ParticipationStatus_ValidSteps InConversations =
     [valid_step 1 Accepted, valid_step 2 Rejected, valid_step 3 GivenUp]"
| "ParticipationStatus_ValidSteps Accepted = [valid_step 1 Announced]"
| "ParticipationStatus_ValidSteps _ = []"

text \<open>
  \<open>Parse\<close> has a pointer receiver and checks it; \<open>allocated\<close> says it is not nil. The result is
  the value stored through the pointer.
\<close>

definition ParticipationStatus_Parse :: "bool \<Rightarrow> string \<Rightarrow> err + participationStatus" where
  "ParticipationStatus_Parse allocated s =
     (if \<not> allocated then Inl (Err ''allocation needed before parsing'')
      else if s = status_string Suggested then Inr Suggested
      else if s = status_string Selected then Inr Selected
      else if s = status_string OnHold then Inr OnHold
      else if s = status_string Contacted then Inr Contacted
      else if s = status_string InConversations then Inr InConversations
      else if s = status_string Accepted then Inr Accepted
      else if s = status_string Rejected then Inr Rejected
      else if s = status_string GivenUp then Inr GivenUp
      else if s = status_string Announced then Inr Announced
      else Inl (Err ''Invalid status''))"

section \<open>Parsers of string enumerations\<close>

locale string_enum =
  fixes parse :: "string \<Rightarrow> err + 'k"
    and render :: "'k \<Rightarrow> string"
    and named :: "'k list"
  assumes parse_render: "k \<in> set named \<Longrightarrow> parse (render k) = Inr k"
    and parse_sound: "parse s = Inr k \<Longrightarrow> k \<in> set named \<and> render k = s"
begin

lemma render_inj: "inj_on render (set named)"
  by (rule inj_on_inverseI [where g = "\<lambda>s. case parse s of Inr k \<Rightarrow> k"]) (simp add: parse_render)

lemma parse_iff: "parse s = Inr k \<longleftrightarrow> k \<in> set named \<and> render k = s"
  using parse_render parse_sound by blast

lemma parse_fails_iff: "(\<exists>e. parse s = Inl e) \<longleftrightarrow> s \<notin> render ` set named"
  by (cases "parse s") (auto simp: parse_render dest: parse_sound)

end

interpretation status_enum:
  string_enum "ParticipationStatus_Parse True" status_string named_statuses
  by unfold_locales (auto simp: ParticipationStatus_Parse_def named_statuses_def split: if_splits)

section \<open>The state machine\<close>

text \<open>
  \<open>step_machine nxt valid rank\<close>: a machine whose accepted steps are listed by \<open>valid\<close>, and
  whose steps go down in \<open>rank\<close>, so that no run is longer than the rank of its start.
\<close>

fun run_steps :: "('q \<Rightarrow> int \<Rightarrow> err + 'q) \<Rightarrow> 'q \<Rightarrow> int list \<Rightarrow> err + 'q" where
  "run_steps nxt q [] = Inr q"
| "run_steps nxt q (k # ks) = (case nxt q k of Inl e \<Rightarrow> Inl e | Inr q' \<Rightarrow> run_steps nxt q' ks)"

locale step_machine =
  fixes nxt :: "'q \<Rightarrow> int \<Rightarrow> err + 'q"
    and valid :: "'q \<Rightarrow> (int \<times> 'q) list"
    and rank :: "'q \<Rightarrow> nat"
  assumes nxt_valid: "nxt q k = Inr q' \<longleftrightarrow> (k, q') \<in> set (valid q)"
    and nxt_rank: "nxt q k = Inr q' \<Longrightarrow> rank q' < rank q"
begin

lemma run_rank: "run_steps nxt q ks = Inr q' \<Longrightarrow> rank q' + length ks \<le> rank q"
proof (induction ks arbitrary: q)
  case Nil
  then show ?case by simp
next
  case (Cons k ks)
  then obtain q1 where "nxt q k = Inr q1" "run_steps nxt q1 ks = Inr q'"
    by (auto split: sum.splits)
  with Cons.IH [of q1] nxt_rank [of q k q1] show ?case by simp
qed

lemma run_length: "run_steps nxt q ks = Inr q' \<Longrightarrow> length ks \<le> rank q"
  using run_rank by fastforce

lemma no_return: "run_steps nxt q ks = Inr q \<Longrightarrow> ks = []"
  using run_rank [of q ks q] by simp

lemma stuck_iff: "(\<forall>k. \<exists>e. nxt q k = Inl e) \<longleftrightarrow> valid q = []"
proof
  assume *: "\<forall>k. \<exists>e. nxt q k = Inl e"
  show "valid q = []"
  proof (rule ccontr)
    assume "valid q \<noteq> []"
    then obtain k q' where "(k, q') \<in> set (valid q)" by (cases "valid q") auto
    then have "nxt q k = Inr q'" using nxt_valid by simp
    with * show False by (metis Inl_Inr_False)
  qed
next
  assume "valid q = []"
  then show "\<forall>k. \<exists>e. nxt q k = Inl e"
    using nxt_valid by (metis empty_iff empty_set old.sum.exhaust)
qed

end

fun status_rank :: "participationStatus \<Rightarrow> nat" where
  "status_rank Suggested = 6"
| "status_rank OnHold = 5"
| "status_rank Selected = 4"
| "status_rank Contacted = 3"
| "status_rank InConversations = 2"
| "status_rank Accepted = 1"
| "status_rank _ = 0"

definition step_pairs :: "participationStatus \<Rightarrow> (int \<times> participationStatus) list" where
  "step_pairs st = map (\<lambda>v. (vs_step v, vs_next v)) (ParticipationStatus_ValidSteps st)"

interpretation status_machine:
  step_machine ParticipationStatus_Next step_pairs status_rank
proof unfold_locales
  fix q k q'
  show "ParticipationStatus_Next q k = Inr q' \<longleftrightarrow> (k, q') \<in> set (step_pairs q)"
    by (cases q) (auto simp: step_pairs_def split: if_splits)
  show "ParticipationStatus_Next q k = Inr q' \<Longrightarrow> status_rank q' < status_rank q"
    by (cases q) (auto split: if_splits)
qed

text \<open>The statuses \<open>Next\<close> can lead to from the start, and the ones it never leaves.\<close>

definition terminal :: "participationStatus \<Rightarrow> bool" where
  "terminal st \<longleftrightarrow> ParticipationStatus_ValidSteps st = []"

lemma run_named:
  "run_steps ParticipationStatus_Next st ks = Inr st' \<Longrightarrow> st \<in> set named_statuses \<Longrightarrow>
   st' \<in> set named_statuses"
proof (induction ks arbitrary: st)
  case Nil
  then show ?case by simp
next
  case (Cons k ks)
  then obtain st1 where st1: "ParticipationStatus_Next st k = Inr st1"
    "run_steps ParticipationStatus_Next st1 ks = Inr st'"
    by (auto split: sum.splits)
  then have "st1 \<in> set named_statuses"
    by (cases st) (auto simp: named_statuses_def split: if_splits)
  with st1 Cons.IH show ?case by blast
qed

text \<open>
  Announcing needs the whole chain: a run that ends in \<open>Announced\<close> has been through
  \<open>Accepted\<close>, \<open>InConversations\<close>, \<open>Contacted\<close> and \<open>Selected\<close>.
\<close>

fun visited :: "participationStatus \<Rightarrow> int list \<Rightarrow> participationStatus list" where
  "visited st [] = [st]"
| "visited st (k # ks) =
     st # (case ParticipationStatus_Next st k of Inl e \<Rightarrow> [] | Inr st' \<Rightarrow> visited st' ks)"

lemma visited_start: "st \<in> set (visited st ks)"
  by (cases ks) auto

lemma announced_visits:
  "run_steps ParticipationStatus_Next st ks = Inr Announced \<Longrightarrow>
   (st \<noteq> Announced \<longrightarrow> Accepted \<in> set (visited st ks)) \<and>
   (st \<notin> {Announced, Accepted} \<longrightarrow> InConversations \<in> set (visited st ks)) \<and>
   (st \<notin> {Announced, Accepted, InConversations} \<longrightarrow> Contacted \<in> set (visited st ks)) \<and>
   (st \<notin> {Announced, Accepted, InConversations, Contacted} \<longrightarrow> Selected \<in> set (visited st ks))"
proof (induction ks arbitrary: st)
  case Nil
  then show ?case by simp
next
  case (Cons k ks)
  then obtain st1 where st1: "ParticipationStatus_Next st k = Inr st1"
    "run_steps ParticipationStatus_Next st1 ks = Inr Announced"
    by (auto split: sum.splits)
  have "set (visited st1 ks) \<subseteq> set (visited st (k # ks))"
    using st1(1) by auto
  with Cons.IH [OF st1(2)] st1(1) visited_start [of st1 ks] show ?case
    by (cases st) (auto split: if_splits)
qed

section \<open>Properties\<close>

text \<open>
  C4: the state machine of a participation. From every status, \<open>Next\<close> takes exactly the steps that
  \<open>ValidSteps\<close> offers, to the status it names; every run of steps ends after at most six; no run
  comes back to a status it has left; and a run from the start that ends in \<open>Announced\<close> has been
  selected, contacted, in conversations and accepted on the way.
\<close>

theorem participation_state_machine:
  "(ParticipationStatus_Next st k = Inr st' \<longleftrightarrow> \<lparr>vs_step = k, vs_next = st'\<rparr> \<in> set (ParticipationStatus_ValidSteps st)) \<and>
   (run_steps ParticipationStatus_Next st ks = Inr st' \<longrightarrow>
      length ks \<le> 6 \<and> (st' = st \<longrightarrow> ks = []) \<and>
      (st = Suggested \<and> st' = Announced \<longrightarrow>
         {Selected, Contacted, InConversations, Accepted} \<subseteq> set (visited st ks)))"
proof -
  have "ParticipationStatus_Next st k = Inr st' \<longleftrightarrow>
      \<lparr>vs_step = k, vs_next = st'\<rparr> \<in> set (ParticipationStatus_ValidSteps st)"
    by (cases st) auto
  moreover have "status_rank st \<le> 6" by (cases st) auto
  ultimately show ?thesis
    using status_machine.run_length [of st ks st'] status_machine.no_return [of st ks]
      announced_visits [of st ks]
    by auto
qed

theorem participation_state_machine_witness:
  "length [2, 1, 1, 1, 1, 1::int] \<le> 6 \<and>
   run_steps ParticipationStatus_Next Suggested [2, 1, 1, 1, 1, 1] = Inr Announced \<and>
   {Selected, Contacted, InConversations, Accepted} \<subseteq> set (visited Suggested [2, 1, 1, 1, 1, 1])"
proof -
  have "run_steps ParticipationStatus_Next Suggested [2, 1, 1, 1, 1, 1] = Inr Announced" by simp
  then show ?thesis
    using participation_state_machine [of Suggested 1 Announced "[2, 1, 1, 1, 1, 1]"] by blast
qed

end
