(* ===== verification/Kinds.thy ===== *)
theory Kinds
  imports ParticipationStatus
begin

text \<open>
  The other string enumerations of \<^verbatim>\<open>backend/src/models\<close> and their checks: session kinds
  (\<^verbatim>\<open>session.go\<close>), meeting kinds and participant kinds (\<^verbatim>\<open>meeting.go\<close>), thread kinds and
  statuses (\<^verbatim>\<open>thread.go\<close>), notification kinds (\<^verbatim>\<open>notification.go\<close>). The parsers meet the
  contract \<open>string_enum\<close> of theory ParticipationStatus.
\<close>

section \<open>Session kinds\<close>

datatype sessionKind =
  SessionKindTalk | SessionKindPresentation | SessionKindWorkshop | OtherSessionKind string

fun sessionKind_string :: "sessionKind \<Rightarrow> string" where
  "sessionKind_string SessionKindTalk = ''TALK''"
| "sessionKind_string SessionKindPresentation = ''PRESENTATION''"
| "sessionKind_string SessionKindWorkshop = ''WORKSHOP''"
| "sessionKind_string (OtherSessionKind s) = s"

definition SessionKind_Parse :: "string \<Rightarrow> err + sessionKind" where
  "SessionKind_Parse kind =
     (if kind = sessionKind_string SessionKindTalk then Inr SessionKindTalk
      else if kind = sessionKind_string SessionKindPresentation then Inr SessionKindPresentation
      else if kind = sessionKind_string SessionKindWorkshop then Inr SessionKindWorkshop
      else Inl (Err ''invalid kind''))"

interpretation session_enum: string_enum SessionKind_Parse sessionKind_string
  "[SessionKindTalk, SessionKindPresentation, SessionKindWorkshop]"
  by unfold_locales (auto simp: SessionKind_Parse_def split: if_splits)

section \<open>Meeting kinds and participant kinds\<close>

datatype meetingKind = EventMeeting | TeamMeeting | CompanyMeeting | OtherMeetingKind string

fun meetingKind_string :: "meetingKind \<Rightarrow> string" where
  "meetingKind_string EventMeeting = ''EVENT''"
| "meetingKind_string TeamMeeting = ''TEAM''"
| "meetingKind_string CompanyMeeting = ''COMPANY''"
| "meetingKind_string (OtherMeetingKind s) = s"

definition MeetingKind_Parse :: "string \<Rightarrow> err + meetingKind" where
  "MeetingKind_Parse kind =
     (if kind = meetingKind_string EventMeeting then Inr EventMeeting
      else if kind = meetingKind_string TeamMeeting then Inr TeamMeeting
      else if kind = meetingKind_string CompanyMeeting then Inr CompanyMeeting
      else Inl (Err ''invalid kind''))"

interpretation meeting_enum: string_enum MeetingKind_Parse meetingKind_string
  "[EventMeeting, TeamMeeting, CompanyMeeting]"
  by unfold_locales (auto simp: MeetingKind_Parse_def split: if_splits)

datatype meetingParticipantKind =
  MemberParticipant | CompanyRepParticipant | OtherParticipantKind string

fun participantKind_string :: "meetingParticipantKind \<Rightarrow> string" where
  "participantKind_string MemberParticipant = ''MEMBER''"
| "participantKind_string CompanyRepParticipant = ''COMPANYREP''"
| "participantKind_string (OtherParticipantKind s) = s"

definition MeetingParticipantKind_Parse :: "string \<Rightarrow> err + meetingParticipantKind" where
  "MeetingParticipantKind_Parse kind =
     (if kind = participantKind_string MemberParticipant then Inr MemberParticipant
      else if kind = participantKind_string CompanyRepParticipant then Inr CompanyRepParticipant
      else Inl (Err ''invalid type of participant''))"

interpretation participant_enum: string_enum MeetingParticipantKind_Parse participantKind_string
  "[MemberParticipant, CompanyRepParticipant]"
  by unfold_locales (auto simp: MeetingParticipantKind_Parse_def split: if_splits)

section \<open>Thread kinds and statuses\<close>

datatype threadKind =
    ThreadKindTemplate | ThreadKindTo | ThreadKindFrom | ThreadKindPhoneCall | ThreadKindMeeting
  | OtherThreadKind string

fun threadKind_string :: "threadKind \<Rightarrow> string" where
  "threadKind_string ThreadKindTemplate = ''TEMPLATE''"
| "threadKind_string ThreadKindTo = ''TO''"
| "threadKind_string ThreadKindFrom = ''FROM''"
| "threadKind_string ThreadKindPhoneCall = ''PHONE_CALL''"
| "threadKind_string ThreadKindMeeting = ''MEETING''"
| "threadKind_string (OtherThreadKind s) = s"

definition ThreadKind_IsValid :: "threadKind \<Rightarrow> bool" where
  "ThreadKind_IsValid tk \<longleftrightarrow>
     tk = ThreadKindTemplate \<or>
     tk = ThreadKindTo \<or>
     tk = ThreadKindFrom \<or>
     tk = ThreadKindPhoneCall \<or>
     tk = ThreadKindMeeting"

datatype threadStatus =
  ThreadStatusApproved | ThreadStatusReviewed | ThreadStatusPending | OtherThreadStatus string

definition ThreadStatus_IsValid :: "threadStatus \<Rightarrow> bool" where
  "ThreadStatus_IsValid ts \<longleftrightarrow>
     ts \<noteq> ThreadStatusApproved \<and> ts \<noteq> ThreadStatusReviewed \<and> ts \<noteq> ThreadStatusPending"

section \<open>Notification kinds\<close>

datatype notificationKind =
    NotificationKindCreated
  | NotificationKindUpdated
  | NotificationKindDeleted
  | NotificationKindUpdatedPrivateImage
  | NotificationKindUpdatedPublicImage
  | NotificationKindUploadedMeetingMinute
  | NotificationKindDeletedMeetingMinute
  | NotificationKindUpdatedCompanyImage
  | NotificationKindCreatedParticipation
  | NotificationKindUpdatedParticipation
  | NotificationKindDeletedParticipation
  | NotificationKindCreatedParticipationPackage
  | NotificationKindUpdatedParticipationPackage
  | NotificationKindDeletedParticipationPackage
  | NotificationKindCreatedParticipationBilling
  | NotificationKindDeletedParticipationBilling
  | NotificationKindUpdatedParticipationStatus
  | NotificationKindTagged
  | OtherNotificationKind string

fun notificationKind_string :: "notificationKind \<Rightarrow> string" where
  "notificationKind_string NotificationKindCreated = ''CREATED''"
| "notificationKind_string NotificationKindUpdated = ''UPDATED''"
| "notificationKind_string NotificationKindDeleted = ''DELETED''"
| "notificationKind_string NotificationKindUpdatedPrivateImage = ''UPDATED_PRIVATE_IMAGE''"
| "notificationKind_string NotificationKindUpdatedPublicImage = ''UPDATED_PUBLIC_IMAGE''"
| "notificationKind_string NotificationKindUploadedMeetingMinute = ''UPLOADED_MEETING_MINUTE''"
| "notificationKind_string NotificationKindDeletedMeetingMinute = ''DELETED_MEETING_MINUTE''"
| "notificationKind_string NotificationKindUpdatedCompanyImage = ''UPDATED_COMPANY_IMAGE''"
| "notificationKind_string NotificationKindCreatedParticipation = ''CREATED_PARTICIPATION''"
| "notificationKind_string NotificationKindUpdatedParticipation = ''UPDATED_PARTICIPATION''"
| "notificationKind_string NotificationKindDeletedParticipation = ''DELETED_PARTICIPATION''"
| "notificationKind_string NotificationKindCreatedParticipationPackage =
     ''CREATED_PARTICIPATION_PACKAGE''"
| "notificationKind_string NotificationKindUpdatedParticipationPackage =
     ''UPDATED_PARTICIPATION_PACKAGE''"
| "notificationKind_string NotificationKindDeletedParticipationPackage =
     ''DELETED_PARTICIPATION_PACKAGE''"
| "notificationKind_string NotificationKindCreatedParticipationBilling =
     ''CREATED_PARTICIPATION_BILLING''"
| "notificationKind_string NotificationKindDeletedParticipationBilling =
     ''DELETED_PARTICIPATION_BILLING''"
| "notificationKind_string NotificationKindUpdatedParticipationStatus =
     ''UPDATED_PARTICIPATION_STATUS''"
| "notificationKind_string NotificationKindTagged = ''TAGGED''"
| "notificationKind_string (OtherNotificationKind s) = s"

section \<open>Properties\<close>

text \<open>
  Parsing and printing the kinds. A text that a parser accepts prints back to itself, the named kinds all parse back,
  and anything else is an error; a kind that is not a named one is refused.
\<close>

theorem kinds_round_trip:
  "(SessionKind_Parse s = Inr k \<longleftrightarrow>
      sessionKind_string k = s \<and> k \<in> {SessionKindTalk, SessionKindPresentation, SessionKindWorkshop}) \<and>
   (MeetingKind_Parse s = Inr mk \<longleftrightarrow>
      meetingKind_string mk = s \<and> mk \<in> {EventMeeting, TeamMeeting, CompanyMeeting}) \<and>
   (MeetingParticipantKind_Parse s = Inr pk \<longleftrightarrow>
      participantKind_string pk = s \<and> pk \<in> {MemberParticipant, CompanyRepParticipant}) \<and>
   (ParticipationStatus_Parse True s = Inr st \<longleftrightarrow>
      status_string st = s \<and> st \<in> set named_statuses)"
  using session_enum.parse_iff meeting_enum.parse_iff participant_enum.parse_iff
    status_enum.parse_iff
  by auto

text \<open>
  The validity check of a thread's status is inverted: it holds of the strings that are no status
  and of none of the three statuses, although its comment says it tells whether the status is
  valid. The check of a thread's kind beside it is the right way round.
\<close>

theorem ThreadStatus_IsValid_inverted:
  "(ThreadStatus_IsValid ts \<longleftrightarrow> (\<exists>s. ts = OtherThreadStatus s)) \<and>
   (ThreadKind_IsValid tk \<longleftrightarrow> (\<forall>s. tk \<noteq> OtherThreadKind s))"
  by (cases ts; cases tk) (auto simp: ThreadStatus_IsValid_def ThreadKind_IsValid_def)

end
