(* ===== verification/Roles.thy ===== *)
theory Roles
  imports Prelude
begin

text \<open>
  \<^verbatim>\<open>backend/src/models/team.go\<close>, \<^verbatim>\<open>backend/src/models/coordination_team.go\<close> and
  \<^verbatim>\<open>backend/src/auth/roles.go\<close>: the roles of the team, their access levels, the check every
  protected route makes, and the membership queries on teams and coordination teams. The locale
  \<open>membership\<close> is the contract of those queries.

  An \<open>oid\<close> is a \<^verbatim>\<open>primitive.ObjectID\<close>. The program compares them and tests for
  \<^verbatim>\<open>NilObjectID\<close> (here 0), nothing else.
\<close>

type_synonym oid = nat

definition NilObjectID :: oid where
  "NilObjectID = 0"

section \<open>Roles and access levels\<close>

datatype teamRole = RoleMember | RoleTeamLeader | RoleCoordinator | RoleAdmin | OtherRole string

fun role_string :: "teamRole \<Rightarrow> string" where
  "role_string RoleMember = ''MEMBER''"
| "role_string RoleTeamLeader = ''TEAMLEADER''"
| "role_string RoleCoordinator = ''COORDINATOR''"
| "role_string RoleAdmin = ''ADMIN''"
| "role_string (OtherRole s) = s"

definition TeamRole_IsValidRole :: "teamRole \<Rightarrow> bool" where
  "TeamRole_IsValidRole r =
     (if r = RoleMember then True
      else if r = RoleTeamLeader then True
      else if r = RoleCoordinator then True
      else if r = RoleAdmin then True
      else False)"

definition TeamRole_AccessLevel :: "teamRole \<Rightarrow> int" where
  "TeamRole_AccessLevel r =
     (if r = RoleMember then 3
      else if r = RoleTeamLeader then 2
      else if r = RoleCoordinator then 1
      else if r = RoleAdmin then 0
      else -1)"

record authorizationCredentials =
  ac_ID :: oid
  ac_SINFOID :: string
  ac_Role :: teamRole
  ac_Team :: string

definition CheckAccessLevel :: "teamRole \<Rightarrow> authorizationCredentials \<Rightarrow> bool" where
  "CheckAccessLevel required credentials =
     (let requiredLevel = TeamRole_AccessLevel required in
      if requiredLevel < 0 then False
      else let level = TeamRole_AccessLevel (ac_Role credentials) in
        if level < 0 \<or> level > requiredLevel then False else True)"

lemma AccessLevel_simps [simp]:
  "TeamRole_AccessLevel RoleMember = 3" "TeamRole_AccessLevel RoleTeamLeader = 2"
  "TeamRole_AccessLevel RoleCoordinator = 1" "TeamRole_AccessLevel RoleAdmin = 0"
  "TeamRole_AccessLevel (OtherRole s) = -1"
  by (simp_all add: TeamRole_AccessLevel_def)

lemma IsValidRole_iff: "TeamRole_IsValidRole r \<longleftrightarrow> 0 \<le> TeamRole_AccessLevel r"
  by (cases r) (simp_all add: TeamRole_IsValidRole_def)

lemma CheckAccessLevel_iff:
  "CheckAccessLevel required cr \<longleftrightarrow>
     TeamRole_IsValidRole required \<and> TeamRole_IsValidRole (ac_Role cr) \<and>
     TeamRole_AccessLevel (ac_Role cr) \<le> TeamRole_AccessLevel required"
  by (auto simp: CheckAccessLevel_def IsValidRole_iff Let_def)

section \<open>Teams\<close>

record teamMember =
  tm_Member :: oid
  tm_Role :: teamRole

record team =
  team_ID :: oid
  team_Name :: string
  team_Members :: "teamMember list"
  team_Meetings :: "oid list"

record teamPublic =
  tp_ID :: oid
  tp_Name :: string
  tp_Members :: "teamMember list"

fun Team_HasMember_loop :: "teamMember list \<Rightarrow> oid \<Rightarrow> bool" where
  "Team_HasMember_loop [] member = False"
| "Team_HasMember_loop (s # ss) member =
     (if tm_Member s = member then True else Team_HasMember_loop ss member)"

definition Team_HasMember :: "team \<Rightarrow> oid \<Rightarrow> bool" where
  "Team_HasMember t member = Team_HasMember_loop (team_Members t) member"

definition TeamPublic_HasMember :: "teamPublic \<Rightarrow> oid \<Rightarrow> bool" where
  "TeamPublic_HasMember t member = Team_HasMember_loop (tp_Members t) member"

fun Team_GetMember_loop :: "teamMember list \<Rightarrow> oid \<Rightarrow> err + teamMember" where
  "Team_GetMember_loop [] memberID = Inl (Err ''member not found'')"
| "Team_GetMember_loop (m # ms) memberID =
     (if tm_Member m = memberID then Inr m else Team_GetMember_loop ms memberID)"

definition Team_GetMember :: "team \<Rightarrow> oid \<Rightarrow> err + teamMember" where
  "Team_GetMember t memberID = Team_GetMember_loop (team_Members t) memberID"

text \<open>The loop of \<open>GetMembersByRole\<close>; \<open>appended\<close> is the map of the member ids already taken.\<close>

fun Team_GetMembersByRole_loop ::
  "teamRole \<Rightarrow> teamMember list \<Rightarrow> teamMember list \<Rightarrow> oid list \<Rightarrow> teamMember list" where
  "Team_GetMembersByRole_loop role [] members appended = members"
| "Team_GetMembersByRole_loop role (m # ms) members appended =
     (if tm_Role m = role \<and> tm_Member m \<notin> set appended
      then Team_GetMembersByRole_loop role ms (members @ [m]) (tm_Member m # appended)
      else Team_GetMembersByRole_loop role ms members appended)"

definition Team_GetMembersByRole :: "team \<Rightarrow> teamRole \<Rightarrow> teamMember list" where
  "Team_GetMembersByRole t role = Team_GetMembersByRole_loop role (team_Members t) [] []"

fun Team_HasMeeting_loop :: "oid list \<Rightarrow> oid \<Rightarrow> bool" where
  "Team_HasMeeting_loop [] i = False"
| "Team_HasMeeting_loop (s # ss) i = (if s = i then True else Team_HasMeeting_loop ss i)"

definition Team_HasMeeting :: "team \<Rightarrow> oid \<Rightarrow> bool" where
  "Team_HasMeeting t i = Team_HasMeeting_loop (team_Meetings t) i"

section \<open>Coordination teams\<close>

record coordinationTeam =
  cot_ID :: oid
  cot_Name :: string
  cot_Coordinator :: "teamMember option"
  cot_CoordinatedMembers :: "oid list"

definition CoordinationTeam_HasCoordinator :: "coordinationTeam \<Rightarrow> oid \<Rightarrow> bool" where
  "CoordinationTeam_HasCoordinator ct member =
     (case cot_Coordinator ct of None \<Rightarrow> False | Some c \<Rightarrow> tm_Member c = member)"

fun CoordinationTeam_HasCoordinatedMember_loop :: "oid list \<Rightarrow> oid \<Rightarrow> bool" where
  "CoordinationTeam_HasCoordinatedMember_loop [] memberID = False"
| "CoordinationTeam_HasCoordinatedMember_loop (m # ms) memberID =
     (if m = memberID then True else CoordinationTeam_HasCoordinatedMember_loop ms memberID)"

definition CoordinationTeam_HasCoordinatedMember :: "coordinationTeam \<Rightarrow> oid \<Rightarrow> bool" where
  "CoordinationTeam_HasCoordinatedMember ct memberID =
     CoordinationTeam_HasCoordinatedMember_loop (cot_CoordinatedMembers ct) memberID"

section \<open>Membership queries\<close>

text \<open>
  The data layer asks whether somebody belongs to a group before it adds or removes them. It
  relies on the query being exact, and on the two updates it makes.
\<close>

locale membership =
  fixes has :: "'t \<Rightarrow> oid \<Rightarrow> bool"
    and members :: "'t \<Rightarrow> 'm list"
    and key :: "'m \<Rightarrow> oid"
  assumes has_iff: "has t i \<longleftrightarrow> i \<in> key ` set (members t)"
begin

lemma has_after_append: "members t' = members t @ [m] \<Longrightarrow> has t' i \<longleftrightarrow> i = key m \<or> has t i"
  by (auto simp: has_iff)

lemma distinct_after_append:
  "members t' = members t @ [m] \<Longrightarrow> \<not> has t (key m) \<Longrightarrow>
   distinct (map key (members t)) \<Longrightarrow> distinct (map key (members t'))"
  by (simp add: has_iff)

lemma has_after_remove:
  "members t = xs @ m # ys \<Longrightarrow> members t' = xs @ ys \<Longrightarrow> distinct (map key (members t)) \<Longrightarrow>
   has t' i \<longleftrightarrow> has t i \<and> i \<noteq> key m"
  by (cases "i = key m") (simp_all add: has_iff image_Un)

end

lemma HasMember_loop_iff: "Team_HasMember_loop ms i \<longleftrightarrow> i \<in> tm_Member ` set ms"
  by (induction ms) auto

lemma HasMeeting_loop_iff: "Team_HasMeeting_loop ms i \<longleftrightarrow> i \<in> set ms"
  by (induction ms) auto

lemma HasCoordinatedMember_loop_iff:
  "CoordinationTeam_HasCoordinatedMember_loop ms i \<longleftrightarrow> i \<in> set ms"
  by (induction ms) auto

interpretation team_members: membership Team_HasMember team_Members tm_Member
  by unfold_locales (simp add: Team_HasMember_def HasMember_loop_iff)

interpretation teamPublic_members: membership TeamPublic_HasMember tp_Members tm_Member
  by unfold_locales (simp add: TeamPublic_HasMember_def HasMember_loop_iff)

interpretation team_meetings: membership Team_HasMeeting team_Meetings "\<lambda>i. i"
  by unfold_locales (simp add: Team_HasMeeting_def HasMeeting_loop_iff)

interpretation coordinated_members:
  membership CoordinationTeam_HasCoordinatedMember cot_CoordinatedMembers "\<lambda>i. i"
  by unfold_locales
    (simp add: CoordinationTeam_HasCoordinatedMember_def HasCoordinatedMember_loop_iff)

section \<open>Functional behaviour of the lookups\<close>

lemma GetMember_loop:
  "Team_GetMember_loop ms i =
     (case List.find (\<lambda>m. tm_Member m = i) ms of
        None \<Rightarrow> Inl (Err ''member not found'') | Some m \<Rightarrow> Inr m)"
  by (induction ms) auto

lemma GetMembersByRole_loop:
  "Team_GetMembersByRole_loop role ms acc seen =
     acc @ Team_GetMembersByRole_loop role ms [] seen"
proof (induction ms arbitrary: acc seen)
  case Nil
  then show ?case by simp
next
  case (Cons m ms)
  show ?case
  proof (cases "tm_Role m = role \<and> tm_Member m \<notin> set seen")
    case True
    then show ?thesis
      using Cons.IH [of "acc @ [m]" "tm_Member m # seen"] Cons.IH [of "[m]" "tm_Member m # seen"]
      by simp
  next
    case False
    then show ?thesis using Cons.IH [of acc seen] by auto
  qed
qed

lemma GetMembersByRole_loop_cons:
  "Team_GetMembersByRole_loop role (m # ms) [] seen =
     (if tm_Role m = role \<and> tm_Member m \<notin> set seen
      then m # Team_GetMembersByRole_loop role ms [] (tm_Member m # seen)
      else Team_GetMembersByRole_loop role ms [] seen)"
  using GetMembersByRole_loop [of role ms "[m]" "tm_Member m # seen"] by simp

lemma GetMembersByRole_loop_mem:
  "m \<in> set (Team_GetMembersByRole_loop role ms [] seen) \<Longrightarrow>
   m \<in> set ms \<and> tm_Role m = role \<and> tm_Member m \<notin> set seen"
  by (induction ms arbitrary: seen)
    (fastforce simp del: Team_GetMembersByRole_loop.simps(2) simp: GetMembersByRole_loop_cons
      split: if_splits)+

lemma GetMembersByRole_loop_distinct:
  "distinct (map tm_Member (Team_GetMembersByRole_loop role ms [] seen))"
  by (induction ms arbitrary: seen)
    (auto simp del: Team_GetMembersByRole_loop.simps(2) simp: GetMembersByRole_loop_cons
      dest: GetMembersByRole_loop_mem)

lemma GetMembersByRole_loop_complete:
  "m \<in> set ms \<Longrightarrow> tm_Role m = role \<Longrightarrow> tm_Member m \<notin> set seen \<Longrightarrow>
   tm_Member m \<in> tm_Member ` set (Team_GetMembersByRole_loop role ms [] seen)"
proof (induction ms arbitrary: seen)
  case Nil
  then show ?case by simp
next
  case (Cons a ms)
  show ?case
  proof (cases "tm_Role a = role \<and> tm_Member a \<notin> set seen")
    case True
    then show ?thesis
      using Cons.prems Cons.IH [of "tm_Member a # seen"]
      by (cases "tm_Member m = tm_Member a") (auto simp: GetMembersByRole_loop_cons
          simp del: Team_GetMembersByRole_loop.simps(2))
  next
    case False
    with Cons.prems have "m \<in> set ms" by auto
    with Cons.IH [of seen] Cons.prems
    have "tm_Member m \<in> tm_Member ` set (Team_GetMembersByRole_loop role ms [] seen)" by simp
    moreover have "Team_GetMembersByRole_loop role (a # ms) [] seen =
        Team_GetMembersByRole_loop role ms [] seen"
      by (subst GetMembersByRole_loop_cons) (use False in auto)
    ultimately show ?thesis by simp
  qed
qed

section \<open>Properties\<close>

text \<open>
  The access check, role by role: who passes a check that asks for each of the four roles, from the highest role
  down. An unknown role passes no check, and nobody passes a check that asks for an unknown role.
\<close>

lemma CheckAccessLevel_table:
  "CheckAccessLevel RoleAdmin cr \<longleftrightarrow> ac_Role cr = RoleAdmin"
  "CheckAccessLevel RoleCoordinator cr \<longleftrightarrow> ac_Role cr \<in> {RoleAdmin, RoleCoordinator}"
  "CheckAccessLevel RoleTeamLeader cr \<longleftrightarrow> ac_Role cr \<in> {RoleAdmin, RoleCoordinator, RoleTeamLeader}"
  "CheckAccessLevel RoleMember cr \<longleftrightarrow> ac_Role cr \<in> {RoleAdmin, RoleCoordinator, RoleTeamLeader, RoleMember}"
  "\<not> CheckAccessLevel (OtherRole s) cr"
  by (cases "ac_Role cr"; simp add: CheckAccessLevel_def)+

text \<open>
  The members of a team with a role: exactly the members that have it, each once, in
  the order of the team, even if a member is listed twice.
\<close>

theorem GetMembersByRole_correct:
  "distinct (map tm_Member (Team_GetMembersByRole t role)) \<and>
   set (Team_GetMembersByRole t role) \<subseteq> set (team_Members t) \<and>
   tm_Member ` set (Team_GetMembersByRole t role) =
     {i. \<exists>m \<in> set (team_Members t). tm_Member m = i \<and> tm_Role m = role} \<and>
   (\<forall>m \<in> set (Team_GetMembersByRole t role). Team_HasMember t (tm_Member m) \<and> tm_Role m = role)"
proof -
  note mem = GetMembersByRole_loop_mem [of _ role "team_Members t" "[]"]
  show ?thesis
    unfolding Team_GetMembersByRole_def
    by (intro conjI GetMembersByRole_loop_distinct)
      (auto simp: team_members.has_iff image_iff dest: mem,
       metis GetMembersByRole_loop_complete empty_iff empty_set imageE)
qed

definition two_members :: team where
  "two_members = \<lparr>team_ID = 1, team_Name = ''t'', team_Members = [\<lparr>tm_Member = 2, tm_Role = RoleMember\<rparr>,
     \<lparr>tm_Member = 3, tm_Role = RoleTeamLeader\<rparr>], team_Meetings = []\<rparr>"

theorem GetMembersByRole_correct_witness:
  "tm_Member ` set (Team_GetMembersByRole two_members RoleTeamLeader) = {3}"
  using GetMembersByRole_correct [of two_members RoleTeamLeader] by (auto simp: two_members_def)

end
