(* ===== verification/Records.thy ===== *)
theory Records
  imports Kinds Roles
begin

text \<open>
  The documents of the database: the structs of \<^verbatim>\<open>backend/src/models\<close>, one record per struct
  with the struct's fields in their order. A field that is a pointer is an \<open>option\<close>; a slice is a
  list (a nil slice and an empty one are not told apart); a \<^verbatim>\<open>time.Time\<close> is an integer, its
  milliseconds since the epoch in UTC, the precision the database keeps; a Go \<^verbatim>\<open>int\<close> is an \<open>int\<close> (no arithmetic of the code comes
  near its bounds). A field a document lacks decodes to the zero value of its type, so the
  records the code inserts carry zero values there.
\<close>

type_synonym time = int

section \<open>Participations and companies (company.go)\<close>

record stand =
  st_StandID :: string
  st_Date :: "time option"

record standDetails =
  sd_Chairs :: int
  sd_Table :: bool
  sd_Lettering :: bool

record companyParticipation =
  cp_Event :: int
  cp_Member :: oid
  cp_Status :: participationStatus
  cp_Communications :: "oid list"
  cp_Subscribers :: "oid list"
  cp_Package :: "oid option"
  cp_Billing :: "oid option"
  cp_Confirmed :: "time option"
  cp_Partner :: bool
  cp_Notes :: string
  cp_GmailThreadIds :: "string list"
  cp_StandDetails :: standDetails
  cp_Stands :: "stand list"

record companyBillingInfo =
  cbi_Name :: string
  cbi_Address :: string
  cbi_TIN :: string

record companyImages =
  cim_Internal :: string
  cim_Public :: string

record company =
  co_ID :: oid
  co_Name :: string
  co_Description :: string
  co_Images :: companyImages
  co_Site :: string
  co_LinkedIn :: string
  co_Employers :: "oid list"
  co_BillingInfo :: companyBillingInfo
  co_Participations :: "companyParticipation list"
  co_Contact :: oid

record packageItem =
  pki_Item :: oid
  pki_Quantity :: int
  pki_Public :: bool

record package =
  pk_ID :: oid
  pk_Name :: string
  pk_Items :: "packageItem list"
  pk_Price :: int
  pk_VAT :: int

record packageItemPublic =
  pkip_Item :: oid
  pkip_Quantity :: int

record packagePublic =
  pkp_Name :: string
  pkp_Items :: "packageItemPublic list"

record companyParticipationPublic =
  cpp_Event :: int
  cpp_Partner :: bool
  cpp_Package :: packagePublic
  cpp_StandDetails :: standDetails
  cpp_Stands :: "stand list"

record companyPublic =
  cop_ID :: oid
  cop_Name :: string
  cop_Image :: string
  cop_Site :: string
  cop_Participations :: "companyParticipationPublic list"

record companyRep =
  cr_ID :: oid
  cr_Name :: string
  cr_Contact :: oid

section \<open>Contacts (contact.go)\<close>

record contactPhone =
  cph_Phone :: string

record contactSocials =
  cso_Facebook :: string
  cso_Skype :: string
  cso_Github :: string
  cso_Twitter :: string
  cso_LinkedIn :: string

record contactMail =
  cma_Mail :: string
  cma_Personal :: bool

record contact =
  ct_ID :: oid
  ct_Gender :: string
  ct_Language :: string
  ct_Phones :: "contactPhone list"
  ct_Socials :: contactSocials
  ct_Mails :: "contactMail list"

section \<open>Speakers (speaker.go, flightInfo.go)\<close>

record speakerParticipationRoom =
  spr_Type :: string
  spr_Cost :: int
  spr_Notes :: string

record speakerParticipation =
  sp_Event :: int
  sp_Member :: oid
  sp_Status :: participationStatus
  sp_Communications :: "oid list"
  sp_Subscribers :: "oid list"
  sp_Feedback :: string
  sp_Flights :: "oid list"
  sp_Room :: speakerParticipationRoom
  sp_GmailThreadIds :: "string list"

record speakerImages =
  sim_Internal :: string
  sim_Speaker :: string
  sim_Company :: string

record speaker =
  s_ID :: oid
  s_Name :: string
  s_Contact :: "oid option"
  s_ContactObject :: "contact option"
  s_Title :: string
  s_Bio :: string
  s_CompanyName :: string
  s_Notes :: string
  s_Images :: speakerImages
  s_Participations :: "speakerParticipation list"

record speakerImagesPublic =
  simp_Speaker :: string
  simp_Company :: string

record speakerParticipationPublic =
  spp_Event :: int
  spp_Feedback :: string

record speakerPublic =
  sp_pub_ID :: oid
  sp_pub_Name :: string
  sp_pub_Title :: string
  sp_pub_Bio :: string
  sp_pub_CompanyName :: string
  sp_pub_Images :: speakerImagesPublic
  sp_pub_Participations :: "speakerParticipationPublic list"

record flightInfo =
  fi_ID :: oid
  fi_Inbound :: time
  fi_Outbound :: time
  fi_From :: string
  fi_To :: string
  fi_Link :: string
  fi_Bought :: bool
  fi_Cost :: int
  fi_Notes :: string

section \<open>Events, sessions and meetings\<close>

record eventPackages =
  ep_Template :: oid
  ep_PublicName :: string
  ep_Available :: bool

record event =
  ev_ID :: int
  ev_Name :: string
  ev_Begin :: "time option"
  ev_End :: "time option"
  ev_Themes :: "string list"
  ev_Packages :: "eventPackages list"
  ev_Items :: "oid list"
  ev_Meetings :: "oid list"
  ev_Sessions :: "oid list"
  ev_Teams :: "oid list"
  ev_CalendarUrl :: string

record eventPublic =
  evp_ID :: int
  evp_Name :: string
  evp_Begin :: "time option"
  evp_End :: "time option"
  evp_Themes :: "string list"
  evp_CalendarUrl :: string

record sessionTickets =
  tk_Start :: time
  tk_End :: time
  tk_Max :: int

record session =
  se_ID :: oid
  se_Begin :: time
  se_End :: time
  se_Title :: string
  se_Description :: string
  se_Image :: string
  se_Place :: string
  se_Kind :: sessionKind
  se_Company :: "oid option"
  se_Speakers :: "oid list option"
  se_VideoURL :: string
  se_Tickets :: "sessionTickets option"

record meetingParticipants =
  mp_Members :: "oid list"
  mp_CompanyReps :: "oid list"

record meeting =
  me_ID :: oid
  me_Title :: string
  me_Kind :: meetingKind
  me_Begin :: time
  me_End :: time
  me_Place :: string
  me_Minute :: string
  me_Communications :: "oid list"
  me_Participants :: meetingParticipants

section \<open>Threads, posts, members, notifications\<close>

record thread =
  th_ID :: oid
  th_Posted :: time
  th_Entry :: oid
  th_Meeting :: "oid option"
  th_Comments :: "oid list"
  th_Kind :: threadKind
  th_Status :: threadStatus
  th_GmailMessageId :: string

record post =
  po_ID :: oid
  po_Member :: oid
  po_Text :: string
  po_Posted :: time
  po_Updated :: "time option"

record member =
  mb_ID :: oid
  mb_Name :: string
  mb_Image :: string
  mb_ISTID :: string
  mb_SINFOID :: string
  mb_Contact :: oid

record memberPublic =
  mbp_Name :: string
  mbp_Image :: string
  mbp_Socials :: contactSocials
  mbp_Team :: string
  mbp_SinfoEmail :: string

record memberEventTeam =
  met_Event :: int
  met_Team :: string
  met_Role :: teamRole

record notification =
  no_ID :: oid
  no_Kind :: notificationKind
  no_Member :: oid
  no_Post :: "oid option"
  no_Thread :: "oid option"
  no_Speaker :: "oid option"
  no_Company :: "oid option"
  no_Meeting :: "oid option"
  no_Session :: "oid option"
  no_Date :: time
  no_Name :: string
  no_Signature :: string

section \<open>Billings, items, templates\<close>

record billingStatus =
  bs_ProForma :: bool
  bs_Invoice :: bool
  bs_Receipt :: bool
  bs_Paid :: bool

record billing =
  bi_ID :: oid
  bi_Status :: billingStatus
  bi_Event :: int
  bi_Company :: "oid option"
  bi_Value :: int
  bi_InvoiceNumber :: string
  bi_Emission :: time
  bi_Notes :: string
  bi_Visible :: bool

record item =
  it_ID :: oid
  it_Name :: string
  it_Type :: string
  it_Description :: string
  it_Image :: string
  it_Price :: int
  it_VAT :: int

record requirement =
  rq_Title :: string
  rq_Name :: string
  rq_Type :: string
  rq_StringValue :: string
  rq_IntegerValue :: int
  rq_BoolValue :: bool
  rq_DateValue :: time

record template =
  te_ID :: oid
  te_Name :: string
  te_Url :: string
  te_Event :: int
  te_Requirements :: "requirement list"
  te_Kind :: string

record itemCategory =
  cat_ID :: oid
  cat_Name :: string

section \<open>Composite structs for responses and public pages\<close>

record sessionPublic =
  sep_ID :: oid
  sep_Begin :: time
  sep_End :: time
  sep_Title :: string
  sep_Description :: string
  sep_Image :: string
  sep_Place :: string
  sep_Kind :: sessionKind
  sep_Company :: "companyPublic option"
  sep_Speakers :: "speakerPublic list option"
  sep_VideoURL :: string
  sep_Tickets :: "sessionTickets option"

record companyRepWithContact =
  crc_ID :: oid
  crc_Name :: string
  crc_Contact :: "contact option"

section \<open>Zero values\<close>

text \<open>The fields a document lacks when the code inserts it decode to these.\<close>

definition zero_standDetails :: standDetails where
  "zero_standDetails = \<lparr>sd_Chairs = 0, sd_Table = False, sd_Lettering = False\<rparr>"

definition zero_companyImages :: companyImages where
  "zero_companyImages = \<lparr>cim_Internal = [], cim_Public = []\<rparr>"

definition zero_companyBillingInfo :: companyBillingInfo where
  "zero_companyBillingInfo = \<lparr>cbi_Name = [], cbi_Address = [], cbi_TIN = []\<rparr>"

definition zero_packagePublic :: packagePublic where
  "zero_packagePublic = \<lparr>pkp_Name = [], pkp_Items = []\<rparr>"

definition zero_room :: speakerParticipationRoom where
  "zero_room = \<lparr>spr_Type = [], spr_Cost = 0, spr_Notes = []\<rparr>"

definition zero_speakerImages :: speakerImages where
  "zero_speakerImages = \<lparr>sim_Internal = [], sim_Speaker = [], sim_Company = []\<rparr>"

definition zero_socials :: contactSocials where
  "zero_socials = \<lparr>cso_Facebook = [], cso_Skype = [], cso_Github = [], cso_Twitter = [],
     cso_LinkedIn = []\<rparr>"

end
