(* ===== verification/World.thy ===== *)
theory World
  imports Driver Records
begin

text \<open>
  The shared state of the program and its environment (\<^verbatim>\<open>backend/src/mongodb/init.go\<close>).

  \<^item> \<open>world\<close>: the documents of the nineteen collections, and the package-level caches of the
    public pages. \<open>w_tick\<close> counts the driver calls; \<open>contents\<close> forgets it, so that
    \<open>contents w' = contents w\<close> says that a run changed neither the database nor a cache. The last
    component is the cache of filled templates (\<^verbatim>\<open>router/templates.go\<close>).
  \<^item> \<open>env\<close>: what the program gets from elsewhere: the driver of each collection, the clock, the
    configuration flags, the hexadecimal form of an \<^verbatim>\<open>ObjectID\<close>, SHA-256, the server's
    regular expression match (with and without case), whether two encodings of one \<^verbatim>\<open>bson.M\<close>
    agree, new \<^verbatim>\<open>ObjectID\<close>s and UUIDs, the reading of IDs and times, the JWT library (signing the
    credentials until a time, and reading them with the verdict of the library), Google's answer about
    a user (their mail), the object storage, the library that recognises file types, and the lookup in
    the cache of filled templates.
    All but the drivers are read at the current \<open>w_tick\<close> where they may change.
  \<^item> \<open>Companies E\<close>, \<open>Speakers E\<close>, \<open>\<dots>\<close>: the handles \<^verbatim>\<open>InitializeDatabase\<close> creates. Each meets
    the contract \<open>observed\<close> of theory Driver.
  \<^item> \<open>mongo_spec bad E\<close>: every driver behaves as documented, and \<open>bad\<close> are the errors a call
    may report at any time: with \<open>outage\<close> any call may fail, with \<open>never\<close> none does.
  \<^item> \<open>ids_ok w\<close>: no two documents of a collection share an \<^verbatim>\<open>_id\<close> (the server's own index).
  \<^item> \<open>local_env\<close>, \<open>empty_world\<close>: an environment and a state for the witnesses.
\<close>

section \<open>The environment\<close>

record env =
  dv_companies :: "(oid, company) driver"
  dv_speakers :: "(oid, speaker) driver"
  dv_events :: "(int, event) driver"
  dv_teams :: "(oid, team) driver"
  dv_members :: "(oid, member) driver"
  dv_items :: "(oid, item) driver"
  dv_categories :: "(oid, itemCategory) driver"
  dv_packages :: "(oid, package) driver"
  dv_meetings :: "(oid, meeting) driver"
  dv_contacts :: "(oid, contact) driver"
  dv_threads :: "(oid, thread) driver"
  dv_posts :: "(oid, post) driver"
  dv_flightInfo :: "(oid, flightInfo) driver"
  dv_sessions :: "(oid, session) driver"
  dv_billings :: "(oid, billing) driver"
  dv_companyReps :: "(oid, companyRep) driver"
  dv_notifications :: "(oid, notification) driver"
  dv_templates :: "(oid, template) driver"
  dv_coordinationTeams :: "(oid, coordinationTeam) driver"
  env_now :: "nat \<Rightarrow> time"
  env_production :: bool
  env_authentication :: bool
  env_hex :: "oid \<Rightarrow> string"
  env_sha256 :: "string \<Rightarrow> string"
  env_regex_i :: "string \<Rightarrow> string \<Rightarrow> bool"
  env_regex :: "string \<Rightarrow> string \<Rightarrow> bool"
  env_sameDoc :: "nat \<Rightarrow> bool"
  env_newObjectID :: "nat \<Rightarrow> oid"
  env_fromHex :: "string \<Rightarrow> err + oid"
  env_parseTime :: "string \<Rightarrow> err + time"
  env_signClaims :: "authorizationCredentials \<Rightarrow> time \<Rightarrow> err + string"
  env_parseClaims :: "nat \<Rightarrow> string \<Rightarrow> err + authorizationCredentials \<times> bool"
  env_userByCode :: "nat \<Rightarrow> string \<Rightarrow> err + string"
  env_userByToken :: "nat \<Rightarrow> string \<Rightarrow> err + string"
  env_userByJWT :: "nat \<Rightarrow> string \<Rightarrow> err + string"
  env_putObject :: "nat \<Rightarrow> string \<Rightarrow> string \<Rightarrow> int \<Rightarrow> string \<Rightarrow> err option"
  env_removeObject :: "nat \<Rightarrow> string \<Rightarrow> err option"
  env_cdnBaseURL :: string
  env_isImage :: "string \<Rightarrow> bool"
  env_matchType :: "string \<Rightarrow> err + string"
  env_newUUID :: "nat \<Rightarrow> string"
  env_cacheGet :: "time \<Rightarrow> (string \<times> string \<times> time) list \<Rightarrow> string \<Rightarrow> string option"

section \<open>The shared state\<close>

record world =
  w_tick :: nat
  w_companies :: "company list"
  w_speakers :: "speaker list"
  w_events :: "event list"
  w_teams :: "team list"
  w_members :: "member list"
  w_items :: "item list"
  w_categories :: "itemCategory list"
  w_packages :: "package list"
  w_meetings :: "meeting list"
  w_contacts :: "contact list"
  w_threads :: "thread list"
  w_posts :: "post list"
  w_flightInfo :: "flightInfo list"
  w_sessions :: "session list"
  w_billings :: "billing list"
  w_companyReps :: "companyRep list"
  w_notifications :: "notification list"
  w_templates :: "template list"
  w_coordinationTeams :: "coordinationTeam list"
  currentPublicEvent :: "eventPublic option"
  currentPublicCompanies :: "companyPublic list option"
  currentPublicSpeakers :: "speakerPublic list option"
  currentPublicMembers :: "memberPublic list option"
  currentPublicSessions :: "sessionPublic list option"
  templateCache :: "(string \<times> string \<times> time) list"

definition tickw :: "world \<Rightarrow> world" where
  "tickw w = w\<lparr>w_tick := Suc (w_tick w)\<rparr>"

definition contents :: "world \<Rightarrow> world" where
  "contents w = w\<lparr>w_tick := 0\<rparr>"

section \<open>The collections\<close>

definition Companies :: "env \<Rightarrow> (world, oid, company) handle" where
  "Companies E = \<lparr>drv = dv_companies E, docs_of = w_companies, put_docs = (\<lambda>ds w. w\<lparr>w_companies := ds\<rparr>),
     ticks = w_tick, tick = tickw\<rparr>"

definition Speakers :: "env \<Rightarrow> (world, oid, speaker) handle" where
  "Speakers E = \<lparr>drv = dv_speakers E, docs_of = w_speakers, put_docs = (\<lambda>ds w. w\<lparr>w_speakers := ds\<rparr>),
     ticks = w_tick, tick = tickw\<rparr>"

definition Events :: "env \<Rightarrow> (world, int, event) handle" where
  "Events E = \<lparr>drv = dv_events E, docs_of = w_events, put_docs = (\<lambda>ds w. w\<lparr>w_events := ds\<rparr>),
     ticks = w_tick, tick = tickw\<rparr>"

definition Teams :: "env \<Rightarrow> (world, oid, team) handle" where
  "Teams E = \<lparr>drv = dv_teams E, docs_of = w_teams, put_docs = (\<lambda>ds w. w\<lparr>w_teams := ds\<rparr>),
     ticks = w_tick, tick = tickw\<rparr>"

definition Members :: "env \<Rightarrow> (world, oid, member) handle" where
  "Members E = \<lparr>drv = dv_members E, docs_of = w_members, put_docs = (\<lambda>ds w. w\<lparr>w_members := ds\<rparr>),
     ticks = w_tick, tick = tickw\<rparr>"

definition Items :: "env \<Rightarrow> (world, oid, item) handle" where
  "Items E = \<lparr>drv = dv_items E, docs_of = w_items, put_docs = (\<lambda>ds w. w\<lparr>w_items := ds\<rparr>),
     ticks = w_tick, tick = tickw\<rparr>"

definition Categories :: "env \<Rightarrow> (world, oid, itemCategory) handle" where
  "Categories E = \<lparr>drv = dv_categories E, docs_of = w_categories, put_docs = (\<lambda>ds w. w\<lparr>w_categories := ds\<rparr>),
     ticks = w_tick, tick = tickw\<rparr>"

definition Packages :: "env \<Rightarrow> (world, oid, package) handle" where
  "Packages E = \<lparr>drv = dv_packages E, docs_of = w_packages, put_docs = (\<lambda>ds w. w\<lparr>w_packages := ds\<rparr>),
     ticks = w_tick, tick = tickw\<rparr>"

definition Meetings :: "env \<Rightarrow> (world, oid, meeting) handle" where
  "Meetings E = \<lparr>drv = dv_meetings E, docs_of = w_meetings, put_docs = (\<lambda>ds w. w\<lparr>w_meetings := ds\<rparr>),
     ticks = w_tick, tick = tickw\<rparr>"

definition Contacts :: "env \<Rightarrow> (world, oid, contact) handle" where
  "Contacts E = \<lparr>drv = dv_contacts E, docs_of = w_contacts, put_docs = (\<lambda>ds w. w\<lparr>w_contacts := ds\<rparr>),
     ticks = w_tick, tick = tickw\<rparr>"

definition Threads :: "env \<Rightarrow> (world, oid, thread) handle" where
  "Threads E = \<lparr>drv = dv_threads E, docs_of = w_threads, put_docs = (\<lambda>ds w. w\<lparr>w_threads := ds\<rparr>),
     ticks = w_tick, tick = tickw\<rparr>"

definition Posts :: "env \<Rightarrow> (world, oid, post) handle" where
  "Posts E = \<lparr>drv = dv_posts E, docs_of = w_posts, put_docs = (\<lambda>ds w. w\<lparr>w_posts := ds\<rparr>),
     ticks = w_tick, tick = tickw\<rparr>"

definition FlightInfos :: "env \<Rightarrow> (world, oid, flightInfo) handle" where
  "FlightInfos E = \<lparr>drv = dv_flightInfo E, docs_of = w_flightInfo, put_docs = (\<lambda>ds w. w\<lparr>w_flightInfo := ds\<rparr>),
     ticks = w_tick, tick = tickw\<rparr>"

definition Sessions :: "env \<Rightarrow> (world, oid, session) handle" where
  "Sessions E = \<lparr>drv = dv_sessions E, docs_of = w_sessions, put_docs = (\<lambda>ds w. w\<lparr>w_sessions := ds\<rparr>),
     ticks = w_tick, tick = tickw\<rparr>"

definition Billings :: "env \<Rightarrow> (world, oid, billing) handle" where
  "Billings E = \<lparr>drv = dv_billings E, docs_of = w_billings, put_docs = (\<lambda>ds w. w\<lparr>w_billings := ds\<rparr>),
     ticks = w_tick, tick = tickw\<rparr>"

definition CompanyReps :: "env \<Rightarrow> (world, oid, companyRep) handle" where
  "CompanyReps E = \<lparr>drv = dv_companyReps E, docs_of = w_companyReps, put_docs = (\<lambda>ds w. w\<lparr>w_companyReps := ds\<rparr>),
     ticks = w_tick, tick = tickw\<rparr>"

definition Notifications :: "env \<Rightarrow> (world, oid, notification) handle" where
  "Notifications E = \<lparr>drv = dv_notifications E, docs_of = w_notifications, put_docs = (\<lambda>ds w. w\<lparr>w_notifications := ds\<rparr>),
     ticks = w_tick, tick = tickw\<rparr>"

definition Templates :: "env \<Rightarrow> (world, oid, template) handle" where
  "Templates E = \<lparr>drv = dv_templates E, docs_of = w_templates, put_docs = (\<lambda>ds w. w\<lparr>w_templates := ds\<rparr>),
     ticks = w_tick, tick = tickw\<rparr>"

definition CoordinationTeams :: "env \<Rightarrow> (world, oid, coordinationTeam) handle" where
  "CoordinationTeams E = \<lparr>drv = dv_coordinationTeams E, docs_of = w_coordinationTeams, put_docs = (\<lambda>ds w. w\<lparr>w_coordinationTeams := ds\<rparr>),
     ticks = w_tick, tick = tickw\<rparr>"

lemma handle_simps [simp]:
  "drv (Companies E) = dv_companies E" "docs_of (Companies E) = w_companies"
  "put_docs (Companies E) ds_companies w = w\<lparr>w_companies := ds_companies\<rparr>" "ticks (Companies E) = w_tick" "tick (Companies E) = tickw"
  "drv (Speakers E) = dv_speakers E" "docs_of (Speakers E) = w_speakers"
  "put_docs (Speakers E) ds_speakers w = w\<lparr>w_speakers := ds_speakers\<rparr>" "ticks (Speakers E) = w_tick" "tick (Speakers E) = tickw"
  "drv (Events E) = dv_events E" "docs_of (Events E) = w_events"
  "put_docs (Events E) ds_events w = w\<lparr>w_events := ds_events\<rparr>" "ticks (Events E) = w_tick" "tick (Events E) = tickw"
  "drv (Teams E) = dv_teams E" "docs_of (Teams E) = w_teams"
  "put_docs (Teams E) ds_teams w = w\<lparr>w_teams := ds_teams\<rparr>" "ticks (Teams E) = w_tick" "tick (Teams E) = tickw"
  "drv (Members E) = dv_members E" "docs_of (Members E) = w_members"
  "put_docs (Members E) ds_members w = w\<lparr>w_members := ds_members\<rparr>" "ticks (Members E) = w_tick" "tick (Members E) = tickw"
  "drv (Items E) = dv_items E" "docs_of (Items E) = w_items"
  "put_docs (Items E) ds_items w = w\<lparr>w_items := ds_items\<rparr>" "ticks (Items E) = w_tick" "tick (Items E) = tickw"
  "drv (Categories E) = dv_categories E" "docs_of (Categories E) = w_categories"
  "put_docs (Categories E) ds_categories w = w\<lparr>w_categories := ds_categories\<rparr>" "ticks (Categories E) = w_tick" "tick (Categories E) = tickw"
  "drv (Packages E) = dv_packages E" "docs_of (Packages E) = w_packages"
  "put_docs (Packages E) ds_packages w = w\<lparr>w_packages := ds_packages\<rparr>" "ticks (Packages E) = w_tick" "tick (Packages E) = tickw"
  "drv (Meetings E) = dv_meetings E" "docs_of (Meetings E) = w_meetings"
  "put_docs (Meetings E) ds_meetings w = w\<lparr>w_meetings := ds_meetings\<rparr>" "ticks (Meetings E) = w_tick" "tick (Meetings E) = tickw"
  "drv (Contacts E) = dv_contacts E" "docs_of (Contacts E) = w_contacts"
  "put_docs (Contacts E) ds_contacts w = w\<lparr>w_contacts := ds_contacts\<rparr>" "ticks (Contacts E) = w_tick" "tick (Contacts E) = tickw"
  "drv (Threads E) = dv_threads E" "docs_of (Threads E) = w_threads"
  "put_docs (Threads E) ds_threads w = w\<lparr>w_threads := ds_threads\<rparr>" "ticks (Threads E) = w_tick" "tick (Threads E) = tickw"
  "drv (Posts E) = dv_posts E" "docs_of (Posts E) = w_posts"
  "put_docs (Posts E) ds_posts w = w\<lparr>w_posts := ds_posts\<rparr>" "ticks (Posts E) = w_tick" "tick (Posts E) = tickw"
  "drv (FlightInfos E) = dv_flightInfo E" "docs_of (FlightInfos E) = w_flightInfo"
  "put_docs (FlightInfos E) ds_flightInfo w = w\<lparr>w_flightInfo := ds_flightInfo\<rparr>" "ticks (FlightInfos E) = w_tick" "tick (FlightInfos E) = tickw"
  "drv (Sessions E) = dv_sessions E" "docs_of (Sessions E) = w_sessions"
  "put_docs (Sessions E) ds_sessions w = w\<lparr>w_sessions := ds_sessions\<rparr>" "ticks (Sessions E) = w_tick" "tick (Sessions E) = tickw"
  "drv (Billings E) = dv_billings E" "docs_of (Billings E) = w_billings"
  "put_docs (Billings E) ds_billings w = w\<lparr>w_billings := ds_billings\<rparr>" "ticks (Billings E) = w_tick" "tick (Billings E) = tickw"
  "drv (CompanyReps E) = dv_companyReps E" "docs_of (CompanyReps E) = w_companyReps"
  "put_docs (CompanyReps E) ds_companyReps w = w\<lparr>w_companyReps := ds_companyReps\<rparr>" "ticks (CompanyReps E) = w_tick" "tick (CompanyReps E) = tickw"
  "drv (Notifications E) = dv_notifications E" "docs_of (Notifications E) = w_notifications"
  "put_docs (Notifications E) ds_notifications w = w\<lparr>w_notifications := ds_notifications\<rparr>" "ticks (Notifications E) = w_tick" "tick (Notifications E) = tickw"
  "drv (Templates E) = dv_templates E" "docs_of (Templates E) = w_templates"
  "put_docs (Templates E) ds_templates w = w\<lparr>w_templates := ds_templates\<rparr>" "ticks (Templates E) = w_tick" "tick (Templates E) = tickw"
  "drv (CoordinationTeams E) = dv_coordinationTeams E" "docs_of (CoordinationTeams E) = w_coordinationTeams"
  "put_docs (CoordinationTeams E) ds_coordinationTeams w = w\<lparr>w_coordinationTeams := ds_coordinationTeams\<rparr>" "ticks (CoordinationTeams E) = w_tick" "tick (CoordinationTeams E) = tickw"
by (simp_all add: Companies_def Speakers_def Events_def Teams_def Members_def Items_def
    Categories_def Packages_def Meetings_def Contacts_def Threads_def Posts_def FlightInfos_def
    Sessions_def Billings_def CompanyReps_def Notifications_def Templates_def
    CoordinationTeams_def)

lemma tickw_simps [simp]:
  "w_companies (tickw w) = w_companies w"
  "w_speakers (tickw w) = w_speakers w"
  "w_events (tickw w) = w_events w"
  "w_teams (tickw w) = w_teams w"
  "w_members (tickw w) = w_members w"
  "w_items (tickw w) = w_items w"
  "w_categories (tickw w) = w_categories w"
  "w_packages (tickw w) = w_packages w"
  "w_meetings (tickw w) = w_meetings w"
  "w_contacts (tickw w) = w_contacts w"
  "w_threads (tickw w) = w_threads w"
  "w_posts (tickw w) = w_posts w"
  "w_flightInfo (tickw w) = w_flightInfo w"
  "w_sessions (tickw w) = w_sessions w"
  "w_billings (tickw w) = w_billings w"
  "w_companyReps (tickw w) = w_companyReps w"
  "w_notifications (tickw w) = w_notifications w"
  "w_templates (tickw w) = w_templates w"
  "w_coordinationTeams (tickw w) = w_coordinationTeams w"
  "currentPublicEvent (tickw w) = currentPublicEvent w"
  "currentPublicCompanies (tickw w) = currentPublicCompanies w"
  "currentPublicSpeakers (tickw w) = currentPublicSpeakers w"
  "currentPublicMembers (tickw w) = currentPublicMembers w"
  "currentPublicSessions (tickw w) = currentPublicSessions w"
  "templateCache (tickw w) = templateCache w"
  by (simp_all add: tickw_def)

lemma tickw_update [simp]:
  "tickw (w_companies_update g_w_companies w) = w_companies_update g_w_companies (tickw w)"
  "tickw (w_speakers_update g_w_speakers w) = w_speakers_update g_w_speakers (tickw w)"
  "tickw (w_events_update g_w_events w) = w_events_update g_w_events (tickw w)"
  "tickw (w_teams_update g_w_teams w) = w_teams_update g_w_teams (tickw w)"
  "tickw (w_members_update g_w_members w) = w_members_update g_w_members (tickw w)"
  "tickw (w_items_update g_w_items w) = w_items_update g_w_items (tickw w)"
  "tickw (w_categories_update g_w_categories w) = w_categories_update g_w_categories (tickw w)"
  "tickw (w_packages_update g_w_packages w) = w_packages_update g_w_packages (tickw w)"
  "tickw (w_meetings_update g_w_meetings w) = w_meetings_update g_w_meetings (tickw w)"
  "tickw (w_contacts_update g_w_contacts w) = w_contacts_update g_w_contacts (tickw w)"
  "tickw (w_threads_update g_w_threads w) = w_threads_update g_w_threads (tickw w)"
  "tickw (w_posts_update g_w_posts w) = w_posts_update g_w_posts (tickw w)"
  "tickw (w_flightInfo_update g_w_flightInfo w) = w_flightInfo_update g_w_flightInfo (tickw w)"
  "tickw (w_sessions_update g_w_sessions w) = w_sessions_update g_w_sessions (tickw w)"
  "tickw (w_billings_update g_w_billings w) = w_billings_update g_w_billings (tickw w)"
  "tickw (w_companyReps_update g_w_companyReps w) = w_companyReps_update g_w_companyReps (tickw w)"
  "tickw (w_notifications_update g_w_notifications w) = w_notifications_update g_w_notifications (tickw w)"
  "tickw (w_templates_update g_w_templates w) = w_templates_update g_w_templates (tickw w)"
  "tickw (w_coordinationTeams_update g_w_coordinationTeams w) = w_coordinationTeams_update g_w_coordinationTeams (tickw w)"
  "tickw (currentPublicEvent_update g_currentPublicEvent w) = currentPublicEvent_update g_currentPublicEvent (tickw w)"
  "tickw (currentPublicCompanies_update g_currentPublicCompanies w) = currentPublicCompanies_update g_currentPublicCompanies (tickw w)"
  "tickw (currentPublicSpeakers_update g_currentPublicSpeakers w) = currentPublicSpeakers_update g_currentPublicSpeakers (tickw w)"
  "tickw (currentPublicMembers_update g_currentPublicMembers w) = currentPublicMembers_update g_currentPublicMembers (tickw w)"
  "tickw (currentPublicSessions_update g_currentPublicSessions w) = currentPublicSessions_update g_currentPublicSessions (tickw w)"
  "tickw (templateCache_update g_templateCache w) = templateCache_update g_templateCache (tickw w)"
  by (simp_all add: tickw_def)

lemma contents_simps [simp]:
  "contents (tickw w) = contents w"
  "contents (contents w) = contents w"
  "w_companies (contents w) = w_companies w"
  "w_speakers (contents w) = w_speakers w"
  "w_events (contents w) = w_events w"
  "w_teams (contents w) = w_teams w"
  "w_members (contents w) = w_members w"
  "w_items (contents w) = w_items w"
  "w_categories (contents w) = w_categories w"
  "w_packages (contents w) = w_packages w"
  "w_meetings (contents w) = w_meetings w"
  "w_contacts (contents w) = w_contacts w"
  "w_threads (contents w) = w_threads w"
  "w_posts (contents w) = w_posts w"
  "w_flightInfo (contents w) = w_flightInfo w"
  "w_sessions (contents w) = w_sessions w"
  "w_billings (contents w) = w_billings w"
  "w_companyReps (contents w) = w_companyReps w"
  "w_notifications (contents w) = w_notifications w"
  "w_templates (contents w) = w_templates w"
  "w_coordinationTeams (contents w) = w_coordinationTeams w"
  "currentPublicEvent (contents w) = currentPublicEvent w"
  "currentPublicCompanies (contents w) = currentPublicCompanies w"
  "currentPublicSpeakers (contents w) = currentPublicSpeakers w"
  "currentPublicMembers (contents w) = currentPublicMembers w"
  "currentPublicSessions (contents w) = currentPublicSessions w"
  "templateCache (contents w) = templateCache w"
  by (simp_all add: contents_def tickw_def)

lemma contents_update [simp]:
  "contents (w_companies_update g_w_companies w) = w_companies_update g_w_companies (contents w)"
  "contents (w_speakers_update g_w_speakers w) = w_speakers_update g_w_speakers (contents w)"
  "contents (w_events_update g_w_events w) = w_events_update g_w_events (contents w)"
  "contents (w_teams_update g_w_teams w) = w_teams_update g_w_teams (contents w)"
  "contents (w_members_update g_w_members w) = w_members_update g_w_members (contents w)"
  "contents (w_items_update g_w_items w) = w_items_update g_w_items (contents w)"
  "contents (w_categories_update g_w_categories w) = w_categories_update g_w_categories (contents w)"
  "contents (w_packages_update g_w_packages w) = w_packages_update g_w_packages (contents w)"
  "contents (w_meetings_update g_w_meetings w) = w_meetings_update g_w_meetings (contents w)"
  "contents (w_contacts_update g_w_contacts w) = w_contacts_update g_w_contacts (contents w)"
  "contents (w_threads_update g_w_threads w) = w_threads_update g_w_threads (contents w)"
  "contents (w_posts_update g_w_posts w) = w_posts_update g_w_posts (contents w)"
  "contents (w_flightInfo_update g_w_flightInfo w) = w_flightInfo_update g_w_flightInfo (contents w)"
  "contents (w_sessions_update g_w_sessions w) = w_sessions_update g_w_sessions (contents w)"
  "contents (w_billings_update g_w_billings w) = w_billings_update g_w_billings (contents w)"
  "contents (w_companyReps_update g_w_companyReps w) = w_companyReps_update g_w_companyReps (contents w)"
  "contents (w_notifications_update g_w_notifications w) = w_notifications_update g_w_notifications (contents w)"
  "contents (w_templates_update g_w_templates w) = w_templates_update g_w_templates (contents w)"
  "contents (w_coordinationTeams_update g_w_coordinationTeams w) = w_coordinationTeams_update g_w_coordinationTeams (contents w)"
  "contents (currentPublicEvent_update g_currentPublicEvent w) = currentPublicEvent_update g_currentPublicEvent (contents w)"
  "contents (currentPublicCompanies_update g_currentPublicCompanies w) = currentPublicCompanies_update g_currentPublicCompanies (contents w)"
  "contents (currentPublicSpeakers_update g_currentPublicSpeakers w) = currentPublicSpeakers_update g_currentPublicSpeakers (contents w)"
  "contents (currentPublicMembers_update g_currentPublicMembers w) = currentPublicMembers_update g_currentPublicMembers (contents w)"
  "contents (currentPublicSessions_update g_currentPublicSessions w) = currentPublicSessions_update g_currentPublicSessions (contents w)"
  "contents (templateCache_update g_templateCache w) = templateCache_update g_templateCache (contents w)"
  by (simp_all add: contents_def)

text \<open>What an equation on \<open>contents\<close> says of each component.\<close>

lemma contents_eqD:
  assumes "contents a = b"
  shows "w_companies a = w_companies b"
    and "w_speakers a = w_speakers b"
    and "w_events a = w_events b"
    and "w_teams a = w_teams b"
    and "w_members a = w_members b"
    and "w_items a = w_items b"
    and "w_categories a = w_categories b"
    and "w_packages a = w_packages b"
    and "w_meetings a = w_meetings b"
    and "w_contacts a = w_contacts b"
    and "w_threads a = w_threads b"
    and "w_posts a = w_posts b"
    and "w_flightInfo a = w_flightInfo b"
    and "w_sessions a = w_sessions b"
    and "w_billings a = w_billings b"
    and "w_companyReps a = w_companyReps b"
    and "w_notifications a = w_notifications b"
    and "w_templates a = w_templates b"
    and "w_coordinationTeams a = w_coordinationTeams b"
    and "currentPublicEvent a = currentPublicEvent b"
    and "currentPublicCompanies a = currentPublicCompanies b"
    and "currentPublicSpeakers a = currentPublicSpeakers b"
    and "currentPublicMembers a = currentPublicMembers b"
    and "currentPublicSessions a = currentPublicSessions b"
    and "templateCache a = templateCache b"
  unfolding assms [symmetric] by simp_all

text \<open>Each collection is a component of its own of the shared state.\<close>

interpretation companies: observed "Companies E" contents for E
  by unfold_locales simp_all

interpretation speakers: observed "Speakers E" contents for E
  by unfold_locales simp_all

interpretation events: observed "Events E" contents for E
  by unfold_locales simp_all

interpretation teams: observed "Teams E" contents for E
  by unfold_locales simp_all

interpretation members: observed "Members E" contents for E
  by unfold_locales simp_all

interpretation items: observed "Items E" contents for E
  by unfold_locales simp_all

interpretation categories: observed "Categories E" contents for E
  by unfold_locales simp_all

interpretation packages: observed "Packages E" contents for E
  by unfold_locales simp_all

interpretation meetings: observed "Meetings E" contents for E
  by unfold_locales simp_all

interpretation contacts: observed "Contacts E" contents for E
  by unfold_locales simp_all

interpretation threads: observed "Threads E" contents for E
  by unfold_locales simp_all

interpretation posts: observed "Posts E" contents for E
  by unfold_locales simp_all

interpretation flightInfo: observed "FlightInfos E" contents for E
  by unfold_locales simp_all

interpretation sessions: observed "Sessions E" contents for E
  by unfold_locales simp_all

interpretation billings: observed "Billings E" contents for E
  by unfold_locales simp_all

interpretation companyReps: observed "CompanyReps E" contents for E
  by unfold_locales simp_all

interpretation notifications: observed "Notifications E" contents for E
  by unfold_locales simp_all

interpretation templates: observed "Templates E" contents for E
  by unfold_locales simp_all

interpretation coordinationTeams: observed "CoordinationTeams E" contents for E
  by unfold_locales simp_all

section \<open>The documented behaviour, for every collection\<close>

definition mongo_spec :: "(err \<Rightarrow> bool) \<Rightarrow> env \<Rightarrow> bool" where
  "mongo_spec bad E \<longleftrightarrow> (\<forall>e. bad e \<longrightarrow> outage e) \<and>
     driver_spec bad co_ID (dv_companies E) \<and>
     driver_spec bad s_ID (dv_speakers E) \<and>
     driver_spec bad ev_ID (dv_events E) \<and>
     driver_spec bad team_ID (dv_teams E) \<and>
     driver_spec bad mb_ID (dv_members E) \<and>
     driver_spec bad it_ID (dv_items E) \<and>
     driver_spec bad cat_ID (dv_categories E) \<and>
     driver_spec bad pk_ID (dv_packages E) \<and>
     driver_spec bad me_ID (dv_meetings E) \<and>
     driver_spec bad ct_ID (dv_contacts E) \<and>
     driver_spec bad th_ID (dv_threads E) \<and>
     driver_spec bad po_ID (dv_posts E) \<and>
     driver_spec bad fi_ID (dv_flightInfo E) \<and>
     driver_spec bad se_ID (dv_sessions E) \<and>
     driver_spec bad bi_ID (dv_billings E) \<and>
     driver_spec bad cr_ID (dv_companyReps E) \<and>
     driver_spec bad no_ID (dv_notifications E) \<and>
     driver_spec bad te_ID (dv_templates E) \<and>
     driver_spec bad cot_ID (dv_coordinationTeams E)"

lemma mongo_specD [simp]:
  assumes "mongo_spec bad E"
  shows "driver_spec bad co_ID (dv_companies E)"
    and "driver_spec bad s_ID (dv_speakers E)"
    and "driver_spec bad ev_ID (dv_events E)"
    and "driver_spec bad team_ID (dv_teams E)"
    and "driver_spec bad mb_ID (dv_members E)"
    and "driver_spec bad it_ID (dv_items E)"
    and "driver_spec bad cat_ID (dv_categories E)"
    and "driver_spec bad pk_ID (dv_packages E)"
    and "driver_spec bad me_ID (dv_meetings E)"
    and "driver_spec bad ct_ID (dv_contacts E)"
    and "driver_spec bad th_ID (dv_threads E)"
    and "driver_spec bad po_ID (dv_posts E)"
    and "driver_spec bad fi_ID (dv_flightInfo E)"
    and "driver_spec bad se_ID (dv_sessions E)"
    and "driver_spec bad bi_ID (dv_billings E)"
    and "driver_spec bad cr_ID (dv_companyReps E)"
    and "driver_spec bad no_ID (dv_notifications E)"
    and "driver_spec bad te_ID (dv_templates E)"
    and "driver_spec bad cot_ID (dv_coordinationTeams E)"
  using assms by (simp_all only: mongo_spec_def)

text \<open>The same, for the driver of each handle.\<close>

lemma mongo_drv:
  assumes "mongo_spec bad E"
  shows "driver_spec bad co_ID (drv (Companies E))"
    and "driver_spec bad s_ID (drv (Speakers E))"
    and "driver_spec bad ev_ID (drv (Events E))"
    and "driver_spec bad team_ID (drv (Teams E))"
    and "driver_spec bad mb_ID (drv (Members E))"
    and "driver_spec bad it_ID (drv (Items E))"
    and "driver_spec bad cat_ID (drv (Categories E))"
    and "driver_spec bad pk_ID (drv (Packages E))"
    and "driver_spec bad me_ID (drv (Meetings E))"
    and "driver_spec bad ct_ID (drv (Contacts E))"
    and "driver_spec bad th_ID (drv (Threads E))"
    and "driver_spec bad po_ID (drv (Posts E))"
    and "driver_spec bad fi_ID (drv (FlightInfos E))"
    and "driver_spec bad se_ID (drv (Sessions E))"
    and "driver_spec bad bi_ID (drv (Billings E))"
    and "driver_spec bad cr_ID (drv (CompanyReps E))"
    and "driver_spec bad no_ID (drv (Notifications E))"
    and "driver_spec bad te_ID (drv (Templates E))"
    and "driver_spec bad cot_ID (drv (CoordinationTeams E))"
  using assms by simp_all

definition ids_ok :: "world \<Rightarrow> bool" where
  "ids_ok w \<longleftrightarrow>
     distinct (map co_ID (w_companies w)) \<and>
     distinct (map s_ID (w_speakers w)) \<and>
     distinct (map ev_ID (w_events w)) \<and>
     distinct (map team_ID (w_teams w)) \<and>
     distinct (map mb_ID (w_members w)) \<and>
     distinct (map it_ID (w_items w)) \<and>
     distinct (map cat_ID (w_categories w)) \<and>
     distinct (map pk_ID (w_packages w)) \<and>
     distinct (map me_ID (w_meetings w)) \<and>
     distinct (map ct_ID (w_contacts w)) \<and>
     distinct (map th_ID (w_threads w)) \<and>
     distinct (map po_ID (w_posts w)) \<and>
     distinct (map fi_ID (w_flightInfo w)) \<and>
     distinct (map se_ID (w_sessions w)) \<and>
     distinct (map bi_ID (w_billings w)) \<and>
     distinct (map cr_ID (w_companyReps w)) \<and>
     distinct (map no_ID (w_notifications w)) \<and>
     distinct (map te_ID (w_templates w)) \<and>
     distinct (map cot_ID (w_coordinationTeams w))"

lemma ids_okD:
  assumes "ids_ok w"
  shows "distinct (map co_ID (w_companies w))"
    and "distinct (map s_ID (w_speakers w))"
    and "distinct (map ev_ID (w_events w))"
    and "distinct (map team_ID (w_teams w))"
    and "distinct (map mb_ID (w_members w))"
    and "distinct (map it_ID (w_items w))"
    and "distinct (map cat_ID (w_categories w))"
    and "distinct (map pk_ID (w_packages w))"
    and "distinct (map me_ID (w_meetings w))"
    and "distinct (map ct_ID (w_contacts w))"
    and "distinct (map th_ID (w_threads w))"
    and "distinct (map po_ID (w_posts w))"
    and "distinct (map fi_ID (w_flightInfo w))"
    and "distinct (map se_ID (w_sessions w))"
    and "distinct (map bi_ID (w_billings w))"
    and "distinct (map cr_ID (w_companyReps w))"
    and "distinct (map no_ID (w_notifications w))"
    and "distinct (map te_ID (w_templates w))"
    and "distinct (map cot_ID (w_coordinationTeams w))"
  using assms by (simp_all add: ids_ok_def)

lemma ids_ok_simps [simp]: "ids_ok (tickw w) = ids_ok w" "ids_ok (contents w) = ids_ok w"
  by (simp_all add: ids_ok_def)

section \<open>An environment in memory\<close>

definition sample_credentials :: authorizationCredentials where
  "sample_credentials = \<lparr>ac_ID = 7, ac_SINFOID = ''ann'', ac_Role = RoleCoordinator, ac_Team = ''b''\<rparr>"

text \<open>
  The cache of filled templates is \<^verbatim>\<open>go-cache\<close>, a third-party package: the state keeps what the program has put
  there (the key, the page and the time it stands until, the newest first), and \<open>env_cacheGet\<close> is what the
  package answers for a key. It documents that a \<^verbatim>\<open>Set\<close> replaces the item of its key, and that an item is found
  until it expires and not after.
\<close>

definition cache_documented :: "env \<Rightarrow> bool" where
  "cache_documented E \<longleftrightarrow> (\<forall>now sets k. case List.find (\<lambda>(key, _). key = k) sets of
     None \<Rightarrow> env_cacheGet E now sets k = None
   | Some (_, page, expires) \<Rightarrow>
       (now < expires \<longrightarrow> env_cacheGet E now sets k = Some page) \<and>
       (expires < now \<longrightarrow> env_cacheGet E now sets k = None))"

definition in_memory_cache :: "time \<Rightarrow> (string \<times> string \<times> time) list \<Rightarrow> string \<Rightarrow> string option" where
  "in_memory_cache now sets k = (case List.find (\<lambda>(key, _). key = k) sets of
     None \<Rightarrow> None
   | Some (_, page, expires) \<Rightarrow> if expires < now then None else Some page)"

lemma in_memory_cache: "env_cacheGet E = in_memory_cache \<Longrightarrow> cache_documented E"
  by (auto simp: cache_documented_def in_memory_cache_def split: option.splits)

definition local_env :: env where
  "local_env = \<lparr>
     dv_companies = local_driver (fresh_nat co_ID) co_ID,
     dv_speakers = local_driver (fresh_nat s_ID) s_ID,
     dv_events = local_driver (fresh_int ev_ID) ev_ID,
     dv_teams = local_driver (fresh_nat team_ID) team_ID,
     dv_members = local_driver (fresh_nat mb_ID) mb_ID,
     dv_items = local_driver (fresh_nat it_ID) it_ID,
     dv_categories = local_driver (fresh_nat cat_ID) cat_ID,
     dv_packages = local_driver (fresh_nat pk_ID) pk_ID,
     dv_meetings = local_driver (fresh_nat me_ID) me_ID,
     dv_contacts = local_driver (fresh_nat ct_ID) ct_ID,
     dv_threads = local_driver (fresh_nat th_ID) th_ID,
     dv_posts = local_driver (fresh_nat po_ID) po_ID,
     dv_flightInfo = local_driver (fresh_nat fi_ID) fi_ID,
     dv_sessions = local_driver (fresh_nat se_ID) se_ID,
     dv_billings = local_driver (fresh_nat bi_ID) bi_ID,
     dv_companyReps = local_driver (fresh_nat cr_ID) cr_ID,
     dv_notifications = local_driver (fresh_nat no_ID) no_ID,
     dv_templates = local_driver (fresh_nat te_ID) te_ID,
     dv_coordinationTeams = local_driver (fresh_nat cot_ID) cot_ID,
     env_now = (\<lambda>t. int t), env_production = True, env_authentication = True,
     env_hex = (\<lambda>i. replicate i CHR ''x''), env_sha256 = (\<lambda>s. s), env_regex_i = (\<lambda>p s. p = s),
     env_regex = (\<lambda>p s. p = s), env_sameDoc = (\<lambda>t. True), env_newObjectID = (\<lambda>t. Suc t),
     env_fromHex = (\<lambda>s. Inr (length s)), env_parseTime = (\<lambda>s. Inr 0),
     env_signClaims = (\<lambda>cr e. if cr = sample_credentials then Inr ''token'' else Inl (Err ''unable to sign'')),
     env_parseClaims = (\<lambda>t s. if s = ''token'' then Inr (sample_credentials, True) else Inl (Err ''invalid token'')),
     env_userByCode = (\<lambda>t s. Inr s), env_userByToken = (\<lambda>t s. Inr s), env_userByJWT = (\<lambda>t s. Inr s),
     env_putObject = (\<lambda>t path data size mime. None), env_removeObject = (\<lambda>t path. None),
     env_cdnBaseURL = ''cdn'', env_isImage = (\<lambda>d. d \<noteq> []), env_matchType = (\<lambda>d. Inr ''image/png''),
     env_newUUID = (\<lambda>t. ''uuid''), env_cacheGet = in_memory_cache\<rparr>"

lemma local_env_drivers [simp]:
  "dv_companies local_env = local_driver (fresh_nat co_ID) co_ID"
  "dv_speakers local_env = local_driver (fresh_nat s_ID) s_ID"
  "dv_events local_env = local_driver (fresh_int ev_ID) ev_ID"
  "dv_teams local_env = local_driver (fresh_nat team_ID) team_ID"
  "dv_members local_env = local_driver (fresh_nat mb_ID) mb_ID"
  "dv_items local_env = local_driver (fresh_nat it_ID) it_ID"
  "dv_categories local_env = local_driver (fresh_nat cat_ID) cat_ID"
  "dv_packages local_env = local_driver (fresh_nat pk_ID) pk_ID"
  "dv_meetings local_env = local_driver (fresh_nat me_ID) me_ID"
  "dv_contacts local_env = local_driver (fresh_nat ct_ID) ct_ID"
  "dv_threads local_env = local_driver (fresh_nat th_ID) th_ID"
  "dv_posts local_env = local_driver (fresh_nat po_ID) po_ID"
  "dv_flightInfo local_env = local_driver (fresh_nat fi_ID) fi_ID"
  "dv_sessions local_env = local_driver (fresh_nat se_ID) se_ID"
  "dv_billings local_env = local_driver (fresh_nat bi_ID) bi_ID"
  "dv_companyReps local_env = local_driver (fresh_nat cr_ID) cr_ID"
  "dv_notifications local_env = local_driver (fresh_nat no_ID) no_ID"
  "dv_templates local_env = local_driver (fresh_nat te_ID) te_ID"
  "dv_coordinationTeams local_env = local_driver (fresh_nat cot_ID) cot_ID"
  by (simp_all only: local_env_def env.simps)

lemma local_env_up: "mongo_spec never local_env"
  unfolding mongo_spec_def local_env_drivers
  by (intro conjI local_driver_up fresh_nat fresh_int) simp

lemma mongo_spec_outage: "mongo_spec bad E \<Longrightarrow> bad e \<Longrightarrow> outage e"
  unfolding mongo_spec_def by (elim conjE) iprover

lemma mongo_spec_aborts [simp]: "mongo_spec bad E \<Longrightarrow> bad e \<Longrightarrow> \<not> aborts e"
  using mongo_spec_outage outage_not_aborts by blast

definition empty_world :: world where
  "empty_world = \<lparr>w_tick = 0, w_companies = [], w_speakers = [], w_events = [], w_teams = [], w_members = [], w_items = [], w_categories = [], w_packages = [], w_meetings = [], w_contacts = [], w_threads = [], w_posts = [], w_flightInfo = [], w_sessions = [], w_billings = [], w_companyReps = [], w_notifications = [], w_templates = [], w_coordinationTeams = [],
     currentPublicEvent = None, currentPublicCompanies = None, currentPublicSpeakers = None,
     currentPublicMembers = None, currentPublicSessions = None, templateCache = []\<rparr>"

lemma empty_world_simps [simp]:
  "w_tick empty_world = 0"
  "w_companies empty_world = []"
  "w_speakers empty_world = []"
  "w_events empty_world = []"
  "w_teams empty_world = []"
  "w_members empty_world = []"
  "w_items empty_world = []"
  "w_categories empty_world = []"
  "w_packages empty_world = []"
  "w_meetings empty_world = []"
  "w_contacts empty_world = []"
  "w_threads empty_world = []"
  "w_posts empty_world = []"
  "w_flightInfo empty_world = []"
  "w_sessions empty_world = []"
  "w_billings empty_world = []"
  "w_companyReps empty_world = []"
  "w_notifications empty_world = []"
  "w_templates empty_world = []"
  "w_coordinationTeams empty_world = []"
  "currentPublicEvent empty_world = None"
  "currentPublicCompanies empty_world = None"
  "currentPublicSpeakers empty_world = None"
  "currentPublicMembers empty_world = None"
  "currentPublicSessions empty_world = None"
  "templateCache empty_world = []"
  by (simp_all add: empty_world_def)

end
