(* ===== verification/Contacts.thy ===== *)
theory Contacts
  imports World GoStrings
begin

text \<open>
  \<^verbatim>\<open>backend/src/mongodb/contact.go\<close>, \<^verbatim>\<open>backend/src/models/contact.go\<close> and
  \<^verbatim>\<open>backend/src/mongodb/companyReps.go\<close>: contacts (of members, speakers and the employees of
  companies), the normal form of links to social networks, and the representatives of companies,
  each of which owns a contact.
\<close>

section \<open>Links\<close>

definition is_web_link :: "string \<Rightarrow> bool" where
  "is_web_link s \<longleftrightarrow> HasPrefix (ToLower s) ''http://'' \<or> HasPrefix (ToLower s) ''https://''"

definition formatSocialURL :: "string \<Rightarrow> string \<Rightarrow> string" where
  "formatSocialURL platform url =
     (if url = '''' then ''''
      else let trimmed = TrimSpace url in
        if is_web_link trimmed then trimmed
        else let p = ToLower platform in
          if p = ''linkedin'' then ''https://linkedin.com/in/'' @ TrimPrefix trimmed ''@''
          else if p = ''twitter'' then ''https://twitter.com/'' @ TrimPrefix trimmed ''@''
          else if p = ''facebook'' then ''https://facebook.com/'' @ TrimPrefix trimmed ''@''
          else if p = ''github'' then ''https://github.com/'' @ TrimPrefix trimmed ''@''
          else trimmed)"

definition formatContactSocials :: "contactSocials \<Rightarrow> contactSocials" where
  "formatContactSocials socials =
     \<lparr>cso_Facebook = formatSocialURL ''facebook'' (cso_Facebook socials),
      cso_Skype = cso_Skype socials,
      cso_Github = formatSocialURL ''github'' (cso_Github socials),
      cso_Twitter = formatSocialURL ''twitter'' (cso_Twitter socials),
      cso_LinkedIn = formatSocialURL ''linkedin'' (cso_LinkedIn socials)\<rparr>"

text \<open>The same for the page of a company (\<^verbatim>\<open>mongodb/company.go\<close>).\<close>

definition formatLinkedInURL :: "string option \<Rightarrow> string option" where
  "formatLinkedInURL url = (case url of
     None \<Rightarrow> None
   | Some u \<Rightarrow>
       if u = '''' then Some u
       else let trimmed = TrimSpace u in
         if is_web_link trimmed then Some trimmed
         else Some (''https://linkedin.com/company/'' @ TrimPrefix trimmed ''@''))"

section \<open>Searching\<close>

fun HasPhone_loop :: "contactPhone list \<Rightarrow> string \<Rightarrow> bool" where
  "HasPhone_loop [] p = False"
| "HasPhone_loop (s # ss) p =
     (if Contains (ToLower (cph_Phone s)) (ToLower p) then True else HasPhone_loop ss p)"

definition Contact_HasPhone :: "contact \<Rightarrow> string \<Rightarrow> bool" where
  "Contact_HasPhone c p = HasPhone_loop (ct_Phones c) p"

fun HasMail_loop :: "contactMail list \<Rightarrow> string \<Rightarrow> bool" where
  "HasMail_loop [] m = False"
| "HasMail_loop (s # ss) m =
     (if Contains (ToLower (cma_Mail s)) (ToLower m) then True else HasMail_loop ss m)"

definition Contact_HasMail :: "contact \<Rightarrow> string \<Rightarrow> bool" where
  "Contact_HasMail c m = HasMail_loop (ct_Mails c) m"

section \<open>Contacts\<close>

record GetContactsOptions =
  gco_Phone :: "string option"
  gco_Mail :: "string option"

record CreateContactData =
  ccd_Gender :: string
  ccd_Language :: string
  ccd_Phones :: "contactPhone list"
  ccd_Socials :: contactSocials
  ccd_Mails :: "contactMail list"

record UpdatePhonesData =
  upd_Phones :: "contactPhone list"

record UpdateMailsData =
  umd_Mails :: "contactMail list"

fun has_empty_phone :: "contactPhone list \<Rightarrow> bool" where
  "has_empty_phone [] = False"
| "has_empty_phone (s # ss) = (if length (cph_Phone s) = 0 then True else has_empty_phone ss)"

fun has_empty_mail :: "contactMail list \<Rightarrow> bool" where
  "has_empty_mail [] = False"
| "has_empty_mail (s # ss) = (if length (cma_Mail s) = 0 then True else has_empty_mail ss)"

definition CreateContactData_ParseBody :: "err + CreateContactData \<Rightarrow> err + CreateContactData" where
  "CreateContactData_ParseBody body = (case body of
     Inl e \<Rightarrow> Inl e
   | Inr ccd \<Rightarrow>
       if has_empty_phone (ccd_Phones ccd) then Inl (Err ''Invalid phone number'')
       else if has_empty_mail (ccd_Mails ccd) then Inl (Err ''Invalid mail'')
       else Inr ccd)"

definition Contacts_GetContact :: "env \<Rightarrow> oid \<Rightarrow> (world, contact) smonad" where
  "Contacts_GetContact E i = FindOne (Contacts E) (\<lambda>c. ct_ID c = i)"

fun select_contacts :: "GetContactsOptions \<Rightarrow> contact list \<Rightarrow> contact list" where
  "select_contacts options [] = []"
| "select_contacts options (contact # cs) =
     (case gco_Mail options of
        None \<Rightarrow> (case gco_Phone options of
            None \<Rightarrow> contact # select_contacts options cs
          | Some phone \<Rightarrow> if Contact_HasPhone contact phone
              then contact # select_contacts options cs else select_contacts options cs)
      | Some mail \<Rightarrow> if Contact_HasMail contact mail then
          (case gco_Phone options of
            None \<Rightarrow> contact # select_contacts options cs
          | Some phone \<Rightarrow> if Contact_HasPhone contact phone
              then contact # select_contacts options cs else select_contacts options cs)
          else select_contacts options cs)"

definition Contacts_GetContacts ::
  "env \<Rightarrow> GetContactsOptions \<Rightarrow> (world, contact list) smonad" where
  "Contacts_GetContacts E options =
     bindE (FindUnchecked (Contacts E) (\<lambda>_. True)) (\<lambda>all.
     retE (select_contacts options all))"

definition contact_of :: "CreateContactData \<Rightarrow> oid \<Rightarrow> contact" where
  "contact_of data i = \<lparr>ct_ID = i, ct_Gender = ccd_Gender data, ct_Language = ccd_Language data,
     ct_Phones = ccd_Phones data, ct_Socials = formatContactSocials (ccd_Socials data),
     ct_Mails = ccd_Mails data\<rparr>"

definition Contacts_CreateContact :: "env \<Rightarrow> CreateContactData \<Rightarrow> (world, contact) smonad" where
  "Contacts_CreateContact E data =
     bindE (InsertOne (Contacts E) (contact_of data)) (\<lambda>insertedID.
     Contacts_GetContact E insertedID)"

definition Contacts_UpdateContact ::
  "env \<Rightarrow> oid \<Rightarrow> CreateContactData \<Rightarrow> (world, contact) smonad" where
  "Contacts_UpdateContact E contactID data =
     FindOneAndUpdate (Contacts E) (\<lambda>c. ct_ID c = contactID)
       (\<lambda>c. c\<lparr>ct_Phones := ccd_Phones data, ct_Socials := formatContactSocials (ccd_Socials data),
              ct_Mails := ccd_Mails data, ct_Gender := ccd_Gender data,
              ct_Language := ccd_Language data\<rparr>)"

definition Contacts_AddPhone :: "env \<Rightarrow> oid \<Rightarrow> contactPhone \<Rightarrow> (world, contact) smonad" where
  "Contacts_AddPhone E i data =
     bindE (Contacts_GetContact E i) (\<lambda>contact.
     let phones = ct_Phones contact @ [data] in
     FindOneAndUpdate (Contacts E) (\<lambda>c. ct_ID c = i) (\<lambda>c. c\<lparr>ct_Phones := phones\<rparr>))"

definition Contacts_AddMail :: "env \<Rightarrow> oid \<Rightarrow> contactMail \<Rightarrow> (world, contact) smonad" where
  "Contacts_AddMail E i data =
     bindE (Contacts_GetContact E i) (\<lambda>contact.
     let mails = ct_Mails contact @ [data] in
     FindOneAndUpdate (Contacts E) (\<lambda>c. ct_ID c = i) (\<lambda>c. c\<lparr>ct_Mails := mails\<rparr>))"

definition Contacts_UpdatePhoneNumbers ::
  "env \<Rightarrow> oid \<Rightarrow> UpdatePhonesData \<Rightarrow> (world, contact) smonad" where
  "Contacts_UpdatePhoneNumbers E i data =
     FindOneAndUpdate (Contacts E) (\<lambda>c. ct_ID c = i) (\<lambda>c. c\<lparr>ct_Phones := upd_Phones data\<rparr>)"

definition Contacts_UpdateMailList ::
  "env \<Rightarrow> oid \<Rightarrow> UpdateMailsData \<Rightarrow> (world, contact) smonad" where
  "Contacts_UpdateMailList E i data =
     FindOneAndUpdate (Contacts E) (\<lambda>c. ct_ID c = i) (\<lambda>c. c\<lparr>ct_Mails := umd_Mails data\<rparr>)"

definition Contacts_UpdateSocials ::
  "env \<Rightarrow> oid \<Rightarrow> contactSocials \<Rightarrow> (world, contact) smonad" where
  "Contacts_UpdateSocials E i data =
     FindOneAndUpdate (Contacts E) (\<lambda>c. ct_ID c = i) (\<lambda>c. c\<lparr>ct_Socials := data\<rparr>)"

definition Contacts_DeleteContact :: "env \<Rightarrow> oid \<Rightarrow> (world, contact) smonad" where
  "Contacts_DeleteContact E i = FindOneAndDelete (Contacts E) (\<lambda>c. ct_ID c = i)"

section \<open>Representatives of companies\<close>

record GetCompanyRepOptions =
  gcr_Name :: "string option"

record CreateCompanyRepData =
  ccr_Name :: "string option"
  ccr_Contact :: "CreateContactData option"

text \<open>
  \<^verbatim>\<open>ParseBody\<close> drops the decoder's error, so \<open>body\<close> is the struct as far as it was filled.
\<close>

definition CreateCompanyRepData_ParseBody ::
  "CreateCompanyRepData \<Rightarrow> err + CreateCompanyRepData" where
  "CreateCompanyRepData_ParseBody ccrp =
     (case ccr_Name ccrp of
        None \<Rightarrow> Inl (Err ''Invalid name'')
      | Some n \<Rightarrow> if length n = 0 then Inl (Err ''Invalid name'') else Inr ccrp)"

definition CompanyReps_GetCompanyRep :: "env \<Rightarrow> oid \<Rightarrow> (world, companyRep) smonad" where
  "CompanyReps_GetCompanyRep E i = FindOne (CompanyReps E) (\<lambda>r. cr_ID r = i)"

definition CompanyReps_GetCompanyReps ::
  "env \<Rightarrow> GetCompanyRepOptions \<Rightarrow> (world, companyRep list) smonad" where
  "CompanyReps_GetCompanyReps E options =
     FindUnchecked (CompanyReps E) (\<lambda>r. case gcr_Name options of
        None \<Rightarrow> True
      | Some n \<Rightarrow> env_regex_i E (''.*'' @ n @ ''.*'') (cr_Name r))"

definition companyRep_of :: "string option \<Rightarrow> oid \<Rightarrow> oid \<Rightarrow> companyRep" where
  "companyRep_of name contact i = \<lparr>cr_ID = i,
     cr_Name = (case name of None \<Rightarrow> [] | Some n \<Rightarrow> n), cr_Contact = contact\<rparr>"

definition CompanyReps_CreateCompanyRep ::
  "env \<Rightarrow> CreateCompanyRepData \<Rightarrow> (world, companyRep) smonad" where
  "CompanyReps_CreateCompanyRep E data =
     bindE (case ccr_Contact data of
         Some contactData \<Rightarrow> Contacts_CreateContact E contactData
       | None \<Rightarrow> Contacts_CreateContact E
           \<lparr>ccd_Gender = [], ccd_Language = [], ccd_Phones = [], ccd_Socials = zero_socials,
            ccd_Mails = []\<rparr>) (\<lambda>contact.
     bindE (InsertOne (CompanyReps E) (companyRep_of (ccr_Name data) (ct_ID contact))) (\<lambda>insertedID.
     CompanyReps_GetCompanyRep E insertedID))"

definition CompanyReps_UpdateCompanyRep ::
  "env \<Rightarrow> oid \<Rightarrow> CreateCompanyRepData \<Rightarrow> (world, companyRep) smonad" where
  "CompanyReps_UpdateCompanyRep E i data =
     bindE (case ccr_Contact data of
         None \<Rightarrow> retE ()
       | Some contactData \<Rightarrow>
           bindE (CompanyReps_GetCompanyRep E i) (\<lambda>existingRep.
           bindE (Contacts_UpdateContact E (cr_Contact existingRep) contactData) (\<lambda>_.
           retE ()))) (\<lambda>_.
     FindOneAndUpdate (CompanyReps E) (\<lambda>r. cr_ID r = i)
       (\<lambda>r. r\<lparr>cr_Name := (case ccr_Name data of None \<Rightarrow> [] | Some n \<Rightarrow> n)\<rparr>))"

definition CompanyReps_DeleteCompanyRep :: "env \<Rightarrow> oid \<Rightarrow> (world, companyRep) smonad" where
  "CompanyReps_DeleteCompanyRep E i =
     bindE (CompanyReps_GetCompanyRep E i) (\<lambda>rep.
     bindE (DeleteOne (CompanyReps E) (\<lambda>r. cr_ID r = i)) (\<lambda>deletedCount.
     if deletedCount \<noteq> 1 then throwE (Err ''should have deleted 1 rep'') else retE rep))"

section \<open>The normal form of a link\<close>

lemma TrimPrefix_suffix: "\<exists>pre. s = pre @ TrimPrefix s p"
  by (metis TrimPrefix_def append_take_drop_id eq_Nil_appendI)

lemma last_link:
  assumes "TrimPrefix (TrimSpace u) p \<noteq> []"
  shows "\<not> is_space (last (TrimPrefix (TrimSpace u) p))"
proof -
  obtain pre where pre: "TrimSpace u = pre @ TrimPrefix (TrimSpace u) p"
    using TrimPrefix_suffix by blast
  then have ne: "TrimSpace u \<noteq> []" using assms by auto
  have "last (TrimSpace u) = last (TrimPrefix (TrimSpace u) p)"
    using pre assms by (metis last_appendR)
  with TrimSpace_ends [OF ne] show ?thesis by simp
qed

text \<open>A link made from a base address is trimmed and recognised as a link.\<close>

lemma base_link:
  assumes "base \<noteq> []" and "\<not> is_space (hd base)" and "\<not> is_space (last base)"
  shows "TrimSpace (base @ TrimPrefix (TrimSpace u) p) = base @ TrimPrefix (TrimSpace u) p"
  by (rule TrimSpace_id) (use assms last_link [of u p] in \<open>cases "TrimPrefix (TrimSpace u) p = []"; simp\<close>)

lemma web_base: "is_web_link base \<Longrightarrow> is_web_link (base @ s)"
  by (auto simp: is_web_link_def HasPrefix_prefix ToLower_def)

lemma link_bases [simp]:
  "is_web_link ''https://linkedin.com/in/''" "is_web_link ''https://twitter.com/''"
  "is_web_link ''https://facebook.com/''" "is_web_link ''https://github.com/''"
  "is_web_link ''https://linkedin.com/company/''"
  by (simp_all add: is_web_link_def HasPrefix_def ToLower_def lower_char_def upper_letters_def
      lower_letters_def)

text \<open>
  The bases the two formatters put before a name, and what they do with the name.
\<close>

definition link_base :: "string \<Rightarrow> bool" where
  "link_base base \<longleftrightarrow> is_web_link base \<and> \<not> is_space (hd base) \<and> \<not> is_space (last base) \<and> base \<noteq> []"

lemma link_base_simps [simp]:
  "link_base ''https://linkedin.com/in/''" "link_base ''https://twitter.com/''"
  "link_base ''https://facebook.com/''" "link_base ''https://github.com/''"
  "link_base ''https://linkedin.com/company/''"
  by (simp_all add: link_base_def is_space_def)

definition complete_link :: "string \<Rightarrow> string \<Rightarrow> string" where
  "complete_link base url = (if url = '''' then '''' else if is_web_link (TrimSpace url)
     then TrimSpace url else base @ TrimPrefix (TrimSpace url) ''@'')"

lemma formatSocialURL_complete:
  "ToLower platform = ''linkedin'' \<Longrightarrow>
     formatSocialURL platform url = complete_link ''https://linkedin.com/in/'' url"
  "ToLower platform = ''twitter'' \<Longrightarrow>
     formatSocialURL platform url = complete_link ''https://twitter.com/'' url"
  "ToLower platform = ''facebook'' \<Longrightarrow>
     formatSocialURL platform url = complete_link ''https://facebook.com/'' url"
  "ToLower platform = ''github'' \<Longrightarrow>
     formatSocialURL platform url = complete_link ''https://github.com/'' url"
  "ToLower platform \<notin> {''linkedin'', ''twitter'', ''facebook'', ''github''} \<Longrightarrow>
     formatSocialURL platform url = TrimSpace url"
  by (auto simp: formatSocialURL_def complete_link_def Let_def TrimSpace_def)

lemma formatLinkedInURL_complete:
  "formatLinkedInURL url = map_option (complete_link ''https://linkedin.com/company/'') url"
  by (cases url) (auto simp: formatLinkedInURL_def complete_link_def Let_def)

lemma complete_link_web: "link_base base \<Longrightarrow> url \<noteq> '''' \<Longrightarrow> is_web_link (complete_link base url)"
  by (simp add: complete_link_def link_base_def web_base)

lemma complete_link_idem:
  assumes "link_base base"
  shows "complete_link base (complete_link base url) = complete_link base url"
proof -
  have trim: "TrimSpace (complete_link base url) = complete_link base url"
    using assms base_link [of base url "''@''"]
    by (simp add: complete_link_def link_base_def) (simp add: TrimSpace_def)
  show ?thesis
  proof (cases "url = ''''")
    case False
    then have "is_web_link (complete_link base url)" by (rule complete_link_web [OF assms])
    with trim show ?thesis by (simp add: complete_link_def [of base "complete_link base url"])
  qed (simp add: complete_link_def)
qed

section \<open>Properties\<close>

text \<open>
  Links are kept in a normal form: formatting is idempotent for every platform and for company
  pages, a link (any string that starts with the http or https scheme, in any case) is only
  trimmed, and on the four known platforms every non-empty input becomes a link.
\<close>

theorem links_normal_form:
  "formatSocialURL platform (formatSocialURL platform url) = formatSocialURL platform url \<and>
   formatLinkedInURL (formatLinkedInURL u) = formatLinkedInURL u \<and>
   formatContactSocials (formatContactSocials so) = formatContactSocials so \<and>
   (is_web_link (TrimSpace url) \<longrightarrow> formatSocialURL platform url = TrimSpace url) \<and>
   (ToLower platform \<in> {''linkedin'', ''twitter'', ''facebook'', ''github''} \<longrightarrow> url \<noteq> '''' \<longrightarrow>
      is_web_link (formatSocialURL platform url))"
proof -
  have idem: "formatSocialURL p (formatSocialURL p x) = formatSocialURL p x" for p x
    by (cases "ToLower p \<in> {''linkedin'', ''twitter'', ''facebook'', ''github''}")
      (auto simp: formatSocialURL_complete complete_link_idem)
  have "formatLinkedInURL (formatLinkedInURL u) = formatLinkedInURL u"
    by (cases u) (simp_all add: formatLinkedInURL_complete complete_link_idem)
  moreover have "formatContactSocials (formatContactSocials so) = formatContactSocials so"
    by (simp add: formatContactSocials_def idem)
  moreover have "formatSocialURL platform url = TrimSpace url" if "is_web_link (TrimSpace url)"
    using that by (auto simp: formatSocialURL_def TrimSpace_def Let_def)
  moreover have "is_web_link (formatSocialURL platform url)"
    if "ToLower platform \<in> {''linkedin'', ''twitter'', ''facebook'', ''github''}" "url \<noteq> ''''"
    using that by (auto simp: formatSocialURL_complete complete_link_web)
  ultimately show ?thesis using idem by blast
qed

theorem links_normal_form_witness:
  "formatSocialURL ''GitHub'' '' @sinfo '' = ''https://github.com/sinfo'' \<and>
   is_web_link (formatSocialURL ''GitHub'' '' @sinfo '')"
proof
  show "formatSocialURL ''GitHub'' '' @sinfo '' = ''https://github.com/sinfo''"
    by (simp add: formatSocialURL_def TrimSpace_def is_space_def is_web_link_def HasPrefix_def
        ToLower_def lower_char_def upper_letters_def lower_letters_def TrimPrefix_def)
  show "is_web_link (formatSocialURL ''GitHub'' '' @sinfo '')"
    using links_normal_form [of "''GitHub''" "'' @sinfo ''"]
    by (simp add: ToLower_def lower_char_def upper_letters_def lower_letters_def)
qed

section \<open>Each operation by key\<close>

lemma HasPhone_loop_iff:
  "HasPhone_loop ps p \<longleftrightarrow> (\<exists>s \<in> set ps. sublist (ToLower p) (ToLower (cph_Phone s)))"
  by (induction ps) (auto simp: Contains_sublist)

lemma HasMail_loop_iff:
  "HasMail_loop ms m \<longleftrightarrow> (\<exists>s \<in> set ms. sublist (ToLower m) (ToLower (cma_Mail s)))"
  by (induction ms) (auto simp: Contains_sublist)

lemma select_contacts_filter:
  "select_contacts options cs = filter (\<lambda>c.
     (case gco_Mail options of None \<Rightarrow> True | Some m \<Rightarrow> Contact_HasMail c m) \<and>
     (case gco_Phone options of None \<Rightarrow> True | Some p \<Rightarrow> Contact_HasPhone c p)) cs"
  by (induction cs) (auto split: option.splits)

lemma keyed_GetContact:
  "mongo_spec bad E \<Longrightarrow> keyed_read bad contents (Contacts E) ct_ID i (Contacts_GetContact E i)"
  unfolding Contacts_GetContact_def by (rule contacts.keyed_readI) simp

lemma keyed_CompanyRep:
  "mongo_spec bad E \<Longrightarrow>
   keyed_read bad contents (CompanyReps E) cr_ID i (CompanyReps_GetCompanyRep E i)"
  unfolding CompanyReps_GetCompanyRep_def by (rule companyReps.keyed_readI) simp

lemma created_Contact:
  "mongo_spec bad E \<Longrightarrow>
   created bad contents (Contacts E) ct_ID (contact_of data) (\<lambda>w. w) (Contacts_CreateContact E data)"
  unfolding Contacts_CreateContact_def Contacts_GetContact_def
  by (rule contacts.createdI) (simp_all add: contact_of_def)

lemma keyed_DeleteCompanyRep:
  "mongo_spec bad E \<Longrightarrow>
   keyed_delete bad contents (CompanyReps E) cr_ID i (\<lambda>w. w) (CompanyReps_DeleteCompanyRep E i)"
  unfolding CompanyReps_DeleteCompanyRep_def
  by (rule companyReps.keyed_delete_countI) (simp_all add: keyed_CompanyRep)

lemma keyed_DeleteContact:
  "mongo_spec bad E \<Longrightarrow>
   keyed_delete bad contents (Contacts E) ct_ID i (\<lambda>w. w) (Contacts_DeleteContact E i)"
  unfolding Contacts_DeleteContact_def by (rule contacts.keyed_deleteI) simp

lemma keyed_UpdateContact:
  "mongo_spec bad E \<Longrightarrow>
   keyed_update bad contents (Contacts E) ct_ID i (\<lambda>_. True) (\<lambda>c. contact_of data (ct_ID c)) (\<lambda>w. w)
     (Contacts_UpdateContact E i data)"
proof -
  have "(\<lambda>c. c\<lparr>ct_Phones := ccd_Phones data, ct_Socials := formatContactSocials (ccd_Socials data),
      ct_Mails := ccd_Mails data, ct_Gender := ccd_Gender data, ct_Language := ccd_Language data\<rparr>) =
    (\<lambda>c. contact_of data (ct_ID c))"
    by (simp add: contact_of_def fun_eq_iff)
  then show "mongo_spec bad E \<Longrightarrow> ?thesis"
    unfolding Contacts_UpdateContact_def by (simp add: contacts.keyed_updateI')
qed

text \<open>
  The operations on contacts implement their abstract ones. A created contact holds the data
  given, with its links in normal form; an update replaces everything but the ID; \<open>AddPhone\<close> and
  \<open>AddMail\<close>, which read the list and write it back, append exactly the new entry; the searches
  keep exactly the contacts with a phone and a mail that contain the text asked for, in any case.
\<close>

theorem contacts_refine:
  assumes "mongo_spec bad E"
  shows "created bad contents (Contacts E) ct_ID (contact_of data) (\<lambda>w. w)
      (Contacts_CreateContact E data) \<and>
    keyed_read bad contents (Contacts E) ct_ID i (Contacts_GetContact E i) \<and>
    keyed_update bad contents (Contacts E) ct_ID i (\<lambda>_. True) (\<lambda>c. contact_of data (ct_ID c)) (\<lambda>w. w)
      (Contacts_UpdateContact E i data) \<and>
    keyed_update bad contents (Contacts E) ct_ID i (\<lambda>_. True)
      (\<lambda>c. c\<lparr>ct_Phones := ct_Phones c @ [ph]\<rparr>) (\<lambda>w. w) (Contacts_AddPhone E i ph) \<and>
    keyed_update bad contents (Contacts E) ct_ID i (\<lambda>_. True)
      (\<lambda>c. c\<lparr>ct_Mails := ct_Mails c @ [ma]\<rparr>) (\<lambda>w. w) (Contacts_AddMail E i ma) \<and>
    keyed_update bad contents (Contacts E) ct_ID i (\<lambda>_. True)
      (\<lambda>c. c\<lparr>ct_Phones := phs\<rparr>) (\<lambda>w. w) (Contacts_UpdatePhoneNumbers E i \<lparr>upd_Phones = phs\<rparr>) \<and>
    keyed_update bad contents (Contacts E) ct_ID i (\<lambda>_. True)
      (\<lambda>c. c\<lparr>ct_Mails := mas\<rparr>) (\<lambda>w. w) (Contacts_UpdateMailList E i \<lparr>umd_Mails = mas\<rparr>) \<and>
    keyed_update bad contents (Contacts E) ct_ID i (\<lambda>_. True)
      (\<lambda>c. c\<lparr>ct_Socials := so\<rparr>) (\<lambda>w. w) (Contacts_UpdateSocials E i so) \<and>
    keyed_delete bad contents (Contacts E) ct_ID i (\<lambda>w. w) (Contacts_DeleteContact E i) \<and>
    set (select_contacts \<lparr>gco_Phone = Some p, gco_Mail = Some m\<rparr> cs) = {c \<in> set cs.
      (\<exists>x \<in> set (ct_Phones c). sublist (ToLower p) (ToLower (cph_Phone x))) \<and>
      (\<exists>x \<in> set (ct_Mails c). sublist (ToLower m) (ToLower (cma_Mail x)))}"
proof -
  have "keyed_update bad contents (Contacts E) ct_ID i (\<lambda>_. True)
      (\<lambda>c. c\<lparr>ct_Phones := ct_Phones c @ [ph]\<rparr>) (\<lambda>w. w) (Contacts_AddPhone E i ph)"
    unfolding Contacts_AddPhone_def Let_def
    by (rule contacts.keyed_read_updateI) (simp_all add: assms keyed_GetContact)
  moreover have "keyed_update bad contents (Contacts E) ct_ID i (\<lambda>_. True)
      (\<lambda>c. c\<lparr>ct_Mails := ct_Mails c @ [ma]\<rparr>) (\<lambda>w. w) (Contacts_AddMail E i ma)"
    unfolding Contacts_AddMail_def Let_def
    by (rule contacts.keyed_read_updateI) (simp_all add: assms keyed_GetContact)
  ultimately show ?thesis
    by (auto simp: created_Contact keyed_GetContact keyed_UpdateContact keyed_DeleteContact assms
        Contacts_UpdatePhoneNumbers_def Contacts_UpdateMailList_def Contacts_UpdateSocials_def
        contacts.keyed_updateI' select_contacts_filter Contact_HasPhone_def Contact_HasMail_def
        HasPhone_loop_iff HasMail_loop_iff)
qed

theorem contacts_refine_witness:
  "keyed_update never contents (Contacts local_env) ct_ID 1 (\<lambda>_. True)
      (\<lambda>c. c\<lparr>ct_Phones := ct_Phones c @ [\<lparr>cph_Phone = ''12''\<rparr>]\<rparr>) (\<lambda>w. w)
      (Contacts_AddPhone local_env 1 \<lparr>cph_Phone = ''12''\<rparr>)"
  using contacts_refine [OF local_env_up] by blast

text \<open>
  A representative created for a company owns a contact created for it, so that its contact
  exists, is its own and holds the data given; deleting the representative deletes it and nothing
  else, and leaves the contact behind.
\<close>

theorem CreateCompanyRep_correct:
  assumes "mongo_spec bad E"
  shows "wp (CompanyReps_CreateCompanyRep E \<lparr>ccr_Name = name, ccr_Contact = Some data\<rparr>)
     (\<lambda>rep w'. \<exists>c. ct_ID c \<notin> ct_ID ` set (w_contacts w) \<and> c = contact_of data (ct_ID c) \<and>
        cr_Contact rep = ct_ID c \<and> cr_ID rep \<notin> cr_ID ` set (w_companyReps w) \<and>
        contents w' = (contents w)\<lparr>w_contacts := w_contacts w @ [c],
          w_companyReps := w_companyReps w @ [rep]\<rparr>)
     (\<lambda>e w'. bad e) w \<and>
   keyed_delete bad contents (CompanyReps E) cr_ID i (\<lambda>w. w) (CompanyReps_DeleteCompanyRep E i)"
proof
  show "keyed_delete bad contents (CompanyReps E) cr_ID i (\<lambda>w. w) (CompanyReps_DeleteCompanyRep E i)"
    by (rule keyed_DeleteCompanyRep [OF assms])
  have rep: "created bad contents (CompanyReps E) cr_ID (companyRep_of name c) (\<lambda>w. w)
      (bindE (InsertOne (CompanyReps E) (companyRep_of name c)) (CompanyReps_GetCompanyRep E))" for c
    unfolding CompanyReps_GetCompanyRep_def
    by (rule companyReps.createdI) (simp_all add: companyRep_of_def assms)
  show "wp (CompanyReps_CreateCompanyRep E \<lparr>ccr_Name = name, ccr_Contact = Some data\<rparr>)
     (\<lambda>rep w'. \<exists>c. ct_ID c \<notin> ct_ID ` set (w_contacts w) \<and> c = contact_of data (ct_ID c) \<and>
        cr_Contact rep = ct_ID c \<and> cr_ID rep \<notin> cr_ID ` set (w_companyReps w) \<and>
        contents w' = (contents w)\<lparr>w_contacts := w_contacts w @ [c],
          w_companyReps := w_companyReps w @ [rep]\<rparr>)
     (\<lambda>e w'. bad e) w"
    unfolding CompanyReps_CreateCompanyRep_def
    unfolding CreateCompanyRepData.simps option.case wp_bindE [of "Contacts_CreateContact E data"]
  proof (rule wp_created [OF created_Contact [OF assms]], goal_cases)
    case (1 k s')
    note s' = contents_eqD [OF 1(2)]
    have id: "ct_ID (contact_of data k) = k" by (simp add: contact_of_def)
    show ?case
      unfolding id
    proof (rule wp_created [OF rep], goal_cases)
      case (1 k' s'')
      then show ?case
        using \<open>k \<notin> ct_ID ` set (docs_of (Contacts E) w)\<close> \<open>contents s' = _\<close>
        by (intro exI [of _ "contact_of data k"]) (simp add: id companyRep_of_def s')
    qed
  qed
qed

definition sample_socials :: contactSocials where
  "sample_socials = \<lparr>cso_Facebook = [], cso_Skype = [], cso_Github = [], cso_Twitter = [], cso_LinkedIn = []\<rparr>"

definition sample_rep :: CreateContactData where
  "sample_rep = \<lparr>ccd_Gender = ''FEMALE'', ccd_Language = ''PORTUGUESE'', ccd_Phones = [],
     ccd_Socials = sample_socials, ccd_Mails = []\<rparr>"

theorem CreateCompanyRep_correct_witness:
  "wp (CompanyReps_CreateCompanyRep local_env \<lparr>ccr_Name = Some ''Ana'', ccr_Contact = Some sample_rep\<rparr>)
     (\<lambda>rep w'. map ct_ID (w_contacts w') = [cr_Contact rep] \<and> w_companyReps w' = [rep])
     (\<lambda>e w'. False) empty_world"
  by (rule wp_mono [OF CreateCompanyRep_correct [OF local_env_up, THEN conjunct1]])
    (auto dest: contents_eqD(10,16))

end
