(* ===== verification/Catalogue.thy ===== *)
theory Catalogue
  imports World
begin

text \<open>
  \<^verbatim>\<open>backend/src/mongodb/item.go\<close>, \<^verbatim>\<open>item_categories.go\<close> and \<^verbatim>\<open>packages.go\<close>: the items the
  organisation offers to companies, their categories, and the packages made of items. A package's
  price is in cents and its VAT a percentage; the checks of the request bodies keep both in
  range, which \<open>price_ok\<close> states.
\<close>

section \<open>Items\<close>

record CreateItemData =
  cid_Name :: string
  cid_Type :: string
  cid_Description :: string
  cid_Price :: int
  cid_VAT :: int

definition CreateItemData_ParseBody :: "err + CreateItemData \<Rightarrow> err + CreateItemData" where
  "CreateItemData_ParseBody body = (case body of
     Inl e \<Rightarrow> Inl e
   | Inr cid \<Rightarrow>
       if length (cid_Name cid) = 0 then Inl (Err ''invalid name'')
       else if length (cid_Type cid) = 0 then Inl (Err ''invalid type'')
       else if length (cid_Description cid) = 0 then Inl (Err ''invalid description'')
       else if cid_Price cid < 0 then Inl (Err ''invalid price'')
       else if cid_VAT cid < 0 \<or> cid_VAT cid > 100 then Inl (Err ''invalid vat'')
       else Inr cid)"

definition item_of :: "CreateItemData \<Rightarrow> oid \<Rightarrow> item" where
  "item_of data i = \<lparr>it_ID = i, it_Name = cid_Name data, it_Type = cid_Type data,
     it_Description = cid_Description data, it_Image = [], it_Price = cid_Price data,
     it_VAT = cid_VAT data\<rparr>"

definition Items_CreateItem :: "env \<Rightarrow> CreateItemData \<Rightarrow> (world, item) smonad" where
  "Items_CreateItem E data =
     onErr (InsertOne (Items E) (item_of data)) (\<lambda>err. throwE (Fatal ''CreateItem''))
       (\<lambda>insertedID. FindOne (Items E) (\<lambda>i. it_ID i = insertedID))"

definition Items_GetItem :: "env \<Rightarrow> oid \<Rightarrow> (world, item) smonad" where
  "Items_GetItem E itemID = FindOne (Items E) (\<lambda>i. it_ID i = itemID)"

record UpdateItemData =
  uid_Name :: string
  uid_Type :: string
  uid_Description :: string
  uid_Price :: int
  uid_VAT :: int

definition UpdateItemData_ParseBody :: "err + UpdateItemData \<Rightarrow> err + UpdateItemData" where
  "UpdateItemData_ParseBody body = (case body of
     Inl e \<Rightarrow> Inl e
   | Inr uid \<Rightarrow>
       if length (uid_Name uid) = 0 then Inl (Err ''invalid name'')
       else if length (uid_Type uid) = 0 then Inl (Err ''invalid type'')
       else if length (uid_Description uid) = 0 then Inl (Err ''invalid description'')
       else if uid_Price uid < 0 then Inl (Err ''invalid price'')
       else if uid_VAT uid < 0 \<or> uid_VAT uid > 100 then Inl (Err ''invalid vat'')
       else Inr uid)"

definition Items_UpdateItem :: "env \<Rightarrow> oid \<Rightarrow> UpdateItemData \<Rightarrow> (world, item) smonad" where
  "Items_UpdateItem E itemID data =
     FindOneAndUpdate (Items E) (\<lambda>i. it_ID i = itemID)
       (\<lambda>i. i\<lparr>it_Name := uid_Name data, it_Type := uid_Type data,
              it_Description := uid_Description data, it_Price := uid_Price data,
              it_VAT := uid_VAT data\<rparr>)"

definition Items_DeleteItem :: "env \<Rightarrow> oid \<Rightarrow> (world, item) smonad" where
  "Items_DeleteItem E itemID =
     bindE (FindOne (Items E) (\<lambda>i. it_ID i = itemID)) (\<lambda>item.
     bindE (DeleteOne (Items E) (\<lambda>i. it_ID i = itemID)) (\<lambda>deletedCount.
     if deletedCount \<noteq> 1 then throwE (Err ''should have deleted 1 item'') else retE item))"

record GetItemsOptions =
  gio_Name :: "string option"
  gio_Type :: "string option"

definition Items_GetItems :: "env \<Rightarrow> GetItemsOptions \<Rightarrow> (world, item list) smonad" where
  "Items_GetItems E options =
     Find (Items E) (\<lambda>i.
       (case gio_Name options of None \<Rightarrow> True
        | Some n \<Rightarrow> env_regex_i E (''.*'' @ n @ ''.*'') (it_Name i)) \<and>
       (case gio_Type options of None \<Rightarrow> True | Some t \<Rightarrow> it_Type i = t))"

definition Items_UpdateItemImage :: "env \<Rightarrow> oid \<Rightarrow> string \<Rightarrow> (world, item) smonad" where
  "Items_UpdateItemImage E itemID url =
     FindOneAndUpdate (Items E) (\<lambda>i. it_ID i = itemID) (\<lambda>i. i\<lparr>it_Image := url\<rparr>)"

section \<open>Categories\<close>

text \<open>A category is given out as its ID in hexadecimal and its name.\<close>

definition Categories_GetCategories :: "env \<Rightarrow> (world, (string \<times> string) list) smonad" where
  "Categories_GetCategories E =
     bindE (Find (Categories E) (\<lambda>_. True)) (\<lambda>ds.
     retE (map (\<lambda>d. (env_hex E (cat_ID d), cat_Name d)) ds))"

definition Categories_CreateCategory :: "env \<Rightarrow> string \<Rightarrow> (world, oid) smonad" where
  "Categories_CreateCategory E name =
     InsertOne (Categories E) (\<lambda>i. \<lparr>cat_ID = i, cat_Name = name\<rparr>)"

definition Categories_UpdateCategory :: "env \<Rightarrow> oid \<Rightarrow> string \<Rightarrow> (world, unit) smonad" where
  "Categories_UpdateCategory E i name =
     bindE (FindOneAndUpdate (Categories E) (\<lambda>c. cat_ID c = i) (\<lambda>c. c\<lparr>cat_Name := name\<rparr>)) (\<lambda>_.
     retE ())"

definition Categories_DeleteCategory :: "env \<Rightarrow> oid \<Rightarrow> (world, unit) smonad" where
  "Categories_DeleteCategory E i =
     bindE (DeleteOne (Categories E) (\<lambda>c. cat_ID c = i)) (\<lambda>deletedCount.
     if deletedCount = 0 then throwE ErrNoDocuments else retE ())"

section \<open>Packages\<close>

record CreatePackageData =
  cpd_Name :: "string option"
  cpd_Items :: "packageItem list option"
  cpd_Price :: "int option"
  cpd_VAT :: "int option"

text \<open>The check that every item of a body exists: one read of the items per entry.\<close>

definition check_item :: "env \<Rightarrow> oid \<Rightarrow> (world, unit) smonad" where
  "check_item E i = onErr (Items_GetItem E i) (\<lambda>_. throwE (Err ''invalid item'')) (\<lambda>_. retE ())"

definition CreatePackageData_ParseBody ::
  "env \<Rightarrow> err + CreatePackageData \<Rightarrow> (world, CreatePackageData) smonad" where
  "CreatePackageData_ParseBody E body =
     bindE (liftR body) (\<lambda>cpd.
     if (case cpd_Name cpd of None \<Rightarrow> True | Some n \<Rightarrow> length n = 0)
     then throwE (Err ''invalid name'')
     else if (case cpd_Price cpd of None \<Rightarrow> True | Some p \<Rightarrow> p < 0)
     then throwE (Err ''invalid price'')
     else if (case cpd_VAT cpd of None \<Rightarrow> True | Some v \<Rightarrow> v < 0 \<or> v > 100)
     then throwE (Err ''invalid vat'')
     else
     bindE (case cpd_Items cpd of
         None \<Rightarrow> retE ()
       | Some items \<Rightarrow> forE items (\<lambda>item. check_item E (pki_Item item))) (\<lambda>_.
     retE cpd))"

definition package_of :: "string \<Rightarrow> int \<Rightarrow> int \<Rightarrow> packageItem list \<Rightarrow> oid \<Rightarrow> package" where
  "package_of name price vat items i =
     \<lparr>pk_ID = i, pk_Name = name, pk_Items = items, pk_Price = price, pk_VAT = vat\<rparr>"

definition Packages_CreatePackage :: "env \<Rightarrow> CreatePackageData \<Rightarrow> (world, package) smonad" where
  "Packages_CreatePackage E data =
     bindE (deref (cpd_Name data)) (\<lambda>name.
     bindE (deref (cpd_Price data)) (\<lambda>price.
     bindE (deref (cpd_VAT data)) (\<lambda>vat.
     onErr (InsertOne (Packages E) (package_of name price vat
              (case cpd_Items data of None \<Rightarrow> [] | Some items \<Rightarrow> items)))
       (\<lambda>err. throwE (Fatal ''CreatePackage''))
       (\<lambda>insertedID. FindOne (Packages E) (\<lambda>p. pk_ID p = insertedID)))))"

definition Packages_GetPackage :: "env \<Rightarrow> oid \<Rightarrow> (world, package) smonad" where
  "Packages_GetPackage E packageID = FindOne (Packages E) (\<lambda>p. pk_ID p = packageID)"

record UpdatePackageItemsData =
  upid_Items :: "packageItem list option"

definition UpdatePackageItemsData_ParseBody ::
  "env \<Rightarrow> err + UpdatePackageItemsData \<Rightarrow> (world, UpdatePackageItemsData) smonad" where
  "UpdatePackageItemsData_ParseBody E body =
     bindE (liftR body) (\<lambda>upid. case upid_Items upid of
       None \<Rightarrow> throwE (Err ''invalid items'')
     | Some items \<Rightarrow>
         bindE (forE items (\<lambda>packageItem.
           if pki_Quantity packageItem < 0
           then throwE (Err ''invalid value for quantity: must be positive integer'')
           else check_item E (pki_Item packageItem))) (\<lambda>_.
         retE upid))"

definition Packages_UpdatePackageItems ::
  "env \<Rightarrow> oid \<Rightarrow> UpdatePackageItemsData \<Rightarrow> (world, package) smonad" where
  "Packages_UpdatePackageItems E packageID data =
     FindOneAndUpdate (Packages E) (\<lambda>p. pk_ID p = packageID)
       (\<lambda>p. p\<lparr>pk_Items := (case upid_Items data of None \<Rightarrow> [] | Some items \<Rightarrow> items)\<rparr>)"

record UpdatePackageData =
  updp_Name :: "string option"
  updp_Price :: "int option"
  updp_VAT :: "int option"

definition UpdatePackageData_ParseBody :: "err + UpdatePackageData \<Rightarrow> err + UpdatePackageData" where
  "UpdatePackageData_ParseBody body = (case body of
     Inl e \<Rightarrow> Inl e
   | Inr upd \<Rightarrow>
       if updp_Name upd = None then Inl (Err ''invalid name'')
       else if (case updp_Price upd of None \<Rightarrow> True | Some p \<Rightarrow> p < 0)
       then Inl (Err ''invalid price'')
       else if (case updp_VAT upd of None \<Rightarrow> True | Some v \<Rightarrow> v < 0 \<or> v > 100)
       then Inl (Err ''invalid vat'')
       else Inr upd)"

definition Packages_UpdatePackage ::
  "env \<Rightarrow> oid \<Rightarrow> UpdatePackageData \<Rightarrow> (world, package) smonad" where
  "Packages_UpdatePackage E packageID data =
     bindE (deref (updp_Name data)) (\<lambda>name.
     bindE (deref (updp_Price data)) (\<lambda>price.
     bindE (deref (updp_VAT data)) (\<lambda>vat.
     FindOneAndUpdate (Packages E) (\<lambda>p. pk_ID p = packageID)
       (\<lambda>p. p\<lparr>pk_Name := name, pk_Price := price, pk_VAT := vat\<rparr>))))"

definition Packages_DeletePackage :: "env \<Rightarrow> oid \<Rightarrow> (world, package) smonad" where
  "Packages_DeletePackage E packageID = FindOneAndDelete (Packages E) (\<lambda>p. pk_ID p = packageID)"

text \<open>
  The update is \<^verbatim>\<open>{"$pull": {"items": itemID}}\<close>: it removes the elements of \<open>items\<close> that equal
  the ID. The elements are documents (item, quantity, public), so none does.
\<close>

definition equals_ObjectID :: "packageItem \<Rightarrow> oid \<Rightarrow> bool" where
  "equals_ObjectID element i = False"

definition Packages_DeleteItemPackage :: "env \<Rightarrow> oid \<Rightarrow> oid \<Rightarrow> (world, package) smonad" where
  "Packages_DeleteItemPackage E packageID itemID =
     FindOneAndUpdate (Packages E) (\<lambda>p. pk_ID p = packageID)
       (\<lambda>p. p\<lparr>pk_Items := pull (\<lambda>element. equals_ObjectID element itemID) (pk_Items p)\<rparr>)"

record GetPackagesOptions =
  gpo_Name :: "string option"
  gpo_Price :: "int option"
  gpo_VAT :: "int option"

definition Packages_GetPackages :: "env \<Rightarrow> GetPackagesOptions \<Rightarrow> (world, package list) smonad" where
  "Packages_GetPackages E options =
     Find (Packages E) (\<lambda>p.
       (case gpo_Name options of None \<Rightarrow> True
        | Some n \<Rightarrow> env_regex_i E (''.*'' @ n @ ''.*'') (pk_Name p)) \<and>
       (case gpo_Price options of None \<Rightarrow> True | Some x \<Rightarrow> pk_Price p = x) \<and>
       (case gpo_VAT options of None \<Rightarrow> True | Some v \<Rightarrow> pk_VAT p = v))"

section \<open>Prices stay in range\<close>

definition price_ok :: "int \<Rightarrow> int \<Rightarrow> bool" where
  "price_ok price vat \<longleftrightarrow> 0 \<le> price \<and> 0 \<le> vat \<and> vat \<le> 100"

definition catalogue_ok :: "world \<Rightarrow> bool" where
  "catalogue_ok w \<longleftrightarrow>
     (\<forall>i \<in> set (w_items w). price_ok (it_Price i) (it_VAT i)) \<and>
     (\<forall>p \<in> set (w_packages w). price_ok (pk_Price p) (pk_VAT p))"

lemma catalogue_ok_tick [simp]:
  "catalogue_ok (tickw w) = catalogue_ok w" "catalogue_ok (contents w) = catalogue_ok w"
  by (simp_all add: catalogue_ok_def)

lemma price_ok_parse:
  "CreateItemData_ParseBody b1 = Inr d1 \<Longrightarrow> price_ok (cid_Price d1) (cid_VAT d1)"
  "UpdateItemData_ParseBody b2 = Inr d2 \<Longrightarrow> price_ok (uid_Price d2) (uid_VAT d2)"
  "UpdatePackageData_ParseBody b3 = Inr d3 \<Longrightarrow>
     \<exists>n p v. d3 = \<lparr>updp_Name = Some n, updp_Price = Some p, updp_VAT = Some v\<rparr> \<and> price_ok p v"
  by (cases d3; auto simp: CreateItemData_ParseBody_def UpdateItemData_ParseBody_def
      UpdatePackageData_ParseBody_def price_ok_def split: sum.splits if_splits option.splits)+

lemma catalogue_ok_eqD: "contents a = b \<Longrightarrow> catalogue_ok a = catalogue_ok b"
  using catalogue_ok_tick(2) by metis

text \<open>A created document in range keeps the catalogue in range, also when reading it back fails.\<close>

lemma wp_created_item:
  assumes "created bad contents (Items E) it_ID mk (\<lambda>w. w) m" and "catalogue_ok w"
    and "\<And>k. price_ok (it_Price (mk k)) (it_VAT (mk k))"
  shows "wp m (\<lambda>_. catalogue_ok) (\<lambda>_. catalogue_ok) w"
proof (rule wp_created [OF assms(1)], goal_cases)
  case (1 k s')
  show ?case unfolding catalogue_ok_eqD [OF 1(2)] using assms(2,3) by (auto simp: catalogue_ok_def)
next
  case (2 e s')
  then show ?case using assms(2,3) by (auto simp: catalogue_ok_def dest!: catalogue_ok_eqD)
qed

lemma wp_created_package:
  assumes "created bad contents (Packages E) pk_ID mk (\<lambda>w. w) m" and "catalogue_ok w"
    and "\<And>k. price_ok (pk_Price (mk k)) (pk_VAT (mk k))"
  shows "wp m (\<lambda>p w'. catalogue_ok w' \<and> p \<in> set (w_packages w') \<and> (\<exists>k. p = mk k))
     (\<lambda>_. catalogue_ok) w"
proof (rule wp_created [OF assms(1)], goal_cases)
  case (1 k s')
  show ?case
    unfolding catalogue_ok_eqD [OF 1(2)] contents_eqD(8) [OF 1(2)]
    using assms(2,3) by (auto simp: catalogue_ok_def)
next
  case (2 e s')
  then show ?case using assms(2,3) by (auto simp: catalogue_ok_def dest!: catalogue_ok_eqD)
qed

text \<open>Reading the items changes nothing.\<close>

lemma wp_check_item:
  assumes "mongo_spec bad E"
    and "\<And>w'. i \<in> it_ID ` set (w_items w) \<Longrightarrow> contents w' = contents w \<Longrightarrow> Q () w'"
    and "\<And>w'. contents w' = contents w \<Longrightarrow> R (Err ''invalid item'') w'"
  shows "wp (check_item E i) Q R w"
  unfolding check_item_def Items_GetItem_def wp_onErr
  by (rule wp_FindOne [where bad = bad and idf = it_ID])
    (use assms mongo_spec_aborts [OF assms(1)] in auto)

lemma wp_CreatePackage_ParseBody:
  assumes "mongo_spec bad E"
  shows "wp (CreatePackageData_ParseBody E body)
     (\<lambda>d w'. contents w' = contents w \<and> body = Inr d \<and>
        (\<exists>n p v. cpd_Name d = Some n \<and> n \<noteq> [] \<and> cpd_Price d = Some p \<and> cpd_VAT d = Some v \<and>
           price_ok p v) \<and>
        (\<forall>items. cpd_Items d = Some items \<longrightarrow> pki_Item ` set items \<subseteq> it_ID ` set (w_items w)))
     (\<lambda>e w'. contents w' = contents w) w"
proof (cases body)
  case (Inr d)
  have loop: "wp (forE items (\<lambda>item. check_item E (pki_Item item)))
      (\<lambda>_ w'. contents w' = contents w \<and> pki_Item ` set items \<subseteq> it_ID ` set (w_items w))
      (\<lambda>e w'. contents w' = contents w) w" for items
  proof (rule wp_forE [where I = "\<lambda>xs w'. contents w' = contents w \<and>
        pki_Item ` set xs \<subseteq> it_ID ` set (w_items w)"], goal_cases)
    case (2 ys x zs t)
    show ?case
      by (rule wp_check_item [OF assms]) (use 2 contents_eqD(6) [of t "contents w"] in auto)
  qed auto
  show ?thesis
    using Inr
    by (auto simp: CreatePackageData_ParseBody_def price_ok_def split: option.splits
        intro!: wp_mono [OF loop])
qed (simp add: CreatePackageData_ParseBody_def)

section \<open>Each operation by key\<close>

lemma created_Item:
  "mongo_spec bad E \<Longrightarrow> created (\<lambda>e. bad e \<or> e = Fatal ''CreateItem'') contents (Items E) it_ID
     (item_of data) (\<lambda>w. w) (Items_CreateItem E data)"
  unfolding Items_CreateItem_def by (rule items.created_fatalI) (simp_all add: item_of_def)

lemma created_Package:
  "mongo_spec bad E \<Longrightarrow> cpd_Name d = Some n \<Longrightarrow> cpd_Price d = Some p \<Longrightarrow> cpd_VAT d = Some v \<Longrightarrow>
   created (\<lambda>e. bad e \<or> e = Fatal ''CreatePackage'') contents (Packages E) pk_ID
     (package_of n p v (case cpd_Items d of None \<Rightarrow> [] | Some items \<Rightarrow> items)) (\<lambda>w. w)
     (Packages_CreatePackage E d)"
  unfolding Packages_CreatePackage_def
  by (simp, rule packages.created_fatalI) (simp_all add: package_of_def)

lemma keyed_GetItem:
  "mongo_spec bad E \<Longrightarrow> keyed_read bad contents (Items E) it_ID i (Items_GetItem E i)"
  unfolding Items_GetItem_def by (rule items.keyed_readI) simp

lemma keyed_GetPackage:
  "mongo_spec bad E \<Longrightarrow> keyed_read bad contents (Packages E) pk_ID i (Packages_GetPackage E i)"
  unfolding Packages_GetPackage_def by (rule packages.keyed_readI) simp

lemma keyed_DeleteItem:
  "mongo_spec bad E \<Longrightarrow> keyed_delete bad contents (Items E) it_ID i (\<lambda>w. w) (Items_DeleteItem E i)"
  unfolding Items_DeleteItem_def
  by (rule items.keyed_delete_countI) (simp_all add: items.keyed_readI)

lemma keyed_DeletePackage:
  "mongo_spec bad E \<Longrightarrow>
   keyed_delete bad contents (Packages E) pk_ID i (\<lambda>w. w) (Packages_DeletePackage E i)"
  unfolding Packages_DeletePackage_def by (rule packages.keyed_deleteI) simp

lemma replaces_catalogue:
  "replaces f u ds y ds' \<Longrightarrow> \<forall>x \<in> set ds. P x \<Longrightarrow> (\<And>x. P x \<Longrightarrow> P (u x)) \<Longrightarrow> \<forall>x \<in> set ds'. P x"
  by (auto simp: replaces_def)

section \<open>Properties\<close>

text \<open>
  C13: prices and VAT stay in range. From a catalogue in range, creating or updating an item or a
  package with a request body that passed its \<open>ParseBody\<close> never panics and leaves the catalogue in
  range, whatever the database answers; and a package is only created of items that exist when
  the body is checked.
\<close>

theorem catalogue_prices_in_range:
  assumes "mongo_spec bad E" and "catalogue_ok w"
  shows "wp (bindE (CreatePackageData_ParseBody E body) (Packages_CreatePackage E))
      (\<lambda>p w'. catalogue_ok w' \<and> p \<in> set (w_packages w') \<and>
        pki_Item ` set (pk_Items p) \<subseteq> it_ID ` set (w_items w))
      (\<lambda>e w'. catalogue_ok w') w \<and>
    (CreateItemData_ParseBody b1 = Inr d1 \<longrightarrow>
      wp (Items_CreateItem E d1) (\<lambda>_. catalogue_ok) (\<lambda>_. catalogue_ok) w) \<and>
    (UpdateItemData_ParseBody b2 = Inr d2 \<longrightarrow>
      wp (Items_UpdateItem E i d2) (\<lambda>_. catalogue_ok) (\<lambda>_. catalogue_ok) w) \<and>
    (UpdatePackageData_ParseBody b3 = Inr d3 \<longrightarrow>
      wp (Packages_UpdatePackage E i d3) (\<lambda>_. catalogue_ok)
        (\<lambda>e w'. catalogue_ok w' \<and> \<not> aborts e) w)"
proof (intro conjI impI)
  show "wp (bindE (CreatePackageData_ParseBody E body) (Packages_CreatePackage E))
      (\<lambda>p w'. catalogue_ok w' \<and> p \<in> set (w_packages w') \<and>
        pki_Item ` set (pk_Items p) \<subseteq> it_ID ` set (w_items w))
      (\<lambda>e w'. catalogue_ok w') w"
    unfolding wp_bindE
  proof (rule wp_mono [OF wp_CreatePackage_ParseBody [OF assms(1)]], goal_cases)
    case (1 d w1)
    then obtain n p v where d: "cpd_Name d = Some n" "cpd_Price d = Some p" "cpd_VAT d = Some v"
      and ok: "price_ok p v" and same: "contents w1 = contents w" by blast
    have "catalogue_ok w1"
      using assms(2) catalogue_ok_eqD [OF same] by simp
    then show ?case
      by (rule wp_mono [OF wp_created_package [OF created_Package [OF assms(1) d]]])
        (use 1 ok d in \<open>auto simp: package_of_def split: option.splits\<close>)
  next
    case (2 e w1)
    then show ?case using assms(2) by (auto dest!: catalogue_ok_eqD)
  qed
next
  assume "CreateItemData_ParseBody b1 = Inr d1"
  from price_ok_parse(1) [OF this]
  show "wp (Items_CreateItem E d1) (\<lambda>_. catalogue_ok) (\<lambda>_. catalogue_ok) w"
    by (intro wp_created_item [OF created_Item [OF assms(1)] assms(2)]) (simp add: item_of_def)
next
  assume "UpdateItemData_ParseBody b2 = Inr d2"
  from price_ok_parse(2) [OF this]
  show "wp (Items_UpdateItem E i d2) (\<lambda>_. catalogue_ok) (\<lambda>_. catalogue_ok) w"
    unfolding Items_UpdateItem_def
    by (intro wp_FindOneAndUpdate [where bad = bad and idf = it_ID])
      (use assms in \<open>auto simp: catalogue_ok_def dest!: replaces_set\<close>)
next
  assume "UpdatePackageData_ParseBody b3 = Inr d3"
  then obtain n p v where "d3 = \<lparr>updp_Name = Some n, updp_Price = Some p, updp_VAT = Some v\<rparr>"
    "price_ok p v" using price_ok_parse(3) by blast
  then show "wp (Packages_UpdatePackage E i d3) (\<lambda>_. catalogue_ok)
      (\<lambda>e w'. catalogue_ok w' \<and> \<not> aborts e) w"
    unfolding Packages_UpdatePackage_def
    by (simp, intro wp_FindOneAndUpdate [where bad = bad and idf = pk_ID])
      (use assms mongo_spec_aborts [OF assms(1)] in \<open>auto simp: catalogue_ok_def dest!: replaces_set\<close>)
qed

theorem catalogue_prices_in_range_witness:
  "wp (Packages_UpdatePackage local_env 1 \<lparr>updp_Name = Some ''p'', updp_Price = Some 5, updp_VAT = Some 23\<rparr>)
     (\<lambda>_. catalogue_ok) (\<lambda>e w'. catalogue_ok w' \<and> \<not> aborts e)
     (empty_world\<lparr>w_packages := [package_of ''q'' 1 6 [] 1]\<rparr>)"
proof -
  have ok: "catalogue_ok (empty_world\<lparr>w_packages := [package_of ''q'' 1 6 [] 1]\<rparr>)"
    by (simp add: catalogue_ok_def price_ok_def package_of_def)
  have "UpdatePackageData_ParseBody
      (Inr \<lparr>updp_Name = Some ''p'', updp_Price = Some 5, updp_VAT = Some 23\<rparr>) =
    Inr \<lparr>updp_Name = Some ''p'', updp_Price = Some 5, updp_VAT = Some 23\<rparr>"
    by (simp add: UpdatePackageData_ParseBody_def)
  with catalogue_prices_in_range [OF local_env_up ok] show ?thesis by blast
qed

text \<open>
  \<open>DeleteItemPackage\<close> is documented to delete an item from a package, but never does: its
  query compares an ID with embedded documents. It returns the package as it was.
\<close>

theorem DeleteItemPackage_keeps_items:
  assumes "mongo_spec bad E"
  shows "keyed_update bad contents (Packages E) pk_ID i (\<lambda>_. True) (\<lambda>p. p) (\<lambda>w. w)
     (Packages_DeleteItemPackage E i item)"
proof -
  have "pull (\<lambda>element. equals_ObjectID element item) xs = xs" for xs
    by (simp add: equals_ObjectID_def pull_def)
  then show ?thesis
    unfolding Packages_DeleteItemPackage_def by (simp add: packages.keyed_updateI' assms)
qed

theorem DeleteItemPackage_keeps_items_witness:
  "keyed_update never contents (Packages local_env) pk_ID 1 (\<lambda>_. True) (\<lambda>p. p) (\<lambda>w. w)
     (Packages_DeleteItemPackage local_env 1 7)"
  by (rule DeleteItemPackage_keeps_items [OF local_env_up])

end
