(* ===== verification/Billing.thy ===== *)
theory Billing
  imports World
begin

text \<open>
  \<^verbatim>\<open>backend/src/mongodb/billing.go\<close> and \<^verbatim>\<open>flightInfo.go\<close>: the bills of companies and the flights of
  speakers. A request body holds pointers, nil where the request has no such field; \<open>ParseBody\<close>
  rejects some of them and the operations follow the rest, so the place where each is
  dereferenced is part of the model.
\<close>

section \<open>Bills\<close>

record GetBillingsOptions =
  gbo_After :: "time option"
  gbo_Before :: "time option"
  gbo_ValueGreaterThan :: "int option"
  gbo_ValueLessThan :: "int option"
  gbo_Event :: "int option"
  gbo_Company :: "oid option"
  gbo_Role :: "teamRole option"

record CreateStatusData =
  csd_Invoice :: "bool option"
  csd_Paid :: "bool option"
  csd_ProForma :: "bool option"
  csd_Receipt :: "bool option"

record CreateBillingData =
  cbd_Status :: "CreateStatusData option"
  cbd_Event :: "int option"
  cbd_Company :: "oid option"
  cbd_Value :: "int option"
  cbd_InvoiceNumber :: "string option"
  cbd_Emission :: "time option"
  cbd_Notes :: "string option"
  cbd_Visible :: "bool option"

definition CreateBillingData_ParseBody :: "err + CreateBillingData \<Rightarrow> err + CreateBillingData" where
  "CreateBillingData_ParseBody body = (case body of
     Inl e \<Rightarrow> Inl e
   | Inr cbd \<Rightarrow> (case cbd_Status cbd of
       None \<Rightarrow> Inl (Err ''invalid status'')
     | Some st \<Rightarrow>
         if csd_Invoice st = None then Inl (Err ''invalid invoice'')
         else if csd_Paid st = None then Inl (Err ''invalid paid'')
         else if csd_ProForma st = None then Inl (Err ''invalid proforma'')
         else if csd_Receipt st = None then Inl (Err ''invalid receipt'')
         else if (case cbd_Value cbd of None \<Rightarrow> True | Some v \<Rightarrow> v < 0)
         then Inl (Err ''invalid value'')
         else if (case cbd_InvoiceNumber cbd of None \<Rightarrow> True | Some n \<Rightarrow> length n = 0)
         then Inl (Err ''invalid invoice number'')
         else if cbd_Emission cbd = None then Inl (Err ''invalid emission time'')
         else if cbd_Event cbd = None then Inl (Err ''invalid event'')
         else Inr cbd))"

text \<open>As in theory Events, a later assignment to one key of the filter replaces an earlier one.\<close>

definition billings_filter :: "GetBillingsOptions \<Rightarrow> billing \<Rightarrow> bool" where
  "billings_filter options b \<longleftrightarrow>
     (case gbo_Role options of None \<Rightarrow> True
      | Some r \<Rightarrow> if TeamRole_AccessLevel r > 1 then bi_Visible b else True) \<and>
     (case gbo_After options of Some t \<Rightarrow> bi_Emission b > t
      | None \<Rightarrow> (case gbo_Before options of Some t \<Rightarrow> bi_Emission b < t | None \<Rightarrow> True)) \<and>
     (case gbo_ValueLessThan options of Some v \<Rightarrow> bi_Value b < v
      | None \<Rightarrow> (case gbo_ValueGreaterThan options of Some v \<Rightarrow> bi_Value b > v | None \<Rightarrow> True)) \<and>
     (case gbo_Company options of None \<Rightarrow> True | Some c \<Rightarrow> bi_Company b = Some c) \<and>
     (case gbo_Event options of None \<Rightarrow> True | Some e \<Rightarrow> bi_Event b = e)"

definition Billings_GetBillings ::
  "env \<Rightarrow> GetBillingsOptions \<Rightarrow> (world, billing list) smonad" where
  "Billings_GetBillings E options = FindUnchecked (Billings E) (billings_filter options)"

definition Billings_GetBilling :: "env \<Rightarrow> oid \<Rightarrow> (world, billing) smonad" where
  "Billings_GetBilling E i = FindOne (Billings E) (\<lambda>b. bi_ID b = i)"

text \<open>The status document of a bill: every pointer of the struct is followed.\<close>

definition billing_status :: "CreateBillingData \<Rightarrow> (world, billingStatus) smonad" where
  "billing_status data =
     bindE (deref (cbd_Status data)) (\<lambda>st.
     bindE (deref (csd_Invoice st)) (\<lambda>invoice.
     bindE (deref (csd_Paid st)) (\<lambda>paid.
     bindE (deref (csd_ProForma st)) (\<lambda>proForma.
     bindE (deref (csd_Receipt st)) (\<lambda>receipt.
     retE \<lparr>bs_ProForma = proForma, bs_Invoice = invoice, bs_Receipt = receipt, bs_Paid = paid\<rparr>)))))"

definition Billings_CreateBilling :: "env \<Rightarrow> CreateBillingData \<Rightarrow> (world, billing) smonad" where
  "Billings_CreateBilling E data =
     bindE (billing_status data) (\<lambda>status.
     bindE (deref (cbd_Event data)) (\<lambda>event.
     bindE (deref (cbd_Value data)) (\<lambda>value.
     bindE (deref (cbd_InvoiceNumber data)) (\<lambda>invoiceNumber.
     bindE (deref (cbd_Emission data)) (\<lambda>emission.
     bindE (deref (cbd_Notes data)) (\<lambda>notes.
     bindE (InsertOne (Billings E) (\<lambda>i.
        \<lparr>bi_ID = i, bi_Status = status, bi_Event = event, bi_Company = cbd_Company data,
         bi_Value = value, bi_InvoiceNumber = invoiceNumber, bi_Emission = emission,
         bi_Notes = notes,
         bi_Visible = (case cbd_Visible data of None \<Rightarrow> False | Some v \<Rightarrow> v)\<rparr>)) (\<lambda>insertedID.
     Billings_GetBilling E insertedID)))))))"

definition Billings_UpdateBilling ::
  "env \<Rightarrow> oid \<Rightarrow> CreateBillingData \<Rightarrow> (world, billing) smonad" where
  "Billings_UpdateBilling E i data =
     bindE (billing_status data) (\<lambda>status.
     bindE (deref (cbd_Event data)) (\<lambda>event.
     bindE (deref (cbd_Value data)) (\<lambda>value.
     bindE (deref (cbd_InvoiceNumber data)) (\<lambda>invoiceNumber.
     bindE (deref (cbd_Emission data)) (\<lambda>emission.
     bindE (deref (cbd_Notes data)) (\<lambda>notes.
     bindE (deref (cbd_Company data)) (\<lambda>company.
     bindE (deref (cbd_Visible data)) (\<lambda>visible.
     FindOneAndUpdate (Billings E) (\<lambda>b. bi_ID b = i)
       (\<lambda>b. b\<lparr>bi_Status := status, bi_Event := event, bi_Value := value,
              bi_InvoiceNumber := invoiceNumber, bi_Emission := emission, bi_Notes := notes,
              bi_Company := Some company, bi_Visible := visible\<rparr>)))))))))"

definition Billings_DeleteBilling :: "env \<Rightarrow> oid \<Rightarrow> (world, billing) smonad" where
  "Billings_DeleteBilling E i =
     bindE (Billings_GetBilling E i) (\<lambda>billing.
     bindE (DeleteOne (Billings E) (\<lambda>b. bi_ID b = i)) (\<lambda>deletedCount.
     if deletedCount \<noteq> 1 then throwE (Err ''should have deleted 1 billing'') else retE billing))"

section \<open>Flights\<close>

record CreateFlightInfoData =
  cfid_Inbound :: "time option"
  cfid_Outbound :: "time option"
  cfid_From :: "string option"
  cfid_To :: "string option"
  cfid_Link :: string
  cfid_Bought :: "bool option"
  cfid_Cost :: "int option"
  cfid_Notes :: "string option"

definition CreateFlightInfoData_ParseBody ::
  "err + CreateFlightInfoData \<Rightarrow> err + CreateFlightInfoData" where
  "CreateFlightInfoData_ParseBody body = (case body of
     Inl e \<Rightarrow> Inl e
   | Inr d \<Rightarrow> (case cfid_Inbound d of
       None \<Rightarrow> Inl (Err ''invalid inbound'')
     | Some inbound \<Rightarrow> (case cfid_Outbound d of
         None \<Rightarrow> Inl (Err ''invalid outbound'')
       | Some outbound \<Rightarrow>
           if inbound < outbound then Inl (Err ''inbound must be after outbound'')
           else if cfid_From d = None then Inl (Err ''invalid from'')
           else if cfid_To d = None then Inl (Err ''invalid to'')
           else if cfid_Bought d = None then Inl (Err ''invalid bought'')
           else if (case cfid_Cost d of None \<Rightarrow> True | Some c \<Rightarrow> c < 0)
           then Inl (Err ''invalid cost'')
           else if cfid_Notes d = None then Inl (Err ''invalid notes'')
           else Inr d)))"

text \<open>The fields of a flight; a nil pointer is stored as null and decodes to the zero value.\<close>

definition flightInfo_of :: "CreateFlightInfoData \<Rightarrow> time \<Rightarrow> time \<Rightarrow> oid \<Rightarrow> flightInfo" where
  "flightInfo_of data inbound outbound i =
     \<lparr>fi_ID = i, fi_Inbound = inbound, fi_Outbound = outbound,
      fi_From = (case cfid_From data of None \<Rightarrow> [] | Some s \<Rightarrow> s),
      fi_To = (case cfid_To data of None \<Rightarrow> [] | Some s \<Rightarrow> s),
      fi_Link = cfid_Link data,
      fi_Bought = (case cfid_Bought data of None \<Rightarrow> False | Some b \<Rightarrow> b),
      fi_Cost = (case cfid_Cost data of None \<Rightarrow> 0 | Some c \<Rightarrow> c),
      fi_Notes = (case cfid_Notes data of None \<Rightarrow> [] | Some s \<Rightarrow> s)\<rparr>"

definition FlightInfo_CreateFlightInfo ::
  "env \<Rightarrow> CreateFlightInfoData \<Rightarrow> (world, flightInfo) smonad" where
  "FlightInfo_CreateFlightInfo E data =
     bindE (deref (cfid_Inbound data)) (\<lambda>inbound.
     bindE (deref (cfid_Outbound data)) (\<lambda>outbound.
     onErr (InsertOne (FlightInfos E) (flightInfo_of data inbound outbound))
       (\<lambda>err. throwE (Fatal ''CreateFlightInfo''))
       (\<lambda>insertedID. FindOne (FlightInfos E) (\<lambda>f. fi_ID f = insertedID))))"

definition FlightInfo_GetFlightInfo :: "env \<Rightarrow> oid \<Rightarrow> (world, flightInfo) smonad" where
  "FlightInfo_GetFlightInfo E i = FindOne (FlightInfos E) (\<lambda>f. fi_ID f = i)"

definition FlightInfo_DeleteFlightInfo :: "env \<Rightarrow> oid \<Rightarrow> (world, flightInfo) smonad" where
  "FlightInfo_DeleteFlightInfo E i =
     bindE (FlightInfo_GetFlightInfo E i) (\<lambda>flightInfo.
     bindE (DeleteOne (FlightInfos E) (\<lambda>f. fi_ID f = i)) (\<lambda>deletedCount.
     if deletedCount \<noteq> 1 then throwE (Err ''should have deleted 1 flight info'')
     else retE flightInfo))"

definition FlightInfo_UpdateFlightInfo ::
  "env \<Rightarrow> oid \<Rightarrow> CreateFlightInfoData \<Rightarrow> (world, flightInfo) smonad" where
  "FlightInfo_UpdateFlightInfo E i data =
     bindE (deref (cfid_Inbound data)) (\<lambda>inbound.
     bindE (deref (cfid_Outbound data)) (\<lambda>outbound.
     FindOneAndUpdate (FlightInfos E) (\<lambda>f. fi_ID f = i)
       (\<lambda>f. flightInfo_of data inbound outbound (fi_ID f))))"

section \<open>Each operation by key\<close>

lemma keyed_GetBilling:
  "mongo_spec bad E \<Longrightarrow> keyed_read bad contents (Billings E) bi_ID i (Billings_GetBilling E i)"
  unfolding Billings_GetBilling_def by (rule billings.keyed_readI) simp

lemma keyed_DeleteBilling:
  "mongo_spec bad E \<Longrightarrow>
   keyed_delete bad contents (Billings E) bi_ID i (\<lambda>w. w) (Billings_DeleteBilling E i)"
  unfolding Billings_DeleteBilling_def
  by (rule billings.keyed_delete_countI) (simp_all add: keyed_GetBilling)

lemma keyed_GetFlightInfo:
  "mongo_spec bad E \<Longrightarrow>
   keyed_read bad contents (FlightInfos E) fi_ID i (FlightInfo_GetFlightInfo E i)"
  unfolding FlightInfo_GetFlightInfo_def by (rule flightInfo.keyed_readI) simp

lemma keyed_DeleteFlightInfo:
  "mongo_spec bad E \<Longrightarrow>
   keyed_delete bad contents (FlightInfos E) fi_ID i (\<lambda>w. w) (FlightInfo_DeleteFlightInfo E i)"
  unfolding FlightInfo_DeleteFlightInfo_def
  by (rule flightInfo.keyed_delete_countI) (simp_all add: keyed_GetFlightInfo)

lemma parsed_billing:
  assumes "CreateBillingData_ParseBody body = Inr d"
  shows "body = Inr d \<and> (\<exists>invoice paid proForma receipt value number emission event.
     d = \<lparr>cbd_Status = Some \<lparr>csd_Invoice = Some invoice, csd_Paid = Some paid,
            csd_ProForma = Some proForma, csd_Receipt = Some receipt\<rparr>,
          cbd_Event = Some event, cbd_Company = cbd_Company d, cbd_Value = Some value,
          cbd_InvoiceNumber = Some number, cbd_Emission = Some emission, cbd_Notes = cbd_Notes d,
          cbd_Visible = cbd_Visible d\<rparr> \<and> 0 \<le> value \<and> number \<noteq> [])"
proof (cases body)
  case (Inr b)
  obtain st where st: "cbd_Status b = Some st"
    using assms Inr by (cases "cbd_Status b") (auto simp: CreateBillingData_ParseBody_def)
  show ?thesis
    using assms Inr st
    by (cases d; cases st) (auto simp: CreateBillingData_ParseBody_def split: if_splits option.splits)
qed (use assms in \<open>simp add: CreateBillingData_ParseBody_def\<close>)

lemma parsed_flight:
  assumes "CreateFlightInfoData_ParseBody body = Inr d"
  shows "\<exists>inbound outbound. cfid_Inbound d = Some inbound \<and> cfid_Outbound d = Some outbound \<and>
     outbound \<le> inbound \<and> 0 \<le> fi_Cost (flightInfo_of d inbound outbound i)"
  using assms
  by (auto simp: CreateFlightInfoData_ParseBody_def flightInfo_of_def
      split: sum.splits option.splits if_splits)

section \<open>Properties\<close>

text \<open>
  What the check of a bill's request body is worth. A body \<open>ParseBody\<close> accepts makes
  \<open>CreateBilling\<close> panic exactly when it has no notes, and \<open>UpdateBilling\<close> exactly when it lacks the
  notes, the company or the visibility: the check does not ask for these fields and the
  operations follow their pointers. With them, the bill created or updated holds the body's data, with
  a value that is not negative.
\<close>

theorem parsed_billing_safe:
  assumes "mongo_spec bad E" and "CreateBillingData_ParseBody body = Inr d"
  shows "((\<exists>w. fst (Billings_CreateBilling E d w) = Inl (Panic ''nil pointer dereference'')) \<longleftrightarrow>
       cbd_Notes d = None) \<and>
     ((\<exists>w. fst (Billings_UpdateBilling E i d w) = Inl (Panic ''nil pointer dereference'')) \<longleftrightarrow>
       cbd_Notes d = None \<or> cbd_Company d = None \<or> cbd_Visible d = None) \<and>
     (\<forall>nts. cbd_Notes d = Some nts \<longrightarrow>
       (\<exists>mk. created bad contents (Billings E) bi_ID mk (\<lambda>w. w) (Billings_CreateBilling E d) \<and>
         (\<forall>k. bi_Notes (mk k) = nts \<and> 0 \<le> bi_Value (mk k) \<and> cbd_Value d = Some (bi_Value (mk k)) \<and>
            cbd_Event d = Some (bi_Event (mk k)) \<and> bi_Company (mk k) = cbd_Company d)))"
proof -
  obtain invoice paid proForma receipt "value" number emission event where
    d: "d = \<lparr>cbd_Status = Some \<lparr>csd_Invoice = Some invoice, csd_Paid = Some paid,
            csd_ProForma = Some proForma, csd_Receipt = Some receipt\<rparr>,
          cbd_Event = Some event, cbd_Company = cbd_Company d, cbd_Value = Some value,
          cbd_InvoiceNumber = Some number, cbd_Emission = Some emission, cbd_Notes = cbd_Notes d,
          cbd_Visible = cbd_Visible d\<rparr>" and "value": "0 \<le> value"
    using parsed_billing [OF assms(2)] by blast
  have fields: "cbd_Status d = Some \<lparr>csd_Invoice = Some invoice, csd_Paid = Some paid,
            csd_ProForma = Some proForma, csd_Receipt = Some receipt\<rparr>"
    "cbd_Event d = Some event" "cbd_Value d = Some value" "cbd_InvoiceNumber d = Some number"
    "cbd_Emission d = Some emission"
    by (subst d, simp)+
  define mk where "mk nts = (\<lambda>i. \<lparr>bi_ID = i, bi_Status = \<lparr>bs_ProForma = proForma,
      bs_Invoice = invoice, bs_Receipt = receipt, bs_Paid = paid\<rparr>, bi_Event = event,
    bi_Company = cbd_Company d, bi_Value = value, bi_InvoiceNumber = number,
    bi_Emission = emission, bi_Notes = nts,
    bi_Visible = (case cbd_Visible d of None \<Rightarrow> False | Some v \<Rightarrow> v)\<rparr>)" for nts
  have create: "Billings_CreateBilling E d = (case cbd_Notes d of
      None \<Rightarrow> throwE (Panic ''nil pointer dereference'')
    | Some nts \<Rightarrow> bindE (InsertOne (Billings E) (mk nts)) (Billings_GetBilling E))"
    by (auto simp: Billings_CreateBilling_def billing_status_def fields mk_def split: option.split)
  have made: "created bad contents (Billings E) bi_ID (mk nts) (\<lambda>w. w)
      (bindE (InsertOne (Billings E) (mk nts)) (Billings_GetBilling E))" for nts
    unfolding Billings_GetBilling_def by (rule billings.createdI) (simp_all add: assms mk_def)
  have no_panic: "fst (m w) \<noteq> Inl (Panic msg)"
    if "wp m (\<lambda>_ _. True) (\<lambda>e _. \<not> aborts e) w" for m :: "(world, billing) smonad" and w msg
    using that by (auto simp: wp_def split: prod.splits sum.splits)
  have "fst (bindE (InsertOne (Billings E) (mk nts)) (Billings_GetBilling E) w) \<noteq> Inl (Panic msg)"
    for nts w msg
    by (rule no_panic, rule wp_created [OF made]) (use mongo_spec_aborts [OF assms(1)] in auto)
  moreover have "fst (FindOneAndUpdate (Billings E) f u w) \<noteq> Inl (Panic msg)" for f u w msg
    by (rule no_panic, rule wp_FindOneAndUpdate [where bad = bad and idf = bi_ID])
      (use assms mongo_spec_aborts [OF assms(1)] in auto)
  ultimately have "(\<exists>w. fst (Billings_CreateBilling E d w) = Inl (Panic ''nil pointer dereference'')) \<longleftrightarrow>
       cbd_Notes d = None"
    and "(\<exists>w. fst (Billings_UpdateBilling E i d w) = Inl (Panic ''nil pointer dereference'')) \<longleftrightarrow>
       cbd_Notes d = None \<or> cbd_Company d = None \<or> cbd_Visible d = None"
    by (cases "cbd_Notes d"; cases "cbd_Company d"; cases "cbd_Visible d";
        simp add: create Billings_UpdateBilling_def billing_status_def fields)+
  moreover have "\<exists>mk. created bad contents (Billings E) bi_ID mk (\<lambda>w. w) (Billings_CreateBilling E d) \<and>
         (\<forall>k. bi_Notes (mk k) = nts \<and> 0 \<le> bi_Value (mk k) \<and> cbd_Value d = Some (bi_Value (mk k)) \<and>
            cbd_Event d = Some (bi_Event (mk k)) \<and> bi_Company (mk k) = cbd_Company d)"
    if "cbd_Notes d = Some nts" for nts
    using made [of nts] that "value"
    by (intro exI [of _ "mk nts"]) (simp add: create fields mk_def)
  ultimately show ?thesis by blast
qed

definition sample_billing :: CreateBillingData where
  "sample_billing = \<lparr>cbd_Status = Some \<lparr>csd_Invoice = Some True, csd_Paid = Some False,
     csd_ProForma = Some False, csd_Receipt = Some False\<rparr>, cbd_Event = Some 30, cbd_Company = None,
     cbd_Value = Some 100, cbd_InvoiceNumber = Some ''7'', cbd_Emission = Some 5,
     cbd_Notes = None, cbd_Visible = None\<rparr>"

theorem parsed_billing_safe_witness:
  "CreateBillingData_ParseBody (Inr sample_billing) = Inr sample_billing \<and>
   (\<exists>w. fst (Billings_CreateBilling local_env sample_billing w) =
      Inl (Panic ''nil pointer dereference''))"
proof
  show ok: "CreateBillingData_ParseBody (Inr sample_billing) = Inr sample_billing"
    by (simp add: CreateBillingData_ParseBody_def sample_billing_def)
  show "\<exists>w. fst (Billings_CreateBilling local_env sample_billing w) =
      Inl (Panic ''nil pointer dereference'')"
    using parsed_billing_safe [OF local_env_up ok] by (simp add: sample_billing_def)
qed

text \<open>The bills a request selects, option by option.\<close>

definition selects :: "GetBillingsOptions \<Rightarrow> billing \<Rightarrow> bool" where
  "selects options b \<longleftrightarrow>
     (gbo_Role options \<in> {Some RoleMember, Some RoleTeamLeader} \<longrightarrow> bi_Visible b) \<and>
     gbo_Event options \<in> {None, Some (bi_Event b)} \<and>
     (gbo_Company options \<noteq> None \<longrightarrow> gbo_Company options = bi_Company b) \<and>
     (\<forall>t. gbo_After options = Some t \<longrightarrow> t < bi_Emission b) \<and>
     (\<forall>t. gbo_Before options = Some t \<and> gbo_After options = None \<longrightarrow> bi_Emission b < t) \<and>
     (\<forall>v. gbo_ValueLessThan options = Some v \<longrightarrow> bi_Value b < v) \<and>
     (\<forall>v. gbo_ValueGreaterThan options = Some v \<and> gbo_ValueLessThan options = None \<longrightarrow> v < bi_Value b)"

lemma billings_filter_iff: "billings_filter options b \<longleftrightarrow> selects options b"
proof -
  have "(case gbo_Role options of None \<Rightarrow> True
        | Some r \<Rightarrow> if TeamRole_AccessLevel r > 1 then bi_Visible b else True) \<longleftrightarrow>
      (gbo_Role options \<in> {Some RoleMember, Some RoleTeamLeader} \<longrightarrow> bi_Visible b)"
    by (auto simp: TeamRole_AccessLevel_def split: option.split)
  moreover have "(case gbo_After options of Some t \<Rightarrow> bi_Emission b > t
      | None \<Rightarrow> (case gbo_Before options of Some t \<Rightarrow> bi_Emission b < t | None \<Rightarrow> True)) \<longleftrightarrow>
      (\<forall>t. gbo_After options = Some t \<longrightarrow> t < bi_Emission b) \<and>
      (\<forall>t. gbo_Before options = Some t \<and> gbo_After options = None \<longrightarrow> bi_Emission b < t)"
    by (auto split: option.split)
  moreover have "(case gbo_ValueLessThan options of Some v \<Rightarrow> bi_Value b < v
      | None \<Rightarrow> (case gbo_ValueGreaterThan options of Some v \<Rightarrow> bi_Value b > v | None \<Rightarrow> True)) \<longleftrightarrow>
      (\<forall>v. gbo_ValueLessThan options = Some v \<longrightarrow> bi_Value b < v) \<and>
      (\<forall>v. gbo_ValueGreaterThan options = Some v \<and> gbo_ValueLessThan options = None \<longrightarrow> v < bi_Value b)"
    by (auto split: option.split)
  moreover have "(case gbo_Company options of None \<Rightarrow> True | Some c \<Rightarrow> bi_Company b = Some c) \<longleftrightarrow>
      (gbo_Company options \<noteq> None \<longrightarrow> gbo_Company options = bi_Company b)"
    by (auto split: option.split)
  moreover have "(case gbo_Event options of None \<Rightarrow> True | Some e \<Rightarrow> bi_Event b = e) \<longleftrightarrow>
      gbo_Event options \<in> {None, Some (bi_Event b)}"
    by (auto split: option.split)
  ultimately show ?thesis unfolding billings_filter_def selects_def by (simp only:) blast
qed

text \<open>
  C14: who sees a bill, for every request the options can express. Asked on behalf of a member or a team leader,
  \<open>GetBillings\<close> gives visible bills only, whatever the other options are; a coordinator or an administrator gets every
  bill the other options select. The options select by event, company, emission date and value; with both
  dates the one \<^verbatim>\<open>before\<close> is ignored, and with both values the lower one. The answer is complete unless the
  database failed, and nothing is changed.
\<close>

theorem GetBillings_visibility:
  assumes "mongo_spec bad E"
  shows "wp (Billings_GetBillings E options)
     (\<lambda>bs w'. contents w' = contents w \<and>
        (let selected = {b \<in> set (w_billings w).
               (gbo_Role options \<in> {Some RoleMember, Some RoleTeamLeader} \<longrightarrow> bi_Visible b) \<and>
               gbo_Event options \<in> {None, Some (bi_Event b)} \<and>
               (gbo_Company options \<noteq> None \<longrightarrow> gbo_Company options = bi_Company b) \<and>
               (\<forall>t. gbo_After options = Some t \<longrightarrow> t < bi_Emission b) \<and>
               (\<forall>t. gbo_Before options = Some t \<and> gbo_After options = None \<longrightarrow> bi_Emission b < t) \<and>
               (\<forall>v. gbo_ValueLessThan options = Some v \<longrightarrow> bi_Value b < v) \<and>
               (\<forall>v. gbo_ValueGreaterThan options = Some v \<and> gbo_ValueLessThan options = None \<longrightarrow> v < bi_Value b)} in
         set bs \<subseteq> selected \<and> ((\<forall>e. \<not> bad e) \<longrightarrow> set bs = selected)))
     (\<lambda>e w'. contents w' = contents w \<and> bad e) w"
  unfolding Billings_GetBillings_def Let_def billings_filter_iff
proof (rule wp_FindUnchecked_set [where bad = bad and idf = bi_ID], goal_cases)
  case (2 xs)
  then have "set xs \<subseteq> {b \<in> set (w_billings w). selects options b}"
    and "\<forall>e. \<not> bad e \<Longrightarrow> {b \<in> set (w_billings w). selects options b} \<subseteq> set xs"
    unfolding billings_filter_iff by auto
  then show ?case unfolding selects_def by (intro conjI impI equalityI) simp_all
qed (simp_all add: assms)

definition sample_bill :: "oid \<Rightarrow> bool \<Rightarrow> time \<Rightarrow> int \<Rightarrow> billing" where
  "sample_bill i visible emission amount = \<lparr>bi_ID = i,
     bi_Status = \<lparr>bs_ProForma = False, bs_Invoice = True, bs_Receipt = False, bs_Paid = False\<rparr>, bi_Event = 30,
     bi_Company = Some 4, bi_Value = amount, bi_InvoiceNumber = ''7'', bi_Emission = emission, bi_Notes = [],
     bi_Visible = visible\<rparr>"

lemma sample_bill_simps [simp]:
  "bi_Visible (sample_bill i visible emission amount) = visible" "bi_Event (sample_bill i visible emission amount) = 30"
  "bi_Company (sample_bill i visible emission amount) = Some 4" "bi_Emission (sample_bill i visible emission amount) = emission"
  "bi_Value (sample_bill i visible emission amount) = amount"
  by (simp_all add: sample_bill_def)

text \<open>A team leader asks for the bills of more than 100 issued after 5: of the two there are, one is not visible.\<close>

theorem GetBillings_visibility_witness:
  "wp (Billings_GetBillings local_env \<lparr>gbo_After = Some 5, gbo_Before = Some 2, gbo_ValueGreaterThan = Some 100,
        gbo_ValueLessThan = None, gbo_Event = None, gbo_Company = Some 4, gbo_Role = Some RoleTeamLeader\<rparr>)
     (\<lambda>bs w'. set bs = {sample_bill 1 True 9 300}) (\<lambda>e w'. False)
     (empty_world\<lparr>w_billings := [sample_bill 1 True 9 300, sample_bill 2 False 9 300, sample_bill 3 True 4 300,
        sample_bill 4 True 9 50]\<rparr>)"
proof (rule wp_mono [OF GetBillings_visibility [OF local_env_up]], goal_cases)
  case (1 bs w')
  then have "set bs = {b \<in> {sample_bill 1 True 9 300, sample_bill 2 False 9 300, sample_bill 3 True 4 300,
      sample_bill 4 True 9 50}. bi_Visible b \<and> Some 4 = bi_Company b \<and> 5 < bi_Emission b \<and> 100 < bi_Value b}"
    by (simp add: Let_def)
  also have "\<dots> = {sample_bill 1 True 9 300}" by auto
  finally show ?case .
qed simp

end
