(* ===== verification/Lookups.thy ===== *)
theory Lookups
  imports World
begin

text \<open>
  The reads by ID that several components share: \<open>GetCompany\<close> (\<^verbatim>\<open>mongodb/company.go\<close>),
  \<open>GetSpeaker\<close> (\<^verbatim>\<open>mongodb/speaker.go\<close>), \<open>GetMember\<close> (\<^verbatim>\<open>mongodb/member.go\<close>) and \<open>GetSession\<close>
  (\<^verbatim>\<open>mongodb/session.go\<close>).
\<close>

definition Companies_GetCompany :: "env \<Rightarrow> oid \<Rightarrow> (world, company) smonad" where
  "Companies_GetCompany E companyID = FindOne (Companies E) (\<lambda>c. co_ID c = companyID)"

definition Speakers_GetSpeaker :: "env \<Rightarrow> oid \<Rightarrow> (world, speaker) smonad" where
  "Speakers_GetSpeaker E speakerID = FindOne (Speakers E) (\<lambda>s. s_ID s = speakerID)"

definition Members_GetMember :: "env \<Rightarrow> oid \<Rightarrow> (world, member) smonad" where
  "Members_GetMember E i = FindOne (Members E) (\<lambda>m. mb_ID m = i)"

definition Sessions_GetSession :: "env \<Rightarrow> oid \<Rightarrow> (world, session) smonad" where
  "Sessions_GetSession E sessionID = FindOne (Sessions E) (\<lambda>s. se_ID s = sessionID)"

lemma keyed_lookups:
  assumes "mongo_spec bad E"
  shows "keyed_read bad contents (Companies E) co_ID i (Companies_GetCompany E i)"
    and "keyed_read bad contents (Speakers E) s_ID i (Speakers_GetSpeaker E i)"
    and "keyed_read bad contents (Members E) mb_ID i (Members_GetMember E i)"
    and "keyed_read bad contents (Sessions E) se_ID i (Sessions_GetSession E i)"
  unfolding Companies_GetCompany_def Speakers_GetSpeaker_def Members_GetMember_def
    Sessions_GetSession_def
  using assms by (auto intro: companies.keyed_readI speakers.keyed_readI members.keyed_readI
      sessions.keyed_readI)

text \<open>A read by ID, seen as a read of the set of documents (no key need be unique).\<close>

lemma wp_GetCompany:
  assumes "mongo_spec bad E"
    and "\<And>c w'. c \<in> set (w_companies w) \<Longrightarrow> co_ID c = i \<Longrightarrow> contents w' = contents w \<Longrightarrow> Q c w'"
    and "\<And>e w'. contents w' = contents w \<Longrightarrow>
      bad e \<or> e = ErrNoDocuments \<and> i \<notin> co_ID ` set (w_companies w) \<Longrightarrow> R e w'"
  shows "wp (Companies_GetCompany E i) Q R w"
  unfolding Companies_GetCompany_def
  by (rule wp_FindOne [where bad = bad and idf = co_ID]) (auto simp: assms(1) intro!: assms(2,3))

lemma wp_GetSpeaker:
  assumes "mongo_spec bad E"
    and "\<And>s w'. s \<in> set (w_speakers w) \<Longrightarrow> s_ID s = i \<Longrightarrow> contents w' = contents w \<Longrightarrow> Q s w'"
    and "\<And>e w'. contents w' = contents w \<Longrightarrow>
      bad e \<or> e = ErrNoDocuments \<and> i \<notin> s_ID ` set (w_speakers w) \<Longrightarrow> R e w'"
  shows "wp (Speakers_GetSpeaker E i) Q R w"
  unfolding Speakers_GetSpeaker_def
  by (rule wp_FindOne [where bad = bad and idf = s_ID]) (auto simp: assms(1) intro!: assms(2,3))

lemma wp_GetMember:
  assumes "mongo_spec bad E"
    and "\<And>m w'. m \<in> set (w_members w) \<Longrightarrow> mb_ID m = i \<Longrightarrow> contents w' = contents w \<Longrightarrow> Q m w'"
    and "\<And>e w'. contents w' = contents w \<Longrightarrow>
      bad e \<or> e = ErrNoDocuments \<and> i \<notin> mb_ID ` set (w_members w) \<Longrightarrow> R e w'"
  shows "wp (Members_GetMember E i) Q R w"
  unfolding Members_GetMember_def
  by (rule wp_FindOne [where bad = bad and idf = mb_ID]) (auto simp: assms(1) intro!: assms(2,3))

lemma wp_GetSession:
  assumes "mongo_spec bad E"
    and "\<And>s w'. s \<in> set (w_sessions w) \<Longrightarrow> se_ID s = i \<Longrightarrow> contents w' = contents w \<Longrightarrow> Q s w'"
    and "\<And>e w'. contents w' = contents w \<Longrightarrow>
      bad e \<or> e = ErrNoDocuments \<and> i \<notin> se_ID ` set (w_sessions w) \<Longrightarrow> R e w'"
  shows "wp (Sessions_GetSession E i) Q R w"
  unfolding Sessions_GetSession_def
  by (rule wp_FindOne [where bad = bad and idf = se_ID]) (auto simp: assms(1) intro!: assms(2,3))

end
