(* ===== verification/Events.thy ===== *)
theory Events
  imports World
begin

text \<open>
  \<^verbatim>\<open>backend/src/mongodb/event.go\<close>: the events of the organisation (one per year), the current
  event, and the lists an event keeps (themes, packages, items, meetings, sessions, teams).

  The body of a request is decoded by \<^verbatim>\<open>encoding/json\<close>; a \<open>ParseBody\<close> here takes the outcome of
  the decoder (its error, or the struct it filled) and makes the checks the code makes after it.
  Logging is left out. The update operations implement \<open>keyed_update\<close> of theory Driver.
\<close>

section \<open>The current event\<close>

definition ResetCurrentPublicEvent :: "(world, unit) smonad" where
  "ResetCurrentPublicEvent = modifyE (\<lambda>w. w\<lparr>currentPublicEvent := None\<rparr>)"

text \<open>The loop over the cursor: the event found so far, replaced by one with a larger ID.\<close>

fun latest_event :: "event option \<Rightarrow> event list \<Rightarrow> event option" where
  "latest_event best [] = best"
| "latest_event best (e # es) =
     latest_event (case best of None \<Rightarrow> Some e
       | Some b \<Rightarrow> if ev_ID b < ev_ID e then Some e else Some b) es"

definition Events_GetCurrentEvent :: "env \<Rightarrow> (world, event) smonad" where
  "Events_GetCurrentEvent E =
     bindE (Find (Events E) (\<lambda>_. True)) (\<lambda>evs.
     case latest_event None evs of
       None \<Rightarrow> throwE (Err ''no events found'')
     | Some e \<Rightarrow> retE e)"

definition eventToPublic :: "event \<Rightarrow> eventPublic" where
  "eventToPublic event =
     \<lparr>evp_ID = ev_ID event, evp_Name = ev_Name event, evp_Begin = ev_Begin event,
      evp_End = ev_End event, evp_Themes = ev_Themes event, evp_CalendarUrl = ev_CalendarUrl event\<rparr>"

section \<open>Creating and reading\<close>

record CreateEventData =
  ced_Name :: string

definition CreateEventData_ParseBody :: "err + CreateEventData \<Rightarrow> err + CreateEventData" where
  "CreateEventData_ParseBody body = (case body of
     Inl e \<Rightarrow> Inl e
   | Inr ced \<Rightarrow> if length (ced_Name ced) = 0 then Inl (Err ''invalid name'') else Inr ced)"

definition new_event :: "int \<Rightarrow> string \<Rightarrow> event" where
  "new_event i name = \<lparr>ev_ID = i, ev_Name = name, ev_Begin = None, ev_End = None, ev_Themes = [],
     ev_Packages = [], ev_Items = [], ev_Meetings = [], ev_Sessions = [], ev_Teams = [],
     ev_CalendarUrl = []\<rparr>"

lemma new_event_ID [simp]: "ev_ID (new_event i name) = i"
  by (simp add: new_event_def)

definition Events_CreateEvent :: "env \<Rightarrow> CreateEventData \<Rightarrow> (world, event) smonad" where
  "Events_CreateEvent E data =
     bindE (Events_GetCurrentEvent E) (\<lambda>latestEvent.
     onErr (InsertDoc (Events E) (new_event (ev_ID latestEvent + 1) (ced_Name data)))
       (\<lambda>err. throwE (Fatal ''CreateEvent''))
       (\<lambda>insertedID.
     bindE (FindOne (Events E) (\<lambda>e. ev_ID e = insertedID)) (\<lambda>event.
     bindE ResetCurrentPublicEvent (\<lambda>_.
     retE event))))"

record GetEventsOptions =
  geo_Name :: "string option"
  geo_Before :: "time option"
  geo_After :: "time option"
  geo_During :: "time option"

text \<open>
  The filter is a map from field names to conditions: a later assignment to \<^verbatim>\<open>filter["begin"]\<close>
  replaces an earlier one. A document without the field does not match a comparison.
\<close>

definition events_begin_filter :: "GetEventsOptions \<Rightarrow> (time option \<Rightarrow> bool)" where
  "events_begin_filter options =
     (let f0 = (\<lambda>b. True);
          f1 = (case geo_Before options of None \<Rightarrow> f0
                | Some t \<Rightarrow> (\<lambda>b. case b of None \<Rightarrow> False | Some x \<Rightarrow> x < t));
          f2 = (case geo_After options of None \<Rightarrow> f1
                | Some t \<Rightarrow> (\<lambda>b. case b of None \<Rightarrow> False | Some x \<Rightarrow> x > t))
      in case geo_During options of None \<Rightarrow> f2
         | Some t \<Rightarrow> (\<lambda>b. case b of None \<Rightarrow> False | Some x \<Rightarrow> x \<le> t))"

definition events_filter :: "env \<Rightarrow> GetEventsOptions \<Rightarrow> event \<Rightarrow> bool" where
  "events_filter E options e \<longleftrightarrow>
     (case geo_Name options of None \<Rightarrow> True
      | Some n \<Rightarrow> env_regex_i E (''.*'' @ n @ ''.*'') (ev_Name e)) \<and>
     events_begin_filter options (ev_Begin e) \<and>
     (case geo_During options of None \<Rightarrow> True
      | Some t \<Rightarrow> (case ev_End e of None \<Rightarrow> False | Some x \<Rightarrow> x \<ge> t))"

definition Events_GetEvents :: "env \<Rightarrow> GetEventsOptions \<Rightarrow> (world, event list) smonad" where
  "Events_GetEvents E options = Find (Events E) (events_filter E options)"

record GetPublicEventsOptions =
  gpe_Current :: "bool option"
  gpe_PastEvents :: "bool option"

definition Events_GetPublicEvents ::
  "env \<Rightarrow> GetPublicEventsOptions \<Rightarrow> (world, eventPublic list) smonad" where
  "Events_GetPublicEvents E options =
     (if (gpe_Current options = None \<and> gpe_PastEvents options = None) \<or>
         (gpe_Current options = Some True \<and> gpe_PastEvents options = Some True)
      then bindE (Find (Events E) (\<lambda>_. True)) (\<lambda>evs. retE (map eventToPublic evs))
      else
     bindE (Events_GetCurrentEvent E) (\<lambda>currentEvent.
      if gpe_Current options = Some True \<and>
         (gpe_PastEvents options = None \<or> gpe_PastEvents options = Some False)
      then retE [eventToPublic currentEvent]
      else if gpe_PastEvents options = Some True \<and>
         (gpe_Current options = None \<or> gpe_Current options = Some False)
      then bindE (Find (Events E) (\<lambda>_. True)) (\<lambda>evs.
           retE (filter (\<lambda>e. evp_ID e \<noteq> ev_ID currentEvent) (map eventToPublic evs)))
      else retE []))"

definition Events_GetEvent :: "env \<Rightarrow> int \<Rightarrow> (world, event) smonad" where
  "Events_GetEvent E eventID = FindOne (Events E) (\<lambda>e. ev_ID e = eventID)"

section \<open>Updating and deleting\<close>

record UpdateEventData =
  ued_Name :: string
  ued_Begin :: time
  ued_End :: time

definition UpdateEventData_ParseBody ::
  "time \<Rightarrow> err + UpdateEventData \<Rightarrow> err + UpdateEventData" where
  "UpdateEventData_ParseBody now body = (case body of
     Inl e \<Rightarrow> Inl e
   | Inr ued \<Rightarrow>
       if length (ued_Name ued) = 0 then Inl (Err ''invalid name'')
       else if now > ued_Begin ued \<or> now > ued_End ued
       then Inl (Err ''invalid begin or end dates: must be in the future'')
       else Inr ued)"

definition Events_UpdateEvent :: "env \<Rightarrow> int \<Rightarrow> UpdateEventData \<Rightarrow> (world, event) smonad" where
  "Events_UpdateEvent E eventID data =
     bindE (FindOneAndUpdate (Events E) (\<lambda>e. ev_ID e = eventID)
        (\<lambda>e. e\<lparr>ev_Name := ued_Name data, ev_Begin := Some (ued_Begin data),
               ev_End := Some (ued_End data)\<rparr>)) (\<lambda>updatedEvent.
     bindE ResetCurrentPublicEvent (\<lambda>_.
     retE updatedEvent))"

definition Events_DeleteEvent :: "env \<Rightarrow> int \<Rightarrow> (world, event) smonad" where
  "Events_DeleteEvent E eventID =
     bindE (Events_GetEvent E eventID) (\<lambda>event.
     bindE (DeleteOne (Events E) (\<lambda>e. ev_ID e = eventID)) (\<lambda>deletedCount.
     if deletedCount \<noteq> 1 then throwE (Err ''should have deleted 1 event'')
     else
     bindE ResetCurrentPublicEvent (\<lambda>_.
     retE event)))"

record UpdateEventThemesData =
  uetd_Themes :: "string list option"

fun has_empty_theme :: "string list \<Rightarrow> bool" where
  "has_empty_theme [] = False"
| "has_empty_theme (t # ts) = (if length t = 0 then True else has_empty_theme ts)"

definition UpdateEventThemesData_ParseBody ::
  "err + UpdateEventThemesData \<Rightarrow> err + UpdateEventThemesData" where
  "UpdateEventThemesData_ParseBody body = (case body of
     Inl e \<Rightarrow> Inl e
   | Inr uetd \<Rightarrow> (case uetd_Themes uetd of
       None \<Rightarrow> Inl (Err ''invalid body'')
     | Some ts \<Rightarrow> if has_empty_theme ts then Inl (Err ''empty theme'') else Inr uetd))"

text \<open>A nil pointer is stored as null, which decodes to the empty list.\<close>

definition Events_UpdateThemes ::
  "env \<Rightarrow> int \<Rightarrow> UpdateEventThemesData \<Rightarrow> (world, event) smonad" where
  "Events_UpdateThemes E eventID data =
     bindE (FindOneAndUpdate (Events E) (\<lambda>e. ev_ID e = eventID)
        (\<lambda>e. e\<lparr>ev_Themes := (case uetd_Themes data of None \<Rightarrow> [] | Some ts \<Rightarrow> ts)\<rparr>)) (\<lambda>updatedEvent.
     bindE ResetCurrentPublicEvent (\<lambda>_.
     retE updatedEvent))"

definition Events_UpdateTeams :: "env \<Rightarrow> int \<Rightarrow> oid list \<Rightarrow> (world, event) smonad" where
  "Events_UpdateTeams E eventID teams =
     FindOneAndUpdate (Events E) (\<lambda>e. ev_ID e = eventID) (\<lambda>e. e\<lparr>ev_Teams := teams\<rparr>)"

record AddEventPackageData =
  aepd_Template :: "oid option"
  aepd_PublicName :: "string option"

definition AddEventPackageData_ParseBody ::
  "err + AddEventPackageData \<Rightarrow> err + AddEventPackageData" where
  "AddEventPackageData_ParseBody body = (case body of
     Inl e \<Rightarrow> Inl e
   | Inr d \<Rightarrow>
       if aepd_Template d = None then Inl (Err ''no package ID given'')
       else if aepd_PublicName d = None then Inl (Err ''no public name given'')
       else Inr d)"

text \<open>Here too a nil pointer is stored as null and decodes to the zero value.\<close>

definition event_package :: "AddEventPackageData \<Rightarrow> eventPackages" where
  "event_package data =
     \<lparr>ep_Template = (case aepd_Template data of None \<Rightarrow> NilObjectID | Some t \<Rightarrow> t),
      ep_PublicName = (case aepd_PublicName data of None \<Rightarrow> [] | Some n \<Rightarrow> n),
      ep_Available = True\<rparr>"

definition Events_AddPackage ::
  "env \<Rightarrow> int \<Rightarrow> AddEventPackageData \<Rightarrow> (world, event) smonad" where
  "Events_AddPackage E eventID data =
     bindE (getsE w_tick) (\<lambda>t.
     FindOneAndUpdate (Events E) (\<lambda>e. ev_ID e = eventID)
       (\<lambda>e. e\<lparr>ev_Packages := addToSetDoc (env_sameDoc E t) (event_package data) (ev_Packages e)\<rparr>))"

definition Events_AddSession :: "env \<Rightarrow> int \<Rightarrow> oid \<Rightarrow> (world, event) smonad" where
  "Events_AddSession E eventID sessionID =
     FindOneAndUpdate (Events E) (\<lambda>e. ev_ID e = eventID)
       (\<lambda>e. e\<lparr>ev_Sessions := addToSet sessionID (ev_Sessions e)\<rparr>)"

definition Events_RemovePackage :: "env \<Rightarrow> int \<Rightarrow> oid \<Rightarrow> (world, event) smonad" where
  "Events_RemovePackage E eventID packageID =
     FindOneAndUpdate (Events E) (\<lambda>e. ev_ID e = eventID)
       (\<lambda>e. e\<lparr>ev_Packages := pull (\<lambda>p. ep_Template p = packageID) (ev_Packages e)\<rparr>)"

record UpdateEventPackageData =
  uepd_PublicName :: "string option"
  uepd_Available :: "bool option"

definition UpdateEventPackageData_ParseBody ::
  "err + UpdateEventPackageData \<Rightarrow> err + UpdateEventPackageData" where
  "UpdateEventPackageData_ParseBody body = (case body of
     Inl e \<Rightarrow> Inl e
   | Inr d \<Rightarrow>
       if uepd_PublicName d = None then Inl (Err ''no public name given'')
       else if uepd_Available d = None then Inl (Err ''no available information given'')
       else Inr d)"

definition Events_UpdatePackage ::
  "env \<Rightarrow> int \<Rightarrow> oid \<Rightarrow> UpdateEventPackageData \<Rightarrow> (world, event) smonad" where
  "Events_UpdatePackage E eventID packageID data =
     (case (uepd_Available data, uepd_PublicName data) of
        (Some available, Some name) \<Rightarrow>
          FindOneAndUpdate (Events E)
            (\<lambda>e. ev_ID e = eventID \<and> packageID \<in> ep_Template ` set (ev_Packages e))
            (\<lambda>e. e\<lparr>ev_Packages := positional (\<lambda>p. ep_Template p = packageID)
                (\<lambda>p. p\<lparr>ep_Available := available, ep_PublicName := name\<rparr>) (ev_Packages e)\<rparr>)
      | _ \<Rightarrow> throwE (Panic ''nil pointer dereference''))"

record AddEventItemData =
  aeid_ItemID :: "oid option"

definition AddEventItemData_ParseBody :: "err + AddEventItemData \<Rightarrow> err + AddEventItemData" where
  "AddEventItemData_ParseBody body = (case body of
     Inl e \<Rightarrow> Inl e
   | Inr d \<Rightarrow> if aeid_ItemID d = None then Inl (Err ''no item ID given'') else Inr d)"

definition Events_AddItem :: "env \<Rightarrow> int \<Rightarrow> AddEventItemData \<Rightarrow> (world, event) smonad" where
  "Events_AddItem E eventID data = (case aeid_ItemID data of
     None \<Rightarrow> throwE (Panic ''nil pointer dereference'')
   | Some itemID \<Rightarrow>
       FindOneAndUpdate (Events E) (\<lambda>e. ev_ID e = eventID)
         (\<lambda>e. e\<lparr>ev_Items := addToSet itemID (ev_Items e)\<rparr>))"

definition Events_RemoveItem :: "env \<Rightarrow> int \<Rightarrow> oid \<Rightarrow> (world, event) smonad" where
  "Events_RemoveItem E eventID itemID =
     FindOneAndUpdate (Events E) (\<lambda>e. ev_ID e = eventID)
       (\<lambda>e. e\<lparr>ev_Items := pull (\<lambda>i. i = itemID) (ev_Items e)\<rparr>)"

definition Events_AddMeeting :: "env \<Rightarrow> int \<Rightarrow> oid \<Rightarrow> (world, event) smonad" where
  "Events_AddMeeting E eventID meetingID =
     FindOneAndUpdate (Events E) (\<lambda>e. ev_ID e = eventID)
       (\<lambda>e. e\<lparr>ev_Meetings := addToSet meetingID (ev_Meetings e)\<rparr>)"

definition Events_RemoveMeeting :: "env \<Rightarrow> int \<Rightarrow> oid \<Rightarrow> (world, event) smonad" where
  "Events_RemoveMeeting E eventID meetingID =
     FindOneAndUpdate (Events E) (\<lambda>e. ev_ID e = eventID)
       (\<lambda>e. e\<lparr>ev_Meetings := pull (\<lambda>i. i = meetingID) (ev_Meetings e)\<rparr>)"

definition Events_RemoveTeam :: "env \<Rightarrow> int \<Rightarrow> oid \<Rightarrow> (world, event) smonad" where
  "Events_RemoveTeam E eventID teamID =
     FindOneAndUpdate (Events E) (\<lambda>e. ev_ID e = eventID)
       (\<lambda>e. e\<lparr>ev_Teams := pull (\<lambda>i. i = teamID) (ev_Teams e)\<rparr>)"

definition Events_UpdateCalendar :: "env \<Rightarrow> int \<Rightarrow> string \<Rightarrow> (world, event) smonad" where
  "Events_UpdateCalendar E eventID calendarUrl =
     FindOneAndUpdate (Events E) (\<lambda>e. ev_ID e = eventID)
       (\<lambda>e. e\<lparr>ev_CalendarUrl := calendarUrl\<rparr>)"

section \<open>The current event is the one with the largest ID\<close>

lemma latest_event_None: "latest_event best es = None \<longleftrightarrow> best = None \<and> es = []"
  by (induction es arbitrary: best) (auto split: option.splits)

lemma latest_event_Some:
  "latest_event best es = Some e \<Longrightarrow>
   (e \<in> set es \<or> best = Some e) \<and> (\<forall>x \<in> set es. ev_ID x \<le> ev_ID e) \<and>
   (\<forall>b. best = Some b \<longrightarrow> ev_ID b \<le> ev_ID e)"
proof (induction es arbitrary: best)
  case Nil
  then show ?case by simp
next
  case (Cons a es)
  then show ?case by (cases best) (fastforce split: if_splits)+
qed

definition is_current :: "event list \<Rightarrow> event \<Rightarrow> bool" where
  "is_current evs e \<longleftrightarrow> e \<in> set evs \<and> (\<forall>x \<in> set evs. ev_ID x \<le> ev_ID e)"

text \<open>With distinct IDs there is one current event, whatever the order of the cursor.\<close>

lemma is_current_unique:
  "distinct (map ev_ID evs) \<Longrightarrow> is_current evs e \<Longrightarrow> is_current evs e' \<Longrightarrow> e = e'"
  unfolding is_current_def distinct_map by (meson inj_onD order_antisym)

lemma wp_GetCurrentEvent:
  assumes "mongo_spec bad E"
    and "\<And>e w'. is_current (w_events w) e \<Longrightarrow> contents w' = contents w \<Longrightarrow> Q e w'"
    and "\<And>e w'. contents w' = contents w \<Longrightarrow>
      bad e \<or> e = Err ''no events found'' \<and> w_events w = [] \<Longrightarrow> R e w'"
  shows "wp (Events_GetCurrentEvent E) Q R w"
  unfolding Events_GetCurrentEvent_def wp_bindE
proof (rule wp_Find [where bad = bad and idf = ev_ID])
  fix xs
  assume xs: "mset xs = mset (filter (\<lambda>_. True) (docs_of (Events E) w))"
  then have same: "set xs = set (w_events w)"
    by (auto dest!: mset_eq_setD)
  show "wp (case latest_event None xs of None \<Rightarrow> throwE (Err ''no events found'')
      | Some e \<Rightarrow> retE e) Q R (tick (Events E) w)"
  proof (cases "latest_event None xs")
    case None
    with same show ?thesis by (simp add: latest_event_None assms(3))
  next
    case (Some e)
    with latest_event_Some [OF Some] same have "is_current (w_events w) e"
      by (simp add: is_current_def)
    with Some show ?thesis by (simp add: assms(2))
  qed
qed (use assms in auto)

section \<open>Each operation by key\<close>

lemma keyed_GetEvent:
  "mongo_spec bad E \<Longrightarrow> keyed_read bad contents (Events E) ev_ID i (Events_GetEvent E i)"
  unfolding Events_GetEvent_def by (rule events.keyed_readI) simp

lemma keyed_UpdateEvent:
  "mongo_spec bad E \<Longrightarrow>
   keyed_update bad contents (Events E) ev_ID i (\<lambda>_. True)
     (\<lambda>e. e\<lparr>ev_Name := ued_Name data, ev_Begin := Some (ued_Begin data), ev_End := Some (ued_End data)\<rparr>)
     (\<lambda>w. w\<lparr>currentPublicEvent := None\<rparr>) (Events_UpdateEvent E i data)"
  unfolding Events_UpdateEvent_def ResetCurrentPublicEvent_def
  by (rule keyed_update_then, rule events.keyed_updateI') simp_all

lemma keyed_UpdateThemes:
  "mongo_spec bad E \<Longrightarrow>
   keyed_update bad contents (Events E) ev_ID i (\<lambda>_. True)
     (\<lambda>e. e\<lparr>ev_Themes := (case uetd_Themes data of None \<Rightarrow> [] | Some ts \<Rightarrow> ts)\<rparr>)
     (\<lambda>w. w\<lparr>currentPublicEvent := None\<rparr>) (Events_UpdateThemes E i data)"
  unfolding Events_UpdateThemes_def ResetCurrentPublicEvent_def
  by (rule keyed_update_then, rule events.keyed_updateI') simp_all

lemma keyed_DeleteEvent:
  assumes "mongo_spec bad E"
  shows "keyed_delete bad contents (Events E) ev_ID i (\<lambda>w. w\<lparr>currentPublicEvent := None\<rparr>)
     (Events_DeleteEvent E i)"
proof -
  have "Events_DeleteEvent E i =
     bindE (bindE (Events_GetEvent E i) (\<lambda>y. bindE (DeleteOne (Events E) (\<lambda>e. ev_ID e = i))
        (\<lambda>n. if n \<noteq> 1 then throwE (Err ''should have deleted 1 event'') else retE y)))
       (\<lambda>y. bindE (modifyE (\<lambda>w. w\<lparr>currentPublicEvent := None\<rparr>)) (\<lambda>_. retE y))"
    unfolding Events_DeleteEvent_def ResetCurrentPublicEvent_def
    by (auto simp: bindE_def throwE_def retE_def fun_eq_iff split: prod.split sum.split)
  then show ?thesis
    by (simp only:) (rule keyed_delete_then, rule events.keyed_delete_countI,
      simp_all add: assms keyed_GetEvent)
qed

lemma keyed_event_sets:
  assumes "mongo_spec bad E"
  shows "keyed_update bad contents (Events E) ev_ID i (\<lambda>_. True)
      (\<lambda>e. e\<lparr>ev_Teams := ids\<rparr>) (\<lambda>w. w) (Events_UpdateTeams E i ids)"
    and "keyed_update bad contents (Events E) ev_ID i (\<lambda>_. True)
      (\<lambda>e. e\<lparr>ev_Teams := pull (\<lambda>j. j = k) (ev_Teams e)\<rparr>) (\<lambda>w. w) (Events_RemoveTeam E i k)"
    and "keyed_update bad contents (Events E) ev_ID i (\<lambda>_. True)
      (\<lambda>e. e\<lparr>ev_Sessions := addToSet k (ev_Sessions e)\<rparr>) (\<lambda>w. w) (Events_AddSession E i k)"
    and "keyed_update bad contents (Events E) ev_ID i (\<lambda>_. True)
      (\<lambda>e. e\<lparr>ev_Items := addToSet k (ev_Items e)\<rparr>) (\<lambda>w. w)
      (Events_AddItem E i \<lparr>aeid_ItemID = Some k\<rparr>)"
    and "keyed_update bad contents (Events E) ev_ID i (\<lambda>_. True)
      (\<lambda>e. e\<lparr>ev_Items := pull (\<lambda>j. j = k) (ev_Items e)\<rparr>) (\<lambda>w. w) (Events_RemoveItem E i k)"
    and "keyed_update bad contents (Events E) ev_ID i (\<lambda>_. True)
      (\<lambda>e. e\<lparr>ev_Meetings := addToSet k (ev_Meetings e)\<rparr>) (\<lambda>w. w) (Events_AddMeeting E i k)"
    and "keyed_update bad contents (Events E) ev_ID i (\<lambda>_. True)
      (\<lambda>e. e\<lparr>ev_Meetings := pull (\<lambda>j. j = k) (ev_Meetings e)\<rparr>) (\<lambda>w. w) (Events_RemoveMeeting E i k)"
    and "keyed_update bad contents (Events E) ev_ID i (\<lambda>_. True)
      (\<lambda>e. e\<lparr>ev_Packages := pull (\<lambda>p. ep_Template p = k) (ev_Packages e)\<rparr>) (\<lambda>w. w)
      (Events_RemovePackage E i k)"
    and "keyed_update bad contents (Events E) ev_ID i (\<lambda>_. True)
      (\<lambda>e. e\<lparr>ev_CalendarUrl := url\<rparr>) (\<lambda>w. w) (Events_UpdateCalendar E i url)"
    and "keyed_update bad contents (Events E) ev_ID i (\<lambda>e. k \<in> ep_Template ` set (ev_Packages e))
      (\<lambda>e. e\<lparr>ev_Packages := positional (\<lambda>p. ep_Template p = k)
         (\<lambda>p. p\<lparr>ep_Available := av, ep_PublicName := name\<rparr>) (ev_Packages e)\<rparr>) (\<lambda>w. w)
      (Events_UpdatePackage E i k \<lparr>uepd_PublicName = Some name, uepd_Available = Some av\<rparr>)"
  unfolding Events_UpdateTeams_def Events_RemoveTeam_def Events_AddSession_def Events_AddItem_def
    Events_RemoveItem_def Events_AddMeeting_def Events_RemoveMeeting_def Events_RemovePackage_def
    Events_UpdateCalendar_def Events_UpdatePackage_def
  by (simp_all add: events.keyed_updateI' events.keyed_updateI assms)

section \<open>Properties\<close>

text \<open>
  The current event is the one with the largest ID: \<open>GetCurrentEvent\<close> returns it whatever the
  order of the cursor, changes nothing, and fails only on a driver error or with no events.
\<close>

theorem GetCurrentEvent_correct:
  assumes "mongo_spec bad E"
  shows "wp (Events_GetCurrentEvent E)
     (\<lambda>e w'. e \<in> set (w_events w) \<and> (\<forall>x \<in> set (w_events w). ev_ID x \<le> ev_ID e) \<and>
        contents w' = contents w)
     (\<lambda>e w'. contents w' = contents w \<and>
        (bad e \<or> e = Err ''no events found'' \<and> w_events w = [])) w"
  by (rule wp_GetCurrentEvent [OF assms]) (auto simp: is_current_def)

theorem GetCurrentEvent_correct_witness:
  "wp (Events_GetCurrentEvent local_env)
     (\<lambda>e w'. e \<in> {new_event 2 ''b'', new_event 1 ''a''} \<and> ev_ID e = 2)
     (\<lambda>e w'. False)
     (empty_world\<lparr>w_events := [new_event 2 ''b'', new_event 1 ''a'']\<rparr>)"
  by (rule wp_mono [OF GetCurrentEvent_correct [OF local_env_up]]) (auto simp: new_event_def)

text \<open>
  \<open>CreateEvent\<close> numbers the new event one above the current one, so that it becomes the
  current event; it adds it with empty lists, touches no other document and drops the cached
  public event. It fails with an insertion only when reading back fails, and a failed
  insertion ends the process (\<^verbatim>\<open>log.Fatal\<close>).
\<close>

theorem CreateEvent_correct:
  assumes "mongo_spec bad E"
  shows "wp (Events_CreateEvent E data)
     (\<lambda>e w'. \<exists>cur. is_current (w_events w) cur \<and> e = new_event (ev_ID cur + 1) (ced_Name data) \<and>
        contents w' = (contents w)\<lparr>w_events := w_events w @ [e], currentPublicEvent := None\<rparr> \<and>
        is_current (w_events w') e)
     (\<lambda>e w'. contents w' = contents w \<and>
          (bad e \<or> e = Fatal ''CreateEvent'' \<or> e = Err ''no events found'' \<and> w_events w = []) \<or>
        bad e \<and> (\<exists>cur. is_current (w_events w) cur \<and> contents w' = (contents w)\<lparr>w_events :=
          w_events w @ [new_event (ev_ID cur + 1) (ced_Name data)]\<rparr>)) w"
  unfolding Events_CreateEvent_def wp_bindE
proof (rule wp_GetCurrentEvent [OF assms], goal_cases)
  case (1 cur w1)
  have evs: "w_events w1 = w_events w"
    using 1(2) contents_simps(5) by metis
  have new: "is_current (w_events w @ [new_event (ev_ID cur + 1) (ced_Name data)])
      (new_event (ev_ID cur + 1) (ced_Name data))"
    and fresh: "ev_ID cur + 1 \<notin> ev_ID ` set (w_events w)"
    using 1(1) by (fastforce simp: is_current_def new_event_def)+
  show ?case
    unfolding wp_onErr
  proof (rule wp_InsertDoc [where bad = bad and idf = ev_ID], goal_cases)
    case 2
    show ?case
      unfolding wp_bindE
    proof (rule wp_FindOne [where bad = bad and idf = ev_ID], goal_cases)
      case (2 x)
      then have "x = new_event (ev_ID cur + 1) (ced_Name data)"
        using fresh by (auto simp: evs) (metis imageI)
      then show ?case
        using 1 new by (auto simp: ResetCurrentPublicEvent_def evs)
    next
      case (3 e)
      then show ?case using 1 by (auto simp: evs)
    qed (use assms in auto)
  next
    case (3 e)
    then show ?case
      using 1 fresh mongo_spec_aborts [OF assms] by (auto simp: evs new_event_def)
  qed (use assms in auto)
qed auto

theorem CreateEvent_correct_witness:
  "wp (Events_CreateEvent local_env \<lparr>ced_Name = ''c''\<rparr>)
     (\<lambda>e w'. \<exists>cur. is_current [new_event 2 ''b'', new_event 1 ''a''] cur \<and>
        e = new_event (ev_ID cur + 1) ''c'')
     (\<lambda>e w'. e = Fatal ''CreateEvent'')
     (empty_world\<lparr>w_events := [new_event 2 ''b'', new_event 1 ''a'']\<rparr>)"
  by (rule wp_mono [OF CreateEvent_correct [OF local_env_up]]) auto

text \<open>
  Every update of an event implements its abstract operation: it changes the one event with
  the given ID (and for a package, that has the package), in the one field it is for, returns the
  updated event, leaves every other document alone, and on an error changes nothing; only the
  name, the dates and the themes reset the cached public event.
\<close>

theorem event_updates_refine:
  assumes "mongo_spec bad E"
  shows "keyed_update bad contents (Events E) ev_ID i (\<lambda>_. True)
      (\<lambda>e. e\<lparr>ev_Name := n, ev_Begin := Some b, ev_End := Some t\<rparr>)
      (\<lambda>w. w\<lparr>currentPublicEvent := None\<rparr>)
      (Events_UpdateEvent E i \<lparr>ued_Name = n, ued_Begin = b, ued_End = t\<rparr>) \<and>
    keyed_update bad contents (Events E) ev_ID i (\<lambda>_. True) (\<lambda>e. e\<lparr>ev_Themes := ts\<rparr>)
      (\<lambda>w. w\<lparr>currentPublicEvent := None\<rparr>)
      (Events_UpdateThemes E i \<lparr>uetd_Themes = Some ts\<rparr>) \<and>
    keyed_delete bad contents (Events E) ev_ID i (\<lambda>w. w\<lparr>currentPublicEvent := None\<rparr>)
      (Events_DeleteEvent E i) \<and>
    keyed_update bad contents (Events E) ev_ID i (\<lambda>_. True)
      (\<lambda>e. e\<lparr>ev_Items := addToSet k (ev_Items e)\<rparr>) (\<lambda>w. w)
      (Events_AddItem E i \<lparr>aeid_ItemID = Some k\<rparr>) \<and>
    keyed_update bad contents (Events E) ev_ID i (\<lambda>_. True)
      (\<lambda>e. e\<lparr>ev_Items := pull (\<lambda>j. j = k) (ev_Items e)\<rparr>) (\<lambda>w. w) (Events_RemoveItem E i k) \<and>
    keyed_update bad contents (Events E) ev_ID i (\<lambda>_. True)
      (\<lambda>e. e\<lparr>ev_Meetings := addToSet k (ev_Meetings e)\<rparr>) (\<lambda>w. w) (Events_AddMeeting E i k) \<and>
    keyed_update bad contents (Events E) ev_ID i (\<lambda>_. True)
      (\<lambda>e. e\<lparr>ev_Meetings := pull (\<lambda>j. j = k) (ev_Meetings e)\<rparr>) (\<lambda>w. w)
      (Events_RemoveMeeting E i k) \<and>
    keyed_update bad contents (Events E) ev_ID i (\<lambda>_. True)
      (\<lambda>e. e\<lparr>ev_Sessions := addToSet k (ev_Sessions e)\<rparr>) (\<lambda>w. w) (Events_AddSession E i k) \<and>
    keyed_update bad contents (Events E) ev_ID i (\<lambda>_. True)
      (\<lambda>e. e\<lparr>ev_Teams := ids\<rparr>) (\<lambda>w. w) (Events_UpdateTeams E i ids) \<and>
    keyed_update bad contents (Events E) ev_ID i (\<lambda>_. True)
      (\<lambda>e. e\<lparr>ev_Teams := pull (\<lambda>j. j = k) (ev_Teams e)\<rparr>) (\<lambda>w. w) (Events_RemoveTeam E i k) \<and>
    keyed_update bad contents (Events E) ev_ID i (\<lambda>_. True)
      (\<lambda>e. e\<lparr>ev_Packages := pull (\<lambda>p. ep_Template p = k) (ev_Packages e)\<rparr>) (\<lambda>w. w)
      (Events_RemovePackage E i k) \<and>
    keyed_update bad contents (Events E) ev_ID i (\<lambda>e. k \<in> ep_Template ` set (ev_Packages e))
      (\<lambda>e. e\<lparr>ev_Packages := positional (\<lambda>p. ep_Template p = k)
         (\<lambda>p. p\<lparr>ep_Available := av, ep_PublicName := n\<rparr>) (ev_Packages e)\<rparr>) (\<lambda>w. w)
      (Events_UpdatePackage E i k \<lparr>uepd_PublicName = Some n, uepd_Available = Some av\<rparr>) \<and>
    keyed_update bad contents (Events E) ev_ID i (\<lambda>_. True)
      (\<lambda>e. e\<lparr>ev_CalendarUrl := url\<rparr>) (\<lambda>w. w) (Events_UpdateCalendar E i url)"
  using keyed_UpdateEvent [OF assms, of i "\<lparr>ued_Name = n, ued_Begin = b, ued_End = t\<rparr>"]
    keyed_UpdateThemes [OF assms, of i "\<lparr>uetd_Themes = Some ts\<rparr>"]
  by (simp add: keyed_DeleteEvent [OF assms] keyed_event_sets [OF assms])

theorem event_updates_refine_witness:
  "keyed_delete never contents (Events local_env) ev_ID 1 (\<lambda>w. w\<lparr>currentPublicEvent := None\<rparr>)
      (Events_DeleteEvent local_env 1) \<and>
   fst (Events_DeleteEvent local_env 1 (empty_world\<lparr>w_events := [new_event 2 [], new_event 1 []]\<rparr>)) =
      Inr (new_event 1 [])"
proof
  show "keyed_delete never contents (Events local_env) ev_ID 1 (\<lambda>w. w\<lparr>currentPublicEvent := None\<rparr>)
      (Events_DeleteEvent local_env 1)"
    using event_updates_refine [OF local_env_up] by blast
  show "fst (Events_DeleteEvent local_env 1
      (empty_world\<lparr>w_events := [new_event 2 [], new_event 1 []]\<rparr>)) = Inr (new_event 1 [])"
    by (simp add: Events_DeleteEvent_def Events_GetEvent_def ResetCurrentPublicEvent_def bindE_def
        FindOne_def DeleteOne_def store_def modifyE_def retE_def local_driver_def new_event_def)
qed

text \<open>
  What the public pages can ask for: with neither option or both the whole list of events,
  with \<open>Current\<close> alone the current event, with \<open>PastEvents\<close> alone every event but the current
  one, otherwise nothing; the two single options together partition the events, and nothing but
  the public fields is given.
\<close>

theorem GetPublicEvents_correct:
  assumes "mongo_spec bad E" and "distinct (map ev_ID (w_events w))"
    and "w_events w \<noteq> [] \<or> gpe_Current options = None \<and> gpe_PastEvents options = None"
  shows "wp (Events_GetPublicEvents E options)
     (\<lambda>pubs w'. contents w' = contents w \<and>
        (let current = (gpe_Current options = Some True); past = (gpe_PastEvents options = Some True);
             neither = (gpe_Current options = None \<and> gpe_PastEvents options = None) in
         set pubs = eventToPublic ` {e \<in> set (w_events w).
           neither \<or> current \<and> is_current (w_events w) e \<or> past \<and> \<not> is_current (w_events w) e}))
     (\<lambda>e w'. contents w' = contents w \<and> bad e) w"
proof (cases "(gpe_Current options = None \<and> gpe_PastEvents options = None) \<or>
         (gpe_Current options = Some True \<and> gpe_PastEvents options = Some True)")
  case True
  then show ?thesis
    unfolding Events_GetPublicEvents_def if_P [OF True] wp_bindE
    by (intro wp_Find [where bad = bad and idf = ev_ID])
      (auto simp: assms(1) Let_def dest!: mset_eq_setD)
next
  case False
  have evs: "w_events w \<noteq> []" using assms(3) False by auto
  show ?thesis
    unfolding Events_GetPublicEvents_def if_not_P [OF False] wp_bindE
  proof (rule wp_GetCurrentEvent [OF assms(1)], goal_cases)
    case (1 cur w1)
    have same: "w_events w1 = w_events w"
      using 1(2) contents_simps(5) by metis
    have cur: "is_current (w_events w) e \<longleftrightarrow> ev_ID e = ev_ID cur" if "e \<in> set (w_events w)" for e
      using that 1(1) is_current_unique [OF assms(2)] by (auto simp: is_current_def)
    have mem: "cur \<in> set (w_events w)" and uniq: "e = cur" if "ev_ID e = ev_ID cur"
      "e \<in> set (w_events w)" for e
      using 1(1) that assms(2) by (auto simp: is_current_def distinct_map inj_on_def)
    consider (c) "gpe_Current options = Some True" "gpe_PastEvents options \<noteq> Some True"
      | (p) "gpe_PastEvents options = Some True" "gpe_Current options \<noteq> Some True"
      | (n) "gpe_PastEvents options \<noteq> Some True" "gpe_Current options \<noteq> Some True"
      using False by blast
    then show ?case
    proof cases
      case c
      then show ?thesis
        using 1 cur mem uniq by (cases "gpe_PastEvents options") (auto simp: Let_def is_current_def)
    next
      case p
      then have "\<not> gpe_Current options = Some True"
        and opt: "gpe_Current options = None \<or> gpe_Current options = Some False"
        by (cases "gpe_Current options"; auto)+
      with p show ?thesis
        using 1 cur same
        by (simp add: Let_def, intro wp_Find [where bad = bad and idf = ev_ID])
          (auto simp: assms(1) eventToPublic_def dest!: mset_eq_setD)
    next
      case n
      then show ?thesis using False 1 by (auto simp: Let_def)
    qed
  next
    case (2 e w1)
    then show ?case using evs by auto
  qed
qed

theorem GetPublicEvents_correct_witness:
  "wp (Events_GetPublicEvents local_env \<lparr>gpe_Current = None, gpe_PastEvents = Some True\<rparr>)
     (\<lambda>pubs w'. set pubs = {eventToPublic (new_event 1 ''a'')})
     (\<lambda>e w'. False)
     (empty_world\<lparr>w_events := [new_event 2 ''b'', new_event 1 ''a'']\<rparr>)"
  by (rule wp_mono [OF GetPublicEvents_correct [OF local_env_up]]) (auto simp: is_current_def)

text \<open>
  The options of \<open>GetEvents\<close> are said to be combined with a logical \<^emph>\<open>and\<close>. They are not:
  the three conditions on the begin date are written to one key of the filter, so the last one
  set wins. With \<open>After\<close> given, \<open>Before\<close> has no effect, and with \<open>During\<close> given neither has.
\<close>

theorem GetEvents_last_date_wins:
  "Events_GetEvents E \<lparr>geo_Name = n, geo_Before = b, geo_After = Some t, geo_During = None\<rparr> =
     Events_GetEvents E \<lparr>geo_Name = n, geo_Before = None, geo_After = Some t, geo_During = None\<rparr> \<and>
   Events_GetEvents E \<lparr>geo_Name = n, geo_Before = b, geo_After = a, geo_During = Some t\<rparr> =
     Events_GetEvents E \<lparr>geo_Name = n, geo_Before = None, geo_After = None, geo_During = Some t\<rparr>"
  by (simp add: Events_GetEvents_def events_filter_def [abs_def] events_begin_filter_def Let_def)

end
