(* ===== verification/Sessions.thy ===== *)
theory Sessions
  imports Lookups Events
begin

text \<open>
  \<^verbatim>\<open>backend/src/mongodb/session.go\<close> without its public pages: the sessions of an event (talks,
  presentations and workshops), the checks of their request bodies and the search.
\<close>

definition ResetCurrentPublicSessions :: "(world, unit) smonad" where
  "ResetCurrentPublicSessions = modifyE (\<lambda>w. w\<lparr>currentPublicSessions := None\<rparr>)"

record CreateSessionData =
  ses_Begin :: "time option"
  ses_End :: "time option"
  ses_Title :: "string option"
  ses_Description :: "string option"
  ses_Place :: "string option"
  ses_Kind :: "string option"
  ses_VideoURL :: "string option"
  ses_Company :: "oid option"
  ses_Speakers :: "oid list option"
  ses_Tickets :: "sessionTickets option"

text \<open>The check on tickets, the same in both \<open>ParseBody\<close>.\<close>

definition tickets_error :: "time \<Rightarrow> sessionTickets option \<Rightarrow> err option" where
  "tickets_error now tickets = (case tickets of
     None \<Rightarrow> None
   | Some t \<Rightarrow>
       if tk_Start t > tk_End t then Some (Err ''tickets: start must be before end'')
       else if tk_Start t < now \<or> tk_End t < now
       then Some (Err ''tickets: start and end must be in the future'')
       else if tk_Max t \<le> 0 then Some (Err ''maximum number of tickets must be a positive integer'')
       else None)"

definition check_speaker :: "env \<Rightarrow> oid \<Rightarrow> (world, unit) smonad" where
  "check_speaker E s =
     onErr (Speakers_GetSpeaker E s) (\<lambda>_. throwE (Err ''speaker not found'')) (\<lambda>_. retE ())"

definition check_company :: "env \<Rightarrow> oid \<Rightarrow> (world, unit) smonad" where
  "check_company E c =
     onErr (Companies_GetCompany E c) (\<lambda>_. throwE (Err ''company not found'')) (\<lambda>_. retE ())"

definition CreateSessionData_ParseBody ::
  "env \<Rightarrow> err + CreateSessionData \<Rightarrow> (world, CreateSessionData) smonad" where
  "CreateSessionData_ParseBody E body =
     bindE (liftR body) (\<lambda>csd.
     bindE (getsE (\<lambda>w. env_now E (w_tick w))) (\<lambda>now.
     case ses_Begin csd of None \<Rightarrow> throwE (Err ''invalid begin date'') | Some begin \<Rightarrow>
     (case ses_End csd of None \<Rightarrow> throwE (Err ''invalid end date'') | Some end \<Rightarrow>
     if now > begin \<or> now > end
     then throwE (Err ''invalid begin or end dates: must be in the future'')
     else if begin > end
     then throwE (Err ''invalid begin or end dates: end must be after begin'')
     else if (case ses_Title csd of None \<Rightarrow> True | Some t \<Rightarrow> length t = 0)
     then throwE (Err ''invalid title'')
     else if (case ses_Description csd of None \<Rightarrow> True | Some d \<Rightarrow> length d = 0)
     then throwE (Err ''invalid description'')
     else (case ses_Kind csd of None \<Rightarrow> throwE (Err ''invalid kind'') | Some kind \<Rightarrow>
     (case SessionKind_Parse kind of Inl _ \<Rightarrow> throwE (Err ''invalid kind'') | Inr sk \<Rightarrow>
     bindE (if sk = SessionKindTalk then
         (case ses_Speakers csd of None \<Rightarrow> throwE (Err ''invalid speaker'')
          | Some ss \<Rightarrow> forE ss (check_speaker E))
       else retE ()) (\<lambda>_.
     bindE (if sk = SessionKindWorkshop \<or> sk = SessionKindPresentation then
         (case ses_Company csd of None \<Rightarrow> throwE (Err ''invalid company'')
          | Some c \<Rightarrow> check_company E c)
       else retE ()) (\<lambda>_.
     case tickets_error now (ses_Tickets csd) of Some e \<Rightarrow> throwE e | None \<Rightarrow> retE csd)))))))"

text \<open>The kind is stored as the string given; it reads back as the constant it names.\<close>

definition sessionKind_of :: "string \<Rightarrow> sessionKind" where
  "sessionKind_of s = (case SessionKind_Parse s of Inr k \<Rightarrow> k | Inl _ \<Rightarrow> OtherSessionKind s)"

definition string_of :: "string option \<Rightarrow> string" where
  "string_of p = (case p of None \<Rightarrow> [] | Some s \<Rightarrow> s)"

definition session_of :: "CreateSessionData \<Rightarrow> time \<Rightarrow> time \<Rightarrow> oid \<Rightarrow> session" where
  "session_of data begin end i =
     \<lparr>se_ID = i, se_Begin = begin, se_End = end, se_Title = string_of (ses_Title data),
      se_Description = string_of (ses_Description data), se_Image = [],
      se_Place = string_of (ses_Place data), se_Kind = sessionKind_of (string_of (ses_Kind data)),
      se_Company = ses_Company data, se_Speakers = ses_Speakers data,
      se_VideoURL = string_of (ses_VideoURL data), se_Tickets = ses_Tickets data\<rparr>"

definition Sessions_CreateSession :: "env \<Rightarrow> CreateSessionData \<Rightarrow> (world, session) smonad" where
  "Sessions_CreateSession E data =
     bindE (deref (ses_Begin data)) (\<lambda>begin.
     bindE (deref (ses_End data)) (\<lambda>end.
     bindE (onErr (InsertOne (Sessions E) (session_of data begin end))
       (\<lambda>err. throwE (Fatal ''CreateSession''))
       (\<lambda>insertedID. FindOne (Sessions E) (\<lambda>s. se_ID s = insertedID))) (\<lambda>session.
     bindE ResetCurrentPublicSessions (\<lambda>_.
     retE session))))"

text \<open>\<^verbatim>\<open>UpdateSessionData\<close> has the fields of \<^verbatim>\<open>CreateSessionData\<close>; its check reads no document.\<close>

definition UpdateSessionData_ParseBody ::
  "time \<Rightarrow> err + CreateSessionData \<Rightarrow> err + CreateSessionData" where
  "UpdateSessionData_ParseBody now body = (case body of
     Inl e \<Rightarrow> Inl e
   | Inr usd \<Rightarrow>
     (case ses_Begin usd of None \<Rightarrow> Inl (Err ''invalid begin date'') | Some begin \<Rightarrow>
     (case ses_End usd of None \<Rightarrow> Inl (Err ''invalid end date'') | Some end \<Rightarrow>
     if begin > end then Inl (Err ''invalid begin or end dates: end must be after begin'')
     else if (case ses_Title usd of None \<Rightarrow> True | Some t \<Rightarrow> length t = 0)
     then Inl (Err ''invalid title'')
     else if (case ses_Description usd of None \<Rightarrow> True | Some d \<Rightarrow> length d = 0)
     then Inl (Err ''invalid description'')
     else (case ses_Kind usd of None \<Rightarrow> Inl (Err ''invalid kind'') | Some kind \<Rightarrow>
     (case SessionKind_Parse kind of Inl _ \<Rightarrow> Inl (Err ''invalid kind'') | Inr sk \<Rightarrow>
     if sk = SessionKindTalk \<and> ses_Speakers usd = None then Inl (Err ''invalid company'')
     else if sk = SessionKindPresentation \<and> ses_Company usd = None
     then Inl (Err ''invalid company'')
     else (case tickets_error now (ses_Tickets usd) of Some e \<Rightarrow> Inl e | None \<Rightarrow> Inr usd))))))"

definition Sessions_UpdateSession ::
  "env \<Rightarrow> oid \<Rightarrow> CreateSessionData \<Rightarrow> (world, session) smonad" where
  "Sessions_UpdateSession E sessionID data =
     bindE (deref (ses_Begin data)) (\<lambda>begin.
     bindE (deref (ses_End data)) (\<lambda>end.
     bindE (FindOneAndUpdate (Sessions E) (\<lambda>s. se_ID s = sessionID)
       (\<lambda>s. s\<lparr>se_Begin := begin, se_End := end, se_Title := string_of (ses_Title data),
              se_Description := string_of (ses_Description data),
              se_Kind := sessionKind_of (string_of (ses_Kind data)),
              se_Place := (case ses_Place data of None \<Rightarrow> se_Place s | Some p \<Rightarrow> p),
              se_Company := (case ses_Company data of None \<Rightarrow> se_Company s | Some c \<Rightarrow> Some c),
              se_Speakers := (case ses_Speakers data of None \<Rightarrow> se_Speakers s | Some ss \<Rightarrow> Some ss),
              se_VideoURL := (case ses_VideoURL data of None \<Rightarrow> se_VideoURL s | Some v \<Rightarrow> v),
              se_Tickets := (case ses_Tickets data of None \<Rightarrow> se_Tickets s | Some t \<Rightarrow> Some t)\<rparr>)) (\<lambda>session.
     bindE ResetCurrentPublicSessions (\<lambda>_.
     retE session))))"

definition Sessions_DeleteSession :: "env \<Rightarrow> oid \<Rightarrow> (world, session) smonad" where
  "Sessions_DeleteSession E sessionID = FindOneAndDelete (Sessions E) (\<lambda>s. se_ID s = sessionID)"

section \<open>The search\<close>

record GetSessionsOptions =
  gso_Event :: "int option"
  gso_Before :: "time option"
  gso_After :: "time option"
  gso_Place :: "string option"
  gso_Kind :: "sessionKind option"
  gso_Company :: "oid option"
  gso_Speaker :: "oid option"

fun has_speaker :: "oid list \<Rightarrow> oid \<Rightarrow> bool \<Rightarrow> bool" where
  "has_speaker [] speaker found = found"
| "has_speaker (s # ss) speaker found =
     has_speaker ss speaker (if s = speaker then True else found)"

text \<open>
  Each option given overwrites \<open>keep\<close>; the company and the speakers of the session are followed
  without a check.
\<close>

definition keep_session :: "GetSessionsOptions \<Rightarrow> session \<Rightarrow> (world, bool) smonad" where
  "keep_session options session =
     (let keep = True;
          keep = (case gso_Before options of None \<Rightarrow> keep | Some t \<Rightarrow> se_Begin session < t);
          keep = (case gso_After options of None \<Rightarrow> keep | Some t \<Rightarrow> se_End session > t);
          keep = (case gso_Place options of None \<Rightarrow> keep | Some p \<Rightarrow> se_Place session = p);
          keep = (case gso_Kind options of None \<Rightarrow> keep | Some k \<Rightarrow> se_Kind session = k) in
      bindE (case gso_Company options of None \<Rightarrow> retE keep
        | Some c \<Rightarrow> bindE (deref (se_Company session)) (\<lambda>company. retE (company = c))) (\<lambda>keep.
      case gso_Speaker options of None \<Rightarrow> retE keep
        | Some speaker \<Rightarrow> bindE (deref (se_Speakers session)) (\<lambda>speakers.
            retE (has_speaker speakers speaker False))))"

fun select_sessions ::
  "env \<Rightarrow> GetSessionsOptions \<Rightarrow> oid list \<Rightarrow> session list \<Rightarrow> (world, session list) smonad" where
  "select_sessions E options [] acc = retE acc"
| "select_sessions E options (sessionID # ids) acc =
     onErr (Sessions_GetSession E sessionID)
       (\<lambda>_. select_sessions E options ids acc)
       (\<lambda>session.
     bindE (keep_session options session) (\<lambda>keep.
     select_sessions E options ids (if keep then acc @ [session] else acc)))"

definition Sessions_GetSessions ::
  "env \<Rightarrow> GetSessionsOptions \<Rightarrow> (world, session list) smonad" where
  "Sessions_GetSessions E options =
     bindE (case gso_Event options of
         None \<Rightarrow> Events_GetCurrentEvent E
       | Some eventID \<Rightarrow> Events_GetEvent E eventID) (\<lambda>event.
     select_sessions E options (ev_Sessions event) [])"

section \<open>The check of a new session\<close>

lemma wp_check_speaker:
  assumes "mongo_spec bad E"
    and "\<And>w'. s \<in> s_ID ` set (w_speakers w) \<Longrightarrow> contents w' = contents w \<Longrightarrow> Q () w'"
    and "\<And>w'. contents w' = contents w \<Longrightarrow> R (Err ''speaker not found'') w'"
  shows "wp (check_speaker E s) Q R w"
  unfolding check_speaker_def wp_onErr
  by (rule wp_GetSpeaker [OF assms(1)]) (use assms(2,3) mongo_spec_aborts [OF assms(1)] in auto)

lemma wp_check_company:
  assumes "mongo_spec bad E"
    and "\<And>w'. c \<in> co_ID ` set (w_companies w) \<Longrightarrow> contents w' = contents w \<Longrightarrow> Q () w'"
    and "\<And>w'. contents w' = contents w \<Longrightarrow> R (Err ''company not found'') w'"
  shows "wp (check_company E c) Q R w"
  unfolding check_company_def wp_onErr
  by (rule wp_GetCompany [OF assms(1)]) (use assms(2,3) mongo_spec_aborts [OF assms(1)] in auto)

lemma wp_check_speakers:
  assumes "mongo_spec bad E"
    and "\<And>w'. set ss \<subseteq> s_ID ` set (w_speakers w) \<Longrightarrow> contents w' = contents w \<Longrightarrow> Q () w'"
    and "\<And>e w'. contents w' = contents w \<Longrightarrow> R e w'"
  shows "wp (forE ss (check_speaker E)) Q R w"
proof (rule wp_forE [where I = "\<lambda>xs w'. contents w' = contents w \<and>
      set xs \<subseteq> s_ID ` set (w_speakers w)"], goal_cases)
  case (2 ys x zs t)
  show ?case
    by (rule wp_check_speaker [OF assms(1)])
      (use 2 contents_eqD(2) [of t "contents w"] in \<open>auto intro: assms(3)\<close>)
qed (use assms(2) in auto)

text \<open>What holds of a session whose body passed the check at the time \<open>now\<close>.\<close>

definition session_data_ok :: "world \<Rightarrow> time \<Rightarrow> CreateSessionData \<Rightarrow> bool" where
  "session_data_ok w now d \<longleftrightarrow>
     (\<exists>begin end title description kind sk. ses_Begin d = Some begin \<and> ses_End d = Some end \<and>
        now \<le> begin \<and> begin \<le> end \<and> ses_Title d = Some title \<and> title \<noteq> [] \<and>
        ses_Description d = Some description \<and> description \<noteq> [] \<and>
        ses_Kind d = Some kind \<and> SessionKind_Parse kind = Inr sk \<and>
        (sk = SessionKindTalk \<longrightarrow>
           (\<exists>ss. ses_Speakers d = Some ss \<and> set ss \<subseteq> s_ID ` set (w_speakers w))) \<and>
        (sk \<noteq> SessionKindTalk \<longrightarrow>
           (\<exists>c. ses_Company d = Some c \<and> c \<in> co_ID ` set (w_companies w))) \<and>
        (\<forall>t. ses_Tickets d = Some t \<longrightarrow> now \<le> tk_Start t \<and> tk_Start t \<le> tk_End t \<and> 0 < tk_Max t))"

lemma tickets_error_None:
  "tickets_error now ts = None \<longleftrightarrow>
     (\<forall>t. ts = Some t \<longrightarrow> now \<le> tk_Start t \<and> tk_Start t \<le> tk_End t \<and> 0 < tk_Max t)"
  by (cases ts) (auto simp: tickets_error_def)

lemma SessionKind_Parse_named:
  "SessionKind_Parse s = Inr sk \<Longrightarrow>
   sk \<in> {SessionKindTalk, SessionKindPresentation, SessionKindWorkshop}"
  using session_enum.parse_sound by auto

lemma wp_CreateSession_ParseBody:
  assumes "mongo_spec bad E"
  shows "wp (CreateSessionData_ParseBody E body)
     (\<lambda>d w'. contents w' = contents w \<and> body = Inr d \<and> session_data_ok w (env_now E (w_tick w)) d)
     (\<lambda>e w'. contents w' = contents w) w"
proof (cases body)
  case (Inr d)
  show ?thesis
  proof (cases "ses_Begin d = None \<or> ses_End d = None \<or> ses_Kind d = None")
    case True
    with Inr show ?thesis
      by (auto simp: CreateSessionData_ParseBody_def split: option.split sum.split)
  next
    case False
    then obtain b t kind where d: "ses_Begin d = Some b" "ses_End d = Some t"
      "ses_Kind d = Some kind" by auto
    show ?thesis
    proof (cases "SessionKind_Parse kind")
      case (Inl e)
      with \<open>body = Inr d\<close> d show ?thesis by (simp add: CreateSessionData_ParseBody_def)
    next
      case kind: (Inr sk)
      consider "sk = SessionKindTalk" | "sk = SessionKindPresentation" | "sk = SessionKindWorkshop"
        using SessionKind_Parse_named [OF kind] by auto
      then show ?thesis
        using \<open>body = Inr d\<close> d kind
        by cases (auto simp: CreateSessionData_ParseBody_def session_data_ok_def tickets_error_None
            split: option.split intro!: wp_check_speakers [OF assms] wp_check_company [OF assms])
    qed
  qed
qed (simp add: CreateSessionData_ParseBody_def)

lemma created_Session:
  "mongo_spec bad E \<Longrightarrow> ses_Begin d = Some b \<Longrightarrow> ses_End d = Some t \<Longrightarrow>
   created (\<lambda>e. bad e \<or> e = Fatal ''CreateSession'') contents (Sessions E) se_ID (session_of d b t)
     (\<lambda>w. w\<lparr>currentPublicSessions := None\<rparr>) (Sessions_CreateSession E d)"
  unfolding Sessions_CreateSession_def ResetCurrentPublicSessions_def
  by (simp, rule created_then, rule sessions.created_fatalI) (simp_all add: session_of_def)

lemma keyed_DeleteSession:
  "mongo_spec bad E \<Longrightarrow>
   keyed_delete bad contents (Sessions E) se_ID i (\<lambda>w. w) (Sessions_DeleteSession E i)"
  unfolding Sessions_DeleteSession_def by (rule sessions.keyed_deleteI) simp

section \<open>The search by company\<close>

lemma has_speaker_iff: "has_speaker ss x found \<longleftrightarrow> found \<or> x \<in> set ss"
  by (induction ss arbitrary: found) auto

text \<open>Asking for the sessions of a company follows the company of every session of the event.\<close>

definition company_options :: "oid \<Rightarrow> GetSessionsOptions" where
  "company_options c = \<lparr>gso_Event = None, gso_Before = None, gso_After = None, gso_Place = None,
     gso_Kind = None, gso_Company = Some c, gso_Speaker = None\<rparr>"

lemma keep_session_company:
  "keep_session (company_options c) s =
     (case se_Company s of None \<Rightarrow> throwE (Panic ''nil pointer dereference'')
      | Some company \<Rightarrow> retE (company = c))"
  by (simp add: keep_session_def company_options_def split: option.split)

definition listed_sessions :: "world \<Rightarrow> oid list \<Rightarrow> session set" where
  "listed_sessions w ids = {s \<in> set (w_sessions w). se_ID s \<in> set ids}"

text \<open>Asking for a speaker likewise follows the speakers of every session.\<close>

definition speaker_options :: "oid \<Rightarrow> GetSessionsOptions" where
  "speaker_options i = \<lparr>gso_Event = None, gso_Before = None, gso_After = None, gso_Place = None,
     gso_Kind = None, gso_Company = None, gso_Speaker = Some i\<rparr>"

lemma keep_session_speaker:
  "keep_session (speaker_options i) s =
     (case se_Speakers s of None \<Rightarrow> throwE (Panic ''nil pointer dereference'')
      | Some ss \<Rightarrow> retE (i \<in> set ss))"
  by (simp add: keep_session_def speaker_options_def has_speaker_iff split: option.split)

text \<open>Both are a search by a field of the session that may be nil.\<close>

definition picked :: "(session \<Rightarrow> 'v option) \<Rightarrow> ('v \<Rightarrow> bool) \<Rightarrow> session \<Rightarrow> bool" where
  "picked field test s \<longleftrightarrow> (case field s of None \<Rightarrow> False | Some v \<Rightarrow> test v)"

lemma wp_select_sessions:
  assumes "mongo_spec bad E"
    and keep: "\<And>s. keep_session options s =
      (case field s of None \<Rightarrow> throwE (Panic ''nil pointer dereference'') | Some v \<Rightarrow> retE (test v))"
  shows "wp (select_sessions E options ids acc)
     (\<lambda>ss w'. contents w' = contents w \<and>
        set ss \<subseteq> set acc \<union> {s \<in> listed_sessions w ids. picked field test s} \<and>
        ((\<forall>e. \<not> bad e) \<longrightarrow> distinct (map se_ID (w_sessions w)) \<longrightarrow>
           (\<forall>s \<in> listed_sessions w ids. field s \<noteq> None) \<and>
           set ss = set acc \<union> {s \<in> listed_sessions w ids. picked field test s}))
     (\<lambda>e w'. contents w' = contents w \<and> e = Panic ''nil pointer dereference'' \<and>
        (\<exists>s \<in> listed_sessions w ids. field s = None)) w"
proof (induction ids arbitrary: acc w)
  case Nil
  then show ?case by (simp add: listed_sessions_def)
next
  case (Cons i ids)
  have weaken: "wp (select_sessions E options ids acc') Q R w'"
    if w': "contents w' = contents w"
      and Q: "\<And>ss w''. contents w'' = contents w \<Longrightarrow>
        set ss \<subseteq> set acc' \<union> {s \<in> listed_sessions w ids. picked field test s} \<Longrightarrow>
        ((\<forall>e. \<not> bad e) \<longrightarrow> distinct (map se_ID (w_sessions w)) \<longrightarrow>
           (\<forall>s \<in> listed_sessions w ids. field s \<noteq> None) \<and>
           set ss = set acc' \<union> {s \<in> listed_sessions w ids. picked field test s}) \<Longrightarrow> Q ss w''"
      and R: "\<And>w''. contents w'' = contents w \<Longrightarrow>
        \<exists>s \<in> listed_sessions w ids. field s = None \<Longrightarrow>
        R (Panic ''nil pointer dereference'') w''" for w' acc' Q R
  proof -
    have "w_sessions w' = w_sessions w" using contents_eqD(14) [OF w'] by simp
    then show ?thesis
      using Cons.IH [of acc' w'] Q R w'
      by (elim wp_mono) (auto simp: listed_sessions_def)
  qed
  show ?case
    unfolding select_sessions.simps wp_onErr
  proof (rule wp_GetSession [OF assms(1)], goal_cases)
    case (1 s w')
    have sub: "listed_sessions w ids \<subseteq> listed_sessions w (i # ids)"
      and mem: "s \<in> listed_sessions w (i # ids)"
      using 1(1,2) by (auto simp: listed_sessions_def)
    have all: "listed_sessions w (i # ids) = insert s (listed_sessions w ids)"
      if "distinct (map se_ID (w_sessions w))"
      using that 1(1,2) by (auto simp: listed_sessions_def distinct_map dest: inj_onD)
    show ?case
    proof (cases "field s")
      case None
      with 1(3) mem show ?thesis by (auto simp: keep)
    next
      case (Some v)
      show ?thesis
        unfolding keep Some option.case bindE_retE
        by (rule weaken [OF 1(3)]; cases "test v"; use sub mem all Some in \<open>auto simp: picked_def\<close>)
    qed
  next
    case (2 e w')
    then have "\<not> aborts e" using mongo_spec_aborts [OF assms(1)] by auto
    then show ?case
      by (simp only: if_False, intro weaken [OF 2(1)]) (use 2 in \<open>auto simp: listed_sessions_def\<close>)
  qed
qed

lemma wp_GetSessions_by:
  assumes "mongo_spec bad E" and opt: "gso_Event options = None"
    and keep: "\<And>s. keep_session options s =
      (case field s of None \<Rightarrow> throwE (Panic ''nil pointer dereference'') | Some v \<Rightarrow> retE (test v))"
  shows "wp (Sessions_GetSessions E options)
     (\<lambda>ss w'. contents w' = contents w \<and> (\<exists>cur. is_current (w_events w) cur \<and>
        set ss \<subseteq> {s \<in> listed_sessions w (ev_Sessions cur). picked field test s} \<and>
        ((\<forall>e. \<not> bad e) \<and> distinct (map se_ID (w_sessions w)) \<longrightarrow>
           (\<forall>s \<in> listed_sessions w (ev_Sessions cur). field s \<noteq> None) \<and>
           set ss = {s \<in> listed_sessions w (ev_Sessions cur). picked field test s})))
     (\<lambda>e w'. contents w' = contents w \<and>
        (bad e \<or> e = Err ''no events found'' \<and> w_events w = [] \<or> e = Panic ''nil pointer dereference'' \<and>
          (\<exists>cur. is_current (w_events w) cur \<and>
            (\<exists>s \<in> listed_sessions w (ev_Sessions cur). field s = None)))) w"
  unfolding Sessions_GetSessions_def opt option.case wp_bindE
proof (rule wp_GetCurrentEvent [OF assms(1)], goal_cases)
  case (1 cur w1)
  have same: "w_sessions w1 = w_sessions w" using contents_eqD(14) [OF 1(2)] by simp
  show ?case
    by (rule wp_mono [OF wp_select_sessions [OF assms(1) keep]])
      (use 1 same in \<open>auto simp: listed_sessions_def\<close>)
qed auto

lemma picked_company: "picked se_Company (\<lambda>v. v = c) s \<longleftrightarrow> se_Company s = Some c"
  by (auto simp: picked_def split: option.split)

section \<open>Properties\<close>

text \<open>
  A session created from a request body that passed \<open>ParseBody\<close> is well formed: it is in the
  future and does not end before it begins, has a title and a description, is of a known kind,
  a talk has speakers that all exist and any other session a company that exists, and its tickets
  are positive in number with a window in the future. A call that fails has stored nothing, unless the
  database failed or the program stopped at the insertion (\<open>log.Fatal\<close>).
\<close>

theorem created_session_well_formed:
  assumes "mongo_spec bad E"
  shows "wp (bindE (CreateSessionData_ParseBody E body) (Sessions_CreateSession E))
     (\<lambda>s w'. contents w' = (contents w)\<lparr>w_sessions := w_sessions w @ [s], currentPublicSessions := None\<rparr> \<and>
        env_now E (w_tick w) \<le> se_Begin s \<and> se_Begin s \<le> se_End s \<and> se_Title s \<noteq> [] \<and>
        se_Description s \<noteq> [] \<and>
        (case se_Kind s of
           SessionKindTalk \<Rightarrow> (\<exists>ss. se_Speakers s = Some ss \<and> set ss \<subseteq> s_ID ` set (w_speakers w))
         | OtherSessionKind _ \<Rightarrow> False
         | _ \<Rightarrow> (\<exists>c. se_Company s = Some c \<and> c \<in> co_ID ` set (w_companies w))) \<and>
        (\<forall>t. se_Tickets s = Some t \<longrightarrow>
           env_now E (w_tick w) \<le> tk_Start t \<and> tk_Start t \<le> tk_End t \<and> 0 < tk_Max t))
     (\<lambda>e w'. contents w' = contents w \<or> bad e \<or> e = Fatal ''CreateSession'') w"
  unfolding wp_bindE
proof (rule wp_mono [OF wp_CreateSession_ParseBody [OF assms]], goal_cases)
  case (1 d w1)
  then obtain b t where d: "ses_Begin d = Some b" "ses_End d = Some t"
    by (auto simp: session_data_ok_def)
  have w1: "contents w1 = contents w" and ok: "session_data_ok w (env_now E (w_tick w)) d"
    using 1 by auto
  show ?case
  proof (rule wp_created [OF created_Session [OF assms d]], goal_cases)
    case (1 k w')
    obtain kind sk where kind: "ses_Kind d = Some kind" "SessionKind_Parse kind = Inr sk"
      using ok by (auto simp: session_data_ok_def)
    consider "sk = SessionKindTalk" | "sk = SessionKindPresentation" | "sk = SessionKindWorkshop"
      using SessionKind_Parse_named [OF kind(2)] by auto
    then show ?case
      using 1 ok d kind contents_eqD(14) [OF w1] w1
      by cases (auto simp: session_data_ok_def session_of_def string_of_def sessionKind_of_def)
  next
    case (2 e w')
    then show ?case using w1 by auto
  qed
qed simp

definition sample_session :: CreateSessionData where
  "sample_session = \<lparr>ses_Begin = Some 100, ses_End = Some 200, ses_Title = Some ''t'',
     ses_Description = Some ''d'', ses_Place = None, ses_Kind = Some ''TALK'', ses_VideoURL = None,
     ses_Company = None, ses_Speakers = Some [], ses_Tickets = None\<rparr>"

theorem created_session_well_formed_witness:
  "wp (bindE (CreateSessionData_ParseBody local_env (Inr sample_session))
        (Sessions_CreateSession local_env))
     (\<lambda>s w'. se_Begin s \<le> se_End s \<and> w_sessions w' = [s]) (\<lambda>e w'. contents w' = contents empty_world \<or> e = Fatal ''CreateSession'')
     empty_world"
  by (rule wp_mono [OF created_session_well_formed [OF local_env_up]])
    (auto dest: contents_eqD(14))

text \<open>
  Asking for the sessions of a company panics whenever the current event lists a session
  without one, as every talk may be: the search follows the session's company without a check.
  When it does not panic it gives the sessions of that company which the event lists; it
  never changes anything. (\<open>DeleteCompany\<close> makes this search.)
\<close>

theorem GetSessions_of_company:
  assumes "mongo_spec bad E"
  shows "wp (Sessions_GetSessions E (company_options c))
     (\<lambda>ss w'. contents w' = contents w \<and> (\<exists>cur. is_current (w_events w) cur \<and>
        set ss \<subseteq> {s \<in> listed_sessions w (ev_Sessions cur). se_Company s = Some c} \<and>
        ((\<forall>e. \<not> bad e) \<and> distinct (map se_ID (w_sessions w)) \<longrightarrow>
           (\<forall>s \<in> listed_sessions w (ev_Sessions cur). se_Company s \<noteq> None) \<and>
           set ss = {s \<in> listed_sessions w (ev_Sessions cur). se_Company s = Some c})))
     (\<lambda>e w'. contents w' = contents w \<and>
        (bad e \<or> e = Err ''no events found'' \<and> w_events w = [] \<or> e = Panic ''nil pointer dereference'' \<and>
          (\<exists>cur. is_current (w_events w) cur \<and>
            (\<exists>s \<in> listed_sessions w (ev_Sessions cur). se_Company s = None)))) w"
  by (rule wp_GetSessions_by [OF assms _ keep_session_company, unfolded picked_company])
    (simp add: company_options_def)

definition talk_event :: event where
  "talk_event = (new_event 1 ''e'')\<lparr>ev_Sessions := [5]\<rparr>"

definition talk_session :: session where
  "talk_session = session_of sample_session 100 200 5"

theorem GetSessions_of_company_witness:
  "fst (Sessions_GetSessions local_env (company_options 9)
     (empty_world\<lparr>w_events := [talk_event], w_sessions := [talk_session]\<rparr>)) =
   Inl (Panic ''nil pointer dereference'')"
proof -
  let ?w = "empty_world\<lparr>w_events := [talk_event], w_sessions := [talk_session]\<rparr>"
  have cur: "is_current [talk_event] e \<longleftrightarrow> e = talk_event" for e
    by (auto simp: is_current_def)
  have "listed_sessions ?w (ev_Sessions talk_event) = {talk_session}"
    by (auto simp: listed_sessions_def talk_event_def talk_session_def session_of_def)
  moreover have "se_Company talk_session = None"
    by (simp add: talk_session_def session_of_def sample_session_def)
  ultimately show ?thesis
    using GetSessions_of_company [OF local_env_up, of 9 ?w]
    by (auto simp: wp_def cur split: prod.splits sum.splits)
qed

end
