(* ===== verification/Paging.thy ===== *)
theory Paging
  imports World "HOL-Library.Option_ord"
begin

text \<open>
  The paged and sorted queries that \<open>GetCompanies\<close> (\<^verbatim>\<open>mongodb/company.go\<close>) and \<open>GetSpeakers\<close>
  (\<^verbatim>\<open>mongodb/speaker.go\<close>) make in the same way, on any collection.
\<close>

text \<open>The number of documents to skip is a product of two \<^verbatim>\<open>int64\<close>, which wraps around.\<close>

definition int64 :: "int \<Rightarrow> int" where
  "int64 x = (x + 2 ^ 63) mod 2 ^ 64 - 2 ^ 63"

lemma int64_id: "- (2 ^ 63) \<le> x \<Longrightarrow> x < 2 ^ 63 \<Longrightarrow> int64 x = x"
  by (simp add: int64_def)

lemma int64_range: "- (2 ^ 63) \<le> int64 x \<and> int64 x < 2 ^ 63"
  by (simp add: int64_def)

text \<open>
  The stages of a pipeline after \<^verbatim>\<open>$match\<close>: sort downwards, skip, limit. The server refuses a
  negative skip and a limit that is not positive. The documents come in any order, so that
  one way of breaking ties stands for all.
\<close>

definition aggregate_page ::
  "('s, 'k, 'a) handle \<Rightarrow> ('a \<Rightarrow> bool) \<Rightarrow> ('a \<Rightarrow> 'b::linorder) \<Rightarrow> int \<Rightarrow> int \<Rightarrow> ('s, 'a list) smonad" where
  "aggregate_page h f key skip limit =
     (if skip < 0 \<or> limit \<le> 0 then throwE (CommandError ''invalid pipeline stage'')
      else bindE (Find h f) (\<lambda>ds. retE (take (nat limit) (drop (nat skip) (rev (sort_key key ds))))))"

text \<open>A find with a skip and a limit: no limit is 0, and a negative one counts as positive.\<close>

definition find_page ::
  "('s, 'k, 'a) handle \<Rightarrow> ('a \<Rightarrow> bool) \<Rightarrow> int \<Rightarrow> int \<Rightarrow> ('s, 'a list) smonad" where
  "find_page h f skip limit =
     (if skip < 0 then throwE (CommandError ''invalid skip'')
      else bindE (Find h f) (\<lambda>ds.
        let rest = drop (nat skip) ds in
        retE (if limit = 0 then rest else take (nat \<bar>limit\<bar>) rest)))"

text \<open>Downwards an array sorts by its largest element, and an empty one last.\<close>

definition largest :: "int list \<Rightarrow> int option" where
  "largest es = (case es of [] \<Rightarrow> None | e # es \<Rightarrow> Some (foldr max es e))"

text \<open>
  A page of the sorted documents: sorted downwards, part of what matches, and ranked
  above everything that comes on later pages.
\<close>

lemma page_sorted:
  "sorted_wrt (\<lambda>x y. key y \<le> key x) (take n (drop k (rev (sort_key key ds))))"
proof -
  have "sorted_wrt (\<lambda>x y. key y \<le> key x) (rev (sort_key key ds))"
    using sorted_sort_key [of key ds] by (simp add: sorted_wrt_rev sorted_map)
  then show ?thesis by (intro sorted_wrt_take sorted_wrt_drop)
qed

lemma page_subset: "mset (take n (drop k (rev (sort_key key ds)))) \<subseteq># mset ds"
proof -
  have "mset (take n ys) \<subseteq># mset ys" "mset (drop n ys) \<subseteq># mset ys" for n and ys :: "'a list"
    by (metis append_take_drop_id mset_append mset_subset_eq_add_left mset_subset_eq_add_right)+
  then have "mset (take n (drop k (rev (sort_key key ds)))) \<subseteq># mset (rev (sort_key key ds))"
    using subset_mset.order_trans by blast
  then show ?thesis by simp
qed

lemma page_length:
  "length (take n (drop k (rev (sort_key key ds)))) = min n (length ds - k)"
  by simp

lemma page_before:
  assumes "x \<in> set (take n (drop k (rev (sort_key key ds))))"
    and "y \<in> set (drop (k + n) (rev (sort_key key ds)))"
  shows "key y \<le> key x"
proof -
  have "rev (sort_key key ds) = take (k + n) (rev (sort_key key ds)) @ drop (k + n) (rev (sort_key key ds))"
    by simp
  then have "sorted_wrt (\<lambda>x y. key y \<le> key x)
      (take (k + n) (rev (sort_key key ds)) @ drop (k + n) (rev (sort_key key ds)))"
    using page_sorted [of key "length ds" 0 ds] by simp
  moreover have "x \<in> set (take (k + n) (rev (sort_key key ds)))"
    using assms(1) by (metis add.commute set_drop_subset subsetD take_drop)
  ultimately show ?thesis using assms(2) unfolding sorted_wrt_append by blast
qed

end
