(* ===== verification/Companies.thy ===== *)
theory Companies
  imports Contacts Catalogue Billing Sessions Paging
begin

text \<open>
  \<^verbatim>\<open>backend/src/mongodb/company.go\<close>: the companies, their participations in the events of the
  organisation, and what the public pages show of them.

  A query on \<^verbatim>\<open>"participations.event"\<close> matches a company with some participation in the event, and
  the positional \<^verbatim>\<open>$\<close> of the update is the first such participation: \<open>participates\<close> and
  \<open>on_participation\<close>. For \<^verbatim>\<open>"participations.communications"\<close>, which goes through two arrays, it is
  the first participation with the thread.
\<close>

definition ResetCurrentPublicCompanies :: "(world, unit) smonad" where
  "ResetCurrentPublicCompanies = modifyE (\<lambda>w. w\<lparr>currentPublicCompanies := None\<rparr>)"

definition participates :: "oid \<Rightarrow> int \<Rightarrow> company \<Rightarrow> bool" where
  "participates companyID event c \<longleftrightarrow>
     co_ID c = companyID \<and> event \<in> cp_Event ` set (co_Participations c)"

definition on_participation ::
  "int \<Rightarrow> (companyParticipation \<Rightarrow> companyParticipation) \<Rightarrow> company \<Rightarrow> company" where
  "on_participation event g c =
     c\<lparr>co_Participations := positional (\<lambda>p. cp_Event p = event) g (co_Participations c)\<rparr>"

section \<open>Creating and reading\<close>

record CreateCompanyData =
  ccod_Name :: "string option"
  ccod_Description :: "string option"
  ccod_Site :: "string option"
  ccod_LinkedIn :: "string option"

definition CreateCompanyData_ParseBody :: "err + CreateCompanyData \<Rightarrow> err + CreateCompanyData" where
  "CreateCompanyData_ParseBody body = (case body of
     Inl e \<Rightarrow> Inl e
   | Inr ccd \<Rightarrow>
       if (case ccod_Name ccd of None \<Rightarrow> True | Some n \<Rightarrow> length n = 0)
       then Inl (Err ''invalid name'')
       else if ccod_Description ccd = None then Inl (Err ''invalid description'')
       else if ccod_Site ccd = None then Inl (Err ''invalid site'')
       else Inr ccd)"

definition empty_contact :: "oid \<Rightarrow> contact" where
  "empty_contact i = \<lparr>ct_ID = i, ct_Gender = [], ct_Language = [], ct_Phones = [],
     ct_Socials = zero_socials, ct_Mails = []\<rparr>"

definition company_of :: "CreateCompanyData \<Rightarrow> oid \<Rightarrow> oid \<Rightarrow> company" where
  "company_of data contact i =
     \<lparr>co_ID = i, co_Name = string_of (ccod_Name data),
      co_Description = string_of (ccod_Description data), co_Images = zero_companyImages,
      co_Site = string_of (ccod_Site data),
      co_LinkedIn = string_of (formatLinkedInURL (ccod_LinkedIn data)),
      co_Employers = [], co_BillingInfo = zero_companyBillingInfo, co_Participations = [],
      co_Contact = contact\<rparr>"

definition Companies_CreateCompany :: "env \<Rightarrow> CreateCompanyData \<Rightarrow> (world, company) smonad" where
  "Companies_CreateCompany E data =
     bindE (InsertOne (Contacts E) empty_contact) (\<lambda>createdContact.
     bindE (InsertOne (Companies E) (company_of data createdContact)) (\<lambda>insertedID.
     bindE (Companies_GetCompany E insertedID) (\<lambda>newCompany.
     bindE ResetCurrentPublicCompanies (\<lambda>_.
     retE newCompany))))"

record GetCompaniesOptions =
  gcomp_EventID :: "int option"
  gcomp_IsPartner :: "bool option"
  gcomp_MemberID :: "oid option"
  gcomp_Name :: "string option"
  gcomp_NumRequests :: "int option"
  gcomp_MaxCompInRequest :: "int option"
  gcomp_SortingMethod :: "string option"

definition companies_filter :: "env \<Rightarrow> GetCompaniesOptions \<Rightarrow> company \<Rightarrow> bool" where
  "companies_filter E options c \<longleftrightarrow>
     (gcomp_EventID options \<noteq> None \<or> gcomp_IsPartner options \<noteq> None \<or> gcomp_MemberID options \<noteq> None \<longrightarrow>
        (\<exists>p \<in> set (co_Participations c).
          (case gcomp_EventID options of None \<Rightarrow> True | Some e \<Rightarrow> cp_Event p = e) \<and>
          (case gcomp_IsPartner options of None \<Rightarrow> True | Some b \<Rightarrow> cp_Partner p = b) \<and>
          (case gcomp_MemberID options of None \<Rightarrow> True | Some m \<Rightarrow> cp_Member p = m))) \<and>
     (case gcomp_Name options of None \<Rightarrow> True
      | Some n \<Rightarrow> env_regex_i E (''.*'' @ n @ ''.*'') (co_Name c)) \<and>
     (gcomp_SortingMethod options \<noteq> None \<longrightarrow> Announced \<in> cp_Status ` set (co_Participations c))"

definition announced_participations :: "company \<Rightarrow> companyParticipation list" where
  "announced_participations c = filter (\<lambda>p. cp_Status p = Announced) (co_Participations c)"

text \<open>The keys the two pipelines sort by.\<close>

definition num_announced :: "company \<Rightarrow> int" where
  "num_announced c = int (length (announced_participations c))"

definition last_announced :: "company \<Rightarrow> int option" where
  "last_announced c = largest (map cp_Event (announced_participations c))"

definition Companies_GetCompanies ::
  "env \<Rightarrow> GetCompaniesOptions \<Rightarrow> (world, company list) smonad" where
  "Companies_GetCompanies E options =
     (case gcomp_SortingMethod options of
        None \<Rightarrow>
          bindE (case gcomp_NumRequests options of
              None \<Rightarrow> retE 0
            | Some n \<Rightarrow> bindE (deref (gcomp_MaxCompInRequest options)) (\<lambda>m. retE (int64 (n * m)))) (\<lambda>skip.
          find_page (Companies E) (companies_filter E options) skip
            (case gcomp_MaxCompInRequest options of None \<Rightarrow> 0 | Some m \<Rightarrow> m))
      | Some method \<Rightarrow>
          if method = ''NUM_PARTICIPATIONS'' then
            bindE (deref (gcomp_NumRequests options)) (\<lambda>n.
            bindE (deref (gcomp_MaxCompInRequest options)) (\<lambda>m.
            aggregate_page (Companies E) (companies_filter E options) num_announced (int64 (n * m)) m))
          else if method = ''LAST_PARTICIPATION'' then
            bindE (deref (gcomp_NumRequests options)) (\<lambda>n.
            bindE (deref (gcomp_MaxCompInRequest options)) (\<lambda>m.
            aggregate_page (Companies E) (companies_filter E options) last_announced (int64 (n * m)) m))
          else throwE (Err ''error parsing Sorting Method''))"

definition Companies_GetCompaniesByMembers ::
  "env \<Rightarrow> oid list \<Rightarrow> int option \<Rightarrow> (world, company list) smonad" where
  "Companies_GetCompaniesByMembers E memberIDs eventID =
     Find (Companies E) (\<lambda>c. case eventID of
        Some ev \<Rightarrow> (\<exists>p \<in> set (co_Participations c). cp_Member p \<in> set memberIDs \<and> cp_Event p = ev)
      | None \<Rightarrow> (\<exists>p \<in> set (co_Participations c). cp_Member p \<in> set memberIDs))"

section \<open>The public view\<close>

definition public_items :: "packageItem list \<Rightarrow> packageItemPublic list" where
  "public_items items = map (\<lambda>i. \<lparr>pkip_Item = pki_Item i, pkip_Quantity = pki_Quantity i\<rparr>)
     (filter pki_Public items)"

definition participation_package ::
  "env \<Rightarrow> companyParticipation \<Rightarrow> (world, packagePublic) smonad" where
  "participation_package E participation = (case cp_Package participation of
     None \<Rightarrow> retE zero_packagePublic
   | Some packageID \<Rightarrow>
       onErr (Packages_GetPackage E packageID) (\<lambda>_. retE zero_packagePublic)
         (\<lambda>pack. retE \<lparr>pkp_Name = pk_Name pack, pkp_Items = public_items (pk_Items pack)\<rparr>))"

text \<open>
  One turn of the loop sets \<open>participation\<close>, which is declared outside the loop and keeps its value
  from turn to turn; each turn has its own \<open>p\<close> (the module is at Go 1.23). The message of the error ends in Go with
  the pointer \<open>eventID\<close> printed as a number, an address that differs from run to run, which is left out.
\<close>

definition choose_participation ::
  "int option \<Rightarrow> companyParticipation \<Rightarrow> companyParticipation option \<Rightarrow>
   err + companyParticipation option" where
  "choose_participation eventID p participation = (case eventID of
     None \<Rightarrow> Inr (if cp_Status p = Announced then Some p else participation)
   | Some ev \<Rightarrow>
       if cp_Event p = ev then
         (if cp_Status p \<noteq> Announced then Inl (Err ''company not announced on event'')
          else Inr (Some p))
       else Inr participation)"

fun companyToPublic_loop ::
  "env \<Rightarrow> int option \<Rightarrow> companyParticipation list \<Rightarrow> companyParticipation option \<Rightarrow>
   companyParticipationPublic list \<Rightarrow> (world, companyParticipationPublic list) smonad" where
  "companyToPublic_loop E eventID [] participation acc = retE acc"
| "companyToPublic_loop E eventID (p # ps) participation acc =
     bindE (liftR (choose_participation eventID p participation)) (\<lambda>participation.
     case participation of
       None \<Rightarrow> companyToPublic_loop E eventID ps None acc
     | Some q \<Rightarrow>
         bindE (participation_package E q) (\<lambda>pack.
         companyToPublic_loop E eventID ps (Some q)
           (acc @ [\<lparr>cpp_Event = cp_Event p, cpp_Partner = cp_Partner q, cpp_Package = pack,
                    cpp_StandDetails = cp_StandDetails q, cpp_Stands = cp_Stands q\<rparr>])))"

definition companyToPublic :: "env \<Rightarrow> company \<Rightarrow> int option \<Rightarrow> (world, companyPublic) smonad" where
  "companyToPublic E company eventID =
     bindE (companyToPublic_loop E eventID (co_Participations company) None []) (\<lambda>participations.
     retE \<lparr>cop_ID = co_ID company, cop_Name = co_Name company,
           cop_Image = cim_Public (co_Images company), cop_Site = co_Site company,
           cop_Participations = participations\<rparr>)"

record GetCompaniesPublicOptions =
  gcp_EventID :: "int option"
  gcp_IsPartner :: "bool option"
  gcp_Name :: "string option"

definition public_companies_filter ::
  "env \<Rightarrow> int \<Rightarrow> GetCompaniesPublicOptions \<Rightarrow> company \<Rightarrow> bool" where
  "public_companies_filter E eventID options c \<longleftrightarrow>
     eventID \<in> cp_Event ` set (co_Participations c) \<and>
     (case gcp_IsPartner options of None \<Rightarrow> True
      | Some b \<Rightarrow> b \<in> cp_Partner ` set (co_Participations c)) \<and>
     (case gcp_Name options of None \<Rightarrow> True
      | Some n \<Rightarrow> env_regex_i E (''.*'' @ n @ ''.*'') (co_Name c))"

fun public_companies ::
  "env \<Rightarrow> int \<Rightarrow> company list \<Rightarrow> companyPublic list \<Rightarrow> (world, companyPublic list) smonad" where
  "public_companies E eventID [] public = retE public"
| "public_companies E eventID (c # cs) public =
     onErr (companyToPublic E c (Some eventID))
       (\<lambda>_. public_companies E eventID cs public)
       (\<lambda>p. public_companies E eventID cs (public @ [p]))"

definition Companies_GetPublicCompanies ::
  "env \<Rightarrow> GetCompaniesPublicOptions \<Rightarrow> (world, companyPublic list) smonad" where
  "Companies_GetPublicCompanies E options =
     (let plain = (gcp_EventID options = None \<and> gcp_IsPartner options = None \<and>
                   gcp_Name options = None) in
     bindE (getsE currentPublicCompanies) (\<lambda>cached.
     case (if plain then cached else None) of
       Some public \<Rightarrow> retE public
     | None \<Rightarrow>
     bindE (case gcp_EventID options of
         Some ev \<Rightarrow> retE ev
       | None \<Rightarrow> onErr (Events_GetCurrentEvent E)
           (\<lambda>_. throwE (Err ''error getting the current event''))
           (\<lambda>currentEvent. retE (ev_ID currentEvent))) (\<lambda>eventID.
     bindE (Find (Companies E) (public_companies_filter E eventID options)) (\<lambda>cs.
     bindE (public_companies E eventID cs []) (\<lambda>public.
     bindE (modifyE (\<lambda>w. if plain \<and> currentPublicCompanies w = None
               then w\<lparr>currentPublicCompanies := Some public\<rparr> else w)) (\<lambda>_.
     retE public))))))"

definition Companies_GetCompanyPublic :: "env \<Rightarrow> oid \<Rightarrow> (world, companyPublic) smonad" where
  "Companies_GetCompanyPublic E i =
     bindE (FindOne (Companies E) (\<lambda>c. co_ID c = i)) (\<lambda>company.
     companyToPublic E company None)"

end
