(* ===== verification/Participations.thy ===== *)
theory Participations
  imports Events
begin

text \<open>
  What companies and speakers share: a document with a list of participations, one per event, and
  operations on the participation in the current event. The locale \<open>participating\<close> is the interface
  (a collection whose documents carry such a list); its lemmas are proved once and used through
  its interpretations in the theories CompanyParticipations and Speakers.
\<close>

section \<open>The abstract operations\<close>

text \<open>
  \<open>updates_participation \<dots> i g gl m\<close>: \<open>m\<close> changes the participation in the current event of the
  document \<open>i\<close> with \<open>g\<close>, returns the changed document, touches nothing else but what \<open>gl\<close> says (the
  cache of a public page), and fails without a change.
\<close>

definition updates_participation ::
  "(err \<Rightarrow> bool) \<Rightarrow> (world, oid, 'd) handle \<Rightarrow> ('d \<Rightarrow> oid) \<Rightarrow> ('d \<Rightarrow> 'p list) \<Rightarrow>
   (('p list \<Rightarrow> 'p list) \<Rightarrow> 'd \<Rightarrow> 'd) \<Rightarrow> ('p \<Rightarrow> int) \<Rightarrow> oid \<Rightarrow> ('p \<Rightarrow> 'p) \<Rightarrow> (world \<Rightarrow> world) \<Rightarrow>
   (world, 'd) smonad \<Rightarrow> bool"
  where
  "updates_participation bad h idf parts on_parts event i g gl m \<longleftrightarrow>
     (\<forall>w. distinct (map idf (docs_of h w)) \<longrightarrow>
       wp m
       (\<lambda>d w'. \<exists>cur x. is_current (w_events w) cur \<and> lookup idf (docs_of h w) i = Some x \<and>
          ev_ID cur \<in> event ` set (parts x) \<and>
          d = on_parts (positional (\<lambda>p. event p = ev_ID cur) g) x \<and>
          contents w' = gl (put_docs h (update_at idf i
            (on_parts (positional (\<lambda>p. event p = ev_ID cur) g)) (docs_of h w)) (contents w)))
       (\<lambda>e w'. contents w' = contents w \<and> (bad e \<or> e = Err ''no events found'' \<or>
          e = ErrNoDocuments \<and> (\<exists>cur. is_current (w_events w) cur \<and>
            (\<forall>x. lookup idf (docs_of h w) i = Some x \<longrightarrow> ev_ID cur \<notin> event ` set (parts x))))) w)"

lemma wp_updates_participation:
  assumes "updates_participation bad h idf parts on_parts event i g gl m"
    and "distinct (map idf (docs_of h w))"
    and "\<And>cur x w'. is_current (w_events w) cur \<Longrightarrow> lookup idf (docs_of h w) i = Some x \<Longrightarrow>
      ev_ID cur \<in> event ` set (parts x) \<Longrightarrow>
      contents w' = gl (put_docs h (update_at idf i
        (on_parts (positional (\<lambda>p. event p = ev_ID cur) g)) (docs_of h w)) (contents w)) \<Longrightarrow>
      Q (on_parts (positional (\<lambda>p. event p = ev_ID cur) g) x) w'"
    and "\<And>e w'. contents w' = contents w \<Longrightarrow> R e w'"
  shows "wp m Q R w"
  by (rule wp_mono [OF assms(1) [unfolded updates_participation_def, rule_format, OF assms(2)]])
    (auto intro: assms(3,4))

lemma updates_participation_then:
  assumes "updates_participation bad h idf parts on_parts event i g (\<lambda>w. w) m"
    and "\<And>w. contents (gl w) = gl (contents w)"
  shows "updates_participation bad h idf parts on_parts event i g gl
     (bindE m (\<lambda>y. bindE (modifyE gl) (\<lambda>_. retE y)))"
  unfolding updates_participation_def
  by (intro allI impI, simp, rule wp_mono [OF assms(1) [unfolded updates_participation_def, rule_format]])
    (auto simp: assms(2))

section \<open>Documents with participations\<close>

locale participating = observed h contents
  for h :: "(world, oid, 'd) handle" +
  fixes idf :: "'d \<Rightarrow> oid"
    and parts :: "'d \<Rightarrow> 'p list"
    and on_parts :: "('p list \<Rightarrow> 'p list) \<Rightarrow> 'd \<Rightarrow> 'd"
    and event :: "'p \<Rightarrow> int"
  assumes idf_on_parts [simp]: "idf (on_parts g d) = idf d"
    and parts_on_parts [simp]: "parts (on_parts g d) = g (parts d)"
begin

text \<open>One participation per event.\<close>

definition one_per_event :: "'d list \<Rightarrow> bool" where
  "one_per_event ds \<longleftrightarrow> (\<forall>d \<in> set ds. distinct (map event (parts d)))"

lemma current_updateI:
  assumes "mongo_spec bad E" and "driver_spec bad idf (drv h)"
  shows "updates_participation bad h idf parts on_parts event i g (\<lambda>w. w)
     (bindE (Events_GetCurrentEvent E) (\<lambda>cur.
        FindOneAndUpdate h (\<lambda>d. idf d = i \<and> ev_ID cur \<in> event ` set (parts d))
          (on_parts (positional (\<lambda>p. event p = ev_ID cur) g))))"
  unfolding updates_participation_def wp_bindE
proof (intro allI impI wp_GetCurrentEvent [OF assms(1)], goal_cases)
  case (1 w cur w')
  note docs = obs_docs [OF 1(3)]
  show ?case
    by (rule wp_keyed_update [OF keyed_updateI [OF assms(2),
            where k = i and P = "\<lambda>d. ev_ID cur \<in> event ` set (parts d)"]])
      (use 1 docs in auto)
qed auto

text \<open>An update that keeps the event of a participation keeps the invariant.\<close>

lemma map_event_positional:
  "(\<And>p. event (g p) = event p) \<Longrightarrow> map event (positional P g ps) = map event ps"
  by (rule map_positional)

lemma one_per_event_update:
  assumes "one_per_event ds" and "\<And>ps. map event (g ps) = map event ps"
  shows "one_per_event (update_at idf i (on_parts g) ds)"
  using assms by (auto simp: one_per_event_def update_at_def)

lemma one_per_event_add:
  assumes "one_per_event ds" and "\<And>d. d \<in> set ds \<Longrightarrow> idf d = i \<Longrightarrow> event p \<notin> event ` set (parts d)"
  shows "one_per_event (update_at idf i (on_parts (\<lambda>ps. ps @ [p])) ds)"
  using assms by (auto simp: one_per_event_def update_at_def)

lemma one_per_event_pull:
  "one_per_event ds \<Longrightarrow> one_per_event (update_at idf i (on_parts (pull P)) ds)"
  by (auto simp: one_per_event_def update_at_def pull_def distinct_map_filter)

text \<open>With one participation per event the update is a map over the participations.\<close>

lemma positional_event:
  "one_per_event ds \<Longrightarrow> d \<in> set ds \<Longrightarrow>
   positional (\<lambda>p. event p = ev) g (parts d) = map (\<lambda>p. if event p = ev then g p else p) (parts d)"
  by (auto simp: one_per_event_def positional_distinct)

end

section \<open>One participation per event, kept\<close>

context participating
begin

definition wf :: "world \<Rightarrow> bool" where
  "wf w \<longleftrightarrow> distinct (map idf (docs_of h w)) \<and> one_per_event (docs_of h w)"

lemma wf_docs: "docs_of h v = docs_of h w \<Longrightarrow> wf v = wf w"
  by (simp add: wf_def)

lemma wf_contents: "contents v = contents w \<Longrightarrow> wf v = wf w"
  by (rule wf_docs, rule obs_docs)

lemma wf_tick [simp]: "wf (tick h w) = wf w"
  by (simp add: wf_def)

lemma docs_contents: "contents v = gl (put_docs h ds w) \<Longrightarrow> (\<And>w. docs_of h (gl w) = docs_of h w) \<Longrightarrow> docs_of h v = ds"
  by (metis docs_obs docs_put)

text \<open>An update of documents that keeps their key and, document by document, the invariant.\<close>

lemma wf_update_at:
  assumes "wf w" and "docs_of h v = update_at idf i u (docs_of h w)"
    and "\<And>d. idf (u d) = idf d"
    and "\<And>d. d \<in> set (docs_of h w) \<Longrightarrow> idf d = i \<Longrightarrow> distinct (map event (parts d)) \<Longrightarrow>
      distinct (map event (parts (u d)))"
  shows "wf v"
  using assms by (auto simp: wf_def one_per_event_def map_update_at) (auto simp: update_at_def)

lemma keeps_wf_update:
  assumes "updates_participation bad h idf parts on_parts event i g gl m"
    and "\<And>p. event (g p) = event p" and "\<And>w. docs_of h (gl w) = docs_of h w"
  shows "keeps wf m"
proof (rule keepsI, rule wp_updates_participation [OF assms(1)], goal_cases)
  case (1 w)
  then show ?case by (simp add: wf_def)
next
  case (2 w cur x w')
  show ?case
    by (rule wf_update_at [OF 2(1) docs_contents [OF 2(5) assms(3)]])
      (auto simp: map_event_positional assms(2))
next
  case (3 w e w')
  then show ?case using wf_contents by blast
qed

lemma keeps_wf_keyed:
  assumes "keyed_update bad contents h idf i P u gl m" and "\<And>d. idf (u d) = idf d"
    and "\<And>d. distinct (map event (parts d)) \<Longrightarrow> distinct (map event (parts (u d)))"
    and "\<And>w. docs_of h (gl w) = docs_of h w"
  shows "keeps wf m"
proof (rule keepsI, rule wp_keyed_update [OF assms(1)], goal_cases)
  case (1 w)
  then show ?case by (simp add: wf_def)
next
  case (2 w x w')
  show ?case by (rule wf_update_at [OF 2(1) docs_contents [OF 2(4) assms(4)]]) (auto simp: assms(2,3))
next
  case (3 w e w')
  then show ?case using wf_contents by blast
qed

lemma keeps_wf_any:
  assumes "driver_spec bad idf (drv h)" and "\<And>d. idf (u d) = idf d"
    and "\<And>d. distinct (map event (parts d)) \<Longrightarrow> distinct (map event (parts (u d)))"
  shows "keeps wf (FindOneAndUpdate h f u)"
proof (rule keepsI, rule wp_FindOneAndUpdate [OF assms(1)], goal_cases)
  case (1 w y ds)
  then obtain pre x post where ds: "docs_of h w = pre @ x # post" "ds = pre @ u x # post"
    by (auto simp: replaces_def)
  with 1(1) show ?case by (simp add: wf_def one_per_event_def assms(2,3))
qed (simp add: wf_def)

lemma keeps_wf_insert:
  assumes "driver_spec bad idf (drv h)" and "\<And>k. idf (mk k) = k" and "\<And>k. parts (mk k) = []"
  shows "keeps wf (InsertOne h mk)"
  by (rule keepsI, rule wp_InsertOne [OF assms(1)]) (auto simp: wf_def one_per_event_def assms(2,3))

lemma keeps_wf_delete:
  assumes "driver_spec bad idf (drv h)"
  shows "keeps wf (FindOneAndDelete h f)"
  by (rule keepsI, rule wp_FindOneAndDelete [OF assms(1)]) (auto simp: wf_def one_per_event_def removes_def)

text \<open>Adding a participation, guarded by the query.\<close>

lemma wp_add_participation:
  assumes "mongo_spec bad E" and "driver_spec bad idf (drv h)" and "distinct (map idf (docs_of h w))"
    and "\<And>ev. event (new ev) = ev"
    and "\<And>t ev d. ev \<notin> event ` set (parts d) \<Longrightarrow> add t ev d = on_parts (\<lambda>ps. ps @ [new ev]) d"
    and gl: "\<And>w. contents (gl w) = gl (contents w)"
  shows "wp (bindE (Events_GetCurrentEvent E) (\<lambda>cur. bindE (getsE w_tick) (\<lambda>t.
       bindE (FindOneAndUpdate h (\<lambda>d. idf d = i \<and> ev_ID cur \<notin> event ` set (parts d)) (add t (ev_ID cur)))
         (\<lambda>y. bindE (modifyE gl) (\<lambda>_. retE y)))))
     (\<lambda>d w'. \<exists>cur x. is_current (w_events w) cur \<and> lookup idf (docs_of h w) i = Some x \<and>
        ev_ID cur \<notin> event ` set (parts x) \<and> d = on_parts (\<lambda>ps. ps @ [new (ev_ID cur)]) x \<and>
        contents w' = gl (put_docs h (update_at idf i (on_parts (\<lambda>ps. ps @ [new (ev_ID cur)]))
          (docs_of h w)) (contents w)))
     (\<lambda>e w'. contents w' = contents w \<and> (bad e \<or> e = Err ''no events found'' \<and> w_events w = [] \<or>
        e = ErrNoDocuments \<and> (\<exists>cur. is_current (w_events w) cur \<and>
          (\<forall>x. lookup idf (docs_of h w) i = Some x \<longrightarrow> ev_ID cur \<in> event ` set (parts x))))) w"
  unfolding wp_bindE
proof (rule wp_GetCurrentEvent [OF assms(1)], goal_cases)
  case (1 cur w1)
  note docs = obs_docs [OF 1(2)]
  show ?case
    unfolding wp_getsE wp_bindE
  proof (rule wp_keyed_update [OF keyed_updateI [OF assms(2)],
        where k = i and P = "\<lambda>d. ev_ID cur \<notin> event ` set (parts d)"], goal_cases)
    case (3 x s')
    have "update_at idf i (add (w_tick w1) (ev_ID cur)) (docs_of h w) =
        update_at idf i (on_parts (\<lambda>ps. ps @ [new (ev_ID cur)])) (docs_of h w)"
      unfolding update_at_def using 3 docs lookup_in [OF assms(3)]
      by (intro map_cong) (auto simp: assms(5))
    with 3 1 docs show ?case by (auto simp: gl assms(5))
  qed (use assms(3) docs 1 in auto)
qed auto

lemma keeps_wf_add:
  assumes "mongo_spec bad E" and "driver_spec bad idf (drv h)"
    and "\<And>ev. event (new ev) = ev"
    and "\<And>t ev d. ev \<notin> event ` set (parts d) \<Longrightarrow> add t ev d = on_parts (\<lambda>ps. ps @ [new ev]) d"
    and "\<And>w. contents (gl w) = gl (contents w)" and "\<And>w. docs_of h (gl w) = docs_of h w"
  shows "keeps wf (bindE (Events_GetCurrentEvent E) (\<lambda>cur. bindE (getsE w_tick) (\<lambda>t.
       bindE (FindOneAndUpdate h (\<lambda>d. idf d = i \<and> ev_ID cur \<notin> event ` set (parts d)) (add t (ev_ID cur)))
         (\<lambda>y. bindE (modifyE gl) (\<lambda>_. retE y)))))"
proof (rule keepsI, rule wp_mono [OF wp_add_participation [where i = i and new = new and add = add and gl = gl,
        OF assms(1,2) _ assms(3,4,5)]], goal_cases)
  case 1
  then show ?case by (simp add: wf_def)
next
  case 2
  then show ?case by simp
next
  case (3 w d w')
  then obtain cur :: event and x where x: "lookup idf (docs_of h w) i = Some x"
    "ev_ID cur \<notin> event ` set (parts x)"
    and w': "contents w' = gl (put_docs h (update_at idf i (on_parts (\<lambda>ps. ps @ [new (ev_ID cur)]))
          (docs_of h w)) (contents w))" by blast
  have "d = x" if "d \<in> set (docs_of h w)" "idf d = i" for d
    using that x(1) 3(1) lookup_in [of idf "docs_of h w" d] by (simp add: wf_def)
  then show ?case
    by (intro wf_update_at [OF 3(1) docs_contents [OF w' assms(6)]]) (use x assms(3) in auto)
next
  case (4 w e w')
  then show ?case using wf_contents by blast
qed

end

section \<open>Participations that move through the state machine\<close>

locale stepping = participating h idf parts on_parts event
  for h :: "(world, oid, 'd) handle" and idf :: "'d \<Rightarrow> oid" and parts :: "'d \<Rightarrow> 'p list"
    and on_parts :: "('p list \<Rightarrow> 'p list) \<Rightarrow> 'd \<Rightarrow> 'd" and event :: "'p \<Rightarrow> int" +
  fixes first :: "int \<Rightarrow> 'p list \<Rightarrow> 'p option"
    and status :: "'p \<Rightarrow> participationStatus"
  assumes first_None: "first ev ps = None \<longleftrightarrow> ev \<notin> event ` set ps"
begin

text \<open>What a step needs to succeed: the statuses before and after.\<close>

definition can_step :: "world \<Rightarrow> oid \<Rightarrow> int \<Rightarrow> event \<Rightarrow> 'd \<Rightarrow> participationStatus \<Rightarrow> bool" where
  "can_step w i k cur x st \<longleftrightarrow>
     is_current (w_events w) cur \<and> lookup idf (docs_of h w) i = Some x \<and>
     (\<exists>p. first (ev_ID cur) (parts x) = Some p \<and> ParticipationStatus_Next (status p) k = Inr st)"

lemma wp_step:
  assumes "mongo_spec bad E" and "driver_spec bad idf (drv h)"
    and "keyed_read bad contents h idf i get" and "distinct (map idf (docs_of h w))"
    and "distinct (map ev_ID (w_events w))" and gl: "\<And>w. contents (gl w) = gl (contents w)"
    and none: "\<And>w. contents (snd (none w)) = gn (contents w) \<and> (\<exists>e. fst (none w) = Inl e)"
  shows "wp (bindE get (\<lambda>x. bindE (Events_GetCurrentEvent E) (\<lambda>cur.
       case first (ev_ID cur) (parts x) of None \<Rightarrow> none
       | Some p \<Rightarrow> bindE (liftR (ParticipationStatus_Next (status p) k)) (\<lambda>st.
           bindE (FindOneAndUpdate h (\<lambda>d. idf d = i \<and> ev_ID cur \<in> event ` set (parts d))
             (on_parts (positional (\<lambda>p. event p = ev_ID cur) (set_status st))))
           (\<lambda>y. bindE (modifyE gl) (\<lambda>_. retE y))))))
     (\<lambda>d w'. \<exists>cur x st. can_step w i k cur x st \<and>
        d = on_parts (positional (\<lambda>p. event p = ev_ID cur) (set_status st)) x \<and>
        contents w' = gl (put_docs h (update_at idf i
          (on_parts (positional (\<lambda>p. event p = ev_ID cur) (set_status st))) (docs_of h w)) (contents w)))
     (\<lambda>e w'. (contents w' = contents w \<or> contents w' = gn (contents w)) \<and>
        (bad e \<or> (\<forall>cur x st. \<not> can_step w i k cur x st))) w"
  unfolding wp_bindE
proof (rule wp_keyed_read [OF assms(3,4)], goal_cases)
  case (1 x w1)
  note docs1 = obs_docs [OF 1(2)]
  show ?case
  proof (rule wp_GetCurrentEvent [OF assms(1)], goal_cases)
    case (1 cur w2)
    have w2: "contents w2 = contents w" using 1(2) \<open>contents w1 = contents w\<close> by simp
    note docs2 = obs_docs [OF w2]
    have cur: "is_current (w_events w) cur"
      using 1(1) contents_eqD(3) [OF \<open>contents w1 = contents w\<close>] by simp
    then have uniq: "is_current (w_events w) cur' \<longleftrightarrow> cur' = cur" for cur'
      using is_current_unique [OF assms(5)] by blast
    show ?case
    proof (cases "first (ev_ID cur) (parts x)")
      case None
      then show ?thesis
        using none [of w2] \<open>lookup idf (docs_of h w) i = Some x\<close> w2 uniq
        by (cases "none w2") (auto simp: can_step_def wp_def)
    next
      case (Some p)
      show ?thesis
      proof (cases "ParticipationStatus_Next (status p) k")
        case (Inl e)
        then show ?thesis using \<open>lookup idf (docs_of h w) i = Some x\<close> w2 uniq Some
          by (auto simp: can_step_def)
      next
        case (Inr st)
        have has: "ev_ID cur \<in> event ` set (parts x)"
          using Some first_None [of "ev_ID cur" "parts x"] by auto
        have step: "can_step w i k cur x st"
          using \<open>lookup idf (docs_of h w) i = Some x\<close> cur Some Inr by (auto simp: can_step_def)
        show ?thesis
          unfolding Some option.case Inr wp_bindE wp_liftR sum.case
        proof (rule wp_keyed_update [OF keyed_updateI [OF assms(2)], where k = i
              and P = "\<lambda>d. ev_ID cur \<in> event ` set (parts d)"], goal_cases)
          case (3 x' s')
          then show ?case
            using \<open>lookup idf (docs_of h w) i = Some x\<close> w2 docs2 step by (auto simp: gl)
        next
          case (4 e s')
          then show ?case using \<open>lookup idf (docs_of h w) i = Some x\<close> w2 docs2 has by auto
        qed (use assms(4) docs2 in auto)
      qed
    qed
  next
    case (2 e w2)
    then show ?case
      using contents_eqD(3) [OF \<open>contents w1 = contents w\<close>] \<open>contents w1 = contents w\<close>
      by (auto simp: can_step_def is_current_def)
  qed
next
  case (2 e w1)
  then show ?case by (auto simp: can_step_def)
qed

end

end
