(* ===== verification/CompanyParticipations.thy ===== *)
theory CompanyParticipations
  imports Companies Participations
begin

text \<open>
  \<^verbatim>\<open>backend/src/mongodb/company.go\<close>, second half: the operations that change a company, most of them
  on its participation in the current event (subscribing, adding the participation, moving it
  through the state machine of theory ParticipationStatus, its threads, package and bill), and the
  deletion of a company with what belongs to it.
\<close>

section \<open>The participation in the current event\<close>

definition Companies_Subscribe :: "env \<Rightarrow> oid \<Rightarrow> oid \<Rightarrow> (world, company) smonad" where
  "Companies_Subscribe E companyID memberID =
     bindE (Events_GetCurrentEvent E) (\<lambda>currentEvent.
     FindOneAndUpdate (Companies E) (participates companyID (ev_ID currentEvent))
       (on_participation (ev_ID currentEvent)
         (\<lambda>p. p\<lparr>cp_Subscribers := addToSet memberID (cp_Subscribers p)\<rparr>)))"

definition Companies_Unsubscribe :: "env \<Rightarrow> oid \<Rightarrow> oid \<Rightarrow> (world, company) smonad" where
  "Companies_Unsubscribe E companyID memberID =
     bindE (Events_GetCurrentEvent E) (\<lambda>currentEvent.
     FindOneAndUpdate (Companies E) (participates companyID (ev_ID currentEvent))
       (on_participation (ev_ID currentEvent)
         (\<lambda>p. p\<lparr>cp_Subscribers := pull (\<lambda>m. m = memberID) (cp_Subscribers p)\<rparr>)))"

record AddParticipationData =
  apd_Partner :: bool

definition AddParticipationData_ParseBody ::
  "err + AddParticipationData \<Rightarrow> err + AddParticipationData" where
  "AddParticipationData_ParseBody body = (case body of Inl e \<Rightarrow> Inl e | Inr apd \<Rightarrow> Inr apd)"

definition new_participation :: "int \<Rightarrow> oid \<Rightarrow> bool \<Rightarrow> companyParticipation" where
  "new_participation event member partner =
     \<lparr>cp_Event = event, cp_Member = member, cp_Status = Suggested, cp_Communications = [],
      cp_Subscribers = [member], cp_Package = None, cp_Billing = None, cp_Confirmed = None,
      cp_Partner = partner, cp_Notes = [], cp_GmailThreadIds = [],
      cp_StandDetails = zero_standDetails, cp_Stands = []\<rparr>"

definition Companies_AddParticipation ::
  "env \<Rightarrow> oid \<Rightarrow> oid \<Rightarrow> AddParticipationData \<Rightarrow> (world, company) smonad" where
  "Companies_AddParticipation E companyID memberID data =
     bindE (Events_GetCurrentEvent E) (\<lambda>currentEvent.
     bindE (getsE w_tick) (\<lambda>t.
     bindE (FindOneAndUpdate (Companies E)
       (\<lambda>c. co_ID c = companyID \<and> ev_ID currentEvent \<notin> cp_Event ` set (co_Participations c))
       (\<lambda>c. c\<lparr>co_Participations := addToSetDoc (env_sameDoc E t)
          (new_participation (ev_ID currentEvent) memberID (apd_Partner data))
          (co_Participations c)\<rparr>)) (\<lambda>updatedCompany.
     bindE ResetCurrentPublicCompanies (\<lambda>_.
     retE updatedCompany))))"

text \<open>The loop of \<open>StepStatus\<close> and of \<open>GetCompanyParticipationStatusValidSteps\<close>: the first
  participation in the event.\<close>

fun first_participation ::
  "int \<Rightarrow> companyParticipation list \<Rightarrow> companyParticipation option" where
  "first_participation event [] = None"
| "first_participation event (p # ps) =
     (if cp_Event p \<noteq> event then first_participation event ps else Some p)"

definition Companies_StepStatus :: "env \<Rightarrow> oid \<Rightarrow> int \<Rightarrow> (world, company) smonad" where
  "Companies_StepStatus E companyID step =
     bindE (Companies_GetCompany E companyID) (\<lambda>company.
     bindE (Events_GetCurrentEvent E) (\<lambda>currentEvent.
     case first_participation (ev_ID currentEvent) (co_Participations company) of
       None \<Rightarrow> throwE (Err ''company without participation on the current event'')
     | Some p \<Rightarrow>
         bindE (liftR (ParticipationStatus_Next (cp_Status p) step)) (\<lambda>status.
         bindE (FindOneAndUpdate (Companies E) (participates companyID (ev_ID currentEvent))
           (on_participation (ev_ID currentEvent) (\<lambda>p. p\<lparr>cp_Status := status\<rparr>))) (\<lambda>updatedCompany.
         bindE ResetCurrentPublicCompanies (\<lambda>_.
         retE updatedCompany)))))"

definition Companies_GetCompanyParticipationStatusValidSteps ::
  "env \<Rightarrow> oid \<Rightarrow> (world, validStep list) smonad" where
  "Companies_GetCompanyParticipationStatusValidSteps E companyID =
     bindE (Companies_GetCompany E companyID) (\<lambda>company.
     bindE (Events_GetCurrentEvent E) (\<lambda>currentEvent.
     case first_participation (ev_ID currentEvent) (co_Participations company) of
       None \<Rightarrow> throwE (Err ''No participation found'')
     | Some p \<Rightarrow> retE (ParticipationStatus_ValidSteps (cp_Status p))))"

record UpdateCompanyParticipationData =
  ucpd_Member :: "oid option"
  ucpd_Partner :: "bool option"
  ucpd_Confirmed :: "time option"
  ucpd_Notes :: "string option"

definition UpdateCompanyParticipationData_ParseBody ::
  "env \<Rightarrow> err + UpdateCompanyParticipationData \<Rightarrow> (world, UpdateCompanyParticipationData) smonad"
  where
  "UpdateCompanyParticipationData_ParseBody E body =
     bindE (liftR body) (\<lambda>ucpd. case ucpd_Member ucpd of
       None \<Rightarrow> throwE (Err ''invalid member ID'')
     | Some member \<Rightarrow>
         if ucpd_Partner ucpd = None then throwE (Err ''invalid partner value'')
         else if ucpd_Notes ucpd = None then throwE (Err ''missing notes field'')
         else onErr (Members_GetMember E member) (\<lambda>_. throwE (Err ''invalid member ID''))
           (\<lambda>_. retE ucpd))"

definition Companies_UpdateCompanyParticipation ::
  "env \<Rightarrow> oid \<Rightarrow> UpdateCompanyParticipationData \<Rightarrow> (world, company) smonad" where
  "Companies_UpdateCompanyParticipation E companyID data =
     bindE (Events_GetCurrentEvent E) (\<lambda>currentEvent.
     bindE (deref (ucpd_Member data)) (\<lambda>member.
     bindE (deref (ucpd_Partner data)) (\<lambda>partner.
     bindE (deref (ucpd_Notes data)) (\<lambda>nts.
     bindE (FindOneAndUpdate (Companies E) (participates companyID (ev_ID currentEvent))
       (on_participation (ev_ID currentEvent)
         (\<lambda>p. p\<lparr>cp_Member := member, cp_Partner := partner, cp_Notes := nts,
                cp_Confirmed := ucpd_Confirmed data\<rparr>))) (\<lambda>updatedCompany.
     bindE ResetCurrentPublicCompanies (\<lambda>_.
     retE updatedCompany))))))"

definition Companies_UpdateCompanyGmailThreadIds ::
  "env \<Rightarrow> oid \<Rightarrow> string list \<Rightarrow> (world, company) smonad" where
  "Companies_UpdateCompanyGmailThreadIds E companyID gmailThreadIds =
     bindE (Events_GetCurrentEvent E) (\<lambda>currentEvent.
     FindOneAndUpdate (Companies E) (participates companyID (ev_ID currentEvent))
       (on_participation (ev_ID currentEvent) (\<lambda>p. p\<lparr>cp_GmailThreadIds := gmailThreadIds\<rparr>)))"

definition Companies_UpdateCompanyParticipationStatus ::
  "env \<Rightarrow> oid \<Rightarrow> participationStatus \<Rightarrow> (world, company) smonad" where
  "Companies_UpdateCompanyParticipationStatus E companyID status =
     bindE (Events_GetCurrentEvent E) (\<lambda>currentEvent.
     bindE (FindOneAndUpdate (Companies E) (participates companyID (ev_ID currentEvent))
       (on_participation (ev_ID currentEvent) (\<lambda>p. p\<lparr>cp_Status := status\<rparr>))) (\<lambda>updatedCompany.
     bindE ResetCurrentPublicCompanies (\<lambda>_.
     retE updatedCompany)))"

definition Companies_AddThread :: "env \<Rightarrow> oid \<Rightarrow> oid \<Rightarrow> (world, company) smonad" where
  "Companies_AddThread E companyID threadID =
     bindE (Events_GetCurrentEvent E) (\<lambda>currentEvent.
     FindOneAndUpdate (Companies E) (participates companyID (ev_ID currentEvent))
       (on_participation (ev_ID currentEvent)
         (\<lambda>p. p\<lparr>cp_Communications := addToSet threadID (cp_Communications p)\<rparr>)))"

definition Companies_RemoveCommunication :: "env \<Rightarrow> oid \<Rightarrow> oid \<Rightarrow> (world, company) smonad" where
  "Companies_RemoveCommunication E companyID threadID =
     bindE (Events_GetCurrentEvent E) (\<lambda>currentEvent.
     FindOneAndUpdate (Companies E) (participates companyID (ev_ID currentEvent))
       (on_participation (ev_ID currentEvent)
         (\<lambda>p. p\<lparr>cp_Communications := pull (\<lambda>t. t = threadID) (cp_Communications p)\<rparr>)))"

definition Companies_AddSubscriber :: "env \<Rightarrow> oid \<Rightarrow> oid \<Rightarrow> (world, company) smonad" where
  "Companies_AddSubscriber E companyID memberID =
     bindE (Events_GetCurrentEvent E) (\<lambda>currentEvent.
     FindOneAndUpdate (Companies E) (participates companyID (ev_ID currentEvent))
       (on_participation (ev_ID currentEvent)
         (\<lambda>p. p\<lparr>cp_Subscribers := addToSet memberID (cp_Subscribers p)\<rparr>)))"

definition Companies_RemoveSubscriber :: "env \<Rightarrow> oid \<Rightarrow> oid \<Rightarrow> (world, company) smonad" where
  "Companies_RemoveSubscriber E companyID memberID =
     bindE (Events_GetCurrentEvent E) (\<lambda>currentEvent.
     FindOneAndUpdate (Companies E) (participates companyID (ev_ID currentEvent))
       (on_participation (ev_ID currentEvent)
         (\<lambda>p. p\<lparr>cp_Subscribers := pull (\<lambda>m. m = memberID) (cp_Subscribers p)\<rparr>)))"

definition Companies_UpdatePackage :: "env \<Rightarrow> oid \<Rightarrow> oid \<Rightarrow> (world, company) smonad" where
  "Companies_UpdatePackage E companyID packageID =
     bindE (Events_GetCurrentEvent E) (\<lambda>currentEvent.
     bindE (FindOneAndUpdate (Companies E) (participates companyID (ev_ID currentEvent))
       (on_participation (ev_ID currentEvent) (\<lambda>p. p\<lparr>cp_Package := Some packageID\<rparr>))) (\<lambda>updatedCompany.
     bindE ResetCurrentPublicCompanies (\<lambda>_.
     retE updatedCompany)))"

definition Companies_UpdateBilling :: "env \<Rightarrow> oid \<Rightarrow> oid \<Rightarrow> int \<Rightarrow> (world, company) smonad" where
  "Companies_UpdateBilling E companyID billingID event =
     bindE (FindOneAndUpdate (Companies E) (participates companyID event)
       (on_participation event (\<lambda>p. p\<lparr>cp_Billing := Some billingID\<rparr>))) (\<lambda>updatedCompany.
     bindE ResetCurrentPublicCompanies (\<lambda>_.
     retE updatedCompany))"

definition Companies_RemoveCompanyParticipationBilling ::
  "env \<Rightarrow> oid \<Rightarrow> int \<Rightarrow> (world, company) smonad" where
  "Companies_RemoveCompanyParticipationBilling E companyID event =
     FindOneAndUpdate (Companies E) (participates companyID event)
       (on_participation event (\<lambda>p. p\<lparr>cp_Billing := None\<rparr>))"

definition Companies_AnnounceAcceptedCompanies :: "env \<Rightarrow> (world, nat) smonad" where
  "Companies_AnnounceAcceptedCompanies E =
     bindE (Events_GetCurrentEvent E) (\<lambda>currentEvent.
     let accepted = (\<lambda>p. cp_Event p = ev_ID currentEvent \<and> cp_Status p = Accepted) in
     bindE (UpdateMany (Companies E) (\<lambda>c. \<exists>p \<in> set (co_Participations c). accepted p)
       (\<lambda>c. c\<lparr>co_Participations := filtered accepted (\<lambda>p. p\<lparr>cp_Status := Announced\<rparr>)
          (co_Participations c)\<rparr>)) (\<lambda>modifiedCount.
     bindE ResetCurrentPublicCompanies (\<lambda>_.
     retE modifiedCount)))"

section \<open>General information, employers, images\<close>

record UpdateCompanyData =
  ucd_Name :: "string option"
  ucd_Description :: "string option"
  ucd_Site :: "string option"
  ucd_LinkedIn :: "string option"
  ucd_BillingInfo :: "companyBillingInfo option"

definition UpdateCompanyData_ParseBody :: "err + UpdateCompanyData \<Rightarrow> err + UpdateCompanyData" where
  "UpdateCompanyData_ParseBody body = (case body of Inl e \<Rightarrow> Inl e | Inr ucd \<Rightarrow> Inr ucd)"

definition set_company_fields :: "UpdateCompanyData \<Rightarrow> company \<Rightarrow> company" where
  "set_company_fields data c =
     c\<lparr>co_Name := (case ucd_Name data of None \<Rightarrow> co_Name c | Some n \<Rightarrow> n),
       co_Description := (case ucd_Description data of None \<Rightarrow> co_Description c | Some d \<Rightarrow> d),
       co_Site := (case ucd_Site data of None \<Rightarrow> co_Site c | Some s \<Rightarrow> s),
       co_LinkedIn := (case formatLinkedInURL (ucd_LinkedIn data) of
          None \<Rightarrow> co_LinkedIn c | Some l \<Rightarrow> l),
       co_BillingInfo := (case ucd_BillingInfo data of
          None \<Rightarrow> co_BillingInfo c
        | Some b \<Rightarrow> \<lparr>cbi_Name = cbi_Name b, cbi_Address = cbi_Address b, cbi_TIN = cbi_TIN b\<rparr>)\<rparr>"

definition Companies_UpdateCompany ::
  "env \<Rightarrow> oid \<Rightarrow> UpdateCompanyData \<Rightarrow> (world, company) smonad" where
  "Companies_UpdateCompany E companyID data =
     bindE (FindOneAndUpdate (Companies E) (\<lambda>c. co_ID c = companyID)
       (set_company_fields data)) (\<lambda>updatedCompany.
     bindE ResetCurrentPublicCompanies (\<lambda>_.
     retE updatedCompany))"

definition Companies_UpdateCompanyInternalImage ::
  "env \<Rightarrow> oid \<Rightarrow> string \<Rightarrow> (world, company) smonad" where
  "Companies_UpdateCompanyInternalImage E companyID url =
     bindE (FindOneAndUpdate (Companies E) (\<lambda>c. co_ID c = companyID)
       (\<lambda>c. c\<lparr>co_Images := (co_Images c)\<lparr>cim_Internal := url\<rparr>\<rparr>)) (\<lambda>updatedCompany.
     bindE ResetCurrentPublicCompanies (\<lambda>_.
     retE updatedCompany))"

definition Companies_UpdateCompanyPublicImage ::
  "env \<Rightarrow> oid \<Rightarrow> string \<Rightarrow> (world, company) smonad" where
  "Companies_UpdateCompanyPublicImage E companyID url =
     bindE (FindOneAndUpdate (Companies E) (\<lambda>c. co_ID c = companyID)
       (\<lambda>c. c\<lparr>co_Images := (co_Images c)\<lparr>cim_Public := url\<rparr>\<rparr>)) (\<lambda>updatedCompany.
     bindE ResetCurrentPublicCompanies (\<lambda>_.
     retE updatedCompany))"

definition Companies_AddEmployer ::
  "env \<Rightarrow> oid \<Rightarrow> CreateCompanyRepData \<Rightarrow> (world, company) smonad" where
  "Companies_AddEmployer E companyID data =
     bindE (CompanyReps_CreateCompanyRep E data) (\<lambda>rep.
     FindOneAndUpdate (Companies E) (\<lambda>c. co_ID c = companyID)
       (\<lambda>c. c\<lparr>co_Employers := addToSet (cr_ID rep) (co_Employers c)\<rparr>))"

definition Companies_RemoveEmployer :: "env \<Rightarrow> oid \<Rightarrow> oid \<Rightarrow> (world, company) smonad" where
  "Companies_RemoveEmployer E companyID companyRep =
     bindE (CompanyReps_DeleteCompanyRep E companyRep) (\<lambda>_.
     FindOneAndUpdate (Companies E) (\<lambda>c. co_ID c = companyID)
       (\<lambda>c. c\<lparr>co_Employers := pull (\<lambda>i. i = companyRep) (co_Employers c)\<rparr>))"

record UpdateEmployersOrderData =
  ueod_Employers :: "oid list option"

definition UpdateEmployersOrderData_ParseBody ::
  "env \<Rightarrow> err + UpdateEmployersOrderData \<Rightarrow> (world, UpdateEmployersOrderData) smonad" where
  "UpdateEmployersOrderData_ParseBody E body =
     bindE (liftR body) (\<lambda>ueod. case ueod_Employers ueod of
       None \<Rightarrow> throwE (Err ''invalid employers'')
     | Some employers \<Rightarrow>
         bindE (forE employers (\<lambda>employerID.
           onErr (CompanyReps_GetCompanyRep E employerID)
             (\<lambda>_. throwE (Err (''invalid employer ID: '' @ env_hex E employerID)))
             (\<lambda>_. retE ()))) (\<lambda>_.
         retE ueod))"

definition Companies_UpdateEmployersOrder ::
  "env \<Rightarrow> oid \<Rightarrow> UpdateEmployersOrderData \<Rightarrow> (world, company) smonad" where
  "Companies_UpdateEmployersOrder E companyID data =
     FindOneAndUpdate (Companies E) (\<lambda>c. co_ID c = companyID)
       (\<lambda>c. c\<lparr>co_Employers := (case ueod_Employers data of None \<Rightarrow> [] | Some es \<Rightarrow> es)\<rparr>)"

section \<open>Threads and deletion\<close>

definition has_thread :: "oid \<Rightarrow> companyParticipation \<Rightarrow> bool" where
  "has_thread threadID p \<longleftrightarrow> threadID \<in> set (cp_Communications p)"

text \<open>
  The query of the update does not ask for the company: only the thread is in it. It reaches through two arrays, the
  participations and the communications of each, and MongoDB documents the operator \<open>$\<close> for queries through one array
  only. It is taken here to stand for the first participation that has the thread, what \<open>$\<close> stands for in the
  other updates of a participation.
\<close>

definition Companies_DeleteCompanyThread :: "env \<Rightarrow> oid \<Rightarrow> oid \<Rightarrow> (world, company) smonad" where
  "Companies_DeleteCompanyThread E i threadID =
     bindE (Companies_GetCompany E i) (\<lambda>_.
     FindOneAndUpdate (Companies E) (\<lambda>c. \<exists>p \<in> set (co_Participations c). has_thread threadID p)
       (\<lambda>c. c\<lparr>co_Participations := positional (has_thread threadID)
          (\<lambda>p. p\<lparr>cp_Communications := pull (\<lambda>t. t = threadID) (cp_Communications p)\<rparr>)
          (co_Participations c)\<rparr>))"

definition Companies_DeleteCompanyParticipation :: "env \<Rightarrow> oid \<Rightarrow> int \<Rightarrow> (world, company) smonad" where
  "Companies_DeleteCompanyParticipation E companyID eventID =
     bindE (Companies_GetCompany E companyID) (\<lambda>company.
     bindE (forE (co_Participations company) (\<lambda>p.
         if cp_Event p = eventID then
           forE (cp_Communications p) (\<lambda>communication.
             bindE (Companies_DeleteCompanyThread E companyID communication) (\<lambda>_. retE ()))
         else retE ())) (\<lambda>_.
     FindOneAndUpdate (Companies E) (\<lambda>c. co_ID c = companyID)
       (\<lambda>c. c\<lparr>co_Participations := pull (\<lambda>p. cp_Event p = eventID) (co_Participations c)\<rparr>)))"

definition Companies_DeleteCompany :: "env \<Rightarrow> oid \<Rightarrow> (world, company) smonad" where
  "Companies_DeleteCompany E companyID =
     bindE (Companies_GetCompany E companyID) (\<lambda>currentCompany.
     bindE (forE (co_Participations currentCompany) (\<lambda>participation.
       bindE (Companies_DeleteCompanyParticipation E companyID (cp_Event participation)) (\<lambda>_.
       retE ()))) (\<lambda>_.
     bindE (Sessions_GetSessions E (company_options companyID)) (\<lambda>ss.
     bindE (forE ss (\<lambda>session.
       bindE (Sessions_DeleteSession E (se_ID session)) (\<lambda>_. retE ()))) (\<lambda>_.
     bindE (FindOneAndDelete (Companies E) (\<lambda>c. co_ID c = companyID)) (\<lambda>company.
     bindE (discardE (Contacts_DeleteContact E (co_Contact company))) (\<lambda>_.
     retE company))))))"

text \<open>The first company of the cursor, or nil; the cursor's own error is not looked at.\<close>

definition Companies_FindThread :: "env \<Rightarrow> oid \<Rightarrow> (world, company option) smonad" where
  "Companies_FindThread E threadID =
     bindE (FindUnchecked (Companies E)
       (\<lambda>c. \<exists>p \<in> set (co_Participations c). has_thread threadID p)) (\<lambda>cs.
     retE (case cs of [] \<Rightarrow> None | c # _ \<Rightarrow> Some c))"

section \<open>Companies as documents with participations\<close>

definition on_parts :: "(companyParticipation list \<Rightarrow> companyParticipation list) \<Rightarrow> company \<Rightarrow> company" where
  "on_parts g c = c\<lparr>co_Participations := g (co_Participations c)\<rparr>"

lemma first_participation_None:
  "first_participation ev ps = None \<longleftrightarrow> ev \<notin> cp_Event ` set ps"
  by (induction ps) auto

interpretation company_parts: stepping "Companies E" co_ID co_Participations on_parts cp_Event
    first_participation cp_Status
  for E
  by unfold_locales (simp_all add: on_parts_def first_participation_None)

abbreviation company_update ::
  "(err \<Rightarrow> bool) \<Rightarrow> env \<Rightarrow> oid \<Rightarrow> (companyParticipation \<Rightarrow> companyParticipation) \<Rightarrow>
   (world \<Rightarrow> world) \<Rightarrow> (world, company) smonad \<Rightarrow> bool" where
  "company_update bad E i g gl m \<equiv>
     updates_participation bad (Companies E) co_ID co_Participations on_parts cp_Event i g gl m"

lemma participates_eq:
  "participates i ev = (\<lambda>c. co_ID c = i \<and> ev \<in> cp_Event ` set (co_Participations c))"
  "on_participation ev g = on_parts (positional (\<lambda>p. cp_Event p = ev) g)"
  by (simp_all add: fun_eq_iff participates_def on_participation_def on_parts_def)

lemma company_updateI:
  "mongo_spec bad E \<Longrightarrow> company_update bad E i g (\<lambda>w. w)
     (bindE (Events_GetCurrentEvent E) (\<lambda>cur. FindOneAndUpdate (Companies E)
        (participates i (ev_ID cur)) (on_participation (ev_ID cur) g)))"
  unfolding participates_eq by (rule company_parts.current_updateI) simp_all

lemma company_update_resetI:
  "mongo_spec bad E \<Longrightarrow> company_update bad E i g (\<lambda>w. w\<lparr>currentPublicCompanies := None\<rparr>)
     (bindE (Events_GetCurrentEvent E) (\<lambda>cur. bindE (FindOneAndUpdate (Companies E)
        (participates i (ev_ID cur)) (on_participation (ev_ID cur) g)) (\<lambda>y.
      bindE ResetCurrentPublicCompanies (\<lambda>_. retE y))))"
  unfolding ResetCurrentPublicCompanies_def bindE_assoc [symmetric]
  by (rule updates_participation_then [OF company_updateI]) simp_all

lemma company_updates:
  assumes "mongo_spec bad E"
  shows "company_update bad E i (\<lambda>p. p\<lparr>cp_Subscribers := addToSet m (cp_Subscribers p)\<rparr>) (\<lambda>w. w)
      (Companies_Subscribe E i m)"
    and "company_update bad E i (\<lambda>p. p\<lparr>cp_Subscribers := pull (\<lambda>x. x = m) (cp_Subscribers p)\<rparr>)
      (\<lambda>w. w) (Companies_Unsubscribe E i m)"
    and "company_update bad E i (\<lambda>p. p\<lparr>cp_Subscribers := addToSet m (cp_Subscribers p)\<rparr>) (\<lambda>w. w)
      (Companies_AddSubscriber E i m)"
    and "company_update bad E i (\<lambda>p. p\<lparr>cp_Subscribers := pull (\<lambda>x. x = m) (cp_Subscribers p)\<rparr>)
      (\<lambda>w. w) (Companies_RemoveSubscriber E i m)"
    and "company_update bad E i (\<lambda>p. p\<lparr>cp_Communications := addToSet t (cp_Communications p)\<rparr>)
      (\<lambda>w. w) (Companies_AddThread E i t)"
    and "company_update bad E i (\<lambda>p. p\<lparr>cp_Communications := pull (\<lambda>x. x = t) (cp_Communications p)\<rparr>)
      (\<lambda>w. w) (Companies_RemoveCommunication E i t)"
    and "company_update bad E i (\<lambda>p. p\<lparr>cp_GmailThreadIds := gs\<rparr>) (\<lambda>w. w)
      (Companies_UpdateCompanyGmailThreadIds E i gs)"
    and "company_update bad E i (\<lambda>p. p\<lparr>cp_Status := st\<rparr>)
      (\<lambda>w. w\<lparr>currentPublicCompanies := None\<rparr>) (Companies_UpdateCompanyParticipationStatus E i st)"
    and "company_update bad E i (\<lambda>p. p\<lparr>cp_Package := Some pk\<rparr>)
      (\<lambda>w. w\<lparr>currentPublicCompanies := None\<rparr>) (Companies_UpdatePackage E i pk)"
    and "company_update bad E i
      (\<lambda>p. p\<lparr>cp_Member := m, cp_Partner := b, cp_Notes := n, cp_Confirmed := conf\<rparr>)
      (\<lambda>w. w\<lparr>currentPublicCompanies := None\<rparr>)
      (Companies_UpdateCompanyParticipation E i \<lparr>ucpd_Member = Some m, ucpd_Partner = Some b,
         ucpd_Confirmed = conf, ucpd_Notes = Some n\<rparr>)"
  unfolding Companies_Subscribe_def Companies_Unsubscribe_def Companies_AddSubscriber_def
    Companies_RemoveSubscriber_def Companies_AddThread_def Companies_RemoveCommunication_def
    Companies_UpdateCompanyGmailThreadIds_def Companies_UpdateCompanyParticipationStatus_def
    Companies_UpdatePackage_def Companies_UpdateCompanyParticipation_def
    UpdateCompanyParticipationData.simps deref_simps bindE_retE
  by (rule company_updateI company_update_resetI, rule assms)+

lemma keyed_company_updates:
  assumes "mongo_spec bad E"
  shows "keyed_update bad contents (Companies E) co_ID i (\<lambda>_. True) (set_company_fields d)
      (\<lambda>w. w\<lparr>currentPublicCompanies := None\<rparr>) (Companies_UpdateCompany E i d)"
    and "keyed_update bad contents (Companies E) co_ID i (\<lambda>_. True)
      (\<lambda>c. c\<lparr>co_Images := (co_Images c)\<lparr>cim_Internal := url\<rparr>\<rparr>)
      (\<lambda>w. w\<lparr>currentPublicCompanies := None\<rparr>) (Companies_UpdateCompanyInternalImage E i url)"
    and "keyed_update bad contents (Companies E) co_ID i (\<lambda>_. True)
      (\<lambda>c. c\<lparr>co_Images := (co_Images c)\<lparr>cim_Public := url\<rparr>\<rparr>)
      (\<lambda>w. w\<lparr>currentPublicCompanies := None\<rparr>) (Companies_UpdateCompanyPublicImage E i url)"
    and "keyed_update bad contents (Companies E) co_ID i (\<lambda>_. True)
      (\<lambda>c. c\<lparr>co_Employers := es\<rparr>) (\<lambda>w. w)
      (Companies_UpdateEmployersOrder E i \<lparr>ueod_Employers = Some es\<rparr>)"
    and "keyed_update bad contents (Companies E) co_ID i
      (\<lambda>c. ev \<in> cp_Event ` set (co_Participations c))
      (on_parts (positional (\<lambda>p. cp_Event p = ev) (\<lambda>p. p\<lparr>cp_Billing := Some b\<rparr>)))
      (\<lambda>w. w\<lparr>currentPublicCompanies := None\<rparr>) (Companies_UpdateBilling E i b ev)"
    and "keyed_update bad contents (Companies E) co_ID i
      (\<lambda>c. ev \<in> cp_Event ` set (co_Participations c))
      (on_parts (positional (\<lambda>p. cp_Event p = ev) (\<lambda>p. p\<lparr>cp_Billing := None\<rparr>)))
      (\<lambda>w. w) (Companies_RemoveCompanyParticipationBilling E i ev)"
  unfolding Companies_UpdateCompany_def Companies_UpdateCompanyInternalImage_def
    Companies_UpdateCompanyPublicImage_def Companies_UpdateEmployersOrder_def
    Companies_UpdateBilling_def Companies_RemoveCompanyParticipationBilling_def
    ResetCurrentPublicCompanies_def participates_eq UpdateEmployersOrderData.simps option.case
  by (rule keyed_update_then companies.keyed_updateI companies.keyed_updateI' | simp add: assms)+

end
