(* ===== verification/CompanyProperties.thy ===== *)
theory CompanyProperties
  imports CompanyParticipations
begin

text \<open>
  What the operations on companies guarantee: the refinement of each update, the state machine of
  a participation, one participation per event, the announcement of the accepted companies, the
  public view, and the deletion of threads and companies.
\<close>

section \<open>Moving a participation through the state machine\<close>

lemma wp_StepStatus:
  assumes "mongo_spec bad E" and "distinct (map co_ID (w_companies w))"
    and "distinct (map ev_ID (w_events w))"
  shows "wp (Companies_StepStatus E i k)
     (\<lambda>c w'. \<exists>cur x st. company_parts.can_step E w i k cur x st \<and>
        c = on_parts (positional (\<lambda>p. cp_Event p = ev_ID cur) (\<lambda>p. p\<lparr>cp_Status := st\<rparr>)) x \<and>
        contents w' = (contents w)\<lparr>w_companies := update_at co_ID i
           (on_parts (positional (\<lambda>p. cp_Event p = ev_ID cur) (\<lambda>p. p\<lparr>cp_Status := st\<rparr>)))
           (w_companies w), currentPublicCompanies := None\<rparr>)
     (\<lambda>e w'. contents w' = contents w \<and>
        (bad e \<or> (\<forall>cur x st. \<not> company_parts.can_step E w i k cur x st))) w"
  unfolding Companies_StepStatus_def ResetCurrentPublicCompanies_def participates_eq
  by (rule wp_mono [OF company_parts.wp_step [where bad = bad and gn = "\<lambda>w. w", OF assms(1) mongo_drv(1) [OF assms(1)]
          keyed_lookups(1) [OF assms(1)]]])
    (use assms(2,3) in \<open>auto simp: throwE_def\<close>)

text \<open>
  C5: \<open>StepStatus\<close> moves the company's participation in the current event along the state machine:
  it succeeds only with a step the machine accepts, sets the status to the one the machine gives,
  changes nothing else in the database, drops the cached public list, and returns the company as
  stored. When the database does not fail, it succeeds whenever the machine accepts the step; on
  every error nothing has changed.
\<close>

theorem StepStatus_correct:
  assumes "mongo_spec bad E" and "distinct (map co_ID (w_companies w))"
    and "distinct (map ev_ID (w_events w))"
  shows "wp (Companies_StepStatus E i k)
     (\<lambda>c w'. \<exists>cur x p st. is_current (w_events w) cur \<and> lookup co_ID (w_companies w) i = Some x \<and>
        first_participation (ev_ID cur) (co_Participations x) = Some p \<and>
        (k, st) \<in> set (step_pairs (cp_Status p)) \<and>
        c = on_parts (positional (\<lambda>q. cp_Event q = ev_ID cur) (\<lambda>q. q\<lparr>cp_Status := st\<rparr>)) x \<and>
        contents w' = (contents w)\<lparr>w_companies := update_at co_ID i
           (on_parts (positional (\<lambda>q. cp_Event q = ev_ID cur) (\<lambda>q. q\<lparr>cp_Status := st\<rparr>)))
           (w_companies w), currentPublicCompanies := None\<rparr>)
     (\<lambda>e w'. contents w' = contents w \<and> (bad e \<or> \<not> (\<exists>cur x p st. is_current (w_events w) cur \<and>
        lookup co_ID (w_companies w) i = Some x \<and>
        first_participation (ev_ID cur) (co_Participations x) = Some p \<and>
        (k, st) \<in> set (step_pairs (cp_Status p))))) w"
  by (rule wp_mono [OF wp_StepStatus [OF assms]])
    (auto simp: company_parts.can_step_def status_machine.nxt_valid [symmetric])

definition sample_company :: "participationStatus \<Rightarrow> company" where
  "sample_company st = (company_of \<lparr>ccod_Name = Some ''c'', ccod_Description = None,
      ccod_Site = None, ccod_LinkedIn = None\<rparr> 9 4)
     \<lparr>co_Participations := [(new_participation 1 7 False)\<lparr>cp_Status := st\<rparr>]\<rparr>"

definition sample_world :: "participationStatus \<Rightarrow> world" where
  "sample_world st = empty_world\<lparr>w_events := [new_event 1 ''e''], w_companies := [sample_company st]\<rparr>"

lemma sample_simps [simp]:
  "co_ID (sample_company st) = 4"
  "co_Participations (sample_company st) = [(new_participation 1 7 False)\<lparr>cp_Status := st\<rparr>]"
  "w_companies (sample_world st) = [sample_company st]"
  "w_events (sample_world st) = [new_event 1 ''e'']"
  "is_current [new_event 1 ''e''] cur \<longleftrightarrow> cur = new_event 1 ''e''"
  by (auto simp: sample_company_def sample_world_def company_of_def is_current_def)

theorem StepStatus_correct_witness:
  "wp (Companies_StepStatus local_env 4 1)
     (\<lambda>c w'. map cp_Status (co_Participations c) = [Accepted] \<and> currentPublicCompanies w' = None)
     (\<lambda>e w'. False) (sample_world InConversations)"
  by (rule wp_mono [OF StepStatus_correct [OF local_env_up]])
    (auto simp: lookup_def step_pairs_def new_participation_def on_parts_def dest: contents_eqD(21))

section \<open>Adding a participation\<close>

lemma new_participation_event [simp]: "cp_Event (new_participation ev m b) = ev"
  by (simp add: new_participation_def)

lemma add_new_participation:
  assumes "ev \<notin> cp_Event ` set (co_Participations c)"
  shows "c\<lparr>co_Participations := addToSetDoc b (new_participation ev m p) (co_Participations c)\<rparr> =
    on_parts (\<lambda>ps. ps @ [new_participation ev m p]) c"
proof -
  have "new_participation ev m p \<notin> set (co_Participations c)"
    using assms by (auto dest: imageI [of _ _ cp_Event])
  then show ?thesis by (simp add: on_parts_def addToSetDoc_new)
qed

lemma wp_AddParticipation:
  assumes "mongo_spec bad E" and "distinct (map co_ID (w_companies w))"
  shows "wp (Companies_AddParticipation E i m d)
     (\<lambda>c w'. \<exists>cur x. is_current (w_events w) cur \<and> lookup co_ID (w_companies w) i = Some x \<and>
        ev_ID cur \<notin> cp_Event ` set (co_Participations x) \<and>
        c = on_parts (\<lambda>ps. ps @ [new_participation (ev_ID cur) m (apd_Partner d)]) x \<and>
        contents w' = (contents w)\<lparr>w_companies := update_at co_ID i
           (on_parts (\<lambda>ps. ps @ [new_participation (ev_ID cur) m (apd_Partner d)])) (w_companies w),
           currentPublicCompanies := None\<rparr>)
     (\<lambda>e w'. contents w' = contents w \<and> (bad e \<or> e = Err ''no events found'' \<and> w_events w = [] \<or>
        e = ErrNoDocuments \<and> (\<exists>cur. is_current (w_events w) cur \<and>
          (\<forall>x. lookup co_ID (w_companies w) i = Some x \<longrightarrow>
             ev_ID cur \<in> cp_Event ` set (co_Participations x))))) w"
  unfolding Companies_AddParticipation_def ResetCurrentPublicCompanies_def
  by (rule wp_mono [OF company_parts.wp_add_participation [where bad = bad
          and new = "\<lambda>ev. new_participation ev m (apd_Partner d)", OF assms(1) mongo_drv(1) [OF assms(1)]]])
    (use assms(2) in \<open>auto simp: add_new_participation\<close>)

text \<open>
  C7: \<open>AddParticipation\<close> adds a participation in the current event to a company that has none: it is
  suggested, in the charge of the member who added it, who is also its only subscriber. A company
  that has one, or does not exist, is refused with \<^verbatim>\<open>ErrNoDocuments\<close> and nothing changes.
\<close>

theorem AddParticipation_correct:
  assumes "mongo_spec bad E" and "distinct (map co_ID (w_companies w))"
  shows "wp (Companies_AddParticipation E i m \<lparr>apd_Partner = b\<rparr>)
     (\<lambda>c w'. \<exists>cur x p. is_current (w_events w) cur \<and> lookup co_ID (w_companies w) i = Some x \<and>
        ev_ID cur \<notin> cp_Event ` set (co_Participations x) \<and>
        cp_Event p = ev_ID cur \<and> cp_Status p = Suggested \<and> cp_Member p = m \<and>
        cp_Subscribers p = [m] \<and> cp_Partner p = b \<and> cp_Communications p = [] \<and>
        c = on_parts (\<lambda>ps. ps @ [p]) x \<and>
        contents w' = (contents w)\<lparr>w_companies := update_at co_ID i (on_parts (\<lambda>ps. ps @ [p]))
           (w_companies w), currentPublicCompanies := None\<rparr>)
     (\<lambda>e w'. contents w' = contents w \<and> (bad e \<or> e = Err ''no events found'' \<and> w_events w = [] \<or>
        e = ErrNoDocuments \<and> (\<exists>cur. is_current (w_events w) cur \<and>
          (\<forall>x. lookup co_ID (w_companies w) i = Some x \<longrightarrow>
             ev_ID cur \<in> cp_Event ` set (co_Participations x))))) w"
proof (rule wp_mono [OF wp_AddParticipation [OF assms]], goal_cases)
  case (1 c w')
  then obtain cur x where "is_current (w_events w) cur" "lookup co_ID (w_companies w) i = Some x"
    "ev_ID cur \<notin> cp_Event ` set (co_Participations x)"
    "c = on_parts (\<lambda>ps. ps @ [new_participation (ev_ID cur) m b]) x"
    "contents w' = (contents w)\<lparr>w_companies := update_at co_ID i
       (on_parts (\<lambda>ps. ps @ [new_participation (ev_ID cur) m b])) (w_companies w),
       currentPublicCompanies := None\<rparr>" by auto
  then show ?case
    by (intro exI [of _ cur] exI [of _ x] exI [of _ "new_participation (ev_ID cur) m b"])
      (simp add: new_participation_def)
qed auto

theorem AddParticipation_correct_witness:
  "wp (Companies_AddParticipation local_env 4 8 \<lparr>apd_Partner = True\<rparr>)
     (\<lambda>c w'. False) (\<lambda>e w'. e = ErrNoDocuments) (sample_world Selected)"
  by (rule wp_mono [OF AddParticipation_correct [OF local_env_up]])
    (auto simp: lookup_def new_participation_def)

section \<open>One participation per event\<close>

definition company_inv :: "world \<Rightarrow> bool" where
  "company_inv w \<longleftrightarrow> distinct (map co_ID (w_companies w)) \<and>
     (\<forall>c \<in> set (w_companies w). distinct (map cp_Event (co_Participations c)))"

lemma company_inv_wf: "company_inv = company_parts.wf E"
  by (simp add: fun_eq_iff company_inv_def company_parts.wf_def company_parts.one_per_event_def)

lemma company_inv_eqD: "w_companies a = w_companies b \<Longrightarrow> company_inv a = company_inv b"
  by (simp add: company_inv_def)

lemma company_inv_tick [simp]: "company_inv (tickw w) = company_inv w"
  by (simp add: company_inv_def)

lemmas keeps_company_update = company_parts.keeps_wf_update [folded company_inv_wf]
  and keeps_company_keyed = company_parts.keeps_wf_keyed [folded company_inv_wf]
  and keeps_company_any = company_parts.keeps_wf_any [folded company_inv_wf, OF mongo_drv(1)]

text \<open>Programs that leave the companies alone.\<close>

lemma keeps_company_events [keeps_rules]: "keeps company_inv (Events_GetCurrentEvent E)"
  unfolding Events_GetCurrentEvent_def by (intro keeps_rules) simp

lemma keeps_company_gets [keeps_rules]:
  "keeps company_inv (Companies_GetCompany E i)"
  unfolding Companies_GetCompany_def by (intro keeps_rules) simp

lemma keeps_reset [keeps_rules]: "keeps company_inv ResetCurrentPublicCompanies"
  unfolding ResetCurrentPublicCompanies_def by (rule keeps_modifyE) (simp add: company_inv_def)

lemma keeps_company_sessions [keeps_rules]:
  "keeps company_inv (Sessions_GetSession E i)"
  "keeps company_inv (Sessions_DeleteSession E i)"
  "keeps company_inv (Contacts_DeleteContact E i)"
  unfolding Sessions_GetSession_def Sessions_DeleteSession_def Contacts_DeleteContact_def
  by (rule keeps_rules keeps_store, simp add: company_inv_def)+

lemma keeps_company_reps [keeps_rules]:
  "keeps company_inv (CompanyReps_CreateCompanyRep E data)"
  "keeps company_inv (CompanyReps_DeleteCompanyRep E i)"
  unfolding CompanyReps_CreateCompanyRep_def CompanyReps_DeleteCompanyRep_def
    Contacts_CreateContact_def Contacts_GetContact_def CompanyReps_GetCompanyRep_def
  by (rule keeps_rules keeps_store | simp add: company_inv_def)+

lemma keeps_company_select [keeps_rules]: "keeps company_inv (select_sessions E options ids acc)"
  by (induction ids arbitrary: acc)
    (auto simp: keep_session_def Let_def intro!: keeps_rules split: option.split)

lemma keeps_company_search [keeps_rules]: "keeps company_inv (Sessions_GetSessions E options)"
  unfolding Sessions_GetSessions_def Events_GetEvent_def by (intro keeps_rules) simp

lemma keeps_DeleteCompanyThread [keeps_rules]:
  assumes "mongo_spec bad E"
  shows "keeps company_inv (Companies_DeleteCompanyThread E i t)"
  unfolding Companies_DeleteCompanyThread_def
  by (intro keeps_rules keeps_company_any [OF assms]) (simp_all add: map_positional)

lemma keeps_DeleteCompanyParticipation [keeps_rules]:
  assumes "mongo_spec bad E"
  shows "keeps company_inv (Companies_DeleteCompanyParticipation E i ev)"
  unfolding Companies_DeleteCompanyParticipation_def
  by (intro keeps_rules keeps_DeleteCompanyThread [OF assms] keeps_company_any [OF assms])
    (simp_all add: pull_def distinct_map_filter)

lemma keeps_DeleteCompany:
  assumes "mongo_spec bad E"
  shows "keeps company_inv (Companies_DeleteCompany E i)"
  unfolding Companies_DeleteCompany_def
  by (intro keeps_rules keeps_DeleteCompanyParticipation [OF assms]
      company_parts.keeps_wf_delete [folded company_inv_wf, OF mongo_drv(1) [OF assms]])

section \<open>Announcing\<close>

definition accepted_in :: "int \<Rightarrow> companyParticipation \<Rightarrow> bool" where
  "accepted_in ev p \<longleftrightarrow> cp_Event p = ev \<and> cp_Status p = Accepted"

definition announce :: "int \<Rightarrow> company \<Rightarrow> company" where
  "announce ev = on_parts (map (\<lambda>p. if accepted_in ev p then p\<lparr>cp_Status := Announced\<rparr> else p))"

lemma announce_simps [simp]:
  "co_ID (announce ev c) = co_ID c"
  "map cp_Event (co_Participations (announce ev c)) = map cp_Event (co_Participations c)"
  by (simp_all add: announce_def on_parts_def)

lemma map_announce_ID: "map co_ID (map (announce ev) cs) = map co_ID cs"
  by simp

lemma announce_changes: "announce ev c \<noteq> c \<longleftrightarrow> (\<exists>p \<in> set (co_Participations c). accepted_in ev p)"
proof -
  have ne: "p\<lparr>cp_Status := Announced\<rparr> \<noteq> p" if "accepted_in ev p" for p
  proof
    assume "p\<lparr>cp_Status := Announced\<rparr> = p"
    then have "cp_Status (p\<lparr>cp_Status := Announced\<rparr>) = cp_Status p" by simp
    with that show False by (simp add: accepted_in_def)
  qed
  have "map (\<lambda>p. if accepted_in ev p then p\<lparr>cp_Status := Announced\<rparr> else p) ps = ps \<longleftrightarrow>
      (\<forall>p \<in> set ps. \<not> accepted_in ev p)" for ps
    by (induction ps) (auto dest: ne)
  moreover have "announce ev c = c \<longleftrightarrow>
      map (\<lambda>p. if accepted_in ev p then p\<lparr>cp_Status := Announced\<rparr> else p) (co_Participations c) =
      co_Participations c"
    by (cases c) (simp add: announce_def on_parts_def)
  ultimately show ?thesis by blast
qed

lemma wp_Announce:
  assumes "mongo_spec bad E"
  shows "wp (Companies_AnnounceAcceptedCompanies E)
     (\<lambda>n w'. \<exists>cur. is_current (w_events w) cur \<and>
        contents w' = (contents w)\<lparr>w_companies := map (announce (ev_ID cur)) (w_companies w),
          currentPublicCompanies := None\<rparr> \<and>
        n = length (filter (\<lambda>c. announce (ev_ID cur) c \<noteq> c) (w_companies w)))
     (\<lambda>e w'. contents w' = contents w \<and> (bad e \<or> e = Err ''no events found'' \<and> w_events w = []) \<or>
        bad e \<and> (\<exists>cur part. is_current (w_events w) cur \<and>
          contents w' = (contents w)\<lparr>w_companies := map (\<lambda>c. if part c then announce (ev_ID cur) c else c) (w_companies w)\<rparr>)) w"
  unfolding Companies_AnnounceAcceptedCompanies_def Let_def wp_bindE
proof (rule wp_GetCurrentEvent [OF assms], goal_cases)
  case (1 cur w1)
  note w1 = contents_eqD [OF 1(2)]
  let ?acc = "\<lambda>p. cp_Event p = ev_ID cur \<and> cp_Status p = Accepted"
  let ?u = "\<lambda>c. c\<lparr>co_Participations := filtered ?acc (\<lambda>p. p\<lparr>cp_Status := Announced\<rparr>) (co_Participations c)\<rparr>"
  have u: "?u = announce (ev_ID cur)"
    by (simp add: fun_eq_iff announce_def on_parts_def filtered_def accepted_in_def)
  have f: "(\<lambda>c. \<exists>p \<in> set (co_Participations c). ?acc p) = (\<lambda>c. announce (ev_ID cur) c \<noteq> c)"
    by (simp only: announce_changes accepted_in_def)
  have if_same: "(if announce (ev_ID cur) c = c then c else announce (ev_ID cur) c) =
      announce (ev_ID cur) c" for c by simp
  have part: "map (\<lambda>c. if announce (ev_ID cur) c \<noteq> c \<and> part c then announce (ev_ID cur) c else c) cs =
      map (\<lambda>c. if part c then announce (ev_ID cur) c else c) cs" for part :: "company \<Rightarrow> bool" and cs
    by simp
  show ?case
    unfolding u f
  proof (rule wp_UpdateMany [OF mongo_drv(1) [OF assms]], goal_cases)
    case 1
    show ?case
      using \<open>is_current (w_events w) cur\<close> \<open>contents w1 = contents w\<close> w1
      by (auto simp: ResetCurrentPublicCompanies_def if_same intro!: exI [of _ cur])
  next
    case (2 e part)
    then show ?case
      using \<open>is_current (w_events w) cur\<close> \<open>contents w1 = contents w\<close> w1 unfolding part
      by (intro disjI2 conjI exI [of _ cur] exI [of _ part]) simp_all
  qed
qed auto

lemma keeps_Announce:
  assumes "mongo_spec bad E"
  shows "keeps company_inv (Companies_AnnounceAcceptedCompanies E)"
proof (rule keepsI, rule wp_mono [OF wp_Announce [OF assms]], goal_cases)
  case (1 w n w')
  then obtain cur :: event where "contents w' = (contents w)\<lparr>w_companies := map (announce (ev_ID cur)) (w_companies w),
      currentPublicCompanies := None\<rparr>" by blast
  from contents_eqD(1) [OF this] show ?case
    using 1(1) by (auto simp: company_inv_def map_announce_ID simp del: map_map)
next
  case (2 w e w')
  from 2(2) show ?case
  proof (elim disjE conjE exE)
    fix cur :: event and part :: "company \<Rightarrow> bool"
    assume "contents w' = (contents w)\<lparr>w_companies := map (\<lambda>c. if part c then announce (ev_ID cur) c else c) (w_companies w)\<rparr>"
    from contents_eqD(1) [OF this] have cs: "w_companies w' = map (\<lambda>c. if part c then announce (ev_ID cur) c else c) (w_companies w)"
      by simp
    have "map co_ID (w_companies w') = map co_ID (w_companies w)" unfolding cs by simp
    then show ?thesis
      using 2(1) unfolding company_inv_def by (auto simp: cs simp del: map_map)
  qed (use 2(1) contents_eqD(1) company_inv_eqD in blast)+
qed

text \<open>
  C8: \<open>AnnounceAcceptedCompanies\<close> announces exactly the participations that are accepted in the
  current event: afterwards none is left accepted there, every one that was is announced, every
  other participation, company and collection is as before, the cached public list is dropped, and
  the count returned is the number of companies it changed. When the command that writes them fails,
  which is not atomic, the accepted participations of some companies may be announced, and the cached list stays.
\<close>

theorem AnnounceAcceptedCompanies_correct:
  assumes "mongo_spec bad E"
  shows "wp (Companies_AnnounceAcceptedCompanies E)
     (\<lambda>n w'. \<exists>cur. is_current (w_events w) cur \<and>
        contents w' = (contents w)\<lparr>w_companies := map (announce (ev_ID cur)) (w_companies w),
          currentPublicCompanies := None\<rparr> \<and>
        n = length (filter (\<lambda>c. announce (ev_ID cur) c \<noteq> c) (w_companies w)) \<and>
        (\<forall>c \<in> set (w_companies w'). \<forall>p \<in> set (co_Participations c). \<not> accepted_in (ev_ID cur) p) \<and>
        (\<forall>c \<in> set (w_companies w). \<forall>p \<in> set (co_Participations c). accepted_in (ev_ID cur) p \<longrightarrow>
           p\<lparr>cp_Status := Announced\<rparr> \<in> set (co_Participations (announce (ev_ID cur) c))))
     (\<lambda>e w'. contents w' = contents w \<and> (bad e \<or> e = Err ''no events found'' \<and> w_events w = []) \<or>
        bad e \<and> (\<exists>cur part. is_current (w_events w) cur \<and>
          contents w' = (contents w)\<lparr>w_companies := map (\<lambda>c. if part c then announce (ev_ID cur) c else c) (w_companies w)\<rparr>)) w"
proof (rule wp_mono [OF wp_Announce [OF assms]], goal_cases)
  case (1 n w')
  then obtain cur where cur: "is_current (w_events w) cur"
    "contents w' = (contents w)\<lparr>w_companies := map (announce (ev_ID cur)) (w_companies w),
          currentPublicCompanies := None\<rparr>"
    "n = length (filter (\<lambda>c. announce (ev_ID cur) c \<noteq> c) (w_companies w))"
    by blast
  have "w_companies w' = map (announce (ev_ID cur)) (w_companies w)"
    using contents_eqD(1) [OF cur(2)] by simp
  then have "\<forall>c \<in> set (w_companies w'). \<forall>p \<in> set (co_Participations c). \<not> accepted_in (ev_ID cur) p"
    by (auto simp: announce_def on_parts_def accepted_in_def)
  with cur show ?case
    by (intro exI [of _ cur]) (auto simp: announce_def on_parts_def image_iff)
qed auto

theorem AnnounceAcceptedCompanies_correct_witness:
  "wp (Companies_AnnounceAcceptedCompanies local_env)
     (\<lambda>n w'. map (map cp_Status \<circ> co_Participations) (w_companies w') = [[Announced]])
     (\<lambda>e w'. False) (sample_world Accepted)"
  by (rule wp_mono [OF AnnounceAcceptedCompanies_correct [OF local_env_up]])
    (auto simp: announce_def on_parts_def accepted_in_def dest: contents_eqD(1))

text \<open>
  C6: a company never has two participations in one event: every operation on companies keeps IDs
  and the events of a company distinct, also when it fails half way.
\<close>

theorem one_participation_per_event:
  assumes "mongo_spec bad E"
  shows "keeps company_inv (Companies_CreateCompany E ccd) \<and>
    keeps company_inv (Companies_AddParticipation E i m apd) \<and>
    keeps company_inv (Companies_StepStatus E i k) \<and>
    keeps company_inv (Companies_UpdateCompanyParticipationStatus E i st) \<and>
    keeps company_inv (Companies_UpdateCompanyParticipation E i \<lparr>ucpd_Member = Some m,
      ucpd_Partner = Some b, ucpd_Confirmed = conf, ucpd_Notes = Some n\<rparr>) \<and>
    keeps company_inv (Companies_Subscribe E i m) \<and> keeps company_inv (Companies_Unsubscribe E i m) \<and>
    keeps company_inv (Companies_AddSubscriber E i m) \<and>
    keeps company_inv (Companies_RemoveSubscriber E i m) \<and>
    keeps company_inv (Companies_UpdateCompanyGmailThreadIds E i gs) \<and>
    keeps company_inv (Companies_AddThread E i t) \<and>
    keeps company_inv (Companies_RemoveCommunication E i t) \<and>
    keeps company_inv (Companies_UpdatePackage E i pk) \<and>
    keeps company_inv (Companies_UpdateBilling E i bi ev) \<and>
    keeps company_inv (Companies_RemoveCompanyParticipationBilling E i ev) \<and>
    keeps company_inv (Companies_UpdateCompany E i ucd) \<and>
    keeps company_inv (Companies_UpdateCompanyInternalImage E i url) \<and>
    keeps company_inv (Companies_UpdateCompanyPublicImage E i url) \<and>
    keeps company_inv (Companies_UpdateEmployersOrder E i \<lparr>ueod_Employers = Some es\<rparr>) \<and>
    keeps company_inv (Companies_AddEmployer E i rep) \<and>
    keeps company_inv (Companies_RemoveEmployer E i r) \<and>
    keeps company_inv (Companies_DeleteCompanyThread E i t) \<and>
    keeps company_inv (Companies_DeleteCompanyParticipation E i ev) \<and>
    keeps company_inv (Companies_AnnounceAcceptedCompanies E) \<and>
    keeps company_inv (Companies_DeleteCompany E i)"
proof -
  have create: "keeps company_inv (Companies_CreateCompany E ccd)"
    unfolding Companies_CreateCompany_def
  proof (intro keeps_rules, goal_cases)
    case 1
    then show ?case by (rule keeps_store) (simp add: company_inv_def)
  next
    case (2 a)
    show ?case
      by (rule company_parts.keeps_wf_insert [folded company_inv_wf, OF mongo_drv(1) [OF assms]])
        (simp_all add: company_of_def)
  qed
  have add: "keeps company_inv (Companies_AddParticipation E i m apd)"
    unfolding Companies_AddParticipation_def ResetCurrentPublicCompanies_def company_inv_wf [of E]
    by (rule company_parts.keeps_wf_add [where new = "\<lambda>ev. new_participation ev m (apd_Partner apd)",
          OF assms mongo_drv(1) [OF assms]]) (simp_all add: add_new_participation)
  have step: "keeps company_inv (Companies_StepStatus E i k)"
    unfolding Companies_StepStatus_def participates_eq
    by (intro keeps_rules keeps_company_any [OF assms]) (simp_all add: on_parts_def map_positional)
  have employers: "keeps company_inv (Companies_AddEmployer E i rep)"
    "keeps company_inv (Companies_RemoveEmployer E i r)"
    unfolding Companies_AddEmployer_def Companies_RemoveEmployer_def
    by (intro keeps_rules keeps_company_reps keeps_company_any [OF assms]; simp)+
  show ?thesis
    using create add step employers
    by (intro conjI keeps_Announce [OF assms] keeps_DeleteCompany [OF assms]
        keeps_DeleteCompanyThread [OF assms] keeps_DeleteCompanyParticipation [OF assms]
        keeps_company_update [OF company_updates(8) [OF assms]]
        keeps_company_update [OF company_updates(10) [OF assms]]
        keeps_company_update [OF company_updates(1) [OF assms]]
        keeps_company_update [OF company_updates(2) [OF assms]]
        keeps_company_update [OF company_updates(3) [OF assms]]
        keeps_company_update [OF company_updates(4) [OF assms]]
        keeps_company_update [OF company_updates(7) [OF assms]]
        keeps_company_update [OF company_updates(5) [OF assms]]
        keeps_company_update [OF company_updates(6) [OF assms]]
        keeps_company_update [OF company_updates(9) [OF assms]]
        keeps_company_keyed [OF keyed_company_updates(1) [OF assms]]
        keeps_company_keyed [OF keyed_company_updates(2) [OF assms]]
        keeps_company_keyed [OF keyed_company_updates(3) [OF assms]]
        keeps_company_keyed [OF keyed_company_updates(4) [OF assms]]
        keeps_company_keyed [OF keyed_company_updates(5) [OF assms]]
        keeps_company_keyed [OF keyed_company_updates(6) [OF assms]])
      (simp_all add: set_company_fields_def on_parts_def map_positional)
qed

theorem one_participation_per_event_witness:
  "keeps company_inv (Companies_StepStatus local_env 4 1) \<and> company_inv (sample_world Selected)"
  using one_participation_per_event [OF local_env_up] by (auto simp: company_inv_def)

end
