(* ===== verification/PublicCompanies.thy ===== *)
theory PublicCompanies
  imports CompanyProperties
begin

text \<open>
  The public view of the companies, its cache, and the deletion of threads and companies: what
  \<open>companyToPublic\<close> publishes, when the cached list is stale, and what is left of a deletion.
\<close>

section \<open>What the public view shows\<close>

text \<open>The participation the view is made for: announced, in the event asked for if there is one.\<close>

definition chosen :: "int option \<Rightarrow> companyParticipation \<Rightarrow> bool" where
  "chosen eventID p \<longleftrightarrow> cp_Status p = Announced \<and> (eventID = None \<or> eventID = Some (cp_Event p))"

definition unannounced :: "int option \<Rightarrow> companyParticipation \<Rightarrow> bool" where
  "unannounced eventID p \<longleftrightarrow> eventID = Some (cp_Event p) \<and> cp_Status p \<noteq> Announced"

lemma choose_participation_eq:
  "choose_participation eventID p q =
     (if unannounced eventID p then Inl (Err ''company not announced on event'')
      else if chosen eventID p then Inr (Some p) else Inr q)"
  by (cases eventID) (auto simp: choose_participation_def unannounced_def chosen_def)

lemma wp_participation_package:
  assumes "mongo_spec bad E" and "\<And>pack w'. contents w' = contents w \<Longrightarrow> Q pack w'"
  shows "wp (participation_package E p) Q R w"
proof (cases "cp_Package p")
  case None
  then show ?thesis using assms(2) by (simp add: participation_package_def)
next
  case (Some i)
  show ?thesis
    unfolding participation_package_def Some option.case wp_onErr Packages_GetPackage_def
    by (rule wp_FindOne [OF mongo_drv(8) [OF assms(1)]])
      (use mongo_spec_aborts [OF assms(1)] in \<open>auto intro: assms(2)\<close>)
qed

lemma wp_companyToPublic_loop:
  assumes "mongo_spec bad E"
  shows "wp (companyToPublic_loop E eventID ps q acc)
     (\<lambda>r w'. contents w' = contents w \<and> (\<forall>p \<in> set ps. \<not> unannounced eventID p) \<and>
        map cpp_Event r = map cpp_Event acc @
          map cp_Event (if q = None then dropWhile (\<lambda>p. \<not> chosen eventID p) ps else ps))
     (\<lambda>e w'. contents w' = contents w \<and> e = Err ''company not announced on event'' \<and>
        (\<exists>p \<in> set ps. unannounced eventID p)) w"
proof (induction ps arbitrary: q acc w)
  case Nil
  then show ?case by simp
next
  case (Cons p ps)
  show ?case
  proof (cases "unannounced eventID p")
    case True
    then show ?thesis by (simp add: choose_participation_eq)
  next
    case False
    define q' where "q' = (if chosen eventID p then Some p else q)"
    have choose: "choose_participation eventID p q = Inr q'"
      using False by (simp add: choose_participation_eq q'_def)
    show ?thesis
    proof (cases q')
      case None
      then have "q = None" "\<not> chosen eventID p" by (auto simp: q'_def split: if_splits)
      then show ?thesis
        unfolding companyToPublic_loop.simps choose wp_bindE wp_liftR sum.case None option.case
        by (intro wp_mono [OF Cons.IH [of None acc w]]) (use False in auto)
    next
      case (Some p')
      have start: "q = None \<Longrightarrow> chosen eventID p"
        using Some by (auto simp: q'_def split: if_splits)
      show ?thesis
        unfolding companyToPublic_loop.simps choose wp_bindE wp_liftR sum.case Some option.case
      proof (rule wp_participation_package [OF assms], goal_cases)
        case (1 pack w')
        show ?case
          by (rule wp_mono [OF Cons.IH]) (use 1 False start in auto)
      qed
    qed
  qed
qed

lemma wp_companyToPublic:
  assumes "mongo_spec bad E"
    and "\<And>pub w'. contents w' = contents w \<Longrightarrow>
      \<forall>p \<in> set (co_Participations c). \<not> unannounced eventID p \<Longrightarrow>
      cop_ID pub = co_ID c \<Longrightarrow>
      map cpp_Event (cop_Participations pub) =
        map cp_Event (dropWhile (\<lambda>p. \<not> chosen eventID p) (co_Participations c)) \<Longrightarrow> Q pub w'"
    and "\<And>w'. contents w' = contents w \<Longrightarrow> \<exists>p \<in> set (co_Participations c). unannounced eventID p \<Longrightarrow>
      R (Err ''company not announced on event'') w'"
  shows "wp (companyToPublic E c eventID) Q R w"
  unfolding companyToPublic_def wp_bindE
  by (rule wp_mono [OF wp_companyToPublic_loop [OF assms(1)]]) (auto intro!: assms(2,3))

text \<open>
  C10: what \<open>companyToPublic\<close> really publishes. Its comment says: only the participation for the
  event asked for, or the announced ones. The code publishes every participation from the first such
  one to the end of the list, announced or not, since the chosen participation is kept from one
  turn of the loop to the next; it refuses exactly the companies with a participation in the event
  that is not announced.
\<close>

theorem companyToPublic_publishes:
  assumes "mongo_spec bad E"
  shows "wp (companyToPublic E c eventID)
     (\<lambda>pub w'. contents w' = contents w \<and> \<not> (\<exists>p \<in> set (co_Participations c). unannounced eventID p) \<and>
        map cpp_Event (cop_Participations pub) =
          map cp_Event (dropWhile (\<lambda>p. \<not> chosen eventID p) (co_Participations c)))
     (\<lambda>e w'. contents w' = contents w \<and> e = Err ''company not announced on event'' \<and>
        (\<exists>p \<in> set (co_Participations c). unannounced eventID p)) w"
  by (rule wp_companyToPublic [OF assms]) auto

text \<open>Asked for event 1, where the company was announced, it also publishes event 2, which the
  company rejected.\<close>

definition twice_company :: company where
  "twice_company = (sample_company Announced)\<lparr>co_Participations :=
     [(new_participation 1 7 False)\<lparr>cp_Status := Announced\<rparr>,
      (new_participation 2 7 False)\<lparr>cp_Status := Rejected\<rparr>]\<rparr>"

theorem companyToPublic_publishes_witness:
  "wp (companyToPublic local_env twice_company (Some 1))
     (\<lambda>pub w'. map cpp_Event (cop_Participations pub) = [1, 2]) (\<lambda>e w'. False) empty_world"
  by (rule wp_mono [OF companyToPublic_publishes [OF local_env_up]])
    (auto simp: twice_company_def new_participation_def chosen_def unannounced_def)

section \<open>The cached list\<close>

definition plain_options :: GetCompaniesPublicOptions where
  "plain_options = \<lparr>gcp_EventID = None, gcp_IsPartner = None, gcp_Name = None\<rparr>"

lemma wp_public_companies:
  assumes "mongo_spec bad E"
  shows "wp (public_companies E ev cs acc)
     (\<lambda>pubs w'. contents w' = contents w \<and> map cop_ID pubs = map cop_ID acc @
        map co_ID (filter (\<lambda>c. \<forall>p \<in> set (co_Participations c). \<not> unannounced (Some ev) p) cs))
     (\<lambda>e w'. False) w"
proof (induction cs arbitrary: acc w)
  case Nil
  then show ?case by simp
next
  case (Cons c cs)
  show ?case
    unfolding public_companies.simps wp_onErr
  proof (rule wp_companyToPublic [OF assms], goal_cases)
    case (1 pub w')
    show ?case by (rule wp_mono [OF Cons.IH]) (use 1 in auto)
  next
    case (2 w')
    show ?case
      unfolding aborts.simps if_False by (rule wp_mono [OF Cons.IH]) (use 2 in auto)
  qed
qed

lemma GetPublicCompanies_cached:
  "currentPublicCompanies w = Some pubs \<Longrightarrow>
   Companies_GetPublicCompanies E plain_options w = (Inr pubs, w)"
  by (simp add: Companies_GetPublicCompanies_def plain_options_def bindE_def getsE_def retE_def)

lemma fill_cache:
  assumes "contents w' = contents w" and "currentPublicCompanies w = None"
  shows "contents (if currentPublicCompanies w' = None then w'\<lparr>currentPublicCompanies := Some pubs\<rparr> else w') =
    (contents w)\<lparr>currentPublicCompanies := Some pubs\<rparr>"
proof -
  have "currentPublicCompanies w' = None"
    using contents_eqD(21) [OF assms(1)] assms(2) by simp
  then show ?thesis
    using assms(1) by (cases w', cases w) (auto simp: contents_def)
qed

text \<open>The companies announced in the event: a participation there, and none there that is not.\<close>

definition announced_in :: "int \<Rightarrow> company \<Rightarrow> bool" where
  "announced_in ev c \<longleftrightarrow> (\<exists>p \<in> set (co_Participations c). cp_Event p = ev) \<and>
     (\<forall>p \<in> set (co_Participations c). \<not> unannounced (Some ev) p)"

lemma listed_ids:
  assumes "set cs = {x \<in> set (w_companies w1). public_companies_filter E ev plain_options x}"
    and "contents w1 = contents w"
    and "map cop_ID pubs = map cop_ID [] @
      map co_ID (filter (\<lambda>c. \<forall>p \<in> set (co_Participations c). \<not> unannounced (Some ev) p) cs)"
  shows "cop_ID ` set pubs = co_ID ` {c \<in> set (w_companies w). announced_in ev c}"
proof -
  have "cop_ID ` set pubs =
      co_ID ` set (filter (\<lambda>c. \<forall>p \<in> set (co_Participations c). \<not> unannounced (Some ev) p) cs)"
    using arg_cong [OF assms(3), of set] by simp
  also have "\<dots> = co_ID ` {c \<in> set (w_companies w). announced_in ev c}"
    using contents_eqD(1) [OF assms(2)] assms(1)
    by (intro arg_cong [where f = "image co_ID"])
      (auto simp: public_companies_filter_def plain_options_def announced_in_def)
  finally show ?thesis .
qed

lemma wp_GetPublicCompanies:
  assumes "mongo_spec bad E" and "currentPublicCompanies w = None"
  shows "wp (Companies_GetPublicCompanies E plain_options)
     (\<lambda>pubs w'. contents w' = (contents w)\<lparr>currentPublicCompanies := Some pubs\<rparr> \<and>
        (\<exists>cur. is_current (w_events w) cur \<and>
          cop_ID ` set pubs = co_ID ` {c \<in> set (w_companies w). announced_in (ev_ID cur) c}))
     (\<lambda>e w'. contents w' = contents w) w"
  unfolding Companies_GetPublicCompanies_def Let_def
  apply (simp add: assms(2) plain_options_def del: list.set_map)
  apply (fold plain_options_def)
  apply (rule wp_GetCurrentEvent [OF assms(1)])
  subgoal for cur w1
    apply (rule wp_Find_set [OF mongo_drv(1) [OF assms(1)]])
    subgoal for cs
      apply (rule wp_mono [OF wp_public_companies [OF assms(1)]])
      subgoal for pubs w2
        by (simp only: wp_modifyE) (use fill_cache [of w2 w pubs] assms(2) listed_ids [of cs w1 E "ev_ID cur" w pubs] in auto)
      by simp
    by simp
  by auto

text \<open>
  C9: the public list of the current event. With nothing cached, \<open>GetPublicCompanies\<close> without
  options answers exactly the companies that take part in the current event with no participation
  there short of announced, it keeps the answer in the cache, and it writes nothing else; when it fails it
  caches nothing. Once something is cached it is answered as it is, without a database access.
\<close>

theorem GetPublicCompanies_correct:
  assumes "mongo_spec bad E"
  shows "wp (Companies_GetPublicCompanies E plain_options)
     (\<lambda>pubs w'. (case currentPublicCompanies w of
        Some cached \<Rightarrow> pubs = cached \<and> w' = w
      | None \<Rightarrow> contents w' = (contents w)\<lparr>currentPublicCompanies := Some pubs\<rparr> \<and>
          (\<exists>cur. is_current (w_events w) cur \<and>
            cop_ID ` set pubs = co_ID ` {c \<in> set (w_companies w). announced_in (ev_ID cur) c})))
     (\<lambda>e w'. contents w' = contents w) w"
proof (cases "currentPublicCompanies w")
  case None
  then show ?thesis using wp_GetPublicCompanies [OF assms, of w] by simp
next
  case (Some cached)
  then show ?thesis by (simp add: wp_def GetPublicCompanies_cached)
qed

theorem GetPublicCompanies_correct_witness:
  "wp (Companies_GetPublicCompanies local_env plain_options)
     (\<lambda>pubs w'. cop_ID ` set pubs = {4}) (\<lambda>e w'. True) (sample_world Announced)"
proof (rule wp_mono [OF GetPublicCompanies_correct [OF local_env_up]], goal_cases)
  case (1 pubs w')
  moreover have "currentPublicCompanies (sample_world Announced) = None"
    by (simp add: sample_world_def empty_world_def)
  moreover have "announced_in 1 (sample_company Announced)"
    by (simp add: announced_in_def unannounced_def new_participation_def)
  moreover have "ev_ID (new_event 1 ''e'') = 1" by (simp add: new_event_def)
  ultimately show ?case by (auto simp: image_iff)
qed simp

section \<open>Deletions\<close>

text \<open>The programs that leave the cached page alone.\<close>

definition caches :: "companyPublic list option \<Rightarrow> world \<Rightarrow> bool" where
  "caches c w \<longleftrightarrow> currentPublicCompanies w = c"

lemma keeps_snd: "keeps I m \<Longrightarrow> I s \<Longrightarrow> I (snd (m s))"
  by (drule (1) wp_keeps) (simp add: wp_def split: prod.splits sum.splits)

lemma keeps_caches [keeps_rules]:
  "keeps (caches c) (Companies_GetCompany E i)"
  "keeps (caches c) (Companies_DeleteCompanyThread E i t)"
  unfolding Companies_GetCompany_def Companies_DeleteCompanyThread_def
  by (intro keeps_rules keeps_store; simp add: caches_def)+

lemma keeps_caches_participation:
  "keeps (caches c) (Companies_DeleteCompanyParticipation E i ev)"
  "keeps (caches c) (Companies_RemoveCompanyParticipationBilling E i ev)"
  unfolding Companies_DeleteCompanyParticipation_def Companies_RemoveCompanyParticipationBilling_def
  by (intro keeps_rules keeps_store; simp add: caches_def)+

text \<open>
  The public page goes stale. \<open>DeleteCompanyParticipation\<close> does not reset the cache, as the other
  changes of a participation do: whatever it does and however it ends, a list cached
  before is what the public page still answers after it.
\<close>

theorem public_page_stale_after_deletion:
  assumes "currentPublicCompanies w = Some pubs"
  shows "fst (Companies_GetPublicCompanies E plain_options
           (snd (Companies_DeleteCompanyParticipation E i ev w))) = Inr pubs"
proof -
  have "caches (Some pubs) (snd (Companies_DeleteCompanyParticipation E i ev w))"
    by (rule keeps_snd [OF keeps_caches_participation(1)]) (simp add: caches_def assms)
  then show ?thesis by (simp add: caches_def GetPublicCompanies_cached)
qed

theorem public_page_stale_after_deletion_witness:
  "fst (Companies_GetPublicCompanies local_env plain_options
      (snd (Companies_DeleteCompanyParticipation local_env 4 1
        ((sample_world Announced)\<lparr>currentPublicCompanies := Some
           [\<lparr>cop_ID = 4, cop_Name = ''c'', cop_Image = [], cop_Site = [], cop_Participations = []\<rparr>]\<rparr>)))) =
   Inr [\<lparr>cop_ID = 4, cop_Name = ''c'', cop_Image = [], cop_Site = [], cop_Participations = []\<rparr>]"
  by (rule public_page_stale_after_deletion) simp

text \<open>
  \<open>DeleteCompanyThread\<close> does not ask for the company it is given. The named company has to
  exist, and then the thread is taken from the first participation that has it of some company that has it,
  whichever that is; that company is answered.
\<close>

theorem DeleteCompanyThread_takes_any_company:
  assumes "mongo_spec bad E"
  shows "wp (Companies_DeleteCompanyThread E i t)
     (\<lambda>y w'. i \<in> co_ID ` set (w_companies w) \<and>
        (\<exists>pre x post. w_companies w = pre @ x # post \<and> w_companies w' = pre @ y # post \<and>
           (\<exists>p \<in> set (co_Participations x). t \<in> set (cp_Communications p)) \<and>
           y = on_parts (positional (has_thread t) (\<lambda>p. p\<lparr>cp_Communications :=
                 pull (\<lambda>x. x = t) (cp_Communications p)\<rparr>)) x))
     (\<lambda>e w'. contents w' = contents w \<and> (bad e \<or> e = ErrNoDocuments)) w"
  unfolding Companies_DeleteCompanyThread_def wp_bindE
proof (rule wp_GetCompany [OF assms], goal_cases)
  case (1 c w1)
  note same = contents_eqD(1) [OF 1(3)]
  show ?case
    by (rule wp_FindOneAndUpdate [OF mongo_drv(1) [OF assms]])
      (use 1 same in \<open>auto simp: replaces_def on_parts_def has_thread_def\<close>)
qed auto

text \<open>Asked for company 4, it takes the thread 8 from company 5.\<close>

definition thread_world :: world where
  "thread_world = empty_world\<lparr>w_companies := [sample_company Accepted,
     (sample_company Accepted)\<lparr>co_ID := 5,
        co_Participations := [(new_participation 1 7 False)\<lparr>cp_Communications := [8]\<rparr>]\<rparr>]\<rparr>"

theorem DeleteCompanyThread_takes_any_company_witness:
  "wp (Companies_DeleteCompanyThread local_env 4 8)
     (\<lambda>y w'. co_ID y = 5 \<and> cp_Communications (hd (co_Participations y)) = []) (\<lambda>e w'. True) thread_world"
  by (rule wp_mono [OF DeleteCompanyThread_takes_any_company [OF local_env_up]])
    (auto simp: thread_world_def Cons_eq_append_conv on_parts_def pull_def has_thread_def
      new_participation_def)

section \<open>Deleting a company\<close>

text \<open>What a deletion leaves alone until its last step.\<close>

definition undeleted :: "world \<Rightarrow> world \<Rightarrow> bool" where
  "undeleted w v \<longleftrightarrow> map co_ID (w_companies v) = map co_ID (w_companies w) \<and>
     w_events v = w_events w \<and> w_sessions v = w_sessions w"

lemma keeps_undeleted_gets [keeps_rules]:
  "keeps (undeleted w) (Companies_GetCompany E i)"
  unfolding Companies_GetCompany_def by (intro keeps_rules) (simp add: undeleted_def)

lemma keeps_undeleted_update:
  assumes "mongo_spec bad E" and "\<And>c. co_ID (u c) = co_ID c"
  shows "keeps (undeleted w) (FindOneAndUpdate (Companies E) f u)"
proof (rule keepsI, rule wp_FindOneAndUpdate [OF mongo_drv(1) [OF assms(1)]], goal_cases)
  case (1 v y ds)
  then show ?case using replaces_map [OF 1(2), of co_ID] assms(2) by (simp add: undeleted_def)
next
  case (2 v e)
  then show ?case by (simp add: undeleted_def)
qed

lemma keeps_undeleted:
  assumes "mongo_spec bad E"
  shows "keeps (undeleted w) (Companies_DeleteCompanyParticipation E i ev)"
  unfolding Companies_DeleteCompanyParticipation_def Companies_DeleteCompanyThread_def
  by (intro keeps_rules keeps_undeleted_update [OF assms]) simp_all

text \<open>
  What the deletion keeps on its way to the sessions: the company \<open>i\<close> is stored, with its participations in the events
  \<open>evs\<close> and no thread twice in one of them; the participation in \<open>ev\<close> still names the threads \<open>ts\<close>.
\<close>

definition held :: "world \<Rightarrow> oid \<Rightarrow> int \<Rightarrow> int list \<Rightarrow> oid list \<Rightarrow> world \<Rightarrow> bool" where
  "held w i ev evs ts v \<longleftrightarrow> undeleted w v \<and> (\<exists>c \<in> set (w_companies v). co_ID c = i \<and>
     map cp_Event (co_Participations c) = evs \<and> (\<forall>p \<in> set (co_Participations c). distinct (cp_Communications p)) \<and>
     (\<forall>p \<in> set (co_Participations c). cp_Event p = ev \<longrightarrow> set ts \<subseteq> set (cp_Communications p)))"

definition forget_company_thread :: "oid \<Rightarrow> company \<Rightarrow> company" where
  "forget_company_thread t c = c\<lparr>co_Participations := positional (has_thread t)
     (\<lambda>p. p\<lparr>cp_Communications := pull (\<lambda>x. x = t) (cp_Communications p)\<rparr>) (co_Participations c)\<rparr>"

lemma forget_company_thread [simp]:
  "co_ID (forget_company_thread t c) = co_ID c"
  "map cp_Event (co_Participations (forget_company_thread t c)) = map cp_Event (co_Participations c)"
  by (simp_all add: forget_company_thread_def map_positional)

lemma forget_company_thread_parts:
  "q \<in> set (co_Participations (forget_company_thread t c)) \<Longrightarrow> \<exists>p \<in> set (co_Participations c).
     cp_Event q = cp_Event p \<and> cp_Communications q \<in> {cp_Communications p, pull (\<lambda>x. x = t) (cp_Communications p)}"
  unfolding forget_company_thread_def by (auto dest!: set_positional)

lemma held_forget:
  assumes "held w i ev evs (t # ts) v" and "t \<notin> set ts"
    and "replaces (\<lambda>c. \<exists>p \<in> set (co_Participations c). has_thread t p) (forget_company_thread t) (w_companies v) y ds"
  shows "held w i ev evs ts (v\<lparr>w_companies := ds\<rparr>)"
proof -
  from assms(1) obtain c where un: "undeleted w v" and c: "c \<in> set (w_companies v)" "co_ID c = i"
      "map cp_Event (co_Participations c) = evs" "\<forall>p \<in> set (co_Participations c). distinct (cp_Communications p)"
      "\<forall>p \<in> set (co_Participations c). cp_Event p = ev \<longrightarrow> set (t # ts) \<subseteq> set (cp_Communications p)"
    unfolding held_def by blast
  have "map co_ID ds = map co_ID (w_companies v)" by (rule replaces_map [OF assms(3)]) simp
  then have un': "undeleted w (v\<lparr>w_companies := ds\<rparr>)" using un by (simp add: undeleted_def)
  from assms(3) c(1) have "c \<in> set ds \<or> forget_company_thread t c \<in> set ds" by (auto simp: replaces_def)
  then show ?thesis
  proof
    assume "c \<in> set ds"
    with un' c show ?thesis unfolding held_def by (intro conjI bexI [of _ c]) auto
  next
    assume *: "forget_company_thread t c \<in> set ds"
    have "distinct (cp_Communications q) \<and> (cp_Event q = ev \<longrightarrow> set ts \<subseteq> set (cp_Communications q))"
      if "q \<in> set (co_Participations (forget_company_thread t c))" for q
    proof -
      from forget_company_thread_parts [OF that] obtain p where p: "p \<in> set (co_Participations c)" "cp_Event q = cp_Event p"
          "cp_Communications q \<in> {cp_Communications p, pull (\<lambda>x. x = t) (cp_Communications p)}" by blast
      from p(1) c(4,5) have "distinct (cp_Communications p)" "cp_Event p = ev \<longrightarrow> set (t # ts) \<subseteq> set (cp_Communications p)"
        by blast+
      with p(2,3) assms(2) show ?thesis by (auto simp: pull_def)
    qed
    with * un' c show ?thesis
      unfolding held_def by (intro conjI bexI [of _ "forget_company_thread t c"]) auto
  qed
qed

lemma held_none: "held w i ev evs [] v \<longleftrightarrow> held w i ev' evs [] v"
  by (simp add: held_def)

lemma undeleted_tick [simp]: "undeleted w (tickw v) = undeleted w v"
  by (simp add: undeleted_def)

lemma held_tick [simp]: "held w i ev evs ts (tickw v) = held w i ev evs ts v"
  by (simp add: held_def undeleted_def)

lemma held_company:
  assumes up: "distinct (map co_ID (w_companies w))"
    and "held w i ev evs ts v" and "c \<in> set (w_companies v)" and "co_ID c = i"
  shows "map cp_Event (co_Participations c) = evs" "\<forall>p \<in> set (co_Participations c). distinct (cp_Communications p)"
    "\<forall>p \<in> set (co_Participations c). cp_Event p = ev \<longrightarrow> set ts \<subseteq> set (cp_Communications p)"
proof -
  from assms(2) obtain d where d: "d \<in> set (w_companies v)" "co_ID d = i" "map cp_Event (co_Participations d) = evs"
      "\<forall>p \<in> set (co_Participations d). distinct (cp_Communications p)"
      "\<forall>p \<in> set (co_Participations d). cp_Event p = ev \<longrightarrow> set ts \<subseteq> set (cp_Communications p)"
    unfolding held_def by blast
  have "distinct (map co_ID (w_companies v))" using assms(2) up by (simp add: held_def undeleted_def)
  with assms(3,4) d(1,2) have "d = c" by (auto simp: distinct_map dest: inj_onD)
  with d show "map cp_Event (co_Participations c) = evs"
      "\<forall>p \<in> set (co_Participations c). distinct (cp_Communications p)"
      "\<forall>p \<in> set (co_Participations c). cp_Event p = ev \<longrightarrow> set ts \<subseteq> set (cp_Communications p)" by simp_all
qed

lemma wp_get_held:
  assumes up: "mongo_spec bad E" "\<And>e. \<not> bad e"
    and "held w i ev evs ts v"
    and "\<And>c. c \<in> set (w_companies v) \<Longrightarrow> co_ID c = i \<Longrightarrow> Q c (tickw v)"
  shows "wp (Companies_GetCompany E i) Q R v"
  unfolding Companies_GetCompany_def
  by (rule wp_FindOne [OF mongo_drv(1) [OF up(1)]]) (use assms up(2) in \<open>auto simp: held_def\<close>)

lemma wp_forget:
  assumes up: "mongo_spec bad E" "\<And>e. \<not> bad e" "distinct (map co_ID (w_companies w))"
    and held: "held w i ev evs (t # ts) v" and "t \<notin> set ts" and "ev \<in> set evs"
  shows "wp (Companies_DeleteCompanyThread E i t) (\<lambda>_. held w i ev evs ts) (\<lambda>_ _. False) v"
  unfolding Companies_DeleteCompanyThread_def forget_company_thread_def [symmetric] wp_bindE
proof (rule wp_get_held [OF up(1,2) held], rule wp_FindOneAndUpdate [OF mongo_drv(1) [OF up(1)]], goal_cases)
  case (1 c y ds)
  have "held w i ev evs (t # ts) (tickw (tickw v))" using held by simp
  from held_forget [OF this assms(5)] 1(3) show ?case by (simp add: forget_company_thread_def)
next
  case (2 c e)
  note c = held_company [OF up(3) held 2(1,2)]
  from c(1) assms(6) obtain p where "p \<in> set (co_Participations c)" "cp_Event p = ev" by auto
  with c(3) have "\<exists>p \<in> set (co_Participations c). has_thread t p" by (auto simp: has_thread_def)
  with 2 up(2) show ?case by auto
qed

lemma wp_forget_all:
  assumes up: "mongo_spec bad E" "\<And>e. \<not> bad e" "distinct (map co_ID (w_companies w))"
  shows "held w i ev evs (ts @ rest) v \<Longrightarrow> distinct (ts @ rest) \<Longrightarrow> ev \<in> set evs \<Longrightarrow>
   wp (forE ts (\<lambda>t. bindE (Companies_DeleteCompanyThread E i t) (\<lambda>_. retE ()))) (\<lambda>_. held w i ev evs rest)
     (\<lambda>_ _. False) v"
proof (induction ts arbitrary: v)
  case (Cons t ts)
  show ?case
    unfolding forE.simps wp_bindE wp_retE
    by (rule wp_mono [OF wp_forget [OF up, of i ev evs t "ts @ rest"]]) (use Cons in auto)
qed simp

text \<open>The threads that the participations in one event name; events are listed once, so they are one participation's.\<close>

definition threads_in :: "int \<Rightarrow> companyParticipation list \<Rightarrow> oid list" where
  "threads_in ev ps = concat (map (\<lambda>p. if cp_Event p = ev then cp_Communications p else []) ps)"

lemma threads_in_Cons: "threads_in ev (p # ps) = (if cp_Event p = ev then cp_Communications p else []) @ threads_in ev ps"
  by (simp add: threads_in_def)

lemma threads_in_none: "ev \<notin> cp_Event ` set ps \<Longrightarrow> threads_in ev ps = []"
  by (auto simp: threads_in_def)

lemma threads_in_one:
  "distinct (map cp_Event ps) \<Longrightarrow> p \<in> set ps \<Longrightarrow> cp_Event p = ev \<Longrightarrow> threads_in ev ps = cp_Communications p"
  by (induction ps) (auto simp: threads_in_Cons threads_in_none image_iff)

lemma distinct_threads_in:
  "distinct (map cp_Event ps) \<Longrightarrow> \<forall>p \<in> set ps. distinct (cp_Communications p) \<Longrightarrow> distinct (threads_in ev ps)"
  by (induction ps) (auto simp: threads_in_Cons threads_in_none image_iff)

lemma wp_forget_event:
  assumes up: "mongo_spec bad E" "\<And>e. \<not> bad e" "distinct (map co_ID (w_companies w))"
  shows "held w i ev evs (threads_in ev ps) v \<Longrightarrow> distinct (map cp_Event ps) \<Longrightarrow>
    \<forall>p \<in> set ps. distinct (cp_Communications p) \<Longrightarrow> cp_Event ` set ps \<subseteq> set evs \<Longrightarrow>
    wp (forE ps (\<lambda>p. if cp_Event p = ev then
        forE (cp_Communications p) (\<lambda>t. bindE (Companies_DeleteCompanyThread E i t) (\<lambda>_. retE ()))
      else retE ())) (\<lambda>_. held w i ev evs []) (\<lambda>_ _. False) v"
proof (induction ps arbitrary: v)
  case Nil
  then show ?case by (simp add: threads_in_def)
next
  case (Cons p ps)
  show ?case
  proof (cases "cp_Event p = ev")
    case True
    have "distinct (cp_Communications p @ threads_in ev ps)"
      using distinct_threads_in [OF Cons.prems(2,3), of ev] True by (simp add: threads_in_Cons)
    with Cons True show ?thesis
      by (simp add: threads_in_Cons) (rule wp_mono [OF wp_forget_all [OF up, of i ev evs "cp_Communications p" "threads_in ev ps"]], auto)
  next
    case False
    with Cons show ?thesis by (simp add: threads_in_Cons)
  qed
qed

lemma wp_leave_event:
  assumes up: "mongo_spec bad E" "\<And>e. \<not> bad e" "distinct (map co_ID (w_companies w))"
    and held: "held w i ev evs [] v" and "distinct evs"
  shows "wp (Companies_DeleteCompanyParticipation E i ev) (\<lambda>_. held w i ev (filter (\<lambda>x. x \<noteq> ev) evs) []) (\<lambda>_ _. False) v"
  unfolding Companies_DeleteCompanyParticipation_def wp_bindE
proof (rule wp_get_held [OF up(1,2) held], goal_cases)
  case (1 c)
  note c = held_company [OF up(3) held 1]
  from held 1 c have A: "held w i ev evs (threads_in ev (co_Participations c)) (tickw v)"
    unfolding held_tick held_def using threads_in_one [of "co_Participations c" _ ev] assms(5)
    by (intro conjI bexI [of _ c]) auto
  have B: "distinct (map cp_Event (co_Participations c))" "cp_Event ` set (co_Participations c) \<subseteq> set evs"
    using c(1) assms(5) by auto
  show ?case
  proof (rule wp_mono [OF wp_forget_event [OF up A B(1) c(2) B(2)]], goal_cases)
    case (1 u v')
    note v' = 1
    show ?case
    proof (rule wp_FindOneAndUpdate [OF mongo_drv(1) [OF up(1)]], goal_cases)
      case (1 y ds)
      let ?u = "\<lambda>c. c\<lparr>co_Participations := pull (\<lambda>p. cp_Event p = ev) (co_Participations c)\<rparr>"
      have "map co_ID ds = map co_ID (w_companies v')"
        using replaces_map [OF 1, of co_ID] by simp
      then have un: "undeleted w (v'\<lparr>w_companies := ds\<rparr>)" using v' by (simp add: undeleted_def held_def)
      from replaces_set [OF 1] obtain d where d: "d \<in> set (w_companies v')" "co_ID d = i" "?u d \<in> set ds" by auto
      note dd = held_company [OF up(3) v' d(1,2)]
      have "map cp_Event (co_Participations (?u d)) = filter (\<lambda>x. x \<noteq> ev) evs"
        using dd(1) by (auto simp: pull_def filter_map o_def)
      moreover have "\<forall>p \<in> set (co_Participations (?u d)). distinct (cp_Communications p)"
        using dd(2) by (auto simp: pull_def)
      ultimately have "held w i ev (filter (\<lambda>x. x \<noteq> ev) evs) [] (v'\<lparr>w_companies := ds\<rparr>)"
        using un d(2,3) unfolding held_def by (intro conjI bexI [of _ "?u d"]) auto
      with held_tick [of w i ev "filter (\<lambda>x. x \<noteq> ev) evs" "[]" "v'\<lparr>w_companies := ds\<rparr>"] show ?case by simp
    next
      case (2 e)
      with v' up(2) show ?case by (auto simp: held_def)
    qed
  qed simp_all
qed

lemma wp_leave_events:
  assumes up: "mongo_spec bad E" "\<And>e. \<not> bad e" "distinct (map co_ID (w_companies w))"
  shows "held w i ev evs [] v \<Longrightarrow> distinct evs \<Longrightarrow>
    wp (forE ps (\<lambda>p. bindE (Companies_DeleteCompanyParticipation E i (cp_Event p)) (\<lambda>_. retE ())))
      (\<lambda>_. held w i ev (filter (\<lambda>x. x \<notin> cp_Event ` set ps) evs) []) (\<lambda>_ _. False) v"
proof (induction ps arbitrary: v evs)
  case (Cons p ps)
  have "held w i (cp_Event p) evs [] v" using Cons.prems(1) held_none by blast
  from wp_leave_event [OF up this Cons.prems(2)] show ?case
    unfolding forE.simps wp_bindE wp_retE
  proof (rule wp_mono, goal_cases)
    case (1 u v')
    then have "held w i ev (filter (\<lambda>x. x \<noteq> cp_Event p) evs) [] v'" using held_none by blast
    from wp_mono [OF Cons.IH [OF this]] Cons.prems(2) show ?case
      by (simp add: conj_commute)
  qed simp
qed simp

text \<open>
  C11: when the current event lists a session that has no company, such as every talk, no company can be
  deleted. With a database that answers, \<open>DeleteCompany\<close> of a stored company first deletes all the company's
  participations, then searches the sessions of the company and panics there, on the nil pointer of the session
  without one. So it never answers, not even with an error: the company is still stored afterwards, but without
  its participations, and every session is still there. A thread is taken to be named once by a participation.
\<close>

theorem DeleteCompany_never_returns:
  assumes "mongo_spec bad E" and "\<And>e. \<not> bad e" and "company_inv w" and "distinct (map se_ID (w_sessions w))"
    and "c \<in> set (w_companies w)" and "\<And>p. p \<in> set (co_Participations c) \<Longrightarrow> distinct (cp_Communications p)"
    and "w_events w \<noteq> []"
    and "\<And>cur. is_current (w_events w) cur \<Longrightarrow>
      \<exists>s \<in> listed_sessions w (ev_Sessions cur). se_Company s = None"
  shows "wp (Companies_DeleteCompany E (co_ID c)) (\<lambda>y w'. False)
     (\<lambda>e w'. e = Panic ''nil pointer dereference'' \<and> map co_ID (w_companies w') = map co_ID (w_companies w) \<and>
        (\<exists>c' \<in> set (w_companies w'). co_ID c' = co_ID c \<and> co_Participations c' = []) \<and>
        w_sessions w' = w_sessions w \<and> w_events w' = w_events w) w"
proof -
  have ids: "distinct (map co_ID (w_companies w))" and evs: "distinct (map cp_Event (co_Participations c))"
    using assms(3,5) by (auto simp: company_inv_def)
  note up = assms(1,2) ids
  let ?i = "co_ID c" and ?evs = "map cp_Event (co_Participations c)"
  have held: "held w ?i 0 ?evs [] w"
    using assms(5,6) by (auto simp: held_def undeleted_def)
  show ?thesis
    unfolding Companies_DeleteCompany_def wp_bindE
  proof (rule wp_get_held [OF assms(1,2) held], goal_cases)
    case (1 d)
    have "held w ?i 0 ?evs [] (tickw w)" using held by simp
    from wp_leave_events [OF up this evs, of "co_Participations d"] show ?case
    proof (rule wp_mono, goal_cases)
      case (1 u v)
      have "filter (\<lambda>x. x \<notin> cp_Event ` set (co_Participations d)) ?evs = []"
        using arg_cong [OF held_company(1) [OF ids held \<open>d \<in> set (w_companies w)\<close> \<open>co_ID d = ?i\<close>], of set]
        by (simp add: filter_empty_conv image_iff)
      with 1 have v: "undeleted w v" "\<exists>c' \<in> set (w_companies v). co_ID c' = ?i \<and> co_Participations c' = []"
        by (auto simp: held_def)
      then have listed: "listed_sessions v = listed_sessions w" and same: "w_sessions v = w_sessions w" "w_events v = w_events w"
        "map co_ID (w_companies v) = map co_ID (w_companies w)"
        by (simp_all add: listed_sessions_def fun_eq_iff undeleted_def)
      show ?case
      proof (rule wp_mono [OF GetSessions_of_company [OF assms(1)]], goal_cases)
        case (1 ss v')
        then show ?case using assms(2,4,8) by (fastforce simp: listed same)
      next
        case (2 e v')
        then show ?case
          using v(2) assms(2,7) same contents_eqD(1,3,14) [of v' "contents v"] by auto
      qed
    qed simp
  qed
qed

theorem DeleteCompany_never_returns_witness:
  "wp (Companies_DeleteCompany local_env (co_ID (sample_company Accepted))) (\<lambda>y w'. False)
     (\<lambda>e w'. e = Panic ''nil pointer dereference'' \<and> map co_ID (w_companies w') = [4] \<and>
        (\<exists>c' \<in> set (w_companies w'). co_Participations c' = []) \<and> w_sessions w' = [talk_session])
     ((sample_world Accepted)\<lparr>w_events := [talk_event], w_sessions := [talk_session]\<rparr>)"
  by (rule wp_mono [OF DeleteCompany_never_returns [OF local_env_up]])
    (auto simp: talk_event_def talk_session_def session_of_def sample_session_def listed_sessions_def
      is_current_def company_inv_def new_participation_def)

section \<open>The remaining updates\<close>

text \<open>
  C12: the updates of a company. Each of them looks up the current event and changes the named company's
  participation in that event and nothing else (the first participation in it, which by the
  invariant is the only one), answers the changed company, empties the cached public page where the page
  shows what changed, and fails without a change when the company does not take part, no event is
  stored or the database fails. The other updates change the named company, under the same contract.
\<close>

theorem company_updates_refine:
  assumes "mongo_spec bad E"
  shows "company_update bad E i (\<lambda>p. p\<lparr>cp_Subscribers := addToSet m (cp_Subscribers p)\<rparr>) (\<lambda>w. w)
      (Companies_Subscribe E i m)
    \<and> company_update bad E i (\<lambda>p. p\<lparr>cp_Subscribers := pull (\<lambda>x. x = m) (cp_Subscribers p)\<rparr>)
      (\<lambda>w. w) (Companies_Unsubscribe E i m)
    \<and> company_update bad E i (\<lambda>p. p\<lparr>cp_Communications := addToSet t (cp_Communications p)\<rparr>)
      (\<lambda>w. w) (Companies_AddThread E i t)
    \<and> company_update bad E i (\<lambda>p. p\<lparr>cp_GmailThreadIds := gs\<rparr>) (\<lambda>w. w)
      (Companies_UpdateCompanyGmailThreadIds E i gs)
    \<and> company_update bad E i (\<lambda>p. p\<lparr>cp_Status := st\<rparr>)
      (\<lambda>w. w\<lparr>currentPublicCompanies := None\<rparr>) (Companies_UpdateCompanyParticipationStatus E i st)
    \<and> company_update bad E i (\<lambda>p. p\<lparr>cp_Package := Some pk\<rparr>)
      (\<lambda>w. w\<lparr>currentPublicCompanies := None\<rparr>) (Companies_UpdatePackage E i pk)
    \<and> keyed_update bad contents (Companies E) co_ID i (\<lambda>_. True) (set_company_fields d)
      (\<lambda>w. w\<lparr>currentPublicCompanies := None\<rparr>) (Companies_UpdateCompany E i d)
    \<and> keyed_update bad contents (Companies E) co_ID i
      (\<lambda>c. ev \<in> cp_Event ` set (co_Participations c))
      (on_parts (positional (\<lambda>p. cp_Event p = ev) (\<lambda>p. p\<lparr>cp_Billing := Some b\<rparr>)))
      (\<lambda>w. w\<lparr>currentPublicCompanies := None\<rparr>) (Companies_UpdateBilling E i b ev)"
  by (intro conjI company_updates keyed_company_updates assms)

theorem company_updates_refine_witness:
  "wp (Companies_UpdatePackage local_env 4 6)
     (\<lambda>c w'. map cp_Package (co_Participations c) = [Some 6] \<and> currentPublicCompanies w' = None)
     (\<lambda>e w'. e = ErrNoDocuments \<or> w_events w' = [new_event 1 ''e'']) (sample_world Accepted)"
proof -
  note upd = company_updates_refine [OF local_env_up, THEN conjunct2, THEN conjunct2, THEN conjunct2,
      THEN conjunct2, THEN conjunct2, THEN conjunct1]
  show ?thesis
    by (rule wp_updates_participation [OF upd])
      (auto simp: lookup_def on_parts_def new_participation_def dest: contents_eqD(3,21))
qed

end
