(* ===== verification/Speakers.thy ===== *)
theory Speakers
  imports Contacts Sessions Paging Participations
begin

text \<open>
  \<^verbatim>\<open>backend/src/mongodb/speaker.go\<close>: the speakers, their participations in the events (with flights and
  a room) and what the public pages show of them. The queries by participation are read as in theory
  Companies.
\<close>

definition ResetCurrentPublicSpeakers :: "(world, unit) smonad" where
  "ResetCurrentPublicSpeakers = modifyE (\<lambda>w. w\<lparr>currentPublicSpeakers := None\<rparr>)"

section \<open>The public view\<close>

text \<open>
  The loop of \<open>speakerToPublic\<close>. As in \<open>companyToPublic\<close>, \<open>participation\<close> keeps its value from turn
  to turn; here it is \<open>participation\<close> itself, not the one of this turn, that is appended. As there, the address that
  the message of the error ends with is left out.
\<close>

fun speakerToPublic_loop ::
  "int option \<Rightarrow> speakerParticipation list \<Rightarrow> speakerParticipation option \<Rightarrow>
   speakerParticipationPublic list \<Rightarrow> err + speakerParticipationPublic list" where
  "speakerToPublic_loop eventID [] participation public = Inr public"
| "speakerToPublic_loop eventID (p # ps) participation public =
     (case (if eventID = None \<and> sp_Status p = Announced then Inr (Some p)
            else if eventID \<noteq> None then
              (if eventID = Some (sp_Event p) then
                 (if sp_Status p \<noteq> Announced then Inl (Err ''speaker not announced on event'')
                  else Inr (Some p))
               else Inr participation)
            else Inr participation) of
       Inl e \<Rightarrow> Inl e
     | Inr None \<Rightarrow> speakerToPublic_loop eventID ps None public
     | Inr (Some q) \<Rightarrow> speakerToPublic_loop eventID ps (Some q)
         (public @ [\<lparr>spp_Event = sp_Event q, spp_Feedback = sp_Feedback q\<rparr>]))"

definition speakerToPublic :: "speaker \<Rightarrow> int option \<Rightarrow> err + speakerPublic" where
  "speakerToPublic speaker eventID =
     (case speakerToPublic_loop eventID (s_Participations speaker) None [] of
        Inl e \<Rightarrow> Inl e
      | Inr ps \<Rightarrow> Inr
          \<lparr>sp_pub_ID = s_ID speaker, sp_pub_Name = s_Name speaker, sp_pub_Title = s_Title speaker,
           sp_pub_Bio = s_Bio speaker, sp_pub_CompanyName = s_CompanyName speaker,
           sp_pub_Images = \<lparr>simp_Speaker = sim_Speaker (s_Images speaker),
             simp_Company = sim_Company (s_Images speaker)\<rparr>,
           sp_pub_Participations = ps\<rparr>)"

section \<open>Creating and reading\<close>

record CreateSpeakerData =
  cspd_Name :: "string option"
  cspd_Title :: "string option"
  cspd_Bio :: "string option"
  cspd_CompanyName :: "string option"
  cspd_Contact :: "contact option"

definition CreateSpeakerData_ParseBody :: "err + CreateSpeakerData \<Rightarrow> err + CreateSpeakerData" where
  "CreateSpeakerData_ParseBody body = (case body of
     Inl e \<Rightarrow> Inl e
   | Inr cpd \<Rightarrow>
       if (case cspd_Name cpd of None \<Rightarrow> True | Some n \<Rightarrow> length n = 0)
       then Inl (Err ''invalid name'')
       else if cspd_Title cpd = None then Inl (Err ''invalid title'')
       else if cspd_Bio cpd = None then Inl (Err ''invalid bio'')
       else (case cspd_Contact cpd of
          None \<Rightarrow> Inr cpd
        | Some c \<Rightarrow>
            if has_empty_phone (ct_Phones c) then Inl (Err ''Invalid phone number'')
            else if has_empty_mail (ct_Mails c) then Inl (Err ''Invalid mail'')
            else Inr cpd))"

definition speaker_contact :: "CreateSpeakerData \<Rightarrow> oid \<Rightarrow> contact" where
  "speaker_contact data i = (case cspd_Contact data of
     None \<Rightarrow> \<lparr>ct_ID = i, ct_Gender = [], ct_Language = [], ct_Phones = [], ct_Socials = zero_socials,
       ct_Mails = []\<rparr>
   | Some c \<Rightarrow> \<lparr>ct_ID = i, ct_Gender = [], ct_Language = [], ct_Phones = ct_Phones c,
       ct_Socials = formatContactSocials (ct_Socials c), ct_Mails = ct_Mails c\<rparr>)"

definition speaker_of :: "CreateSpeakerData \<Rightarrow> oid \<Rightarrow> oid \<Rightarrow> speaker" where
  "speaker_of data contact i =
     \<lparr>s_ID = i, s_Name = string_of (cspd_Name data), s_Contact = Some contact,
      s_ContactObject = None, s_Title = string_of (cspd_Title data),
      s_Bio = string_of (cspd_Bio data), s_CompanyName = string_of (cspd_CompanyName data),
      s_Notes = [], s_Images = zero_speakerImages, s_Participations = []\<rparr>"

definition Speakers_CreateSpeaker :: "env \<Rightarrow> CreateSpeakerData \<Rightarrow> (world, speaker) smonad" where
  "Speakers_CreateSpeaker E data =
     bindE (InsertOne (Contacts E) (speaker_contact data)) (\<lambda>createdContact.
     bindE (InsertOne (Speakers E) (speaker_of data createdContact)) (\<lambda>insertedID.
     bindE (Speakers_GetSpeaker E insertedID) (\<lambda>newSpeaker.
     bindE ResetCurrentPublicSpeakers (\<lambda>_.
     retE newSpeaker))))"

record GetSpeakersOptions =
  gspo_EventID :: "int option"
  gspo_MemberID :: "oid option"
  gspo_Name :: "string option"
  gspo_NumRequests :: "int option"
  gspo_MaxSpeaksInRequest :: "int option"
  gspo_SortingMethod :: "string option"

definition speakers_filter :: "env \<Rightarrow> GetSpeakersOptions \<Rightarrow> speaker \<Rightarrow> bool" where
  "speakers_filter E options s \<longleftrightarrow>
     (gspo_EventID options \<noteq> None \<or> gspo_MemberID options \<noteq> None \<longrightarrow>
        (\<exists>p \<in> set (s_Participations s).
          (case gspo_EventID options of None \<Rightarrow> True | Some e \<Rightarrow> sp_Event p = e) \<and>
          (case gspo_MemberID options of None \<Rightarrow> True | Some m \<Rightarrow> sp_Member p = m))) \<and>
     (case gspo_Name options of None \<Rightarrow> True
      | Some n \<Rightarrow> env_regex_i E (''.*'' @ n @ ''.*'') (s_Name s))"

definition announced_speeches :: "speaker \<Rightarrow> speakerParticipation list" where
  "announced_speeches s = filter (\<lambda>p. sp_Status p = Announced) (s_Participations s)"

definition num_speeches :: "speaker \<Rightarrow> int" where
  "num_speeches s = int (length (announced_speeches s))"

definition last_speech :: "speaker \<Rightarrow> int option" where
  "last_speech s = largest (map sp_Event (announced_speeches s))"

definition Speakers_GetSpeakers ::
  "env \<Rightarrow> GetSpeakersOptions \<Rightarrow> (world, speaker list) smonad" where
  "Speakers_GetSpeakers E options =
     (case gspo_SortingMethod options of
        None \<Rightarrow>
          bindE (case gspo_NumRequests options of
              None \<Rightarrow> retE 0
            | Some n \<Rightarrow> bindE (deref (gspo_MaxSpeaksInRequest options)) (\<lambda>m. retE (int64 (n * m)))) (\<lambda>skip.
          find_page (Speakers E) (speakers_filter E options) skip
            (case gspo_MaxSpeaksInRequest options of None \<Rightarrow> 0 | Some m \<Rightarrow> m))
      | Some method \<Rightarrow>
          if method = ''NUM_PARTICIPATIONS'' then
            bindE (deref (gspo_NumRequests options)) (\<lambda>n.
            bindE (deref (gspo_MaxSpeaksInRequest options)) (\<lambda>m.
            aggregate_page (Speakers E) (speakers_filter E options) num_speeches (int64 (n * m)) m))
          else if method = ''LAST_PARTICIPATION'' then
            bindE (deref (gspo_NumRequests options)) (\<lambda>n.
            bindE (deref (gspo_MaxSpeaksInRequest options)) (\<lambda>m.
            aggregate_page (Speakers E) (speakers_filter E options) last_speech (int64 (n * m)) m))
          else throwE (Err ''error parsing Sorting Method''))"

definition Speakers_GetSpeakersByMembers ::
  "env \<Rightarrow> oid list \<Rightarrow> int option \<Rightarrow> (world, speaker list) smonad" where
  "Speakers_GetSpeakersByMembers E memberIDs eventID =
     Find (Speakers E) (\<lambda>s. case eventID of
        Some ev \<Rightarrow> (\<exists>p \<in> set (s_Participations s). sp_Member p \<in> set memberIDs \<and> sp_Event p = ev)
      | None \<Rightarrow> (\<exists>p \<in> set (s_Participations s). sp_Member p \<in> set memberIDs))"

record GetSpeakersPublicOptions =
  gspp_EventID :: "int option"
  gspp_Name :: "string option"

definition public_speakers_filter ::
  "env \<Rightarrow> int \<Rightarrow> GetSpeakersPublicOptions \<Rightarrow> speaker \<Rightarrow> bool" where
  "public_speakers_filter E eventID options s \<longleftrightarrow>
     eventID \<in> sp_Event ` set (s_Participations s) \<and>
     (case gspp_Name options of None \<Rightarrow> True
      | Some n \<Rightarrow> env_regex_i E (''.*'' @ n @ ''.*'') (s_Name s))"

fun public_speakers :: "int \<Rightarrow> speaker list \<Rightarrow> speakerPublic list" where
  "public_speakers eventID [] = []"
| "public_speakers eventID (s # ss) =
     (case speakerToPublic s (Some eventID) of
        Inl _ \<Rightarrow> public_speakers eventID ss
      | Inr p \<Rightarrow> p # public_speakers eventID ss)"

definition Speakers_GetPublicSpeakers ::
  "env \<Rightarrow> GetSpeakersPublicOptions \<Rightarrow> (world, speakerPublic list) smonad" where
  "Speakers_GetPublicSpeakers E options =
     (let plain = (gspp_EventID options = None \<and> gspp_Name options = None) in
     bindE (getsE currentPublicSpeakers) (\<lambda>cached.
     case (if plain then cached else None) of
       Some public \<Rightarrow> retE public
     | None \<Rightarrow>
     bindE (case gspp_EventID options of
         Some ev \<Rightarrow> retE ev
       | None \<Rightarrow> onErr (Events_GetCurrentEvent E)
           (\<lambda>_. throwE (Err ''error getting the current event''))
           (\<lambda>currentEvent. retE (ev_ID currentEvent))) (\<lambda>eventID.
     bindE (Find (Speakers E) (public_speakers_filter E eventID options)) (\<lambda>ss.
     let public = public_speakers eventID ss in
     bindE (modifyE (\<lambda>w. if plain \<and> currentPublicSpeakers w = None
               then w\<lparr>currentPublicSpeakers := Some public\<rparr> else w)) (\<lambda>_.
     retE public)))))"

definition Speakers_GetSpeakerPublic :: "env \<Rightarrow> oid \<Rightarrow> (world, speakerPublic) smonad" where
  "Speakers_GetSpeakerPublic E speakerID =
     bindE (FindOne (Speakers E) (\<lambda>s. s_ID s = speakerID)) (\<lambda>speaker.
     liftR (speakerToPublic speaker None))"

section \<open>General information and images\<close>

record UpdateSpeakerData =
  uspd_Name :: "string option"
  uspd_Bio :: "string option"
  uspd_Title :: "string option"
  uspd_Notes :: "string option"
  uspd_CompanyName :: "string option"

definition UpdateSpeakerData_ParseBody :: "err + UpdateSpeakerData \<Rightarrow> err + UpdateSpeakerData" where
  "UpdateSpeakerData_ParseBody body = (case body of Inl e \<Rightarrow> Inl e | Inr usd \<Rightarrow> Inr usd)"

definition set_speaker_fields :: "UpdateSpeakerData \<Rightarrow> speaker \<Rightarrow> speaker" where
  "set_speaker_fields data s =
     s\<lparr>s_Name := (case uspd_Name data of None \<Rightarrow> s_Name s | Some n \<Rightarrow> n),
       s_Bio := (case uspd_Bio data of None \<Rightarrow> s_Bio s | Some b \<Rightarrow> b),
       s_Title := (case uspd_Title data of None \<Rightarrow> s_Title s | Some t \<Rightarrow> t),
       s_Notes := (case uspd_Notes data of None \<Rightarrow> s_Notes s | Some n \<Rightarrow> n),
       s_CompanyName := (case uspd_CompanyName data of None \<Rightarrow> s_CompanyName s | Some n \<Rightarrow> n)\<rparr>"

definition Speakers_UpdateSpeaker ::
  "env \<Rightarrow> oid \<Rightarrow> UpdateSpeakerData \<Rightarrow> (world, speaker) smonad" where
  "Speakers_UpdateSpeaker E speakerID data =
     bindE (FindOneAndUpdate (Speakers E) (\<lambda>s. s_ID s = speakerID)
       (set_speaker_fields data)) (\<lambda>updatedSpeaker.
     bindE ResetCurrentPublicSpeakers (\<lambda>_.
     retE updatedSpeaker))"

text \<open>The internal image is not on the public page, and its update resets nothing.\<close>

definition Speakers_UpdateSpeakerInternalImage ::
  "env \<Rightarrow> oid \<Rightarrow> string \<Rightarrow> (world, speaker) smonad" where
  "Speakers_UpdateSpeakerInternalImage E speakerID url =
     FindOneAndUpdate (Speakers E) (\<lambda>s. s_ID s = speakerID)
       (\<lambda>s. s\<lparr>s_Images := (s_Images s)\<lparr>sim_Internal := url\<rparr>\<rparr>)"

definition Speakers_UpdateSpeakerCompanyImage ::
  "env \<Rightarrow> oid \<Rightarrow> string \<Rightarrow> (world, speaker) smonad" where
  "Speakers_UpdateSpeakerCompanyImage E speakerID url =
     bindE (FindOneAndUpdate (Speakers E) (\<lambda>s. s_ID s = speakerID)
       (\<lambda>s. s\<lparr>s_Images := (s_Images s)\<lparr>sim_Company := url\<rparr>\<rparr>)) (\<lambda>updatedSpeaker.
     bindE ResetCurrentPublicSpeakers (\<lambda>_.
     retE updatedSpeaker))"

definition Speakers_UpdateSpeakerPublicImage ::
  "env \<Rightarrow> oid \<Rightarrow> string \<Rightarrow> (world, speaker) smonad" where
  "Speakers_UpdateSpeakerPublicImage E speakerID url =
     bindE (FindOneAndUpdate (Speakers E) (\<lambda>s. s_ID s = speakerID)
       (\<lambda>s. s\<lparr>s_Images := (s_Images s)\<lparr>sim_Speaker := url\<rparr>\<rparr>)) (\<lambda>updatedSpeaker.
     bindE ResetCurrentPublicSpeakers (\<lambda>_.
     retE updatedSpeaker))"

end
