(* ===== verification/SpeakerParticipations.thy ===== *)
theory SpeakerParticipations
  imports Speakers
begin

text \<open>
  \<^verbatim>\<open>backend/src/mongodb/speaker.go\<close>, second half: the operations on a speaker's participation in the
  current event and the deletion of a speaker. Speakers are documents with participations (locale
  \<open>stepping\<close> of theory Participations), as companies are.
\<close>

definition speaks :: "oid \<Rightarrow> int \<Rightarrow> speaker \<Rightarrow> bool" where
  "speaks speakerID event s \<longleftrightarrow> s_ID s = speakerID \<and> event \<in> sp_Event ` set (s_Participations s)"

definition on_speeches ::
  "(speakerParticipation list \<Rightarrow> speakerParticipation list) \<Rightarrow> speaker \<Rightarrow> speaker" where
  "on_speeches g s = s\<lparr>s_Participations := g (s_Participations s)\<rparr>"

definition on_speech ::
  "int \<Rightarrow> (speakerParticipation \<Rightarrow> speakerParticipation) \<Rightarrow> speaker \<Rightarrow> speaker" where
  "on_speech event g = on_speeches (positional (\<lambda>p. sp_Event p = event) g)"

section \<open>The participation in the current event\<close>

definition Speakers_Subscribe :: "env \<Rightarrow> oid \<Rightarrow> oid \<Rightarrow> (world, speaker) smonad" where
  "Speakers_Subscribe E speakerID memberID =
     bindE (Events_GetCurrentEvent E) (\<lambda>currentEvent.
     FindOneAndUpdate (Speakers E) (speaks speakerID (ev_ID currentEvent))
       (on_speech (ev_ID currentEvent)
         (\<lambda>p. p\<lparr>sp_Subscribers := addToSet memberID (sp_Subscribers p)\<rparr>)))"

definition Speakers_Unsubscribe :: "env \<Rightarrow> oid \<Rightarrow> oid \<Rightarrow> (world, speaker) smonad" where
  "Speakers_Unsubscribe E speakerID memberID =
     bindE (Events_GetCurrentEvent E) (\<lambda>currentEvent.
     FindOneAndUpdate (Speakers E) (speaks speakerID (ev_ID currentEvent))
       (on_speech (ev_ID currentEvent)
         (\<lambda>p. p\<lparr>sp_Subscribers := pull (\<lambda>m. m = memberID) (sp_Subscribers p)\<rparr>)))"

definition new_speech :: "int \<Rightarrow> oid \<Rightarrow> speakerParticipation" where
  "new_speech event member =
     \<lparr>sp_Event = event, sp_Member = member, sp_Status = Suggested, sp_Communications = [],
      sp_Subscribers = [member], sp_Feedback = [], sp_Flights = [], sp_Room = zero_room,
      sp_GmailThreadIds = []\<rparr>"

definition Speakers_AddParticipation :: "env \<Rightarrow> oid \<Rightarrow> oid \<Rightarrow> (world, speaker) smonad" where
  "Speakers_AddParticipation E speakerID memberID =
     bindE (Events_GetCurrentEvent E) (\<lambda>currentEvent.
     bindE (getsE w_tick) (\<lambda>t.
     bindE (FindOneAndUpdate (Speakers E)
       (\<lambda>s. s_ID s = speakerID \<and> ev_ID currentEvent \<notin> sp_Event ` set (s_Participations s))
       (\<lambda>s. s\<lparr>s_Participations := addToSetDoc (env_sameDoc E t)
          (new_speech (ev_ID currentEvent) memberID) (s_Participations s)\<rparr>)) (\<lambda>updatedSpeaker.
     bindE ResetCurrentPublicSpeakers (\<lambda>_.
     retE updatedSpeaker))))"

record UpdateSpeakerParticipationData =
  uspp_Member :: "oid option"
  uspp_Feedback :: "string option"
  uspp_Room :: "speakerParticipationRoom option"

definition UpdateSpeakerParticipationData_ParseBody ::
  "env \<Rightarrow> err + UpdateSpeakerParticipationData \<Rightarrow> (world, UpdateSpeakerParticipationData) smonad"
  where
  "UpdateSpeakerParticipationData_ParseBody E body =
     bindE (liftR body) (\<lambda>uspd. case uspp_Member uspd of
       None \<Rightarrow> throwE (Err ''invalid member ID'')
     | Some member \<Rightarrow>
         if uspp_Feedback uspd = None then throwE (Err ''missing feedback'')
         else (case uspp_Room uspd of
            None \<Rightarrow> throwE (Err ''missing room data'')
          | Some room \<Rightarrow>
              if spr_Cost room < 0 then throwE (Err ''invalid room cost value'')
              else onErr (Members_GetMember E member) (\<lambda>_. throwE (Err ''invalid member ID''))
                (\<lambda>_. retE uspd)))"

definition Speakers_UpdateSpeakerParticipation ::
  "env \<Rightarrow> oid \<Rightarrow> UpdateSpeakerParticipationData \<Rightarrow> (world, speaker) smonad" where
  "Speakers_UpdateSpeakerParticipation E speakerID data =
     bindE (Events_GetCurrentEvent E) (\<lambda>currentEvent.
     bindE (deref (uspp_Member data)) (\<lambda>member.
     bindE (deref (uspp_Feedback data)) (\<lambda>feedback.
     bindE (deref (uspp_Room data)) (\<lambda>room.
     bindE (FindOneAndUpdate (Speakers E) (speaks speakerID (ev_ID currentEvent))
       (on_speech (ev_ID currentEvent) (\<lambda>p. p\<lparr>sp_Member := member, sp_Feedback := feedback,
          sp_Room := \<lparr>spr_Type = spr_Type room, spr_Cost = spr_Cost room, spr_Notes = spr_Notes room\<rparr>\<rparr>)))
       (\<lambda>updatedSpeaker.
     bindE ResetCurrentPublicSpeakers (\<lambda>_.
     retE updatedSpeaker))))))"

fun first_speech ::
  "int \<Rightarrow> speakerParticipation list \<Rightarrow> speakerParticipation option" where
  "first_speech event [] = None"
| "first_speech event (p # ps) = (if sp_Event p \<noteq> event then first_speech event ps else Some p)"

text \<open>The cached page is reset on the way out only when no participation was found.\<close>

definition Speakers_StepStatus :: "env \<Rightarrow> oid \<Rightarrow> int \<Rightarrow> (world, speaker) smonad" where
  "Speakers_StepStatus E speakerID step =
     bindE (Speakers_GetSpeaker E speakerID) (\<lambda>speaker.
     bindE (Events_GetCurrentEvent E) (\<lambda>currentEvent.
     case first_speech (ev_ID currentEvent) (s_Participations speaker) of
       None \<Rightarrow> bindE ResetCurrentPublicSpeakers (\<lambda>_.
         throwE (Err ''speaker without participation on the current event''))
     | Some p \<Rightarrow>
         bindE (liftR (ParticipationStatus_Next (sp_Status p) step)) (\<lambda>status.
         FindOneAndUpdate (Speakers E) (speaks speakerID (ev_ID currentEvent))
           (on_speech (ev_ID currentEvent) (\<lambda>p. p\<lparr>sp_Status := status\<rparr>)))))"

definition Speakers_GetSpeakerParticipationStatusValidSteps ::
  "env \<Rightarrow> oid \<Rightarrow> (world, validStep list) smonad" where
  "Speakers_GetSpeakerParticipationStatusValidSteps E speakerID =
     bindE (Speakers_GetSpeaker E speakerID) (\<lambda>speaker.
     bindE (Events_GetCurrentEvent E) (\<lambda>currentEvent.
     case first_speech (ev_ID currentEvent) (s_Participations speaker) of
       None \<Rightarrow> throwE (Err ''No participation found'')
     | Some p \<Rightarrow> retE (ParticipationStatus_ValidSteps (sp_Status p))))"

definition Speakers_UpdateSpeakerGmailThreadIds ::
  "env \<Rightarrow> oid \<Rightarrow> string list \<Rightarrow> (world, speaker) smonad" where
  "Speakers_UpdateSpeakerGmailThreadIds E speakerID gmailThreadIds =
     bindE (Events_GetCurrentEvent E) (\<lambda>currentEvent.
     FindOneAndUpdate (Speakers E) (speaks speakerID (ev_ID currentEvent))
       (on_speech (ev_ID currentEvent) (\<lambda>p. p\<lparr>sp_GmailThreadIds := gmailThreadIds\<rparr>)))"

definition Speakers_UpdateSpeakerParticipationStatus ::
  "env \<Rightarrow> oid \<Rightarrow> participationStatus \<Rightarrow> (world, speaker) smonad" where
  "Speakers_UpdateSpeakerParticipationStatus E speakerID status =
     bindE (Events_GetCurrentEvent E) (\<lambda>currentEvent.
     bindE (FindOneAndUpdate (Speakers E) (speaks speakerID (ev_ID currentEvent))
       (on_speech (ev_ID currentEvent) (\<lambda>p. p\<lparr>sp_Status := status\<rparr>))) (\<lambda>updatedSpeaker.
     bindE ResetCurrentPublicSpeakers (\<lambda>_.
     retE updatedSpeaker)))"

section \<open>Threads and flights\<close>

definition in_thread :: "oid \<Rightarrow> speakerParticipation \<Rightarrow> bool" where
  "in_thread threadID p \<longleftrightarrow> threadID \<in> set (sp_Communications p)"

text \<open>
  The query of the update does not ask for the speaker: only the thread is in it. As for companies it reaches through
  two arrays, and \<open>$\<close> is taken to stand for the first participation that has the thread.
\<close>

definition Speakers_DeleteSpeakerThread :: "env \<Rightarrow> oid \<Rightarrow> oid \<Rightarrow> (world, speaker) smonad" where
  "Speakers_DeleteSpeakerThread E i threadID =
     bindE (Speakers_GetSpeaker E i) (\<lambda>_.
     FindOneAndUpdate (Speakers E) (\<lambda>s. \<exists>p \<in> set (s_Participations s). in_thread threadID p)
       (on_speeches (positional (in_thread threadID)
          (\<lambda>p. p\<lparr>sp_Communications := pull (\<lambda>t. t = threadID) (sp_Communications p)\<rparr>))))"

definition Speakers_AddSpeakerFlightInfo :: "env \<Rightarrow> oid \<Rightarrow> oid \<Rightarrow> (world, speaker) smonad" where
  "Speakers_AddSpeakerFlightInfo E speakerID flight =
     bindE (Events_GetCurrentEvent E) (\<lambda>currentEvent.
     FindOneAndUpdate (Speakers E) (speaks speakerID (ev_ID currentEvent))
       (on_speech (ev_ID currentEvent) (\<lambda>p. p\<lparr>sp_Flights := addToSet flight (sp_Flights p)\<rparr>)))"

definition Speakers_RemoveSpeakerFlightInfo :: "env \<Rightarrow> oid \<Rightarrow> oid \<Rightarrow> (world, speaker) smonad" where
  "Speakers_RemoveSpeakerFlightInfo E speakerID flight =
     bindE (Events_GetCurrentEvent E) (\<lambda>currentEvent.
     FindOneAndUpdate (Speakers E) (speaks speakerID (ev_ID currentEvent))
       (on_speech (ev_ID currentEvent) (\<lambda>p. p\<lparr>sp_Flights := pull (\<lambda>f. f = flight) (sp_Flights p)\<rparr>)))"

definition Speakers_AddThread :: "env \<Rightarrow> oid \<Rightarrow> oid \<Rightarrow> (world, speaker) smonad" where
  "Speakers_AddThread E speakerID threadID =
     bindE (Events_GetCurrentEvent E) (\<lambda>currentEvent.
     FindOneAndUpdate (Speakers E) (speaks speakerID (ev_ID currentEvent))
       (on_speech (ev_ID currentEvent)
         (\<lambda>p. p\<lparr>sp_Communications := addToSet threadID (sp_Communications p)\<rparr>)))"

definition Speakers_RemoveCommunication :: "env \<Rightarrow> oid \<Rightarrow> oid \<Rightarrow> (world, speaker) smonad" where
  "Speakers_RemoveCommunication E speakerID threadID =
     bindE (Events_GetCurrentEvent E) (\<lambda>currentEvent.
     FindOneAndUpdate (Speakers E) (speaks speakerID (ev_ID currentEvent))
       (on_speech (ev_ID currentEvent)
         (\<lambda>p. p\<lparr>sp_Communications := pull (\<lambda>t. t = threadID) (sp_Communications p)\<rparr>)))"

text \<open>The first speaker of the cursor, or nil; the cursor's own error is not looked at.\<close>

definition Speakers_FindThread :: "env \<Rightarrow> oid \<Rightarrow> (world, speaker option) smonad" where
  "Speakers_FindThread E threadID =
     bindE (FindUnchecked (Speakers E)
       (\<lambda>s. \<exists>p \<in> set (s_Participations s). in_thread threadID p)) (\<lambda>ss.
     retE (case ss of [] \<Rightarrow> None | s # _ \<Rightarrow> Some s))"

section \<open>Deletion\<close>

text \<open>
  The flights and threads of the first participation in the event are removed first. Removing a flight
  goes to the participation in the current event, whichever event is being removed.
\<close>

definition Speakers_RemoveSpeakerParticipation ::
  "env \<Rightarrow> oid \<Rightarrow> int \<Rightarrow> (world, speaker) smonad" where
  "Speakers_RemoveSpeakerParticipation E speakerID eventID =
     bindE (Speakers_GetSpeaker E speakerID) (\<lambda>speaker.
     bindE (case first_speech eventID (s_Participations speaker) of
         None \<Rightarrow> retE ()
       | Some p \<Rightarrow>
           bindE (forE (sp_Flights p) (\<lambda>f.
             bindE (Speakers_RemoveSpeakerFlightInfo E speakerID f) (\<lambda>_. retE ()))) (\<lambda>_.
           forE (sp_Communications p) (\<lambda>c.
             bindE (Speakers_DeleteSpeakerThread E speakerID c) (\<lambda>_. retE ())))) (\<lambda>_.
     FindOneAndUpdate (Speakers E) (\<lambda>s. s_ID s = speakerID)
       (on_speeches (pull (\<lambda>p. sp_Event p = eventID)))))"

definition Speakers_DeleteSpeaker :: "env \<Rightarrow> oid \<Rightarrow> (world, speaker) smonad" where
  "Speakers_DeleteSpeaker E speakerID =
     bindE (Speakers_GetSpeaker E speakerID) (\<lambda>currentSpeaker.
     bindE (forE (s_Participations currentSpeaker) (\<lambda>participation.
       bindE (Speakers_RemoveSpeakerParticipation E speakerID (sp_Event participation)) (\<lambda>_.
       retE ()))) (\<lambda>_.
     bindE (Sessions_GetSessions E (speaker_options speakerID)) (\<lambda>ss.
     bindE (forE ss (\<lambda>session.
       bindE (Sessions_DeleteSession E (se_ID session)) (\<lambda>_. retE ()))) (\<lambda>_.
     bindE (FindOneAndDelete (Speakers E) (\<lambda>s. s_ID s = speakerID)) (\<lambda>speaker.
     bindE (deref (s_Contact speaker)) (\<lambda>contact.
     bindE (Contacts_DeleteContact E contact) (\<lambda>_.
     retE speaker)))))))"

end
