(* ===== verification/SpeakerProperties.thy ===== *)
theory SpeakerProperties
  imports SpeakerParticipations
begin

text \<open>
  What the operations on speakers guarantee: one participation per event, the state machine of a
  participation, the refinement of each update, what the public pages show and when they are stale, and
  what stands in the way of a deletion.
\<close>

section \<open>Speakers as documents with participations\<close>

lemma first_speech_None: "first_speech ev ps = None \<longleftrightarrow> ev \<notin> sp_Event ` set ps"
  by (induction ps) auto

interpretation speaker_parts: stepping "Speakers E" s_ID s_Participations on_speeches sp_Event
    first_speech sp_Status
  for E
  by unfold_locales (simp_all add: on_speeches_def first_speech_None)

abbreviation speaker_update ::
  "(err \<Rightarrow> bool) \<Rightarrow> env \<Rightarrow> oid \<Rightarrow> (speakerParticipation \<Rightarrow> speakerParticipation) \<Rightarrow>
   (world \<Rightarrow> world) \<Rightarrow> (world, speaker) smonad \<Rightarrow> bool" where
  "speaker_update bad E i g gl m \<equiv>
     updates_participation bad (Speakers E) s_ID s_Participations on_speeches sp_Event i g gl m"

lemma speaks_eq:
  "speaks i ev = (\<lambda>s. s_ID s = i \<and> ev \<in> sp_Event ` set (s_Participations s))"
  "on_speech ev g = on_speeches (positional (\<lambda>p. sp_Event p = ev) g)"
  by (simp_all add: fun_eq_iff speaks_def on_speech_def)

lemma speaker_updateI:
  "mongo_spec bad E \<Longrightarrow> speaker_update bad E i g (\<lambda>w. w)
     (bindE (Events_GetCurrentEvent E) (\<lambda>cur. FindOneAndUpdate (Speakers E)
        (speaks i (ev_ID cur)) (on_speech (ev_ID cur) g)))"
  unfolding speaks_eq by (rule speaker_parts.current_updateI) simp_all

lemma speaker_update_resetI:
  "mongo_spec bad E \<Longrightarrow> speaker_update bad E i g (\<lambda>w. w\<lparr>currentPublicSpeakers := None\<rparr>)
     (bindE (Events_GetCurrentEvent E) (\<lambda>cur. bindE (FindOneAndUpdate (Speakers E)
        (speaks i (ev_ID cur)) (on_speech (ev_ID cur) g)) (\<lambda>y.
      bindE ResetCurrentPublicSpeakers (\<lambda>_. retE y))))"
  unfolding ResetCurrentPublicSpeakers_def bindE_assoc [symmetric]
  by (rule updates_participation_then [OF speaker_updateI]) simp_all

lemma room_copy:
  "\<lparr>spr_Type = spr_Type r, spr_Cost = spr_Cost r, spr_Notes = spr_Notes r\<rparr> = r"
  by simp

lemma speaker_updates:
  assumes "mongo_spec bad E"
  shows "speaker_update bad E i (\<lambda>p. p\<lparr>sp_Subscribers := addToSet m (sp_Subscribers p)\<rparr>) (\<lambda>w. w)
      (Speakers_Subscribe E i m)"
    and "speaker_update bad E i (\<lambda>p. p\<lparr>sp_Subscribers := pull (\<lambda>x. x = m) (sp_Subscribers p)\<rparr>)
      (\<lambda>w. w) (Speakers_Unsubscribe E i m)"
    and "speaker_update bad E i (\<lambda>p. p\<lparr>sp_Communications := addToSet t (sp_Communications p)\<rparr>)
      (\<lambda>w. w) (Speakers_AddThread E i t)"
    and "speaker_update bad E i (\<lambda>p. p\<lparr>sp_Communications := pull (\<lambda>x. x = t) (sp_Communications p)\<rparr>)
      (\<lambda>w. w) (Speakers_RemoveCommunication E i t)"
    and "speaker_update bad E i (\<lambda>p. p\<lparr>sp_GmailThreadIds := gs\<rparr>) (\<lambda>w. w)
      (Speakers_UpdateSpeakerGmailThreadIds E i gs)"
    and "speaker_update bad E i (\<lambda>p. p\<lparr>sp_Flights := addToSet f (sp_Flights p)\<rparr>) (\<lambda>w. w)
      (Speakers_AddSpeakerFlightInfo E i f)"
    and "speaker_update bad E i (\<lambda>p. p\<lparr>sp_Flights := pull (\<lambda>x. x = f) (sp_Flights p)\<rparr>) (\<lambda>w. w)
      (Speakers_RemoveSpeakerFlightInfo E i f)"
    and "speaker_update bad E i (\<lambda>p. p\<lparr>sp_Status := st\<rparr>)
      (\<lambda>w. w\<lparr>currentPublicSpeakers := None\<rparr>) (Speakers_UpdateSpeakerParticipationStatus E i st)"
    and "speaker_update bad E i (\<lambda>p. p\<lparr>sp_Member := m, sp_Feedback := fb, sp_Room := room\<rparr>)
      (\<lambda>w. w\<lparr>currentPublicSpeakers := None\<rparr>)
      (Speakers_UpdateSpeakerParticipation E i \<lparr>uspp_Member = Some m, uspp_Feedback = Some fb,
         uspp_Room = Some room\<rparr>)"
  unfolding Speakers_Subscribe_def Speakers_Unsubscribe_def Speakers_AddThread_def
    Speakers_RemoveCommunication_def Speakers_UpdateSpeakerGmailThreadIds_def
    Speakers_AddSpeakerFlightInfo_def Speakers_RemoveSpeakerFlightInfo_def
    Speakers_UpdateSpeakerParticipationStatus_def Speakers_UpdateSpeakerParticipation_def
    UpdateSpeakerParticipationData.simps deref_simps bindE_retE room_copy
  by (rule speaker_updateI speaker_update_resetI, rule assms)+

lemma keyed_speaker_updates:
  assumes "mongo_spec bad E"
  shows "keyed_update bad contents (Speakers E) s_ID i (\<lambda>_. True) (set_speaker_fields d)
      (\<lambda>w. w\<lparr>currentPublicSpeakers := None\<rparr>) (Speakers_UpdateSpeaker E i d)"
    and "keyed_update bad contents (Speakers E) s_ID i (\<lambda>_. True)
      (\<lambda>s. s\<lparr>s_Images := (s_Images s)\<lparr>sim_Internal := url\<rparr>\<rparr>) (\<lambda>w. w)
      (Speakers_UpdateSpeakerInternalImage E i url)"
    and "keyed_update bad contents (Speakers E) s_ID i (\<lambda>_. True)
      (\<lambda>s. s\<lparr>s_Images := (s_Images s)\<lparr>sim_Company := url\<rparr>\<rparr>)
      (\<lambda>w. w\<lparr>currentPublicSpeakers := None\<rparr>) (Speakers_UpdateSpeakerCompanyImage E i url)"
    and "keyed_update bad contents (Speakers E) s_ID i (\<lambda>_. True)
      (\<lambda>s. s\<lparr>s_Images := (s_Images s)\<lparr>sim_Speaker := url\<rparr>\<rparr>)
      (\<lambda>w. w\<lparr>currentPublicSpeakers := None\<rparr>) (Speakers_UpdateSpeakerPublicImage E i url)"
  unfolding Speakers_UpdateSpeaker_def Speakers_UpdateSpeakerInternalImage_def
    Speakers_UpdateSpeakerCompanyImage_def Speakers_UpdateSpeakerPublicImage_def
    ResetCurrentPublicSpeakers_def
  by (rule keyed_update_then speakers.keyed_updateI' | simp add: assms)+

section \<open>Steps and new participations\<close>

lemma bindE_modify_id: "bindE m (\<lambda>y. bindE (modifyE (\<lambda>w. w)) (\<lambda>_. retE y)) = m"
  by (simp add: fun_eq_iff bindE_def modifyE_def retE_def split: prod.split sum.split)

lemma wp_Speaker_StepStatus:
  assumes "mongo_spec bad E" and "distinct (map s_ID (w_speakers w))"
    and "distinct (map ev_ID (w_events w))"
  shows "wp (Speakers_StepStatus E i k)
     (\<lambda>s w'. \<exists>cur x st. speaker_parts.can_step E w i k cur x st \<and>
        s = on_speeches (positional (\<lambda>p. sp_Event p = ev_ID cur) (\<lambda>p. p\<lparr>sp_Status := st\<rparr>)) x \<and>
        contents w' = (contents w)\<lparr>w_speakers := update_at s_ID i
           (on_speeches (positional (\<lambda>p. sp_Event p = ev_ID cur) (\<lambda>p. p\<lparr>sp_Status := st\<rparr>)))
           (w_speakers w)\<rparr>)
     (\<lambda>e w'. (contents w' = contents w \<or> contents w' = (contents w)\<lparr>currentPublicSpeakers := None\<rparr>) \<and>
        (bad e \<or> (\<forall>cur x st. \<not> speaker_parts.can_step E w i k cur x st))) w"
proof -
  have eq: "Speakers_StepStatus E i k =
      bindE (Speakers_GetSpeaker E i) (\<lambda>x. bindE (Events_GetCurrentEvent E) (\<lambda>cur.
       case first_speech (ev_ID cur) (s_Participations x) of
         None \<Rightarrow> bindE ResetCurrentPublicSpeakers (\<lambda>_.
           throwE (Err ''speaker without participation on the current event''))
       | Some p \<Rightarrow> bindE (liftR (ParticipationStatus_Next (sp_Status p) k)) (\<lambda>st.
           bindE (FindOneAndUpdate (Speakers E) (\<lambda>s. s_ID s = i \<and> ev_ID cur \<in> sp_Event ` set (s_Participations s))
             (on_speeches (positional (\<lambda>p. sp_Event p = ev_ID cur) (\<lambda>p. p\<lparr>sp_Status := st\<rparr>))))
           (\<lambda>y. bindE (modifyE (\<lambda>w. w)) (\<lambda>_. retE y)))))"
    unfolding Speakers_StepStatus_def speaks_eq bindE_modify_id ..
  show ?thesis
    unfolding eq
    by (rule wp_mono [OF speaker_parts.wp_step [where bad = bad and gn = "\<lambda>w. w\<lparr>currentPublicSpeakers := None\<rparr>",
            OF assms(1) mongo_drv(2) [OF assms(1)] keyed_lookups(2) [OF assms(1)]]])
      (use assms(2,3) in \<open>auto simp: throwE_def ResetCurrentPublicSpeakers_def bindE_def modifyE_def\<close>)
qed

text \<open>
  \<open>StepStatus\<close> of a speaker moves the participation in the current event along the state machine, as for
  a company, and changes nothing else in the database. But it leaves the cached public page as it is when it
  succeeds, even when the speaker has just been announced: the only path that drops
  the cache is the one on which no participation was found.
\<close>

theorem Speaker_StepStatus_correct:
  assumes "mongo_spec bad E" and "distinct (map s_ID (w_speakers w))"
    and "distinct (map ev_ID (w_events w))"
  shows "wp (Speakers_StepStatus E i k)
     (\<lambda>s w'. \<exists>cur x p st. is_current (w_events w) cur \<and> lookup s_ID (w_speakers w) i = Some x \<and>
        first_speech (ev_ID cur) (s_Participations x) = Some p \<and>
        (k, st) \<in> set (step_pairs (sp_Status p)) \<and>
        s = on_speeches (positional (\<lambda>q. sp_Event q = ev_ID cur) (\<lambda>q. q\<lparr>sp_Status := st\<rparr>)) x \<and>
        contents w' = (contents w)\<lparr>w_speakers := update_at s_ID i
           (on_speeches (positional (\<lambda>q. sp_Event q = ev_ID cur) (\<lambda>q. q\<lparr>sp_Status := st\<rparr>)))
           (w_speakers w)\<rparr> \<and>
        currentPublicSpeakers w' = currentPublicSpeakers w)
     (\<lambda>e w'. (contents w' = contents w \<or> contents w' = (contents w)\<lparr>currentPublicSpeakers := None\<rparr>) \<and>
        (bad e \<or> \<not> (\<exists>cur x p st. is_current (w_events w) cur \<and>
        lookup s_ID (w_speakers w) i = Some x \<and>
        first_speech (ev_ID cur) (s_Participations x) = Some p \<and>
        (k, st) \<in> set (step_pairs (sp_Status p))))) w"
proof (rule wp_mono [OF wp_Speaker_StepStatus [OF assms]], goal_cases)
  case (1 s w')
  then have "currentPublicSpeakers w' = currentPublicSpeakers w"
    by (auto dest!: contents_eqD(22))
  with 1 show ?case
    by (auto simp: speaker_parts.can_step_def status_machine.nxt_valid [symmetric])
next
  case (2 e w')
  then show ?case by (auto simp: speaker_parts.can_step_def status_machine.nxt_valid [symmetric])
qed

definition sample_speaker :: "participationStatus \<Rightarrow> speaker" where
  "sample_speaker st = (speaker_of \<lparr>cspd_Name = Some ''s'', cspd_Title = None, cspd_Bio = None,
      cspd_CompanyName = None, cspd_Contact = None\<rparr> 9 4)
     \<lparr>s_Participations := [(new_speech 1 7)\<lparr>sp_Status := st\<rparr>]\<rparr>"

definition speaker_world :: "participationStatus \<Rightarrow> world" where
  "speaker_world st = empty_world\<lparr>w_events := [new_event 1 ''e''], w_speakers := [sample_speaker st]\<rparr>"

lemma sample_speaker_simps [simp]:
  "s_ID (sample_speaker st) = 4"
  "s_Participations (sample_speaker st) = [(new_speech 1 7)\<lparr>sp_Status := st\<rparr>]"
  "w_speakers (speaker_world st) = [sample_speaker st]"
  "w_events (speaker_world st) = [new_event 1 ''e'']"
  "is_current [new_event 1 ''e''] cur \<longleftrightarrow> cur = new_event 1 ''e''"
  "ev_ID (new_event 1 ''e'') = 1" "sp_Event (new_speech ev m) = ev"
  by (auto simp: sample_speaker_def speaker_world_def speaker_of_def is_current_def new_event_def new_speech_def)

text \<open>An accepted speaker is announced while the page cached before stays.\<close>

theorem Speaker_StepStatus_correct_witness:
  "wp (Speakers_StepStatus local_env 4 1)
     (\<lambda>s w'. map sp_Status (s_Participations s) = [Announced] \<and> currentPublicSpeakers w' = Some [])
     (\<lambda>e w'. False) ((speaker_world Accepted)\<lparr>currentPublicSpeakers := Some []\<rparr>)"
  by (rule wp_mono [OF Speaker_StepStatus_correct [OF local_env_up]])
    (auto simp: lookup_def step_pairs_def on_speeches_def)

section \<open>One participation per event\<close>

definition speaker_inv :: "world \<Rightarrow> bool" where
  "speaker_inv w \<longleftrightarrow> distinct (map s_ID (w_speakers w)) \<and>
     (\<forall>s \<in> set (w_speakers w). distinct (map sp_Event (s_Participations s)))"

lemma speaker_inv_wf: "speaker_inv = speaker_parts.wf E"
  by (simp add: fun_eq_iff speaker_inv_def speaker_parts.wf_def speaker_parts.one_per_event_def)

lemma speaker_inv_tick [simp]: "speaker_inv (tickw w) = speaker_inv w"
  by (simp add: speaker_inv_def)

lemmas keeps_speaker_update = speaker_parts.keeps_wf_update [folded speaker_inv_wf]
  and keeps_speaker_keyed = speaker_parts.keeps_wf_keyed [folded speaker_inv_wf]
  and keeps_speaker_any = speaker_parts.keeps_wf_any [folded speaker_inv_wf, OF mongo_drv(2)]

lemma keeps_speaker_others [keeps_rules]:
  "keeps speaker_inv (Events_GetCurrentEvent E)"
  "keeps speaker_inv (Speakers_GetSpeaker E i)"
  "keeps speaker_inv ResetCurrentPublicSpeakers"
  "keeps speaker_inv (Sessions_GetSession E i)"
  "keeps speaker_inv (Sessions_DeleteSession E i)"
  "keeps speaker_inv (Contacts_DeleteContact E i)"
  unfolding Events_GetCurrentEvent_def Speakers_GetSpeaker_def ResetCurrentPublicSpeakers_def
    Sessions_GetSession_def Sessions_DeleteSession_def Contacts_DeleteContact_def
  by (rule keeps_rules keeps_store keeps_modifyE | simp add: speaker_inv_def)+

lemma keeps_speaker_select [keeps_rules]: "keeps speaker_inv (select_sessions E options ids acc)"
  by (induction ids arbitrary: acc)
    (auto simp: keep_session_def Let_def intro!: keeps_rules split: option.split)

lemma keeps_speaker_search [keeps_rules]: "keeps speaker_inv (Sessions_GetSessions E options)"
  unfolding Sessions_GetSessions_def Events_GetEvent_def by (intro keeps_rules) simp

lemma keeps_DeleteSpeakerThread:
  "mongo_spec bad E \<Longrightarrow> keeps speaker_inv (Speakers_DeleteSpeakerThread E i t)"
  unfolding Speakers_DeleteSpeakerThread_def
  by (intro keeps_rules keeps_speaker_any) (simp_all add: on_speeches_def map_positional)

lemma keeps_RemoveSpeakerFlightInfo:
  "mongo_spec bad E \<Longrightarrow> keeps speaker_inv (Speakers_RemoveSpeakerFlightInfo E i f)"
  by (rule keeps_speaker_update [OF speaker_updates(7)]) simp_all

lemma keeps_RemoveSpeakerParticipation:
  "mongo_spec bad E \<Longrightarrow> keeps speaker_inv (Speakers_RemoveSpeakerParticipation E i ev)"
  unfolding Speakers_RemoveSpeakerParticipation_def
  by (intro keeps_rules keeps_DeleteSpeakerThread keeps_RemoveSpeakerFlightInfo keeps_speaker_any)
    (simp_all add: on_speeches_def pull_def distinct_map_filter)

lemma keeps_DeleteSpeaker:
  "mongo_spec bad E \<Longrightarrow> keeps speaker_inv (Speakers_DeleteSpeaker E i)"
  unfolding Speakers_DeleteSpeaker_def
  by (intro keeps_rules keeps_RemoveSpeakerParticipation
      speaker_parts.keeps_wf_delete [folded speaker_inv_wf, OF mongo_drv(2)])

lemma keeps_CreateSpeaker:
  assumes "mongo_spec bad E"
  shows "keeps speaker_inv (Speakers_CreateSpeaker E d)"
  unfolding Speakers_CreateSpeaker_def
proof (intro keeps_rules, goal_cases)
  case 1
  show ?case by (rule keeps_store) (simp add: speaker_inv_def)
next
  case (2 a)
  show ?case
    by (rule speaker_parts.keeps_wf_insert [folded speaker_inv_wf, OF mongo_drv(2) [OF assms]])
      (simp_all add: speaker_of_def)
qed

lemma add_new_speech:
  assumes "ev \<notin> sp_Event ` set (s_Participations s)"
  shows "s\<lparr>s_Participations := addToSetDoc b (new_speech ev m) (s_Participations s)\<rparr> =
    on_speeches (\<lambda>ps. ps @ [new_speech ev m]) s"
proof -
  have "new_speech ev m \<notin> set (s_Participations s)"
    using assms by (auto dest: imageI [of _ _ sp_Event])
  then show ?thesis by (simp add: on_speeches_def addToSetDoc_new)
qed

lemma keeps_Speaker_AddParticipation:
  "mongo_spec bad E \<Longrightarrow> keeps speaker_inv (Speakers_AddParticipation E i m)"
  unfolding Speakers_AddParticipation_def ResetCurrentPublicSpeakers_def speaker_inv_wf [of E]
  by (rule speaker_parts.keeps_wf_add [where new = "\<lambda>ev. new_speech ev m", OF _ mongo_drv(2)])
    (simp_all add: add_new_speech)

lemma keeps_Speaker_StepStatus:
  "mongo_spec bad E \<Longrightarrow> keeps speaker_inv (Speakers_StepStatus E i k)"
  unfolding Speakers_StepStatus_def speaks_eq
  by (intro keeps_rules keeps_speaker_any) (simp_all add: on_speeches_def map_positional)

text \<open>
  C16: a speaker never has two participations in one event: every operation on speakers keeps IDs and the
  events of a speaker distinct, also when it fails half way.
\<close>

theorem one_speech_per_event:
  assumes "mongo_spec bad E"
  shows "keeps speaker_inv (Speakers_CreateSpeaker E d) \<and>
    keeps speaker_inv (Speakers_AddParticipation E i m) \<and>
    keeps speaker_inv (Speakers_StepStatus E i k) \<and>
    keeps speaker_inv (Speakers_UpdateSpeakerParticipationStatus E i st) \<and>
    keeps speaker_inv (Speakers_UpdateSpeakerParticipation E i \<lparr>uspp_Member = Some m,
      uspp_Feedback = Some fb, uspp_Room = Some room\<rparr>) \<and>
    keeps speaker_inv (Speakers_Subscribe E i m) \<and> keeps speaker_inv (Speakers_Unsubscribe E i m) \<and>
    keeps speaker_inv (Speakers_AddThread E i t) \<and>
    keeps speaker_inv (Speakers_RemoveCommunication E i t) \<and>
    keeps speaker_inv (Speakers_UpdateSpeakerGmailThreadIds E i gs) \<and>
    keeps speaker_inv (Speakers_AddSpeakerFlightInfo E i f) \<and>
    keeps speaker_inv (Speakers_RemoveSpeakerFlightInfo E i f) \<and>
    keeps speaker_inv (Speakers_UpdateSpeaker E i usd) \<and>
    keeps speaker_inv (Speakers_UpdateSpeakerInternalImage E i url) \<and>
    keeps speaker_inv (Speakers_UpdateSpeakerCompanyImage E i url) \<and>
    keeps speaker_inv (Speakers_UpdateSpeakerPublicImage E i url) \<and>
    keeps speaker_inv (Speakers_DeleteSpeakerThread E i t) \<and>
    keeps speaker_inv (Speakers_RemoveSpeakerParticipation E i ev) \<and>
    keeps speaker_inv (Speakers_DeleteSpeaker E i)"
  by (intro conjI keeps_CreateSpeaker [OF assms] keeps_Speaker_AddParticipation [OF assms] keeps_Speaker_StepStatus [OF assms]
      keeps_DeleteSpeakerThread [OF assms] keeps_RemoveSpeakerParticipation [OF assms] keeps_DeleteSpeaker [OF assms]
      keeps_speaker_update [OF speaker_updates(8) [OF assms]] keeps_speaker_update [OF speaker_updates(9) [OF assms]]
      keeps_speaker_update [OF speaker_updates(1) [OF assms]] keeps_speaker_update [OF speaker_updates(2) [OF assms]]
      keeps_speaker_update [OF speaker_updates(3) [OF assms]] keeps_speaker_update [OF speaker_updates(4) [OF assms]]
      keeps_speaker_update [OF speaker_updates(5) [OF assms]] keeps_speaker_update [OF speaker_updates(6) [OF assms]]
      keeps_RemoveSpeakerFlightInfo [OF assms]
      keeps_speaker_keyed [OF keyed_speaker_updates(1) [OF assms]] keeps_speaker_keyed [OF keyed_speaker_updates(2) [OF assms]]
      keeps_speaker_keyed [OF keyed_speaker_updates(3) [OF assms]] keeps_speaker_keyed [OF keyed_speaker_updates(4) [OF assms]])
    (simp_all add: set_speaker_fields_def)

theorem one_speech_per_event_witness:
  "keeps speaker_inv (Speakers_StepStatus local_env 4 1) \<and> speaker_inv (speaker_world Selected)"
  using one_speech_per_event [OF local_env_up] by (auto simp: speaker_inv_def)

text \<open>
  The updates of a speaker implement the same abstract updates as those of a company: the named speaker's
  participation in the current event changes and nothing else, the changed speaker is answered,
  the cached page is dropped where the page may show what changed, and a failure changes nothing.
\<close>

theorem speaker_updates_refine:
  assumes "mongo_spec bad E"
  shows "speaker_update bad E i (\<lambda>p. p\<lparr>sp_Subscribers := addToSet m (sp_Subscribers p)\<rparr>) (\<lambda>w. w)
      (Speakers_Subscribe E i m)
    \<and> speaker_update bad E i (\<lambda>p. p\<lparr>sp_Flights := addToSet f (sp_Flights p)\<rparr>) (\<lambda>w. w)
      (Speakers_AddSpeakerFlightInfo E i f)
    \<and> speaker_update bad E i (\<lambda>p. p\<lparr>sp_Flights := pull (\<lambda>x. x = f) (sp_Flights p)\<rparr>) (\<lambda>w. w)
      (Speakers_RemoveSpeakerFlightInfo E i f)
    \<and> speaker_update bad E i (\<lambda>p. p\<lparr>sp_Communications := addToSet t (sp_Communications p)\<rparr>)
      (\<lambda>w. w) (Speakers_AddThread E i t)
    \<and> speaker_update bad E i (\<lambda>p. p\<lparr>sp_Status := st\<rparr>)
      (\<lambda>w. w\<lparr>currentPublicSpeakers := None\<rparr>) (Speakers_UpdateSpeakerParticipationStatus E i st)
    \<and> speaker_update bad E i (\<lambda>p. p\<lparr>sp_Member := m, sp_Feedback := fb, sp_Room := room\<rparr>)
      (\<lambda>w. w\<lparr>currentPublicSpeakers := None\<rparr>)
      (Speakers_UpdateSpeakerParticipation E i \<lparr>uspp_Member = Some m, uspp_Feedback = Some fb,
         uspp_Room = Some room\<rparr>)
    \<and> keyed_update bad contents (Speakers E) s_ID i (\<lambda>_. True) (set_speaker_fields d)
      (\<lambda>w. w\<lparr>currentPublicSpeakers := None\<rparr>) (Speakers_UpdateSpeaker E i d)"
  by (intro conjI speaker_updates keyed_speaker_updates assms)

theorem speaker_updates_refine_witness:
  "wp (Speakers_AddSpeakerFlightInfo local_env 4 6)
     (\<lambda>s w'. map sp_Flights (s_Participations s) = [[6]])
     (\<lambda>e w'. w_speakers w' = [sample_speaker Accepted]) (speaker_world Accepted)"
  by (rule wp_updates_participation [OF speaker_updates_refine [OF local_env_up, THEN conjunct2, THEN conjunct1]])
    (auto simp: lookup_def on_speeches_def new_speech_def addToSet_def dest: contents_eqD(2))

end
