(* ===== verification/PublicSpeakers.thy ===== *)
theory PublicSpeakers
  imports SpeakerProperties
begin

text \<open>
  The public view of the speakers, its cache, and what stands in the way of removing a speaker's
  participation or the speaker.
\<close>

section \<open>What the public view shows\<close>

definition unannounced_speech :: "int \<Rightarrow> speakerParticipation \<Rightarrow> bool" where
  "unannounced_speech ev p \<longleftrightarrow> sp_Event p = ev \<and> sp_Status p \<noteq> Announced"

lemma speakerToPublic_loop_error:
  "(\<exists>e. speakerToPublic_loop (Some ev) ps q acc = Inl e) \<longleftrightarrow> (\<exists>p \<in> set ps. unannounced_speech ev p)"
  by (induction ps arbitrary: q acc) (auto simp: unannounced_speech_def split: option.split)

lemma speakerToPublic_loop_events:
  "speakerToPublic_loop (Some ev) ps q acc = Inr r \<Longrightarrow> (\<forall>p. q = Some p \<longrightarrow> sp_Event p = ev) \<Longrightarrow>
   map spp_Event r = map spp_Event acc @
     replicate (length (if q = None then dropWhile (\<lambda>p. sp_Event p \<noteq> ev) ps else ps)) ev"
proof (induction ps arbitrary: q acc)
  case Nil
  then show ?case by simp
next
  case (Cons p ps)
  show ?case
  proof (cases "sp_Event p = ev")
    case True
    with Cons.prems have "speakerToPublic_loop (Some ev) ps (Some p)
        (acc @ [\<lparr>spp_Event = ev, spp_Feedback = sp_Feedback p\<rparr>]) = Inr r"
      by (auto split: if_splits)
    from Cons.IH [OF this] True show ?thesis by (simp add: append_replicate_commute)
  next
    case other: False
    show ?thesis
    proof (cases q)
      case None
      with other Cons.prems Cons.IH [of None acc] show ?thesis by simp
    next
      case (Some p')
      with other Cons.prems Cons.IH [of q "acc @ [\<lparr>spp_Event = ev, spp_Feedback = sp_Feedback p'\<rparr>]"]
      show ?thesis by simp
    qed
  qed
qed

text \<open>
  What the public view of a speaker shows when asked for an event. It is refused exactly when the
  speaker has a participation there that is not announced. Otherwise it shows the participation in that event
  once for itself and once more for every participation that comes after it, since the chosen
  participation is kept from turn to turn and appended again.
\<close>

theorem speakerToPublic_repeats:
  "((\<exists>e. speakerToPublic s (Some ev) = Inl e) \<longleftrightarrow>
      (\<exists>p \<in> set (s_Participations s). unannounced_speech ev p)) \<and>
   (speakerToPublic s (Some ev) = Inr pub \<longrightarrow>
      sp_pub_ID pub = s_ID s \<and>
      map spp_Event (sp_pub_Participations pub) =
        replicate (length (dropWhile (\<lambda>p. sp_Event p \<noteq> ev) (s_Participations s))) ev)"
  using speakerToPublic_loop_error [of ev "s_Participations s" None "[]"]
    speakerToPublic_loop_events [of ev "s_Participations s" None "[]"]
  by (auto simp: speakerToPublic_def split: sum.splits)

text \<open>The event of a speaker with two participations is shown twice.\<close>

definition returning_speaker :: speaker where
  "returning_speaker = (sample_speaker Announced)\<lparr>s_Participations :=
     [(new_speech 1 7)\<lparr>sp_Status := Announced\<rparr>, new_speech 2 7]\<rparr>"

theorem speakerToPublic_repeats_witness:
  "map spp_Event (sp_pub_Participations (projr (speakerToPublic returning_speaker (Some 1)))) = [1, 1]"
proof -
  have parts: "s_Participations returning_speaker = [(new_speech 1 7)\<lparr>sp_Status := Announced\<rparr>, new_speech 2 7]"
    by (simp add: returning_speaker_def)
  have "\<nexists>e. speakerToPublic returning_speaker (Some 1) = Inl e"
    using speakerToPublic_repeats [of returning_speaker 1] by (simp add: parts unannounced_speech_def)
  then obtain pub where "speakerToPublic returning_speaker (Some 1) = Inr pub"
    by (cases "speakerToPublic returning_speaker (Some 1)") auto
  with speakerToPublic_repeats [of returning_speaker 1 pub] show ?thesis
    by (simp add: parts numeral_2_eq_2)
qed

section \<open>The cached list\<close>

definition plain_speaker_options :: GetSpeakersPublicOptions where
  "plain_speaker_options = \<lparr>gspp_EventID = None, gspp_Name = None\<rparr>"

text \<open>The speakers announced in the event: a participation there, and none there that is not.\<close>

definition speaks_in :: "int \<Rightarrow> speaker \<Rightarrow> bool" where
  "speaks_in ev s \<longleftrightarrow> (\<exists>p \<in> set (s_Participations s). sp_Event p = ev) \<and>
     (\<forall>p \<in> set (s_Participations s). \<not> unannounced_speech ev p)"

lemma speakerToPublic_cases:
  obtains e where "speakerToPublic s (Some ev) = Inl e" "\<exists>p \<in> set (s_Participations s). unannounced_speech ev p"
  | pub where "speakerToPublic s (Some ev) = Inr pub" "sp_pub_ID pub = s_ID s"
      "\<forall>p \<in> set (s_Participations s). \<not> unannounced_speech ev p"
  using speakerToPublic_loop_error [of ev "s_Participations s" None "[]"]
  by (cases "speakerToPublic_loop (Some ev) (s_Participations s) None []")
    (auto simp: speakerToPublic_def)

lemma public_speakers_ids:
  "map sp_pub_ID (public_speakers ev ss) =
     map s_ID (filter (\<lambda>s. \<forall>p \<in> set (s_Participations s). \<not> unannounced_speech ev p) ss)"
proof (induction ss)
  case Nil
  then show ?case by simp
next
  case (Cons s ss)
  show ?case by (cases s ev rule: speakerToPublic_cases) (use Cons in auto)
qed

lemma GetPublicSpeakers_cached:
  "currentPublicSpeakers w = Some pubs \<Longrightarrow>
   Speakers_GetPublicSpeakers E plain_speaker_options w = (Inr pubs, w)"
  by (simp add: Speakers_GetPublicSpeakers_def plain_speaker_options_def bindE_def getsE_def retE_def)

lemma fill_speaker_cache:
  assumes "contents w' = contents w" and "currentPublicSpeakers w = None"
  shows "contents (if currentPublicSpeakers w' = None then w'\<lparr>currentPublicSpeakers := Some pubs\<rparr> else w') =
    (contents w)\<lparr>currentPublicSpeakers := Some pubs\<rparr>"
proof -
  have "currentPublicSpeakers w' = None"
    using contents_eqD(22) [OF assms(1)] assms(2) by simp
  then show ?thesis
    using assms(1) by (cases w', cases w) (auto simp: contents_def)
qed

lemma listed_speaker_ids:
  assumes "set ss = {x \<in> set (w_speakers w1). public_speakers_filter E ev plain_speaker_options x}"
    and "contents w1 = contents w"
  shows "sp_pub_ID ` set (public_speakers ev ss) = s_ID ` {s \<in> set (w_speakers w). speaks_in ev s}"
proof -
  have "sp_pub_ID ` set (public_speakers ev ss) =
      s_ID ` set (filter (\<lambda>s. \<forall>p \<in> set (s_Participations s). \<not> unannounced_speech ev p) ss)"
    using arg_cong [OF public_speakers_ids, of set] by simp
  also have "\<dots> = s_ID ` {s \<in> set (w_speakers w). speaks_in ev s}"
    using contents_eqD(2) [OF assms(2)] assms(1)
    by (intro arg_cong [where f = "image s_ID"])
      (auto simp: public_speakers_filter_def plain_speaker_options_def speaks_in_def)
  finally show ?thesis .
qed

lemma wp_GetPublicSpeakers:
  assumes "mongo_spec bad E" and "currentPublicSpeakers w = None"
  shows "wp (Speakers_GetPublicSpeakers E plain_speaker_options)
     (\<lambda>pubs w'. contents w' = (contents w)\<lparr>currentPublicSpeakers := Some pubs\<rparr> \<and>
        (\<exists>cur. is_current (w_events w) cur \<and>
          sp_pub_ID ` set pubs = s_ID ` {s \<in> set (w_speakers w). speaks_in (ev_ID cur) s}))
     (\<lambda>e w'. contents w' = contents w) w"
  unfolding Speakers_GetPublicSpeakers_def Let_def
  apply (simp add: assms(2) plain_speaker_options_def)
  apply (fold plain_speaker_options_def)
  apply (rule wp_GetCurrentEvent [OF assms(1)])
  subgoal for cur w1
    apply (rule wp_Find_set [OF mongo_drv(2) [OF assms(1)]])
    subgoal for ss
      using fill_speaker_cache [of "tick (Speakers E) w1" w] assms(2)
        listed_speaker_ids [of ss w1 E "ev_ID cur" w] by auto
    by simp
  by auto

text \<open>
  The public list of speakers of the current event. With nothing cached it names exactly the speakers
  that take part in the current event with no participation there short of announced, is kept in the
  cache, and nothing else is written; once something is cached it is answered as it is.
\<close>

theorem GetPublicSpeakers_correct:
  assumes "mongo_spec bad E"
  shows "wp (Speakers_GetPublicSpeakers E plain_speaker_options)
     (\<lambda>pubs w'. (case currentPublicSpeakers w of
        Some cached \<Rightarrow> pubs = cached \<and> w' = w
      | None \<Rightarrow> contents w' = (contents w)\<lparr>currentPublicSpeakers := Some pubs\<rparr> \<and>
          (\<exists>cur. is_current (w_events w) cur \<and>
            sp_pub_ID ` set pubs = s_ID ` {s \<in> set (w_speakers w). speaks_in (ev_ID cur) s})))
     (\<lambda>e w'. contents w' = contents w) w"
proof (cases "currentPublicSpeakers w")
  case None
  then show ?thesis using wp_GetPublicSpeakers [OF assms, of w] by simp
next
  case (Some cached)
  then show ?thesis by (simp add: wp_def GetPublicSpeakers_cached)
qed

theorem GetPublicSpeakers_correct_witness:
  "wp (Speakers_GetPublicSpeakers local_env plain_speaker_options)
     (\<lambda>pubs w'. sp_pub_ID ` set pubs = {4}) (\<lambda>e w'. True) (speaker_world Announced)"
proof (rule wp_mono [OF GetPublicSpeakers_correct [OF local_env_up]], goal_cases)
  case (1 pubs w')
  moreover have "currentPublicSpeakers (speaker_world Announced) = None"
    by (simp add: speaker_world_def empty_world_def)
  moreover have "speaks_in 1 (sample_speaker Announced)"
    by (simp add: speaks_in_def unannounced_speech_def)
  ultimately show ?case by (auto simp: image_iff)
qed simp

section \<open>Removing a participation\<close>

text \<open>
  The flights of a past participation block its removal. \<open>RemoveSpeakerParticipation\<close> takes each flight of the
  participation off with \<open>RemoveSpeakerFlightInfo\<close>, which works on the participation in the current
  event. For a speaker who has none there, removing a participation with a
  flight always fails, and nothing has changed.
\<close>

theorem flights_block_removal:
  assumes "mongo_spec bad E" and "distinct (map s_ID (w_speakers w))"
    and "lookup s_ID (w_speakers w) i = Some x"
    and "first_speech ev (s_Participations x) = Some p" and "sp_Flights p \<noteq> []"
    and "\<And>cur. is_current (w_events w) cur \<Longrightarrow> ev_ID cur \<notin> sp_Event ` set (s_Participations x)"
  shows "wp (Speakers_RemoveSpeakerParticipation E i ev) (\<lambda>s w'. False)
     (\<lambda>e w'. contents w' = contents w \<and>
        (bad e \<or> e = ErrNoDocuments \<or> e = Err ''no events found'')) w"
  unfolding Speakers_RemoveSpeakerParticipation_def wp_bindE
proof (rule wp_keyed_read [OF keyed_lookups(2) [OF assms(1)]], goal_cases)
  case 1
  then show ?case using assms(2) by simp
next
  case (2 y w1)
  have y: "y = x" using 2(1) assms(3) by simp
  obtain f fs where fs: "sp_Flights p = f # fs" using assms(5) by (cases "sp_Flights p") auto
  note speakers = contents_eqD(2) [OF 2(2)] and evs = contents_eqD(3) [OF 2(2)]
  show ?case
    unfolding y assms(4) option.case fs forE.simps wp_bindE
    by (rule wp_mono [OF speaker_updates(7) [OF assms(1), unfolded updates_participation_def, rule_format]])
      (use assms(2,3,6) speakers evs 2(2) in auto)
qed auto

text \<open>The speaker took part in event 1, with flight 6; event 2 is the current one.\<close>

definition past_world :: world where
  "past_world = empty_world\<lparr>w_events := [new_event 1 ''e'', new_event 2 ''f''],
     w_speakers := [(sample_speaker Announced)\<lparr>s_Participations :=
        [(new_speech 1 7)\<lparr>sp_Flights := [6]\<rparr>]\<rparr>]\<rparr>"

theorem flights_block_removal_witness:
  "wp (Speakers_RemoveSpeakerParticipation local_env 4 1) (\<lambda>s w'. False)
     (\<lambda>e w'. w_speakers w' = w_speakers past_world) past_world"
proof (rule wp_mono [OF flights_block_removal [OF local_env_up, where
        x = "(sample_speaker Announced)\<lparr>s_Participations := [(new_speech 1 7)\<lparr>sp_Flights := [6]\<rparr>]\<rparr>"
        and p = "(new_speech 1 7)\<lparr>sp_Flights := [6]\<rparr>"]], goal_cases)
  case (5 cur)
  then have "ev_ID cur = 2" by (auto simp: past_world_def is_current_def new_event_def)
  then show ?case by simp
qed (auto simp: past_world_def lookup_def dest: contents_eqD(2))

section \<open>Deleting a speaker\<close>

definition undeleted_speakers :: "world \<Rightarrow> world \<Rightarrow> bool" where
  "undeleted_speakers w v \<longleftrightarrow> map s_ID (w_speakers v) = map s_ID (w_speakers w) \<and>
     w_events v = w_events w \<and> w_sessions v = w_sessions w"

lemma keeps_undeleted_speakers:
  "keeps (undeleted_speakers w) (Speakers_GetSpeaker E i)"
  "keeps (undeleted_speakers w) (Events_GetCurrentEvent E)"
  unfolding Speakers_GetSpeaker_def Events_GetCurrentEvent_def
  by (rule keeps_rules | simp add: undeleted_speakers_def)+

lemma keeps_undeleted_speaker_update:
  assumes "mongo_spec bad E" and "\<And>s. s_ID (u s) = s_ID s"
  shows "keeps (undeleted_speakers w) (FindOneAndUpdate (Speakers E) f u)"
proof (rule keepsI, rule wp_FindOneAndUpdate [OF mongo_drv(2) [OF assms(1)]], goal_cases)
  case (1 v y ds)
  then show ?case using replaces_map [OF 1(2), of s_ID] assms(2) by (simp add: undeleted_speakers_def)
next
  case (2 v e)
  then show ?case by (simp add: undeleted_speakers_def)
qed

lemma keeps_undeleted_removal:
  assumes "mongo_spec bad E"
  shows "keeps (undeleted_speakers w) (Speakers_RemoveSpeakerParticipation E i ev)"
  unfolding Speakers_RemoveSpeakerParticipation_def Speakers_DeleteSpeakerThread_def
    Speakers_RemoveSpeakerFlightInfo_def
  by (intro keeps_rules keeps_undeleted_speakers keeps_undeleted_speaker_update [OF assms])
    (simp_all add: on_speeches_def on_speech_def)

lemma picked_speaker:
  "picked se_Speakers (\<lambda>ss. i \<in> set ss) s \<longleftrightarrow> (\<exists>ss. se_Speakers s = Some ss \<and> i \<in> set ss)"
  by (auto simp: picked_def split: option.split)

text \<open>
  As with companies, no speaker can be deleted while the current event lists a session that has no speakers,
  such as a presentation: \<open>DeleteSpeaker\<close> removes the participations and then panics in the search for
  the speaker's sessions. The speaker and the sessions are still stored afterwards.
\<close>

theorem DeleteSpeaker_never_returns:
  assumes "mongo_spec bad E" and "\<And>e. \<not> bad e" and "distinct (map se_ID (w_sessions w))"
    and "\<And>cur. is_current (w_events w) cur \<Longrightarrow>
      \<exists>s \<in> listed_sessions w (ev_Sessions cur). se_Speakers s = None"
  shows "wp (Speakers_DeleteSpeaker E i) (\<lambda>s w'. False)
     (\<lambda>e w'. map s_ID (w_speakers w') = map s_ID (w_speakers w) \<and> w_sessions w' = w_sessions w) w"
  unfolding Speakers_DeleteSpeaker_def wp_bindE
proof (rule wp_mono [OF wp_keeps], rule keeps_undeleted_speakers(1) [of w], goal_cases)
  case 1
  then show ?case by (simp add: undeleted_speakers_def)
next
  case (2 s w1)
  show ?case
  proof (rule wp_mono [OF wp_keeps [of "undeleted_speakers w"]], goal_cases)
    case 1
    show ?case by (intro keeps_rules keeps_undeleted_removal [OF assms(1)])
  next
    case 2
    show ?case by fact
  next
    case (3 u w2)
    note same = 3 [unfolded undeleted_speakers_def]
    have listed: "listed_sessions w2 = listed_sessions w"
      using same by (simp add: listed_sessions_def fun_eq_iff)
    show ?case
      apply (rule wp_mono [OF wp_GetSessions_by [OF assms(1) _ keep_session_speaker]])
        apply (simp add: speaker_options_def)
      subgoal for ss w3
        using assms(2-4) same by (fastforce simp: listed)
      subgoal for e w3
        using same contents_eqD(2,14) [of w3 "contents w2"] by auto
      done
  next
    case (4 e w2)
    then show ?case by (simp add: undeleted_speakers_def)
  qed
next
  case (3 e w1)
  then show ?case by (simp add: undeleted_speakers_def)
qed

theorem DeleteSpeaker_never_returns_witness:
  "wp (Speakers_DeleteSpeaker local_env 4) (\<lambda>c w'. False)
     (\<lambda>e w'. map s_ID (w_speakers w') = [4])
     ((speaker_world Accepted)\<lparr>w_events := [talk_event], w_sessions := [talk_session\<lparr>se_Speakers := None\<rparr>]\<rparr>)"
  by (rule wp_mono [OF DeleteSpeaker_never_returns [OF local_env_up]])
    (auto simp: talk_event_def talk_session_def session_of_def sample_session_def listed_sessions_def
      is_current_def)

end
