(* ===== verification/PublicSessions.thy ===== *)
theory PublicSessions
  imports PublicCompanies PublicSpeakers
begin

text \<open>
  The public view of sessions (\<^verbatim>\<open>backend/src/mongodb/session.go\<close>, \<open>sessionToPublic\<close>,
  \<open>GetSessionPublic\<close>, \<open>GetPublicSessions\<close>): a session with the public views of its company and its
  speakers, where these have one for the event.
\<close>

section \<open>The public view of a session\<close>

text \<open>An error of either call leaves the field empty.\<close>

definition session_company ::
  "env \<Rightarrow> int option \<Rightarrow> oid option \<Rightarrow> (world, companyPublic option) smonad" where
  "session_company E eventID companyID = (case companyID of
     None \<Rightarrow> retE None
   | Some c \<Rightarrow>
       onErr (Companies_GetCompany E c) (\<lambda>_. retE None) (\<lambda>company.
       onErr (companyToPublic E company eventID) (\<lambda>_. retE None) (\<lambda>publicCompany.
       retE (Some publicCompany))))"

fun session_speakers ::
  "env \<Rightarrow> int option \<Rightarrow> oid list \<Rightarrow> speakerPublic list \<Rightarrow> (world, speakerPublic list) smonad" where
  "session_speakers E eventID [] speakers = retE speakers"
| "session_speakers E eventID (s # ss) speakers =
     onErr (Speakers_GetSpeaker E s) (\<lambda>_. session_speakers E eventID ss speakers) (\<lambda>speaker.
     case speakerToPublic speaker eventID of
       Inl _ \<Rightarrow> session_speakers E eventID ss speakers
     | Inr publicSpeaker \<Rightarrow> session_speakers E eventID ss (speakers @ [publicSpeaker]))"

definition sessionToPublic :: "env \<Rightarrow> session \<Rightarrow> int option \<Rightarrow> (world, sessionPublic) smonad" where
  "sessionToPublic E session eventID =
     bindE (session_company E eventID (se_Company session)) (\<lambda>companyPublic.
     bindE (case se_Speakers session of
         None \<Rightarrow> retE None
       | Some ss \<Rightarrow> bindE (session_speakers E eventID ss []) (\<lambda>speakers. retE (Some speakers)))
       (\<lambda>speakersPublic.
     retE \<lparr>sep_ID = se_ID session, sep_Begin = se_Begin session, sep_End = se_End session,
           sep_Title = se_Title session, sep_Description = se_Description session,
           sep_Image = se_Image session, sep_Place = se_Place session, sep_Kind = se_Kind session,
           sep_Company = companyPublic, sep_Speakers = speakersPublic,
           sep_VideoURL = se_VideoURL session, sep_Tickets = se_Tickets session\<rparr>))"

definition Sessions_GetSessionPublic :: "env \<Rightarrow> oid \<Rightarrow> (world, sessionPublic) smonad" where
  "Sessions_GetSessionPublic E sessionID =
     bindE (FindOne (Sessions E) (\<lambda>s. se_ID s = sessionID)) (\<lambda>session.
     sessionToPublic E session None)"

section \<open>The public list\<close>

record GetSessionsPublicOptions =
  gssp_EventID :: "int option"
  gssp_Kind :: "sessionKind option"
  gssp_Company :: "oid option"
  gssp_Speaker :: "oid option"

fun public_sessions ::
  "env \<Rightarrow> int \<Rightarrow> session list \<Rightarrow> sessionPublic list \<Rightarrow> (world, sessionPublic list) smonad" where
  "public_sessions E eventID [] public = retE public"
| "public_sessions E eventID (s # ss) public =
     bindE (sessionToPublic E s (Some eventID)) (\<lambda>p. public_sessions E eventID ss (public @ [p]))"

definition Sessions_GetPublicSessions ::
  "env \<Rightarrow> GetSessionsPublicOptions \<Rightarrow> (world, sessionPublic list) smonad" where
  "Sessions_GetPublicSessions E options =
     bindE (Sessions_GetSessions E \<lparr>gso_Event = gssp_EventID options, gso_Before = None,
       gso_After = None, gso_Place = None, gso_Kind = gssp_Kind options,
       gso_Company = gssp_Company options, gso_Speaker = gssp_Speaker options\<rparr>) (\<lambda>sessions.
     bindE (case gssp_EventID options of
         None \<Rightarrow> Events_GetCurrentEvent E
       | Some eventID \<Rightarrow> Events_GetEvent E eventID) (\<lambda>event.
     bindE (public_sessions E (ev_ID event) sessions []) (\<lambda>public.
     bindE (modifyE (\<lambda>w.
       if gssp_EventID options = None \<and> gssp_Kind options = None \<and> gssp_Company options = None \<and>
          gssp_Speaker options = None \<and> currentPublicSessions w = None
       then w\<lparr>currentPublicSessions := Some public\<rparr> else w)) (\<lambda>_.
     retE public))))"

section \<open>What a session shows\<close>

text \<open>
  A company is shown when it is stored and has no participation short of announced in the event; with no event
  given that condition is empty.
\<close>

definition shown_company :: "world \<Rightarrow> int option \<Rightarrow> oid \<Rightarrow> bool" where
  "shown_company w ev i \<longleftrightarrow> (\<exists>c \<in> set (w_companies w). co_ID c = i \<and>
     (\<forall>p \<in> set (co_Participations c). \<not> unannounced ev p))"

definition shown_speaker :: "world \<Rightarrow> int option \<Rightarrow> oid \<Rightarrow> bool" where
  "shown_speaker w ev i \<longleftrightarrow> (\<exists>s \<in> set (w_speakers w). s_ID s = i \<and>
     (\<forall>e. ev = Some e \<longrightarrow> (\<forall>p \<in> set (s_Participations s). \<not> unannounced_speech e p)))"

lemma shown_company_iff:
  "distinct (map co_ID (w_companies w)) \<Longrightarrow> c \<in> set (w_companies w) \<Longrightarrow>
   shown_company w ev (co_ID c) \<longleftrightarrow> (\<forall>p \<in> set (co_Participations c). \<not> unannounced ev p)"
  unfolding shown_company_def by (metis lookup_in option.inject)

lemma shown_speaker_iff:
  "distinct (map s_ID (w_speakers w)) \<Longrightarrow> s \<in> set (w_speakers w) \<Longrightarrow>
   shown_speaker w ev (s_ID s) \<longleftrightarrow>
     (\<forall>e. ev = Some e \<longrightarrow> (\<forall>p \<in> set (s_Participations s). \<not> unannounced_speech e p))"
  unfolding shown_speaker_def by (metis lookup_in option.inject)

lemma wp_session_company:
  assumes "mongo_spec bad E" and "distinct (map co_ID (w_companies w))"
  shows "wp (session_company E ev i)
     (\<lambda>pub w'. contents w' = contents w \<and>
        (\<forall>c. pub = Some c \<longrightarrow> i = Some (cop_ID c) \<and> shown_company w ev (cop_ID c)) \<and>
        ((\<forall>e. \<not> bad e) \<longrightarrow> (\<forall>j. i = Some j \<and> shown_company w ev j \<longrightarrow> pub \<noteq> None)))
     (\<lambda>e w'. False) w"
proof (cases i)
  case None
  then show ?thesis by (simp add: session_company_def)
next
  case (Some j)
  show ?thesis
    unfolding session_company_def Some option.case wp_onErr
  proof (rule wp_GetCompany [OF assms(1)], goal_cases)
    case (1 c w1)
    then have shown: "shown_company w ev j \<longleftrightarrow> (\<forall>p \<in> set (co_Participations c). \<not> unannounced ev p)"
      using shown_company_iff [OF assms(2)] by auto
    show ?case
      by (rule wp_companyToPublic [OF assms(1)]) (use 1 shown in auto)
  next
    case (2 e w1)
    then show ?case using mongo_spec_aborts [OF assms(1)] by (auto simp: shown_company_def)
  qed
qed

lemma speakerToPublic_all: "\<exists>r. speakerToPublic_loop None ps q acc = Inr r"
  by (induction ps arbitrary: q acc) (auto split: option.split)

lemma speakerToPublic_shown:
  "(case speakerToPublic s ev of
      Inl _ \<Rightarrow> \<exists>e. ev = Some e \<and> (\<exists>p \<in> set (s_Participations s). unannounced_speech e p)
    | Inr pub \<Rightarrow> sp_pub_ID pub = s_ID s \<and>
        (\<forall>e. ev = Some e \<longrightarrow> (\<forall>p \<in> set (s_Participations s). \<not> unannounced_speech e p)))"
proof (cases ev)
  case None
  then show ?thesis
    using speakerToPublic_all [of "s_Participations s" None "[]"] by (auto simp: speakerToPublic_def)
next
  case (Some e)
  show ?thesis unfolding Some by (cases s e rule: speakerToPublic_cases) auto
qed

lemma wp_session_speakers:
  assumes "mongo_spec bad E" and "distinct (map s_ID (w_speakers w))" and "contents v = contents w"
  shows "wp (session_speakers E ev is acc)
     (\<lambda>r v'. contents v' = contents w \<and> (\<exists>js. map sp_pub_ID r = map sp_pub_ID acc @ js \<and>
        set js \<subseteq> {i \<in> set is. shown_speaker w ev i} \<and>
        ((\<forall>e. \<not> bad e) \<longrightarrow> js = filter (shown_speaker w ev) is)))
     (\<lambda>e v'. False) v"
  using assms(3)
proof (induction "is" arbitrary: acc v)
  case Nil
  then show ?case by simp
next
  case (Cons i "is")
  note ss = contents_eqD(2) [OF Cons.prems]
  show ?case
    unfolding session_speakers.simps wp_onErr
  proof (rule wp_GetSpeaker [OF assms(1)], goal_cases)
    case (1 s v')
    then have v': "contents v' = contents w" and i: "i = s_ID s" and s: "s \<in> set (w_speakers w)"
      using Cons.prems ss by auto
    note shown = shown_speaker_iff [OF assms(2) s, of ev] speakerToPublic_shown [of ev s]
    show ?case
    proof (cases "speakerToPublic s ev")
      case (Inl e)
      then have "\<not> shown_speaker w ev i" using shown i by auto
      then show ?thesis
        unfolding Inl sum.case by (intro wp_mono [OF Cons.IH [OF v']]) auto
    next
      case (Inr pub)
      then have "shown_speaker w ev i" "sp_pub_ID pub = i" using shown i by auto
      then show ?thesis
        unfolding Inr sum.case by (intro wp_mono [OF Cons.IH [OF v']]) auto
    qed
  next
    case (2 e v')
    have v': "contents v' = contents w" using 2 Cons.prems by simp
    have "\<not> aborts e" and "(\<forall>e. \<not> bad e) \<longrightarrow> \<not> shown_speaker w ev i"
      using 2(2) mongo_spec_aborts [OF assms(1)] ss by (auto simp: shown_speaker_def)
    then show ?case
      by (simp only: if_False, intro wp_mono [OF Cons.IH [OF v']]) auto
  qed
qed

definition shows_session :: "(err \<Rightarrow> bool) \<Rightarrow> world \<Rightarrow> int option \<Rightarrow> session \<Rightarrow> sessionPublic \<Rightarrow> bool" where
  "shows_session bad w ev s pub \<longleftrightarrow>
     sep_ID pub = se_ID s \<and> sep_Title pub = se_Title s \<and> sep_Begin pub = se_Begin s \<and>
     sep_End pub = se_End s \<and> sep_Place pub = se_Place s \<and> sep_Tickets pub = se_Tickets s \<and>
     (\<forall>c. sep_Company pub = Some c \<longrightarrow> se_Company s = Some (cop_ID c) \<and> shown_company w ev (cop_ID c)) \<and>
     (case se_Speakers s of
        None \<Rightarrow> sep_Speakers pub = None
      | Some is \<Rightarrow> (\<exists>ss. sep_Speakers pub = Some ss \<and> sp_pub_ID ` set ss \<subseteq> {i \<in> set is. shown_speaker w ev i} \<and>
          ((\<forall>e. \<not> bad e) \<longrightarrow> map sp_pub_ID ss = filter (shown_speaker w ev) is))) \<and>
     ((\<forall>e. \<not> bad e) \<longrightarrow> (\<forall>i. se_Company s = Some i \<and> shown_company w ev i \<longrightarrow> sep_Company pub \<noteq> None))"

lemma wp_sessionToPublic:
  assumes "mongo_spec bad E" and "distinct (map co_ID (w_companies w))" and "distinct (map s_ID (w_speakers w))"
    and "contents v = contents w"
  shows "wp (sessionToPublic E s ev) (\<lambda>pub v'. contents v' = contents w \<and> shows_session bad w ev s pub)
     (\<lambda>e v'. False) v"
proof -
  have cos: "distinct (map co_ID (w_companies v))" "shown_company v = shown_company w"
    using contents_eqD(1) [OF assms(4)] assms(2) by (simp_all add: shown_company_def fun_eq_iff)
  show ?thesis
    unfolding sessionToPublic_def wp_bindE
  proof (rule wp_mono [OF wp_session_company [OF assms(1) cos(1)]], goal_cases)
    case (1 pub v1)
    then have v1: "contents v1 = contents w" using assms(4) by simp
    show ?case
    proof (cases "se_Speakers s")
      case None
      with 1 v1 cos show ?thesis by (simp add: shows_session_def)
    next
      case (Some "is")
      show ?thesis
        unfolding Some option.case wp_bindE
        by (rule wp_mono [OF wp_session_speakers [OF assms(1,3) v1]])
          (use 1 Some cos in \<open>auto simp: shows_session_def simp flip: set_map\<close>)
    qed
  qed simp
qed

text \<open>
  What the public view of a session gives away. It is always made, whatever fails: a company or a speaker that
  cannot be read is left out. Asked for an event it shows the company only when no participation of the
  company there is short of announced, and exactly those of the speakers. \<open>GetSessionPublic\<close> asks for no event, and
  then the company of the session is shown whether it has been announced or not.
\<close>

theorem sessionToPublic_shows:
  assumes "mongo_spec bad E" and "ids_ok w"
  shows "wp (sessionToPublic E s ev) (\<lambda>pub w'. contents w' = contents w \<and> shows_session bad w ev s pub)
      (\<lambda>e w'. False) w \<and>
    wp (Sessions_GetSessionPublic E i)
      (\<lambda>pub w'. contents w' = contents w \<and> (\<exists>s. lookup se_ID (w_sessions w) i = Some s \<and>
         shows_session bad w None s pub \<and>
         ((\<forall>e. \<not> bad e) \<longrightarrow> (\<forall>c \<in> set (w_companies w). se_Company s = Some (co_ID c) \<longrightarrow> sep_Company pub \<noteq> None))))
      (\<lambda>e w'. contents w' = contents w \<and> (bad e \<or> e = ErrNoDocuments \<and> lookup se_ID (w_sessions w) i = None)) w"
proof (intro conjI)
  show "wp (sessionToPublic E s ev) (\<lambda>pub w'. contents w' = contents w \<and> shows_session bad w ev s pub)
      (\<lambda>e w'. False) w"
    by (rule wp_sessionToPublic [OF assms(1) ids_okD(1,2) [OF assms(2)] refl])
next
  have shown: "shown_company w None (co_ID c)" if "c \<in> set (w_companies w)" for c
    using that by (auto simp: shown_company_def unannounced_def)
  show "wp (Sessions_GetSessionPublic E i)
      (\<lambda>pub w'. contents w' = contents w \<and> (\<exists>s. lookup se_ID (w_sessions w) i = Some s \<and>
         shows_session bad w None s pub \<and>
         ((\<forall>e. \<not> bad e) \<longrightarrow> (\<forall>c \<in> set (w_companies w). se_Company s = Some (co_ID c) \<longrightarrow> sep_Company pub \<noteq> None))))
      (\<lambda>e w'. contents w' = contents w \<and> (bad e \<or> e = ErrNoDocuments \<and> lookup se_ID (w_sessions w) i = None)) w"
    unfolding Sessions_GetSessionPublic_def wp_bindE
  proof (rule wp_keyed_read [OF sessions.keyed_readI [OF mongo_drv(14) [OF assms(1)]]], goal_cases)
    case 1
    then show ?case by (simp add: ids_okD [OF assms(2)])
  next
    case (2 s w1)
    show ?case
      by (rule wp_mono [OF wp_sessionToPublic [OF assms(1) ids_okD(1,2) [OF assms(2)] 2(2)]])
        (use 2 shown in \<open>auto simp: shows_session_def\<close>)
  qed auto
qed

text \<open>A session of a company that has only been suggested shows it all the same.\<close>

definition talk_world :: world where
  "talk_world = empty_world\<lparr>w_events := [talk_event], w_companies := [sample_company Suggested],
     w_sessions := [talk_session\<lparr>se_Company := Some 4, se_Speakers := None\<rparr>]\<rparr>"

theorem sessionToPublic_shows_witness:
  "wp (Sessions_GetSessionPublic local_env (se_ID talk_session))
     (\<lambda>pub w'. sep_Company pub \<noteq> None) (\<lambda>e w'. False) talk_world"
proof -
  have "ids_ok talk_world" by (simp add: ids_ok_def talk_world_def)
  from sessionToPublic_shows [OF local_env_up this, THEN conjunct2]
  show ?thesis
    by (rule wp_mono) (auto simp: talk_world_def lookup_def talk_session_def session_of_def sample_session_def)
qed

section \<open>The list and its cache\<close>

definition all_sessions :: GetSessionsPublicOptions where
  "all_sessions = \<lparr>gssp_EventID = None, gssp_Kind = None, gssp_Company = None, gssp_Speaker = None\<rparr>"

lemma wp_public_sessions:
  assumes "mongo_spec bad E" and "distinct (map co_ID (w_companies w))" and "distinct (map s_ID (w_speakers w))"
    and "contents v = contents w"
  shows "wp (public_sessions E ev ss acc)
     (\<lambda>r v'. contents v' = contents w \<and> (\<exists>ps. r = acc @ ps \<and> list_all2 (shows_session bad w (Some ev)) ss ps))
     (\<lambda>e v'. False) v"
  using assms(4)
proof (induction ss arbitrary: acc v)
  case Nil
  then show ?case by simp
next
  case (Cons s ss)
  show ?case
    unfolding public_sessions.simps wp_bindE
  proof (rule wp_mono [OF wp_sessionToPublic [OF assms(1-3) Cons.prems]], goal_cases)
    case (1 p v')
    then show ?case by (intro wp_mono [OF Cons.IH]) auto
  qed simp
qed

text \<open>
  The public list of sessions of the current event. It is made anew from the stored sessions on every call,
  also when a list is cached: the cache is filled by the first call and kept, but never read. No request without a company or a
  speaker to look for can panic.
\<close>

theorem GetPublicSessions_ignores_cache:
  assumes "mongo_spec bad E" and "ids_ok w"
  shows "wp (Sessions_GetPublicSessions E all_sessions)
     (\<lambda>pubs w'. (\<exists>cur ss. is_current (w_events w) cur \<and>
          set ss \<subseteq> listed_sessions w (ev_Sessions cur) \<and>
          ((\<forall>e. \<not> bad e) \<longrightarrow> set ss = listed_sessions w (ev_Sessions cur)) \<and>
          list_all2 (shows_session bad w (Some (ev_ID cur))) ss pubs) \<and>
        contents w' = (contents w)\<lparr>currentPublicSessions :=
          (case currentPublicSessions w of None \<Rightarrow> Some pubs | Some cached \<Rightarrow> Some cached)\<rparr>)
     (\<lambda>e w'. contents w' = contents w \<and> (bad e \<or> e = Err ''no events found'' \<and> w_events w = [])) w"
proof -
  have keep: "keep_session \<lparr>gso_Event = gssp_EventID all_sessions, gso_Before = None,
       gso_After = None, gso_Place = None, gso_Kind = gssp_Kind all_sessions,
       gso_Company = gssp_Company all_sessions, gso_Speaker = gssp_Speaker all_sessions\<rparr> s =
      (case Some () of None \<Rightarrow> throwE (Panic ''nil pointer dereference'') | Some v \<Rightarrow> retE True)" for s
    by (simp add: keep_session_def all_sessions_def)
  show ?thesis
    unfolding Sessions_GetPublicSessions_def wp_bindE
  proof (rule wp_mono [OF wp_GetSessions_by [OF assms(1) _ keep]], goal_cases)
    case 1
    then show ?case by (simp add: all_sessions_def)
  next
    case (2 ss w1)
    then obtain cur where cur: "is_current (w_events w) cur"
      and ss: "set ss \<subseteq> listed_sessions w (ev_Sessions cur)"
        "(\<forall>e. \<not> bad e) \<longrightarrow> set ss = listed_sessions w (ev_Sessions cur)"
      and w1: "contents w1 = contents w"
      using ids_okD(14) [OF assms(2)] by (auto simp: picked_def)
    have none: "gssp_EventID all_sessions = None" by (simp add: all_sessions_def)
    show ?case
      unfolding none option.case
    proof (rule wp_GetCurrentEvent [OF assms(1)], goal_cases)
      case (1 cur' w2)
      then have w2: "contents w2 = contents w" and same: "cur' = cur"
        using w1 contents_eqD(3) [OF w1] is_current_unique cur ids_okD(3) [OF assms(2)] by auto
      show ?case
      proof (rule wp_mono [OF wp_public_sessions [OF assms(1) ids_okD(1,2) [OF assms(2)] w2]], goal_cases)
        case (1 pubs w3)
        then show ?case
          using cur ss same contents_eqD(24) [OF conjunct1 [OF 1]]
          by (auto simp: all_sessions_def split: option.split)
      qed simp
    next
      case (2 e w2)
      then show ?case using w1 contents_eqD(3) [OF w1] by auto
    qed
  next
    case (3 e w1)
    then show ?case by (auto simp: listed_sessions_def)
  qed
qed

text \<open>The cached list is empty, the answer is not.\<close>

theorem GetPublicSessions_ignores_cache_witness:
  "wp (Sessions_GetPublicSessions local_env all_sessions)
     (\<lambda>pubs w'. pubs \<noteq> [] \<and> currentPublicSessions w' = Some []) (\<lambda>e w'. False)
     (talk_world\<lparr>currentPublicSessions := Some []\<rparr>)"
proof -
  have "ids_ok (talk_world\<lparr>currentPublicSessions := Some []\<rparr>)" by (simp add: ids_ok_def talk_world_def)
  from GetPublicSessions_ignores_cache [OF local_env_up this] show ?thesis
  proof (rule wp_mono, goal_cases)
    case (1 pubs w')
    have listed: "listed_sessions (talk_world\<lparr>currentPublicSessions := Some []\<rparr>) (ev_Sessions e) \<noteq> {}"
      if "is_current (w_events (talk_world\<lparr>currentPublicSessions := Some []\<rparr>)) e" for e
      using that by (simp add: talk_world_def is_current_def listed_sessions_def talk_event_def
          talk_session_def session_of_def)
    have "currentPublicSessions w' = Some []"
      using contents_eqD(24) [OF conjunct2 [OF 1]] by simp
    moreover from conjunct1 [OF 1] listed have "pubs \<noteq> []"
      by (fastforce dest: list_all2_lengthD)
    ultimately show ?case by simp
  next
    case (2 e w')
    then show ?case by (simp add: talk_world_def)
  qed
qed

end
