(* ===== verification/Communications.thy ===== *)
theory Communications
  imports Lookups Events
begin

text \<open>
  \<^verbatim>\<open>backend/src/mongodb/post.go\<close>, \<^verbatim>\<open>meeting.go\<close> and \<^verbatim>\<open>thread.go\<close>: posts, meetings, and the threads that tie them
  to a company or a speaker. A thread has an entry post, comments, and possibly a meeting; a
  meeting has threads of its own.
\<close>

section \<open>Posts\<close>

record CreatePostData =
  cpo_Member :: oid
  cpo_Text :: string

definition Posts_GetPost :: "env \<Rightarrow> oid \<Rightarrow> (world, post) smonad" where
  "Posts_GetPost E postID = FindOne (Posts E) (\<lambda>p. po_ID p = postID)"

definition post_of :: "CreatePostData \<Rightarrow> time \<Rightarrow> oid \<Rightarrow> post" where
  "post_of data now i = \<lparr>po_ID = i, po_Member = cpo_Member data, po_Text = cpo_Text data,
     po_Posted = now, po_Updated = None\<rparr>"

definition Posts_CreatePost :: "env \<Rightarrow> CreatePostData \<Rightarrow> (world, post) smonad" where
  "Posts_CreatePost E data =
     bindE (getsE (\<lambda>w. env_now E (w_tick w))) (\<lambda>now.
     bindE (InsertOne (Posts E) (post_of data now)) (\<lambda>insertedID.
     Posts_GetPost E insertedID))"

definition Posts_DeletePost :: "env \<Rightarrow> oid \<Rightarrow> (world, post) smonad" where
  "Posts_DeletePost E postID = FindOneAndDelete (Posts E) (\<lambda>p. po_ID p = postID)"

record UpdatePostData =
  upo_Text :: string

definition UpdatePostData_ParseBody :: "err + UpdatePostData \<Rightarrow> err + UpdatePostData" where
  "UpdatePostData_ParseBody body = (case body of
     Inl e \<Rightarrow> Inl e
   | Inr upd \<Rightarrow> if length (upo_Text upd) = 0 then Inl (Err ''invalid text'') else Inr upd)"

definition Posts_UpdatePost :: "env \<Rightarrow> oid \<Rightarrow> UpdatePostData \<Rightarrow> (world, post) smonad" where
  "Posts_UpdatePost E postID data =
     bindE (getsE (\<lambda>w. env_now E (w_tick w))) (\<lambda>now.
     FindOneAndUpdate (Posts E) (\<lambda>p. po_ID p = postID)
       (\<lambda>p. p\<lparr>po_Text := upo_Text data, po_Updated := Some now\<rparr>))"

section \<open>Meetings\<close>

record CreateMeetingData =
  cmd_Title :: "string option"
  cmd_Kind :: "string option"
  cmd_Begin :: "time option"
  cmd_End :: "time option"
  cmd_Place :: "string option"
  cmd_Participants :: "meetingParticipants option"

record UpdateMeetingData =
  umd_Title :: string
  umd_Kind :: string
  umd_Begin :: time
  umd_End :: time
  umd_Place :: string

record MeetingParticipantData =
  mpd_Member :: oid
  mpd_Type :: string

definition UpdateMeetingData_ParseBody :: "err + UpdateMeetingData \<Rightarrow> err + UpdateMeetingData" where
  "UpdateMeetingData_ParseBody body = (case body of
     Inl e \<Rightarrow> Inl e
   | Inr umd \<Rightarrow>
       if length (umd_Place umd) = 0 then Inl (Err ''invalid place'')
       else if length (umd_Title umd) = 0 then Inl (Err ''invalid title'')
       else (case MeetingKind_Parse (umd_Kind umd) of
          Inl _ \<Rightarrow> Inl (Err ''invalid kind'')
        | Inr _ \<Rightarrow>
            if umd_Begin umd > umd_End umd
            then Inl (Err ''invalid begin and end dates: begin must be before end'')
            else Inr umd))"

text \<open>The kind is followed without a check; a missing one is a panic.\<close>

definition CreateMeetingData_Validate :: "CreateMeetingData \<Rightarrow> err option" where
  "CreateMeetingData_Validate cmd =
     (case cmd_Begin cmd of
        None \<Rightarrow> Some (Err ''no begin date given'')
      | Some begin \<Rightarrow>
     (case cmd_End cmd of
        None \<Rightarrow> Some (Err ''no end date given'')
      | Some end \<Rightarrow>
          if end < begin then Some (Err ''end date must be after the begin date'')
          else if cmd_Place cmd = None then Some (Err ''no place given'')
          else if cmd_Title cmd = None then Some (Err ''no title given'')
          else (case cmd_Kind cmd of
             None \<Rightarrow> Some (Panic ''nil pointer dereference'')
           | Some kind \<Rightarrow>
               (case MeetingKind_Parse kind of
                  Inl _ \<Rightarrow> Some (Err ''invalid kind'')
                | Inr _ \<Rightarrow> None))))"

definition CreateMeetingData_ParseBody ::
  "err + CreateMeetingData \<Rightarrow> err + CreateMeetingData" where
  "CreateMeetingData_ParseBody body = (case body of
     Inl e \<Rightarrow> Inl e
   | Inr cmd \<Rightarrow> (case CreateMeetingData_Validate cmd of Some e \<Rightarrow> Inl e | None \<Rightarrow> Inr cmd))"

text \<open>An \<^verbatim>\<open>ObjectID\<close> is an array of twelve bytes: its length is never zero.\<close>

definition len_ObjectID :: "oid \<Rightarrow> nat" where
  "len_ObjectID i = 12"

definition MeetingParticipantData_Validate :: "MeetingParticipantData \<Rightarrow> err option" where
  "MeetingParticipantData_Validate cmd =
     (if len_ObjectID (mpd_Member cmd) = 0 then Some (Err ''no participant given'')
      else (case MeetingParticipantKind_Parse (mpd_Type cmd) of
          Inl _ \<Rightarrow> Some (Err ''invalid type of participant'')
        | Inr _ \<Rightarrow> None))"

definition MeetingParticipantData_ParseBody ::
  "err + MeetingParticipantData \<Rightarrow> err + MeetingParticipantData" where
  "MeetingParticipantData_ParseBody body = (case body of
     Inl e \<Rightarrow> Inl e
   | Inr cmd \<Rightarrow> (case MeetingParticipantData_Validate cmd of Some e \<Rightarrow> Inl e | None \<Rightarrow> Inr cmd))"

text \<open>A kind is stored as the text it came as.\<close>

definition meetingKind_of :: "string \<Rightarrow> meetingKind" where
  "meetingKind_of s = (case MeetingKind_Parse s of Inr k \<Rightarrow> k | Inl _ \<Rightarrow> OtherMeetingKind s)"

definition meeting_of ::
  "string \<Rightarrow> string \<Rightarrow> time \<Rightarrow> time \<Rightarrow> string \<Rightarrow> meetingParticipants option \<Rightarrow> oid \<Rightarrow> meeting" where
  "meeting_of title kind begin end place participants i =
     \<lparr>me_ID = i, me_Title = title, me_Kind = meetingKind_of kind, me_Begin = begin, me_End = end,
      me_Place = place, me_Minute = [], me_Communications = [],
      me_Participants = (case participants of
          None \<Rightarrow> \<lparr>mp_Members = [], mp_CompanyReps = []\<rparr> | Some ps \<Rightarrow> ps)\<rparr>"

definition Meetings_CreateMeeting :: "env \<Rightarrow> CreateMeetingData \<Rightarrow> (world, meeting) smonad" where
  "Meetings_CreateMeeting E data =
     bindE (deref (cmd_Title data)) (\<lambda>title.
     bindE (deref (cmd_Kind data)) (\<lambda>kind.
     bindE (deref (cmd_Begin data)) (\<lambda>begin.
     bindE (deref (cmd_End data)) (\<lambda>end.
     bindE (deref (cmd_Place data)) (\<lambda>place.
     onErr (InsertOne (Meetings E) (meeting_of title kind begin end place (cmd_Participants data)))
       (\<lambda>_. throwE (Fatal ''CreateMeeting''))
       (\<lambda>insertedID. FindOne (Meetings E) (\<lambda>m. me_ID m = insertedID)))))))"

definition Meetings_GetMeeting :: "env \<Rightarrow> oid \<Rightarrow> (world, meeting) smonad" where
  "Meetings_GetMeeting E meetingID = FindOne (Meetings E) (\<lambda>m. me_ID m = meetingID)"

definition Meetings_DeleteMeeting :: "env \<Rightarrow> oid \<Rightarrow> (world, meeting) smonad" where
  "Meetings_DeleteMeeting E meetingID =
     bindE (FindOne (Meetings E) (\<lambda>m. me_ID m = meetingID)) (\<lambda>meeting.
     bindE (DeleteOne (Meetings E) (\<lambda>m. me_ID m = meetingID)) (\<lambda>deletedCount.
     if deletedCount \<noteq> 1 then throwE (Err ''should have deleted 1 meeting'') else retE meeting))"

definition Meetings_UpdateMeeting ::
  "env \<Rightarrow> UpdateMeetingData \<Rightarrow> oid \<Rightarrow> (world, meeting) smonad" where
  "Meetings_UpdateMeeting E data meetingID =
     FindOneAndUpdate (Meetings E) (\<lambda>m. me_ID m = meetingID)
       (\<lambda>m. m\<lparr>me_Title := umd_Title data, me_Kind := meetingKind_of (umd_Kind data),
          me_Begin := umd_Begin data, me_End := umd_End data, me_Place := umd_Place data\<rparr>)"

definition Meetings_UploadMeetingMinute ::
  "env \<Rightarrow> oid \<Rightarrow> string \<Rightarrow> (world, meeting) smonad" where
  "Meetings_UploadMeetingMinute E meetingID url =
     FindOneAndUpdate (Meetings E) (\<lambda>m. me_ID m = meetingID) (\<lambda>m. m\<lparr>me_Minute := url\<rparr>)"

definition Meetings_DeleteMeetingMinute :: "env \<Rightarrow> oid \<Rightarrow> (world, meeting) smonad" where
  "Meetings_DeleteMeetingMinute E meetingID =
     FindOneAndUpdate (Meetings E) (\<lambda>m. me_ID m = meetingID) (\<lambda>m. m\<lparr>me_Minute := []\<rparr>)"

definition on_participants :: "(meetingParticipants \<Rightarrow> meetingParticipants) \<Rightarrow> meeting \<Rightarrow> meeting" where
  "on_participants g m = m\<lparr>me_Participants := g (me_Participants m)\<rparr>"

definition Meetings_AddMeetingParticipant ::
  "env \<Rightarrow> oid \<Rightarrow> MeetingParticipantData \<Rightarrow> (world, meeting) smonad" where
  "Meetings_AddMeetingParticipant E meetingID data =
     (if mpd_Type data = ''MEMBER'' then
        FindOneAndUpdate (Meetings E) (\<lambda>m. me_ID m = meetingID)
          (on_participants (\<lambda>ps. ps\<lparr>mp_Members := addToSet (mpd_Member data) (mp_Members ps)\<rparr>))
      else if mpd_Type data = ''COMPANYREP'' then
        FindOneAndUpdate (Meetings E) (\<lambda>m. me_ID m = meetingID)
          (on_participants (\<lambda>ps. ps\<lparr>mp_CompanyReps := addToSet (mpd_Member data) (mp_CompanyReps ps)\<rparr>))
      else throwE (Err ''Invalid type of participant''))"

definition Meetings_DeleteMeetingParticipant ::
  "env \<Rightarrow> oid \<Rightarrow> MeetingParticipantData \<Rightarrow> (world, meeting) smonad" where
  "Meetings_DeleteMeetingParticipant E meetingID data =
     (if mpd_Type data = ''MEMBER'' then
        FindOneAndUpdate (Meetings E) (\<lambda>m. me_ID m = meetingID)
          (on_participants (\<lambda>ps. ps\<lparr>mp_Members := pull (\<lambda>i. i = mpd_Member data) (mp_Members ps)\<rparr>))
      else if mpd_Type data = ''COMPANYREP'' then
        FindOneAndUpdate (Meetings E) (\<lambda>m. me_ID m = meetingID)
          (on_participants (\<lambda>ps. ps\<lparr>mp_CompanyReps := pull (\<lambda>i. i = mpd_Member data) (mp_CompanyReps ps)\<rparr>))
      else throwE (Err ''Invalid type of participant''))"

definition Meetings_AddThread :: "env \<Rightarrow> oid \<Rightarrow> oid \<Rightarrow> (world, meeting) smonad" where
  "Meetings_AddThread E meetingID threadID =
     FindOneAndUpdate (Meetings E) (\<lambda>m. me_ID m = meetingID)
       (\<lambda>m. m\<lparr>me_Communications := addToSet threadID (me_Communications m)\<rparr>)"

definition Meetings_FindThread :: "env \<Rightarrow> oid \<Rightarrow> (world, meeting option) smonad" where
  "Meetings_FindThread E threadID =
     bindE (FindUnchecked (Meetings E) (\<lambda>m. threadID \<in> set (me_Communications m))) (\<lambda>ms.
     retE (case ms of [] \<Rightarrow> None | m # _ \<Rightarrow> Some m))"

text \<open>
  The loop of \<open>DeleteMeetingThread\<close>: the list without the first occurrence. When the thread is not in
  the list, the variable keeps its zero value, the empty list.
\<close>

fun without_thread :: "oid \<Rightarrow> oid list \<Rightarrow> oid list \<Rightarrow> oid list" where
  "without_thread threadID before [] = []"
| "without_thread threadID before (s # ss) =
     (if s = threadID then before @ ss else without_thread threadID (before @ [s]) ss)"

definition Meetings_DeleteMeetingThread ::
  "env \<Rightarrow> oid \<Rightarrow> oid \<Rightarrow> (world, meeting option) smonad" where
  "Meetings_DeleteMeetingThread E i threadID =
     bindE (Meetings_GetMeeting E i) (\<lambda>meeting.
     bindE (Meetings_FindThread E threadID) (\<lambda>meet. case meet of
       None \<Rightarrow> retE None
     | Some _ \<Rightarrow>
         bindE (FindOneAndUpdate (Meetings E) (\<lambda>m. me_ID m = i)
           (\<lambda>m. m\<lparr>me_Communications := without_thread threadID [] (me_Communications meeting)\<rparr>))
         (\<lambda>updatedMeeting. retE (Some updatedMeeting))))"

section \<open>Threads\<close>

record CreateThreadData =
  ctd_Entry :: oid
  ctd_Meeting :: "oid option"
  ctd_Kind :: threadKind
  ctd_GmailMessageId :: string
  ctd_Posted :: "time option"

record UpdateThreadData =
  utd_Meeting :: "oid option"
  utd_Kind :: threadKind

definition UpdateThreadData_ParseBody :: "err + UpdateThreadData \<Rightarrow> err + UpdateThreadData" where
  "UpdateThreadData_ParseBody body = (case body of
     Inl e \<Rightarrow> Inl e
   | Inr utd \<Rightarrow>
       if length (threadKind_string (utd_Kind utd)) = 0 then Inl (Err ''invalid kind'') else Inr utd)"

definition Threads_GetThread :: "env \<Rightarrow> oid \<Rightarrow> (world, thread) smonad" where
  "Threads_GetThread E threadID = FindOne (Threads E) (\<lambda>t. th_ID t = threadID)"

definition thread_of :: "CreateThreadData \<Rightarrow> time \<Rightarrow> oid \<Rightarrow> thread" where
  "thread_of data postedTime i =
     \<lparr>th_ID = i, th_Posted = postedTime, th_Entry = ctd_Entry data, th_Meeting = ctd_Meeting data,
      th_Comments = [], th_Kind = ctd_Kind data, th_Status = ThreadStatusPending,
      th_GmailMessageId = ctd_GmailMessageId data\<rparr>"

definition Threads_CreateThread :: "env \<Rightarrow> CreateThreadData \<Rightarrow> (world, thread) smonad" where
  "Threads_CreateThread E data =
     bindE (getsE (\<lambda>w. env_now E (w_tick w))) (\<lambda>now.
     let postedTime = (case ctd_Posted data of Some posted \<Rightarrow> posted | None \<Rightarrow> now) in
     bindE (InsertOne (Threads E) (thread_of data postedTime)) (\<lambda>insertedID.
     Threads_GetThread E insertedID))"

text \<open>
  A thread without a Gmail message is stored without the field (\<^verbatim>\<open>omitempty\<close>), and decodes to the empty text:
  no query finds it, not even one for the empty text.
\<close>

definition from_gmail :: "string \<Rightarrow> thread \<Rightarrow> bool" where
  "from_gmail gmailMessageId t \<longleftrightarrow> th_GmailMessageId t \<noteq> [] \<and> th_GmailMessageId t = gmailMessageId"

definition Threads_GetThreadByGmailMessageId :: "env \<Rightarrow> string \<Rightarrow> (world, thread) smonad" where
  "Threads_GetThreadByGmailMessageId E gmailMessageId =
     FindOne (Threads E) (from_gmail gmailMessageId)"

fun gmail_index :: "thread list \<Rightarrow> (string \<rightharpoonup> thread) \<Rightarrow> string \<rightharpoonup> thread" where
  "gmail_index [] result = result"
| "gmail_index (t # ts) result = gmail_index ts (result(th_GmailMessageId t \<mapsto> t))"

definition Threads_GetThreadsByGmailMessageIds ::
  "env \<Rightarrow> string list \<Rightarrow> (world, string \<rightharpoonup> thread) smonad" where
  "Threads_GetThreadsByGmailMessageIds E gmailMessageIds =
     (if length gmailMessageIds = 0 then retE Map.empty
      else bindE (Find (Threads E) (\<lambda>t. list_ex (\<lambda>k. from_gmail k t) gmailMessageIds)) (\<lambda>ts.
        retE (gmail_index ts Map.empty)))"

text \<open>A missing post and a failed command are overlooked, any other error is returned.\<close>

definition delete_post_leniently :: "env \<Rightarrow> oid \<Rightarrow> (world, unit) smonad" where
  "delete_post_leniently E postID =
     onErr (Posts_DeletePost E postID)
       (\<lambda>e. case e of ErrNoDocuments \<Rightarrow> retE () | CommandError _ \<Rightarrow> retE () | _ \<Rightarrow> throwE e)
       (\<lambda>_. retE ())"

definition forget_thread :: "oid \<Rightarrow> speaker \<Rightarrow> speaker" where
  "forget_thread threadID s = s\<lparr>s_Participations := map
     (\<lambda>p. p\<lparr>sp_Communications := pull (\<lambda>t. t = threadID) (sp_Communications p)\<rparr>) (s_Participations s)\<rparr>"

definition Threads_DeleteThread :: "env \<Rightarrow> oid \<Rightarrow> (world, thread) smonad" where
  "Threads_DeleteThread E threadID =
     bindE (FindOneAndDelete (Threads E) (\<lambda>t. th_ID t = threadID)) (\<lambda>thread.
     bindE (if th_Entry thread \<noteq> NilObjectID then delete_post_leniently E (th_Entry thread)
            else retE ()) (\<lambda>_.
     bindE (forE (th_Comments thread) (delete_post_leniently E)) (\<lambda>_.
     bindE (discardE (UpdateMany (Speakers E)
         (\<lambda>s. \<exists>p \<in> set (s_Participations s). threadID \<in> set (sp_Communications p))
         (forget_thread threadID))) (\<lambda>_.
     retE thread))))"

definition Threads_AddCommentToThread :: "env \<Rightarrow> oid \<Rightarrow> oid \<Rightarrow> (world, thread) smonad" where
  "Threads_AddCommentToThread E threadID postID =
     FindOneAndUpdate (Threads E) (\<lambda>t. th_ID t = threadID)
       (\<lambda>t. t\<lparr>th_Comments := addToSet postID (th_Comments t)\<rparr>)"

definition Threads_RemoveCommentFromThread :: "env \<Rightarrow> oid \<Rightarrow> oid \<Rightarrow> (world, thread) smonad" where
  "Threads_RemoveCommentFromThread E threadID postID =
     FindOneAndUpdate (Threads E) (\<lambda>t. th_ID t = threadID)
       (\<lambda>t. t\<lparr>th_Comments := pull (\<lambda>p. p = postID) (th_Comments t)\<rparr>)"

text \<open>The check is on the kind the thread has, not on the one it is given.\<close>

definition Threads_UpdateThread ::
  "env \<Rightarrow> oid \<Rightarrow> UpdateThreadData \<Rightarrow> (world, thread) smonad" where
  "Threads_UpdateThread E threadID data =
     bindE (Threads_GetThread E threadID) (\<lambda>thread.
     if \<not> ThreadKind_IsValid (th_Kind thread) then throwE (Err ''Thread kind not valid'')
     else
       bindE (case utd_Meeting data of
           Some meeting \<Rightarrow> bindE (Meetings_GetMeeting E meeting) (\<lambda>_.
             retE (\<lambda>t. t\<lparr>th_Meeting := Some meeting, th_Kind := utd_Kind data\<rparr>))
         | None \<Rightarrow> retE (\<lambda>t. t\<lparr>th_Kind := utd_Kind data\<rparr>)) (\<lambda>updateQuery.
       bindE (FindOneAndUpdate (Threads E) (\<lambda>t. th_ID t = threadID) updateQuery) (\<lambda>updatedThread.
       bindE (case th_Meeting thread of
           Some meeting \<Rightarrow> bindE (Meetings_DeleteMeeting E meeting) (\<lambda>_. retE ())
         | None \<Rightarrow> retE ()) (\<lambda>_.
       retE updatedThread))))"

definition Threads_FindByPost :: "env \<Rightarrow> oid \<Rightarrow> (world, thread option) smonad" where
  "Threads_FindByPost E postID =
     onErr (FindOne (Threads E) (\<lambda>t. th_Entry t = postID \<or> postID \<in> set (th_Comments t)))
       (\<lambda>e. if e = ErrNoDocuments then retE None else throwE e)
       (\<lambda>thread. retE (Some thread))"

section \<open>Listing meetings\<close>

record GetMeetingsOptions =
  gmo_Event :: "int option"
  gmo_Team :: "oid option"
  gmo_Company :: "oid option"

definition Teams_GetTeam :: "env \<Rightarrow> oid \<Rightarrow> (world, team) smonad" where
  "Teams_GetTeam E teamID = FindOne (Teams E) (\<lambda>t. team_ID t = teamID)"

text \<open>The meetings of the threads of a participation; a meeting thread's meeting is followed.\<close>

fun thread_meetings :: "env \<Rightarrow> oid list \<Rightarrow> oid list \<Rightarrow> (world, oid list) smonad" where
  "thread_meetings E [] meetingID = retE meetingID"
| "thread_meetings E (t # ts) meetingID =
     bindE (Threads_GetThread E t) (\<lambda>thread.
     if th_Kind thread = ThreadKindMeeting
     then bindE (deref (th_Meeting thread)) (\<lambda>m. thread_meetings E ts (meetingID @ [m]))
     else thread_meetings E ts meetingID)"

fun company_meetings ::
  "env \<Rightarrow> int option \<Rightarrow> companyParticipation list \<Rightarrow> oid list \<Rightarrow> (world, oid list) smonad" where
  "company_meetings E event [] meetingID = retE meetingID"
| "company_meetings E event (p # ps) meetingID =
     (if event = None \<or> event = Some (cp_Event p)
      then bindE (thread_meetings E (cp_Communications p) meetingID) (company_meetings E event ps)
      else company_meetings E event ps meetingID)"

fun get_meetings :: "env \<Rightarrow> oid list \<Rightarrow> meeting list \<Rightarrow> (world, meeting list) smonad" where
  "get_meetings E [] ms = retE ms"
| "get_meetings E (s # ss) ms =
     bindE (Meetings_GetMeeting E s) (\<lambda>meeting. get_meetings E ss (ms @ [meeting]))"

definition Meetings_GetMeetings ::
  "env \<Rightarrow> GetMeetingsOptions \<Rightarrow> (world, meeting list) smonad" where
  "Meetings_GetMeetings E data =
     (case gmo_Team data of
        Some t \<Rightarrow>
          if gmo_Event data \<noteq> None \<or> gmo_Company data \<noteq> None then retE []
          else bindE (Teams_GetTeam E t) (\<lambda>team. get_meetings E (team_Meetings team) [])
      | None \<Rightarrow>
     (case gmo_Company data of
        Some c \<Rightarrow>
          bindE (Companies_GetCompany E c) (\<lambda>company.
          bindE (company_meetings E (gmo_Event data) (co_Participations company) []) (\<lambda>meetingID.
          get_meetings E meetingID []))
      | None \<Rightarrow>
     (case gmo_Event data of
        Some e \<Rightarrow> bindE (Events_GetEvent E e) (\<lambda>event. get_meetings E (ev_Meetings event) [])
      | None \<Rightarrow> Find (Meetings E) (\<lambda>m. True))))"

end
