(* ===== verification/CommunicationProperties.thy ===== *)
theory CommunicationProperties
  imports Communications
begin

text \<open>
  Properties of posts, meetings and threads: the operations by ID implement the abstract ones,
  meetings are created well formed, and what the operations that span collections do: deleting
  and updating a thread, taking a thread from a meeting, and listing the meetings of a team, a company or
  an event.
\<close>

section \<open>Operations by ID\<close>

lemma keyed_communication_reads:
  assumes "mongo_spec bad E"
  shows "keyed_read bad contents (Posts E) po_ID i (Posts_GetPost E i)"
    and "keyed_read bad contents (Meetings E) me_ID i (Meetings_GetMeeting E i)"
    and "keyed_read bad contents (Threads E) th_ID i (Threads_GetThread E i)"
    and "keyed_read bad contents (Teams E) team_ID i (Teams_GetTeam E i)"
  unfolding Posts_GetPost_def Meetings_GetMeeting_def Threads_GetThread_def Teams_GetTeam_def
  using assms by (auto intro: posts.keyed_readI meetings.keyed_readI threads.keyed_readI
      teams.keyed_readI)

lemma keyed_communication_deletes:
  assumes "mongo_spec bad E"
  shows "keyed_delete bad contents (Posts E) po_ID i (\<lambda>w. w) (Posts_DeletePost E i)"
    and "keyed_delete bad contents (Meetings E) me_ID i (\<lambda>w. w) (Meetings_DeleteMeeting E i)"
  unfolding Posts_DeletePost_def Meetings_DeleteMeeting_def
  using assms posts.keyed_deleteI [of bad po_ID E i]
    meetings.keyed_delete_countI [OF mongo_drv(9) [OF assms] meetings.keyed_readI [OF mongo_drv(9) [OF assms]]]
  by simp_all

lemma keyed_thread_updates:
  assumes "mongo_spec bad E"
  shows "keyed_update bad contents (Threads E) th_ID i (\<lambda>_. True)
      (\<lambda>t. t\<lparr>th_Comments := addToSet p (th_Comments t)\<rparr>) (\<lambda>w. w) (Threads_AddCommentToThread E i p)"
    and "keyed_update bad contents (Threads E) th_ID i (\<lambda>_. True)
      (\<lambda>t. t\<lparr>th_Comments := pull (\<lambda>c. c = p) (th_Comments t)\<rparr>) (\<lambda>w. w)
      (Threads_RemoveCommentFromThread E i p)"
  unfolding Threads_AddCommentToThread_def Threads_RemoveCommentFromThread_def
  by (rule threads.keyed_updateI' [OF mongo_drv(11) [OF assms]])+

lemma keyed_meeting_updates:
  assumes "mongo_spec bad E"
  shows "keyed_update bad contents (Meetings E) me_ID i (\<lambda>_. True)
      (\<lambda>m. m\<lparr>me_Title := umd_Title d, me_Kind := meetingKind_of (umd_Kind d),
        me_Begin := umd_Begin d, me_End := umd_End d, me_Place := umd_Place d\<rparr>) (\<lambda>w. w)
      (Meetings_UpdateMeeting E d i)"
    and "keyed_update bad contents (Meetings E) me_ID i (\<lambda>_. True) (\<lambda>m. m\<lparr>me_Minute := url\<rparr>) (\<lambda>w. w)
      (Meetings_UploadMeetingMinute E i url)"
    and "keyed_update bad contents (Meetings E) me_ID i (\<lambda>_. True) (\<lambda>m. m\<lparr>me_Minute := []\<rparr>) (\<lambda>w. w)
      (Meetings_DeleteMeetingMinute E i)"
    and "keyed_update bad contents (Meetings E) me_ID i (\<lambda>_. True)
      (\<lambda>m. m\<lparr>me_Communications := addToSet t (me_Communications m)\<rparr>) (\<lambda>w. w) (Meetings_AddThread E i t)"
    and "mpd_Type p = ''MEMBER'' \<Longrightarrow> keyed_update bad contents (Meetings E) me_ID i (\<lambda>_. True)
      (on_participants (\<lambda>ps. ps\<lparr>mp_Members := addToSet (mpd_Member p) (mp_Members ps)\<rparr>)) (\<lambda>w. w)
      (Meetings_AddMeetingParticipant E i p)"
    and "mpd_Type p = ''COMPANYREP'' \<Longrightarrow> keyed_update bad contents (Meetings E) me_ID i (\<lambda>_. True)
      (on_participants (\<lambda>ps. ps\<lparr>mp_CompanyReps := addToSet (mpd_Member p) (mp_CompanyReps ps)\<rparr>)) (\<lambda>w. w)
      (Meetings_AddMeetingParticipant E i p)"
    and "mpd_Type p = ''MEMBER'' \<Longrightarrow> keyed_update bad contents (Meetings E) me_ID i (\<lambda>_. True)
      (on_participants (\<lambda>ps. ps\<lparr>mp_Members := pull (\<lambda>j. j = mpd_Member p) (mp_Members ps)\<rparr>)) (\<lambda>w. w)
      (Meetings_DeleteMeetingParticipant E i p)"
    and "mpd_Type p = ''COMPANYREP'' \<Longrightarrow> keyed_update bad contents (Meetings E) me_ID i (\<lambda>_. True)
      (on_participants (\<lambda>ps. ps\<lparr>mp_CompanyReps := pull (\<lambda>j. j = mpd_Member p) (mp_CompanyReps ps)\<rparr>))
      (\<lambda>w. w) (Meetings_DeleteMeetingParticipant E i p)"
  using meetings.keyed_updateI' [OF mongo_drv(9) [OF assms]]
  by (simp_all add: Meetings_UpdateMeeting_def Meetings_UploadMeetingMinute_def
      Meetings_DeleteMeetingMinute_def Meetings_AddThread_def Meetings_AddMeetingParticipant_def
      Meetings_DeleteMeetingParticipant_def)

text \<open>
  The operations on one post, meeting or thread implement the abstract operations by ID: a read answers the
  document with the ID, a deletion removes that one, an update changes that one as its request
  says, all answer the document, leave everything else alone, and change nothing when they fail.
\<close>

theorem communications_refine:
  assumes "mongo_spec bad E"
  shows "keyed_read bad contents (Threads E) th_ID i (Threads_GetThread E i) \<and>
    keyed_delete bad contents (Posts E) po_ID i (\<lambda>w. w) (Posts_DeletePost E i) \<and>
    keyed_delete bad contents (Meetings E) me_ID i (\<lambda>w. w) (Meetings_DeleteMeeting E i) \<and>
    keyed_update bad contents (Threads E) th_ID i (\<lambda>_. True)
      (\<lambda>t. t\<lparr>th_Comments := addToSet p (th_Comments t)\<rparr>) (\<lambda>w. w) (Threads_AddCommentToThread E i p) \<and>
    keyed_update bad contents (Threads E) th_ID i (\<lambda>_. True)
      (\<lambda>t. t\<lparr>th_Comments := pull (\<lambda>c. c = p) (th_Comments t)\<rparr>) (\<lambda>w. w)
      (Threads_RemoveCommentFromThread E i p) \<and>
    keyed_update bad contents (Meetings E) me_ID i (\<lambda>_. True)
      (\<lambda>m. m\<lparr>me_Title := umd_Title d, me_Kind := meetingKind_of (umd_Kind d),
        me_Begin := umd_Begin d, me_End := umd_End d, me_Place := umd_Place d\<rparr>) (\<lambda>w. w)
      (Meetings_UpdateMeeting E d i) \<and>
    keyed_update bad contents (Meetings E) me_ID i (\<lambda>_. True)
      (\<lambda>m. m\<lparr>me_Communications := addToSet t (me_Communications m)\<rparr>) (\<lambda>w. w) (Meetings_AddThread E i t) \<and>
    keyed_update bad contents (Meetings E) me_ID i (\<lambda>_. True)
      (on_participants (\<lambda>ps. ps\<lparr>mp_Members := addToSet m (mp_Members ps)\<rparr>)) (\<lambda>w. w)
      (Meetings_AddMeetingParticipant E i \<lparr>mpd_Member = m, mpd_Type = ''MEMBER''\<rparr>) \<and>
    keyed_update bad contents (Meetings E) me_ID i (\<lambda>_. True)
      (on_participants (\<lambda>ps. ps\<lparr>mp_CompanyReps := pull (\<lambda>j. j = m) (mp_CompanyReps ps)\<rparr>)) (\<lambda>w. w)
      (Meetings_DeleteMeetingParticipant E i \<lparr>mpd_Member = m, mpd_Type = ''COMPANYREP''\<rparr>)"
  using keyed_meeting_updates(5,8) [OF assms, where p = "\<lparr>mpd_Member = m, mpd_Type = _\<rparr>" and i = i]
  by (intro conjI keyed_communication_reads keyed_communication_deletes keyed_thread_updates
      keyed_meeting_updates(1,4) assms) simp_all

section \<open>Creation of meetings\<close>

text \<open>
  C23: a meeting created from a request the parser lets through does not end before it begins, is of one of the
  three kinds, has no communications yet, and is stored as the request says. The parser panics, instead of answering
  an error, on exactly the otherwise complete requests that give no kind.
\<close>

theorem created_meeting_well_formed:
  assumes "mongo_spec bad E"
  shows "(CreateMeetingData_ParseBody (Inr d) = Inr d \<longrightarrow>
      created (\<lambda>e. bad e \<or> e = Fatal ''CreateMeeting'') contents (Meetings E) me_ID
        (\<lambda>i. meeting_of (the (cmd_Title d)) (the (cmd_Kind d)) (the (cmd_Begin d)) (the (cmd_End d))
           (the (cmd_Place d)) (cmd_Participants d) i) (\<lambda>w. w) (Meetings_CreateMeeting E d) \<and>
      wp (Meetings_CreateMeeting E d)
        (\<lambda>m w'. me_Begin m \<le> me_End m \<and> me_Kind m \<in> {EventMeeting, TeamMeeting, CompanyMeeting} \<and>
           me_Communications m = [] \<and> m \<in> set (w_meetings w'))
        (\<lambda>e w'. bad e \<or> e = Fatal ''CreateMeeting'') w) \<and>
    ((\<exists>s. CreateMeetingData_ParseBody (Inr d) = Inl (Panic s)) \<longleftrightarrow>
      cmd_Kind d = None \<and> cmd_Title d \<noteq> None \<and> cmd_Place d \<noteq> None \<and>
      (\<exists>b e. cmd_Begin d = Some b \<and> cmd_End d = Some e \<and> b \<le> e))"
proof (intro conjI impI)
  assume ok: "CreateMeetingData_ParseBody (Inr d) = Inr d"
  then obtain title kind b e place k where d: "cmd_Title d = Some title" "cmd_Kind d = Some kind"
    "cmd_Begin d = Some b" "cmd_End d = Some e" "cmd_Place d = Some place"
    and "b \<le> e" and k: "MeetingKind_Parse kind = Inr k"
    by (auto simp: CreateMeetingData_ParseBody_def CreateMeetingData_Validate_def
        split: option.splits if_splits sum.splits)
  have kinds: "meetingKind_of kind \<in> {EventMeeting, TeamMeeting, CompanyMeeting}"
    using k by (auto simp: meetingKind_of_def MeetingKind_Parse_def split: if_splits)
  show made: "created (\<lambda>e. bad e \<or> e = Fatal ''CreateMeeting'') contents (Meetings E) me_ID
        (\<lambda>i. meeting_of (the (cmd_Title d)) (the (cmd_Kind d)) (the (cmd_Begin d)) (the (cmd_End d))
           (the (cmd_Place d)) (cmd_Participants d) i) (\<lambda>w. w) (Meetings_CreateMeeting E d)"
    unfolding Meetings_CreateMeeting_def d deref_simps bindE_retE option.sel
    by (rule meetings.created_fatalI [OF mongo_drv(9) [OF assms]])
      (use mongo_spec_aborts [OF assms] in \<open>simp_all add: meeting_of_def\<close>)
  show "wp (Meetings_CreateMeeting E d)
        (\<lambda>m w'. me_Begin m \<le> me_End m \<and> me_Kind m \<in> {EventMeeting, TeamMeeting, CompanyMeeting} \<and>
           me_Communications m = [] \<and> m \<in> set (w_meetings w'))
        (\<lambda>e w'. bad e \<or> e = Fatal ''CreateMeeting'') w"
  proof (rule wp_created [OF made], goal_cases)
    case (1 i w')
    then show ?case using d kinds \<open>b \<le> e\<close> contents_eqD(9) [OF 1(2)] by (simp add: meeting_of_def)
  qed simp
next
  show "(\<exists>s. CreateMeetingData_ParseBody (Inr d) = Inl (Panic s)) \<longleftrightarrow>
      cmd_Kind d = None \<and> cmd_Title d \<noteq> None \<and> cmd_Place d \<noteq> None \<and>
      (\<exists>b e. cmd_Begin d = Some b \<and> cmd_End d = Some e \<and> b \<le> e)"
    by (auto simp: CreateMeetingData_ParseBody_def CreateMeetingData_Validate_def
        split: option.splits if_splits sum.splits)
qed

definition sample_meeting_data :: CreateMeetingData where
  "sample_meeting_data = \<lparr>cmd_Title = Some ''t'', cmd_Kind = Some ''TEAM'', cmd_Begin = Some 1,
     cmd_End = Some 2, cmd_Place = Some ''p'', cmd_Participants = None\<rparr>"

theorem created_meeting_well_formed_witness:
  "wp (Meetings_CreateMeeting local_env sample_meeting_data)
     (\<lambda>m w'. me_Kind m \<in> {EventMeeting, TeamMeeting, CompanyMeeting} \<and> m \<in> set (w_meetings w'))
     (\<lambda>e w'. e = Fatal ''CreateMeeting'') empty_world"
proof -
  have "CreateMeetingData_ParseBody (Inr sample_meeting_data) = Inr sample_meeting_data"
    by (simp add: CreateMeetingData_ParseBody_def CreateMeetingData_Validate_def sample_meeting_data_def
        MeetingKind_Parse_def)
  with created_meeting_well_formed [OF local_env_up, of sample_meeting_data empty_world]
  show ?thesis by (auto elim: wp_mono)
qed

section \<open>Worlds for the witnesses\<close>

text \<open>Thread 3, with post 1 and comment 2 and meeting 5, is a communication of company 4 and speaker 4.\<close>

definition sample_thread :: thread where
  "sample_thread = \<lparr>th_ID = 3, th_Posted = 0, th_Entry = 1, th_Meeting = Some 5, th_Comments = [2],
     th_Kind = ThreadKindMeeting, th_Status = ThreadStatusPending, th_GmailMessageId = []\<rparr>"

definition exchange_world :: world where
  "exchange_world = empty_world\<lparr>w_threads := [sample_thread],
     w_posts := map (post_of \<lparr>cpo_Member = 7, cpo_Text = ''x''\<rparr> 0) [1, 2, 8],
     w_meetings := [(meeting_of ''t'' ''TEAM'' 1 2 ''p'' None 5)\<lparr>me_Communications := [3]\<rparr>,
       (meeting_of ''t'' ''TEAM'' 1 2 ''p'' None 6)\<lparr>me_Communications := [9]\<rparr>]\<rparr>"

lemma exchange_world_simps [simp]:
  "w_threads exchange_world = [sample_thread]"
  "map po_ID (w_posts exchange_world) = [1, 2, 8]"
  "w_speakers exchange_world = []"
  "map me_ID (w_meetings exchange_world) = [5, 6]"
  "lookup th_ID [sample_thread] 3 = Some sample_thread"
  "th_ID sample_thread = 3" "th_Entry sample_thread = 1" "th_Meeting sample_thread = Some 5"
  "th_Comments sample_thread = [2]" "th_Kind sample_thread = ThreadKindMeeting"
  by (simp_all add: exchange_world_def sample_thread_def post_of_def meeting_of_def lookup_def)

theorem communications_refine_witness:
  "wp (Threads_AddCommentToThread local_env 3 8)
     (\<lambda>t w'. th_Comments t = [2, 8]) (\<lambda>e w'. w_threads w' = [sample_thread]) exchange_world"
  by (rule wp_keyed_update [OF communications_refine [OF local_env_up, THEN conjunct2, THEN conjunct2,
        THEN conjunct2, THEN conjunct1]])
    (auto simp: addToSet_def dest: contents_eqD(11))

section \<open>Deleting a thread\<close>

definition thread_posts :: "thread \<Rightarrow> oid set" where
  "thread_posts t = (if th_Entry t = NilObjectID then {} else {th_Entry t}) \<union> set (th_Comments t)"

text \<open>Some posts are gone: those in \<open>D\<close>.\<close>

definition without_posts :: "oid set \<Rightarrow> world \<Rightarrow> world" where
  "without_posts D w = w\<lparr>w_posts := filter (\<lambda>p. po_ID p \<notin> D) (w_posts w)\<rparr>"

lemma without_posts_simps [simp]:
  "without_posts {} w = w" "w_posts (without_posts D w) = filter (\<lambda>p. po_ID p \<notin> D) (w_posts w)"
  "without_posts D (without_posts C w) = without_posts (C \<union> D) w"
  by (simp_all add: without_posts_def)

lemma without_posts_remove:
  "v\<lparr>w_posts := remove_at po_ID i (w_posts v)\<rparr> = without_posts {i} v"
  by (simp add: without_posts_def remove_at_def)

lemma without_posts_absent: "i \<notin> po_ID ` set (w_posts w) \<Longrightarrow> without_posts {i} w = w"
  by (simp add: without_posts_def filter_neq_key)

lemma distinct_without_posts:
  "distinct (map po_ID (w_posts w)) \<Longrightarrow> distinct (map po_ID (w_posts (without_posts D w)))"
  by (simp add: distinct_map_filter)

text \<open>One post at a time: the ones that should be gone are, unless a command failed.\<close>

definition posts_gone :: "(err \<Rightarrow> bool) \<Rightarrow> world \<Rightarrow> oid set \<Rightarrow> world \<Rightarrow> bool" where
  "posts_gone bad w P w' \<longleftrightarrow> (\<exists>D \<subseteq> P. contents w' = without_posts D (contents w) \<and>
     ((\<forall>e. \<not> bad e) \<longrightarrow> D = P))"

lemma wp_delete_post_leniently:
  assumes "mongo_spec bad E" and "distinct (map po_ID (w_posts w))" and "posts_gone bad w P v"
  shows "wp (delete_post_leniently E i) (\<lambda>_. posts_gone bad w (insert i P))
     (\<lambda>e v'. bad e \<and> posts_gone bad w P v') v"
proof -
  obtain D where D: "D \<subseteq> P" "contents v = without_posts D (contents w)" "(\<forall>e. \<not> bad e) \<longrightarrow> D = P"
    using assms(3) by (auto simp: posts_gone_def)
  note posts = contents_eqD(12) [OF D(2)]
  have d: "distinct (map po_ID (docs_of (Posts E) v))"
    using assms(2) distinct_without_posts [of "contents w" D] by (simp add: posts)
  have lost: "posts_gone bad w (insert i P) v'" if "contents v' = contents v" "bad e" for v' e
    using that D(1,2) unfolding posts_gone_def by (intro exI [of _ D]) auto
  show ?thesis
    unfolding delete_post_leniently_def wp_onErr
  proof (rule wp_keyed_delete [OF keyed_communication_deletes(1) [OF assms(1)] d], goal_cases)
    case (1 x v')
    then have "contents v' = without_posts (insert i D) (contents w)"
      by (simp add: D(2) without_posts_def remove_at_def posts conj_commute)
    with D show ?case unfolding wp_retE posts_gone_def by (intro exI [of _ "insert i D"]) auto
  next
    case (2 e v')
    show ?case
    proof (cases "bad e")
      case True
      then show ?thesis
        using mongo_spec_outage [OF assms(1) True] lost [OF 2(1) True] assms(3) 2(1)
        by (cases e) (auto simp: posts_gone_def)
    next
      case False
      with 2 have e: "e = ErrNoDocuments" and "i \<notin> po_ID ` set (w_posts (contents v))"
        by (auto simp: lookup_None_iff)
      from without_posts_absent [OF this(2)] D(2)
      have "contents v' = without_posts (insert i D) (contents w)"
        using 2(1) by simp
      with D show ?thesis unfolding e posts_gone_def
        by (simp, intro exI [of _ "insert i D"]) auto
    qed
  qed
qed

lemma pull_absent: "i \<notin> set xs \<Longrightarrow> pull (\<lambda>t. t = i) xs = xs"
  by (induction xs) (auto simp: pull_def)

lemma map_forget_thread:
  "map (\<lambda>s. if \<exists>p \<in> set (s_Participations s). i \<in> set (sp_Communications p) then forget_thread i s else s) ss =
   map (forget_thread i) ss"
proof (intro map_cong refl)
  fix s :: speaker
  have "forget_thread i s = s" if "\<forall>p \<in> set (s_Participations s). i \<notin> set (sp_Communications p)"
    using that by (auto simp: forget_thread_def pull_absent intro!: map_idI speaker.equality
        speakerParticipation.equality)
  then show "(if \<exists>p \<in> set (s_Participations s). i \<in> set (sp_Communications p) then forget_thread i s else s) =
      forget_thread i s" by auto
qed

text \<open>The thread is taken from the speakers of \<open>part\<close>: an update of many that fails may have reached some of them.\<close>

definition forget_in :: "oid \<Rightarrow> (speaker \<Rightarrow> bool) \<Rightarrow> speaker list \<Rightarrow> speaker list" where
  "forget_in i part ss = map (\<lambda>s. if part s then forget_thread i s else s) ss"

lemma map_forget_in:
  "map (\<lambda>s. if (\<exists>p \<in> set (s_Participations s). i \<in> set (sp_Communications p)) \<and> part s then forget_thread i s else s) ss =
   forget_in i part ss"
  using map_forget_thread [of i ss] unfolding forget_in_def by (simp add: map_eq_conv)

lemma posts_gone_refl: "posts_gone bad w {} w' \<longleftrightarrow> contents w' = contents w"
  by (auto simp: posts_gone_def)

lemma wp_delete_posts:
  assumes "mongo_spec bad E" and "distinct (map po_ID (w_posts w))" and "posts_gone bad w P v"
  shows "wp (forE is (delete_post_leniently E)) (\<lambda>_. posts_gone bad w (P \<union> set is))
     (\<lambda>e v'. bad e \<and> (\<exists>Q \<subseteq> P \<union> set is. posts_gone bad w Q v')) v"
proof (rule wp_forE [where I = "\<lambda>done. posts_gone bad w (P \<union> set done)"], goal_cases)
  case (2 ys x zs t)
  show ?case
    by (rule wp_mono [OF wp_delete_post_leniently [OF assms(1,2) 2(2), of x]]) (use 2(1) in auto)
qed (simp_all add: assms(3))

text \<open>
  C21: deleting a thread. When it answers, the thread is gone, and so are its entry and its comments
  and the mentions of it in the participations of speakers, all of them if no command failed. A delete of a
  post that the server refuses is overlooked, and so is a failed update of the speakers, which is not atomic: then
  some posts stay, and some speakers may go on naming the thread while others have lost it. Nothing else changes:
  companies and meetings go on naming the thread in any case. When it fails after the thread is gone, which only a failed command can bring
  about, the speakers are as before and some of the posts may be left without a thread.
\<close>

theorem DeleteThread_correct:
  assumes "mongo_spec bad E" and "distinct (map th_ID (w_threads w))" and "distinct (map po_ID (w_posts w))"
  shows "wp (Threads_DeleteThread E i)
     (\<lambda>t w'. lookup th_ID (w_threads w) i = Some t \<and>
        (\<exists>D \<subseteq> thread_posts t. \<exists>part ss. ss = forget_in i part (w_speakers w) \<and>
          contents w' = (without_posts D (contents w))\<lparr>w_threads := remove_at th_ID i (w_threads w),
            w_speakers := ss\<rparr> \<and>
          ((\<forall>e. \<not> bad e) \<longrightarrow> D = thread_posts t \<and> ss = map (forget_thread i) (w_speakers w))))
     (\<lambda>e w'. contents w' = contents w \<and> (bad e \<or> e = ErrNoDocuments \<and> lookup th_ID (w_threads w) i = None) \<or>
        bad e \<and> (\<exists>t. lookup th_ID (w_threads w) i = Some t \<and> (\<exists>D \<subseteq> thread_posts t.
          contents w' = (without_posts D (contents w))\<lparr>w_threads := remove_at th_ID i (w_threads w)\<rparr>))) w"
  unfolding Threads_DeleteThread_def wp_bindE
proof (rule wp_keyed_delete [OF threads.keyed_deleteI [OF mongo_drv(11) [OF assms(1)]]], goal_cases)
  case 1
  then show ?case using assms(2) by simp
next
  case (2 t w1)
  let ?w = "(contents w)\<lparr>w_threads := remove_at th_ID i (w_threads w)\<rparr>"
  let ?R = "\<lambda>e v. bad e \<and> (\<exists>P \<subseteq> thread_posts t. posts_gone bad ?w P v)"
  have d: "distinct (map po_ID (w_posts ?w))" using assms(3) by simp
  have start: "posts_gone bad ?w {} w1" using 2(2) by (simp add: posts_gone_refl)
  have move: "without_posts D ?w = (without_posts D (contents w))\<lparr>w_threads := remove_at th_ID i (w_threads w)\<rparr>" for D
    by (simp add: without_posts_def)
  have failed: "bad e \<and> (\<exists>t. lookup th_ID (w_threads w) i = Some t \<and> (\<exists>D \<subseteq> thread_posts t.
          contents v = (without_posts D (contents w))\<lparr>w_threads := remove_at th_ID i (w_threads w)\<rparr>))"
    if "?R e v" for e v
    using that 2(1) move unfolding posts_gone_def by auto blast
  note found = 2(1) [simplified]
  let ?P = "if th_Entry t = NilObjectID then {} else {th_Entry t}"
  have entry: "wp (if th_Entry t \<noteq> NilObjectID then delete_post_leniently E (th_Entry t) else retE ())
      (\<lambda>_. posts_gone bad ?w ?P) ?R w1"
  proof (cases "th_Entry t = NilObjectID")
    case False
    then have "wp (delete_post_leniently E (th_Entry t)) (\<lambda>_. posts_gone bad ?w ?P) ?R w1"
      by (intro wp_mono [OF wp_delete_post_leniently [OF assms(1) d start]]) auto
    with False show ?thesis by (simp only: if_True not_False_eq_True)
  qed (simp add: start)
  show ?case
  proof (rule wp_mono [OF entry], goal_cases)
    case (1 u w2)
    show ?case
    proof (rule wp_mono [OF wp_delete_posts [OF assms(1) d 1, of "th_Comments t"]], goal_cases)
      case (1 u w3)
      then obtain D where D: "D \<subseteq> thread_posts t" "contents w3 = without_posts D ?w"
        "(\<forall>e. \<not> bad e) \<longrightarrow> D = thread_posts t"
        by (auto simp: posts_gone_def thread_posts_def)
      have ss: "w_speakers w3 = w_speakers w"
        using contents_eqD(2) [OF D(2)] by (simp add: without_posts_def)
      show ?case
        unfolding wp_discardE
      proof (rule wp_UpdateMany [OF mongo_drv(2) [OF assms(1)]], goal_cases)
        case 1
        have "contents (put_docs (Speakers E) (map (\<lambda>s. if \<exists>p \<in> set (s_Participations s).
              i \<in> set (sp_Communications p) then forget_thread i s else s) (docs_of (Speakers E) w3))
              (tick (Speakers E) w3)) =
            (without_posts D (contents w))\<lparr>w_threads := remove_at th_ID i (w_threads w),
              w_speakers := map (forget_thread i) (w_speakers w)\<rparr>"
          by (simp add: map_forget_thread ss D(2) [unfolded move])
        moreover have "map (forget_thread i) (w_speakers w) = forget_in i (\<lambda>_. True) (w_speakers w)"
          by (simp add: forget_in_def)
        ultimately show ?case using found D(1,3) unfolding wp_retE by blast
      next
        case (2 e part)
        have "contents (put_docs (Speakers E) (forget_in i part (docs_of (Speakers E) w3)) (tick (Speakers E) w3)) =
            (without_posts D (contents w))\<lparr>w_threads := remove_at th_ID i (w_threads w),
              w_speakers := forget_in i part (w_speakers w)\<rparr>"
          by (simp add: ss D(2) [unfolded move] without_posts_def)
        then show ?case
          using found D(1) 2 mongo_spec_aborts [OF assms(1) 2] unfolding wp_retE map_forget_in by auto
      qed
    next
      case (2 e w3)
      then show ?case using failed [of e w3] by (auto simp: thread_posts_def)
    qed
  next
    case (2 e w2)
    then show ?case using failed [of e w2] by simp
  qed
next
  case (3 e w1)
  then show ?case by simp
qed

text \<open>Thread 3 goes with posts 1 and 2; post 8 and both meetings stay, and meeting 5 still names the thread.\<close>

theorem DeleteThread_correct_witness:
  "wp (Threads_DeleteThread local_env 3)
     (\<lambda>t w'. w_threads w' = [] \<and> map po_ID (w_posts w') = [8] \<and>
        map me_Communications (w_meetings w') = [[3], [9]]) (\<lambda>e w'. False) exchange_world"
proof (rule wp_mono [OF DeleteThread_correct [OF local_env_up]], goal_cases)
  case (3 t w')
  have t: "t = sample_thread" and D: "thread_posts sample_thread = {1, 2}"
    using 3 by (auto simp: thread_posts_def NilObjectID_def)
  from 3 have "contents w' = (without_posts {1, 2} (contents exchange_world))\<lparr>w_threads :=
      remove_at th_ID 3 [sample_thread], w_speakers := []\<rparr>"
    unfolding t D by (auto simp: forget_in_def)
  from contents_eqD(11) [OF this] contents_eqD(12) [OF this] contents_eqD(9) [OF this] show ?case
    by (simp add: remove_at_def exchange_world_def post_of_def without_posts_def meeting_of_def)
qed simp_all

section \<open>Taking a thread from a meeting\<close>

lemma without_thread: "without_thread t pre ss = (if t \<in> set ss then pre @ remove1 t ss else [])"
  by (induction t pre ss rule: without_thread.induct) auto

definition names_thread :: "oid \<Rightarrow> meeting \<Rightarrow> bool" where
  "names_thread t m \<longleftrightarrow> t \<in> set (me_Communications m)"

lemma wp_Meetings_FindThread:
  assumes "mongo_spec bad E"
    and "\<And>r w'. contents w' = contents w \<Longrightarrow>
      (case r of Some m \<Rightarrow> m \<in> set (w_meetings w) \<and> names_thread t m
       | None \<Rightarrow> (\<forall>e. \<not> bad e) \<longrightarrow> (\<forall>m \<in> set (w_meetings w). \<not> names_thread t m)) \<Longrightarrow> Q r w'"
    and "\<And>e w'. contents w' = contents w \<Longrightarrow> bad e \<Longrightarrow> R e w'"
  shows "wp (Meetings_FindThread E t) Q R w"
  unfolding Meetings_FindThread_def wp_bindE wp_retE
proof (rule wp_FindUnchecked_set [OF mongo_drv(9) [OF assms(1)]], goal_cases)
  case (1 ms)
  show ?case
    by (rule assms(2)) (use 1 in \<open>fastforce simp: names_thread_def split: list.split\<close>)+
next
  case (2 e)
  then show ?case by (intro assms(3)) simp_all
qed

text \<open>
  Taking a thread from a meeting. The search that guards the change looks in every meeting, the change is
  made to the meeting named: when some meeting names the thread but this one does not, this one loses all
  its communications. When it does, exactly the first mention goes. When no meeting names the
  thread nothing changes and the answer is nil, without an error.
\<close>

theorem DeleteMeetingThread_wipes:
  assumes "mongo_spec bad E" and "distinct (map me_ID (w_meetings w))"
  shows "wp (Meetings_DeleteMeetingThread E i t)
     (\<lambda>r w'. \<exists>m. lookup me_ID (w_meetings w) i = Some m \<and>
        (case r of
           None \<Rightarrow> contents w' = contents w \<and>
             ((\<forall>e. \<not> bad e) \<longrightarrow> (\<forall>m' \<in> set (w_meetings w). \<not> names_thread t m'))
         | Some y \<Rightarrow> (\<exists>m' \<in> set (w_meetings w). names_thread t m') \<and>
             y = m\<lparr>me_Communications := if names_thread t m then remove1 t (me_Communications m) else []\<rparr> \<and>
             contents w' = (contents w)\<lparr>w_meetings := update_at me_ID i (\<lambda>_. y) (w_meetings w)\<rparr>))
     (\<lambda>e w'. contents w' = contents w \<and>
        (bad e \<or> e = ErrNoDocuments \<and> lookup me_ID (w_meetings w) i = None)) w"
  unfolding Meetings_DeleteMeetingThread_def wp_bindE
proof (rule wp_keyed_read [OF keyed_communication_reads(2) [OF assms(1)]], goal_cases)
  case 1
  then show ?case using assms(2) by simp
next
  case (2 m w1)
  note ms = contents_eqD(9) [OF 2(2)]
  show ?case
  proof (rule wp_Meetings_FindThread [OF assms(1)], goal_cases)
    case (1 r w2)
    show ?case
    proof (cases r)
      case None
      with 1 2 ms show ?thesis by simp
    next
      case (Some m')
      let ?u = "\<lambda>d. d\<lparr>me_Communications := without_thread t [] (me_Communications m)\<rparr>"
      have ms2: "w_meetings w2 = w_meetings w" using contents_eqD(9) [OF 1(1)] ms by simp
      have same: "update_at me_ID i ?u (w_meetings w) = update_at me_ID i (\<lambda>_. ?u m) (w_meetings w)"
        using assms(2) 2(1) unfolding update_at_def
        by (intro map_cong refl) (auto dest: lookup_in)
      show ?thesis
        unfolding Some option.case wp_bindE
        by (rule wp_keyed_update [OF meetings.keyed_updateI' [OF mongo_drv(9) [OF assms(1)], of i ?u]])
          (use 1 2 ms ms2 same assms(2) Some in \<open>auto simp: without_thread names_thread_def\<close>)
    qed
  next
    case (2 e w2)
    then show ?case using \<open>contents w1 = contents w\<close> by simp
  qed
qed auto

text \<open>Meeting 6 loses thread 9 when asked for thread 3, which is one of meeting 5.\<close>

theorem DeleteMeetingThread_wipes_witness:
  "wp (Meetings_DeleteMeetingThread local_env 6 3)
     (\<lambda>r w'. \<exists>y. r = Some y \<and> me_Communications y = []) (\<lambda>e w'. False) exchange_world"
  by (rule wp_mono [OF DeleteMeetingThread_wipes [OF local_env_up]])
    (auto simp: exchange_world_def lookup_def names_thread_def meeting_of_def split: option.splits)

section \<open>Updating a thread\<close>

definition set_thread :: "UpdateThreadData \<Rightarrow> thread \<Rightarrow> thread" where
  "set_thread d t = t\<lparr>th_Kind := utd_Kind d,
     th_Meeting := (case utd_Meeting d of Some m \<Rightarrow> Some m | None \<Rightarrow> th_Meeting t)\<rparr>"

definition without_meeting :: "oid option \<Rightarrow> world \<Rightarrow> world" where
  "without_meeting m w = (case m of None \<Rightarrow> w
     | Some i \<Rightarrow> w\<lparr>w_meetings := remove_at me_ID i (w_meetings w)\<rparr>)"

text \<open>The update document, whichever of the two is built.\<close>

definition thread_update :: "env \<Rightarrow> UpdateThreadData \<Rightarrow> (world, thread \<Rightarrow> thread) smonad" where
  "thread_update E d = (case utd_Meeting d of
       Some meeting \<Rightarrow> bindE (Meetings_GetMeeting E meeting) (\<lambda>_.
         retE (\<lambda>t. t\<lparr>th_Meeting := Some meeting, th_Kind := utd_Kind d\<rparr>))
     | None \<Rightarrow> retE (\<lambda>t. t\<lparr>th_Kind := utd_Kind d\<rparr>))"

lemma wp_thread_update:
  assumes "mongo_spec bad E" and "distinct (map me_ID (w_meetings w))"
    and "\<And>w'. contents w' = contents w \<Longrightarrow>
      (\<forall>m. utd_Meeting d = Some m \<longrightarrow> lookup me_ID (w_meetings w) m \<noteq> None) \<Longrightarrow> Q (set_thread d) w'"
    and "\<And>e w'. contents w' = contents w \<Longrightarrow> bad e \<or> e = ErrNoDocuments \<Longrightarrow> R e w'"
  shows "wp (thread_update E d) Q R w"
proof (cases "utd_Meeting d")
  case None
  then have "set_thread d = (\<lambda>t. t\<lparr>th_Kind := utd_Kind d\<rparr>)" by (auto simp: set_thread_def)
  with None assms(3) [of w] show ?thesis by (simp add: thread_update_def)
next
  case (Some m)
  have "(\<lambda>t. t\<lparr>th_Meeting := Some m, th_Kind := utd_Kind d\<rparr>) = set_thread d"
    using Some by (auto simp: set_thread_def)
  then show ?thesis
    unfolding thread_update_def Some option.case wp_bindE wp_retE
    by (intro wp_keyed_read [OF keyed_communication_reads(2) [OF assms(1)]])
      (auto simp: assms(2) Some intro: assms(3,4))
qed

text \<open>
  Updating a thread. It is let through when the kind the thread already has is valid, whatever the new
  one is; the new kind is stored, the new meeting when one is given, and the old meeting is deleted.
  So a thread that keeps its meeting, because none is given or the same one is, is left naming
  a meeting that is gone. When the old meeting is not there the answer is an error after the thread has been changed.
\<close>

theorem UpdateThread_drops_meeting:
  assumes "mongo_spec bad E" and "distinct (map th_ID (w_threads w))" and "distinct (map me_ID (w_meetings w))"
  shows "wp (Threads_UpdateThread E i d)
     (\<lambda>y w'. \<exists>t. lookup th_ID (w_threads w) i = Some t \<and> ThreadKind_IsValid (th_Kind t) \<and> y = set_thread d t \<and>
        contents w' = without_meeting (th_Meeting t)
          ((contents w)\<lparr>w_threads := update_at th_ID i (set_thread d) (w_threads w)\<rparr>) \<and>
        (\<forall>m. th_Meeting t = Some m \<and> utd_Meeting d \<in> {None, Some m} \<longrightarrow>
           th_Meeting y = Some m \<and> lookup me_ID (w_meetings w') m = None))
     (\<lambda>e w'. contents w' = contents w \<or>
        contents w' = (contents w)\<lparr>w_threads := update_at th_ID i (set_thread d) (w_threads w)\<rparr> \<and>
        (bad e \<or> e = ErrNoDocuments)) w"
  unfolding Threads_UpdateThread_def wp_bindE
proof (rule wp_keyed_read [OF keyed_communication_reads(3) [OF assms(1)]], goal_cases)
  case 1
  then show ?case using assms(2) by simp
next
  case (2 t w1)
  note same = 2(2) and found = 2(1) [simplified]
  show ?case
  proof (cases "ThreadKind_IsValid (th_Kind t)")
    case False
    with same show ?thesis by simp
  next
    case True
    show ?thesis
    proof (simp only: True not_True_eq_False if_False wp_bindE thread_update_def [symmetric],
        rule wp_thread_update [OF assms(1)], goal_cases)
      case 1
      then show ?case using assms(3) contents_eqD(9) [OF same] by simp
    next
      case (2 w2)
      note ths = contents_eqD(11) [OF 2(1)] contents_eqD(11) [OF same]
      let ?w = "(contents w)\<lparr>w_threads := update_at th_ID i (set_thread d) (w_threads w)\<rparr>"
      show ?case
      proof (rule wp_keyed_update [OF threads.keyed_updateI' [OF mongo_drv(11) [OF assms(1)], of i "set_thread d"]], goal_cases)
        case 1
        then show ?case using assms(2) ths by simp
      next
        case (2 x w3)
        have x: "x = t" and w3: "contents w3 = ?w"
          using 2 ths found same \<open>contents w2 = contents w1\<close> by simp_all
        show ?case
        proof (cases "th_Meeting t")
          case None
          then show ?thesis using x w3 True found by (simp add: without_meeting_def)
        next
          case (Some m)
          show ?thesis
            unfolding Some option.case wp_bindE x
            by (rule wp_keyed_delete [OF keyed_communication_deletes(2) [OF assms(1)]])
              (use w3 True found Some assms(3) contents_eqD(9) [OF w3] in
                \<open>auto simp: without_meeting_def set_thread_def lookup_remove_at dest!: contents_eqD(9)\<close>)
        qed
      next
        case (3 e w3)
        then show ?case using same \<open>contents w2 = contents w1\<close> by simp
      qed
    next
      case (3 e w2)
      then show ?case using same by simp
    qed
  qed
next
  case (3 e w1)
  then show ?case by simp
qed

text \<open>Only the kind of thread 3 is changed, and its meeting is deleted under it.\<close>

theorem UpdateThread_drops_meeting_witness:
  "wp (Threads_UpdateThread local_env 3 \<lparr>utd_Meeting = None, utd_Kind = ThreadKindTo\<rparr>)
     (\<lambda>y w'. th_Meeting y = Some 5 \<and> lookup me_ID (w_meetings w') 5 = None) (\<lambda>e w'. True) exchange_world"
  by (rule wp_mono [OF UpdateThread_drops_meeting [OF local_env_up]]) (auto simp: set_thread_def)

section \<open>Listing meetings\<close>

text \<open>
  The meetings asked for, as a query on the stored documents: those of the communications that are
  meetings. A communication of another kind has none.
\<close>

definition meeting_in_thread :: "thread \<Rightarrow> oid list" where
  "meeting_in_thread t = (if th_Kind t = ThreadKindMeeting
     then (case th_Meeting t of Some m \<Rightarrow> [m] | None \<Rightarrow> []) else [])"

definition stored_thread :: "world \<Rightarrow> oid \<Rightarrow> thread" where
  "stored_thread w i = the (lookup th_ID (w_threads w) i)"

definition meetings_of_threads :: "world \<Rightarrow> oid list \<Rightarrow> oid list" where
  "meetings_of_threads w ts = concat (map (meeting_in_thread \<circ> stored_thread w) ts)"

definition in_event :: "int option \<Rightarrow> companyParticipation \<Rightarrow> bool" where
  "in_event ev p \<longleftrightarrow> ev = None \<or> ev = Some (cp_Event p)"

definition asked_threads :: "int option \<Rightarrow> companyParticipation list \<Rightarrow> oid list" where
  "asked_threads ev ps = concat (map cp_Communications (filter (in_event ev) ps))"

definition threads_stored :: "world \<Rightarrow> oid list \<Rightarrow> bool" where
  "threads_stored w ts \<longleftrightarrow> set ts \<subseteq> th_ID ` set (w_threads w)"

definition listing_error :: "(err \<Rightarrow> bool) \<Rightarrow> err \<Rightarrow> bool" where
  "listing_error bad e \<longleftrightarrow> bad e \<or> e = ErrNoDocuments \<or> e = Panic ''nil pointer dereference''"

lemma listing_errors [simp]: "bad e \<Longrightarrow> listing_error bad e" "listing_error bad ErrNoDocuments"
  by (simp_all add: listing_error_def)

lemma wp_thread_meetings:
  assumes "mongo_spec bad E" and "distinct (map th_ID (w_threads w))" and "contents v = contents w"
  shows "wp (thread_meetings E ts ms)
     (\<lambda>r v'. contents v' = contents w \<and> r = ms @ meetings_of_threads w ts \<and> threads_stored w ts)
     (\<lambda>e v'. contents v' = contents w \<and> listing_error bad e) v"
  using assms(3)
proof (induction ts arbitrary: ms v)
  case Nil
  then show ?case by (simp add: meetings_of_threads_def threads_stored_def)
next
  case (Cons i ts)
  note ths = contents_eqD(11) [OF Cons.prems]
  show ?case
    unfolding thread_meetings.simps wp_bindE
  proof (rule wp_keyed_read [OF keyed_communication_reads(3) [OF assms(1)]], goal_cases)
    case 1
    then show ?case using assms(2) ths by simp
  next
    case (2 t v')
    then have t: "stored_thread w i = t" "i \<in> th_ID ` set (w_threads w)"
      using ths by (auto simp: stored_thread_def dest!: lookup_Some_in)
    have v': "contents v' = contents w" using 2 Cons.prems by simp
    show ?case
    proof (cases "th_Kind t = ThreadKindMeeting")
      case False
      then show ?thesis
        using wp_mono [OF Cons.IH [OF v', of ms]] t
        by (simp add: meetings_of_threads_def meeting_in_thread_def threads_stored_def)
    next
      case True
      show ?thesis
      proof (cases "th_Meeting t")
        case None
        with True v' show ?thesis by (simp add: listing_error_def)
      next
        case (Some m)
        with True show ?thesis
          using wp_mono [OF Cons.IH [OF v', of "ms @ [m]"]] t
          by (simp add: meetings_of_threads_def meeting_in_thread_def threads_stored_def)
      qed
    qed
  next
    case (3 e v')
    then show ?case using Cons.prems by auto
  qed
qed

lemma wp_company_meetings:
  assumes "mongo_spec bad E" and "distinct (map th_ID (w_threads w))" and "contents v = contents w"
  shows "wp (company_meetings E ev ps ms)
     (\<lambda>r v'. contents v' = contents w \<and> r = ms @ meetings_of_threads w (asked_threads ev ps) \<and>
        threads_stored w (asked_threads ev ps))
     (\<lambda>e v'. contents v' = contents w \<and> listing_error bad e) v"
  using assms(3)
proof (induction ps arbitrary: ms v)
  case Nil
  then show ?case by (simp add: meetings_of_threads_def asked_threads_def threads_stored_def)
next
  case (Cons p ps)
  show ?case
  proof (cases "in_event ev p")
    case False
    then show ?thesis
      using Cons.IH [OF Cons.prems, of ms] by (auto simp: asked_threads_def in_event_def)
  next
    case True
    then have "company_meetings E ev (p # ps) ms =
        bindE (thread_meetings E (cp_Communications p) ms) (company_meetings E ev ps)"
      by (auto simp: in_event_def)
    moreover have "asked_threads ev (p # ps) = cp_Communications p @ asked_threads ev ps"
      using True by (simp add: asked_threads_def)
    ultimately show ?thesis
      unfolding wp_bindE
      by (simp, intro wp_mono [OF wp_thread_meetings [OF assms(1,2) Cons.prems]],
          elim conjE, intro wp_mono [OF Cons.IH])
        (auto simp: meetings_of_threads_def threads_stored_def)
  qed
qed

definition listed :: "world \<Rightarrow> oid list \<Rightarrow> meeting list \<Rightarrow> bool" where
  "listed w is ms \<longleftrightarrow> map (lookup me_ID (w_meetings w)) is = map Some ms"

lemma wp_get_meetings:
  assumes "mongo_spec bad E" and "distinct (map me_ID (w_meetings w))" and "contents v = contents w"
    and "listed w js ms"
  shows "wp (get_meetings E is ms) (\<lambda>r v'. contents v' = contents w \<and> listed w (js @ is) r)
     (\<lambda>e v'. contents v' = contents w \<and> listing_error bad e) v"
  using assms(3,4)
proof (induction "is" arbitrary: js ms v)
  case Nil
  then show ?case by simp
next
  case (Cons i "is")
  show ?case
    unfolding get_meetings.simps wp_bindE
  proof (rule wp_keyed_read [OF keyed_communication_reads(2) [OF assms(1)]], goal_cases)
    case 1
    then show ?case using assms(2) contents_eqD(9) [OF Cons.prems(1)] by simp
  next
    case (2 m v')
    have "listed w (js @ [i]) (ms @ [m])"
      using 2(1) Cons.prems(2) contents_eqD(9) [OF Cons.prems(1)] by (simp add: listed_def)
    from Cons.IH [OF _ this, of v'] 2(2) Cons.prems(1) show ?case by simp
  next
    case (3 e v')
    then show ?case using Cons.prems by auto
  qed
qed

text \<open>What a list of meetings must be, for each combination of the options.\<close>

definition meetings_answer :: "world \<Rightarrow> GetMeetingsOptions \<Rightarrow> meeting list \<Rightarrow> bool" where
  "meetings_answer w opts ms \<longleftrightarrow>
     (case (gmo_Team opts, gmo_Company opts, gmo_Event opts) of
        (Some t, None, None) \<Rightarrow> (\<exists>team. lookup team_ID (w_teams w) t = Some team \<and> listed w (team_Meetings team) ms)
      | (Some t, _, _) \<Rightarrow> ms = []
      | (None, Some c, ev) \<Rightarrow> (\<exists>company. lookup co_ID (w_companies w) c = Some company \<and>
          threads_stored w (asked_threads ev (co_Participations company)) \<and>
          listed w (meetings_of_threads w (asked_threads ev (co_Participations company))) ms)
      | (None, None, Some e) \<Rightarrow> (\<exists>event. lookup ev_ID (w_events w) e = Some event \<and> listed w (ev_Meetings event) ms)
      | (None, None, None) \<Rightarrow> mset ms = mset (w_meetings w))"

lemma listed_nil: "listed w [] []"
  by (simp add: listed_def)

lemmas wp_get_listed = wp_get_meetings [OF _ _ _ listed_nil, simplified append_Nil]

text \<open>
  C22: the meetings of a team, of a company (in one event or in all), of an event, or all of them. The answer is exactly
  the stored meetings the document names, in its order: those of a company are the meetings of the
  communications of its participations. A team combined with another option gives none. One
  reference to a thread or a meeting that is gone makes the whole request fail, so a company keeps no
  readable list once one of its threads has been deleted.
\<close>

theorem GetMeetings_correct:
  assumes "mongo_spec bad E" and "ids_ok w"
  shows "wp (Meetings_GetMeetings E opts) (\<lambda>ms w'. contents w' = contents w \<and> meetings_answer w opts ms)
     (\<lambda>e w'. contents w' = contents w \<and> listing_error bad e) w"
proof (cases "gmo_Team opts")
  case team: (Some t)
  show ?thesis
  proof (cases "gmo_Event opts \<noteq> None \<or> gmo_Company opts \<noteq> None")
    case True
    with team show ?thesis
      by (auto simp: Meetings_GetMeetings_def meetings_answer_def split: option.split)
  next
    case False
    with team show ?thesis
      unfolding Meetings_GetMeetings_def
      by (simp, intro wp_keyed_read [OF keyed_communication_reads(4) [OF assms(1)]])
        (auto simp: meetings_answer_def ids_okD [OF assms(2)]
          intro!: wp_mono [OF wp_get_listed [OF assms(1) ids_okD(9) [OF assms(2)]]])
  qed
next
  case no_team: None
  show ?thesis
  proof (cases "gmo_Company opts")
    case company: (Some c)
    show ?thesis
      unfolding Meetings_GetMeetings_def no_team company option.case wp_bindE
    proof (rule wp_keyed_read [OF keyed_lookups(1) [OF assms(1)]], goal_cases)
      case 1
      then show ?case by (simp add: ids_okD [OF assms(2)])
    next
      case (2 x w1)
      show ?case
      proof (rule wp_mono [OF wp_company_meetings [OF assms(1) ids_okD(11) [OF assms(2)] 2(2)]], goal_cases)
        case (1 js w2)
        then show ?case
          by (intro wp_mono [OF wp_get_listed [OF assms(1) ids_okD(9) [OF assms(2)]]])
            (use 2(1) no_team company in \<open>auto simp: meetings_answer_def\<close>)
      qed simp
    qed auto
  next
    case no_company: None
    show ?thesis
    proof (cases "gmo_Event opts")
      case (Some e)
      with no_team no_company show ?thesis
        unfolding Meetings_GetMeetings_def
        by (simp, intro wp_keyed_read [OF keyed_GetEvent [OF assms(1)]])
          (auto simp: meetings_answer_def ids_okD [OF assms(2)]
            intro!: wp_mono [OF wp_get_listed [OF assms(1) ids_okD(9) [OF assms(2)]]])
    next
      case None
      with no_team no_company show ?thesis
        unfolding Meetings_GetMeetings_def
        by (simp, intro wp_Find [OF mongo_drv(9) [OF assms(1)]]) (auto simp: meetings_answer_def)
    qed
  qed
qed

text \<open>Meeting 5 is the one of event 1; a company that names thread 9, which does not exist, has no list.\<close>

definition listing_world :: world where
  "listing_world = exchange_world\<lparr>w_events := [(new_event 1 ''e'')\<lparr>ev_Meetings := [5]\<rparr>]\<rparr>"

theorem GetMeetings_correct_witness:
  "wp (Meetings_GetMeetings local_env \<lparr>gmo_Event = Some 1, gmo_Team = None, gmo_Company = None\<rparr>)
     (\<lambda>ms w'. map me_ID ms = [5]) (\<lambda>e w'. e = ErrNoDocuments \<or> e = Panic ''nil pointer dereference'') listing_world"
proof (rule wp_mono [OF GetMeetings_correct [OF local_env_up]], goal_cases)
  case 1
  show ?case
    by (simp add: ids_ok_def listing_world_def exchange_world_def sample_thread_def post_of_def meeting_of_def)
next
  case (2 ms w')
  then show ?case
    by (auto simp: meetings_answer_def listed_def listing_world_def exchange_world_def lookup_def meeting_of_def
        split: if_splits)
next
  case (3 e w')
  then show ?case by (simp add: listing_error_def)
qed

end
