(* ===== verification/Teams.thy ===== *)
theory Teams
  imports CommunicationProperties
begin

text \<open>
  \<^verbatim>\<open>backend/src/mongodb/team.go\<close>, and the search for members of \<^verbatim>\<open>mongodb/member.go\<close> that \<open>GetTeams\<close>
  calls: teams of the current event, their members with their roles, and their meetings.
  (\<open>GetTeam\<close> is in theory Communications, which needs it first.)
\<close>

section \<open>Searching for members\<close>

record GetMemberOptions =
  gmbo_Name :: "string option"
  gmbo_Event :: "int option"

text \<open>
  The aggregation of \<open>GetMembers\<close>. With a name it only matches the name; the stage that asks for the event then
  finds no \<^verbatim>\<open>event\<close> in the documents. Without one it joins the teams of the member and the events of the teams.
  Grouping by \<^verbatim>\<open>_id\<close> leaves each member once, in no particular order.
\<close>

definition members_filter :: "env \<Rightarrow> world \<Rightarrow> GetMemberOptions \<Rightarrow> member \<Rightarrow> bool" where
  "members_filter E w options m =
     (let nameFilter = (case gmbo_Name options of None \<Rightarrow> [] | Some n \<Rightarrow> n) in
      env_regex_i E (''.*'' @ nameFilter @ ''.*'') (mb_Name m) \<and>
      (if length nameFilter > 0 then gmbo_Event options = None
       else (\<exists>t \<in> set (w_teams w). mb_ID m \<in> tm_Member ` set (team_Members t) \<and>
         (\<exists>e \<in> set (w_events w). team_ID t \<in> set (ev_Teams e) \<and>
           (case gmbo_Event options of None \<Rightarrow> True | Some ev \<Rightarrow> ev_ID e = ev)))))"

definition Members_GetMembers :: "env \<Rightarrow> GetMemberOptions \<Rightarrow> (world, member list) smonad" where
  "Members_GetMembers E options =
     bindE (getsE (\<lambda>w. members_filter E w options)) (\<lambda>f. Find (Members E) f)"

section \<open>Requests\<close>

record CreateTeamData =
  ctm_Name :: string

record GetTeamsOptions =
  gto_Name :: "string option"
  gto_Event :: "int option"
  gto_Member :: "oid option"
  gto_MemberName :: "string option"

record UpdateTeamMemberData =
  utm_Role :: "teamRole option"

record CreateTeamMemberData =
  ctmm_Member :: oid
  ctmm_Role :: teamRole

definition CreateTeamData_ParseBody :: "err + CreateTeamData \<Rightarrow> err + CreateTeamData" where
  "CreateTeamData_ParseBody body = (case body of
     Inl e \<Rightarrow> Inl e
   | Inr ctd \<Rightarrow> if length (ctm_Name ctd) = 0 then Inl (Err ''invalid name'') else Inr ctd)"

text \<open>The role is followed without a check.\<close>

definition UpdateTeamMemberData_ParseBody ::
  "err + UpdateTeamMemberData \<Rightarrow> err + UpdateTeamMemberData" where
  "UpdateTeamMemberData_ParseBody body = (case body of
     Inl e \<Rightarrow> Inl e
   | Inr utmd \<Rightarrow> (case utm_Role utmd of
        None \<Rightarrow> Inl (Panic ''nil pointer dereference'')
      | Some role \<Rightarrow>
          if length (role_string role) = 0 then Inl (Err ''invalid body'')
          else if \<not> TeamRole_IsValidRole role then Inl (Err ''invalid role'')
          else Inr utmd))"

definition CreateTeamMemberData_ParseBody ::
  "err + CreateTeamMemberData \<Rightarrow> err + CreateTeamMemberData" where
  "CreateTeamMemberData_ParseBody body = (case body of
     Inl e \<Rightarrow> Inl e
   | Inr ctmd \<Rightarrow>
       if length (role_string (ctmm_Role ctmd)) = 0 then Inl (Err ''invalid body'')
       else if \<not> TeamRole_IsValidRole (ctmm_Role ctmd) then Inl (Err ''invalid role'')
       else Inr ctmd)"

section \<open>Teams\<close>

definition team_of :: "CreateTeamData \<Rightarrow> oid \<Rightarrow> team" where
  "team_of data i = \<lparr>team_ID = i, team_Name = ctm_Name data, team_Members = [], team_Meetings = []\<rparr>"

definition Teams_CreateTeam :: "env \<Rightarrow> CreateTeamData \<Rightarrow> (world, team) smonad" where
  "Teams_CreateTeam E data =
     bindE (InsertOne (Teams E) (team_of data)) (\<lambda>insertedID.
     bindE (Teams_GetTeam E insertedID) (\<lambda>newTeam.
     bindE (Events_GetCurrentEvent E) (\<lambda>event.
     let teams = ev_Teams event @ [team_ID newTeam] in
     bindE (FindOneAndUpdate (Events E) (\<lambda>e. ev_ID e = ev_ID event) (\<lambda>e. e\<lparr>ev_Teams := teams\<rparr>)) (\<lambda>_.
     retE newTeam))))"

text \<open>The conditions of the query; \<open>inEvent\<close> and \<open>membersID\<close> have been looked up before.\<close>

definition teams_filter ::
  "env \<Rightarrow> GetTeamsOptions \<Rightarrow> oid list option \<Rightarrow> oid list \<Rightarrow> team \<Rightarrow> bool" where
  "teams_filter E options inEvent membersID t \<longleftrightarrow>
     (case inEvent of None \<Rightarrow> True | Some ts \<Rightarrow> team_ID t \<in> set ts) \<and>
     (case gto_Name options of None \<Rightarrow> True
      | Some n \<Rightarrow> env_regex E (''.*'' @ n @ ''.*'') (team_Name t)) \<and>
     (case (gto_Member options, gto_MemberName options) of
        (Some m, None) \<Rightarrow> m \<in> tm_Member ` set (team_Members t)
      | (Some m, Some _) \<Rightarrow> m \<in> tm_Member ` set (team_Members t) \<or>
          (\<exists>x \<in> set (team_Members t). tm_Member x \<in> set membersID)
      | (None, Some _) \<Rightarrow> (\<exists>x \<in> set (team_Members t). tm_Member x \<in> set membersID)
      | (None, None) \<Rightarrow> True)"

definition Teams_GetTeams :: "env \<Rightarrow> GetTeamsOptions \<Rightarrow> (world, team list) smonad" where
  "Teams_GetTeams E options =
     bindE (case gto_Event options of
         None \<Rightarrow> retE None
       | Some ev \<Rightarrow> bindE (Events_GetEvent E ev) (\<lambda>event. retE (Some (ev_Teams event)))) (\<lambda>inEvent.
     bindE (case gto_MemberName options of
         None \<Rightarrow> retE []
       | Some n \<Rightarrow> bindE (Members_GetMembers E \<lparr>gmbo_Name = Some n, gmbo_Event = None\<rparr>) (\<lambda>members.
           retE (map mb_ID members))) (\<lambda>membersID.
     FindUnchecked (Teams E) (teams_filter E options inEvent membersID)))"

definition Teams_DeleteTeam :: "env \<Rightarrow> oid \<Rightarrow> (world, team) smonad" where
  "Teams_DeleteTeam E teamID = FindOneAndDelete (Teams E) (\<lambda>t. team_ID t = teamID)"

definition Teams_UpdateTeam :: "env \<Rightarrow> oid \<Rightarrow> CreateTeamData \<Rightarrow> (world, team) smonad" where
  "Teams_UpdateTeam E teamID data =
     FindOneAndUpdate (Teams E) (\<lambda>t. team_ID t = teamID) (\<lambda>t. t\<lparr>team_Name := ctm_Name data\<rparr>)"

section \<open>Members of a team\<close>

definition Teams_AddTeamMember :: "env \<Rightarrow> oid \<Rightarrow> CreateTeamMemberData \<Rightarrow> (world, team) smonad" where
  "Teams_AddTeamMember E i data =
     bindE (Members_GetMember E (ctmm_Member data)) (\<lambda>_.
     bindE (Teams_GetTeam E i) (\<lambda>team1.
     if Team_HasMember team1 (ctmm_Member data) then throwE (Err ''Duplicate member'')
     else
       let members = team_Members team1 @ [\<lparr>tm_Member = ctmm_Member data, tm_Role = ctmm_Role data\<rparr>] in
       FindOneAndUpdate (Teams E) (\<lambda>t. team_ID t = i) (\<lambda>t. t\<lparr>team_Members := members\<rparr>)))"

text \<open>A missing role would be written as null, which reads back as the empty string.\<close>

definition role_or_empty :: "teamRole option \<Rightarrow> teamRole" where
  "role_or_empty r = (case r of Some role \<Rightarrow> role | None \<Rightarrow> OtherRole [])"

definition Teams_UpdateTeamMemberRole ::
  "env \<Rightarrow> oid \<Rightarrow> oid \<Rightarrow> UpdateTeamMemberData \<Rightarrow> (world, team) smonad" where
  "Teams_UpdateTeamMemberRole E teamID memberID data =
     bindE (Members_GetMember E memberID) (\<lambda>_.
     bindE (Teams_GetTeam E teamID) (\<lambda>_.
     FindOneAndUpdate (Teams E)
       (\<lambda>t. team_ID t = teamID \<and> memberID \<in> tm_Member ` set (team_Members t))
       (\<lambda>t. t\<lparr>team_Members := positional (\<lambda>m. tm_Member m = memberID)
          (\<lambda>m. m\<lparr>tm_Role := role_or_empty (utm_Role data)\<rparr>) (team_Members t)\<rparr>)))"

text \<open>The loops that build a list without the first element found; not finding one leaves the empty list.\<close>

fun without_first :: "('a \<Rightarrow> bool) \<Rightarrow> 'a list \<Rightarrow> 'a list \<Rightarrow> 'a list" where
  "without_first P before [] = []"
| "without_first P before (s # ss) =
     (if P s then before @ ss else without_first P (before @ [s]) ss)"

definition Teams_DeleteTeamMember :: "env \<Rightarrow> oid \<Rightarrow> oid \<Rightarrow> (world, team) smonad" where
  "Teams_DeleteTeamMember E i memberID =
     bindE (Members_GetMember E memberID) (\<lambda>_.
     bindE (Teams_GetTeam E i) (\<lambda>team1.
     if \<not> Team_HasMember team1 memberID then throwE (Err ''Member not found'')
     else
       let members = without_first (\<lambda>s. tm_Member s = memberID) [] (team_Members team1) in
       FindOneAndUpdate (Teams E) (\<lambda>t. team_ID t = i) (\<lambda>t. t\<lparr>team_Members := members\<rparr>)))"

section \<open>Meetings of a team\<close>

definition Teams_AddMeeting :: "env \<Rightarrow> oid \<Rightarrow> oid \<Rightarrow> (world, team) smonad" where
  "Teams_AddMeeting E i meeting =
     bindE (Teams_GetTeam E i) (\<lambda>team.
     let meets = team_Meetings team @ [meeting] in
     FindOneAndUpdate (Teams E) (\<lambda>t. team_ID t = i) (\<lambda>t. t\<lparr>team_Meetings := meets\<rparr>))"

definition Teams_DeleteTeamMeeting :: "env \<Rightarrow> oid \<Rightarrow> oid \<Rightarrow> (world, meeting) smonad" where
  "Teams_DeleteTeamMeeting E teamID meetingID =
     onErr (Teams_GetTeam E teamID) (\<lambda>_. throwE (Err ''Team not found'')) (\<lambda>team.
     if \<not> Team_HasMeeting team meetingID then throwE (Err ''Meeting not in team'')
     else
       onErr (Meetings_GetMeeting E meetingID) (\<lambda>_. throwE (Err ''Meeting not found'')) (\<lambda>meeting.
       let meetings = without_first (\<lambda>s. s = meetingID) [] (team_Meetings team) in
       bindE (FindOneAndUpdate (Teams E) (\<lambda>t. team_ID t = teamID) (\<lambda>t. t\<lparr>team_Meetings := meetings\<rparr>)) (\<lambda>_.
       retE meeting)))"

text \<open>
  The members with a role in any team, each once: the aggregation groups them by ID. The cursor's error
  is not looked at.
\<close>

definition Teams_GetMembersByRole :: "env \<Rightarrow> teamRole \<Rightarrow> (world, oid list) smonad" where
  "Teams_GetMembersByRole E role =
     (if \<not> TeamRole_IsValidRole role then throwE (Err ''invalid role'')
      else bindE (FindUnchecked (Teams E) (\<lambda>t. role \<in> tm_Role ` set (team_Members t))) (\<lambda>ts.
        retE (remdups (map tm_Member
          (filter (\<lambda>m. tm_Role m = role) (concat (map team_Members ts)))))))"

end
