(* ===== verification/CoordinationTeams.thy ===== *)
theory CoordinationTeams
  imports World
begin

text \<open>
  \<^verbatim>\<open>backend/src/mongodb/coordination_team.go\<close>: coordination teams, kept apart from the teams of an event.
  An update goes to the team with the ID, whether there is one or not, and the team is
  read afterwards.
\<close>

definition CoordinationTeams_GetCoordinationTeam :: "env \<Rightarrow> oid \<Rightarrow> (world, coordinationTeam) smonad" where
  "CoordinationTeams_GetCoordinationTeam E i = FindOne (CoordinationTeams E) (\<lambda>c. cot_ID c = i)"

definition coordinationTeam_of :: "string \<Rightarrow> oid \<Rightarrow> coordinationTeam" where
  "coordinationTeam_of name i =
     \<lparr>cot_ID = i, cot_Name = name, cot_Coordinator = None, cot_CoordinatedMembers = []\<rparr>"

definition CoordinationTeams_CreateCoordinationTeam ::
  "env \<Rightarrow> string \<Rightarrow> (world, coordinationTeam) smonad" where
  "CoordinationTeams_CreateCoordinationTeam E name =
     bindE (InsertOne (CoordinationTeams E) (coordinationTeam_of name)) (\<lambda>i.
     CoordinationTeams_GetCoordinationTeam E i)"

definition CoordinationTeams_GetCoordinationTeamsByMember ::
  "env \<Rightarrow> oid \<Rightarrow> (world, coordinationTeam list) smonad" where
  "CoordinationTeams_GetCoordinationTeamsByMember E memberID =
     FindUnchecked (CoordinationTeams E) (\<lambda>c. memberID \<in> set (cot_CoordinatedMembers c))"

definition CoordinationTeams_GetCoordinationTeamsByCoordinator ::
  "env \<Rightarrow> oid \<Rightarrow> (world, coordinationTeam list) smonad" where
  "CoordinationTeams_GetCoordinationTeamsByCoordinator E memberID =
     FindUnchecked (CoordinationTeams E)
       (\<lambda>c. case cot_Coordinator c of None \<Rightarrow> False | Some m \<Rightarrow> tm_Member m = memberID)"

text \<open>The common end of the updates: write, then read.\<close>

definition set_and_get ::
  "env \<Rightarrow> oid \<Rightarrow> (coordinationTeam \<Rightarrow> coordinationTeam) \<Rightarrow> (world, coordinationTeam) smonad" where
  "set_and_get E coordTeamID u =
     bindE (UpdateOne (CoordinationTeams E) (\<lambda>c. cot_ID c = coordTeamID) u) (\<lambda>_.
     CoordinationTeams_GetCoordinationTeam E coordTeamID)"

definition CoordinationTeams_AddCoordinatedMember ::
  "env \<Rightarrow> oid \<Rightarrow> oid \<Rightarrow> (world, coordinationTeam) smonad" where
  "CoordinationTeams_AddCoordinatedMember E coordTeamID memberID =
     bindE (CoordinationTeams_GetCoordinationTeam E coordTeamID) (\<lambda>ct.
     if CoordinationTeam_HasCoordinatedMember_loop (cot_CoordinatedMembers ct) memberID
     then throwE (Err ''already exists'')
     else
       let coordinated = cot_CoordinatedMembers ct @ [memberID] in
       set_and_get E coordTeamID (\<lambda>c. c\<lparr>cot_CoordinatedMembers := coordinated\<rparr>))"

text \<open>The loop of \<open>RemoveCoordinatedMember\<close>: the other members, and whether the member was there.\<close>

fun other_members :: "oid \<Rightarrow> oid list \<Rightarrow> bool \<Rightarrow> oid list \<Rightarrow> bool \<times> oid list" where
  "other_members memberID [] found newList = (found, newList)"
| "other_members memberID (m # ms) found newList =
     (if m = memberID then other_members memberID ms True newList
      else other_members memberID ms found (newList @ [m]))"

definition CoordinationTeams_RemoveCoordinatedMember ::
  "env \<Rightarrow> oid \<Rightarrow> oid \<Rightarrow> (world, coordinationTeam) smonad" where
  "CoordinationTeams_RemoveCoordinatedMember E coordTeamID memberID =
     bindE (CoordinationTeams_GetCoordinationTeam E coordTeamID) (\<lambda>ct.
     case other_members memberID (cot_CoordinatedMembers ct) False [] of (found, newList) \<Rightarrow>
       if \<not> found then throwE (Err ''not found'')
       else set_and_get E coordTeamID (\<lambda>c. c\<lparr>cot_CoordinatedMembers := newList\<rparr>))"

definition CoordinationTeams_SetCoordinator ::
  "env \<Rightarrow> oid \<Rightarrow> teamMember \<Rightarrow> string \<Rightarrow> (world, coordinationTeam) smonad" where
  "CoordinationTeams_SetCoordinator E coordTeamID member name =
     (let member = (if tm_Role member \<noteq> RoleCoordinator then member\<lparr>tm_Role := RoleCoordinator\<rparr> else member) in
      set_and_get E coordTeamID (\<lambda>c.
        let c = c\<lparr>cot_Coordinator := Some member\<rparr> in
        if length name > 0 then c\<lparr>cot_Name := name\<rparr> else c))"

definition CoordinationTeams_RemoveCoordinator ::
  "env \<Rightarrow> oid \<Rightarrow> oid \<Rightarrow> (world, coordinationTeam) smonad" where
  "CoordinationTeams_RemoveCoordinator E coordTeamID memberID =
     bindE (CoordinationTeams_GetCoordinationTeam E coordTeamID) (\<lambda>ct.
     if (case cot_Coordinator ct of None \<Rightarrow> True | Some c \<Rightarrow> tm_Member c \<noteq> memberID)
     then throwE (Err ''not found'')
     else set_and_get E coordTeamID (\<lambda>c. c\<lparr>cot_Coordinator := None\<rparr>))"

definition CoordinationTeams_UpdateName ::
  "env \<Rightarrow> oid \<Rightarrow> string \<Rightarrow> (world, coordinationTeam) smonad" where
  "CoordinationTeams_UpdateName E coordTeamID name =
     set_and_get E coordTeamID (\<lambda>c. c\<lparr>cot_Name := name\<rparr>)"

definition CoordinationTeams_GetAllCoordinationTeams :: "env \<Rightarrow> (world, coordinationTeam list) smonad" where
  "CoordinationTeams_GetAllCoordinationTeams E = FindUnchecked (CoordinationTeams E) (\<lambda>_. True)"

definition CoordinationTeams_DeleteCoordinationTeam :: "env \<Rightarrow> oid \<Rightarrow> (world, coordinationTeam) smonad" where
  "CoordinationTeams_DeleteCoordinationTeam E coordTeamID =
     bindE (CoordinationTeams_GetCoordinationTeam E coordTeamID) (\<lambda>ct.
     bindE (DeleteOne (CoordinationTeams E) (\<lambda>c. cot_ID c = coordTeamID)) (\<lambda>deletedCount.
     if deletedCount \<noteq> 1 then throwE (Err ''could not delete coordination team'') else retE ct))"

end
