(* ===== verification/Members.thy ===== *)
theory Members
  imports Teams CoordinationTeams Contacts
begin

text \<open>
  \<^verbatim>\<open>backend/src/mongodb/member.go\<close>: the members of the organisation, the credentials a member gets from the
  teams of the current event, the public list of members with its cache, and the deletion of a
  member nobody refers to. (\<open>GetMember\<close> is in theory Lookups, \<open>GetMembers\<close> in theory Teams.)
\<close>

section \<open>Requests\<close>

record CreateMemberData =
  cmbd_Name :: string
  cmbd_Istid :: string
  cmbd_SINFOID :: string

record UpdateMemberData =
  umbd_Name :: string
  umbd_Istid :: string

definition CreateMemberData_ParseBody :: "err + CreateMemberData \<Rightarrow> err + CreateMemberData" where
  "CreateMemberData_ParseBody body = (case body of
     Inl e \<Rightarrow> Inl e
   | Inr cmd \<Rightarrow>
       if length (cmbd_Name cmd) = 0 then Inl (Err ''invalid name'')
       else if length (cmbd_Istid cmd) < 3 \<or> take 3 (cmbd_Istid cmd) \<noteq> ''ist'' then Inl (Err ''invalid name'')
       else if length (cmbd_SINFOID cmd) = 0 then Inl (Err ''invalid sinfo ID'')
       else Inr cmd)"

definition UpdateMemberData_ParseBody :: "err + UpdateMemberData \<Rightarrow> err + UpdateMemberData" where
  "UpdateMemberData_ParseBody body = (case body of
     Inl e \<Rightarrow> Inl e
   | Inr umd \<Rightarrow>
       if length (umbd_Name umd) = 0 then Inl (Err ''invalid name'')
       else if length (umbd_Istid umd) < 3 \<or> take 3 (umbd_Istid umd) \<noteq> ''ist'' then Inl (Err ''invalid istid'')
       else Inr umd)"

section \<open>The cache of the public list\<close>

definition ResetCurrentPublicMembers :: "(world, unit) smonad" where
  "ResetCurrentPublicMembers = modifyE (\<lambda>w. w\<lparr>currentPublicMembers := None\<rparr>)"

fun filterDuplicatesMembers_loop :: "member list \<Rightarrow> member list \<Rightarrow> member list" where
  "filterDuplicatesMembers_loop [] res = res"
| "filterDuplicatesMembers_loop (s # ss) res =
     (if \<exists>t \<in> set res. mb_ID t = mb_ID s then filterDuplicatesMembers_loop ss res
      else filterDuplicatesMembers_loop ss (res @ [s]))"

definition filterDuplicatesMembers :: "member list \<Rightarrow> member list" where
  "filterDuplicatesMembers orig = filterDuplicatesMembers_loop orig []"

definition member_socials :: "env \<Rightarrow> member \<Rightarrow> (world, contactSocials) smonad" where
  "member_socials E s =
     onErr (Contacts_GetContact E (mb_Contact s)) (\<lambda>_. retE zero_socials) (\<lambda>contact. retE (ct_Socials contact))"

definition sinfo_email :: "member \<Rightarrow> string" where
  "sinfo_email s = (if length (mb_SINFOID s) > 0 then mb_SINFOID s @ ''@sinfo.org'' else [])"

definition public_member :: "member \<Rightarrow> string \<Rightarrow> contactSocials \<Rightarrow> memberPublic" where
  "public_member s team socials = \<lparr>mbp_Name = mb_Name s, mbp_Image = mb_Image s, mbp_Socials = socials,
     mbp_Team = team, mbp_SinfoEmail = sinfo_email s\<rparr>"

fun convertToPublicMembers_loop ::
  "env \<Rightarrow> member list \<Rightarrow> memberPublic list \<Rightarrow> (world, memberPublic list) smonad" where
  "convertToPublicMembers_loop E [] public = retE public"
| "convertToPublicMembers_loop E (s # ss) public =
     bindE (member_socials E s) (\<lambda>socials.
     convertToPublicMembers_loop E ss (public @ [public_member s [] socials]))"

definition convertToPublicMembers :: "env \<Rightarrow> member list \<Rightarrow> (world, memberPublic list) smonad" where
  "convertToPublicMembers E orig = convertToPublicMembers_loop E orig []"

section \<open>Reading members\<close>

definition Members_GetMemberBySinfoID :: "env \<Rightarrow> string \<Rightarrow> (world, member) smonad" where
  "Members_GetMemberBySinfoID E sinfoid = FindOne (Members E) (\<lambda>m. mb_SINFOID m = sinfoid)"

text \<open>The best role a member has in a list of teams: the level, the role and the team's name.\<close>

fun best_role :: "oid \<Rightarrow> team list \<Rightarrow> int \<times> teamRole \<times> string \<Rightarrow> int \<times> teamRole \<times> string" where
  "best_role i [] best = best"
| "best_role i (team # ts) best =
     (case Team_GetMember team i of
        Inl _ \<Rightarrow> best_role i ts best
      | Inr teamMember \<Rightarrow>
          let currentLevel = TeamRole_AccessLevel (tm_Role teamMember) in
          if currentLevel = -1 then best_role i ts best
          else if fst best = -1 \<or> currentLevel < fst best
          then best_role i ts (currentLevel, tm_Role teamMember, team_Name team)
          else best_role i ts best)"

fun member_credentials ::
  "env \<Rightarrow> int \<Rightarrow> member list \<Rightarrow> authorizationCredentials option \<Rightarrow>
   (world, authorizationCredentials option) smonad" where
  "member_credentials E eventID [] result = retE result"
| "member_credentials E eventID (m # ms) result =
     bindE (Teams_GetTeams E \<lparr>gto_Name = None, gto_Event = Some eventID, gto_Member = Some (mb_ID m),
        gto_MemberName = None\<rparr>) (\<lambda>teams.
     case best_role (mb_ID m) teams (-1, OtherRole [], []) of (level, role, memberTeam) \<Rightarrow>
       if level = -1 then member_credentials E eventID ms result
       else if result \<noteq> None
       then throwE (Err ''multiple members with same sinfoid in current event'')
       else member_credentials E eventID ms (Some \<lparr>ac_ID = mb_ID m, ac_SINFOID = mb_SINFOID m,
          ac_Role = role, ac_Team = memberTeam\<rparr>))"

definition Members_GetMemberAuthCredentials ::
  "env \<Rightarrow> string \<Rightarrow> (world, authorizationCredentials) smonad" where
  "Members_GetMemberAuthCredentials E sinfoID =
     bindE (Events_GetCurrentEvent E) (\<lambda>currentEvent.
     bindE (Find (Members E) (\<lambda>m. mb_SINFOID m = sinfoID)) (\<lambda>members.
     if length members = 0 then throwE (Err ''member not found'')
     else
       bindE (member_credentials E (ev_ID currentEvent) members None) (\<lambda>result.
       case result of
         None \<Rightarrow> throwE (Err ''member without team in current event'')
       | Some credentials \<Rightarrow> retE credentials)))"

fun event_team :: "env \<Rightarrow> oid \<Rightarrow> int \<Rightarrow> oid list \<Rightarrow> (world, memberEventTeam option) smonad" where
  "event_team E i eventID [] = retE None"
| "event_team E i eventID (teamID # ts) =
     bindE (Teams_GetTeam E teamID) (\<lambda>team.
     case List.find (\<lambda>m. tm_Member m = i) (team_Members team) of
       Some m \<Rightarrow> retE (Some \<lparr>met_Event = eventID, met_Team = team_Name team, met_Role = tm_Role m\<rparr>)
     | None \<Rightarrow> event_team E i eventID ts)"

fun event_teams ::
  "env \<Rightarrow> oid \<Rightarrow> event list \<Rightarrow> memberEventTeam list \<Rightarrow> (world, memberEventTeam list) smonad" where
  "event_teams E i [] memberEventTeams = retE memberEventTeams"
| "event_teams E i (event # es) memberEventTeams =
     bindE (event_team E i (ev_ID event) (ev_Teams event)) (\<lambda>found.
     event_teams E i es (memberEventTeams @ (case found of None \<Rightarrow> [] | Some t \<Rightarrow> [t])))"

definition Members_GetMembersParticipations ::
  "env \<Rightarrow> oid \<Rightarrow> (world, memberEventTeam list) smonad" where
  "Members_GetMembersParticipations E i =
     bindE (Events_GetEvents E \<lparr>geo_Name = None, geo_Before = None, geo_After = None, geo_During = None\<rparr>)
       (\<lambda>events. event_teams E i events [])"

section \<open>The public list\<close>

fun team_public_members ::
  "env \<Rightarrow> string \<Rightarrow> teamMember list \<Rightarrow> oid list \<times> memberPublic list \<Rightarrow>
   (world, oid list \<times> memberPublic list) smonad" where
  "team_public_members E team [] acc = retE acc"
| "team_public_members E team (t # ts) acc =
     bindE (Members_GetMember E (tm_Member t)) (\<lambda>member.
     if mb_ID member \<in> set (fst acc) then team_public_members E team ts acc
     else
       bindE (member_socials E member) (\<lambda>socials.
       team_public_members E team ts
         (mb_ID member # fst acc, snd acc @ [public_member member team socials])))"

fun event_public_members ::
  "env \<Rightarrow> oid list \<Rightarrow> oid list \<times> memberPublic list \<Rightarrow> (world, oid list \<times> memberPublic list) smonad" where
  "event_public_members E [] acc = retE acc"
| "event_public_members E (s # ss) acc =
     bindE (Teams_GetTeam E s) (\<lambda>team.
     bindE (team_public_members E (team_Name team) (team_Members team) acc) (event_public_members E ss))"

definition name_contains :: "string option \<Rightarrow> string \<Rightarrow> bool" where
  "name_contains n name = (case n of None \<Rightarrow> True | Some x \<Rightarrow> Contains (ToLower name) (ToLower x))"

definition Members_GetMembersPublic :: "env \<Rightarrow> GetMemberOptions \<Rightarrow> (world, memberPublic list) smonad" where
  "Members_GetMembersPublic E options =
     (case gmbo_Event options of
        Some ev \<Rightarrow>
          bindE (Events_GetEvent E ev) (\<lambda>event.
          bindE (event_public_members E (ev_Teams event) ([], [])) (\<lambda>(seen, publicMembers).
          bindE (modifyE (\<lambda>w. if currentPublicMembers w = None
            then w\<lparr>currentPublicMembers := Some publicMembers\<rparr> else w)) (\<lambda>_.
          retE publicMembers)))
      | None \<Rightarrow>
          bindE (getsE currentPublicMembers) (\<lambda>cached. case cached of
            Some pubs \<Rightarrow> retE (filter (\<lambda>m. name_contains (gmbo_Name options) (mbp_Name m)) pubs)
          | None \<Rightarrow>
              bindE (Find (Members E) (\<lambda>_. True)) (\<lambda>members.
              let filtered = filterDuplicatesMembers members in
              bindE (getsE currentPublicMembers) (\<lambda>cached.
              bindE (if cached = None then
                  bindE (convertToPublicMembers E filtered) (\<lambda>p.
                  modifyE (\<lambda>w. w\<lparr>currentPublicMembers := Some p\<rparr>))
                else retE ()) (\<lambda>_.
              convertToPublicMembers E
                (filter (\<lambda>m. name_contains (gmbo_Name options) (mb_Name m)) filtered))))))"

section \<open>Writing members\<close>

definition empty_member_contact :: "oid \<Rightarrow> contact" where
  "empty_member_contact i = \<lparr>ct_ID = i, ct_Gender = [], ct_Language = [], ct_Phones = [],
     ct_Socials = zero_socials, ct_Mails = []\<rparr>"

definition member_of :: "CreateMemberData \<Rightarrow> oid \<Rightarrow> oid \<Rightarrow> member" where
  "member_of data contact i = \<lparr>mb_ID = i, mb_Name = cmbd_Name data, mb_Image = [], mb_ISTID = cmbd_Istid data,
     mb_SINFOID = cmbd_SINFOID data, mb_Contact = contact\<rparr>"

definition Members_CreateMember :: "env \<Rightarrow> CreateMemberData \<Rightarrow> (world, member) smonad" where
  "Members_CreateMember E data =
     bindE (InsertOne (Contacts E) empty_member_contact) (\<lambda>createdContact.
     bindE (InsertOne (Members E) (member_of data createdContact)) (\<lambda>insertedID.
     bindE (Members_GetMember E insertedID) (\<lambda>newMember.
     bindE ResetCurrentPublicMembers (\<lambda>_.
     retE newMember))))"

definition Members_UpdateImage :: "env \<Rightarrow> oid \<Rightarrow> string \<Rightarrow> (world, member) smonad" where
  "Members_UpdateImage E memberID url =
     bindE (FindOneAndUpdate (Members E) (\<lambda>m. mb_ID m = memberID) (\<lambda>m. m\<lparr>mb_Image := url\<rparr>)) (\<lambda>member.
     bindE ResetCurrentPublicMembers (\<lambda>_.
     retE member))"

definition Members_UpdateMember :: "env \<Rightarrow> oid \<Rightarrow> UpdateMemberData \<Rightarrow> (world, member) smonad" where
  "Members_UpdateMember E i data =
     bindE (FindOneAndUpdate (Members E) (\<lambda>m. mb_ID m = i)
       (\<lambda>m. m\<lparr>mb_Name := umbd_Name data, mb_ISTID := umbd_Istid data\<rparr>)) (\<lambda>member.
     bindE ResetCurrentPublicMembers (\<lambda>_.
     retE member))"

text \<open>The notification goes to a field of the document that no struct reads.\<close>

definition Members_AddNotification :: "env \<Rightarrow> oid \<Rightarrow> oid \<Rightarrow> (world, member) smonad" where
  "Members_AddNotification E i notificationID =
     FindOneAndUpdate (Members E) (\<lambda>m. mb_ID m = i) (\<lambda>m. m)"

text \<open>A check passes when the document is not found, and also when the query fails.\<close>

definition refuse_if_found :: "(world, 'k, 'a) handle \<Rightarrow> ('a \<Rightarrow> bool) \<Rightarrow> (world, unit) smonad" where
  "refuse_if_found h f =
     onErr (FindOne h f) (\<lambda>_. retE ()) (\<lambda>_. throwE (Err ''Member associated''))"

definition Members_DeleteMember :: "env \<Rightarrow> oid \<Rightarrow> (world, member) smonad" where
  "Members_DeleteMember E i =
     bindE (Members_GetMember E i) (\<lambda>member.
     bindE (refuse_if_found (Companies E) (\<lambda>c. i \<in> cp_Member ` set (co_Participations c))) (\<lambda>_.
     bindE (refuse_if_found (Meetings E) (\<lambda>m. i \<in> set (mp_Members (me_Participants m)))) (\<lambda>_.
     bindE (refuse_if_found (Notifications E) (\<lambda>n. no_Member n = i)) (\<lambda>_.
     bindE (refuse_if_found (Posts E) (\<lambda>p. po_Member p = i)) (\<lambda>_.
     bindE (refuse_if_found (Speakers E) (\<lambda>s. i \<in> sp_Member ` set (s_Participations s))) (\<lambda>_.
     bindE (refuse_if_found (Teams E) (\<lambda>t. i \<in> tm_Member ` set (team_Members t))) (\<lambda>_.
     bindE (DeleteOne (Members E) (\<lambda>m. mb_ID m = i)) (\<lambda>deletedCount.
     if deletedCount \<noteq> 1 then throwE (Err ''should have deleted 1 member'') else retE member))))))))"

end
