(* ===== verification/MemberProperties.thy ===== *)
theory MemberProperties
  imports Members CompanyProperties
begin

text \<open>
  Properties of members: the credentials they get are those of a team of the current event and the best of
  them, what may still refer to a deleted member, and what is left in the cache of the public list.
\<close>

section \<open>Credentials\<close>

text \<open>The role a member has in a team: that of the first entry, if it is a valid one.\<close>

definition role_in :: "oid \<Rightarrow> team \<Rightarrow> teamRole option" where
  "role_in i t = (case Team_GetMember t i of
     Inl _ \<Rightarrow> None
   | Inr m \<Rightarrow> if TeamRole_IsValidRole (tm_Role m) then Some (tm_Role m) else None)"

lemma role_in_member: "role_in i t = Some r \<Longrightarrow> i \<in> tm_Member ` set (team_Members t)"
proof -
  have "Team_GetMember_loop ms i = Inr m \<Longrightarrow> i \<in> tm_Member ` set ms" for ms m
    by (induction ms) (auto split: if_splits)
  then show "role_in i t = Some r \<Longrightarrow> i \<in> tm_Member ` set (team_Members t)"
    by (auto simp: role_in_def Team_GetMember_def split: sum.splits if_splits)
qed

text \<open>What the search for the best role has found after the teams seen so far.\<close>

definition best_of :: "oid \<Rightarrow> team set \<Rightarrow> int \<times> teamRole \<times> string \<Rightarrow> bool" where
  "best_of i T best \<longleftrightarrow> (case best of (level, role, name) \<Rightarrow>
     if level = -1 then \<forall>t \<in> T. role_in i t = None
     else level = TeamRole_AccessLevel role \<and> (\<exists>t \<in> T. role_in i t = Some role \<and> name = team_Name t) \<and>
       (\<forall>t \<in> T. \<forall>r. role_in i t = Some r \<longrightarrow> level \<le> TeamRole_AccessLevel r))"

lemma role_in_level: "role_in i t = Some r \<Longrightarrow> 0 \<le> TeamRole_AccessLevel r"
  by (auto simp: role_in_def IsValidRole_iff split: sum.splits if_splits)

lemma AccessLevel_range: "TeamRole_AccessLevel r = -1 \<or> 0 \<le> TeamRole_AccessLevel r"
  by (cases r) simp_all

lemma best_role_step:
  "best_role i (t # ts) best = best_role i ts
     (case role_in i t of None \<Rightarrow> best
      | Some r \<Rightarrow> if fst best = -1 \<or> TeamRole_AccessLevel r < fst best
          then (TeamRole_AccessLevel r, r, team_Name t) else best)"
proof (cases "Team_GetMember t i")
  case (Inr m)
  with AccessLevel_range [of "tm_Role m"] show ?thesis
    by (auto simp: role_in_def IsValidRole_iff Let_def)
qed (simp add: role_in_def)

lemma best_role_best:
  "best_of i T best \<Longrightarrow> best_of i (T \<union> set ts) (best_role i ts best)"
proof (induction ts arbitrary: T best)
  case Nil
  then show ?case by simp
next
  case (Cons t ts)
  let ?best = "case role_in i t of None \<Rightarrow> best
      | Some r \<Rightarrow> if fst best = -1 \<or> TeamRole_AccessLevel r < fst best
          then (TeamRole_AccessLevel r, r, team_Name t) else best"
  have "best_of i (insert t T) ?best"
  proof (cases "role_in i t")
    case None
    with Cons.prems show ?thesis by (auto simp: best_of_def split: prod.splits if_splits)
  next
    case (Some r)
    with Cons.prems role_in_level [OF Some] show ?thesis
      by (cases best) (fastforce simp: best_of_def split: if_splits)
  qed
  from Cons.IH [OF this] show ?case by (simp only: best_role_step) (simp add: Un_commute)
qed

text \<open>The roles, with the team's name, that a member has in the teams of an event.\<close>

definition event_roles :: "world \<Rightarrow> event \<Rightarrow> oid \<Rightarrow> (teamRole \<times> string) set" where
  "event_roles w e i = {(r, n). \<exists>t \<in> set (w_teams w). team_ID t \<in> set (ev_Teams e) \<and>
     role_in i t = Some r \<and> n = team_Name t}"

lemma wp_GetTeams_of_member:
  assumes "mongo_spec bad E" and "lookup ev_ID (w_events w) ev = Some e" and "distinct (map ev_ID (w_events w))"
    and "contents v = contents w"
  shows "wp (Teams_GetTeams E \<lparr>gto_Name = None, gto_Event = Some ev, gto_Member = Some i, gto_MemberName = None\<rparr>)
     (\<lambda>ts v'. contents v' = contents w \<and>
        set ts \<subseteq> {t \<in> set (w_teams w). team_ID t \<in> set (ev_Teams e)} \<and>
        ((\<forall>x. \<not> bad x) \<longrightarrow> (\<forall>t \<in> set (w_teams w). team_ID t \<in> set (ev_Teams e) \<longrightarrow>
           i \<in> tm_Member ` set (team_Members t) \<longrightarrow> t \<in> set ts)))
     (\<lambda>x v'. contents v' = contents w \<and> bad x) v"
  unfolding Teams_GetTeams_def
  apply (simp only: GetTeamsOptions.simps option.case wp_bindE wp_retE)
  apply (rule wp_keyed_read [OF keyed_GetEvent [OF assms(1)]])
  subgoal using assms(3) contents_eqD(3) [OF assms(4)] by simp
  subgoal for y v1
    using assms(2) contents_eqD(3,4) [OF assms(4)] contents_eqD(4) [of v1 "contents v"] assms(4)
    by (intro wp_FindUnchecked_set [OF mongo_drv(4) [OF assms(1)]]) (auto simp: teams_filter_def)
  subgoal for x v1
    using assms(2,4) contents_eqD(3) [OF assms(4)] by auto
  done

text \<open>Credentials that a member is entitled to; without failures, the strongest.\<close>

definition entitled :: "(err \<Rightarrow> bool) \<Rightarrow> world \<Rightarrow> event \<Rightarrow> member \<Rightarrow> authorizationCredentials \<Rightarrow> bool" where
  "entitled bad w e m cr \<longleftrightarrow> ac_ID cr = mb_ID m \<and> ac_SINFOID cr = mb_SINFOID m \<and>
     (ac_Role cr, ac_Team cr) \<in> event_roles w e (mb_ID m) \<and>
     ((\<forall>x. \<not> bad x) \<longrightarrow> (\<forall>(r, n) \<in> event_roles w e (mb_ID m).
        TeamRole_AccessLevel (ac_Role cr) \<le> TeamRole_AccessLevel r))"

lemma best_role_entitled:
  assumes "best_role (mb_ID m) ts (-1, OtherRole [], []) = (level, role, name)"
    and "set ts \<subseteq> {t \<in> set (w_teams w). team_ID t \<in> set (ev_Teams e)}"
    and "(\<forall>x. \<not> bad x) \<longrightarrow> (\<forall>t \<in> set (w_teams w). team_ID t \<in> set (ev_Teams e) \<longrightarrow>
           mb_ID m \<in> tm_Member ` set (team_Members t) \<longrightarrow> t \<in> set ts)"
  shows "level = -1 \<Longrightarrow> (\<forall>x. \<not> bad x) \<Longrightarrow> event_roles w e (mb_ID m) = {}"
    and "level \<noteq> -1 \<Longrightarrow> entitled bad w e m \<lparr>ac_ID = mb_ID m, ac_SINFOID = mb_SINFOID m, ac_Role = role, ac_Team = name\<rparr>"
proof -
  have best: "best_of (mb_ID m) (set ts) (level, role, name)"
    using best_role_best [of "mb_ID m" "{}" "(-1, OtherRole [], [])" ts] assms(1) by (simp add: best_of_def)
  show "event_roles w e (mb_ID m) = {}" if "level = -1" "\<forall>x. \<not> bad x"
    using best that assms(3) role_in_member by (fastforce simp: best_of_def event_roles_def)
  show "entitled bad w e m \<lparr>ac_ID = mb_ID m, ac_SINFOID = mb_SINFOID m, ac_Role = role, ac_Team = name\<rparr>"
    if "level \<noteq> -1"
    using best that assms(2,3) role_in_member
    unfolding entitled_def best_of_def event_roles_def by (fastforce split: if_splits)
qed

definition has_role :: "world \<Rightarrow> event \<Rightarrow> member \<Rightarrow> bool" where
  "has_role w e m \<longleftrightarrow> event_roles w e (mb_ID m) \<noteq> {}"

lemma entitled_has_role: "entitled bad w e m cr \<Longrightarrow> has_role w e m"
  by (auto simp: entitled_def has_role_def)

text \<open>The loop over the members with the ID: \<open>prev\<close> are those already seen.\<close>

definition sole_credentials ::
  "(err \<Rightarrow> bool) \<Rightarrow> world \<Rightarrow> event \<Rightarrow> member set \<Rightarrow> authorizationCredentials option \<Rightarrow> bool" where
  "sole_credentials bad w e M result \<longleftrightarrow> (case result of
     None \<Rightarrow> (\<forall>x. \<not> bad x) \<longrightarrow> (\<forall>m \<in> M. \<not> has_role w e m)
   | Some cr \<Rightarrow> (\<exists>m \<in> M. entitled bad w e m cr \<and>
       ((\<forall>x. \<not> bad x) \<longrightarrow> (\<forall>m' \<in> M. has_role w e m' \<longrightarrow> m' = m))))"

definition credentials_error :: "(err \<Rightarrow> bool) \<Rightarrow> world \<Rightarrow> event \<Rightarrow> member set \<Rightarrow> err \<Rightarrow> bool" where
  "credentials_error bad w e M x \<longleftrightarrow> bad x \<or>
     x = Err ''multiple members with same sinfoid in current event'' \<and>
       (\<exists>m \<in> M. \<exists>m' \<in> M. m \<noteq> m' \<and> has_role w e m \<and> has_role w e m')"

lemma wp_member_credentials:
  assumes "mongo_spec bad E" and "lookup ev_ID (w_events w) ev = Some e" and "distinct (map ev_ID (w_events w))"
    and "contents v = contents w" and "sole_credentials bad w e (set prev) result" and "distinct (prev @ ms)"
  shows "wp (member_credentials E ev ms result)
     (\<lambda>r v'. contents v' = contents w \<and> sole_credentials bad w e (set (prev @ ms)) r)
     (\<lambda>x v'. contents v' = contents w \<and> credentials_error bad w e (set (prev @ ms)) x) v"
  using assms(4-6)
proof (induction ms arbitrary: prev result v)
  case Nil
  then show ?case by simp
next
  case (Cons m ms)
  have m: "m \<notin> set prev" using Cons.prems by simp
  show ?case
    unfolding member_credentials.simps wp_bindE
  proof (rule wp_mono [OF wp_GetTeams_of_member [OF assms(1-3) Cons.prems(1)]], goal_cases)
    case (1 ts v1)
    obtain level role name where best: "best_role (mb_ID m) ts (-1, OtherRole [], []) = (level, role, name)"
      by (cases "best_role (mb_ID m) ts (-1, OtherRole [], [])")
    note entitled = best_role_entitled [OF best conjunct1 [OF conjunct2 [OF 1]] conjunct2 [OF conjunct2 [OF 1]]]
    show ?case
    proof (cases "level = -1")
      case True
      have "sole_credentials bad w e (set (prev @ [m])) result"
        using Cons.prems(2) entitled(1) [OF True]
        by (cases result) (auto simp: sole_credentials_def has_role_def)
      from Cons.IH [OF conjunct1 [OF 1] this] Cons.prems(3) show ?thesis
        by (simp add: best True)
    next
      case False
      note mine = entitled(2) [OF False]
      show ?thesis
      proof (cases result)
        case None
        have "sole_credentials bad w e (set (prev @ [m])) (Some \<lparr>ac_ID = mb_ID m, ac_SINFOID = mb_SINFOID m,
            ac_Role = role, ac_Team = name\<rparr>)"
          using Cons.prems(2) mine None by (auto simp: sole_credentials_def)
        from Cons.IH [OF conjunct1 [OF 1] this] Cons.prems(3) None show ?thesis
          by (simp add: best False)
      next
        case (Some cr)
        then obtain m0 where "m0 \<in> set prev" "has_role w e m0"
          using Cons.prems(2) by (auto simp: sole_credentials_def dest: entitled_has_role)
        with m have "\<exists>x \<in> set (prev @ m # ms). \<exists>y \<in> set (prev @ m # ms). x \<noteq> y \<and> has_role w e x \<and> has_role w e y"
          using entitled_has_role [OF mine] by (intro bexI [of _ m0] bexI [of _ m]) auto
        then show ?thesis
          using 1 by (simp add: best False Some credentials_error_def)
      qed
    qed
  next
    case (2 x v1)
    then show ?case by (simp add: credentials_error_def)
  qed
qed

definition credentials_given :: "(err \<Rightarrow> bool) \<Rightarrow> world \<Rightarrow> string \<Rightarrow> authorizationCredentials \<Rightarrow> bool" where
  "credentials_given bad w sid cr \<longleftrightarrow> (\<exists>cur. is_current (w_events w) cur \<and>
     (\<exists>m \<in> set (w_members w). mb_SINFOID m = sid \<and> entitled bad w cur m cr \<and>
       ((\<forall>x. \<not> bad x) \<longrightarrow> (\<forall>m' \<in> set (w_members w). mb_SINFOID m' = sid \<and> has_role w cur m' \<longrightarrow> m' = m))))"

definition credentials_refused :: "(err \<Rightarrow> bool) \<Rightarrow> world \<Rightarrow> string \<Rightarrow> err \<Rightarrow> bool" where
  "credentials_refused bad w sid x \<longleftrightarrow> bad x \<or> x = Err ''no events found'' \<and> w_events w = [] \<or>
     x = Err ''member not found'' \<and> sid \<notin> mb_SINFOID ` set (w_members w) \<or>
     (\<exists>cur. is_current (w_events w) cur \<and>
       (x = Err ''member without team in current event'' \<and>
          ((\<forall>y. \<not> bad y) \<longrightarrow> (\<forall>m \<in> set (w_members w). mb_SINFOID m = sid \<longrightarrow> \<not> has_role w cur m)) \<or>
        x = Err ''multiple members with same sinfoid in current event'' \<and>
          (\<exists>m \<in> set (w_members w). \<exists>m' \<in> set (w_members w). m \<noteq> m' \<and> mb_SINFOID m = sid \<and> mb_SINFOID m' = sid \<and>
            has_role w cur m \<and> has_role w cur m')))"

lemma wp_AuthCredentials:
  assumes "mongo_spec bad E" and "ids_ok w"
  shows "wp (Members_GetMemberAuthCredentials E sid)
     (\<lambda>cr w'. contents w' = contents w \<and> credentials_given bad w sid cr)
     (\<lambda>x w'. contents w' = contents w \<and> credentials_refused bad w sid x) w"
  unfolding credentials_given_def credentials_refused_def
  unfolding Members_GetMemberAuthCredentials_def wp_bindE
proof (rule wp_GetCurrentEvent [OF assms(1)], goal_cases)
  case (1 cur w1)
  have cur: "lookup ev_ID (w_events w) (ev_ID cur) = Some cur"
    using 1(1) ids_okD(3) [OF assms(2)] by (auto simp: is_current_def intro: lookup_in)
  show ?case
  proof (rule wp_Find [OF mongo_drv(5) [OF assms(1)]], goal_cases)
    case (1 ms)
    have members: "mset ms = mset (filter (\<lambda>m. mb_SINFOID m = sid) (w_members w))"
      using 1 contents_eqD(5) [OF \<open>contents w1 = contents w\<close>] by simp
    have "distinct (w_members w)" using ids_okD(5) [OF assms(2)] by (simp add: distinct_map)
    then have ms: "set ms = {m \<in> set (w_members w). mb_SINFOID m = sid}" "distinct ([] @ ms)"
      using mset_eq_setD [OF members] mset_eq_imp_distinct_iff [OF members] by simp_all
    have w2: "contents (tick (Members E) w1) = contents w" using \<open>contents w1 = contents w\<close> by simp
    have start: "sole_credentials bad w cur (set []) None" by (simp add: sole_credentials_def)
    show ?case
    proof (cases "length ms = 0")
      case True
      with ms w2 show ?thesis by (auto simp: image_iff)
    next
      case False
      show ?thesis
        unfolding if_not_P [OF False] wp_bindE
      proof (rule wp_mono [OF wp_member_credentials [OF assms(1) cur ids_okD(3) [OF assms(2)] w2 start ms(2)]], goal_cases)
        case (1 r w3)
        then show ?case
          using ms \<open>is_current (w_events w) cur\<close> by (cases r) (fastforce simp: sole_credentials_def)+
      next
        case (2 x w3)
        then have same: "contents w3 = contents w" and "credentials_error bad w cur (set ms) x" by simp_all
        then consider "bad x"
          | m m' where "x = Err ''multiple members with same sinfoid in current event''" "m \<in> set ms" "m' \<in> set ms"
            "m \<noteq> m'" "has_role w cur m" "has_role w cur m'"
          by (auto simp: credentials_error_def)
        then show ?case
        proof cases
          case 1
          with same show ?thesis by simp
        next
          case (2 m m')
          then have "\<exists>m \<in> set (w_members w). \<exists>m' \<in> set (w_members w). m \<noteq> m' \<and> mb_SINFOID m = sid \<and>
              mb_SINFOID m' = sid \<and> has_role w cur m \<and> has_role w cur m'"
            unfolding ms(1) by blast
          with same 2(1) \<open>is_current (w_events w) cur\<close> show ?thesis
            by (intro conjI disjI2 exI [of _ cur]) assumption+
        qed
      qed
    qed
  next
    case (2 x)
    then show ?case using \<open>contents w1 = contents w\<close> by simp
  qed
qed auto

text \<open>
  C17: the credentials a member logs in with. They are those of a member with the given ID, name a role that this
  member holds in a team of the current event, and, unless a query failed, the role with the most permissions
  among them, the member being the only one with that ID who has any. Every other outcome is the error that says
  why: nobody has the ID, none of those who do is in a team of the current event, or more than one is.
\<close>

theorem GetMemberAuthCredentials_correct:
  assumes "mongo_spec bad E" and "ids_ok w"
  shows "wp (Members_GetMemberAuthCredentials E sid)
     (\<lambda>cr w'. contents w' = contents w \<and> (\<exists>cur. is_current (w_events w) cur \<and>
        (\<exists>m \<in> set (w_members w). mb_SINFOID m = sid \<and> entitled bad w cur m cr \<and>
          ((\<forall>x. \<not> bad x) \<longrightarrow> (\<forall>m' \<in> set (w_members w). mb_SINFOID m' = sid \<and> has_role w cur m' \<longrightarrow> m' = m)))))
     (\<lambda>x w'. contents w' = contents w \<and> (bad x \<or> x = Err ''no events found'' \<and> w_events w = [] \<or>
        x = Err ''member not found'' \<and> sid \<notin> mb_SINFOID ` set (w_members w) \<or>
        (\<exists>cur. is_current (w_events w) cur \<and>
          (x = Err ''member without team in current event'' \<and>
             ((\<forall>y. \<not> bad y) \<longrightarrow> (\<forall>m \<in> set (w_members w). mb_SINFOID m = sid \<longrightarrow> \<not> has_role w cur m)) \<or>
           x = Err ''multiple members with same sinfoid in current event'' \<and>
             (\<exists>m \<in> set (w_members w). \<exists>m' \<in> set (w_members w). m \<noteq> m' \<and> mb_SINFOID m = sid \<and> mb_SINFOID m' = sid \<and>
               has_role w cur m \<and> has_role w cur m'))))) w"
  using wp_AuthCredentials [OF assms, of sid] unfolding credentials_given_def credentials_refused_def .

text \<open>Member 7 is a member of team 10 and the coordinator of team 11, both of event 1; member 8 of none.\<close>

definition staff_world :: world where
  "staff_world = empty_world\<lparr>
     w_members := [member_of \<lparr>cmbd_Name = ''Ann'', cmbd_Istid = ''ist1'', cmbd_SINFOID = ''ann''\<rparr> 1 7,
       member_of \<lparr>cmbd_Name = ''Bob'', cmbd_Istid = ''ist2'', cmbd_SINFOID = ''bob''\<rparr> 2 8],
     w_teams := [(team_of \<lparr>ctm_Name = ''a''\<rparr> 10)\<lparr>team_Members := [\<lparr>tm_Member = 7, tm_Role = RoleMember\<rparr>]\<rparr>,
       (team_of \<lparr>ctm_Name = ''b''\<rparr> 11)\<lparr>team_Members := [\<lparr>tm_Member = 7, tm_Role = RoleCoordinator\<rparr>]\<rparr>],
     w_events := [(new_event 1 ''e'')\<lparr>ev_Teams := [10, 11]\<rparr>]\<rparr>"

lemma staff_world_ids: "ids_ok staff_world"
  by (simp add: ids_ok_def staff_world_def member_of_def team_of_def)

lemma staff_world_current: "is_current (w_events staff_world) e \<longleftrightarrow> e = (new_event 1 ''e'')\<lparr>ev_Teams := [10, 11]\<rparr>"
  by (auto simp: is_current_def staff_world_def)

lemma staff_roles:
  "event_roles staff_world ((new_event 1 ''e'')\<lparr>ev_Teams := [10, 11]\<rparr>) 7 =
     {(RoleMember, ''a''), (RoleCoordinator, ''b'')}"
  by (auto simp: event_roles_def staff_world_def team_of_def role_in_def Team_GetMember_def
      TeamRole_IsValidRole_def)

theorem GetMemberAuthCredentials_correct_witness:
  "wp (Members_GetMemberAuthCredentials local_env ''ann'') (\<lambda>cr w'. ac_ID cr = 7 \<and> ac_Role cr = RoleCoordinator)
     (\<lambda>x w'. x = Err ''member without team in current event'' \<or>
        x = Err ''multiple members with same sinfoid in current event'') staff_world"
proof (rule wp_mono [OF GetMemberAuthCredentials_correct [OF local_env_up staff_world_ids]], goal_cases)
  case (1 cr w')
  then obtain m where "m \<in> set (w_members staff_world)" "mb_SINFOID m = ''ann''"
    "entitled never staff_world ((new_event 1 ''e'')\<lparr>ev_Teams := [10, 11]\<rparr>) m cr"
    by (auto simp: staff_world_current)
  moreover from this(1,2) have "mb_ID m = 7" by (auto simp: staff_world_def member_of_def)
  ultimately show ?case by (auto simp: entitled_def staff_roles)
next
  case (2 x w')
  then show ?case by (auto simp: staff_world_def member_of_def)
qed

section \<open>Deleting a member\<close>

text \<open>
  Every place of the database that names a member, with the document it is in: the members in charge of and subscribed
  to a participation, the members of a meeting, a notification's, a post's author, the members of a team, and the
  coordinator and the members of a coordination team.
\<close>

datatype member_ref = CompanyCharge oid | CompanySubscriber oid | SpeakerCharge oid | SpeakerSubscriber oid
  | AtMeeting oid | Notified oid | Wrote oid | InTeam oid | Coordinates oid | CoordinatedIn oid

definition refs_to :: "world \<Rightarrow> oid \<Rightarrow> member_ref set" where
  "refs_to w i =
     {CompanyCharge (co_ID c) |c p. c \<in> set (w_companies w) \<and> p \<in> set (co_Participations c) \<and> cp_Member p = i} \<union>
     {CompanySubscriber (co_ID c) |c p. c \<in> set (w_companies w) \<and> p \<in> set (co_Participations c) \<and>
        i \<in> set (cp_Subscribers p)} \<union>
     {SpeakerCharge (s_ID s) |s p. s \<in> set (w_speakers w) \<and> p \<in> set (s_Participations s) \<and> sp_Member p = i} \<union>
     {SpeakerSubscriber (s_ID s) |s p. s \<in> set (w_speakers w) \<and> p \<in> set (s_Participations s) \<and>
        i \<in> set (sp_Subscribers p)} \<union>
     {AtMeeting (me_ID m) |m. m \<in> set (w_meetings w) \<and> i \<in> set (mp_Members (me_Participants m))} \<union>
     {Notified (no_ID n) |n. n \<in> set (w_notifications w) \<and> no_Member n = i} \<union>
     {Wrote (po_ID p) |p. p \<in> set (w_posts w) \<and> po_Member p = i} \<union>
     {InTeam (team_ID t) |t m. t \<in> set (w_teams w) \<and> m \<in> set (team_Members t) \<and> tm_Member m = i} \<union>
     {Coordinates (cot_ID t) |t m. t \<in> set (w_coordinationTeams w) \<and> cot_Coordinator t = Some m \<and> tm_Member m = i} \<union>
     {CoordinatedIn (cot_ID t) |t. t \<in> set (w_coordinationTeams w) \<and> i \<in> set (cot_CoordinatedMembers t)}"

text \<open>A reference that a deletion leaves behind: a subscription, or a place in a coordination team.\<close>

fun left_behind :: "member_ref \<Rightarrow> bool" where
  "left_behind (CompanySubscriber _) = True"
| "left_behind (SpeakerSubscriber _) = True"
| "left_behind (Coordinates _) = True"
| "left_behind (CoordinatedIn _) = True"
| "left_behind _ = False"

lemma refs_to_checked:
  "\<not> refs_to w i \<subseteq> Collect left_behind \<longleftrightarrow>
     (\<exists>c \<in> set (w_companies w). i \<in> cp_Member ` set (co_Participations c)) \<or>
     (\<exists>m \<in> set (w_meetings w). i \<in> set (mp_Members (me_Participants m))) \<or>
     (\<exists>n \<in> set (w_notifications w). no_Member n = i) \<or>
     (\<exists>p \<in> set (w_posts w). po_Member p = i) \<or>
     (\<exists>s \<in> set (w_speakers w). i \<in> sp_Member ` set (s_Participations s)) \<or>
     (\<exists>t \<in> set (w_teams w). i \<in> tm_Member ` set (team_Members t))" (is "_ \<longleftrightarrow> ?checked")
proof
  assume "\<not> refs_to w i \<subseteq> Collect left_behind"
  then obtain r where "r \<in> refs_to w i" "\<not> left_behind r" by blast
  then show ?checked by (cases r) (auto simp: refs_to_def)
next
  assume ?checked
  then have "\<exists>r. \<not> left_behind r \<and> r \<in> refs_to w i"
  proof (elim disjE bexE)
    fix c assume "c \<in> set (w_companies w)" "i \<in> cp_Member ` set (co_Participations c)"
    then show ?thesis by (intro exI [of _ "CompanyCharge (co_ID c)"]) (auto simp: refs_to_def)
  next
    fix m assume "m \<in> set (w_meetings w)" "i \<in> set (mp_Members (me_Participants m))"
    then show ?thesis by (intro exI [of _ "AtMeeting (me_ID m)"]) (auto simp: refs_to_def)
  next
    fix n assume "n \<in> set (w_notifications w)" "no_Member n = i"
    then show ?thesis by (intro exI [of _ "Notified (no_ID n)"]) (auto simp: refs_to_def)
  next
    fix p assume "p \<in> set (w_posts w)" "po_Member p = i"
    then show ?thesis by (intro exI [of _ "Wrote (po_ID p)"]) (auto simp: refs_to_def)
  next
    fix s assume "s \<in> set (w_speakers w)" "i \<in> sp_Member ` set (s_Participations s)"
    then show ?thesis by (intro exI [of _ "SpeakerCharge (s_ID s)"]) (auto simp: refs_to_def)
  next
    fix t assume "t \<in> set (w_teams w)" "i \<in> tm_Member ` set (team_Members t)"
    then show ?thesis by (intro exI [of _ "InTeam (team_ID t)"]) (auto simp: refs_to_def)
  qed
  then show "\<not> refs_to w i \<subseteq> Collect left_behind" by blast
qed

lemma refs_to_clear:
  "refs_to w i \<subseteq> Collect left_behind \<longleftrightarrow>
     none_matches (\<lambda>c. i \<in> cp_Member ` set (co_Participations c)) (w_companies w) \<and>
     none_matches (\<lambda>m. i \<in> set (mp_Members (me_Participants m))) (w_meetings w) \<and>
     none_matches (\<lambda>n. no_Member n = i) (w_notifications w) \<and>
     none_matches (\<lambda>p. po_Member p = i) (w_posts w) \<and>
     none_matches (\<lambda>s. i \<in> sp_Member ` set (s_Participations s)) (w_speakers w) \<and>
     none_matches (\<lambda>t. i \<in> tm_Member ` set (team_Members t)) (w_teams w)"
  using refs_to_checked [of w i] by blast

lemma refs_to_same:
  assumes "contents w' = (contents w)\<lparr>w_members := ms\<rparr>"
  shows "refs_to w' i = refs_to w i"
  using contents_eqD(1,2,4,9,12,17,19) [OF assms] by (simp add: refs_to_def)

lemma wp_refuse_if_found:
  assumes "driver_spec bad idf (drv h)" and "\<And>e. bad e \<Longrightarrow> \<not> aborts e"
    and "\<And>v. contents (tick h v) = contents v" and "\<And>v v'. contents v = contents v' \<Longrightarrow> docs_of h v = docs_of h v'"
    and "contents v = contents w"
    and "\<And>v'. contents v' = contents w \<Longrightarrow> (\<forall>e. \<not> bad e) \<longrightarrow> none_matches f (docs_of h w) \<Longrightarrow> wp k Q R v'"
    and "\<And>v'. contents v' = contents w \<Longrightarrow> \<exists>x \<in> set (docs_of h w). f x \<Longrightarrow> R (Err ''Member associated'') v'"
  shows "wp (bindE (refuse_if_found h f) (\<lambda>_. k)) Q R v"
  unfolding refuse_if_found_def wp_bindE wp_onErr wp_retE wp_throwE
  by (rule wp_FindOne [OF assms(1)])
    (auto simp: assms(3,5) assms(4) [OF assms(5)] intro!: assms(6,7) dest: assms(2))

lemma wp_delete_member:
  assumes "mongo_spec bad E" and "distinct (map mb_ID (w_members w))"
    and "lookup mb_ID (w_members w) i = Some m" and "contents v = contents w"
  shows "wp (bindE (DeleteOne (Members E) (\<lambda>m. mb_ID m = i))
       (\<lambda>n. if n \<noteq> 1 then throwE err else retE m))
     (\<lambda>y v'. y = m \<and> contents v' = (contents w)\<lparr>w_members := remove_at mb_ID i (w_members w)\<rparr>)
     (\<lambda>e v'. contents v' = contents w \<and> bad e) v"
  unfolding wp_bindE
proof (rule wp_DeleteOne [OF mongo_drv(5) [OF assms(1)]], goal_cases)
  case (1 y ds)
  from removes_key [OF this, of mb_ID i] assms(2) contents_eqD(5) [OF assms(4)]
  show ?case by (simp add: assms(4))
next
  case 2
  then show ?case using lookup_Some_in [OF assms(3)] contents_eqD(5) [OF assms(4)] by auto
next
  case (3 e)
  then show ?case using assms(4) by (simp only: members.put_same_tick members.obs_tick)
qed

text \<open>
  C20: what refers to a member that is deleted. The deletion is refused, without a change, exactly when somebody
  is in charge of a participation, at a meeting, notified, an author or in a team; when every query is
  answered, what still names a deleted member are subscriptions to participations and places in
  coordination teams, and all of these stay and dangle. So the code's own comment, that a member goes only when nothing
  else is associated with them, is not true of the two. A check whose query fails counts as passed: with a failing
  database a member may go who is referred to in any way.
\<close>

theorem DeleteMember_references:
  assumes "mongo_spec bad E" and "distinct (map mb_ID (w_members w))"
  shows "wp (Members_DeleteMember E i)
     (\<lambda>m w'. lookup mb_ID (w_members w) i = Some m \<and>
        contents w' = (contents w)\<lparr>w_members := remove_at mb_ID i (w_members w)\<rparr> \<and>
        i \<notin> mb_ID ` set (w_members w') \<and> refs_to w' i = refs_to w i \<and>
        ((\<forall>e. \<not> bad e) \<longrightarrow> refs_to w' i \<subseteq> Collect left_behind))
     (\<lambda>e w'. contents w' = contents w \<and>
        (bad e \<or> e = ErrNoDocuments \<and> lookup mb_ID (w_members w) i = None \<or>
         e = Err ''Member associated'' \<and> \<not> refs_to w i \<subseteq> Collect left_behind)) w"
  unfolding Members_DeleteMember_def wp_bindE
proof (rule wp_keyed_read [OF keyed_lookups(3) [OF assms(1)]], goal_cases)
  case 1
  then show ?case using assms(2) by simp
next
  case (2 m w1)
  have *: "bad e \<Longrightarrow> \<not> aborts e" for e by (rule mongo_spec_aborts [OF assms(1)])
  have gone: "i \<notin> mb_ID ` set (w_members w')"
    if "contents w' = (contents w)\<lparr>w_members := remove_at mb_ID i (w_members w)\<rparr>" for w'
    using contents_eqD(5) [OF that] by (auto simp: remove_at_def)
  show ?case
    unfolding wp_bindE [symmetric]
    by (intro wp_refuse_if_found [where w = w, OF mongo_drv(1) [OF assms(1)] * companies.obs_tick companies.obs_docs]
        wp_refuse_if_found [where w = w, OF mongo_drv(9) [OF assms(1)] * meetings.obs_tick meetings.obs_docs]
        wp_refuse_if_found [where w = w, OF mongo_drv(17) [OF assms(1)] * notifications.obs_tick notifications.obs_docs]
        wp_refuse_if_found [where w = w, OF mongo_drv(12) [OF assms(1)] * posts.obs_tick posts.obs_docs]
        wp_refuse_if_found [where w = w, OF mongo_drv(2) [OF assms(1)] * speakers.obs_tick speakers.obs_docs]
        wp_refuse_if_found [where w = w, OF mongo_drv(4) [OF assms(1)] * teams.obs_tick teams.obs_docs]
        wp_mono [OF wp_delete_member [OF assms(1,2), of i m]])
      (use 2 in \<open>simp_all add: refs_to_same gone refs_to_clear\<close>)
qed auto

text \<open>
  Member 7 is in a team. Member 8 is in none, but subscribes to company 4 and coordinates a team, and is deleted all
  the same.
\<close>

definition subscribed_world :: world where
  "subscribed_world = staff_world\<lparr>
     w_companies := [(sample_company Accepted)\<lparr>co_Participations := [(new_participation 1 7 False)\<lparr>cp_Subscribers := [8]\<rparr>]\<rparr>],
     w_coordinationTeams := [\<lparr>cot_ID = 30, cot_Name = ''c'', cot_Coordinator = Some \<lparr>tm_Member = 8, tm_Role = RoleCoordinator\<rparr>,
       cot_CoordinatedMembers = []\<rparr>]\<rparr>"

lemma subscribed_world_refs:
  "refs_to subscribed_world 8 = {CompanySubscriber 4, Coordinates 30}" "\<not> refs_to subscribed_world 7 \<subseteq> Collect left_behind"
proof -
  show "refs_to subscribed_world 8 = {CompanySubscriber 4, Coordinates 30}"
    by (auto simp: refs_to_def subscribed_world_def staff_world_def team_of_def new_participation_def)
  show "\<not> refs_to subscribed_world 7 \<subseteq> Collect left_behind"
    unfolding refs_to_checked by (simp add: subscribed_world_def staff_world_def team_of_def)
qed

lemma subscribed_world_members:
  "map mb_ID (w_members subscribed_world) = [7, 8]" "lookup mb_ID (w_members subscribed_world) 7 \<noteq> None"
  "map_option mb_Name (lookup mb_ID (w_members subscribed_world) 8) = Some ''Bob''"
  "map mb_ID (remove_at mb_ID 8 (w_members subscribed_world)) = [7]"
  by (simp_all add: subscribed_world_def staff_world_def member_of_def lookup_def remove_at_def)

theorem DeleteMember_references_witness:
  "wp (Members_DeleteMember local_env 8)
     (\<lambda>m w'. mb_Name m = ''Bob'' \<and> map mb_ID (w_members w') = [7] \<and> refs_to w' 8 = {CompanySubscriber 4, Coordinates 30})
     (\<lambda>e w'. False) subscribed_world \<and>
   wp (Members_DeleteMember local_env 7) (\<lambda>m w'. False) (\<lambda>e w'. e = Err ''Member associated'') subscribed_world"
proof -
  have ids: "distinct (map mb_ID (w_members subscribed_world))" by (simp add: subscribed_world_members(1))
  note deleted = DeleteMember_references [OF local_env_up ids]
  show ?thesis
  proof (intro conjI; rule wp_mono [OF deleted], goal_cases)
    case (1 m w')
    with contents_eqD(5) [OF conjunct1 [OF conjunct2 [OF 1]]] subscribed_world_members(3,4) subscribed_world_refs(1)
    show ?case by simp
  next
    case (2 e w')
    with subscribed_world_refs(1) subscribed_world_members(3) show ?case by auto
  qed (use subscribed_world_refs(2) subscribed_world_members(2) in auto)
qed

section \<open>The public list\<close>

lemma key_unique: "distinct (map f xs) \<Longrightarrow> x \<in> set xs \<Longrightarrow> y \<in> set xs \<Longrightarrow> f x = f y \<Longrightarrow> x = y"
  by (auto simp: distinct_map dest: inj_onD)

definition event_members :: "world \<Rightarrow> event \<Rightarrow> member set" where
  "event_members w e = {m \<in> set (w_members w). \<exists>t \<in> set (w_teams w).
     team_ID t \<in> set (ev_Teams e) \<and> mb_ID m \<in> tm_Member ` set (team_Members t)}"

text \<open>The accumulator of the loops: the members of the list are those seen, each once.\<close>

definition lists_seen :: "world \<Rightarrow> oid set \<Rightarrow> oid list \<times> memberPublic list \<Rightarrow> bool" where
  "lists_seen w S acc \<longleftrightarrow> (\<forall>m \<in> set (w_members w). mb_ID m \<in> set (fst acc) \<longleftrightarrow> mb_ID m \<in> S) \<and>
     mbp_Name ` set (snd acc) = mb_Name ` {m \<in> set (w_members w). mb_ID m \<in> set (fst acc)} \<and>
     distinct (fst acc) \<and> length (snd acc) = length (fst acc)"

lemma wp_member_socials:
  assumes "mongo_spec bad E" and "\<And>c v'. contents v' = contents v \<Longrightarrow> Q c v'"
  shows "wp (member_socials E m) Q R v"
  unfolding member_socials_def Contacts_GetContact_def wp_onErr
  by (rule wp_FindOne [OF mongo_drv(10) [OF assms(1)]])
    (use mongo_spec_aborts [OF assms(1)] in \<open>auto intro: assms(2)\<close>)

lemma lists_seen_step:
  assumes "lists_seen w S (seen, pubs)" and "m \<in> set (w_members w)" and "distinct (map mb_ID (w_members w))"
  shows "mb_ID m \<in> set seen \<Longrightarrow> lists_seen w (insert (mb_ID m) S) (seen, pubs)"
    and "mb_ID m \<notin> set seen \<Longrightarrow>
      lists_seen w (insert (mb_ID m) S) (mb_ID m # seen, pubs @ [public_member m team socials])"
proof -
  have only: "x = m" if "x \<in> set (w_members w)" "mb_ID x = mb_ID m" for x
    using that assms(2) by (auto intro: key_unique [OF assms(3)])
  show "mb_ID m \<in> set seen \<Longrightarrow> lists_seen w (insert (mb_ID m) S) (seen, pubs)"
    using assms(1,2) by (auto simp: lists_seen_def)
  show "lists_seen w (insert (mb_ID m) S) (mb_ID m # seen, pubs @ [public_member m team socials])"
    if "mb_ID m \<notin> set seen"
  proof -
    have "{x \<in> set (w_members w). mb_ID x \<in> set (mb_ID m # seen)} =
        insert m {x \<in> set (w_members w). mb_ID x \<in> set seen}"
      using only assms(2) by auto
    then show ?thesis
      using assms(1) that by (auto simp: lists_seen_def public_member_def)
  qed
qed

definition list_error :: "(err \<Rightarrow> bool) \<Rightarrow> err \<Rightarrow> bool" where
  "list_error bad e \<longleftrightarrow> bad e \<or> e = ErrNoDocuments"

lemma wp_team_public_members:
  assumes "mongo_spec bad E" and "distinct (map mb_ID (w_members w))" and "contents v = contents w"
    and "lists_seen w S acc"
  shows "wp (team_public_members E team ts acc)
     (\<lambda>r v'. contents v' = contents w \<and> lists_seen w (S \<union> tm_Member ` set ts) r)
     (\<lambda>e v'. contents v' = contents w \<and> list_error bad e) v"
  using assms(3,4)
proof (induction ts arbitrary: S acc v)
  case Nil
  then show ?case by simp
next
  case (Cons t ts)
  obtain seen pubs where acc: "acc = (seen, pubs)" by (cases acc)
  show ?case
    unfolding team_public_members.simps wp_bindE
  proof (rule wp_GetMember [OF assms(1)], goal_cases)
    case (1 m v1)
    then have m: "m \<in> set (w_members w)" and t: "tm_Member t = mb_ID m" and v1: "contents v1 = contents w"
      using Cons.prems contents_eqD(5) [OF Cons.prems(1)] by auto
    note step = lists_seen_step [OF Cons.prems(2) [unfolded acc] m assms(2)]
    show ?case
    proof (cases "mb_ID m \<in> set seen")
      case True
      with Cons.IH [OF v1 step(1)] show ?thesis by (simp add: acc t)
    next
      case False
      have "wp (member_socials E m) (\<lambda>socials. wp (team_public_members E team ts
            (mb_ID m # seen, pubs @ [public_member m team socials]))
          (\<lambda>r v'. contents v' = contents w \<and> lists_seen w (S \<union> tm_Member ` set (t # ts)) r)
          (\<lambda>e v'. contents v' = contents w \<and> list_error bad e))
          (\<lambda>e v'. contents v' = contents w \<and> list_error bad e) v1"
        using Cons.IH [OF _ step(2) [OF False]] v1 t
        by (intro wp_member_socials [OF assms(1)]) simp
      with False show ?thesis by (simp add: acc)
    qed
  next
    case (2 e v1)
    then show ?case using Cons.prems by (auto simp: list_error_def)
  qed
qed

lemma wp_event_public_members:
  assumes "mongo_spec bad E" and "distinct (map mb_ID (w_members w))" and "distinct (map team_ID (w_teams w))"
    and "contents v = contents w" and "lists_seen w S acc"
  shows "wp (event_public_members E is acc)
     (\<lambda>r v'. contents v' = contents w \<and> lists_seen w (S \<union>
        (\<Union>t \<in> {t \<in> set (w_teams w). team_ID t \<in> set is}. tm_Member ` set (team_Members t))) r)
     (\<lambda>e v'. contents v' = contents w \<and> list_error bad e) v"
  using assms(4,5)
proof (induction "is" arbitrary: S acc v)
  case Nil
  then show ?case by simp
next
  case (Cons i "is")
  show ?case
    unfolding event_public_members.simps wp_bindE
  proof (rule wp_keyed_read [OF keyed_communication_reads(4) [OF assms(1)]], goal_cases)
    case 1
    then show ?case using assms(3) contents_eqD(4) [OF Cons.prems(1)] by simp
  next
    case (2 t v1)
    then have t: "lookup team_ID (w_teams w) i = Some t" and v1: "contents v1 = contents w"
      using Cons.prems contents_eqD(4) [OF Cons.prems(1)] by simp_all
    have "{x \<in> set (w_teams w). team_ID x \<in> set (i # is)} =
        insert t {x \<in> set (w_teams w). team_ID x \<in> set is}"
      using lookup_Some_in [OF t] key_unique [OF assms(3)] by auto
    then have all: "S \<union> (\<Union>t \<in> {t \<in> set (w_teams w). team_ID t \<in> set (i # is)}. tm_Member ` set (team_Members t)) =
        (S \<union> tm_Member ` set (team_Members t)) \<union>
        (\<Union>t \<in> {t \<in> set (w_teams w). team_ID t \<in> set is}. tm_Member ` set (team_Members t))"
      by auto
    show ?case
      unfolding all
      by (rule wp_mono [OF wp_team_public_members [OF assms(1,2) v1 Cons.prems(2)]])
        (auto intro: Cons.IH)
  next
    case (3 e v1)
    then show ?case using Cons.prems by (auto simp: list_error_def)
  qed
qed

lemma lists_seen_event:
  assumes "lists_seen w ({} \<union> (\<Union>t \<in> {t \<in> set (w_teams w). team_ID t \<in> set (ev_Teams e)}.
      tm_Member ` set (team_Members t))) acc"
  shows "mbp_Name ` set (snd acc) = mb_Name ` event_members w e"
proof -
  have "{m \<in> set (w_members w). mb_ID m \<in> set (fst acc)} = event_members w e"
    using assms unfolding lists_seen_def event_members_def by blast
  with assms show ?thesis by (simp add: lists_seen_def)
qed

lemma wp_GetMembersPublic_event:
  assumes "mongo_spec bad E" and "ids_ok w" and "currentPublicMembers w = None"
  shows "wp (Members_GetMembersPublic E \<lparr>gmbo_Name = n, gmbo_Event = Some ev\<rparr>)
     (\<lambda>pubs w'. contents w' = (contents w)\<lparr>currentPublicMembers := Some pubs\<rparr> \<and>
        (\<exists>e. lookup ev_ID (w_events w) ev = Some e \<and> mbp_Name ` set pubs = mb_Name ` event_members w e))
     (\<lambda>e w'. contents w' = contents w \<and> list_error bad e) w"
proof -
  have start: "lists_seen w {} ([], [])" by (simp add: lists_seen_def)
  show ?thesis
    unfolding Members_GetMembersPublic_def
    apply (simp only: GetMemberOptions.simps option.case wp_bindE)
    apply (rule wp_keyed_read [OF keyed_GetEvent [OF assms(1)]])
    subgoal using ids_okD(3) [OF assms(2)] by simp
    subgoal for e w1
      apply (rule wp_mono [OF wp_event_public_members [OF assms(1) ids_okD(5,4) [OF assms(2)] _ start]])
        apply assumption
      subgoal for acc w2
        using contents_eqD(23) [of w2 "contents w"] assms(3) lists_seen_event [of w e acc]
        by (cases acc) auto
      by simp
    by (auto simp: list_error_def)
qed

lemma wp_convertToPublicMembers_loop:
  assumes "mongo_spec bad E" and "contents v = contents w"
  shows "wp (convertToPublicMembers_loop E ms acc)
     (\<lambda>r v'. contents v' = contents w \<and> map mbp_Name r = map mbp_Name acc @ map mb_Name ms)
     (\<lambda>e v'. False) v"
  using assms(2)
proof (induction ms arbitrary: acc v)
  case Nil
  then show ?case by simp
next
  case (Cons m ms)
  then show ?case
    unfolding convertToPublicMembers_loop.simps wp_bindE
    by (intro wp_member_socials [OF assms(1)] wp_mono [OF Cons.IH]) (auto simp: public_member_def)
qed

lemma filterDuplicatesMembers_set: "set (filterDuplicatesMembers ms) \<subseteq> set ms"
proof -
  have "set (filterDuplicatesMembers_loop ms res) \<subseteq> set ms \<union> set res" for res
  proof (induction ms arbitrary: res)
    case (Cons a ms)
    from Cons.IH [of res] Cons.IH [of "res @ [a]"] show ?case by auto
  qed simp
  then show ?thesis by (fastforce simp: filterDuplicatesMembers_def)
qed

lemma filterDuplicatesMembers_ids: "mb_ID ` set (filterDuplicatesMembers ms) = mb_ID ` set ms"
proof -
  have "mb_ID ` set (filterDuplicatesMembers_loop ms res) = mb_ID ` set ms \<union> mb_ID ` set res" for res
  proof (induction ms arbitrary: res)
    case (Cons a ms)
    show ?case
    proof (cases "\<exists>t \<in> set res. mb_ID t = mb_ID a")
      case True
      then have "mb_ID a \<in> mb_ID ` set res" by (metis image_eqI)
      with True Cons.IH [of res] show ?thesis by auto
    next
      case False
      with Cons.IH [of "res @ [a]"] show ?thesis by simp
    qed
  qed simp
  then show ?thesis by (simp add: filterDuplicatesMembers_def)
qed

lemma filterDuplicatesMembers_distinct:
  assumes "distinct (map mb_ID (w_members w))" and "set ms = set (w_members w)"
  shows "set (filterDuplicatesMembers ms) = set (w_members w)"
proof (intro equalityI subsetI)
  fix m assume "m \<in> set (filterDuplicatesMembers ms)"
  with filterDuplicatesMembers_set [of ms] assms(2) show "m \<in> set (w_members w)" by blast
next
  fix m assume m: "m \<in> set (w_members w)"
  then have "mb_ID m \<in> mb_ID ` set (filterDuplicatesMembers ms)"
    using assms(2) by (simp add: filterDuplicatesMembers_ids)
  then obtain x where x: "x \<in> set (filterDuplicatesMembers ms)" "mb_ID x = mb_ID m" by auto
  moreover have "x \<in> set (w_members w)" using x(1) filterDuplicatesMembers_set [of ms] assms(2) by blast
  ultimately show "m \<in> set (filterDuplicatesMembers ms)" using key_unique [OF assms(1) _ m] by blast
qed

definition any_member :: GetMemberOptions where
  "any_member = \<lparr>gmbo_Name = None, gmbo_Event = None\<rparr>"

lemma GetMembersPublic_cached:
  "currentPublicMembers w = Some pubs \<Longrightarrow> Members_GetMembersPublic E any_member w = (Inr pubs, w)"
  by (simp add: Members_GetMembersPublic_def any_member_def bindE_def getsE_def retE_def name_contains_def)

lemma wp_GetMembersPublic_all:
  assumes "mongo_spec bad E" and "ids_ok w" and "currentPublicMembers w = None"
  shows "wp (Members_GetMembersPublic E any_member)
     (\<lambda>pubs w'. (\<exists>cached. contents w' = (contents w)\<lparr>currentPublicMembers := Some cached\<rparr>) \<and>
        mbp_Name ` set pubs = mb_Name ` set (w_members w))
     (\<lambda>e w'. contents w' = contents w \<and> bad e) w"
  unfolding Members_GetMembersPublic_def any_member_def convertToPublicMembers_def
  apply (simp add: assms(3) Let_def name_contains_def)
proof (rule wp_Find_set [OF mongo_drv(5) [OF assms(1)]], goal_cases)
  case (1 ms)
  let ?fs = "filterDuplicatesMembers ms"
  have same: "set ?fs = set (w_members w)"
    using filterDuplicatesMembers_distinct [OF ids_okD(5) [OF assms(2)]] 1 by simp
  have "wp (convertToPublicMembers_loop E ?fs []) (\<lambda>p v. wp (convertToPublicMembers_loop E ?fs [])
      (\<lambda>pubs w'. (\<exists>cached. contents w' = (contents w)\<lparr>currentPublicMembers := Some cached\<rparr>) \<and>
        mbp_Name ` set pubs = mb_Name ` set (w_members w))
      (\<lambda>e w'. contents w' = contents w \<and> bad e) (v\<lparr>currentPublicMembers := Some p\<rparr>))
      (\<lambda>e w'. contents w' = contents w \<and> bad e) (tick (Members E) w)"
  proof (rule wp_mono [OF wp_convertToPublicMembers_loop [OF assms(1), where w = w]], goal_cases)
    case (2 p v)
    show ?case
    proof (rule wp_mono [OF wp_convertToPublicMembers_loop [OF assms(1) refl]], goal_cases)
      case (1 pubs w')
      then have "set (map mbp_Name pubs) = set (map mb_Name ?fs)" by simp
      then have "mbp_Name ` set pubs = mb_Name ` set (w_members w)" by (simp add: same)
      with 1 2 show ?case by (intro conjI exI [of _ p]) simp_all
    qed simp
  qed simp_all
  then show ?case using assms(3) by simp (elim wp_mono; simp)
qed simp

text \<open>
  The public list of members and its one cache. With nothing cached, a request for all of them lists every stored
  member. A request for an event lists the members of the teams of that event, and leaves that list in the
  same cache: from then on a request for all members is answered with those of the one event.
\<close>

theorem GetMembersPublic_poisoned:
  assumes "mongo_spec bad E" and "ids_ok w" and "currentPublicMembers w = None"
  shows "wp (Members_GetMembersPublic E any_member)
      (\<lambda>pubs w'. mbp_Name ` set pubs = mb_Name ` set (w_members w))
      (\<lambda>e w'. contents w' = contents w \<and> bad e) w \<and>
    wp (bindE (Members_GetMembersPublic E \<lparr>gmbo_Name = n, gmbo_Event = Some ev\<rparr>) (\<lambda>pubs.
        Members_GetMembersPublic E any_member))
      (\<lambda>all w'. \<exists>e. lookup ev_ID (w_events w) ev = Some e \<and> mbp_Name ` set all = mb_Name ` event_members w e)
      (\<lambda>e w'. contents w' = contents w \<and> list_error bad e) w"
proof (intro conjI)
  show "wp (Members_GetMembersPublic E any_member)
      (\<lambda>pubs w'. mbp_Name ` set pubs = mb_Name ` set (w_members w))
      (\<lambda>e w'. contents w' = contents w \<and> bad e) w"
    by (rule wp_mono [OF wp_GetMembersPublic_all [OF assms]]) auto
  show "wp (bindE (Members_GetMembersPublic E \<lparr>gmbo_Name = n, gmbo_Event = Some ev\<rparr>) (\<lambda>pubs.
        Members_GetMembersPublic E any_member))
      (\<lambda>all w'. \<exists>e. lookup ev_ID (w_events w) ev = Some e \<and> mbp_Name ` set all = mb_Name ` event_members w e)
      (\<lambda>e w'. contents w' = contents w \<and> list_error bad e) w"
    unfolding wp_bindE
  proof (rule wp_mono [OF wp_GetMembersPublic_event [OF assms]], goal_cases)
    case (1 pubs w1)
    then have "currentPublicMembers w1 = Some pubs"
      using contents_eqD(23) [OF conjunct1 [OF 1]] by simp
    with 1 show ?case by (simp add: wp_def GetMembersPublic_cached)
  qed simp
qed

text \<open>Bob is in no team, and so off the list of all members once event 1 has been asked for.\<close>

theorem GetMembersPublic_poisoned_witness:
  "wp (bindE (Members_GetMembersPublic local_env \<lparr>gmbo_Name = None, gmbo_Event = Some 1\<rparr>) (\<lambda>pubs.
      Members_GetMembersPublic local_env any_member))
     (\<lambda>all w'. mbp_Name ` set all = {''Ann''}) (\<lambda>e w'. e = ErrNoDocuments) staff_world"
proof (rule wp_mono [OF GetMembersPublic_poisoned [OF local_env_up staff_world_ids, THEN conjunct2]], goal_cases)
  case 1
  show ?case by (simp add: staff_world_def)
next
  case (2 all w')
  moreover have "event_members staff_world ((new_event 1 ''e'')\<lparr>ev_Teams := [10, 11]\<rparr>) =
      {member_of \<lparr>cmbd_Name = ''Ann'', cmbd_Istid = ''ist1'', cmbd_SINFOID = ''ann''\<rparr> 1 7}"
    by (auto simp: event_members_def staff_world_def member_of_def team_of_def)
  ultimately show ?case by (auto simp: staff_world_def lookup_def member_of_def)
next
  case (3 e w')
  then show ?case by (simp add: list_error_def)
qed

end
