(* ===== verification/TeamProperties.thy ===== *)
theory TeamProperties
  imports MemberProperties
begin

text \<open>
  The members of teams and of coordination teams: each is listed once, whatever the operations do; adding a
  member and removing them again gives the team back; and what deleting a team leaves in the
  events that list it.
\<close>

section \<open>Each member once\<close>

definition team_inv :: "world \<Rightarrow> bool" where
  "team_inv w \<longleftrightarrow> distinct (map team_ID (w_teams w)) \<and>
     (\<forall>t \<in> set (w_teams w). distinct (map tm_Member (team_Members t)))"

definition coordination_inv :: "world \<Rightarrow> bool" where
  "coordination_inv w \<longleftrightarrow> distinct (map cot_ID (w_coordinationTeams w)) \<and>
     (\<forall>c \<in> set (w_coordinationTeams w). distinct (cot_CoordinatedMembers c))"

lemma team_inv_simps [simp]: "team_inv (tickw w) = team_inv w"
  "coordination_inv (tickw w) = coordination_inv w"
  by (simp_all add: team_inv_def coordination_inv_def)

text \<open>An update of one team that keeps its ID and, if the members were distinct, leaves them so.\<close>

lemma wp_team_update:
  assumes "mongo_spec bad E" and "team_inv w" and "\<And>t. team_ID (u t) = team_ID t"
    and "\<And>t. distinct (map tm_Member (team_Members t)) \<Longrightarrow> distinct (map tm_Member (team_Members (u t)))"
  shows "wp (FindOneAndUpdate (Teams E) f u) (\<lambda>_. team_inv) (\<lambda>_. team_inv) w"
proof (rule wp_FindOneAndUpdate [OF mongo_drv(4) [OF assms(1)]], goal_cases)
  case (1 y ds)
  then obtain pre x post where ds: "w_teams w = pre @ x # post" "ds = pre @ u x # post"
    by (auto simp: replaces_def)
  with assms(2) show ?case by (simp add: team_inv_def assms(3,4))
qed (use assms(2) in \<open>simp add: team_inv_def\<close>)

lemmas keeps_team_update = keepsI [OF wp_team_update]

lemma keeps_team_reads [keeps_rules]:
  "keeps team_inv (Teams_GetTeam E i)" "keeps team_inv (Members_GetMember E j)"
  "keeps team_inv (Meetings_GetMeeting E k)" "keeps team_inv (Events_GetCurrentEvent E)"
  unfolding Teams_GetTeam_def Members_GetMember_def Meetings_GetMeeting_def Events_GetCurrentEvent_def
  by (intro keeps_rules; simp)+

text \<open>Read a team, then write a list of members computed from the one read.\<close>

lemma wp_read_then_set:
  assumes "mongo_spec bad E" and "team_inv w"
    and "\<And>t w'. distinct (map tm_Member (team_Members t)) \<Longrightarrow> team_inv w' \<Longrightarrow> wp (k t) (\<lambda>_. team_inv) (\<lambda>_. team_inv) w'"
  shows "wp (bindE (Teams_GetTeam E i) k) (\<lambda>_. team_inv) (\<lambda>_. team_inv) w"
  unfolding Teams_GetTeam_def wp_bindE
  by (rule wp_FindOne [OF mongo_drv(4) [OF assms(1)]]) (use assms(2) in \<open>auto simp: team_inv_def intro!: assms(3)\<close>)

lemma without_first_distinct:
  "distinct (map f (before @ xs)) \<Longrightarrow> distinct (map f (without_first P before xs))"
  by (induction xs arbitrary: before) auto

lemma without_first_key:
  "distinct (map key xs) \<Longrightarrow> i \<in> key ` set xs \<Longrightarrow>
   without_first (\<lambda>s. key s = i) before xs = before @ filter (\<lambda>s. key s \<noteq> i) xs"
  by (induction xs arbitrary: before) (auto simp: filter_neq_key)

lemma keeps_team_updates:
  assumes "mongo_spec bad E"
  shows "keeps team_inv (Teams_UpdateTeam E i d)"
    and "keeps team_inv (Teams_UpdateTeamMemberRole E i j r)"
    and "keeps team_inv (Teams_AddMeeting E i k)"
    and "keeps team_inv (Teams_DeleteTeamMeeting E i k)"
  unfolding Teams_UpdateTeam_def Teams_UpdateTeamMemberRole_def Teams_AddMeeting_def Teams_DeleteTeamMeeting_def
  by (intro keeps_rules keeps_team_update [OF assms]; simp add: map_positional)+

lemma keeps_team_members:
  assumes "mongo_spec bad E"
  shows "keeps team_inv (Teams_AddTeamMember E i d)" and "keeps team_inv (Teams_DeleteTeamMember E i j)"
  unfolding Teams_AddTeamMember_def Teams_DeleteTeamMember_def
  by (intro keeps_bindE keeps_team_reads keepsI wp_read_then_set [OF assms],
      auto simp: Let_def team_members.has_iff without_first_distinct intro!: wp_team_update [OF assms])+

lemma keeps_team_create:
  assumes "mongo_spec bad E"
  shows "keeps team_inv (Teams_CreateTeam E c)" and "keeps team_inv (Teams_DeleteTeam E i)"
proof -
  have new: "keeps team_inv (InsertOne (Teams E) (team_of c))"
    by (rule keepsI, rule wp_InsertOne [OF mongo_drv(4) [OF assms]]) (auto simp: team_inv_def team_of_def)
  have event: "keeps team_inv (FindOneAndUpdate (Events E) f u)" for f u
    by (rule keeps_store) (simp add: team_inv_def)
  show "keeps team_inv (Teams_CreateTeam E c)"
    unfolding Teams_CreateTeam_def by (intro keeps_bindE [OF new] keeps_rules event)
  show "keeps team_inv (Teams_DeleteTeam E i)"
    unfolding Teams_DeleteTeam_def
    by (rule keepsI, rule wp_FindOneAndDelete [OF mongo_drv(4) [OF assms]]) (auto simp: team_inv_def removes_def)
qed

section \<open>Coordination teams\<close>

lemma keeps_coordination_read [keeps_rules]:
  "keeps coordination_inv (CoordinationTeams_GetCoordinationTeam E i)"
  unfolding CoordinationTeams_GetCoordinationTeam_def by (intro keeps_rules) simp

lemma wp_set_and_get:
  assumes "mongo_spec bad E" and "coordination_inv w" and "\<And>c. cot_ID (u c) = cot_ID c"
    and "\<And>c. distinct (cot_CoordinatedMembers c) \<Longrightarrow> distinct (cot_CoordinatedMembers (u c))"
  shows "wp (set_and_get E i u) (\<lambda>_. coordination_inv) (\<lambda>_. coordination_inv) w"
  unfolding set_and_get_def wp_bindE
proof (rule wp_UpdateOne [OF mongo_drv(19) [OF assms(1)]], goal_cases)
  case (1 y ds)
  then obtain pre x post where ds: "w_coordinationTeams w = pre @ x # post" "ds = pre @ u x # post"
    by (auto simp: replaces_def)
  with assms(2) show ?case
    by (intro wp_keeps [OF keeps_coordination_read]) (simp add: coordination_inv_def assms(3,4))
qed (use assms(2) in \<open>auto simp: coordination_inv_def intro!: wp_keeps [OF keeps_coordination_read]\<close>)

lemma wp_read_coordination:
  assumes "mongo_spec bad E" and "coordination_inv w"
    and "\<And>c w'. distinct (cot_CoordinatedMembers c) \<Longrightarrow> coordination_inv w' \<Longrightarrow>
      wp (k c) (\<lambda>_. coordination_inv) (\<lambda>_. coordination_inv) w'"
  shows "wp (bindE (CoordinationTeams_GetCoordinationTeam E i) k) (\<lambda>_. coordination_inv) (\<lambda>_. coordination_inv) w"
  unfolding CoordinationTeams_GetCoordinationTeam_def wp_bindE
  by (rule wp_FindOne [OF mongo_drv(19) [OF assms(1)]])
    (use assms(2) in \<open>auto simp: coordination_inv_def intro!: assms(3)\<close>)

lemma other_members_loop:
  "other_members i ms found acc = (found \<or> i \<in> set ms, acc @ filter (\<lambda>m. m \<noteq> i) ms)"
  by (induction ms arbitrary: found acc) auto

lemma keeps_coordination_updates:
  assumes "mongo_spec bad E"
  shows "keeps coordination_inv (CoordinationTeams_AddCoordinatedMember E i j)"
    and "keeps coordination_inv (CoordinationTeams_RemoveCoordinatedMember E i j)"
    and "keeps coordination_inv (CoordinationTeams_SetCoordinator E i m n)"
    and "keeps coordination_inv (CoordinationTeams_RemoveCoordinator E i j)"
    and "keeps coordination_inv (CoordinationTeams_UpdateName E i n)"
  unfolding CoordinationTeams_AddCoordinatedMember_def CoordinationTeams_RemoveCoordinatedMember_def
    CoordinationTeams_SetCoordinator_def CoordinationTeams_RemoveCoordinator_def CoordinationTeams_UpdateName_def
  by (intro keepsI wp_read_coordination [OF assms];
      auto simp: Let_def HasCoordinatedMember_loop_iff other_members_loop intro!: wp_set_and_get [OF assms])+

lemma keeps_coordination_create:
  assumes "mongo_spec bad E"
  shows "keeps coordination_inv (CoordinationTeams_CreateCoordinationTeam E n)"
    and "keeps coordination_inv (CoordinationTeams_DeleteCoordinationTeam E i)"
proof -
  have "keeps coordination_inv (InsertOne (CoordinationTeams E) (coordinationTeam_of n))"
    by (rule keepsI, rule wp_InsertOne [OF mongo_drv(19) [OF assms]])
      (auto simp: coordination_inv_def coordinationTeam_of_def)
  then show "keeps coordination_inv (CoordinationTeams_CreateCoordinationTeam E n)"
    unfolding CoordinationTeams_CreateCoordinationTeam_def by (intro keeps_rules)
  have "keeps coordination_inv (DeleteOne (CoordinationTeams E) f)" for f
    by (rule keepsI, rule wp_DeleteOne [OF mongo_drv(19) [OF assms]])
      (auto simp: coordination_inv_def removes_def)
  then show "keeps coordination_inv (CoordinationTeams_DeleteCoordinationTeam E i)"
    unfolding CoordinationTeams_DeleteCoordinationTeam_def by (intro keeps_rules)
qed

text \<open>
  C18: a team lists no member twice and a coordination team no coordinated member twice, and their IDs are distinct:
  every operation on teams and on coordination teams keeps this, whatever it answers.
\<close>

theorem members_listed_once:
  assumes "mongo_spec bad E"
  shows "keeps team_inv (Teams_CreateTeam E c) \<and> keeps team_inv (Teams_DeleteTeam E i) \<and>
    keeps team_inv (Teams_UpdateTeam E i c) \<and> keeps team_inv (Teams_AddTeamMember E i d) \<and>
    keeps team_inv (Teams_UpdateTeamMemberRole E i j r) \<and> keeps team_inv (Teams_DeleteTeamMember E i j) \<and>
    keeps team_inv (Teams_AddMeeting E i k) \<and> keeps team_inv (Teams_DeleteTeamMeeting E i k) \<and>
    keeps coordination_inv (CoordinationTeams_CreateCoordinationTeam E n) \<and>
    keeps coordination_inv (CoordinationTeams_AddCoordinatedMember E i j) \<and>
    keeps coordination_inv (CoordinationTeams_RemoveCoordinatedMember E i j) \<and>
    keeps coordination_inv (CoordinationTeams_SetCoordinator E i m n) \<and>
    keeps coordination_inv (CoordinationTeams_RemoveCoordinator E i j) \<and>
    keeps coordination_inv (CoordinationTeams_UpdateName E i n) \<and>
    keeps coordination_inv (CoordinationTeams_DeleteCoordinationTeam E i)"
  by (intro conjI keeps_team_create [OF assms] keeps_team_updates [OF assms] keeps_team_members [OF assms]
      keeps_coordination_updates [OF assms] keeps_coordination_create [OF assms])

theorem members_listed_once_witness:
  "team_inv staff_world \<and>
   wp (Teams_AddTeamMember local_env 10 \<lparr>ctmm_Member = 7, ctmm_Role = RoleAdmin\<rparr>)
     (\<lambda>_. team_inv) (\<lambda>_. team_inv) staff_world"
proof -
  have inv: "team_inv staff_world" by (simp add: team_inv_def staff_world_def team_of_def)
  have "keeps team_inv (Teams_AddTeamMember local_env 10 \<lparr>ctmm_Member = 7, ctmm_Role = RoleAdmin\<rparr>)"
    using members_listed_once [OF local_env_up] by iprover
  from wp_keeps [OF this inv] inv show ?thesis by simp
qed

section \<open>Adding a member and removing them again\<close>

text \<open>The reads both operations start with, and the write they end with.\<close>

lemma wp_checked_team:
  assumes "mongo_spec bad E" and "ids_ok w"
    and "\<And>t v. lookup team_ID (w_teams w) i = Some t \<Longrightarrow> lookup mb_ID (w_members w) j \<noteq> None \<Longrightarrow>
      contents v = contents w \<Longrightarrow> wp (k t) Q R v"
    and "\<And>e v. contents v = contents w \<Longrightarrow> bad e \<or>
      e = ErrNoDocuments \<and> (lookup team_ID (w_teams w) i = None \<or> lookup mb_ID (w_members w) j = None) \<Longrightarrow> R e v"
  shows "wp (bindE (Members_GetMember E j) (\<lambda>_. bindE (Teams_GetTeam E i) k)) Q R w"
  unfolding wp_bindE
proof (rule wp_keyed_read [OF keyed_lookups(3) [OF assms(1)]], goal_cases)
  case (2 m v)
  note same = contents_eqD(4) [OF 2(2)]
  show ?case
    by (rule wp_keyed_read [OF keyed_communication_reads(4) [OF assms(1)]])
      (use 2 same ids_okD(4) [OF assms(2)] in \<open>auto intro!: assms(3,4)\<close>)
qed (use ids_okD(5) [OF assms(2)] in \<open>auto intro!: assms(4)\<close>)

lemma wp_set_members:
  assumes "mongo_spec bad E" and "ids_ok w" and "contents v = contents w"
    and "lookup team_ID (w_teams w) i = Some t" and "ms = g (team_Members t)"
    and "\<And>v'. contents v' = (contents w)\<lparr>w_teams := update_at team_ID i (team_Members_update g) (w_teams w)\<rparr> \<Longrightarrow>
      Q (team_Members_update g t) v'"
    and "\<And>e v'. contents v' = contents w \<Longrightarrow> bad e \<Longrightarrow> R e v'"
  shows "wp (FindOneAndUpdate (Teams E) (\<lambda>t. team_ID t = i) (\<lambda>t. t\<lparr>team_Members := ms\<rparr>)) Q R v"
proof -
  note d = ids_okD(4) [OF assms(2)]
  have eq: "update_at team_ID i (\<lambda>x. x\<lparr>team_Members := ms\<rparr>) (w_teams w) =
      update_at team_ID i (team_Members_update g) (w_teams w)"
    using assms(4,5) d unfolding update_at_def by (intro map_cong refl) (auto dest: lookup_in)
  have upd: "team_Members_update g t = t\<lparr>team_Members := ms\<rparr>"
    using assms(5) by (cases t) simp
  show ?thesis
    by (rule wp_keyed_update [OF teams.keyed_updateI' [OF mongo_drv(4) [OF assms(1)]]])
      (use d assms(3,4) eq contents_eqD(4) [OF assms(3)] assms(6,7) [unfolded upd] in auto)
qed

definition membership_of :: "CreateTeamMemberData \<Rightarrow> teamMember" where
  "membership_of d = \<lparr>tm_Member = ctmm_Member d, tm_Role = ctmm_Role d\<rparr>"

lemma wp_AddTeamMember:
  assumes "mongo_spec bad E" and "ids_ok w"
    and "\<And>t v. lookup team_ID (w_teams w) i = Some t \<Longrightarrow> \<not> Team_HasMember t (ctmm_Member d) \<Longrightarrow>
      lookup mb_ID (w_members w) (ctmm_Member d) \<noteq> None \<Longrightarrow>
      contents v = (contents w)\<lparr>w_teams := update_at team_ID i
        (team_Members_update (\<lambda>ms. ms @ [membership_of d])) (w_teams w)\<rparr> \<Longrightarrow>
      Q (team_Members_update (\<lambda>ms. ms @ [membership_of d]) t) v"
    and "\<And>e v. contents v = contents w \<Longrightarrow> bad e \<or>
      e = ErrNoDocuments \<and> (lookup team_ID (w_teams w) i = None \<or> lookup mb_ID (w_members w) (ctmm_Member d) = None) \<or>
      e = Err ''Duplicate member'' \<and> (\<exists>t. lookup team_ID (w_teams w) i = Some t \<and> Team_HasMember t (ctmm_Member d))
      \<Longrightarrow> R e v"
  shows "wp (Teams_AddTeamMember E i d) Q R w"
  unfolding Teams_AddTeamMember_def Let_def membership_of_def [symmetric]
proof (rule wp_checked_team [OF assms(1,2)], goal_cases)
  case (1 t v)
  show ?case
  proof (cases "Team_HasMember t (ctmm_Member d)")
    case True
    then show ?thesis using 1 assms(4) by auto
  next
    case False
    then show ?thesis
      by simp (rule wp_set_members [where g = "\<lambda>ms. ms @ [membership_of d]", OF assms(1,2) 1(3,1)];
          use False 1 assms(3,4) in simp)
  qed
qed (use assms(4) in blast)

lemma wp_DeleteTeamMember:
  assumes "mongo_spec bad E" and "ids_ok w" and "team_inv w"
    and "\<And>t v. lookup team_ID (w_teams w) i = Some t \<Longrightarrow> Team_HasMember t j \<Longrightarrow>
      contents v = (contents w)\<lparr>w_teams := update_at team_ID i
        (team_Members_update (filter (\<lambda>m. tm_Member m \<noteq> j))) (w_teams w)\<rparr> \<Longrightarrow>
      Q (team_Members_update (filter (\<lambda>m. tm_Member m \<noteq> j)) t) v"
    and "\<And>e v. contents v = contents w \<Longrightarrow> bad e \<or>
      e = ErrNoDocuments \<and> (lookup team_ID (w_teams w) i = None \<or> lookup mb_ID (w_members w) j = None) \<or>
      e = Err ''Member not found'' \<and> (\<exists>t. lookup team_ID (w_teams w) i = Some t \<and> \<not> Team_HasMember t j)
      \<Longrightarrow> R e v"
  shows "wp (Teams_DeleteTeamMember E i j) Q R w"
  unfolding Teams_DeleteTeamMember_def Let_def
proof (rule wp_checked_team [OF assms(1,2)], goal_cases)
  case (1 t v)
  show ?case
  proof (cases "Team_HasMember t j")
    case True
    have "without_first (\<lambda>s. tm_Member s = j) [] (team_Members t) = filter (\<lambda>m. tm_Member m \<noteq> j) (team_Members t)"
      using assms(3) 1(1) True lookup_Some_in [OF 1(1)]
      by (subst without_first_key) (auto simp: team_inv_def team_members.has_iff)
    then show ?thesis
      using True
      by simp (rule wp_set_members [where g = "filter (\<lambda>m. tm_Member m \<noteq> j)", OF assms(1,2) 1(3,1)];
          use True 1 assms(4,5) in simp)
  next
    case False
    then show ?thesis using 1 assms(5) by auto
  qed
qed (use assms(5) in blast)

text \<open>
  Adding a member to a team and removing them again. Both return the team, and afterwards the service is as it was;
  a member who is in the team already is refused and nothing changes; and when
  the database fails in between the member stays in the team.
\<close>

theorem team_membership_round_trip:
  assumes "mongo_spec bad E" and "ids_ok w" and "team_inv w"
  shows "wp (bindE (Teams_AddTeamMember E i d) (\<lambda>_. Teams_DeleteTeamMember E i (ctmm_Member d)))
     (\<lambda>t v. lookup team_ID (w_teams w) i = Some t \<and> contents v = contents w)
     (\<lambda>e v. contents v = contents w \<and> (bad e \<or>
          e = ErrNoDocuments \<and> (lookup team_ID (w_teams w) i = None \<or> lookup mb_ID (w_members w) (ctmm_Member d) = None) \<or>
          e = Err ''Duplicate member'' \<and> (\<exists>t. lookup team_ID (w_teams w) i = Some t \<and> Team_HasMember t (ctmm_Member d))) \<or>
        bad e \<and> contents v = (contents w)\<lparr>w_teams := update_at team_ID i
          (team_Members_update (\<lambda>ms. ms @ [membership_of d])) (w_teams w)\<rparr>) w"
  unfolding wp_bindE
proof (rule wp_AddTeamMember [OF assms(1,2)], goal_cases)
  case (1 t w1)
  let ?add = "team_Members_update (\<lambda>ms. ms @ [membership_of d])"
  let ?del = "team_Members_update (filter (\<lambda>m. tm_Member m \<noteq> ctmm_Member d))"
  have teams: "w_teams w1 = update_at team_ID i ?add (w_teams w)" using contents_eqD(4) [OF 1(4)] by simp
  have members: "w_members w1 = w_members w" using contents_eqD(5) [OF 1(4)] by simp
  have idk: "team_ID (?add x) = team_ID x" for x :: team by simp
  have ids: "ids_ok w1"
    using assms(2) contents_eqD [OF 1(4)] by (simp add: ids_ok_def map_update_at)
  have t: "t \<in> set (w_teams w)" "team_ID t = i" using lookup_Some_in [OF 1(1)] by simp_all
  have new: "ctmm_Member d \<notin> tm_Member ` set (team_Members x)" if "x \<in> set (w_teams w)" "team_ID x = i" for x
    using 1(2) key_unique [OF ids_okD(4) [OF assms(2)] that(1) t(1)] that(2) t(2)
    by (simp add: team_members.has_iff)
  have keys: "map team_ID (w_teams w1) = map team_ID (w_teams w)"
    by (simp add: teams map_update_at)
  have inv: "team_inv w1"
    using assms(3) new unfolding team_inv_def keys
    by (auto simp: teams update_at_def membership_of_def)
  have found: "lookup team_ID (w_teams w1) i = Some (?add t)"
    using 1(1) by (simp add: teams lookup_update_at)
  have has: "Team_HasMember (?add t) (ctmm_Member d)"
    by (simp add: team_members.has_iff membership_of_def)
  have undo: "?del (?add x) = x" if "x \<in> set (w_teams w)" "team_ID x = i" for x
    using new [OF that] by (cases x) (simp add: membership_of_def filter_neq_key)
  have all: "update_at team_ID i ?del (w_teams w1) = w_teams w"
    unfolding teams update_at_def map_map by (rule map_idI) (auto simp: undo)
  show ?case
  proof (rule wp_DeleteTeamMember [OF assms(1) ids inv], goal_cases)
    case (1 t' v)
    then have "t' = ?add t" using found by simp
    then have "?del t' = t" using undo [OF t] by simp
    moreover have "contents v = contents w"
      using 1(3) \<open>contents w1 = _\<close> unfolding all by simp
    ultimately show ?case using \<open>lookup team_ID (w_teams w) i = Some t\<close> by simp
  next
    case (2 e v)
    have "bad e" using 2(2) found has members 1(3) by auto
    then show ?case using 2(1) 1(4) by simp
  qed
qed auto

theorem team_membership_round_trip_witness:
  "wp (bindE (Teams_AddTeamMember local_env 10 \<lparr>ctmm_Member = 8, ctmm_Role = RoleAdmin\<rparr>)
       (\<lambda>_. Teams_DeleteTeamMember local_env 10 8))
     (\<lambda>t v. team_Name t = ''a'' \<and> contents v = contents staff_world) (\<lambda>e v. False) staff_world"
proof -
  let ?d = "\<lparr>ctmm_Member = 8, ctmm_Role = RoleAdmin\<rparr> :: CreateTeamMemberData"
  have inv: "team_inv staff_world" by (simp add: team_inv_def staff_world_def team_of_def)
  have t: "lookup team_ID (w_teams staff_world) 10 =
      Some ((team_of \<lparr>ctm_Name = ''a''\<rparr> 10)\<lparr>team_Members := [\<lparr>tm_Member = 7, tm_Role = RoleMember\<rparr>]\<rparr>)"
    and m: "lookup mb_ID (w_members staff_world) 8 \<noteq> None"
    by (simp_all add: staff_world_def lookup_def team_of_def member_of_def)
  show ?thesis
    by (rule wp_mono [OF team_membership_round_trip [where d = ?d, OF local_env_up staff_world_ids inv, of 10,
            unfolded CreateTeamMemberData.simps]])
      (use t m in \<open>auto simp: team_members.has_iff team_of_def\<close>)
qed

section \<open>Deleting a team\<close>

lemma event_team_missing:
  assumes "mongo_spec bad E" and "distinct (map team_ID (w_teams w))"
    and "contents v = contents w" and "lookup team_ID (w_teams w) i = None"
    and "\<And>k t. k \<in> set before \<Longrightarrow> lookup team_ID (w_teams w) k = Some t \<Longrightarrow> \<not> Team_HasMember t j"
  shows "wp (event_team E j ev (before @ i # after)) (\<lambda>_ _. False)
     (\<lambda>e v'. contents v' = contents w \<and> (bad e \<or> e = ErrNoDocuments)) v"
  using assms(3,5)
proof (induction before arbitrary: v)
  case Nil
  then show ?case
    using assms(2,4) contents_eqD(4) [OF Nil.prems(1)]
    by (simp, intro wp_keyed_read [OF keyed_communication_reads(4) [OF assms(1)]]) auto
next
  case (Cons k before)
  note same = contents_eqD(4) [OF Cons.prems(1)]
  show ?case
    unfolding append_Cons event_team.simps wp_bindE
  proof (rule wp_keyed_read [OF keyed_communication_reads(4) [OF assms(1)]], goal_cases)
    case (2 t v')
    then have t: "lookup team_ID (w_teams w) k = Some t" and v': "contents v' = contents w"
      using same Cons.prems(1) by simp_all
    have "List.find (\<lambda>m. tm_Member m = j) (team_Members t) = None"
      using Cons.prems(2) [OF _ t] by (auto simp: find_None_iff team_members.has_iff)
    moreover have "wp (event_team E j ev (before @ i # after)) (\<lambda>_ _. False)
        (\<lambda>e v'. contents v' = contents w \<and> (bad e \<or> e = ErrNoDocuments)) v'"
      by (rule Cons.IH [OF v'], rule Cons.prems(2)) auto
    ultimately show ?case by simp
  qed (use assms(2) same Cons.prems(1) in auto)
qed

lemma event_team_any:
  assumes "mongo_spec bad E" and "distinct (map team_ID (w_teams w))" and "contents v = contents w"
  shows "wp (event_team E j ev ts) (\<lambda>_ v'. contents v' = contents w)
     (\<lambda>e v'. contents v' = contents w \<and> (bad e \<or> e = ErrNoDocuments)) v"
  using assms(3)
proof (induction ts arbitrary: v)
  case (Cons k ts)
  note same = contents_eqD(4) [OF Cons.prems]
  show ?case
    unfolding event_team.simps wp_bindE
    by (rule wp_keyed_read [OF keyed_communication_reads(4) [OF assms(1)]])
      (use assms(2) same Cons in \<open>auto split: option.split\<close>)
qed simp

lemma event_teams_missing:
  assumes "mongo_spec bad E" and "distinct (map team_ID (w_teams w))"
    and "contents v = contents w" and "lookup team_ID (w_teams w) i = None"
    and "e \<in> set es" and "ev_Teams e = before @ i # after"
    and "\<And>k t. k \<in> set before \<Longrightarrow> lookup team_ID (w_teams w) k = Some t \<Longrightarrow> \<not> Team_HasMember t j"
  shows "wp (event_teams E j es acc) (\<lambda>_ _. False)
     (\<lambda>x v'. contents v' = contents w \<and> (bad x \<or> x = ErrNoDocuments)) v"
  using assms(3,5)
proof (induction es arbitrary: v acc)
  case (Cons d es)
  show ?case
  proof (cases "d = e")
    case True
    then show ?thesis
      using event_team_missing [OF assms(1,2) Cons.prems(1) assms(4), of before j "ev_ID e" after] assms(6,7)
      by (auto intro: wp_mono)
  next
    case False
    then show ?thesis
      unfolding event_teams.simps wp_bindE
      using Cons.prems
      by (intro wp_mono [OF event_team_any [OF assms(1,2) Cons.prems(1)]] Cons.IH) auto
  qed
qed simp

text \<open>
  C19: deleting a team does not take it out of the events that list it. Afterwards, asking for the participations of a member
  fails with no documents for every member that is not in an earlier team of such an event,
  whatever else they took part in.
\<close>

theorem DeleteTeam_breaks_participations:
  assumes "mongo_spec bad E" and "ids_ok w"
    and "e \<in> set (w_events w)" and "ev_Teams e = before @ i # after"
    and "\<And>k t. k \<in> set before \<Longrightarrow> lookup team_ID (w_teams w) k = Some t \<Longrightarrow> \<not> Team_HasMember t j"
  shows "wp (bindE (Teams_DeleteTeam E i) (\<lambda>_. Members_GetMembersParticipations E j))
     (\<lambda>_ _. False)
     (\<lambda>x v. (bad x \<or> x = ErrNoDocuments) \<and>
        (contents v = contents w \<or> contents v = (contents w)\<lparr>w_teams := remove_at team_ID i (w_teams w)\<rparr>)) w"
  unfolding Teams_DeleteTeam_def wp_bindE
proof (rule wp_keyed_delete [OF teams.keyed_deleteI [OF mongo_drv(4) [OF assms(1)]]], goal_cases)
  case (2 t w1)
  have teams: "w_teams w1 = remove_at team_ID i (w_teams w)" and events: "w_events w1 = w_events w"
    using contents_eqD(3,4) [OF 2(2)] by simp_all
  have all: "events_filter E \<lparr>geo_Name = None, geo_Before = None, geo_After = None, geo_During = None\<rparr> d" for d
    by (simp add: events_filter_def events_begin_filter_def)
  show ?case
    unfolding Members_GetMembersParticipations_def Events_GetEvents_def wp_bindE
  proof (rule wp_Find_set [OF mongo_drv(3) [OF assms(1)]], goal_cases)
    case (1 es)
    then have e: "e \<in> set es" using assms(3) events by (simp add: all)
    have gone: "lookup team_ID (w_teams w1) i = None"
      and earlier: "lookup team_ID (w_teams w1) k = Some t \<Longrightarrow> lookup team_ID (w_teams w) k = Some t" for k t
      by (auto simp: teams lookup_remove_at split: if_splits)
    have d: "distinct (map team_ID (w_teams w1))"
      using ids_okD(4) [OF assms(2)] by (simp add: teams distinct_remove_at)
    show ?case
      by (rule wp_mono [OF event_teams_missing [OF assms(1) d _ gone e assms(4)]])
        (use earlier assms(5) 2(2) in auto)
  next
    case (2 x)
    then show ?case using \<open>contents w1 = _\<close> by simp
  qed
qed (use ids_okD(4) [OF assms(2)] in auto)

text \<open>Deleting team 11 leaves event 1 listing it, so nothing is answered about member 8.\<close>

theorem DeleteTeam_breaks_participations_witness:
  "wp (bindE (Teams_DeleteTeam local_env 11) (\<lambda>_. Members_GetMembersParticipations local_env 8))
     (\<lambda>_ _. False) (\<lambda>x v. x = ErrNoDocuments) staff_world"
  by (rule wp_mono [OF DeleteTeam_breaks_participations [OF local_env_up staff_world_ids,
          of "(new_event 1 ''e'')\<lparr>ev_Teams := [10, 11]\<rparr>" "[10]" 11 "[]" 8]])
    (auto simp: staff_world_def team_of_def team_members.has_iff lookup_def)

end
