(* ===== verification/Notifications.thy ===== *)
theory Notifications
  imports Members
begin

text \<open>
  \<^verbatim>\<open>backend/src/mongodb/notification.go\<close> and the methods of \<^verbatim>\<open>models/notification.go\<close>: whom a change is
  announced to, and the notifications of a member. \<open>Notify\<close> answers nothing; what goes wrong
  in it is logged at most.
\<close>

section \<open>The methods of a notification\<close>

definition Notification_Validate :: "notification \<Rightarrow> err option" where
  "Notification_Validate n =
     (if no_Kind n = NotificationKindTagged then
        (if no_Post n = None then Some (Err ''missing post'') else None)
      else if no_Kind n = NotificationKindCreated \<or> no_Kind n = NotificationKindUpdated \<or>
        no_Kind n = NotificationKindDeleted then
        (if \<not> (no_Post n \<noteq> None \<or> no_Thread n \<noteq> None \<or> no_Speaker n \<noteq> None \<or> no_Company n \<noteq> None \<or>
            no_Meeting n \<noteq> None \<or> no_Session n \<noteq> None)
         then Some (Err ''missing data'') else None)
      else if no_Kind n = NotificationKindUpdatedPrivateImage \<or>
        no_Kind n = NotificationKindUpdatedPublicImage \<or>
        no_Kind n = NotificationKindCreatedParticipation \<or>
        no_Kind n = NotificationKindUpdatedParticipation \<or>
        no_Kind n = NotificationKindDeletedParticipation \<or>
        no_Kind n = NotificationKindCreatedParticipationPackage \<or>
        no_Kind n = NotificationKindUpdatedParticipationPackage \<or>
        no_Kind n = NotificationKindDeletedParticipationPackage \<or>
        no_Kind n = NotificationKindUpdatedParticipationStatus then
        (if \<not> (no_Speaker n \<noteq> None \<or> no_Company n \<noteq> None) then Some (Err ''missing data'') else None)
      else if no_Kind n = NotificationKindUpdatedCompanyImage then
        (if no_Speaker n = None then Some (Err ''missing data'') else None)
      else None)"

text \<open>\<^verbatim>\<open>hex.EncodeToString\<close>: two digits for each byte.\<close>

definition hex_digit :: "nat \<Rightarrow> char" where
  "hex_digit d = ''0123456789abcdef'' ! d"

definition hex_EncodeToString :: "string \<Rightarrow> string" where
  "hex_EncodeToString s = concat (map (\<lambda>c. [hex_digit (of_char c div 16), hex_digit (of_char c mod 16)]) s)"

definition hex_of :: "env \<Rightarrow> oid option \<Rightarrow> string" where
  "hex_of E i = (case i of None \<Rightarrow> [] | Some i \<Rightarrow> env_hex E i)"

definition Notification_Hash :: "env \<Rightarrow> notification \<Rightarrow> string" where
  "Notification_Hash E n =
     hex_EncodeToString (env_sha256 E (notificationKind_string (no_Kind n) @ env_hex E (no_Member n) @
       hex_of E (no_Post n) @ hex_of E (no_Thread n) @ hex_of E (no_Speaker n) @
       hex_of E (no_Company n) @ hex_of E (no_Meeting n) @ hex_of E (no_Session n)))"

definition Notification_Equals :: "notification option \<Rightarrow> notification option \<Rightarrow> bool" where
  "Notification_Equals n other = (case (n, other) of
     (Some n, Some other) \<Rightarrow> no_Signature n = no_Signature other
   | _ \<Rightarrow> False)"

section \<open>Tags\<close>

text \<open>
  \<^verbatim>\<open>tagRegexCompiler.FindAll\<close> with the expression \<^verbatim>\<open>@[a-zA-Z0-9\.]+\<close>: the matches from left to right,
  each as long as possible, none overlapping.
\<close>

definition is_tag_char :: "char \<Rightarrow> bool" where
  "is_tag_char c \<longleftrightarrow> c \<in> set (upper_letters @ lower_letters @ ''0123456789.'')"

function FindAll_tags :: "string \<Rightarrow> string list" where
  "FindAll_tags [] = []"
| "FindAll_tags (c # s) =
     (if c = CHR ''@'' \<and> takeWhile is_tag_char s \<noteq> []
      then (c # takeWhile is_tag_char s) # FindAll_tags (dropWhile is_tag_char s)
      else FindAll_tags s)"
  by pat_completeness auto
termination by (relation "measure length") (auto simp: less_Suc_eq_le length_dropWhile_le)

section \<open>Notifying one member\<close>

record CreateNotificationData =
  cnd_Kind :: notificationKind
  cnd_Post :: "oid option"
  cnd_Thread :: "oid option"
  cnd_Speaker :: "oid option"
  cnd_Company :: "oid option"
  cnd_Meeting :: "oid option"
  cnd_Session :: "oid option"
  cnd_Name :: string

text \<open>The notification built from a request; it is given its ID, date and signature when it is stored.\<close>

definition notification_of :: "oid \<Rightarrow> CreateNotificationData \<Rightarrow> notification" where
  "notification_of memberID data =
     \<lparr>no_ID = NilObjectID, no_Kind = cnd_Kind data, no_Member = memberID, no_Post = cnd_Post data,
      no_Thread = cnd_Thread data, no_Speaker = cnd_Speaker data, no_Company = cnd_Company data,
      no_Meeting = cnd_Meeting data, no_Session = cnd_Session data, no_Date = 0, no_Name = cnd_Name data,
      no_Signature = []\<rparr>"

definition Notifications_GetNotification :: "env \<Rightarrow> oid \<Rightarrow> (world, notification) smonad" where
  "Notifications_GetNotification E i = FindOne (Notifications E) (\<lambda>n. no_ID n = i)"

definition Notifications_NotifyMember ::
  "env \<Rightarrow> oid \<Rightarrow> CreateNotificationData \<Rightarrow> (world, unit) smonad" where
  "Notifications_NotifyMember E memberID data =
     (let notification = notification_of memberID data in
      case Notification_Validate notification of
        Some _ \<Rightarrow> retE ()
      | None \<Rightarrow>
          let signature = Notification_Hash E notification in
          onErr (FindOne (Notifications E) (\<lambda>n. no_Signature n = signature)) (\<lambda>_.
            bindE (getsE w_tick) (\<lambda>t.
            onErr (InsertOne (Notifications E)
                (\<lambda>i. notification\<lparr>no_ID := i, no_Date := env_now E t, no_Signature := signature\<rparr>))
              (\<lambda>_. retE ())
              (\<lambda>i. discardE (Notifications_GetNotification E i))))
          (\<lambda>_. retE ()))"

section \<open>Notifying everyone concerned\<close>

text \<open>The subscribers of the participation in the current event; in production the author is left out.\<close>

definition notify_subscribers ::
  "env \<Rightarrow> oid \<Rightarrow> CreateNotificationData \<Rightarrow> oid list \<Rightarrow> (world, unit) smonad" where
  "notify_subscribers E author data subscribers =
     forE subscribers (\<lambda>subscriber.
       if env_production E \<and> subscriber = author then retE () else Notifications_NotifyMember E subscriber data)"

definition company_subscribers :: "company \<Rightarrow> int \<Rightarrow> oid list" where
  "company_subscribers company ev = (case List.find (\<lambda>p. cp_Event p = ev) (co_Participations company) of
     None \<Rightarrow> [] | Some participation \<Rightarrow> cp_Subscribers participation)"

definition speaker_subscribers :: "speaker \<Rightarrow> int \<Rightarrow> oid list" where
  "speaker_subscribers speaker ev = (case List.find (\<lambda>p. sp_Event p = ev) (s_Participations speaker) of
     None \<Rightarrow> [] | Some participation \<Rightarrow> sp_Subscribers participation)"

definition notify_admins :: "env \<Rightarrow> CreateNotificationData \<Rightarrow> (world, unit) smonad" where
  "notify_admins E data =
     (if \<not> env_production E then
        onErr (Teams_GetMembersByRole E RoleAdmin) (\<lambda>_. retE ()) (\<lambda>members.
        forE members (\<lambda>s. Notifications_NotifyMember E s data))
      else retE ())"

definition notify_coordinators :: "env \<Rightarrow> oid \<Rightarrow> CreateNotificationData \<Rightarrow> (world, unit) smonad" where
  "notify_coordinators E author data =
     onErr (CoordinationTeams_GetCoordinationTeamsByMember E author) (\<lambda>_. retE ()) (\<lambda>coordTeams.
     forE coordTeams (\<lambda>coordTeam.
       case cot_Coordinator coordTeam of
         None \<Rightarrow> retE ()
       | Some coordinator \<Rightarrow>
           if env_production E \<and> tm_Member coordinator = author then retE ()
           else Notifications_NotifyMember E (tm_Member coordinator) data))"

definition notify_tagged :: "env \<Rightarrow> CreateNotificationData \<Rightarrow> post \<Rightarrow> (world, unit) smonad" where
  "notify_tagged E data post =
     forE (FindAll_tags (po_Text post)) (\<lambda>tag.
       onErr (Members_GetMemberBySinfoID E (drop 1 tag)) (\<lambda>_. retE ()) (\<lambda>taggedMember.
       Notifications_NotifyMember E (mb_ID taggedMember)
         (data\<lparr>cnd_Kind := NotificationKindTagged, cnd_Post := Some (po_ID post)\<rparr>)))"

text \<open>The post whose tags count: the one named, or the first of the thread named.\<close>

definition notified_post :: "env \<Rightarrow> CreateNotificationData \<Rightarrow> (world, post option) smonad" where
  "notified_post E data =
     (case (cnd_Thread data, cnd_Post data) of
        (Some t, None) \<Rightarrow>
          bindE (Threads_GetThread E t) (\<lambda>thread.
          bindE (Posts_GetPost E (th_Entry thread)) (\<lambda>post. retE (Some post)))
      | (_, Some p) \<Rightarrow> bindE (Posts_GetPost E p) (\<lambda>post. retE (Some post))
      | (None, None) \<Rightarrow> retE None)"

text \<open>The returns of the code on an error end \<open>Notify\<close>; what has been stored stays.\<close>

definition Notifications_Notify :: "env \<Rightarrow> oid \<Rightarrow> CreateNotificationData \<Rightarrow> (world, unit) smonad" where
  "Notifications_Notify E author data = discardE
     (bindE (Events_GetCurrentEvent E) (\<lambda>event.
      bindE (notify_admins E data) (\<lambda>_.
      bindE (case cnd_Company data of
          None \<Rightarrow> retE ()
        | Some i \<Rightarrow> bindE (Companies_GetCompany E i) (\<lambda>company.
            notify_subscribers E author data (company_subscribers company (ev_ID event)))) (\<lambda>_.
      bindE (case cnd_Speaker data of
          None \<Rightarrow> retE ()
        | Some i \<Rightarrow> bindE (Speakers_GetSpeaker E i) (\<lambda>speaker.
            notify_subscribers E author data (speaker_subscribers speaker (ev_ID event)))) (\<lambda>_.
      bindE (notify_coordinators E author data) (\<lambda>_.
      bindE (notified_post E data) (\<lambda>post.
      case post of None \<Rightarrow> retE () | Some post \<Rightarrow> notify_tagged E data post)))))))"

section \<open>The notifications of a member\<close>

text \<open>
  An answer of \<open>GetMemberNotifications\<close>: IDs in hexadecimal, and the speaker and the company embedded when
  they are found (\<open>Inr\<close>), as IDs otherwise. The date is formatted when the answer is encoded.
\<close>

record memberNotification =
  mn_ID :: string
  mn_Kind :: notificationKind
  mn_Signature :: string
  mn_Member :: string
  mn_Date :: time
  mn_Name :: string
  mn_Post :: "string option"
  mn_Thread :: "string option"
  mn_Meeting :: "string option"
  mn_Session :: "string option"
  mn_Speaker :: "(string + speaker) option"
  mn_Company :: "(string + company) option"

definition member_notification ::
  "env \<Rightarrow> (oid \<rightharpoonup> speaker) \<Rightarrow> (oid \<rightharpoonup> company) \<Rightarrow> notification \<Rightarrow> memberNotification" where
  "member_notification E speakersByID companiesByID n =
     \<lparr>mn_ID = env_hex E (no_ID n), mn_Kind = no_Kind n, mn_Signature = no_Signature n,
      mn_Member = env_hex E (no_Member n), mn_Date = no_Date n, mn_Name = no_Name n,
      mn_Post = map_option (env_hex E) (no_Post n), mn_Thread = map_option (env_hex E) (no_Thread n),
      mn_Meeting = map_option (env_hex E) (no_Meeting n), mn_Session = map_option (env_hex E) (no_Session n),
      mn_Speaker = map_option (\<lambda>i. case speakersByID i of
        Some sp \<Rightarrow> Inr sp | None \<Rightarrow> Inl (env_hex E i)) (no_Speaker n),
      mn_Company = map_option (\<lambda>i. case companiesByID i of
        Some co \<Rightarrow> Inr co | None \<Rightarrow> Inl (env_hex E i)) (no_Company n)\<rparr>"

text \<open>The batch reads: nothing is read when no ID is asked for, and a failed query finds nothing.\<close>

definition by_ids :: "(world, oid, 'a) handle \<Rightarrow> ('a \<Rightarrow> oid) \<Rightarrow> oid list \<Rightarrow> (world, oid \<rightharpoonup> 'a) smonad" where
  "by_ids h idf ids =
     (if ids = [] then retE Map.empty
      else onErr (FindUnchecked h (\<lambda>d. idf d \<in> set ids)) (\<lambda>_. retE Map.empty)
        (\<lambda>ds. retE (foldl (\<lambda>m d. m(idf d \<mapsto> d)) Map.empty ds)))"

text \<open>The cursor's error is looked at last, after the batch reads.\<close>

definition Notifications_GetMemberNotifications ::
  "env \<Rightarrow> oid \<Rightarrow> (world, memberNotification list) smonad" where
  "Notifications_GetMemberNotifications E memberID =
     bindE (FindCursor (Notifications E) (\<lambda>n. no_Member n = memberID)) (\<lambda>(ns, stopped).
     bindE (by_ids (Speakers E) s_ID (List.map_filter no_Speaker ns)) (\<lambda>speakersByID.
     bindE (by_ids (Companies E) co_ID (List.map_filter no_Company ns)) (\<lambda>companiesByID.
     case stopped of
       Some e \<Rightarrow> throwE e
     | None \<Rightarrow> retE (map (member_notification E speakersByID companiesByID) ns))))"

definition Notifications_DeleteNotification :: "env \<Rightarrow> oid \<Rightarrow> (world, notification) smonad" where
  "Notifications_DeleteNotification E i = FindOneAndDelete (Notifications E) (\<lambda>n. no_ID n = i)"

definition Notifications_DeleteAllMemberNotifications :: "env \<Rightarrow> oid \<Rightarrow> (world, nat) smonad" where
  "Notifications_DeleteAllMemberNotifications E memberID =
     DeleteMany (Notifications E) (\<lambda>n. no_Member n = memberID)"

end
