(* ===== verification/Http.thy ===== *)
theory Http
  imports Notifications
begin

text \<open>
  The frame of the HTTP handlers: requests and replies, the conversions of \<^verbatim>\<open>strconv\<close>, tokens
  (\<^verbatim>\<open>auth/jwt.go\<close>), the access check around every protected handler (\<^verbatim>\<open>router/init.go\<close>) and the login
  (\<^verbatim>\<open>router/auth.go\<close>).

  A handler is a program of the data layer's monad. It answers \<open>Reply x\<close> (status 200, \<open>x\<close> encoded) or
  \<open>Failure status message\<close> (\<^verbatim>\<open>http.Error\<close>). A panic in a handler is an error of the program, \<open>Panic\<close>: the
  server closes the connection. A decoded body is an argument of the handler, \<open>Inl\<close> the decoder's
  error. Variables of the path, values of the query and the token are functions of the request.
\<close>

section \<open>Requests and replies\<close>

datatype 'a reply = Reply 'a | Failure nat string

record request =
  rq_Authorization :: string
  rq_vars :: "string \<Rightarrow> string"
  rq_query :: "string \<Rightarrow> string"
  rq_credentials :: "authorizationCredentials option"

type_synonym 'a handler = "request \<Rightarrow> (world, 'a reply) smonad"

abbreviation StatusBadRequest :: nat where "StatusBadRequest \<equiv> 400"
abbreviation StatusUnauthorized :: nat where "StatusUnauthorized \<equiv> 401"
abbreviation StatusForbidden :: nat where "StatusForbidden \<equiv> 403"
abbreviation StatusNotFound :: nat where "StatusNotFound \<equiv> 404"
abbreviation StatusExpectationFailed :: nat where "StatusExpectationFailed \<equiv> 417"
abbreviation StatusInternalServerError :: nat where "StatusInternalServerError \<equiv> 500"
abbreviation StatusBadGateway :: nat where "StatusBadGateway \<equiv> 502"

text \<open>\<^verbatim>\<open>err.Error()\<close>.\<close>

fun err_text :: "err \<Rightarrow> string" where
  "err_text ErrNoDocuments = ''mongo: no documents in result''"
| "err_text (CommandError s) = s"
| "err_text (DriverError s) = s"
| "err_text (Err s) = s"
| "err_text (Panic s) = s"
| "err_text (Fatal s) = s"

text \<open>\<^verbatim>\<open>x, err := m; if err != nil { http.Error(w, msg + err.Error(), status); return }\<close>.\<close>

definition orFail ::
  "(world, 'b) smonad \<Rightarrow> nat \<Rightarrow> string \<Rightarrow> ('b \<Rightarrow> (world, 'a reply) smonad) \<Rightarrow> (world, 'a reply) smonad" where
  "orFail m status msg k = onErr m (\<lambda>e. retE (Failure status (msg @ err_text e))) k"

text \<open>The same for a pure step, such as parsing the body.\<close>

definition orFailR ::
  "err + 'b \<Rightarrow> nat \<Rightarrow> string \<Rightarrow> ('b \<Rightarrow> (world, 'a reply) smonad) \<Rightarrow> (world, 'a reply) smonad" where
  "orFailR r status msg k = orFail (liftR r) status msg k"

text \<open>\<^verbatim>\<open>id, _ := primitive.ObjectIDFromHex(params[v])\<close>: a malformed ID is read as the nil one.\<close>

definition id_var :: "env \<Rightarrow> request \<Rightarrow> string \<Rightarrow> oid" where
  "id_var E rq v = (case env_fromHex E (rq_vars rq v) of Inl _ \<Rightarrow> NilObjectID | Inr i \<Rightarrow> i)"

section \<open>strconv\<close>

fun digits_value :: "int \<Rightarrow> string \<Rightarrow> int option" where
  "digits_value n [] = Some n"
| "digits_value n (c # cs) =
     (if c \<in> set ''0123456789'' then digits_value (10 * n + (of_char c - 48)) cs else None)"

text \<open>\<^verbatim>\<open>strconv.Atoi\<close>, and \<^verbatim>\<open>strconv.ParseInt\<close> with base 10 and 64 bits; only the kind of the error is kept.\<close>

definition Atoi :: "string \<Rightarrow> err + int" where
  "Atoi s =
     (let (negative, t) = (case s of [] \<Rightarrow> (False, []) | c # cs \<Rightarrow>
        if c = CHR ''-'' then (True, cs) else if c = CHR ''+'' then (False, cs) else (False, s)) in
      if t = [] then Inl (Err ''invalid syntax'')
      else case digits_value 0 t of
        None \<Rightarrow> Inl (Err ''invalid syntax'')
      | Some n \<Rightarrow>
          let n = (if negative then - n else n) in
          if - (2 ^ 63) \<le> n \<and> n < 2 ^ 63 then Inr n else Inl (Err ''value out of range''))"

definition ParseBool :: "string \<Rightarrow> err + bool" where
  "ParseBool s =
     (if s \<in> {''1'', ''t'', ''T'', ''true'', ''TRUE'', ''True''} then Inr True
      else if s \<in> {''0'', ''f'', ''F'', ''false'', ''FALSE'', ''False''} then Inr False
      else Inl (Err ''invalid syntax''))"

text \<open>An optional value of the query: absent when empty, converted otherwise.\<close>

definition query_value ::
  "request \<Rightarrow> string \<Rightarrow> (string \<Rightarrow> err + 'b) \<Rightarrow> nat \<Rightarrow> string \<Rightarrow>
   ('b option \<Rightarrow> (world, 'a reply) smonad) \<Rightarrow> (world, 'a reply) smonad" where
  "query_value rq name convert status msg k =
     (let s = rq_query rq name in
      if length s > 0 then orFailR (convert s) status msg (\<lambda>x. k (Some x)) else k None)"

section \<open>Tokens\<close>

text \<open>A token is good for two weeks; times are in milliseconds, the claim in seconds.\<close>

definition jwtLifeTime :: time where
  "jwtLifeTime = 1000 * 60 * 60 * 24 * 7 * 2"

definition SignJWT :: "env \<Rightarrow> authorizationCredentials \<Rightarrow> (world, string) smonad" where
  "SignJWT E credentials =
     bindE (getsE w_tick) (\<lambda>t.
     let expirationTime = env_now E t + jwtLifeTime in
     liftR (env_signClaims E credentials (expirationTime div 1000)))"

definition ParseJWT :: "env \<Rightarrow> string \<Rightarrow> (world, authorizationCredentials) smonad" where
  "ParseJWT E tokenString =
     bindE (getsE w_tick) (\<lambda>t.
     bindE (liftR (env_parseClaims E t tokenString)) (\<lambda>(claims, valid).
     if \<not> valid then throwE (Err ''invalid token'')
     else
       onErr (Members_GetMember E (ac_ID claims)) (\<lambda>_. throwE (Err ''invalid member on token'')) (\<lambda>_.
       retE \<lparr>ac_ID = ac_ID claims, ac_SINFOID = ac_SINFOID claims, ac_Role = ac_Role claims,
         ac_Team = ac_Team claims\<rparr>)))"

section \<open>The access check\<close>

definition checkAccessLevelWrapper :: "env \<Rightarrow> teamRole \<Rightarrow> 'a handler \<Rightarrow> 'a handler" where
  "checkAccessLevelWrapper E required handler rq =
     (if \<not> env_authentication E then handler rq
      else
        let token = rq_Authorization rq in
        if length token = 0 then retE (Failure StatusUnauthorized ''invalid token'')
        else
          orFail (ParseJWT E token) StatusUnauthorized ''Error parsing token: '' (\<lambda>credentials.
          if \<not> CheckAccessLevel required credentials
          then retE (Failure StatusForbidden ''not enough credentials'')
          else handler (rq\<lparr>rq_credentials := Some credentials\<rparr>)))"

definition authMember :: "env \<Rightarrow> 'a handler \<Rightarrow> 'a handler" where
  "authMember E = checkAccessLevelWrapper E RoleMember"

definition authTeamLeader :: "env \<Rightarrow> 'a handler \<Rightarrow> 'a handler" where
  "authTeamLeader E = checkAccessLevelWrapper E RoleTeamLeader"

definition authCoordinator :: "env \<Rightarrow> 'a handler \<Rightarrow> 'a handler" where
  "authCoordinator E = checkAccessLevelWrapper E RoleCoordinator"

definition authAdmin :: "env \<Rightarrow> 'a handler \<Rightarrow> 'a handler" where
  "authAdmin E = checkAccessLevelWrapper E RoleAdmin"

text \<open>
  What most handlers do after the reply: \<open>Notify\<close>, if the request carries credentials. The reply is
  written before, so the state the notifications leave is the handler's.
\<close>

definition reply_and_notify ::
  "env \<Rightarrow> request \<Rightarrow> 'a \<Rightarrow> CreateNotificationData \<Rightarrow> (world, 'a reply) smonad" where
  "reply_and_notify E rq x data =
     bindE (case rq_credentials rq of
         None \<Rightarrow> retE ()
       | Some credentials \<Rightarrow> Notifications_Notify E (ac_ID credentials) data) (\<lambda>_.
     retE (Reply x))"

definition notification_data :: "notificationKind \<Rightarrow> CreateNotificationData" where
  "notification_data kind = \<lparr>cnd_Kind = kind, cnd_Post = None, cnd_Thread = None, cnd_Speaker = None,
     cnd_Company = None, cnd_Meeting = None, cnd_Session = None, cnd_Name = []\<rparr>"

text \<open>\<^verbatim>\<open>credentials, ok := r.Context().Value(credentialsKey)\<close>, answering 400 when there are none.\<close>

definition with_credentials ::
  "request \<Rightarrow> (authorizationCredentials \<Rightarrow> (world, 'a reply) smonad) \<Rightarrow> (world, 'a reply) smonad" where
  "with_credentials rq k = (case rq_credentials rq of
     None \<Rightarrow> retE (Failure StatusBadRequest ''Could not parse credentials'')
   | Some credentials \<Rightarrow> k credentials)"

section \<open>Login\<close>

text \<open>\<^verbatim>\<open>strings.Split(s, "@")\<close>.\<close>

fun split_at_sign :: "string \<Rightarrow> string \<Rightarrow> string list" where
  "split_at_sign acc [] = [acc]"
| "split_at_sign acc (c # cs) =
     (if c = CHR ''@'' then acc # split_at_sign [] cs else split_at_sign (acc @ [c]) cs)"

text \<open>
  The part the three ways to log in share: from the mail Google vouches for to a signed token.
  Whatever fails is logged and nothing is answered (\<open>None\<close>: status 200 with an empty body).
\<close>

definition token_for :: "env \<Rightarrow> err + string \<Rightarrow> (world, string option) smonad" where
  "token_for E mail = (case mail of
     Inl e \<Rightarrow> if aborts e then throwE e else retE None
   | Inr mail \<Rightarrow>
       let emailParts = split_at_sign [] mail in
       if length emailParts \<noteq> 2 then retE None
       else if emailParts ! 1 \<noteq> ''sinfo.org'' then retE None
       else
         onErr (Members_GetMemberAuthCredentials E (emailParts ! 0)) (\<lambda>_. retE None) (\<lambda>credentials.
         onErr (SignJWT E credentials) (\<lambda>_. retE None) (\<lambda>token. retE (Some token))))"

definition generateJwt :: "env \<Rightarrow> err + string \<Rightarrow> (string option) handler" where
  "generateJwt E body rq =
     orFailR body StatusBadRequest [] (\<lambda>accessToken.
     bindE (getsE w_tick) (\<lambda>t.
     bindE (token_for E (env_userByToken E t accessToken)) (\<lambda>token. retE (Reply token))))"

definition generateJwtAuthCode :: "env \<Rightarrow> err + string \<Rightarrow> (string option) handler" where
  "generateJwtAuthCode E body rq =
     orFailR body StatusBadRequest [] (\<lambda>credentials.
     bindE (getsE w_tick) (\<lambda>t.
     bindE (token_for E (env_userByJWT E t credentials)) (\<lambda>token. retE (Reply token))))"

definition verifyToken :: "env \<Rightarrow> string handler" where
  "verifyToken E rq =
     (let nok = retE (Failure StatusUnauthorized ''NOK'') in
      onErr (ParseJWT E (rq_vars rq ''token'')) (\<lambda>_. nok) (\<lambda>credentials.
      onErr (Members_GetMemberAuthCredentials E (ac_SINFOID credentials)) (\<lambda>_. nok) (\<lambda>member.
      if ac_Role member \<noteq> ac_Role credentials \<or> ac_ID member \<noteq> ac_ID credentials then nok
      else retE (Reply ''OK''))))"

end
