(* ===== verification/NotificationProperties.thy ===== *)
theory NotificationProperties
  imports Notifications CompanyProperties
begin

text \<open>
  Whom a change is announced to: only those concerned, the author only where the code lets it; nobody twice
  about the same thing; and every subscriber, when the database answers.
\<close>

section \<open>Notifying one member\<close>

text \<open>What \<open>NotifyMember\<close> stores.\<close>

definition stored :: "env \<Rightarrow> CreateNotificationData \<Rightarrow> oid \<Rightarrow> oid \<Rightarrow> time \<Rightarrow> notification" where
  "stored E data i j d = (notification_of i data)\<lparr>no_ID := j, no_Date := d,
     no_Signature := Notification_Hash E (notification_of i data)\<rparr>"

lemma stored_simps [simp]:
  "no_ID (stored E data i j d) = j" "no_Member (stored E data i j d) = i" "no_Kind (stored E data i j d) = cnd_Kind data"
  "no_Signature (stored E data i j d) = Notification_Hash E (notification_of i data)"
  by (simp_all add: stored_def notification_of_def)

text \<open>A notification says what the request says; the member, the ID, the date and the signature are its own.\<close>

definition regards :: "CreateNotificationData \<Rightarrow> notification \<Rightarrow> bool" where
  "regards data n \<longleftrightarrow> no_Kind n = cnd_Kind data \<and> no_Post n = cnd_Post data \<and> no_Thread n = cnd_Thread data \<and>
     no_Speaker n = cnd_Speaker data \<and> no_Company n = cnd_Company data \<and> no_Meeting n = cnd_Meeting data \<and>
     no_Session n = cnd_Session data \<and> no_Name n = cnd_Name data"

text \<open>The signature is a function of what the notification is about and of its member, not of the rest.\<close>

lemma Hash_stored [simp]: "Notification_Hash E (stored E data i j d) = Notification_Hash E (notification_of i data)"
  by (simp add: Notification_Hash_def stored_def)

lemma stored_regards [simp]: "regards data (stored E data i j d)"
  by (simp add: regards_def stored_def notification_of_def)

definition signatures :: "world \<Rightarrow> string set" where
  "signatures w = no_Signature ` set (w_notifications w)"

lemma signatures_contents: "contents v = contents w \<Longrightarrow> signatures v = signatures w"
  unfolding signatures_def by (drule contents_eqD(17)) simp

lemma wp_NotifyMember:
  assumes "mongo_spec bad E"
    and "\<And>v'. contents v' = contents v \<Longrightarrow> ((\<forall>e. \<not> bad e) \<Longrightarrow> Notification_Validate (notification_of i data) = None \<Longrightarrow>
      Notification_Hash E (notification_of i data) \<in> signatures v) \<Longrightarrow> Q () v'"
    and "\<And>j d v'. contents v' = (contents v)\<lparr>w_notifications := w_notifications v @ [stored E data i j d]\<rparr> \<Longrightarrow>
      Notification_Validate (notification_of i data) = None \<Longrightarrow> j \<notin> no_ID ` set (w_notifications v) \<Longrightarrow>
      ((\<forall>e. \<not> bad e) \<Longrightarrow> Notification_Hash E (notification_of i data) \<notin> signatures v) \<Longrightarrow> Q () v'"
  shows "wp (Notifications_NotifyMember E i data) Q R v"
proof (cases "Notification_Validate (notification_of i data)")
  case (Some e)
  have "Q () v" by (rule assms(2)) (simp_all add: Some)
  with Some show ?thesis by (simp add: Notifications_NotifyMember_def)
next
  case None
  have quiet: "\<not> aborts e" if "bad e" for e using mongo_spec_aborts [OF assms(1) that] .
  show ?thesis
    unfolding Notifications_NotifyMember_def None Let_def option.case wp_onErr
  proof (rule wp_FindOne [OF mongo_drv(17) [OF assms(1)]], goal_cases)
    case (1 n)
    then have "n \<in> set (w_notifications v)" "no_Signature n = Notification_Hash E (notification_of i data)"
      by simp_all
    then have "Notification_Hash E (notification_of i data) \<in> signatures v"
      by (metis imageI signatures_def)
    then show ?case by (auto intro!: assms(2))
  next
    case (2 e)
    then have fresh: "\<not> bad e \<Longrightarrow> Notification_Hash E (notification_of i data) \<notin> signatures v" and "\<not> aborts e"
      by (auto simp: signatures_def quiet)
    show ?case
      unfolding if_not_P [OF \<open>\<not> aborts e\<close>] wp_bindE wp_getsE wp_onErr
    proof (rule wp_InsertOne [OF mongo_drv(17) [OF assms(1)]], goal_cases)
      case (1 j)
      let ?d = "env_now E (w_tick (tickw v))"
      have ok: "Q () v'" if "contents v' = (contents v)\<lparr>w_notifications := w_notifications v @ [stored E data i j ?d]\<rparr>" for v'
        by (rule assms(3) [OF that None]) (use 1 fresh in auto)
      show ?case
        unfolding wp_discardE Notifications_GetNotification_def
        by (rule wp_FindOne [OF mongo_drv(17) [OF assms(1)]]) (auto simp: quiet stored_def intro!: ok)
    next
      case (2 e')
      then show ?case using quiet by (auto intro!: assms(2))
    qed
  qed
qed

section \<open>Only those concerned\<close>

text \<open>\<open>v\<close> is \<open>w\<close> with some more notifications, all in \<open>P\<close>.\<close>

definition appended :: "(notification \<Rightarrow> bool) \<Rightarrow> world \<Rightarrow> world \<Rightarrow> bool" where
  "appended P w v \<longleftrightarrow> (\<exists>ns. contents v = (contents w)\<lparr>w_notifications := w_notifications w @ ns\<rparr> \<and> (\<forall>n \<in> set ns. P n))"

lemma appended_refl: "contents v = contents w \<Longrightarrow> appended P w v"
  unfolding appended_def by (intro exI [of _ "[]"]) (simp add: contents_def)

lemma appended_same:
  assumes "appended P w v" and "contents u = contents v"
  shows "appended P w u"
  using assms by (simp add: appended_def)

lemma appended_one:
  assumes "appended P w v" and "contents u = (contents v)\<lparr>w_notifications := w_notifications v @ [n]\<rparr>" and "P n"
  shows "appended P w u"
proof -
  from assms(1) obtain ns where ns: "contents v = (contents w)\<lparr>w_notifications := w_notifications w @ ns\<rparr>" "\<forall>n \<in> set ns. P n"
    by (auto simp: appended_def)
  from contents_eqD(17) [OF ns(1)] have "w_notifications v = w_notifications w @ ns" by simp
  with ns assms(2,3) show ?thesis
    unfolding appended_def by (intro exI [of _ "ns @ [n]"]) simp
qed

lemma appended_docs:
  assumes "appended P w v"
  shows "w_companies v = w_companies w" "w_speakers v = w_speakers w" "w_events v = w_events w" "w_teams v = w_teams w"
    "w_members v = w_members w" "w_threads v = w_threads w" "w_posts v = w_posts w"
    "w_coordinationTeams v = w_coordinationTeams w"
proof -
  from assms obtain ns where "contents v = (contents w)\<lparr>w_notifications := w_notifications w @ ns\<rparr>"
    by (auto simp: appended_def)
  from contents_eqD [OF this] show "w_companies v = w_companies w" "w_speakers v = w_speakers w"
    "w_events v = w_events w" "w_teams v = w_teams w" "w_members v = w_members w" "w_threads v = w_threads w"
    "w_posts v = w_posts w" "w_coordinationTeams v = w_coordinationTeams w" by simp_all
qed

lemma wp_notify_appended:
  assumes "mongo_spec bad E" and "appended P w v" and "\<And>j d. P (stored E data i j d)"
  shows "wp (Notifications_NotifyMember E i data) (\<lambda>_. appended P w) R v"
  by (rule wp_NotifyMember [OF assms(1)]) (auto intro: appended_same [OF assms(2)] appended_one [OF assms(2)] assms(3))

text \<open>
  The recipients: administrators outside production, subscribers of the company and of the speaker,
  the coordinators of the author's coordination teams, and members whose SINFO ID is a tag of the post.
\<close>

definition admins :: "world \<Rightarrow> oid set" where
  "admins w = {i. \<exists>t \<in> set (w_teams w). \<exists>m \<in> set (team_Members t). tm_Member m = i \<and> tm_Role m = RoleAdmin}"

definition subscribers :: "world \<Rightarrow> int \<Rightarrow> CreateNotificationData \<Rightarrow> oid set" where
  "subscribers w ev data =
     {i. \<exists>c \<in> set (w_companies w). cnd_Company data = Some (co_ID c) \<and> i \<in> set (company_subscribers c ev)} \<union>
     {i. \<exists>s \<in> set (w_speakers w). cnd_Speaker data = Some (s_ID s) \<and> i \<in> set (speaker_subscribers s ev)}"

definition coordinators :: "world \<Rightarrow> oid \<Rightarrow> oid set" where
  "coordinators w author = {i. \<exists>c \<in> set (w_coordinationTeams w). author \<in> set (cot_CoordinatedMembers c) \<and>
     (\<exists>m. cot_Coordinator c = Some m \<and> tm_Member m = i)}"

definition post_in_question :: "world \<Rightarrow> CreateNotificationData \<Rightarrow> post \<Rightarrow> bool" where
  "post_in_question w data p \<longleftrightarrow> p \<in> set (w_posts w) \<and>
     (case cnd_Post data of Some i \<Rightarrow> po_ID p = i
      | None \<Rightarrow> (\<exists>t \<in> set (w_threads w). cnd_Thread data = Some (th_ID t) \<and> po_ID p = th_Entry t))"

definition tags_in :: "world \<Rightarrow> post \<Rightarrow> oid set" where
  "tags_in w p = {mb_ID m |m. m \<in> set (w_members w) \<and>
     (\<exists>tag \<in> set (FindAll_tags (po_Text p)). mb_SINFOID m = drop 1 tag)}"

text \<open>
  A notification that \<open>Notify\<close> may add: one of the change, with all its references and its name, or one of a tag in the
  post in question, which names that post and else what the change does.
\<close>

definition concerned :: "env \<Rightarrow> world \<Rightarrow> event \<Rightarrow> oid \<Rightarrow> CreateNotificationData \<Rightarrow> notification \<Rightarrow> bool" where
  "concerned E w cur author data n \<longleftrightarrow> no_Signature n = Notification_Hash E n \<and>
     (regards data n \<and>
        (\<not> env_production E \<and> no_Member n \<in> admins w \<or>
         no_Member n \<in> subscribers w (ev_ID cur) data \<union> coordinators w author \<and> (env_production E \<longrightarrow> no_Member n \<noteq> author)) \<or>
      (\<exists>p. post_in_question w data p \<and> no_Member n \<in> tags_in w p \<and>
         regards (data\<lparr>cnd_Kind := NotificationKindTagged, cnd_Post := Some (po_ID p)\<rparr>) n))"

lemma concerned_tagged:
  "post_in_question w data p \<Longrightarrow> i \<in> tags_in w p \<Longrightarrow>
   concerned E w cur author data
     (stored E (data\<lparr>cnd_Kind := NotificationKindTagged, cnd_Post := Some (po_ID p)\<rparr>) i j d)"
  unfolding concerned_def by (intro conjI disjI2 exI [of _ p]) simp_all

abbreviation announces :: "env \<Rightarrow> world \<Rightarrow> event \<Rightarrow> oid \<Rightarrow> CreateNotificationData \<Rightarrow> world \<Rightarrow> bool" where
  "announces E w cur author data \<equiv> appended (concerned E w cur author data) w"

lemma wp_notify_each:
  assumes "appended P w v" and "\<And>x u. x \<in> set xs \<Longrightarrow> appended P w u \<Longrightarrow> wp (b x) (\<lambda>_. appended P w) (\<lambda>_ _. False) u"
  shows "wp (forE xs b) (\<lambda>_. appended P w) (\<lambda>_ _. False) v"
  by (rule wp_forE [where I = "\<lambda>_. appended P w"]) (auto intro: assms)

lemma wp_notify_subscribers:
  assumes "mongo_spec bad E" and "announces E w cur author data v"
    and "set ids \<subseteq> subscribers w (ev_ID cur) data"
  shows "wp (notify_subscribers E author data ids) (\<lambda>_. announces E w cur author data) (\<lambda>_ _. False) v"
  unfolding notify_subscribers_def
proof (rule wp_notify_each [OF assms(2)])
  fix i u
  assume "i \<in> set ids" and u: "announces E w cur author data u"
  with assms(3) have i: "i \<in> subscribers w (ev_ID cur) data" by blast
  show "wp (if env_production E \<and> i = author then retE () else Notifications_NotifyMember E i data)
      (\<lambda>_. announces E w cur author data) (\<lambda>_ _. False) u"
  proof (cases "env_production E \<and> i = author")
    case True
    then show ?thesis using u by simp
  next
    case False
    have "wp (Notifications_NotifyMember E i data) (\<lambda>_. announces E w cur author data) (\<lambda>_ _. False) u"
      by (rule wp_notify_appended [OF assms(1) u]) (use False i in \<open>auto simp: concerned_def\<close>)
    then show ?thesis unfolding if_not_P [OF False] .
  qed
qed

lemma wp_admins:
  assumes "mongo_spec bad E"
  shows "wp (Teams_GetMembersByRole E RoleAdmin) (\<lambda>ids v. set ids \<subseteq> admins w \<and> contents v = contents w)
     (\<lambda>e v. bad e \<and> contents v = contents w) w"
  unfolding Teams_GetMembersByRole_def TeamRole_IsValidRole_def
  by (simp, rule wp_FindUnchecked_set [OF mongo_drv(4) [OF assms]]) (auto simp: admins_def)

lemma wp_notify_admins:
  assumes "mongo_spec bad E" and "announces E w cur author data v"
  shows "wp (notify_admins E data) (\<lambda>_. announces E w cur author data) (\<lambda>_ _. False) v"
proof (cases "env_production E")
  case False
  have each: "wp (forE members (\<lambda>s. Notifications_NotifyMember E s data))
      (\<lambda>_. announces E w cur author data) (\<lambda>_ _. False) u"
    if "announces E w cur author data u" "set members \<subseteq> admins w" for members u
    by (rule wp_notify_each [OF that(1)], rule wp_notify_appended [OF assms(1)])
      (use that(2) False in \<open>auto simp: concerned_def\<close>)
  have same: "admins v = admins w" by (simp add: admins_def appended_docs(4) [OF assms(2)])
  show ?thesis
    unfolding notify_admins_def if_P [OF False] wp_onErr
    by (rule wp_mono [OF wp_admins [OF assms(1)]])
      (auto simp: same mongo_spec_aborts [OF assms(1)] intro!: each appended_same [OF assms(2)])
qed (use assms(2) in \<open>simp add: notify_admins_def\<close>)

lemma wp_notify_coordinators:
  assumes "mongo_spec bad E" and "announces E w cur author data v"
  shows "wp (notify_coordinators E author data) (\<lambda>_. announces E w cur author data) (\<lambda>_ _. False) v"
proof -
  have each: "wp (case cot_Coordinator c of None \<Rightarrow> retE () | Some m \<Rightarrow>
        if env_production E \<and> tm_Member m = author then retE () else Notifications_NotifyMember E (tm_Member m) data)
      (\<lambda>_. announces E w cur author data) (\<lambda>_ _. False) u"
    if u: "announces E w cur author data u" and c: "c \<in> set (w_coordinationTeams w)" "author \<in> set (cot_CoordinatedMembers c)" for c u
  proof (cases "cot_Coordinator c")
    case (Some m)
    have "wp (Notifications_NotifyMember E (tm_Member m) data) (\<lambda>_. announces E w cur author data) (\<lambda>_ _. False) u"
      if "\<not> (env_production E \<and> tm_Member m = author)"
      by (rule wp_notify_appended [OF assms(1) u])
        (use that Some c in \<open>auto simp: concerned_def coordinators_def\<close>)
    then show ?thesis using Some u by simp
  qed (use u in simp)
  show ?thesis
    unfolding notify_coordinators_def CoordinationTeams_GetCoordinationTeamsByMember_def wp_onErr
  proof (rule wp_FindUnchecked_set [OF mongo_drv(19) [OF assms(1)]], goal_cases)
    case (1 cs)
    show ?case
      by (rule wp_notify_each)
        (use 1(1) appended_docs(8) [OF assms(2)] in \<open>auto intro!: each appended_same [OF assms(2)]\<close>)
  next
    case (2 e)
    then show ?case using mongo_spec_aborts [OF assms(1)] by (auto intro: appended_same [OF assms(2)])
  qed
qed

lemma wp_notify_tagged:
  assumes "mongo_spec bad E" and "announces E w cur author data v" and "post_in_question w data p"
  shows "wp (notify_tagged E data p) (\<lambda>_. announces E w cur author data) (\<lambda>_ _. False) v"
  unfolding notify_tagged_def
proof (rule wp_notify_each [OF assms(2)], goal_cases)
  case (1 tag u)
  note same = appended_docs(5) [OF 1(2)]
  show ?case
    unfolding wp_onErr Members_GetMemberBySinfoID_def
  proof (rule wp_FindOne [OF mongo_drv(5) [OF assms(1)]], goal_cases)
    case (1 m)
    then have "mb_ID m \<in> tags_in w p"
      using \<open>tag \<in> _\<close> same unfolding tags_in_def by (intro CollectI exI [of _ m]) auto
    then show ?case
      by (intro wp_notify_appended [OF assms(1)] concerned_tagged [OF assms(3)]
          appended_same [OF \<open>announces E w cur author data u\<close>]) simp_all
  next
    case (2 e)
    then show ?case
      using mongo_spec_aborts [OF assms(1)] by (auto intro: appended_same [OF \<open>announces E w cur author data u\<close>])
  qed
qed

lemma wp_notified_post:
  assumes "mongo_spec bad E" and "announces E w cur author data v"
  shows "wp (notified_post E data)
     (\<lambda>p u. announces E w cur author data u \<and> (\<forall>q. p = Some q \<longrightarrow> post_in_question w data q))
     (\<lambda>e u. announces E w cur author data u \<and> \<not> aborts e) v"
proof -
  note docs = appended_docs(6,7) [OF assms(2)]
  have post: "wp (Posts_GetPost E i) (\<lambda>q u. announces E w cur author data u \<and> q \<in> set (w_posts w) \<and> po_ID q = i)
      (\<lambda>e u. announces E w cur author data u \<and> \<not> aborts e) u"
    if "announces E w cur author data u" for i u
    unfolding Posts_GetPost_def
    by (rule wp_FindOne [OF mongo_drv(12) [OF assms(1)]])
      (use that appended_docs(7) [OF that] mongo_spec_aborts [OF assms(1)] in \<open>auto intro: appended_same [OF that]\<close>)
  show ?thesis
  proof (cases "cnd_Post data")
    case (Some i)
    then show ?thesis
      by (cases "cnd_Thread data") (auto simp: notified_post_def post_in_question_def intro!: wp_mono [OF post [OF assms(2)]])
  next
    case None
    show ?thesis
    proof (cases "cnd_Thread data")
      case (Some t)
      show ?thesis
        unfolding notified_post_def None Some prod.case option.case wp_bindE wp_retE Threads_GetThread_def
      proof (rule wp_FindOne [OF mongo_drv(11) [OF assms(1)]], goal_cases)
        case (1 th)
        then have th: "th \<in> set (w_threads w)" "th_ID th = t" using docs by simp_all
        show ?case
          by (rule wp_mono [OF post]) (use th Some None in \<open>auto simp: post_in_question_def intro: appended_same [OF assms(2)]\<close>)
      next
        case (2 e)
        then show ?case using mongo_spec_aborts [OF assms(1)] by (auto intro: appended_same [OF assms(2)])
      qed
    qed (use None assms(2) in \<open>simp add: notified_post_def\<close>)
  qed
qed

lemma wp_notify_company:
  assumes "mongo_spec bad E" and "announces E w cur author data v"
  shows "wp (case cnd_Company data of None \<Rightarrow> retE () | Some i \<Rightarrow> bindE (Companies_GetCompany E i) (\<lambda>c.
       notify_subscribers E author data (company_subscribers c (ev_ID cur))))
     (\<lambda>_. announces E w cur author data) (\<lambda>e u. announces E w cur author data u \<and> \<not> aborts e) v"
proof (cases "cnd_Company data")
  case (Some i)
  show ?thesis
    unfolding Some option.case wp_bindE
  proof (rule wp_GetCompany [OF assms(1)], goal_cases)
    case (1 c u)
    then show ?case
      using Some appended_docs(1) [OF assms(2)]
      by (intro wp_mono [OF wp_notify_subscribers [OF assms(1) appended_same [OF assms(2) 1(3)]]])
        (auto simp: subscribers_def)
  next
    case (2 e u)
    then show ?case using mongo_spec_aborts [OF assms(1)] by (auto intro: appended_same [OF assms(2)])
  qed
qed (use assms(2) in simp)

lemma wp_notify_speaker:
  assumes "mongo_spec bad E" and "announces E w cur author data v"
  shows "wp (case cnd_Speaker data of None \<Rightarrow> retE () | Some i \<Rightarrow> bindE (Speakers_GetSpeaker E i) (\<lambda>s.
       notify_subscribers E author data (speaker_subscribers s (ev_ID cur))))
     (\<lambda>_. announces E w cur author data) (\<lambda>e u. announces E w cur author data u \<and> \<not> aborts e) v"
proof (cases "cnd_Speaker data")
  case (Some i)
  show ?thesis
    unfolding Some option.case wp_bindE
  proof (rule wp_GetSpeaker [OF assms(1)], goal_cases)
    case (1 c u)
    then show ?case
      using Some appended_docs(2) [OF assms(2)]
      by (intro wp_mono [OF wp_notify_subscribers [OF assms(1) appended_same [OF assms(2) 1(3)]]])
        (auto simp: subscribers_def)
  next
    case (2 e u)
    then show ?case using mongo_spec_aborts [OF assms(1)] by (auto intro: appended_same [OF assms(2)])
  qed
qed (use assms(2) in simp)

definition told :: "env \<Rightarrow> oid \<Rightarrow> CreateNotificationData \<Rightarrow> world \<Rightarrow> world \<Rightarrow> bool" where
  "told E author data w v \<longleftrightarrow> contents v = contents w \<or>
     (\<exists>cur. is_current (w_events w) cur \<and> announces E w cur author data v)"

lemma wp_Notify:
  assumes "mongo_spec bad E"
  shows "wp (Notifications_Notify E author data) (\<lambda>_. told E author data w) (\<lambda>_ _. False) w"
  unfolding Notifications_Notify_def wp_discardE wp_bindE
proof (rule wp_GetCurrentEvent [OF assms], goal_cases)
  case (1 cur w1)
  let ?A = "announces E w cur author data"
  have fin: "told E author data w v" if "?A v" for v
    using that 1(1) unfolding told_def by blast
  have stop: "if aborts e then False else told E author data w v" if "?A v \<and> \<not> aborts e" for e v
    using that fin by simp
  have w1: "?A w1" by (rule appended_refl [OF 1(2)])
  show ?case
  proof (rule wp_mono [OF wp_notify_admins [OF assms w1]], goal_cases)
    case (1 _ v)
    then show ?case
    proof (elim wp_mono [OF wp_notify_company [OF assms]], goal_cases)
      case (1 _ v)
      then show ?case
      proof (elim wp_mono [OF wp_notify_speaker [OF assms]], goal_cases)
        case (1 _ v)
        then show ?case
        proof (elim wp_mono [OF wp_notify_coordinators [OF assms]], goal_cases)
          case (1 _ v)
          then show ?case
          proof (elim wp_mono [OF wp_notified_post [OF assms]], goal_cases)
            case (1 p v)
            then show ?case
              by (cases p) (auto simp: fin intro!: wp_mono [OF wp_notify_tagged [OF assms]])
          qed (rule stop)
        qed simp
      qed (rule stop)
    qed (rule stop)
  qed simp
next
  case (2 e w1)
  then show ?case using mongo_spec_aborts [OF assms] by (auto simp: told_def)
qed

text \<open>
  C26: \<open>Notify\<close> never fails, changes nothing but the notifications, and only adds some. What it adds is of the change
  it is asked to announce, with the same references and name, and goes to the administrators when not in production,
  to the subscribers of that company or speaker in the current event and to the coordinators of the author; or it
  is of a tag in the post in question, and goes to the member tagged. The author is told of their own change
  outside production, and in production only by tagging themselves.
\<close>

theorem Notify_only_concerned:
  assumes "mongo_spec bad E"
  shows "wp (Notifications_Notify E author data)
     (\<lambda>_ v. contents v = contents w \<or> (\<exists>cur ns. is_current (w_events w) cur \<and>
        contents v = (contents w)\<lparr>w_notifications := w_notifications w @ ns\<rparr> \<and>
        (\<forall>n \<in> set ns. concerned E w cur author data n) \<and>
        (\<forall>n \<in> set ns. env_production E \<and> no_Member n = author \<longrightarrow>
           no_Kind n = NotificationKindTagged \<and> (\<exists>p. post_in_question w data p \<and> author \<in> tags_in w p))))
     (\<lambda>_ _. False) w"
proof (rule wp_mono [OF wp_Notify [OF assms]], goal_cases)
  case (1 _ v)
  have "no_Kind n = NotificationKindTagged \<and> (\<exists>p. post_in_question w data p \<and> author \<in> tags_in w p)"
    if "concerned E w cur author data n" "env_production E" "no_Member n = author" for cur n
    using that by (auto simp: concerned_def regards_def)
  with 1 show ?case unfolding told_def appended_def by blast
qed

text \<open>
  In production, member 9 changes company 4; subscribers 9 and 8 of its participation in event 1, and nobody else, are
  candidates, and 9 is the author.
\<close>

definition watched_world :: world where
  "watched_world = empty_world\<lparr>w_events := [new_event 1 ''e''],
     w_companies := [(sample_company Suggested)\<lparr>co_Participations :=
       [(new_participation 1 7 False)\<lparr>cp_Subscribers := [9, 8]\<rparr>]\<rparr>]\<rparr>"

definition company_updated :: CreateNotificationData where
  "company_updated = \<lparr>cnd_Kind = NotificationKindUpdated, cnd_Post = None, cnd_Thread = None, cnd_Speaker = None,
     cnd_Company = Some 4, cnd_Meeting = None, cnd_Session = None, cnd_Name = []\<rparr>"

theorem Notify_only_concerned_witness:
  "wp (Notifications_Notify local_env 9 company_updated)
     (\<lambda>_ v. \<forall>n \<in> set (w_notifications v). no_Member n = 8 \<and> no_Company n = Some 4) (\<lambda>_ _. False) watched_world"
proof (rule wp_mono [OF Notify_only_concerned [OF local_env_up]], goal_cases)
  case (1 _ v)
  have none: "coordinators watched_world 9 = {}" "\<not> post_in_question watched_world company_updated p" "env_production local_env"
    "subscribers watched_world 1 company_updated = {9, 8}" for p
    by (auto simp: coordinators_def post_in_question_def watched_world_def subscribers_def company_updated_def
        company_subscribers_def new_participation_def local_env_def)
  from 1 show ?case
  proof (elim disjE exE conjE)
    assume "contents v = contents watched_world"
    from contents_eqD(17) [OF this] show ?case by (simp add: watched_world_def)
  next
    fix cur ns
    assume cur: "is_current (w_events watched_world) cur"
      and v: "contents v = (contents watched_world)\<lparr>w_notifications := w_notifications watched_world @ ns\<rparr>"
      and ns: "\<forall>n \<in> set ns. concerned local_env watched_world cur 9 company_updated n"
    from cur have "ev_ID cur = 1" by (auto simp: is_current_def watched_world_def new_event_def)
    with ns none have "\<forall>n \<in> set ns. no_Member n = 8 \<and> no_Company n = Some 4"
      by (auto simp: concerned_def regards_def company_updated_def)
    with contents_eqD(17) [OF v] show ?case by (simp add: watched_world_def)
  qed
qed simp

section \<open>Nobody twice\<close>

definition notified_once :: "env \<Rightarrow> world \<Rightarrow> bool" where
  "notified_once E w \<longleftrightarrow> distinct (map no_ID (w_notifications w)) \<and> distinct (map no_Signature (w_notifications w)) \<and>
     (\<forall>n \<in> set (w_notifications w). no_Signature n = Notification_Hash E n)"

text \<open>Whom a notification is for, and what it says: its kind and everything it refers to.\<close>

definition told_what :: "notification \<Rightarrow> oid \<times> notificationKind \<times> oid option list" where
  "told_what n = (no_Member n, no_Kind n,
     [no_Post n, no_Thread n, no_Speaker n, no_Company n, no_Meeting n, no_Session n])"

text \<open>The signature depends on nothing else, in particular not on the date.\<close>

lemma Hash_told_what: "told_what n = told_what m \<Longrightarrow> Notification_Hash E n = Notification_Hash E m"
  by (simp add: told_what_def Notification_Hash_def)

lemma notified_once_distinct: "notified_once E w \<Longrightarrow> distinct (map told_what (w_notifications w))"
  unfolding notified_once_def distinct_map inj_on_def by (metis Hash_told_what)

lemma notification_ticks [simp]: "notified_once E (tickw w) = notified_once E w" "signatures (tickw w) = signatures w"
  by (simp_all add: notified_once_def signatures_def)

lemma keeps_NotifyMember:
  assumes "mongo_spec bad E" and "\<And>e. \<not> bad e"
  shows "keeps (notified_once E) (Notifications_NotifyMember E i data)"
proof (rule keepsI, rule wp_NotifyMember [OF assms(1)], goal_cases)
  case (1 v v')
  then show ?case unfolding notified_once_def by (drule_tac contents_eqD(17)) simp
next
  case (2 v j d v')
  have "w_notifications v' = w_notifications v @ [stored E data i j d]"
    using contents_eqD(17) [OF 2(2)] by simp
  then show ?case using 2 assms(2) by (auto simp: notified_once_def signatures_def)
qed

text \<open>A program made of reads and \<open>NotifyMember\<close> keeps what \<open>NotifyMember\<close> keeps.\<close>

lemmas notify_reads = Companies_GetCompany_def Speakers_GetSpeaker_def CoordinationTeams_GetCoordinationTeamsByMember_def
  Posts_GetPost_def Threads_GetThread_def Members_GetMemberBySinfoID_def Events_GetCurrentEvent_def
  Teams_GetMembersByRole_def

lemma keeps_Notify_parts:
  assumes "\<And>i d. keeps I (Notifications_NotifyMember E i d)" and "\<And>v. I (tickw v) = I v"
  shows "keeps I (notify_subscribers E author data ids)" and "keeps I (notify_coordinators E author data)"
    and "keeps I (notify_tagged E data p)" and "keeps I (notify_admins E data)" and "keeps I (notified_post E data)"
proof -
  show "keeps I (notify_subscribers E author data ids)" "keeps I (notify_coordinators E author data)"
    "keeps I (notify_tagged E data p)" "keeps I (notify_admins E data)"
    unfolding notify_subscribers_def notify_coordinators_def notify_tagged_def notify_admins_def notify_reads
    by (intro keeps_rules assms(1); simp add: assms(2))+
  show "keeps I (notified_post E data)"
    unfolding notified_post_def notify_reads
    by (cases "cnd_Thread data"; cases "cnd_Post data"; simp; intro keeps_rules; simp add: assms(2))
qed

lemma keeps_Notify:
  assumes "\<And>i d. keeps I (Notifications_NotifyMember E i d)" and "\<And>v. I (tickw v) = I v"
  shows "keeps I (Notifications_Notify E author data)"
  unfolding Notifications_Notify_def Companies_GetCompany_def Speakers_GetSpeaker_def Events_GetCurrentEvent_def
  by (intro keeps_rules keeps_Notify_parts assms(1); simp add: assms(2))

text \<open>
  C27: while the database answers, nobody is told the same thing twice: every stored notification carries the
  signature of what it says, no two have the same, and so no two for one member have the same kind and the same
  references, whatever their dates. \<open>Notify\<close> keeps this whatever it is asked, and so do the deletions of notifications. (A failing
  check counts as passed, so this needs the database to answer.)
\<close>

theorem notified_at_most_once:
  assumes "mongo_spec bad E" and "\<And>e. \<not> bad e"
  shows "keeps (notified_once E) (Notifications_Notify E author data) \<and>
    keeps (notified_once E) (Notifications_NotifyMember E i data) \<and>
    keeps (notified_once E) (Notifications_DeleteNotification E i) \<and>
    keeps (notified_once E) (Notifications_DeleteAllMemberNotifications E i) \<and>
    (notified_once E w \<longrightarrow> distinct (map told_what (w_notifications w)))"
proof -
  have "keeps (notified_once E) (FindOneAndDelete (Notifications E) f)" for f
    by (rule keepsI, rule wp_FindOneAndDelete [OF mongo_drv(17) [OF assms(1)]])
      (auto simp: notified_once_def removes_def)
  moreover have "keeps (notified_once E) (DeleteMany (Notifications E) f)" for f
    by (rule keepsI, rule wp_DeleteMany [OF mongo_drv(17) [OF assms(1)]])
      (auto simp: notified_once_def distinct_map_filter)
  ultimately show ?thesis
    unfolding Notifications_DeleteNotification_def Notifications_DeleteAllMemberNotifications_def
    by (intro conjI impI notified_once_distinct keeps_Notify keeps_NotifyMember [OF assms]) simp_all
qed

text \<open>Member 8 is told of the change of company 4; asked again, \<open>Notify\<close> does not tell them again.\<close>

theorem notified_at_most_once_witness:
  "wp (bindE (Notifications_Notify local_env 9 company_updated) (\<lambda>_. Notifications_Notify local_env 9 company_updated))
     (\<lambda>_ v. distinct (map told_what (w_notifications v))) (\<lambda>_ _. True) watched_world"
proof -
  note once = notified_at_most_once [OF local_env_up never_simp, of 9 company_updated]
  have "keeps (notified_once local_env) (bindE (Notifications_Notify local_env 9 company_updated)
      (\<lambda>_. Notifications_Notify local_env 9 company_updated))"
    by (intro keeps_rules) (use once in blast)+
  then have "wp (bindE (Notifications_Notify local_env 9 company_updated) (\<lambda>_. Notifications_Notify local_env 9 company_updated))
      (\<lambda>_. notified_once local_env) (\<lambda>_. notified_once local_env) watched_world"
    by (rule wp_keeps) (simp add: notified_once_def watched_world_def)
  then show ?thesis by (rule wp_mono) (use once in auto)
qed

section \<open>Every subscriber, when the database answers\<close>

lemma Validate_member: "Notification_Validate (notification_of i data) = Notification_Validate (notification_of j data)"
  by (simp add: Notification_Validate_def notification_of_def)

text \<open>Whoever has been notified stays so.\<close>

lemma keeps_reached:
  assumes "mongo_spec bad E"
  shows "keeps (\<lambda>v. S \<subseteq> signatures v) (Notifications_NotifyMember E i data)"
proof (rule keepsI, rule wp_NotifyMember [OF assms], goal_cases)
  case (1 v v')
  then show ?case using signatures_contents [OF 1(2)] by simp
next
  case (2 v j d v')
  then show ?case using contents_eqD(17) [OF 2(2)] by (auto simp: signatures_def)
qed

definition told_of :: "env \<Rightarrow> CreateNotificationData \<Rightarrow> oid \<Rightarrow> string" where
  "told_of E data i = Notification_Hash E (notification_of i data)"

lemma wp_told:
  assumes "mongo_spec bad E" and "\<And>e. \<not> bad e" and "Notification_Validate (notification_of i data) = None"
    and "S \<subseteq> signatures v"
  shows "wp (Notifications_NotifyMember E i data) (\<lambda>_ v. insert (told_of E data i) S \<subseteq> signatures v) (\<lambda>_ _. False) v"
proof (rule wp_NotifyMember [OF assms(1)], goal_cases)
  case (1 v')
  then show ?case using assms signatures_contents [OF 1(1)] by (simp add: told_of_def)
next
  case (2 j d v')
  then show ?case using assms(4) contents_eqD(17) [OF 2(1)] by (auto simp: signatures_def told_of_def)
qed

lemma wp_subscribers_told:
  assumes "mongo_spec bad E" and "\<And>e. \<not> bad e" and "\<And>i. Notification_Validate (notification_of i data) = None"
  shows "wp (notify_subscribers E author data ids)
     (\<lambda>_ v. {told_of E data i | i. i \<in> set ids \<and> (env_production E \<longrightarrow> i \<noteq> author)} \<subseteq> signatures v) (\<lambda>_ _. False) v"
  unfolding notify_subscribers_def
proof (rule wp_forE [where I = "\<lambda>ys v. {told_of E data i | i. i \<in> set ys \<and> (env_production E \<longrightarrow> i \<noteq> author)} \<subseteq> signatures v"], goal_cases)
  case (2 ys x zs u)
  let ?S = "{told_of E data i | i. i \<in> set ys \<and> (env_production E \<longrightarrow> i \<noteq> author)}"
  show ?case
  proof (cases "env_production E \<and> x = author")
    case True
    then show ?thesis using 2(2) by auto
  next
    case False
    have "wp (Notifications_NotifyMember E x data) (\<lambda>_ v. insert (told_of E data x) ?S \<subseteq> signatures v) (\<lambda>_ _. False) u"
      by (rule wp_told [OF assms(1,2,3) 2(2)])
    then show ?thesis
      unfolding if_not_P [OF False] by (rule wp_mono) auto
  qed
qed auto

section \<open>What a signature says\<close>

text \<open>
  The hexadecimal form of an ID is documented to be made of hexadecimal digits, as many for every ID and others for
  another: no ID's form starts with another's.
\<close>

definition hex_digits :: "char set" where
  "hex_digits = set ''0123456789abcdef''"

definition hex_documented :: "env \<Rightarrow> bool" where
  "hex_documented E \<longleftrightarrow> (\<forall>i. env_hex E i \<noteq> [] \<and> set (env_hex E i) \<subseteq> hex_digits) \<and>
     (\<forall>i j xs ys. env_hex E i @ xs = env_hex E j @ ys \<longrightarrow> i = j)"

definition named_kinds :: "notificationKind list" where
  "named_kinds = [NotificationKindCreated, NotificationKindUpdated, NotificationKindDeleted,
     NotificationKindUpdatedPrivateImage, NotificationKindUpdatedPublicImage, NotificationKindUploadedMeetingMinute,
     NotificationKindDeletedMeetingMinute, NotificationKindUpdatedCompanyImage, NotificationKindCreatedParticipation,
     NotificationKindUpdatedParticipation, NotificationKindDeletedParticipation,
     NotificationKindCreatedParticipationPackage, NotificationKindUpdatedParticipationPackage,
     NotificationKindDeletedParticipationPackage, NotificationKindCreatedParticipationBilling,
     NotificationKindDeletedParticipationBilling, NotificationKindUpdatedParticipationStatus, NotificationKindTagged]"

lemma named_kind_strings: "distinct (map notificationKind_string named_kinds)"
  by (simp add: named_kinds_def)

lemma named_kind_letters: "k \<in> set named_kinds \<Longrightarrow> c \<in> set (notificationKind_string k) \<Longrightarrow> c \<notin> hex_digits"
  by (auto simp: named_kinds_def hex_digits_def)

text \<open>The references of a notification, in the order in which the signature takes them.\<close>

definition references :: "notification \<Rightarrow> oid list" where
  "references n = List.map_filter (\<lambda>i. i)
     [no_Post n, no_Thread n, no_Speaker n, no_Company n, no_Meeting n, no_Session n]"

definition signed_text :: "env \<Rightarrow> notification \<Rightarrow> string" where
  "signed_text E n = notificationKind_string (no_Kind n) @ concat (map (env_hex E) (no_Member n # references n))"

lemma Hash_references: "Notification_Hash E n = hex_EncodeToString (env_sha256 E (signed_text E n))"
  by (simp add: Notification_Hash_def signed_text_def references_def hex_of_def List.map_filter_simps split: option.split)

text \<open>Two notifications that say different things, of which the hash function makes the same.\<close>

definition collide :: "env \<Rightarrow> notification \<Rightarrow> notification \<Rightarrow> bool" where
  "collide E n m \<longleftrightarrow> signed_text E n \<noteq> signed_text E m \<and> env_sha256 E (signed_text E n) = env_sha256 E (signed_text E m)"

lemma hex_digit_eq: "a < 16 \<Longrightarrow> b < 16 \<Longrightarrow> hex_digit a = hex_digit b \<Longrightarrow> a = b"
  unfolding hex_digit_def by (rule nth_eq_iff_index_eq [THEN iffD1]) simp_all

lemma hex_byte_eq:
  assumes "hex_digit (of_char c div 16) = hex_digit (of_char d div 16)" "hex_digit (of_char c mod 16) = hex_digit (of_char d mod 16)"
  shows "c = d"
proof -
  have "(of_char c :: nat) < 256" "(of_char d :: nat) < 256" by simp_all
  then have "(of_char c :: nat) div 16 < 16" "(of_char d :: nat) div 16 < 16"
    by (simp_all add: less_mult_imp_div_less)
  from hex_digit_eq [OF this assms(1)] hex_digit_eq [OF _ _ assms(2)]
  have "(of_char c :: nat) div 16 = of_char d div 16" "(of_char c :: nat) mod 16 = of_char d mod 16" by simp_all
  then have "(of_char c :: nat) = of_char d" by (metis div_mult_mod_eq)
  then show ?thesis by simp
qed

lemma hex_EncodeToString_inj: "hex_EncodeToString s = hex_EncodeToString t \<Longrightarrow> s = t"
proof (induction s arbitrary: t)
  case Nil
  then show ?case by (cases t) (simp_all add: hex_EncodeToString_def)
next
  case (Cons c s)
  then show ?case by (cases t) (auto simp: hex_EncodeToString_def intro: hex_byte_eq)
qed

lemma concat_hex_inj:
  assumes "hex_documented E"
  shows "concat (map (env_hex E) is) = concat (map (env_hex E) js) \<Longrightarrow> is = js"
proof (induction "is" arbitrary: js)
  case Nil
  then show ?case using assms by (cases js) (simp_all add: hex_documented_def)
next
  case (Cons i "is")
  have "env_hex E i \<noteq> []" using assms by (simp add: hex_documented_def)
  with Cons.prems obtain j js' where js: "js = j # js'" by (cases js) auto
  have "env_hex E i @ concat (map (env_hex E) is) = env_hex E j @ concat (map (env_hex E) js')"
    using Cons.prems js by simp
  moreover from this assms have "i = j" unfolding hex_documented_def by blast
  ultimately show ?case using Cons.IH [of js'] js by simp
qed

lemma letters_then_digits:
  assumes "k @ x = k' @ y" and "\<forall>c \<in> set k \<union> set k'. \<not> D c" and "x \<noteq> []" "y \<noteq> []" "D (hd x)" "D (hd y)"
  shows "k = k' \<and> x = y"
proof -
  have "takeWhile (\<lambda>c. \<not> D c) (l @ z) = l" if "\<forall>c \<in> set l. \<not> D c" "z \<noteq> []" "D (hd z)" for l z
    using that by (cases z) (simp_all add: takeWhile_tail)
  from this [of k x] this [of k' y] assms have "k = k'" by simp
  with assms(1) show ?thesis by simp
qed

text \<open>
  Without a collision of the hash function, a signature tells the kind, the member and the references (but not which of
  the fields a reference stands in).
\<close>

lemma Hash_tells:
  assumes "\<not> collide E n m" and "hex_documented E" and "no_Kind n \<in> set named_kinds" "no_Kind m \<in> set named_kinds"
    and "Notification_Hash E n = Notification_Hash E m"
  shows "no_Kind n = no_Kind m \<and> no_Member n = no_Member m \<and> references n = references m"
proof -
  have same: "notificationKind_string (no_Kind n) @ concat (map (env_hex E) (no_Member n # references n)) =
      notificationKind_string (no_Kind m) @ concat (map (env_hex E) (no_Member m # references m))"
    using hex_EncodeToString_inj [OF assms(5) [unfolded Hash_references]] assms(1) by (auto simp: collide_def signed_text_def)
  have hex: "concat (map (env_hex E) (i # is)) \<noteq> []" "hd (concat (map (env_hex E) (i # is))) \<in> hex_digits"
    for i "is"
  proof -
    have "env_hex E i \<noteq> []" "set (env_hex E i) \<subseteq> hex_digits"
      using assms(2) unfolding hex_documented_def by blast+
    moreover from this(1) have "hd (env_hex E i) \<in> set (env_hex E i)" by simp
    ultimately show "concat (map (env_hex E) (i # is)) \<noteq> []"
      "hd (concat (map (env_hex E) (i # is))) \<in> hex_digits" by auto
  qed
  have "\<forall>c \<in> set (notificationKind_string (no_Kind n)) \<union> set (notificationKind_string (no_Kind m)). c \<notin> hex_digits"
    using assms(3,4) named_kind_letters by blast
  from letters_then_digits [OF same this hex(1,1,2,2)]
  have kinds: "notificationKind_string (no_Kind n) = notificationKind_string (no_Kind m)"
    and ids: "concat (map (env_hex E) (no_Member n # references n)) = concat (map (env_hex E) (no_Member m # references m))"
    by blast+
  have "inj_on notificationKind_string (set named_kinds)" using named_kind_strings by (simp add: distinct_map)
  from inj_onD [OF this kinds assms(3,4)] concat_hex_inj [OF assms(2) ids] show ?thesis by simp
qed

text \<open>
  C28: when the database answers, every subscriber of the company in the current event ends up with a notification for
  them, of the kind announced and with the references of the request, so of that company: except for the author in
  production, and provided the request is a valid one. One they have been sent before and not deleted counts. Only a collision of the hash
  function can leave one of them out, with a notification that says something else and has the same hash. The notifications
  stored before carry their own signatures and named kinds.
\<close>

theorem Notify_reaches_subscribers:
  assumes "mongo_spec bad E" and "\<And>e. \<not> bad e" and "hex_documented E"
    and "distinct (map co_ID (w_companies w))" and "distinct (map ev_ID (w_events w))"
    and "\<And>n. n \<in> set (w_notifications w) \<Longrightarrow> no_Signature n = Notification_Hash E n \<and> no_Kind n \<in> set named_kinds"
    and "cnd_Kind data \<in> set named_kinds" and "Notification_Validate (notification_of author data) = None"
    and "is_current (w_events w) cur" and "cnd_Company data = Some i" and "lookup co_ID (w_companies w) i = Some c"
    and "s \<in> set (company_subscribers c (ev_ID cur))" and "env_production E \<longrightarrow> s \<noteq> author"
  shows "wp (Notifications_Notify E author data)
     (\<lambda>_ v. \<exists>n \<in> set (w_notifications v). no_Member n = s \<and> no_Kind n = cnd_Kind data \<and>
          references n = references (notification_of s data) \<and> i \<in> set (references n) \<or>
        collide E n (notification_of s data)) (\<lambda>_ _. False) w"
proof -
  let ?I = "\<lambda>v. {told_of E data s} \<subseteq> signatures v"
  have valid: "Notification_Validate (notification_of i data) = None" for i
    using assms(8) Validate_member by metis
  have ticks: "?I (tickw v) = ?I v" for v by simp
  note after = keeps_Notify_parts [where I = ?I, OF keeps_reached [OF assms(1)] ticks]
  have reads: "keeps ?I (Speakers_GetSpeaker E j)" for j
    unfolding Speakers_GetSpeaker_def by (intro keeps_rules) simp
  have "wp (Notifications_Notify E author data) (\<lambda>_. ?I) (\<lambda>_ _. True) w"
    unfolding Notifications_Notify_def wp_discardE wp_bindE
  proof (rule wp_GetCurrentEvent [OF assms(1)], goal_cases)
    case (1 e w1)
    have e: "e = cur" by (rule is_current_unique [OF assms(5) 1(1) assms(9)])
    have w1: "announces E w e author data w1" by (rule appended_refl [OF 1(2)])
    show ?case
    proof (rule wp_mono [OF wp_notify_admins [OF assms(1) w1]], goal_cases)
      case (1 _ w2)
      note docs = appended_docs(1) [OF 1]
      show ?case
        unfolding assms(10) option.case wp_bindE
      proof (rule wp_GetCompany [OF assms(1)], goal_cases)
        case (1 c' w3)
        then have "c' = c"
          using lookup_in [OF assms(4), of c'] assms(11) docs by simp
        then have "wp (notify_subscribers E author data (company_subscribers c' (ev_ID e))) (\<lambda>_. ?I) (\<lambda>_ _. False) w3"
          using assms(12,13) e
          by (intro wp_mono [OF wp_subscribers_told [OF assms(1,2) valid]]) auto
        then show ?case
        proof (rule wp_mono, goal_cases)
          case (1 _ v)
          let ?rest = "bindE (case cnd_Speaker data of None \<Rightarrow> retE ()
              | Some i \<Rightarrow> bindE (Speakers_GetSpeaker E i) (\<lambda>s. notify_subscribers E author data (speaker_subscribers s (ev_ID e))))
              (\<lambda>_. bindE (notify_coordinators E author data) (\<lambda>_. bindE (notified_post E data)
              (\<lambda>p. case p of None \<Rightarrow> retE () | Some p \<Rightarrow> notify_tagged E data p)))"
          have "wp ?rest (\<lambda>_. ?I) (\<lambda>_. ?I) v"
            by (rule wp_keeps [where I = ?I]) (intro keeps_rules reads after, rule 1)
          then have "wp ?rest (\<lambda>_. ?I) (\<lambda>x u. if aborts x then True else ?I u) v"
            by (rule wp_mono) auto
          then show ?case by (simp only: wp_bindE)
        qed simp
      next
        case (2 x w3)
        then show ?case
          using assms(2,11) docs lookup_Some_in [OF assms(11)] by auto
      qed
    qed simp
  next
    case (2 e w1)
    then show ?case using assms(2,9) by (auto simp: is_current_def)
  qed
  from wp_conj [OF this wp_Notify [OF assms(1), of author data w]] show ?thesis
  proof (rule wp_mono, goal_cases)
    case (1 _ v)
    then obtain n where n: "n \<in> set (w_notifications v)" "no_Signature n = Notification_Hash E (notification_of s data)"
      by (auto simp: signatures_def told_of_def)
    have "no_Signature n = Notification_Hash E n \<and> no_Kind n \<in> set named_kinds"
    proof (cases "n \<in> set (w_notifications w)")
      case False
      from conjunct2 [OF 1] False n(1) have "\<not> contents v = contents w" by (auto dest: contents_eqD(17))
      with conjunct2 [OF 1] obtain cur ns where "contents v = (contents w)\<lparr>w_notifications := w_notifications w @ ns\<rparr>"
          "\<forall>n \<in> set ns. concerned E w cur author data n"
        unfolding told_def appended_def by blast
      with contents_eqD(17) [OF this(1)] False n(1) have "concerned E w cur author data n" by auto
      then show ?thesis using assms(7) by (auto simp: concerned_def regards_def named_kinds_def)
    qed (rule assms(6))
    with n(2) assms(7) have "no_Kind n = no_Kind (notification_of s data) \<and>
        no_Member n = no_Member (notification_of s data) \<and> references n = references (notification_of s data)"
      if "\<not> collide E n (notification_of s data)"
      by (intro Hash_tells [OF that assms(3)]) (simp_all add: notification_of_def)
    moreover have "i \<in> set (references (notification_of s data))"
      by (simp add: references_def notification_of_def assms(10) List.map_filter_simps split: option.split)
    ultimately show ?case using n(1) by (intro bexI [of _ n]) (auto simp: notification_of_def)
  qed simp
qed

text \<open>An environment whose IDs are told apart: a row of digits \<open>a\<close>, closed by a \<open>0\<close>.\<close>

definition counted_env :: env where
  "counted_env = local_env\<lparr>env_hex := (\<lambda>i. replicate i CHR ''a'' @ ''0'')\<rparr>"

lemma counted_env: "mongo_spec never counted_env" "\<not> collide counted_env n m" "hex_documented counted_env"
  "env_production counted_env"
proof -
  show "mongo_spec never counted_env"
    using local_env_up by (simp add: mongo_spec_def counted_env_def)
  show "\<not> collide counted_env n m" "env_production counted_env"
    by (simp_all add: collide_def counted_env_def local_env_def)
  have hex: "env_hex counted_env i = replicate i CHR ''a'' @ ''0''" for i by (simp add: counted_env_def)
  have "length (takeWhile (\<lambda>c. c = CHR ''a'') (env_hex counted_env i @ xs)) = i" for i xs
    unfolding hex by (induction i) simp_all
  then have "i = j" if "env_hex counted_env i @ xs = env_hex counted_env j @ ys" for i j xs ys
    using arg_cong [OF that, of "\<lambda>s. length (takeWhile (\<lambda>c. c = CHR ''a'') s)"] by simp
  moreover have "env_hex counted_env i \<noteq> [] \<and> set (env_hex counted_env i) \<subseteq> hex_digits" for i
    unfolding hex hex_digits_def by auto
  ultimately show "hex_documented counted_env" unfolding hex_documented_def by blast
qed

theorem Notify_reaches_subscribers_witness:
  "wp (Notifications_Notify counted_env 9 company_updated)
     (\<lambda>_ v. \<exists>n \<in> set (w_notifications v). no_Member n = 8 \<and> no_Kind n = NotificationKindUpdated \<and> references n = [4])
     (\<lambda>_ _. False) watched_world"
proof -
  let ?c = "(sample_company Suggested)\<lparr>co_Participations := [(new_participation 1 7 False)\<lparr>cp_Subscribers := [9, 8]\<rparr>]\<rparr>"
  have refs: "references (notification_of 8 company_updated) = [4]" and kind: "cnd_Kind company_updated = NotificationKindUpdated"
    by (simp_all add: references_def notification_of_def company_updated_def List.map_filter_simps)
  have docs: "w_companies watched_world = [?c]" "w_events watched_world = [new_event 1 ''e'']" "w_notifications watched_world = []"
    by (simp_all add: watched_world_def)
  have subs: "8 \<in> set (company_subscribers ?c (ev_ID (new_event 1 ''e'')))"
    by (simp add: company_subscribers_def new_participation_def new_event_def)
  have valid: "Notification_Validate (notification_of 9 company_updated) = None"
    by (simp add: Notification_Validate_def notification_of_def company_updated_def)
  have company: "cnd_Company company_updated = Some 4" by (simp add: company_updated_def)
  show ?thesis
    by (rule wp_mono [OF Notify_reaches_subscribers [OF counted_env(1) never_simp counted_env(3) _ _ _ _ valid _ company _ subs]])
      (simp_all add: docs refs kind counted_env(2) named_kinds_def is_current_def lookup_def, blast)
qed

end
