(* ===== verification/HttpProperties.thy ===== *)
theory HttpProperties
  imports Http NotificationProperties TeamProperties
begin

text \<open>
  The access check and the login: who is let through, that a refusal leaves the service as it was, and that the
  token of a login is accepted.
\<close>

section \<open>The library of tokens\<close>

text \<open>
  What the code relies on: the library does not panic, and it vouches for a token exactly when it has been signed for the
  claims it names and its time is not over.
\<close>

definition jwt_library :: "env \<Rightarrow> bool" where
  "jwt_library E \<longleftrightarrow>
     (\<forall>t s e. env_parseClaims E t s = Inl e \<longrightarrow> \<not> aborts e) \<and>
     (\<forall>cr x e. env_signClaims E cr x = Inl e \<longrightarrow> \<not> aborts e) \<and>
     (\<forall>t s cr. env_parseClaims E t s = Inr (cr, True) \<longleftrightarrow>
        (\<exists>x. env_signClaims E cr x = Inr s \<and> env_now E t div 1000 \<le> x))"

lemma local_jwt: "jwt_library local_env"
proof -
  have "\<exists>x. t div 1000 \<le> (x :: int)" for t by (rule exI [of _ "t div 1000"]) simp
  then show ?thesis by (auto simp: jwt_library_def local_env_def split: if_splits)
qed

definition token_valid :: "env \<Rightarrow> string \<Rightarrow> authorizationCredentials \<Rightarrow> bool" where
  "token_valid E s cr \<longleftrightarrow> (\<exists>x t. env_signClaims E cr x = Inr s \<and> env_now E t div 1000 \<le> x)"

lemma same_credentials:
  "\<lparr>ac_ID = ac_ID cr, ac_SINFOID = ac_SINFOID cr, ac_Role = ac_Role cr, ac_Team = ac_Team cr\<rparr> = (cr :: authorizationCredentials)"
  by (cases cr) simp

lemma wp_ParseJWT:
  assumes "mongo_spec bad E" and "jwt_library E"
    and "\<And>cr v. contents v = contents w \<Longrightarrow> env_parseClaims E (w_tick w) s = Inr (cr, True) \<Longrightarrow>
      ac_ID cr \<in> mb_ID ` set (w_members w) \<Longrightarrow> Q cr v"
    and "\<And>e v. contents v = contents w \<Longrightarrow> \<not> aborts e \<Longrightarrow>
      ((\<forall>e. \<not> bad e) \<Longrightarrow> \<forall>cr. env_parseClaims E (w_tick w) s = Inr (cr, True) \<longrightarrow> ac_ID cr \<notin> mb_ID ` set (w_members w)) \<Longrightarrow> R e v"
  shows "wp (ParseJWT E s) Q R w"
proof (cases "env_parseClaims E (w_tick w) s")
  case (Inl e)
  then have "\<not> aborts e" using assms(2) by (auto simp: jwt_library_def)
  with Inl show ?thesis by (simp add: ParseJWT_def assms(4))
next
  case (Inr p)
  then obtain cr valid where p: "env_parseClaims E (w_tick w) s = Inr (cr, valid)" by (cases p) simp
  show ?thesis
  proof (cases valid)
    case False
    then show ?thesis using p assms(4) by (simp add: ParseJWT_def)
  next
    case True
    have parsed: "env_parseClaims E (w_tick w) s = Inr (cr, True)" using p True by simp
    have "wp (Members_GetMember E (ac_ID cr)) (\<lambda>_. Q cr)
        (\<lambda>e v. if aborts e then R e v else R (Err ''invalid member on token'') v) w"
    proof (rule wp_GetMember [OF assms(1)], goal_cases)
      case (1 m v)
      then have "ac_ID cr \<in> mb_ID ` set (w_members w)" by (metis imageI)
      with 1 parsed show ?case by (intro assms(3)) simp_all
    next
      case (2 e v)
      then have quiet: "\<not> aborts e" using mongo_spec_aborts [OF assms(1)] by auto
      show ?case unfolding if_not_P [OF quiet] by (rule assms(4)) (use 2 parsed in auto)
    qed
    then show ?thesis by (simp add: ParseJWT_def parsed same_credentials split del: if_split cong: if_cong)
  qed
qed

section \<open>The access check\<close>

lemma wp_protected:
  assumes "mongo_spec bad E" and "jwt_library E" and "env_authentication E"
    and "\<And>cr v. contents v = contents w \<Longrightarrow> env_parseClaims E (w_tick w) (rq_Authorization rq) = Inr (cr, True) \<Longrightarrow>
      ac_ID cr \<in> mb_ID ` set (w_members w) \<Longrightarrow> CheckAccessLevel required cr \<Longrightarrow>
      wp (handler (rq\<lparr>rq_credentials := Some cr\<rparr>)) Q R v"
    and "\<And>status msg v. contents v = contents w \<Longrightarrow> status \<in> {StatusUnauthorized, StatusForbidden} \<Longrightarrow> Q (Failure status msg) v"
  shows "wp (checkAccessLevelWrapper E required handler rq) Q R w"
proof (cases "length (rq_Authorization rq) = 0")
  case True
  then show ?thesis by (simp add: checkAccessLevelWrapper_def assms(3,5))
next
  case False
  then show ?thesis
    unfolding checkAccessLevelWrapper_def
    by (simp add: assms(3) orFail_def, intro wp_ParseJWT [OF assms(1,2)]) (auto intro: assms(4,5))
qed

text \<open>
  C24: with authentication on, a request whose token is missing, forged, expired, of a member that is not stored, or
  of a role below the one required is answered 401 or 403 and leaves the service as it was, whatever the
  handler would have done.
\<close>

theorem access_denied:
  assumes "mongo_spec bad E" and "jwt_library E" and "env_authentication E"
    and "\<And>cr. token_valid E (rq_Authorization rq) cr \<Longrightarrow> ac_ID cr \<in> mb_ID ` set (w_members w) \<Longrightarrow> \<not> CheckAccessLevel required cr"
  shows "wp (checkAccessLevelWrapper E required handler rq)
     (\<lambda>r v. contents v = contents w \<and> (\<exists>msg. r = Failure StatusUnauthorized msg \<or> r = Failure StatusForbidden msg))
     (\<lambda>_ _. False) w"
proof (rule wp_protected [OF assms(1-3)], goal_cases)
  case (1 cr v)
  have "token_valid E (rq_Authorization rq) cr"
    using 1(2) assms(2) unfolding token_valid_def jwt_library_def by blast
  with 1(3,4) assms(4) show ?case by blast
qed auto

definition request_with :: "string \<Rightarrow> request" where
  "request_with token = \<lparr>rq_Authorization = token, rq_vars = (\<lambda>v. if v = ''token'' then token else []), rq_query = (\<lambda>_. []), rq_credentials = None\<rparr>"

text \<open>The coordinator of team 11 asks for what only an administrator may do.\<close>

theorem access_denied_witness:
  "wp (authAdmin local_env (\<lambda>rq. bindE (Teams_DeleteTeam local_env 10) (\<lambda>t. retE (Reply t))) (request_with ''token''))
     (\<lambda>r v. w_teams v = w_teams staff_world) (\<lambda>_ _. False) staff_world"
  unfolding authAdmin_def
proof (rule wp_mono [OF access_denied [OF local_env_up local_jwt]], goal_cases)
  case 1
  show ?case by (simp add: local_env_def)
next
  case (2 cr)
  then have "cr = sample_credentials"
    by (auto simp: token_valid_def local_env_def request_with_def split: if_splits)
  then show ?case by (simp add: CheckAccessLevel_iff sample_credentials_def)
next
  case (3 r v)
  then show ?case using contents_eqD(4) [OF conjunct1 [OF 3]] by simp
qed simp

section \<open>Login\<close>

lemma split_at_sign_nonempty: "split_at_sign acc s \<noteq> []"
  by (induction s arbitrary: acc) auto

lemma split_at_sign_one: "split_at_sign acc s = [b] \<Longrightarrow> acc @ s = b"
  by (induction s arbitrary: acc) (fastforce simp: split_at_sign_nonempty split: if_splits)+

lemma split_at_sign_two: "split_at_sign acc s = [a, b] \<Longrightarrow> acc @ s = a @ CHR ''@'' # b"
  by (induction s arbitrary: acc) (fastforce split: if_splits dest: split_at_sign_one)+

lemma credentials_given_same:
  assumes "\<forall>e. \<not> bad e" and "ids_ok w" and "credentials_given bad w sid cr" and "credentials_given bad w sid cr'"
  shows "ac_ID cr = ac_ID cr'" and "ac_Role cr = ac_Role cr'"
proof -
  from assms(1,3) obtain cur m where m: "is_current (w_events w) cur" "m \<in> set (w_members w)" "mb_SINFOID m = sid"
    "entitled bad w cur m cr" "\<forall>m' \<in> set (w_members w). mb_SINFOID m' = sid \<and> has_role w cur m' \<longrightarrow> m' = m"
    unfolding credentials_given_def by blast
  from assms(1,4) obtain cur' m' where m': "is_current (w_events w) cur'" "m' \<in> set (w_members w)" "mb_SINFOID m' = sid"
    "entitled bad w cur' m' cr'" unfolding credentials_given_def by blast
  have cur: "cur' = cur" by (rule is_current_unique [OF ids_okD(3) [OF assms(2)] m'(1) m(1)])
  with m'(4) have "has_role w cur m'" by (simp add: entitled_has_role)
  with m m' have same: "m' = m" by blast
  show "ac_ID cr = ac_ID cr'" using m(4) m'(4) same by (simp add: entitled_def)
  have held: "(ac_Role cr, ac_Team cr) \<in> event_roles w cur (mb_ID m)" "(ac_Role cr', ac_Team cr') \<in> event_roles w cur (mb_ID m)"
    using m(4) m'(4) same cur by (simp_all add: entitled_def)
  have best: "\<forall>(r, n) \<in> event_roles w cur (mb_ID m). TeamRole_AccessLevel (ac_Role cr) \<le> TeamRole_AccessLevel r"
    "\<forall>(r, n) \<in> event_roles w cur (mb_ID m). TeamRole_AccessLevel (ac_Role cr') \<le> TeamRole_AccessLevel r"
    using m(4) m'(4) assms(1) same cur by (simp_all add: entitled_def)
  have "TeamRole_AccessLevel (ac_Role cr) = TeamRole_AccessLevel (ac_Role cr')"
    using bspec [OF best(1) held(2)] bspec [OF best(2) held(1)] by simp
  moreover have "0 \<le> TeamRole_AccessLevel (ac_Role cr)" "0 \<le> TeamRole_AccessLevel (ac_Role cr')"
    using held role_in_level by (auto simp: event_roles_def)
  ultimately show "ac_Role cr = ac_Role cr'" by (cases "ac_Role cr"; cases "ac_Role cr'") simp_all
qed

lemma credentials_contents:
  assumes "contents v = contents w"
  shows "credentials_given bad v = credentials_given bad w" and "credentials_refused bad v = credentials_refused bad w"
  using contents_eqD(3-5) [OF assms]
  by (simp_all add: fun_eq_iff credentials_given_def credentials_refused_def entitled_def has_role_def event_roles_def)

lemma given_not_refused:
  assumes "\<forall>e. \<not> bad e" and "ids_ok w" and "credentials_given bad w sid cr"
  shows "\<not> credentials_refused bad w sid x"
proof -
  from assms(1,3) obtain cur m where m: "is_current (w_events w) cur" "m \<in> set (w_members w)" "mb_SINFOID m = sid"
    "entitled bad w cur m cr" "\<forall>m' \<in> set (w_members w). mb_SINFOID m' = sid \<and> has_role w cur m' \<longrightarrow> m' = m"
    unfolding credentials_given_def by blast
  have cur: "e = cur" if "is_current (w_events w) e" for e
    by (rule is_current_unique [OF ids_okD(3) [OF assms(2)] that m(1)])
  have some: "w_events w \<noteq> []" "sid \<in> mb_SINFOID ` set (w_members w)" "has_role w cur m"
    using m(1-3) entitled_has_role [OF m(4)] by (auto simp: is_current_def)
  have only: "m1 = m2" if "m1 \<in> set (w_members w)" "m2 \<in> set (w_members w)" "mb_SINFOID m1 = sid" "mb_SINFOID m2 = sid"
    "has_role w cur m1" "has_role w cur m2" for m1 m2
    using that m(5) by metis
  show ?thesis
  proof
    assume "credentials_refused bad w sid x"
    then consider "bad x" | "w_events w = []" | "sid \<notin> mb_SINFOID ` set (w_members w)"
      | e where "is_current (w_events w) e" "\<forall>m \<in> set (w_members w). mb_SINFOID m = sid \<longrightarrow> \<not> has_role w e m"
      | e m1 m2 where "is_current (w_events w) e" "m1 \<in> set (w_members w)" "m2 \<in> set (w_members w)" "m1 \<noteq> m2"
          "mb_SINFOID m1 = sid" "mb_SINFOID m2 = sid" "has_role w e m1" "has_role w e m2"
      using assms(1) unfolding credentials_refused_def by blast
    then show False
      by cases (use assms(1) some m(2,3) cur only in blast)+
  qed
qed

lemma wp_token_for:
  assumes "mongo_spec bad E" and "ids_ok w" and "jwt_library E"
  shows "wp (token_for E (Inr mail))
     (\<lambda>r v. contents v = contents w \<and> (case r of
        Some s \<Rightarrow> \<exists>sid cr. mail = sid @ ''@sinfo.org'' \<and> credentials_given bad w sid cr \<and>
          env_signClaims E cr ((env_now E (w_tick v) + jwtLifeTime) div 1000) = Inr s
      | None \<Rightarrow> True))
     (\<lambda>_ _. False) w"
proof -
  let ?parts = "split_at_sign [] mail"
  show ?thesis
  proof (cases "length ?parts = 2 \<and> ?parts ! 1 = ''sinfo.org''")
    case False
    then show ?thesis by (auto simp: token_for_def Let_def)
  next
    case True
    then obtain sid where parts: "?parts = [sid, ''sinfo.org'']"
      by (cases ?parts rule: remdups_adj.cases) auto
    then have mail: "mail = sid @ ''@sinfo.org''" by (auto dest: split_at_sign_two)
    have "wp (Members_GetMemberAuthCredentials E sid)
        (\<lambda>cr v. contents v = contents w \<and> credentials_given bad w sid cr)
        (\<lambda>e v. contents v = contents w \<and> \<not> aborts e) w"
      by (rule wp_mono [OF wp_AuthCredentials [OF assms(1,2)]])
        (auto simp: credentials_refused_def mongo_spec_aborts [OF assms(1)])
    moreover have "token_for E (Inr mail) =
        onErr (Members_GetMemberAuthCredentials E sid) (\<lambda>_. retE None) (\<lambda>credentials.
        onErr (SignJWT E credentials) (\<lambda>_. retE None) (\<lambda>token. retE (Some token)))"
      by (simp add: token_for_def parts)
    ultimately show ?thesis
      unfolding SignJWT_def
      by (simp, elim wp_mono)
        (use mail assms(3) in \<open>auto simp: jwt_library_def split: sum.split\<close>)
  qed
qed

lemma split_at_sign_mail:
  "CHR ''@'' \<notin> set sid \<Longrightarrow> split_at_sign acc (sid @ ''@sinfo.org'') = [acc @ sid, ''sinfo.org'']"
  by (induction sid arbitrary: acc) auto

text \<open>When the database answers, whoever has a role is given a token, unless the library cannot sign one.\<close>

lemma wp_token_refused:
  assumes "mongo_spec bad E" and "\<And>e. \<not> bad e" and "ids_ok w" and "jwt_library E"
    and "CHR ''@'' \<notin> set sid" and "credentials_given bad w sid cr"
  shows "wp (token_for E (Inr (sid @ ''@sinfo.org'')))
     (\<lambda>r v. r = None \<longrightarrow> (\<exists>cr x e. credentials_given bad w sid cr \<and> env_signClaims E cr x = Inl e)) (\<lambda>_ _. False) w"
proof -
  have "token_for E (Inr (sid @ ''@sinfo.org'')) =
      onErr (Members_GetMemberAuthCredentials E sid) (\<lambda>_. retE None) (\<lambda>credentials.
      onErr (SignJWT E credentials) (\<lambda>_. retE None) (\<lambda>token. retE (Some token)))"
    by (simp add: token_for_def split_at_sign_mail [OF assms(5), of "[]", simplified])
  moreover have "wp (Members_GetMemberAuthCredentials E sid) (\<lambda>cr v. credentials_given bad w sid cr) (\<lambda>_ _. False) w"
    by (rule wp_mono [OF wp_AuthCredentials [OF assms(1,3)]])
      (use given_not_refused [OF _ assms(3,6)] assms(2) in auto)
  ultimately show ?thesis
    unfolding SignJWT_def
    by (simp, elim wp_mono) (use assms(4) in \<open>auto simp: jwt_library_def split: sum.split\<close>)
qed

text \<open>A token can be read back: it is signed for one set of claims and one time.\<close>

definition tokens_read_back :: "env \<Rightarrow> bool" where
  "tokens_read_back E \<longleftrightarrow> (\<forall>cr cr' x x' s. env_signClaims E cr x = Inr s \<and> env_signClaims E cr' x' = Inr s \<longrightarrow>
     cr = cr' \<and> x = x')"

text \<open>The claims \<open>cr\<close> still hold: logging in again would give the same member the same role.\<close>

definition still_holds :: "(err \<Rightarrow> bool) \<Rightarrow> world \<Rightarrow> authorizationCredentials \<Rightarrow> bool" where
  "still_holds bad u cr \<longleftrightarrow>
     (\<exists>cr'. credentials_given bad u (ac_SINFOID cr) cr' \<and> ac_ID cr' = ac_ID cr \<and> ac_Role cr' = ac_Role cr)"

lemma given_member: "credentials_given bad u sid cr \<Longrightarrow> ac_SINFOID cr = sid \<and> ac_ID cr \<in> mb_ID ` set (w_members u)"
  unfolding credentials_given_def entitled_def by (metis imageI)

lemma wp_verifyToken:
  assumes "mongo_spec bad E" and "\<And>e. \<not> bad e" and "ids_ok u" and "jwt_library E" and "tokens_read_back E"
    and "env_signClaims E cr x = Inr s"
  shows "wp (verifyToken E (request_with s))
     (\<lambda>r v. contents v = contents u \<and> r = (if env_now E (w_tick u) div 1000 \<le> x \<and> still_holds bad u cr
        then Reply ''OK'' else Failure StatusUnauthorized ''NOK'')) (\<lambda>_ _. False) u"
  unfolding verifyToken_def Let_def wp_bindE wp_onErr
proof (simp split del: if_split, rule wp_ParseJWT [OF assms(1,4)], goal_cases)
  case (1 cr' v)
  then have "\<exists>x'. env_signClaims E cr' x' = Inr s \<and> env_now E (w_tick u) div 1000 \<le> x'"
    using assms(4) unfolding jwt_library_def by (simp add: request_with_def)
  with assms(5,6) have same: "cr' = cr" "env_now E (w_tick u) div 1000 \<le> x"
    unfolding tokens_read_back_def by blast+
  have ids: "ids_ok v" using assms(3) ids_ok_simps(2) 1(1) by metis
  show ?case
  proof (rule wp_mono [OF wp_AuthCredentials [OF assms(1) ids, of "ac_SINFOID cr'"]], goal_cases)
    case (1 cr2 v2)
    then have cr2: "credentials_given bad u (ac_SINFOID cr) cr2" "contents v2 = contents u"
      using credentials_contents(1) [OF \<open>contents v = contents u\<close>] \<open>contents v = contents u\<close> same(1) by simp_all
    then have "still_holds bad u cr \<longleftrightarrow> ac_ID cr2 = ac_ID cr \<and> ac_Role cr2 = ac_Role cr"
      using credentials_given_same [OF _ assms(3) cr2(1)] assms(2) unfolding still_holds_def by metis
    with cr2(2) same show ?case by auto
  next
    case (2 e v2)
    then have "credentials_refused bad u (ac_SINFOID cr) e" "contents v2 = contents u" "\<not> aborts e"
      using credentials_contents(2) [OF \<open>contents v = contents u\<close>] \<open>contents v = contents u\<close> same(1)
      by (auto simp: credentials_refused_def mongo_spec_aborts [OF assms(1)])
    moreover from this(1) have "\<not> still_holds bad u cr"
      using given_not_refused [OF _ assms(3)] assms(2) unfolding still_holds_def by blast
    ultimately show ?case by simp
  qed
next
  case (2 e v)
  have "\<not> (env_now E (w_tick u) div 1000 \<le> x \<and> still_holds bad u cr)"
  proof
    assume in_time: "env_now E (w_tick u) div 1000 \<le> x \<and> still_holds bad u cr"
    then have "env_parseClaims E (w_tick u) s = Inr (cr, True)"
      using assms(4,6) unfolding jwt_library_def by blast
    moreover have "ac_ID cr \<in> mb_ID ` set (w_members u)"
      using in_time given_member unfolding still_holds_def by metis
    ultimately show False using 2(3) assms(2) by (simp add: request_with_def)
  qed
  with 2 show ?case by simp
qed

text \<open>
  C25: logging in and verifying the token, when the database answers. Only a mail of the domain \<^verbatim>\<open>sinfo.org\<close> of
  somebody who has a role in the current event gets a token, and they do get one, unless the library
  cannot sign it. From then on, in whatever state the service is by then, \<open>verifyToken\<close> accepts the token
  exactly as long as two weeks have not passed (to the second) and a new login would give the same member the same
  role. Neither changes anything.
\<close>

theorem login_verifies:
  assumes "mongo_spec bad E" and "\<And>e. \<not> bad e" and "ids_ok w" and "jwt_library E" and "tokens_read_back E"
  shows "wp (token_for E (Inr mail))
     (\<lambda>r v. contents v = contents w \<and> (case r of
        None \<Rightarrow> (\<forall>sid cr. mail = sid @ ''@sinfo.org'' \<and> CHR ''@'' \<notin> set sid \<and> credentials_given bad w sid cr \<longrightarrow>
          (\<exists>cr x e. credentials_given bad w sid cr \<and> env_signClaims E cr x = Inl e))
      | Some s \<Rightarrow> \<exists>sid cr. mail = sid @ ''@sinfo.org'' \<and> credentials_given bad w sid cr \<and>
          (\<forall>u. ids_ok u \<longrightarrow> wp (verifyToken E (request_with s))
             (\<lambda>answer u'. contents u' = contents u \<and> answer =
                (if env_now E (w_tick u) div 1000 \<le> (env_now E (w_tick v) + 14 * 24 * 60 * 60 * 1000) div 1000 \<and>
                    still_holds bad u cr
                 then Reply ''OK'' else Failure StatusUnauthorized ''NOK'')) (\<lambda>_ _. False) u)))
     (\<lambda>_ _. False) w"
proof -
  have None: "wp (token_for E (Inr mail)) (\<lambda>r v. r = None \<longrightarrow>
      (\<forall>sid cr. mail = sid @ ''@sinfo.org'' \<and> CHR ''@'' \<notin> set sid \<and> credentials_given bad w sid cr \<longrightarrow>
        (\<exists>cr x e. credentials_given bad w sid cr \<and> env_signClaims E cr x = Inl e))) (\<lambda>_ _. False) w"
  proof (cases "\<exists>sid cr. mail = sid @ ''@sinfo.org'' \<and> CHR ''@'' \<notin> set sid \<and> credentials_given bad w sid cr")
    case True
    then obtain sid cr where sid: "mail = sid @ ''@sinfo.org''" "CHR ''@'' \<notin> set sid" "credentials_given bad w sid cr" by blast
    show ?thesis
      unfolding sid(1) by (rule wp_mono [OF wp_token_refused [OF assms(1-4) sid(2,3)]]) auto
  next
    case False
    with wp_token_for [OF assms(1,3,4), of mail] show ?thesis by (elim wp_mono) auto
  qed
  have life: "jwtLifeTime = 14 * 24 * 60 * 60 * 1000" by (simp add: jwtLifeTime_def)
  from wp_conj [OF wp_token_for [OF assms(1,3,4), of mail] None] show ?thesis
  proof (rule wp_mono, goal_cases)
    case (1 r v)
    show ?case
    proof (cases r)
      case (Some s)
      with 1 obtain sid cr where cr: "mail = sid @ ''@sinfo.org''" "credentials_given bad w sid cr"
          "env_signClaims E cr ((env_now E (w_tick v) + jwtLifeTime) div 1000) = Inr s" by auto
      note wp_verifyToken [OF assms(1,2) _ assms(4,5) cr(3) [unfolded life]]
      with cr(1,2) 1 show ?thesis unfolding Some option.case by blast
    qed (use 1 in simp)
  qed simp
qed

text \<open>
  An environment whose tokens can be read back: a sign and a row of digits, as many as the time has seconds, for the sample
  credentials; no other are signed.
\<close>

definition signed_until :: "time \<Rightarrow> string" where
  "signed_until x = (if 0 \<le> x then CHR ''+'' else CHR ''-'') # replicate (nat \<bar>x\<bar>) CHR ''1''"

definition until_of :: "string \<Rightarrow> time" where
  "until_of s = (if take 1 s = ''+'' then int (length s) - 1 else 1 - int (length s))"

lemma until_of [simp]: "until_of (signed_until x) = x"
  by (simp add: until_of_def signed_until_def)

definition signing_env :: env where
  "signing_env = local_env\<lparr>
     env_signClaims := (\<lambda>cr x. if cr = sample_credentials then Inr (signed_until x) else Inl (Err ''unable to sign'')),
     env_parseClaims := (\<lambda>t s. if signed_until (until_of s) = s \<and> int t div 1000 \<le> until_of s
       then Inr (sample_credentials, True) else Inl (Err ''invalid token''))\<rparr>"

lemma signing_env: "mongo_spec never signing_env" "jwt_library signing_env" "tokens_read_back signing_env"
proof -
  show "mongo_spec never signing_env"
    using local_env_up by (simp add: mongo_spec_def signing_env_def)
  have "(signed_until (until_of s) = s \<and> int t div 1000 \<le> until_of s) \<longleftrightarrow> (\<exists>x. signed_until x = s \<and> int t div 1000 \<le> x)" for s t
    by (metis until_of)
  then show "jwt_library signing_env"
    by (auto simp: jwt_library_def signing_env_def local_env_def split: if_splits)
  show "tokens_read_back signing_env"
    unfolding tokens_read_back_def signing_env_def by (auto split: if_splits dest: arg_cong [of _ _ until_of])
qed

lemma ann_credentials: "credentials_given never staff_world ''ann'' cr \<longleftrightarrow> cr = sample_credentials"
proof
  assume "credentials_given never staff_world ''ann'' cr"
  then obtain m where m: "m \<in> set (w_members staff_world)" "mb_SINFOID m = ''ann''"
      "entitled never staff_world ((new_event 1 ''e'')\<lparr>ev_Teams := [10, 11]\<rparr>) m cr"
    unfolding credentials_given_def by (auto simp: staff_world_current)
  from m(1,2) have "mb_ID m = 7" by (auto simp: staff_world_def member_of_def)
  with m(2,3) show "cr = sample_credentials"
    by (cases cr) (auto simp: entitled_def staff_roles sample_credentials_def)
next
  assume cr: "cr = sample_credentials"
  let ?e = "(new_event 1 ''e'')\<lparr>ev_Teams := [10, 11]\<rparr>"
  define m where "m = member_of \<lparr>cmbd_Name = ''Ann'', cmbd_Istid = ''ist1'', cmbd_SINFOID = ''ann''\<rparr> 1 7"
  have m: "m \<in> set (w_members staff_world)" "mb_SINFOID m = ''ann''" "mb_ID m = 7"
      "\<forall>m' \<in> set (w_members staff_world). mb_SINFOID m' = ''ann'' \<longrightarrow> m' = m"
    by (simp_all add: staff_world_def member_of_def m_def)
  have "entitled never staff_world ?e m sample_credentials"
    unfolding entitled_def m(2,3) staff_roles by (simp add: sample_credentials_def)
  then show "credentials_given never staff_world ''ann'' cr"
    unfolding credentials_given_def cr staff_world_current
    by (intro exI [of _ ?e] conjI bexI [OF _ m(1)] impI refl m(2)) (use m(4) in blast)+
qed

text \<open>Ann logs in, and uses the token at once and two weeks and a second later.\<close>

theorem login_verifies_witness:
  "wp (token_for signing_env (Inr ''ann@sinfo.org''))
     (\<lambda>r v. case r of None \<Rightarrow> False | Some s \<Rightarrow>
        wp (verifyToken signing_env (request_with s)) (\<lambda>answer _. answer = Reply ''OK'') (\<lambda>_ _. False) v \<and>
        wp (verifyToken signing_env (request_with s)) (\<lambda>answer _. answer = Failure 401 ''NOK'') (\<lambda>_ _. False)
          (v\<lparr>w_tick := w_tick v + 1209601000\<rparr>)) (\<lambda>_ _. False) staff_world"
proof (rule wp_mono [OF login_verifies [OF signing_env(1) never_simp staff_world_ids signing_env(2,3)]], goal_cases)
  case (1 r v)
  show ?case
  proof (cases r)
    case None
    with 1 have "\<forall>sid cr. ''ann@sinfo.org'' = sid @ ''@sinfo.org'' \<and> CHR ''@'' \<notin> set sid \<and>
        credentials_given never staff_world sid cr \<longrightarrow>
        (\<exists>cr x e. credentials_given never staff_world sid cr \<and> env_signClaims signing_env cr x = Inl e)" by simp
    then have "\<exists>cr x e. credentials_given never staff_world ''ann'' cr \<and> env_signClaims signing_env cr x = Inl e"
      by (rule allE [of _ "''ann''"], elim allE [of _ sample_credentials] mp) (simp add: ann_credentials)
    then show ?thesis by (auto simp: ann_credentials signing_env_def)
  next
    case (Some s)
    with 1 obtain sid cr where cr: "''ann@sinfo.org'' = sid @ ''@sinfo.org''" "credentials_given never staff_world sid cr"
      and verified: "\<And>u. ids_ok u \<Longrightarrow> wp (verifyToken signing_env (request_with s))
         (\<lambda>answer u'. contents u' = contents u \<and> answer =
            (if env_now signing_env (w_tick u) div 1000 \<le> (env_now signing_env (w_tick v) + 14 * 24 * 60 * 60 * 1000) div 1000 \<and>
                still_holds never u cr
             then Reply ''OK'' else Failure StatusUnauthorized ''NOK'')) (\<lambda>_ _. False) u" by auto
    let ?u = "v\<lparr>w_tick := w_tick v + 1209601000\<rparr>"
    have same: "contents v = contents staff_world" "contents ?u = contents staff_world"
      using 1 by (simp_all add: contents_def)
    have ids: "ids_ok v" "ids_ok ?u" using staff_world_ids ids_ok_simps(2) same by metis+
    have holds: "still_holds never v cr"
      using cr(2) given_member [OF cr(2)] credentials_contents(1) [OF same(1)] unfolding still_holds_def by metis
    have now: "env_now signing_env t = int t" for t by (simp add: signing_env_def local_env_def)
    have "int (w_tick v) div 1000 \<le> (int (w_tick v) + 14 * 24 * 60 * 60 * 1000) div 1000"
      by (intro zdiv_mono1) simp_all
    then have early: "(env_now signing_env (w_tick v) div 1000 \<le> (env_now signing_env (w_tick v) + 14 * 24 * 60 * 60 * 1000) div 1000 \<and>
        still_holds never v cr) = True" using holds by (simp only: now simp_thms)
    have "(int (w_tick v) + 1209600000 + 1000) div 1000 = (int (w_tick v) + 1209600000) div 1000 + 1"
      by (rule div_add_self2) simp
    then have "\<not> (int (w_tick v) + 1209601000) div 1000 \<le> (int (w_tick v) + 1209600000) div 1000" by simp
    then have late: "(env_now signing_env (w_tick ?u) div 1000 \<le> (env_now signing_env (w_tick v) + 14 * 24 * 60 * 60 * 1000) div 1000 \<and>
        still_holds never ?u cr) = False" by (simp add: now)
    show ?thesis
      unfolding Some option.case
      by (intro conjI wp_mono [OF verified [OF ids(1), unfolded early if_True]]
          wp_mono [OF verified [OF ids(2), unfolded late if_False]]) simp_all
  qed
qed simp

end
