(* ===== verification/Routes.thy ===== *)
theory Routes
  imports Roles
begin

text \<open>
  The table of routes of \<^verbatim>\<open>backend/src/router/init.go\<close>: for each subrouter, in the order of registration, the
  method, the path below its prefix, the role the wrapper asks for, and the name of the handler.
  The matching itself is done by the router library; what is shown here only uses that it tries the
  routes in this order and that a variable stands for one segment of the path (a \<open>Number\<close> for one of digits).
\<close>

section \<open>Routes\<close>

datatype httpMethod = GET | POST | PUT | DELETE

datatype segment = Lit string | Var string | Number string

datatype access = Open | Requires teamRole

type_synonym route = "httpMethod \<times> segment list \<times> access \<times> string"

definition publicRouter :: "route list" where
  "publicRouter =
    [(GET, [Lit ''companies''], Open, ''getCompaniesPublic''),
     (GET, [Lit ''speakers''], Open, ''getSpeakersPublic''),
     (GET, [Lit ''events''], Open, ''getEventsPublic''),
     (GET, [Lit ''members''], Open, ''getMembersPublic''),
     (GET, [Lit ''sessions''], Open, ''getPublicSessions''),
     (GET, [Lit ''companies'', Var ''id''], Open, ''getCompanyPublic''),
     (GET, [Lit ''sessions'', Var ''id''], Open, ''getSessionPublic''),
     (GET, [Lit ''speakers'', Var ''id''], Open, ''getSpeakerPublic''),
     (GET, [Lit ''events'', Lit ''latest''], Open, ''getLatestEvent''),
     (GET, [Lit ''calendar.ics''], Open, ''getEventCalendar'')]"

definition authRouter :: "route list" where
  "authRouter =
    [(GET, [Lit ''login''], Open, ''oauthGoogleLogin''),
     (GET, [Lit ''callback''], Open, ''oauthGoogleCallback''),
     (GET, [Lit ''verify'', Var ''token''], Open, ''verifyToken''),
     (POST, [Lit ''checkin''], Open, ''generateJwt''),
     (POST, [Lit ''checkin'', Lit ''jwt''], Open, ''generateJwtAuthCode'')]"

definition companyRouter :: "route list" where
  "companyRouter =
    [(GET, [], Requires RoleMember, ''getCompanies''),
     (POST, [], Requires RoleMember, ''createCompany''),
     (GET, [Var ''id''], Requires RoleMember, ''getCompany''),
     (PUT, [Var ''id''], Requires RoleMember, ''updateCompany''),
     (DELETE, [Var ''id''], Requires RoleCoordinator, ''deleteCompany''),
     (POST, [Lit ''byMembers''], Requires RoleMember, ''getCompaniesByMembers''),
     (POST, [Lit ''announce''], Requires RoleCoordinator, ''announceAcceptedCompanies''),
     (PUT, [Var ''id'', Lit ''subscribe''], Requires RoleMember, ''subscribeToCompany''),
     (PUT, [Var ''id'', Lit ''unsubscribe''], Requires RoleMember, ''unsubscribeToCompany''),
     (POST, [Var ''id'', Lit ''image'', Lit ''internal''], Requires RoleMember, ''setCompanyPrivateImage''),
     (POST, [Var ''id'', Lit ''image'', Lit ''public''], Requires RoleCoordinator, ''setCompanyPublicImage''),
     (POST, [Var ''id'', Lit ''participation''], Requires RoleMember, ''addCompanyParticipation''),
     (PUT, [Var ''id'', Lit ''participation''], Requires RoleMember, ''updateCompanyParticipation''),
     (DELETE, [Var ''id'', Lit ''participation''], Requires RoleCoordinator, ''deleteCompanyParticipation''),
     (DELETE, [Var ''id'', Lit ''participation'', Lit ''thread'', Var ''threadID''], Requires RoleMember, ''deleteCompanyThread''),
     (GET, [Var ''id'', Lit ''participation'', Lit ''status'', Lit ''next''], Requires RoleMember, ''getCompanyValidSteps''),
     (PUT, [Var ''id'', Lit ''participation'', Lit ''status'', Var ''status''], Requires RoleMember, ''setCompanyStatus''),
     (POST, [Var ''id'', Lit ''participation'', Lit ''status'', Var ''step''], Requires RoleMember, ''stepCompanyStatus''),
     (POST, [Var ''id'', Lit ''participation'', Lit ''package''], Requires RoleCoordinator, ''addCompanyPackage''),
     (PUT, [Var ''id'', Lit ''participation'', Lit ''package'', Var ''packageID''], Requires RoleCoordinator, ''setCompanyPackage''),
     (POST, [Var ''id'', Lit ''participation'', Lit ''billing''], Requires RoleCoordinator, ''addCompanyParticipationBilling''),
     (DELETE, [Var ''id'', Lit ''participation'', Lit ''billing'', Var ''billingID''], Requires RoleCoordinator, ''deleteCompanyParticipationBilling''),
     (GET, [Var ''id'', Lit ''threads''], Requires RoleMember, ''getCompanyThreads''),
     (POST, [Var ''id'', Lit ''thread''], Requires RoleMember, ''addCompanyThread''),
     (PUT, [Var ''id'', Lit ''participation'', Lit ''gmail-threads''], Requires RoleMember, ''updateCompanyGmailThreadIds''),
     (POST, [Var ''id'', Lit ''participation'', Lit ''gmail-sync''], Requires RoleMember, ''syncCompanyGmailMessages''),
     (GET, [Var ''id'', Lit ''employers''], Requires RoleMember, ''getCompanyEmployers''),
     (PUT, [Var ''id'', Lit ''employers''], Requires RoleMember, ''updateEmployersOrder''),
     (POST, [Var ''id'', Lit ''employer''], Requires RoleMember, ''addEmployer''),
     (DELETE, [Var ''id'', Lit ''employer'', Var ''rep''], Requires RoleMember, ''removeEmployer''),
     (POST, [Var ''id'', Lit ''contract'', Lit ''docx''], Requires RoleCoordinator, ''generateCompanyContractDocx'')]"

definition speakerRouter :: "route list" where
  "speakerRouter =
    [(GET, [], Requires RoleMember, ''getSpeakers''),
     (POST, [], Requires RoleMember, ''createSpeaker''),
     (GET, [Var ''id''], Requires RoleMember, ''getSpeaker''),
     (POST, [Lit ''byMembers''], Requires RoleMember, ''getSpeakersByMembers''),
     (DELETE, [Var ''id''], Requires RoleCoordinator, ''deleteSpeaker''),
     (PUT, [Var ''id''], Requires RoleMember, ''updateSpeaker''),
     (PUT, [Var ''id'', Lit ''subscribe''], Requires RoleMember, ''subscribeToSpeaker''),
     (PUT, [Var ''id'', Lit ''unsubscribe''], Requires RoleMember, ''unsubscribeToSpeaker''),
     (POST, [Var ''id'', Lit ''participation''], Requires RoleMember, ''addSpeakerParticipation''),
     (PUT, [Var ''id'', Lit ''participation''], Requires RoleMember, ''updateSpeakerParticipation''),
     (DELETE, [Var ''id'', Lit ''participation'', Lit ''thread'', Var ''threadID''], Requires RoleMember, ''deleteSpeakerThread''),
     (GET, [Var ''id'', Lit ''participation'', Lit ''status'', Lit ''next''], Requires RoleMember, ''getSpeakerValidSteps''),
     (POST, [Var ''id'', Lit ''participation'', Lit ''status'', Var ''step''], Requires RoleMember, ''stepSpeakerStatus''),
     (PUT, [Var ''id'', Lit ''participation'', Lit ''status'', Var ''status''], Requires RoleMember, ''setSpeakerStatus''),
     (POST, [Var ''id'', Lit ''participation'', Lit ''flightInfo''], Requires RoleMember, ''addSpeakerFlightInfo''),
     (DELETE, [Var ''id'', Lit ''participation'', Lit ''flightInfo'', Var ''flightInfoID''], Requires RoleCoordinator, ''deleteSpeakerFlightInfo''),
     (POST, [Var ''id'', Lit ''image'', Lit ''internal''], Requires RoleMember, ''setSpeakerPrivateImage''),
     (POST, [Var ''id'', Lit ''image'', Lit ''public'', Lit ''speaker''], Requires RoleCoordinator, ''setSpeakerPublicImage''),
     (POST, [Var ''id'', Lit ''image'', Lit ''public'', Lit ''company''], Requires RoleCoordinator, ''setSpeakerCompanyImage''),
     (GET, [Var ''id'', Lit ''threads''], Requires RoleMember, ''getSpeakerThreads''),
     (POST, [Var ''id'', Lit ''thread''], Requires RoleMember, ''addSpeakerThread''),
     (PUT, [Var ''id'', Lit ''participation'', Lit ''gmail-threads''], Requires RoleMember, ''updateSpeakerGmailThreadIds''),
     (POST, [Var ''id'', Lit ''participation'', Lit ''gmail-sync''], Requires RoleMember, ''syncSpeakerGmailMessages''),
     (DELETE, [Var ''id'', Lit ''participation''], Requires RoleCoordinator, ''removeSpeakerParticipation'')]"

definition flightInfoRouter :: "route list" where
  "flightInfoRouter =
    [(GET, [Var ''id''], Requires RoleMember, ''getFlightInfo''),
     (PUT, [Var ''id''], Requires RoleMember, ''updateFlightInfo'')]"

definition eventRouter :: "route list" where
  "eventRouter =
    [(GET, [], Requires RoleMember, ''getEvents''),
     (POST, [], Requires RoleAdmin, ''createEvent''),
     (PUT, [], Requires RoleCoordinator, ''updateEvent''),
     (GET, [Number ''id''], Requires RoleMember, ''getEvent''),
     (DELETE, [Number ''id''], Requires RoleAdmin, ''deleteEvent''),
     (GET, [Number ''id'', Lit ''gmail-threads''], Requires RoleMember, ''getLinkedGmailThreads''),
     (PUT, [Lit ''themes''], Requires RoleCoordinator, ''updateEventThemes''),
     (POST, [Lit ''packages''], Requires RoleCoordinator, ''addPackageToEvent''),
     (DELETE, [Lit ''packages'', Var ''id''], Requires RoleCoordinator, ''removePackageFromEvent''),
     (PUT, [Lit ''packages'', Var ''id''], Requires RoleCoordinator, ''updatePackageFromEvent''),
     (POST, [Lit ''items''], Requires RoleCoordinator, ''addItemToEvent''),
     (DELETE, [Lit ''items'', Var ''id''], Requires RoleCoordinator, ''removeItemToEvent''),
     (POST, [Lit ''meetings''], Requires RoleTeamLeader, ''addMeetingToEvent''),
     (DELETE, [Lit ''meetings'', Var ''id''], Requires RoleTeamLeader, ''removeMeetingFromEvent''),
     (POST, [Lit ''sessions''], Requires RoleCoordinator, ''addSessionToEvent''),
     (DELETE, [Lit ''teams'', Var ''id''], Requires RoleAdmin, ''removeTeamFromEvent''),
     (GET, [Lit ''updateCalendar''], Requires RoleCoordinator, ''updateCalendar'')]"

definition teamRouter :: "route list" where
  "teamRouter =
    [(GET, [], Requires RoleMember, ''getTeams''),
     (POST, [], Requires RoleCoordinator, ''createTeam''),
     (GET, [Var ''id''], Requires RoleMember, ''getTeam''),
     (DELETE, [Var ''id''], Requires RoleAdmin, ''deleteTeam''),
     (PUT, [Var ''id''], Requires RoleCoordinator, ''updateTeam''),
     (POST, [Var ''id'', Lit ''members''], Requires RoleCoordinator, ''addTeamMember''),
     (PUT, [Var ''id'', Lit ''members'', Var ''memberID''], Requires RoleCoordinator, ''updateTeamMemberRole''),
     (DELETE, [Var ''id'', Lit ''members'', Var ''memberID''], Requires RoleCoordinator, ''deleteTeamMember''),
     (POST, [Var ''id'', Lit ''meetings''], Requires RoleMember, ''addTeamMeeting''),
     (DELETE, [Var ''id'', Lit ''meetings'', Var ''meetingID''], Requires RoleTeamLeader, ''deleteTeamMeeting'')]"

definition coordRouter :: "route list" where
  "coordRouter =
    [(GET, [], Requires RoleMember, ''getCoordinationTeams''),
     (GET, [Lit ''me''], Requires RoleCoordinator, ''getMyCoordinationTeams''),
     (POST, [], Requires RoleCoordinator, ''createCoordinationTeam''),
     (GET, [Var ''id''], Requires RoleMember, ''getCoordinationTeam''),
     (PUT, [Var ''id''], Requires RoleCoordinator, ''updateCoordinationTeam''),
     (DELETE, [Var ''id''], Requires RoleCoordinator, ''deleteCoordinationTeam''),
     (POST, [Var ''id'', Lit ''coordinatedMembers''], Requires RoleCoordinator, ''addCoordinatedTeam''),
     (DELETE, [Var ''id'', Lit ''coordinatedMembers'', Var ''memberID''], Requires RoleCoordinator, ''removeCoordinatedTeam''),
     (POST, [Var ''id'', Lit ''coordinator''], Requires RoleCoordinator, ''setCoordinator''),
     (DELETE, [Var ''id'', Lit ''coordinator'', Var ''memberID''], Requires RoleCoordinator, ''removeCoordinator'')]"

definition meRouter :: "route list" where
  "meRouter =
    [(GET, [], Requires RoleMember, ''getMe''),
     (PUT, [], Requires RoleMember, ''updateMe''),
     (GET, [Lit ''responsibilities''], Requires RoleMember, ''getResponsibilities''),
     (POST, [Lit ''image''], Requires RoleMember, ''setMyImage''),
     (GET, [Lit ''notifications''], Requires RoleMember, ''getMyNotifications''),
     (DELETE, [Lit ''notifications'', Var ''id''], Requires RoleMember, ''deleteMyNotification''),
     (DELETE, [Lit ''notifications''], Requires RoleMember, ''deleteAllMyNotifications'')]"

definition memberRouter :: "route list" where
  "memberRouter =
    [(GET, [], Requires RoleMember, ''getMembers''),
     (POST, [], Requires RoleCoordinator, ''createMember''),
     (GET, [Var ''id''], Requires RoleMember, ''getMember''),
     (GET, [Var ''id'', Lit ''role''], Requires RoleMember, ''getMemberRole''),
     (GET, [Var ''id'', Lit ''participations''], Requires RoleMember, ''getMembersParticipations''),
     (PUT, [Var ''id''], Requires RoleTeamLeader, ''updateMember''),
     (DELETE, [Var ''id''], Requires RoleAdmin, ''deleteMember''),
     (POST, [Var ''id'', Lit ''image''], Requires RoleTeamLeader, ''setMemberImage'')]"

definition itemRouter :: "route list" where
  "itemRouter =
    [(GET, [Lit ''categories''], Requires RoleMember, ''getItemCategories''),
     (POST, [Lit ''categories''], Requires RoleCoordinator, ''createItemCategory''),
     (PUT, [Lit ''categories'', Var ''id''], Requires RoleCoordinator, ''updateItemCategory''),
     (DELETE, [Lit ''categories'', Var ''id''], Requires RoleCoordinator, ''deleteItemCategory''),
     (GET, [], Requires RoleMember, ''getItems''),
     (POST, [], Requires RoleCoordinator, ''createItem''),
     (GET, [Var ''id''], Requires RoleMember, ''getItem''),
     (PUT, [Var ''id''], Requires RoleCoordinator, ''updateItem''),
     (DELETE, [Var ''id''], Requires RoleCoordinator, ''deleteItem''),
     (POST, [Var ''id'', Lit ''image''], Requires RoleCoordinator, ''uploadItemImage'')]"

definition packageRouter :: "route list" where
  "packageRouter =
    [(POST, [], Requires RoleCoordinator, ''createPackage''),
     (GET, [], Requires RoleMember, ''getPackages''),
     (GET, [Var ''id''], Requires RoleMember, ''getPackage''),
     (PUT, [Var ''id''], Requires RoleCoordinator, ''updatePackage''),
     (PUT, [Var ''id'', Lit ''items''], Requires RoleCoordinator, ''updatePackageItems''),
     (DELETE, [Var ''id'', Lit ''item'', Var ''itemID''], Requires RoleCoordinator, ''deleteItemPackage''),
     (DELETE, [Var ''id''], Requires RoleCoordinator, ''deletePackage'')]"

definition contactRouter :: "route list" where
  "contactRouter =
    [(GET, [], Requires RoleMember, ''getContacts''),
     (GET, [Var ''id''], Requires RoleMember, ''getContact''),
     (PUT, [Var ''id''], Requires RoleMember, ''updateContact'')]"

definition meetingRouter :: "route list" where
  "meetingRouter =
    [(GET, [], Requires RoleMember, ''getMeetings''),
     (POST, [], Requires RoleCoordinator, ''createMeeting''),
     (GET, [Var ''id''], Requires RoleMember, ''getMeeting''),
     (DELETE, [Var ''id''], Requires RoleCoordinator, ''deleteMeeting''),
     (PUT, [Var ''id''], Requires RoleCoordinator, ''updateMeeting''),
     (POST, [Var ''id'', Lit ''thread''], Requires RoleMember, ''addMeetingThread''),
     (DELETE, [Var ''id'', Lit ''thread'', Var ''threadID''], Requires RoleMember, ''deleteMeetingThread''),
     (POST, [Var ''id'', Lit ''minute''], Requires RoleMember, ''uploadMeetingMinute''),
     (DELETE, [Var ''id'', Lit ''minute''], Requires RoleMember, ''deleteMeetingMinute''),
     (POST, [Var ''id'', Lit ''participants''], Requires RoleMember, ''addMeetingParticipant''),
     (DELETE, [Var ''id'', Lit ''participants''], Requires RoleMember, ''deleteMeetingParticipant'')]"

definition threadRouter :: "route list" where
  "threadRouter =
    [(GET, [Var ''id''], Requires RoleMember, ''getThread''),
     (POST, [Var ''id'', Lit ''comments''], Requires RoleMember, ''addCommentToThread''),
     (DELETE, [Var ''threadID'', Lit ''comments'', Var ''postID''], Requires RoleMember, ''removeCommentFromThread''),
     (PUT, [Var ''id''], Requires RoleMember, ''updateThread''),
     (DELETE, [Var ''id''], Requires RoleMember, ''deleteThread'')]"

definition postRouter :: "route list" where
  "postRouter =
    [(GET, [Var ''id''], Requires RoleMember, ''getPost''),
     (PUT, [Var ''id''], Requires RoleMember, ''updatePost'')]"

definition sessionsRouter :: "route list" where
  "sessionsRouter =
    [(GET, [], Requires RoleMember, ''getSessions''),
     (GET, [Var ''id''], Requires RoleMember, ''getSession''),
     (PUT, [Var ''id''], Requires RoleCoordinator, ''updateSession''),
     (DELETE, [Var ''id''], Requires RoleAdmin, ''deleteSession'')]"

definition billingsRouter :: "route list" where
  "billingsRouter =
    [(GET, [], Requires RoleMember, ''getBillings''),
     (GET, [Var ''id''], Requires RoleCoordinator, ''getBilling''),
     (PUT, [Var ''id''], Requires RoleCoordinator, ''updateBilling'')]"

definition repsRouter :: "route list" where
  "repsRouter =
    [(GET, [], Requires RoleMember, ''getCompanyReps''),
     (GET, [Var ''id''], Requires RoleMember, ''getCompanyRep''),
     (PUT, [Var ''id''], Requires RoleMember, ''updateCompanyRep'')]"

definition templatesRouter :: "route list" where
  "templatesRouter =
    [(GET, [], Open, ''getTemplates''),
     (POST, [Lit ''fill'', Var ''id''], Open, ''fillTemplate''),
     (GET, [Lit ''filled'', Var ''uuid''], Open, ''getFilledTemplate''),
     (POST, [Var ''id'', Lit ''upload''], Requires RoleCoordinator, ''uploadTemplateFile''),
     (POST, [Lit ''upload-by-name''], Requires RoleCoordinator, ''uploadTemplateFileByName''),
     (GET, [Var ''id'', Lit ''download''], Requires RoleCoordinator, ''downloadTemplateFile'')]"

text \<open>The subrouters with their prefixes.\<close>

definition subrouters :: "(string \<times> route list) list" where
  "subrouters =
    [(''public'', publicRouter),
     (''auth'', authRouter),
     (''companies'', companyRouter),
     (''speakers'', speakerRouter),
     (''flightInfo'', flightInfoRouter),
     (''events'', eventRouter),
     (''teams'', teamRouter),
     (''coordinationTeams'', coordRouter),
     (''me'', meRouter),
     (''members'', memberRouter),
     (''items'', itemRouter),
     (''packages'', packageRouter),
     (''contacts'', contactRouter),
     (''meetings'', meetingRouter),
     (''threads'', threadRouter),
     (''posts'', postRouter),
     (''sessions'', sessionsRouter),
     (''billings'', billingsRouter),
     (''companyReps'', repsRouter),
     (''templates'', templatesRouter)]"

section \<open>What the table allows\<close>

fun is_open :: "route \<Rightarrow> bool" where
  "is_open (_, _, a, _) = (a = Open)"

fun handler_of :: "route \<Rightarrow> string" where
  "handler_of (_, _, _, h) = h"

fun method_of :: "route \<Rightarrow> httpMethod" where
  "method_of (m, _, _, _) = m"

text \<open>Every path of the second template is one of the first.\<close>

fun covers_segment :: "segment \<Rightarrow> segment \<Rightarrow> bool" where
  "covers_segment (Lit a) s = (s = Lit a)"
| "covers_segment (Var _) s = True"
| "covers_segment (Number _) s = (case s of Number _ \<Rightarrow> True | _ \<Rightarrow> False)"

fun covers :: "segment list \<Rightarrow> segment list \<Rightarrow> bool" where
  "covers [] [] = True"
| "covers (p # ps) (s # ss) = (covers_segment p s \<and> covers ps ss)"
| "covers _ _ = False"

text \<open>A route no request reaches: an earlier one of its subrouter takes them all.\<close>

fun unreachable_after :: "route list \<Rightarrow> route list \<Rightarrow> string list" where
  "unreachable_after before [] = []"
| "unreachable_after before ((m, p, a, h) # rs) =
     (if \<exists>(m', p', _) \<in> set before. m' = m \<and> covers p' p then [h] else []) @
     unreachable_after (before @ [(m, p, a, h)]) rs"

definition routes_of :: "(route \<Rightarrow> bool) \<Rightarrow> (string \<times> route list) list \<Rightarrow> string list" where
  "routes_of P subs = concat (map (\<lambda>(prefix, rs). map handler_of (filter P rs)) subs)"

lemmas subrouter_defs = subrouters_def publicRouter_def authRouter_def companyRouter_def speakerRouter_def
  flightInfoRouter_def eventRouter_def teamRouter_def coordRouter_def meRouter_def memberRouter_def itemRouter_def
  packageRouter_def contactRouter_def meetingRouter_def threadRouter_def postRouter_def sessionsRouter_def
  billingsRouter_def repsRouter_def templatesRouter_def

fun requires :: "teamRole \<Rightarrow> route \<Rightarrow> bool" where
  "requires role (_, _, a, _) = (a = Requires role)"

text \<open>
  The table of routes. No route is unreachable behind an earlier one of its subrouter. Nothing under
  \<^verbatim>\<open>/public\<close> changes anything; outside it and the login, every route asks for a role but three: the templates
  can be listed, filled and read by anybody. What only an administrator may do is creating and deleting events,
  taking teams out of them, and deleting teams, members and sessions; of the deletions, a plain member may do those listed.
\<close>

theorem route_table:
  "concat (map (\<lambda>(prefix, rs). unreachable_after [] rs) subrouters) = [] \<and>
   list_all (\<lambda>r. method_of r = GET) publicRouter \<and>
   routes_of is_open (filter (\<lambda>(prefix, rs). prefix \<notin> {''public'', ''auth''}) subrouters) =
     [''getTemplates'', ''fillTemplate'', ''getFilledTemplate''] \<and>
   routes_of (requires RoleAdmin) subrouters =
     [''createEvent'', ''deleteEvent'', ''removeTeamFromEvent'', ''deleteTeam'', ''deleteMember'', ''deleteSession''] \<and>
   routes_of (\<lambda>r. method_of r = DELETE \<and> requires RoleMember r) subrouters =
     [''deleteCompanyThread'', ''removeEmployer'', ''deleteSpeakerThread'', ''deleteMyNotification'',
      ''deleteAllMyNotifications'', ''deleteMeetingThread'', ''deleteMeetingMinute'', ''deleteMeetingParticipant'',
      ''removeCommentFromThread'', ''deleteThread'']"
  by (intro conjI; code_simp)

end
