(* ===== verification/Templates.thy ===== *)
theory Templates
  imports Lookups Catalogue
begin

text \<open>
  \<^verbatim>\<open>backend/src/mongodb/template.go\<close>: the templates of documents, stored apart from the files they name.
\<close>

record TemplateData =
  tpd_Requirements :: "requirement list option"

definition TemplateData_ParseCreateBody :: "err + TemplateData \<Rightarrow> err + TemplateData" where
  "TemplateData_ParseCreateBody body = (case body of
     Inl e \<Rightarrow> Inl e
   | Inr ctd \<Rightarrow> if tpd_Requirements ctd = None then Inl (Err ''invalid name'') else Inr ctd)"

definition TemplateData_ParseFillBody :: "err + TemplateData \<Rightarrow> err + TemplateData" where
  "TemplateData_ParseFillBody body = (case body of
     Inl e \<Rightarrow> Inl e
   | Inr ctd \<Rightarrow> if tpd_Requirements ctd = None then Inl (Err ''invalid name'') else Inr ctd)"

definition Templates_UpdateTemplateUrl :: "env \<Rightarrow> oid \<Rightarrow> string \<Rightarrow> (world, template) smonad" where
  "Templates_UpdateTemplateUrl E templateID url =
     FindOneAndUpdate (Templates E) (\<lambda>t. te_ID t = templateID) (\<lambda>t. t\<lparr>te_Url := url\<rparr>)"

definition Templates_GetTemplate :: "env \<Rightarrow> oid \<Rightarrow> (world, template) smonad" where
  "Templates_GetTemplate E templateID = FindOne (Templates E) (\<lambda>t. te_ID t = templateID)"

record GetTemplatesOptions =
  gtp_EventID :: "int option"
  gtp_Name :: "string option"

text \<open>
  A template of event 0 is stored without the field (\<^verbatim>\<open>omitempty\<close>), so no query for an event finds it.
\<close>

definition templates_filter :: "env \<Rightarrow> GetTemplatesOptions \<Rightarrow> template \<Rightarrow> bool" where
  "templates_filter E tempOptions t \<longleftrightarrow>
     (case gtp_EventID tempOptions of None \<Rightarrow> True | Some ev \<Rightarrow> te_Event t \<noteq> 0 \<and> te_Event t = ev) \<and>
     (case gtp_Name tempOptions of None \<Rightarrow> True | Some n \<Rightarrow> env_regex_i E (''.*'' @ n @ ''.*'') (te_Name t))"

definition Templates_GetTemplates :: "env \<Rightarrow> GetTemplatesOptions \<Rightarrow> (world, template list) smonad" where
  "Templates_GetTemplates E tempOptions = Find (Templates E) (templates_filter E tempOptions)"

definition Templates_CreateTemplate :: "env \<Rightarrow> template \<Rightarrow> (world, template) smonad" where
  "Templates_CreateTemplate E template =
     bindE (getsE w_tick) (\<lambda>t.
     let template = (if te_ID template = NilObjectID then template\<lparr>te_ID := env_newObjectID E t\<rparr> else template) in
     bindE (InsertDoc (Templates E) template) (\<lambda>_. retE template))"

text \<open>The update document is the caller's.\<close>

definition Templates_UpdateTemplate :: "env \<Rightarrow> oid \<Rightarrow> (template \<Rightarrow> template) \<Rightarrow> (world, template) smonad" where
  "Templates_UpdateTemplate E templateID update =
     FindOneAndUpdate (Templates E) (\<lambda>t. te_ID t = templateID) update"

end
