(* ===== verification/Spaces.thy ===== *)
theory Spaces
  imports Http
begin

text \<open>
  The file storage (\<^verbatim>\<open>spaces/\<close>) and what the handlers that take a file do before they store it. The
  object store is a third-party client: \<open>env_putObject\<close> and \<open>env_removeObject\<close> say whether a command
  fails, and the store's own contents are not part of the state. The form of a request is \<open>Inl\<close> the error
  of \<^verbatim>\<open>ParseMultipartForm\<close>, or the outcome of \<^verbatim>\<open>FormFile\<close>: a size and what reading the file gives.
\<close>

section \<open>Printing a number (\<open>%d\<close>)\<close>

fun nat_string :: "nat \<Rightarrow> string" where
  "nat_string n = (if n < 10 then [char_of (48 + n)] else nat_string (n div 10) @ [char_of (48 + n mod 10)])"

declare nat_string.simps [simp del]

definition int_string :: "int \<Rightarrow> string" where
  "int_string i = (if i < 0 then ''-'' @ nat_string (nat (- i)) else nat_string (nat i))"

section \<open>Objects\<close>

definition basePath :: "env \<Rightarrow> string" where
  "basePath E = (if env_production E then ''deck2'' else ''deck2-dev'')"

definition uploadImage :: "env \<Rightarrow> string \<Rightarrow> string \<Rightarrow> int \<Rightarrow> string \<Rightarrow> (world, string) smonad" where
  "uploadImage E path reader objectSize MIME =
     (let path = basePath E @ ''/'' @ path;
          url = ''https://'' @ env_cdnBaseURL E @ ''/'' @ path in
      bindE (getsE w_tick) (\<lambda>t. case env_putObject E t path reader objectSize MIME of
          Some e \<Rightarrow> throwE e
        | None \<Rightarrow> retE url))"

definition deleteObject :: "env \<Rightarrow> string \<Rightarrow> (world, unit) smonad" where
  "deleteObject E path =
     (let path = basePath E @ ''/'' @ path in
      bindE (getsE w_tick) (\<lambda>t. case env_removeObject E t path of
          Some e \<Rightarrow> throwE e
        | None \<Rightarrow> retE ()))"

definition event_path :: "int \<Rightarrow> string \<Rightarrow> string" where
  "event_path event rest = ''sinfo-'' @ int_string event @ ''/'' @ rest"

definition UploadCompanyPublicImage ::
  "env \<Rightarrow> int \<Rightarrow> oid \<Rightarrow> string \<Rightarrow> int \<Rightarrow> string \<Rightarrow> (world, string) smonad" where
  "UploadCompanyPublicImage E event company =
     uploadImage E (event_path event (''companies/public/'' @ env_hex E company))"

definition UploadCompanyInternalImage ::
  "env \<Rightarrow> int \<Rightarrow> oid \<Rightarrow> string \<Rightarrow> int \<Rightarrow> string \<Rightarrow> (world, string) smonad" where
  "UploadCompanyInternalImage E event company =
     uploadImage E (event_path event (''companies/internal/'' @ env_hex E company))"

definition UploadSpeakerPublicImage ::
  "env \<Rightarrow> int \<Rightarrow> oid \<Rightarrow> string \<Rightarrow> int \<Rightarrow> string \<Rightarrow> (world, string) smonad" where
  "UploadSpeakerPublicImage E event speaker =
     uploadImage E (event_path event (''speakers/public/speaker/'' @ env_hex E speaker))"

definition UploadSpeakerInternalImage ::
  "env \<Rightarrow> int \<Rightarrow> oid \<Rightarrow> string \<Rightarrow> int \<Rightarrow> string \<Rightarrow> (world, string) smonad" where
  "UploadSpeakerInternalImage E event speaker =
     uploadImage E (event_path event (''speakers/internal/'' @ env_hex E speaker))"

definition UploadSpeakerCompanyImage ::
  "env \<Rightarrow> int \<Rightarrow> oid \<Rightarrow> string \<Rightarrow> int \<Rightarrow> string \<Rightarrow> (world, string) smonad" where
  "UploadSpeakerCompanyImage E event speaker =
     uploadImage E (event_path event (''speakers/public/company/'' @ env_hex E speaker))"

definition UploadMemberImage ::
  "env \<Rightarrow> int \<Rightarrow> oid \<Rightarrow> string \<Rightarrow> int \<Rightarrow> string \<Rightarrow> (world, string) smonad" where
  "UploadMemberImage E event member =
     uploadImage E (event_path event (''members/'' @ env_hex E member))"

definition UploadMeetingMinute ::
  "env \<Rightarrow> int \<Rightarrow> oid \<Rightarrow> string \<Rightarrow> int \<Rightarrow> string \<Rightarrow> (world, string) smonad" where
  "UploadMeetingMinute E event meeting =
     uploadImage E (event_path event (''meetings/'' @ env_hex E meeting))"

definition DeleteMeetingMinute :: "env \<Rightarrow> int \<Rightarrow> oid \<Rightarrow> (world, unit) smonad" where
  "DeleteMeetingMinute E event meeting =
     deleteObject E (event_path event (''meetings/'' @ env_hex E meeting))"

definition UploadItemImage ::
  "env \<Rightarrow> int \<Rightarrow> oid \<Rightarrow> string \<Rightarrow> int \<Rightarrow> string \<Rightarrow> (world, string) smonad" where
  "UploadItemImage E event item =
     uploadImage E (event_path event (''items/'' @ env_hex E item))"

definition UploadTemplateFile ::
  "env \<Rightarrow> int \<Rightarrow> string \<Rightarrow> string \<Rightarrow> int \<Rightarrow> string \<Rightarrow> (world, string) smonad" where
  "UploadTemplateFile E event templateUUID =
     uploadImage E (event_path event (''templates/'' @ templateUUID))"

definition UploadCalendarFile ::
  "env \<Rightarrow> int \<Rightarrow> string \<Rightarrow> int \<Rightarrow> string \<Rightarrow> (world, string) smonad" where
  "UploadCalendarFile E event = uploadImage E (event_path event ''calendar'')"

text \<open>Storing a file changes nothing of the service's own state.\<close>

lemma wp_uploadImage [simp]:
  "wp (uploadImage E path reader objectSize mime) Q R w =
     (let path = basePath E @ ''/'' @ path in
      case env_putObject E (w_tick w) path reader objectSize mime of
        Some e \<Rightarrow> R e w
      | None \<Rightarrow> Q (''https://'' @ env_cdnBaseURL E @ ''/'' @ path) w)"
  by (simp add: uploadImage_def Let_def split: option.split)

lemma wp_deleteObject [simp]:
  "wp (deleteObject E path) Q R w =
     (case env_removeObject E (w_tick w) (basePath E @ ''/'' @ path) of
        Some e \<Rightarrow> R e w | None \<Rightarrow> Q () w)"
  by (simp add: deleteObject_def Let_def split: option.split)

lemma keeps_uploadImage [keeps_rules]: "keeps I (uploadImage E path reader objectSize mime)"
  by (rule keepsI) (simp add: Let_def split: option.split)

lemma keeps_deleteObject [keeps_rules]: "keeps I (deleteObject E path)"
  by (rule keepsI) (simp add: Let_def split: option.split)

lemmas upload_defs =
  UploadCompanyPublicImage_def UploadCompanyInternalImage_def UploadSpeakerPublicImage_def
  UploadSpeakerInternalImage_def UploadSpeakerCompanyImage_def UploadMemberImage_def
  UploadMeetingMinute_def DeleteMeetingMinute_def UploadItemImage_def UploadTemplateFile_def
  UploadCalendarFile_def

section \<open>Taking a file from a request\<close>

definition ImageMaxSize :: int where
  "ImageMaxSize = 10 * 2 ^ 20"

definition MinuteMaxSize :: int where
  "MinuteMaxSize = 500 * 2 ^ 10"

record upload =
  up_Data :: "err + string"
  up_Size :: int

type_synonym multipart = "err + err + upload"

definition exceeded :: "int \<Rightarrow> string" where
  "exceeded limit = ''Exceeded file size ('' @ int_string limit @ '' bytes)''"

definition with_file ::
  "multipart \<Rightarrow> int \<Rightarrow> (err \<Rightarrow> string) \<Rightarrow> string \<Rightarrow>
   (upload \<Rightarrow> (world, 'a reply) smonad) \<Rightarrow> (world, 'a reply) smonad" where
  "with_file form limit unparsed invalid k =
     onErr (liftR form) (\<lambda>e. retE (Failure StatusBadRequest (unparsed e))) (\<lambda>formFile.
     orFailR formFile StatusBadRequest invalid (\<lambda>file.
     if up_Size file > limit then retE (Failure StatusBadRequest (exceeded limit)) else k file))"

text \<open>
  The images of companies, speakers, members and items: what \<open>k\<close> is given is the current event, the
  bytes, their size and their type. The answers to a form that cannot be parsed, to a missing file and to
  a file that is no image differ from handler to handler.
\<close>

definition with_image ::
  "env \<Rightarrow> multipart \<Rightarrow> (err \<Rightarrow> string) \<Rightarrow> string \<Rightarrow> (world, 'a reply) smonad \<Rightarrow>
   (event \<Rightarrow> string \<Rightarrow> int \<Rightarrow> string \<Rightarrow> (world, 'a reply) smonad) \<Rightarrow> (world, 'a reply) smonad" where
  "with_image E form unparsed invalid notImage k =
     with_file form ImageMaxSize unparsed invalid (\<lambda>file.
     orFail (Events_GetCurrentEvent E) StatusExpectationFailed ''Couldn't fetch current event: '' (\<lambda>currentEvent.
     orFailR (up_Data file) StatusExpectationFailed ''Unable to read the file: '' (\<lambda>bytes.
     if \<not> env_isImage E bytes then notImage
     else
       orFailR (env_matchType E bytes) StatusExpectationFailed ''Unable to get file type: '' (\<lambda>kind.
       k currentEvent bytes (up_Size file) kind))))"

abbreviation not_an_image :: "(world, 'a reply) smonad" where
  "not_an_image \<equiv> retE (Failure StatusBadRequest ''Not an image'')"

end
