(* ===== verification/ThreadHandling.thy ===== *)
theory ThreadHandling
  imports Spaces
begin

text \<open>
  What the handlers on companies and on speakers share (\<^verbatim>\<open>router/company.go\<close>, \<^verbatim>\<open>router/speaker.go\<close>): the data of
  a new thread, the clean-up after one that fails, the listing of the threads of a participation and the
  synchronisation of mails. What a handler does after an error has been answered (undoing what it had
  done) is in the error branch, with the errors of that discarded as the code discards them. Log lines
  are left out.
\<close>

section \<open>Answers\<close>

text \<open>An error answer goes on to the end of the handler.\<close>

definition thenR :: "(world, 'a reply) smonad \<Rightarrow> ('a \<Rightarrow> (world, 'b reply) smonad) \<Rightarrow> (world, 'b reply) smonad" where
  "thenR m k = bindE m (\<lambda>r. case r of Failure s t \<Rightarrow> retE (Failure s t) | Reply x \<Rightarrow> k x)"

text \<open>Answer with an error, after undoing something whose own error is only logged.\<close>

definition failing :: "nat \<Rightarrow> string \<Rightarrow> err \<Rightarrow> (world, unit) smonad \<Rightarrow> (world, 'a reply) smonad" where
  "failing status msg e undo = bindE undo (\<lambda>_. retE (Failure status (msg @ err_text e)))"

definition optional_text :: "request \<Rightarrow> string \<Rightarrow> string option" where
  "optional_text rq name = (if length (rq_query rq name) > 0 then Some (rq_query rq name) else None)"

record members_payload =
  mpl_Members :: "string list"
  mpl_Event :: "int option"

fun member_ids :: "env \<Rightarrow> string list \<Rightarrow> oid list \<Rightarrow> err + oid list" where
  "member_ids E [] memberIDs = Inr memberIDs"
| "member_ids E (m # ms) memberIDs = (case env_fromHex E m of
     Inl e \<Rightarrow> Inl e
   | Inr i \<Rightarrow> member_ids E ms (memberIDs @ [i]))"

record validStepsResponse =
  vsr_Steps :: "validStep list"

section \<open>A new thread\<close>

record addThreadData =
  atd_Text :: "string option"
  atd_Meeting :: "CreateMeetingData option"
  atd_Kind :: "threadKind option"

definition addThreadData_ParseBody :: "err + addThreadData \<Rightarrow> err + addThreadData" where
  "addThreadData_ParseBody body = (case body of
     Inl e \<Rightarrow> Inl e
   | Inr acd \<Rightarrow>
       if atd_Text acd = None then Inl (Err ''invalid text'')
       else if atd_Kind acd = None then Inl (Err ''invalid kind'')
       else if atd_Kind acd = Some ThreadKindMeeting \<and> atd_Meeting acd = None
       then Inl (Err ''thread kind is meeting and meeting data is not given'')
       else Inr acd)"

record threadWithEntry =
  twe_ID :: oid
  twe_Posted :: time
  twe_Entry :: "post option"
  twe_Meeting :: "oid option"
  twe_Comments :: "oid list"
  twe_Kind :: threadKind
  twe_Status :: threadStatus

definition thread_with_entry :: "thread \<Rightarrow> post \<Rightarrow> threadWithEntry" where
  "thread_with_entry t p = \<lparr>twe_ID = th_ID t, twe_Posted = th_Posted t, twe_Entry = Some p,
     twe_Meeting = th_Meeting t, twe_Comments = th_Comments t, twe_Kind = th_Kind t,
     twe_Status = th_Status t\<rparr>"

text \<open>The clean-up of a failed thread: each deletion's error is logged only.\<close>

definition clean_up_post :: "env \<Rightarrow> oid \<Rightarrow> (world, unit) smonad" where
  "clean_up_post E i = discardE (Posts_DeletePost E i)"

definition clean_up_meeting :: "env \<Rightarrow> oid option \<Rightarrow> (world, unit) smonad" where
  "clean_up_meeting E meetingIDPointer = (case meetingIDPointer of
     None \<Rightarrow> retE ()
   | Some i \<Rightarrow> discardE (Meetings_DeleteMeeting E i))"

definition clean_up_thread :: "env \<Rightarrow> oid \<Rightarrow> (world, unit) smonad" where
  "clean_up_thread E i = discardE (Threads_DeleteThread E i)"

section \<open>The threads of a participation\<close>

record participationCommunications =
  pco_Event :: int
  pco_Communications :: "threadWithEntry list"
  pco_GmailThreadIds :: "string list"

text \<open>
  The threads of one participation with their first posts. A reference to a thread or a post that is
  gone is removed by \<open>forget\<close> and skipped.
\<close>

fun thread_entries ::
  "env \<Rightarrow> (oid \<Rightarrow> (world, unit) smonad) \<Rightarrow> oid list \<Rightarrow> threadWithEntry list \<Rightarrow>
   (world, threadWithEntry list reply) smonad" where
  "thread_entries E forget [] comms = retE (Reply comms)"
| "thread_entries E forget (threadID # ts) comms =
     onErr (Threads_GetThread E threadID)
       (\<lambda>e. if e = ErrNoDocuments
          then bindE (forget threadID) (\<lambda>_. thread_entries E forget ts comms)
          else retE (Failure StatusNotFound (''Could not get thread: '' @ err_text e)))
       (\<lambda>thread.
     onErr (Posts_GetPost E (th_Entry thread))
       (\<lambda>e. if e = ErrNoDocuments
          then bindE (forget threadID) (\<lambda>_. thread_entries E forget ts comms)
          else retE (Failure StatusNotFound (''Could not get post: '' @ err_text e)))
       (\<lambda>post. thread_entries E forget ts (comms @ [thread_with_entry thread post])))"

fun participation_threads ::
  "env \<Rightarrow> (oid \<Rightarrow> (world, unit) smonad) \<Rightarrow> (int \<times> oid list \<times> string list) list \<Rightarrow>
   participationCommunications list \<Rightarrow> (world, participationCommunications list reply) smonad" where
  "participation_threads E forget [] comms = retE (Reply comms)"
| "participation_threads E forget ((event, threads, gmail) # ps) participationComms =
     thenR (thread_entries E forget threads []) (\<lambda>comms.
     participation_threads E forget ps (participationComms @
       [\<lparr>pco_Event = event, pco_Communications = comms, pco_GmailThreadIds = gmail\<rparr>]))"

section \<open>Mails\<close>

record gmailMessageData =
  gmd_MessageId :: string
  gmd_ThreadId :: string
  gmd_Subject :: string
  gmd_From :: string
  gmd_To :: string
  gmd_Date :: string
  gmd_Body :: string
  gmd_IsOutgoing :: bool

text \<open>The text of a post made from a mail: an envelope (in UTF-8), the subject, an empty line, the body.\<close>

definition message_text :: "gmailMessageData \<Rightarrow> string" where
  "message_text msg =
     (if gmd_Subject msg \<noteq> [] \<and> gmd_Subject msg \<noteq> ''(No subject)''
      then [CHR 0xF0, CHR 0x9F, CHR 0x93, CHR 0xA7] @ '' '' @ gmd_Subject msg @ [CHR 0x0A, CHR 0x0A] @ gmd_Body msg
      else gmd_Body msg)"

definition message_time :: "env \<Rightarrow> gmailMessageData \<Rightarrow> time option" where
  "message_time E msg =
     (if gmd_Date msg \<noteq> [] then (case env_parseTime E (gmd_Date msg) of Inl _ \<Rightarrow> None | Inr t \<Rightarrow> Some t)
      else None)"

text \<open>One message: whether it has been synced. \<open>attach\<close> adds a thread to the participation.\<close>

definition sync_message ::
  "env \<Rightarrow> oid \<Rightarrow> (oid \<Rightarrow> (world, 'a) smonad) \<Rightarrow> (string \<rightharpoonup> thread) \<Rightarrow> gmailMessageData \<Rightarrow>
   (world, bool) smonad" where
  "sync_message E author attach existingThreads msg =
     (if existingThreads (gmd_MessageId msg) \<noteq> None then retE False
      else
        let kind = (if gmd_IsOutgoing msg then ThreadKindTo else ThreadKindFrom) in
        onErr (Posts_CreatePost E \<lparr>cpo_Member = author, cpo_Text = message_text msg\<rparr>)
          (\<lambda>_. retE False) (\<lambda>newPost.
        onErr (Threads_CreateThread E \<lparr>ctd_Entry = po_ID newPost, ctd_Meeting = None, ctd_Kind = kind,
            ctd_GmailMessageId = gmd_MessageId msg, ctd_Posted = message_time E msg\<rparr>)
          (\<lambda>_. bindE (clean_up_post E (po_ID newPost)) (\<lambda>_. retE False)) (\<lambda>newThread.
        onErr (attach (th_ID newThread))
          (\<lambda>_. bindE (clean_up_post E (po_ID newPost)) (\<lambda>_.
                bindE (clean_up_thread E (th_ID newThread)) (\<lambda>_. retE False)))
          (\<lambda>_. retE True))))"

fun sync_messages ::
  "env \<Rightarrow> oid \<Rightarrow> (oid \<Rightarrow> (world, 'a) smonad) \<Rightarrow> (string \<rightharpoonup> thread) \<Rightarrow> gmailMessageData list \<Rightarrow>
   nat \<Rightarrow> (world, nat) smonad" where
  "sync_messages E author attach existingThreads [] syncedCount = retE syncedCount"
| "sync_messages E author attach existingThreads (msg # msgs) syncedCount =
     bindE (sync_message E author attach existingThreads msg) (\<lambda>synced.
     sync_messages E author attach existingThreads msgs (if synced then Suc syncedCount else syncedCount))"

record syncResult =
  sr_synced :: nat
  sr_total :: nat

end
