(* ===== verification/CompanyHandlers.thy ===== *)
theory CompanyHandlers
  imports ThreadHandling CompanyParticipations Billing
begin

text \<open>
  The handlers on companies (\<^verbatim>\<open>router/company.go\<close>), one definition each. A handler that follows its reply
  with a notification ends in \<open>reply_and_notify\<close>. A body is what the JSON decoder gives.
\<close>

definition about_company :: "notificationKind \<Rightarrow> oid \<Rightarrow> CreateNotificationData" where
  "about_company kind i = (notification_data kind)\<lparr>cnd_Company := Some i\<rparr>"

abbreviation notify_company ::
  "env \<Rightarrow> request \<Rightarrow> notificationKind \<Rightarrow> company \<Rightarrow> (world, company reply) smonad" where
  "notify_company E rq kind c \<equiv> reply_and_notify E rq c (about_company kind (co_ID c))"

text \<open>The check that the company of the path exists, with which many handlers begin.\<close>

abbreviation existing_company ::
  "env \<Rightarrow> oid \<Rightarrow> (world, 'a reply) smonad \<Rightarrow> (world, 'a reply) smonad" where
  "existing_company E i k \<equiv>
     orFail (Companies_GetCompany E i) StatusNotFound ''Invalid company ID: '' (\<lambda>_. k)"

section \<open>Reading\<close>

text \<open>Without a \<^verbatim>\<open>return\<close> after the error, \<^verbatim>\<open>null\<close> is written behind the message.\<close>

definition getCompany :: "env \<Rightarrow> company handler" where
  "getCompany E rq =
     onErr (Companies_GetCompany E (id_var E rq ''id''))
       (\<lambda>e. retE (Failure StatusNotFound (''Unable to get company:'' @ err_text e @ [CHR 0x0A] @ ''null'')))
       (\<lambda>company. retE (Reply company))"

definition getCompanies :: "env \<Rightarrow> company list handler" where
  "getCompanies E rq =
     query_value rq ''event'' Atoi StatusBadRequest ''Invalid event ID format: '' (\<lambda>eventID.
     query_value rq ''partner'' ParseBool StatusBadRequest ''Invalid partner format: '' (\<lambda>isPartner.
     query_value rq ''member'' (env_fromHex E) StatusBadRequest ''Invalid member ID format: '' (\<lambda>memberID.
     query_value rq ''numRequests'' Atoi StatusBadRequest
       ''Number of Requests: Invalid Company ID format: '' (\<lambda>numReq.
     query_value rq ''maxCompInRequest'' Atoi StatusBadRequest
       ''Max Companies in Request: Invalid number format: '' (\<lambda>maxComp.
     orFail (Companies_GetCompanies E \<lparr>gcomp_EventID = eventID, gcomp_IsPartner = isPartner,
         gcomp_MemberID = memberID, gcomp_Name = optional_text rq ''name'', gcomp_NumRequests = numReq,
         gcomp_MaxCompInRequest = maxComp, gcomp_SortingMethod = optional_text rq ''sortMethod''\<rparr>)
       StatusExpectationFailed ''Unable to get companies: '' (\<lambda>companies. retE (Reply companies)))))))"

definition getCompaniesPublic :: "env \<Rightarrow> companyPublic list handler" where
  "getCompaniesPublic E rq =
     query_value rq ''event'' Atoi StatusBadRequest ''Invalid event ID format: '' (\<lambda>eventID.
     query_value rq ''partner'' ParseBool StatusBadRequest ''Invalid partner format: '' (\<lambda>isPartner.
     orFail (Companies_GetPublicCompanies E \<lparr>gcp_EventID = eventID, gcp_IsPartner = isPartner,
         gcp_Name = optional_text rq ''name''\<rparr>)
       StatusExpectationFailed ''Unable to make query do database: ''
       (\<lambda>publicCompanies. retE (Reply publicCompanies))))"

definition getCompaniesByMembers :: "env \<Rightarrow> err + members_payload \<Rightarrow> company list handler" where
  "getCompaniesByMembers E body rq =
     orFailR body StatusBadRequest ''Could not parse body: '' (\<lambda>payload.
     if mpl_Members payload = [] then retE (Reply [])
     else
       orFailR (member_ids E (mpl_Members payload) []) StatusBadRequest ''Invalid member ID format: '' (\<lambda>memberIDs.
       orFail (Companies_GetCompaniesByMembers E memberIDs (mpl_Event payload)) StatusExpectationFailed
         ''Unable to get companies: '' (\<lambda>companies. retE (Reply companies))))"

definition getCompanyPublic :: "env \<Rightarrow> companyPublic handler" where
  "getCompanyPublic E rq =
     orFail (Companies_GetCompanyPublic E (id_var E rq ''id'')) StatusNotFound ''Invalid company ID: ''
       (\<lambda>company. retE (Reply company))"

section \<open>Creating, updating, deleting\<close>

definition createCompany :: "env \<Rightarrow> err + CreateCompanyData \<Rightarrow> company handler" where
  "createCompany E body rq =
     orFailR (CreateCompanyData_ParseBody body) StatusBadRequest ''Could not parse body: '' (\<lambda>ccd.
     orFail (Companies_CreateCompany E ccd) StatusBadRequest ''Could not create company: '' (\<lambda>newCompany.
     notify_company E rq NotificationKindCreated newCompany))"

definition updateCompany :: "env \<Rightarrow> err + UpdateCompanyData \<Rightarrow> company handler" where
  "updateCompany E body rq =
     (let companyID = id_var E rq ''id'' in
      existing_company E companyID (
      orFailR (UpdateCompanyData_ParseBody body) StatusBadRequest ''Could not parse body: '' (\<lambda>ucd.
      orFail (Companies_UpdateCompany E companyID ucd) StatusExpectationFailed
        ''Could not update company data: '' (\<lambda>updatedCompany.
      notify_company E rq NotificationKindUpdated updatedCompany))))"

definition deleteCompany :: "env \<Rightarrow> company handler" where
  "deleteCompany E rq =
     orFail (Companies_DeleteCompany E (id_var E rq ''id'')) StatusNotFound ''Could not delete company: ''
       (\<lambda>deletedCompany.
     reply_and_notify E rq deletedCompany
       ((about_company NotificationKindDeleted (co_ID deletedCompany))\<lparr>cnd_Name := co_Name deletedCompany\<rparr>))"

section \<open>Participations\<close>

definition addCompanyParticipation :: "env \<Rightarrow> err + AddParticipationData \<Rightarrow> company handler" where
  "addCompanyParticipation E body rq =
     orFailR (AddParticipationData_ParseBody body) StatusBadRequest ''Could not parse body: '' (\<lambda>apd.
     with_credentials rq (\<lambda>credentials.
     orFail (Companies_AddParticipation E (id_var E rq ''id'') (ac_ID credentials) apd) StatusBadRequest
       ''Could not add participation to company: '' (\<lambda>updatedCompany.
     notify_company E rq NotificationKindCreatedParticipation updatedCompany)))"

definition updateCompanyParticipation ::
  "env \<Rightarrow> err + UpdateCompanyParticipationData \<Rightarrow> company handler" where
  "updateCompanyParticipation E body rq =
     (let companyID = id_var E rq ''id'' in
      existing_company E companyID (
      orFail (UpdateCompanyParticipationData_ParseBody E body) StatusBadRequest ''Could not parse body: '' (\<lambda>ucpd.
      orFail (Companies_UpdateCompanyParticipation E companyID ucpd) StatusExpectationFailed
        ''Could not update company data: '' (\<lambda>updatedCompany.
      notify_company E rq NotificationKindUpdatedParticipation updatedCompany))))"

definition deleteCompanyParticipation :: "env \<Rightarrow> company handler" where
  "deleteCompanyParticipation E rq =
     (let companyID = id_var E rq ''id'' in
      existing_company E companyID (
      orFail (Events_GetCurrentEvent E) StatusNotFound ''Error finding current event: '' (\<lambda>event.
      orFail (Companies_DeleteCompanyParticipation E companyID (ev_ID event)) StatusExpectationFailed
        ''Could not remove company participation: '' (\<lambda>company. retE (Reply company)))))"

definition setCompanyStatus :: "env \<Rightarrow> company handler" where
  "setCompanyStatus E rq =
     (let companyID = id_var E rq ''id'' in
      orFailR (ParticipationStatus_Parse True (rq_vars rq ''status'')) StatusBadRequest ''Invalid status: '' (\<lambda>status.
      existing_company E companyID (
      orFail (Companies_UpdateCompanyParticipationStatus E companyID status) StatusExpectationFailed
        ''Could not update company status: '' (\<lambda>updatedCompany.
      notify_company E rq NotificationKindUpdatedParticipationStatus updatedCompany))))"

definition stepCompanyStatus :: "env \<Rightarrow> company handler" where
  "stepCompanyStatus E rq =
     (let companyID = id_var E rq ''id'' in
      orFailR (Atoi (rq_vars rq ''step'')) StatusBadRequest ''Invalid step: '' (\<lambda>step.
      existing_company E companyID (
      orFail (Companies_StepStatus E companyID step) StatusExpectationFailed
        ''Could not update company status: '' (\<lambda>updatedCompany.
      notify_company E rq NotificationKindUpdatedParticipationStatus updatedCompany))))"

definition getCompanyValidSteps :: "env \<Rightarrow> validStepsResponse handler" where
  "getCompanyValidSteps E rq =
     (let companyID = id_var E rq ''id'' in
      existing_company E companyID (
      orFail (Companies_GetCompanyParticipationStatusValidSteps E companyID) StatusBadRequest
        ''Company without participation on the current event: ''
        (\<lambda>steps. retE (Reply \<lparr>vsr_Steps = steps\<rparr>))))"

definition announceAcceptedCompanies :: "env \<Rightarrow> nat handler" where
  "announceAcceptedCompanies E rq =
     orFail (Companies_AnnounceAcceptedCompanies E) StatusExpectationFailed
       ''Could not announce accepted companies: '' (\<lambda>count. retE (Reply count))"

definition subscribeToCompany :: "env \<Rightarrow> company handler" where
  "subscribeToCompany E rq =
     (let companyID = id_var E rq ''id'' in
      existing_company E companyID (
      with_credentials rq (\<lambda>credentials.
      orFail (Companies_Subscribe E companyID (ac_ID credentials)) StatusExpectationFailed
        ''Could not subscribe to company: '' (\<lambda>updatedCompany. retE (Reply updatedCompany)))))"

definition unsubscribeToCompany :: "env \<Rightarrow> company handler" where
  "unsubscribeToCompany E rq =
     (let companyID = id_var E rq ''id'' in
      existing_company E companyID (
      with_credentials rq (\<lambda>credentials.
      orFail (Companies_Unsubscribe E companyID (ac_ID credentials)) StatusExpectationFailed
        ''Could not subscribe to company: '' (\<lambda>updatedCompany. retE (Reply updatedCompany)))))"

section \<open>Threads\<close>

definition deleteCompanyThread :: "env \<Rightarrow> company handler" where
  "deleteCompanyThread E rq =
     (let threadID = id_var E rq ''threadID'' in
      with_credentials rq (\<lambda>_.
      orFail (Companies_DeleteCompanyThread E (id_var E rq ''id'') threadID) StatusNotFound
        ''Company or thread not found: '' (\<lambda>company.
      orFail (Threads_DeleteThread E threadID) StatusNotFound ''Thread not found: '' (\<lambda>_.
      retE (Reply company)))))"

text \<open>
  A thread is made in up to four steps: its first post, for a thread of kind meeting the meeting, the
  thread, and its place in the participation. A step that fails has the ones before it undone.
\<close>

definition new_meeting_or_clean_up ::
  "env \<Rightarrow> oid \<Rightarrow> addThreadData \<Rightarrow> (oid option \<Rightarrow> (world, 'a reply) smonad) \<Rightarrow> (world, 'a reply) smonad" where
  "new_meeting_or_clean_up E newPost atd k =
     (if atd_Kind atd \<noteq> Some ThreadKindMeeting then k None
      else
        bindE (deref (atd_Meeting atd)) (\<lambda>data.
        onErr (liftR (case CreateMeetingData_Validate data of Some e \<Rightarrow> Inl e | None \<Rightarrow> Inr ()))
          (\<lambda>e. failing StatusBadRequest ''Invalid meeting data: '' e (clean_up_post E newPost)) (\<lambda>_.
        onErr (Meetings_CreateMeeting E data)
          (\<lambda>e. failing StatusExpectationFailed ''Could not create meeting: '' e (clean_up_post E newPost))
          (\<lambda>meeting. k (Some (me_ID meeting))))))"

definition addCompanyThread :: "env \<Rightarrow> err + addThreadData \<Rightarrow> threadWithEntry handler" where
  "addCompanyThread E body rq =
     onErr (liftR (env_fromHex E (rq_vars rq ''id'')))
       (\<lambda>_. retE (Failure StatusBadRequest ''Invalid company ID'')) (\<lambda>companyID.
     existing_company E companyID (
     orFailR (addThreadData_ParseBody body) StatusBadRequest ''Could not parse body: '' (\<lambda>atd.
     with_credentials rq (\<lambda>credentials.
     bindE (deref (atd_Text atd)) (\<lambda>text.
     orFail (Posts_CreatePost E \<lparr>cpo_Member = ac_ID credentials, cpo_Text = text\<rparr>) StatusExpectationFailed
       ''Could not create post: '' (\<lambda>newPost.
     new_meeting_or_clean_up E (po_ID newPost) atd (\<lambda>meetingIDPointer.
     bindE (deref (atd_Kind atd)) (\<lambda>kind.
     onErr (Threads_CreateThread E \<lparr>ctd_Entry = po_ID newPost, ctd_Meeting = meetingIDPointer,
         ctd_Kind = kind, ctd_GmailMessageId = [], ctd_Posted = None\<rparr>)
       (\<lambda>e. failing StatusExpectationFailed ''Could not create thread: '' e
         (bindE (clean_up_post E (po_ID newPost)) (\<lambda>_. clean_up_meeting E meetingIDPointer))) (\<lambda>newThread.
     onErr (Companies_AddThread E companyID (th_ID newThread))
       (\<lambda>e. failing StatusExpectationFailed ''Could not add thread to company: '' e
         (bindE (clean_up_post E (po_ID newPost)) (\<lambda>_.
          bindE (clean_up_meeting E meetingIDPointer) (\<lambda>_.
          clean_up_thread E (th_ID newThread))))) (\<lambda>updatedCompany.
     reply_and_notify E rq (thread_with_entry newThread newPost)
       ((about_company NotificationKindCreated (co_ID updatedCompany))\<lparr>cnd_Thread := Some (th_ID newThread)\<rparr>)))))))))))"

definition forget_company_thread :: "env \<Rightarrow> oid \<Rightarrow> oid \<Rightarrow> (world, unit) smonad" where
  "forget_company_thread E companyID threadID =
     discardE (UpdateOne (Companies E) (\<lambda>c. co_ID c = companyID)
       (\<lambda>c. c\<lparr>co_Participations := map
          (\<lambda>p. p\<lparr>cp_Communications := pull (\<lambda>t. t = threadID) (cp_Communications p)\<rparr>)
          (co_Participations c)\<rparr>))"

definition getCompanyThreads :: "env \<Rightarrow> participationCommunications list handler" where
  "getCompanyThreads E rq =
     (let companyID = id_var E rq ''id'' in
      orFail (Companies_GetCompany E companyID) StatusExpectationFailed ''Unexpected error: '' (\<lambda>company.
      if length (co_Participations company) = 0
      then retE (Failure StatusNotFound ''No participations found'')
      else participation_threads E (forget_company_thread E companyID)
        (map (\<lambda>p. (cp_Event p, cp_Communications p, cp_GmailThreadIds p)) (co_Participations company)) []))"

section \<open>Packages and bills\<close>

definition addCompanyPackage :: "env \<Rightarrow> err + CreatePackageData \<Rightarrow> company handler" where
  "addCompanyPackage E body rq =
     (let companyID = id_var E rq ''id'' in
      existing_company E companyID (
      orFail (CreatePackageData_ParseBody E body) StatusBadRequest ''Could not parse body: '' (\<lambda>cpd.
      orFail (Packages_CreatePackage E cpd) StatusExpectationFailed ''Could not create new package: '' (\<lambda>newPackage.
      onErr (Companies_UpdatePackage E companyID (pk_ID newPackage))
        (\<lambda>e. failing StatusExpectationFailed ''Could not update company's package: '' e
          (discardE (Packages_DeletePackage E (pk_ID newPackage)))) (\<lambda>updatedCompany.
      notify_company E rq NotificationKindUpdatedParticipationPackage updatedCompany)))))"

definition setCompanyPackage :: "env \<Rightarrow> company handler" where
  "setCompanyPackage E rq =
     (let companyID = id_var E rq ''id''; packageID = id_var E rq ''packageID'' in
      existing_company E companyID (
      orFail (Companies_UpdatePackage E companyID packageID) StatusExpectationFailed
        ''Could not update company's package: '' (\<lambda>updatedCompany.
      notify_company E rq NotificationKindUpdatedParticipationPackage updatedCompany)))"

text \<open>The clean-up looks for the bill among the packages.\<close>

definition addCompanyParticipationBilling :: "env \<Rightarrow> err + CreateBillingData \<Rightarrow> company handler" where
  "addCompanyParticipationBilling E body rq =
     (let companyID = id_var E rq ''id'' in
      existing_company E companyID (
      orFailR (CreateBillingData_ParseBody body) StatusBadRequest ''Could not parse body: '' (\<lambda>cbd.
      orFail (Billings_CreateBilling E cbd) StatusNotFound ''Error finding created billing: '' (\<lambda>newBilling.
      onErr (Companies_UpdateBilling E companyID (bi_ID newBilling) (bi_Event newBilling))
        (\<lambda>e. failing StatusExpectationFailed ''Could not update company's billing: '' e
          (discardE (Packages_DeletePackage E (bi_ID newBilling)))) (\<lambda>updatedCompany.
      notify_company E rq NotificationKindCreatedParticipationBilling updatedCompany)))))"

text \<open>
  The bill is looked up with its error dropped and then followed. What stands behind the second test of
  the same error is never reached. The notification names a speaker, with the ID of the company.
\<close>

definition deleteCompanyParticipationBilling :: "env \<Rightarrow> company handler" where
  "deleteCompanyParticipationBilling E rq =
     (let companyID = id_var E rq ''id''; billingID = id_var E rq ''billingID'' in
      existing_company E companyID (
      bindE (onErr (Billings_GetBilling E billingID) (\<lambda>_. retE None) (\<lambda>b. retE (Some b))) (\<lambda>backupBilling.
      bindE (deref backupBilling) (\<lambda>backup.
      orFail (Companies_RemoveCompanyParticipationBilling E companyID (bi_Event backup)) StatusExpectationFailed
        ''Could not remove billing from company participation: '' (\<lambda>updatedCompany.
      orFail (Billings_DeleteBilling E billingID) StatusNotFound ''Billing not found: '' (\<lambda>_.
      reply_and_notify E rq updatedCompany
        ((notification_data NotificationKindDeletedParticipationBilling)
           \<lparr>cnd_Speaker := Some (co_ID updatedCompany)\<rparr>)))))))"

section \<open>Images\<close>

definition setCompanyPrivateImage :: "env \<Rightarrow> multipart \<Rightarrow> company handler" where
  "setCompanyPrivateImage E form rq =
     (let companyID = id_var E rq ''id'' in
      existing_company E companyID (
      with_image E form (\<lambda>_. exceeded ImageMaxSize) ''Invalid payload!: '' not_an_image
        (\<lambda>currentEvent bytes objectSize kind.
      orFail (UploadCompanyInternalImage E (ev_ID currentEvent) companyID bytes objectSize kind)
        StatusExpectationFailed ''Couldn't upload file: '' (\<lambda>url.
      orFail (Companies_UpdateCompanyInternalImage E companyID url) StatusExpectationFailed
        ''Couldn't update company internal image: '' (\<lambda>updatedCompany.
      notify_company E rq NotificationKindUpdatedPrivateImage updatedCompany)))))"

text \<open>Here the answer to a file that is no image calls \<^verbatim>\<open>err.Error()\<close> on the nil error of the step before.\<close>

definition setCompanyPublicImage :: "env \<Rightarrow> multipart \<Rightarrow> company handler" where
  "setCompanyPublicImage E form rq =
     (let companyID = id_var E rq ''id'' in
      existing_company E companyID (
      with_image E form (\<lambda>_. exceeded ImageMaxSize) ''Invalid payload: ''
        (throwE (Panic ''nil pointer dereference'')) (\<lambda>currentEvent bytes objectSize kind.
      orFail (UploadCompanyPublicImage E (ev_ID currentEvent) companyID bytes objectSize kind)
        StatusExpectationFailed ''Couldn't upload file: '' (\<lambda>url.
      orFail (Companies_UpdateCompanyPublicImage E companyID url) StatusExpectationFailed
        ''Couldn't update company internal image: '' (\<lambda>updatedCompany.
      notify_company E rq NotificationKindUpdatedPublicImage updatedCompany)))))"

section \<open>Employers\<close>

fun employer_reps ::
  "env \<Rightarrow> oid list \<Rightarrow> companyRepWithContact list \<Rightarrow> (world, companyRepWithContact list) smonad" where
  "employer_reps E [] reps = retE reps"
| "employer_reps E (repID # rs) reps =
     bindE (CompanyReps_GetCompanyRep E repID) (\<lambda>rep.
     bindE (Contacts_GetContact E (cr_Contact rep)) (\<lambda>contact.
     employer_reps E rs (reps @ [\<lparr>crc_ID = cr_ID rep, crc_Name = cr_Name rep, crc_Contact = Some contact\<rparr>])))"

definition getCompanyEmployers :: "env \<Rightarrow> companyRepWithContact list handler" where
  "getCompanyEmployers E rq =
     orFail (Companies_GetCompany E (id_var E rq ''id'')) StatusExpectationFailed ''Unexpected error: '' (\<lambda>company.
     orFail (employer_reps E (co_Employers company) []) StatusExpectationFailed ''Unexpected error: ''
       (\<lambda>reps. retE (Reply reps)))"

definition addEmployer :: "env \<Rightarrow> CreateCompanyRepData \<Rightarrow> company handler" where
  "addEmployer E body rq =
     orFailR (CreateCompanyRepData_ParseBody body) StatusBadRequest ''Could not parse body: '' (\<lambda>ccrp.
     orFail (Companies_AddEmployer E (id_var E rq ''id'') ccrp) StatusNotFound ''Could not parse body: ''
       (\<lambda>company. retE (Reply company)))"

definition removeEmployer :: "env \<Rightarrow> company handler" where
  "removeEmployer E rq =
     orFail (Companies_RemoveEmployer E (id_var E rq ''id'') (id_var E rq ''rep'')) StatusNotFound
       ''Could not remove employer: '' (\<lambda>company. retE (Reply company))"

definition updateEmployersOrder :: "env \<Rightarrow> err + UpdateEmployersOrderData \<Rightarrow> company handler" where
  "updateEmployersOrder E body rq =
     (let companyID = id_var E rq ''id'' in
      orFail (Companies_GetCompany E companyID) StatusNotFound ''Company not found: '' (\<lambda>_.
      orFail (UpdateEmployersOrderData_ParseBody E body) StatusBadRequest ''Could not parse body: '' (\<lambda>ueod.
      orFail (Companies_UpdateEmployersOrder E companyID ueod) StatusExpectationFailed
        ''Could not update employers order: '' (\<lambda>updatedCompany. retE (Reply updatedCompany)))))"

section \<open>Mails\<close>

text \<open>What both mail handlers check first: the ID, the credentials, that the company exists.\<close>

definition updateCompanyGmailThreadIds :: "env \<Rightarrow> err + string list \<Rightarrow> company handler" where
  "updateCompanyGmailThreadIds E body rq =
     onErr (liftR (env_fromHex E (rq_vars rq ''id'')))
       (\<lambda>_. retE (Failure StatusBadRequest ''Invalid company id'')) (\<lambda>companyID.
     if rq_credentials rq = None then retE (Failure StatusUnauthorized ''Authentication failed'')
     else
       orFail (Companies_GetCompany E companyID) StatusNotFound ''Company not found: '' (\<lambda>_.
       orFailR body StatusBadRequest ''Could not parse body: '' (\<lambda>gmailThreadIds.
       orFail (Companies_UpdateCompanyGmailThreadIds E companyID gmailThreadIds) StatusExpectationFailed
         ''Could not update gmail thread IDs: '' (\<lambda>company. retE (Reply company)))))"

definition syncCompanyGmailMessages :: "env \<Rightarrow> err + gmailMessageData list \<Rightarrow> syncResult handler" where
  "syncCompanyGmailMessages E body rq =
     onErr (liftR (env_fromHex E (rq_vars rq ''id'')))
       (\<lambda>_. retE (Failure StatusBadRequest ''Invalid company id'')) (\<lambda>companyID.
     case rq_credentials rq of
       None \<Rightarrow> retE (Failure StatusUnauthorized ''Authentication failed'')
     | Some credentials \<Rightarrow>
         orFail (Companies_GetCompany E companyID) StatusNotFound ''Company not found: '' (\<lambda>_.
         orFailR body StatusBadRequest ''Could not parse body: '' (\<lambda>messages.
         bindE (onErr (Threads_GetThreadsByGmailMessageIds E (map gmd_MessageId messages))
           (\<lambda>_. retE Map.empty) retE) (\<lambda>existingThreads.
         bindE (sync_messages E (ac_ID credentials) (Companies_AddThread E companyID) existingThreads messages 0)
           (\<lambda>syncedCount.
         retE (Reply \<lparr>sr_synced = syncedCount, sr_total = length messages\<rparr>))))))"

end
