(* ===== verification/SpeakerHandlers.thy ===== *)
theory SpeakerHandlers
  imports ThreadHandling SpeakerParticipations Billing
begin

text \<open>
  The handlers on speakers (\<^verbatim>\<open>router/speaker.go\<close>), one definition each, built like those on companies.
\<close>

definition about_speaker :: "notificationKind \<Rightarrow> oid \<Rightarrow> CreateNotificationData" where
  "about_speaker kind i = (notification_data kind)\<lparr>cnd_Speaker := Some i\<rparr>"

abbreviation notify_speaker ::
  "env \<Rightarrow> request \<Rightarrow> notificationKind \<Rightarrow> speaker \<Rightarrow> (world, speaker reply) smonad" where
  "notify_speaker E rq kind s \<equiv> reply_and_notify E rq s (about_speaker kind (s_ID s))"

abbreviation existing_speaker ::
  "env \<Rightarrow> oid \<Rightarrow> (world, 'a reply) smonad \<Rightarrow> (world, 'a reply) smonad" where
  "existing_speaker E i k \<equiv>
     orFail (Speakers_GetSpeaker E i) StatusNotFound ''Invalid speaker ID: '' (\<lambda>_. k)"

section \<open>Reading\<close>

definition getSpeaker :: "env \<Rightarrow> speaker handler" where
  "getSpeaker E rq =
     orFail (Speakers_GetSpeaker E (id_var E rq ''id'')) StatusNotFound ''Unable to get speaker: '' (\<lambda>speaker.
     bindE (deref (s_Contact speaker)) (\<lambda>contactID.
     orFail (Contacts_GetContact E contactID) StatusNotFound ''Unable to get contact: '' (\<lambda>contact.
     retE (Reply (speaker\<lparr>s_ContactObject := Some contact\<rparr>)))))"

definition getSpeakerPublic :: "env \<Rightarrow> speakerPublic handler" where
  "getSpeakerPublic E rq =
     orFail (Speakers_GetSpeakerPublic E (id_var E rq ''id'')) StatusNotFound ''Unable to get speaker: ''
       (\<lambda>speaker. retE (Reply speaker))"

definition getSpeakers :: "env \<Rightarrow> speaker list handler" where
  "getSpeakers E rq =
     query_value rq ''event'' Atoi StatusBadRequest ''Invalid event ID format: '' (\<lambda>eventID.
     query_value rq ''member'' (env_fromHex E) StatusBadRequest ''Invalid member ID format: '' (\<lambda>memberID.
     query_value rq ''numRequests'' Atoi StatusBadRequest
       ''Number of Requests: Invalid Speaker ID format: '' (\<lambda>numReq.
     query_value rq ''maxSpeaksInRequest'' Atoi StatusBadRequest
       ''Max Speakers in Request: Invalid number format: '' (\<lambda>maxSpeaks.
     orFail (Speakers_GetSpeakers E \<lparr>gspo_EventID = eventID, gspo_MemberID = memberID,
         gspo_Name = optional_text rq ''name'', gspo_NumRequests = numReq, gspo_MaxSpeaksInRequest = maxSpeaks,
         gspo_SortingMethod = optional_text rq ''sortMethod''\<rparr>)
       StatusExpectationFailed ''Unable to get speakers: '' (\<lambda>speakers. retE (Reply speakers))))))"

definition getSpeakersPublic :: "env \<Rightarrow> speakerPublic list handler" where
  "getSpeakersPublic E rq =
     query_value rq ''event'' Atoi StatusBadRequest ''Invalid event ID format: '' (\<lambda>eventID.
     orFail (Speakers_GetPublicSpeakers E \<lparr>gspp_EventID = eventID, gspp_Name = optional_text rq ''name''\<rparr>)
       StatusExpectationFailed ''Unable to make query do database: ''
       (\<lambda>publicSpeakers. retE (Reply publicSpeakers)))"

definition getSpeakersByMembers :: "env \<Rightarrow> err + members_payload \<Rightarrow> speaker list handler" where
  "getSpeakersByMembers E body rq =
     orFailR body StatusBadRequest ''Could not parse body: '' (\<lambda>payload.
     if mpl_Members payload = [] then retE (Reply [])
     else
       orFailR (member_ids E (mpl_Members payload) []) StatusBadRequest ''Invalid member ID format: '' (\<lambda>memberIDs.
       orFail (Speakers_GetSpeakersByMembers E memberIDs (mpl_Event payload)) StatusExpectationFailed
         ''Unable to get speakers: '' (\<lambda>speakers. retE (Reply speakers))))"

section \<open>Creating, updating, deleting\<close>

definition createSpeaker :: "env \<Rightarrow> err + CreateSpeakerData \<Rightarrow> speaker handler" where
  "createSpeaker E body rq =
     orFailR (CreateSpeakerData_ParseBody body) StatusBadRequest ''Could not parse body: '' (\<lambda>cpd.
     orFail (Speakers_CreateSpeaker E cpd) StatusBadRequest ''Could not create speaker: '' (\<lambda>newSpeaker.
     notify_speaker E rq NotificationKindCreated newSpeaker))"

definition updateSpeaker :: "env \<Rightarrow> err + UpdateSpeakerData \<Rightarrow> speaker handler" where
  "updateSpeaker E body rq =
     (let speakerID = id_var E rq ''id'' in
      existing_speaker E speakerID (
      orFailR (UpdateSpeakerData_ParseBody body) StatusBadRequest ''Could not parse body: '' (\<lambda>usd.
      orFail (Speakers_UpdateSpeaker E speakerID usd) StatusExpectationFailed
        ''Could not update speaker data: '' (\<lambda>updatedSpeaker.
      notify_speaker E rq NotificationKindUpdated updatedSpeaker))))"

definition deleteSpeaker :: "env \<Rightarrow> speaker handler" where
  "deleteSpeaker E rq =
     orFail (Speakers_DeleteSpeaker E (id_var E rq ''id'')) StatusNotFound ''Error deleting speaker: ''
       (\<lambda>deletedSpeaker.
     reply_and_notify E rq deletedSpeaker
       ((about_speaker NotificationKindDeleted (s_ID deletedSpeaker))\<lparr>cnd_Name := s_Name deletedSpeaker\<rparr>))"

section \<open>Participations\<close>

definition addSpeakerParticipation :: "env \<Rightarrow> speaker handler" where
  "addSpeakerParticipation E rq =
     with_credentials rq (\<lambda>credentials.
     orFail (Speakers_AddParticipation E (id_var E rq ''id'') (ac_ID credentials)) StatusBadRequest
       ''Could not add participation to speaker: '' (\<lambda>updatedSpeaker.
     notify_speaker E rq NotificationKindUpdatedParticipation updatedSpeaker))"

definition updateSpeakerParticipation ::
  "env \<Rightarrow> err + UpdateSpeakerParticipationData \<Rightarrow> speaker handler" where
  "updateSpeakerParticipation E body rq =
     (let speakerID = id_var E rq ''id'' in
      existing_speaker E speakerID (
      orFail (UpdateSpeakerParticipationData_ParseBody E body) StatusBadRequest ''Could not parse body: '' (\<lambda>uspd.
      orFail (Speakers_UpdateSpeakerParticipation E speakerID uspd) StatusExpectationFailed
        ''Could not update speaker data: '' (\<lambda>updatedSpeaker.
      notify_speaker E rq NotificationKindUpdatedParticipation updatedSpeaker))))"

definition removeSpeakerParticipation :: "env \<Rightarrow> speaker handler" where
  "removeSpeakerParticipation E rq =
     (let i = id_var E rq ''id'' in
      orFail (Speakers_GetSpeaker E i) StatusNotFound ''Speaker not found: '' (\<lambda>_.
      orFail (Events_GetCurrentEvent E) StatusExpectationFailed ''Could not get current event: '' (\<lambda>event.
      orFail (Speakers_RemoveSpeakerParticipation E i (ev_ID event)) StatusExpectationFailed
        ''Could not remove participation: '' (\<lambda>speaker. retE (Reply speaker)))))"

definition stepSpeakerStatus :: "env \<Rightarrow> speaker handler" where
  "stepSpeakerStatus E rq =
     (let speakerID = id_var E rq ''id'' in
      orFailR (Atoi (rq_vars rq ''step'')) StatusBadRequest ''Invalid step: '' (\<lambda>step.
      existing_speaker E speakerID (
      orFail (Speakers_StepStatus E speakerID step) StatusExpectationFailed
        ''Could not update speaker status: '' (\<lambda>updatedSpeaker.
      notify_speaker E rq NotificationKindUpdatedParticipationStatus updatedSpeaker))))"

definition getSpeakerValidSteps :: "env \<Rightarrow> validStepsResponse handler" where
  "getSpeakerValidSteps E rq =
     (let speakerID = id_var E rq ''id'' in
      existing_speaker E speakerID (
      orFail (Speakers_GetSpeakerParticipationStatusValidSteps E speakerID) StatusBadRequest
        ''Speaker without participation on the current event: ''
        (\<lambda>steps. retE (Reply \<lparr>vsr_Steps = steps\<rparr>))))"

definition setSpeakerStatus :: "env \<Rightarrow> speaker handler" where
  "setSpeakerStatus E rq =
     (let speakerID = id_var E rq ''id'' in
      orFailR (ParticipationStatus_Parse True (rq_vars rq ''status'')) StatusBadRequest ''Invalid status: '' (\<lambda>status.
      existing_speaker E speakerID (
      orFail (Speakers_UpdateSpeakerParticipationStatus E speakerID status) StatusExpectationFailed
        ''Could not update speaker status: '' (\<lambda>updatedSpeaker.
      notify_speaker E rq NotificationKindUpdatedParticipationStatus updatedSpeaker))))"

definition subscribeToSpeaker :: "env \<Rightarrow> speaker handler" where
  "subscribeToSpeaker E rq =
     (let speakerID = id_var E rq ''id'' in
      existing_speaker E speakerID (
      with_credentials rq (\<lambda>credentials.
      orFail (Speakers_Subscribe E speakerID (ac_ID credentials)) StatusExpectationFailed
        ''Could not subscribe to speaker: '' (\<lambda>updatedSpeaker. retE (Reply updatedSpeaker)))))"

definition unsubscribeToSpeaker :: "env \<Rightarrow> speaker handler" where
  "unsubscribeToSpeaker E rq =
     (let speakerID = id_var E rq ''id'' in
      existing_speaker E speakerID (
      with_credentials rq (\<lambda>credentials.
      orFail (Speakers_Unsubscribe E speakerID (ac_ID credentials)) StatusExpectationFailed
        ''Could not subscribe to speaker: '' (\<lambda>updatedSpeaker. retE (Reply updatedSpeaker)))))"

section \<open>Threads\<close>

definition deleteSpeakerThread :: "env \<Rightarrow> speaker handler" where
  "deleteSpeakerThread E rq =
     (let threadID = id_var E rq ''threadID'' in
      with_credentials rq (\<lambda>_.
      orFail (Speakers_DeleteSpeakerThread E (id_var E rq ''id'') threadID) StatusNotFound
        ''Speaker or thread not found: '' (\<lambda>speaker.
      orFail (Threads_DeleteThread E threadID) StatusNotFound ''Thread not found: '' (\<lambda>_.
      retE (Reply speaker)))))"

text \<open>Unlike for companies, an invalid meeting leaves the post where it is.\<close>

definition new_meeting ::
  "env \<Rightarrow> oid \<Rightarrow> addThreadData \<Rightarrow> (oid option \<Rightarrow> (world, 'a reply) smonad) \<Rightarrow> (world, 'a reply) smonad" where
  "new_meeting E newPost atd k =
     (if atd_Kind atd \<noteq> Some ThreadKindMeeting then k None
      else
        bindE (deref (atd_Meeting atd)) (\<lambda>data.
        orFailR (case CreateMeetingData_Validate data of Some e \<Rightarrow> Inl e | None \<Rightarrow> Inr ())
          StatusBadRequest ''Invalid meeting data: '' (\<lambda>_.
        onErr (Meetings_CreateMeeting E data)
          (\<lambda>e. failing StatusExpectationFailed ''Could not create meeting: '' e (clean_up_post E newPost))
          (\<lambda>meeting. k (Some (me_ID meeting))))))"

definition addSpeakerThread :: "env \<Rightarrow> err + addThreadData \<Rightarrow> threadWithEntry handler" where
  "addSpeakerThread E body rq =
     (let speakerID = id_var E rq ''id'' in
      existing_speaker E speakerID (
      orFailR (addThreadData_ParseBody body) StatusBadRequest ''Could not parse body: '' (\<lambda>atd.
      with_credentials rq (\<lambda>credentials.
      bindE (deref (atd_Text atd)) (\<lambda>text.
      orFail (Posts_CreatePost E \<lparr>cpo_Member = ac_ID credentials, cpo_Text = text\<rparr>) StatusExpectationFailed
        ''Could not create post: '' (\<lambda>newPost.
      new_meeting E (po_ID newPost) atd (\<lambda>meetingIDPointer.
      bindE (deref (atd_Kind atd)) (\<lambda>kind.
      onErr (Threads_CreateThread E \<lparr>ctd_Entry = po_ID newPost, ctd_Meeting = meetingIDPointer,
          ctd_Kind = kind, ctd_GmailMessageId = [], ctd_Posted = None\<rparr>)
        (\<lambda>e. failing StatusExpectationFailed ''Could not create thread: '' e
          (bindE (clean_up_post E (po_ID newPost)) (\<lambda>_. clean_up_meeting E meetingIDPointer))) (\<lambda>newThread.
      onErr (Speakers_AddThread E speakerID (th_ID newThread))
        (\<lambda>e. failing StatusExpectationFailed ''Could not add thread to speaker: '' e
          (bindE (clean_up_post E (po_ID newPost)) (\<lambda>_.
           bindE (clean_up_meeting E meetingIDPointer) (\<lambda>_.
           clean_up_thread E (th_ID newThread))))) (\<lambda>updatedSpeaker.
      reply_and_notify E rq (thread_with_entry newThread newPost)
        ((about_speaker NotificationKindCreated (s_ID updatedSpeaker))\<lparr>cnd_Thread := Some (th_ID newThread)\<rparr>)))))))))))"

definition forget_speaker_thread :: "env \<Rightarrow> oid \<Rightarrow> oid \<Rightarrow> (world, unit) smonad" where
  "forget_speaker_thread E speakerID threadID =
     discardE (UpdateOne (Speakers E) (\<lambda>s. s_ID s = speakerID) (forget_thread threadID))"

definition getSpeakerThreads :: "env \<Rightarrow> participationCommunications list handler" where
  "getSpeakerThreads E rq =
     (let speakerID = id_var E rq ''id'' in
      orFail (Speakers_GetSpeaker E speakerID) StatusExpectationFailed ''Unexpected error: '' (\<lambda>speaker.
      if length (s_Participations speaker) = 0
      then retE (Failure StatusNotFound ''No participations found'')
      else participation_threads E (forget_speaker_thread E speakerID)
        (map (\<lambda>p. (sp_Event p, sp_Communications p, sp_GmailThreadIds p)) (s_Participations speaker)) []))"

section \<open>Images\<close>

definition setSpeakerPrivateImage :: "env \<Rightarrow> multipart \<Rightarrow> speaker handler" where
  "setSpeakerPrivateImage E form rq =
     (let speakerID = id_var E rq ''id'' in
      existing_speaker E speakerID (
      with_image E form (\<lambda>e. ''Error parsing form: '' @ err_text e) ''Invalid payload: '' not_an_image
        (\<lambda>currentEvent bytes objectSize kind.
      orFail (UploadSpeakerInternalImage E (ev_ID currentEvent) speakerID bytes objectSize kind)
        StatusExpectationFailed ''Couldn't upload file: '' (\<lambda>url.
      orFail (Speakers_UpdateSpeakerInternalImage E speakerID url) StatusExpectationFailed
        ''Couldn't update speaker internal image: '' (\<lambda>updatedSpeaker.
      notify_speaker E rq NotificationKindUpdatedPrivateImage updatedSpeaker)))))"

definition setSpeakerPublicImage :: "env \<Rightarrow> multipart \<Rightarrow> speaker handler" where
  "setSpeakerPublicImage E form rq =
     (let speakerID = id_var E rq ''id'' in
      existing_speaker E speakerID (
      with_image E form (\<lambda>_. exceeded ImageMaxSize) ''Invalid payload: '' not_an_image
        (\<lambda>currentEvent bytes objectSize kind.
      orFail (UploadSpeakerPublicImage E (ev_ID currentEvent) speakerID bytes objectSize kind)
        StatusExpectationFailed ''Couldn't upload file: '' (\<lambda>url.
      orFail (Speakers_UpdateSpeakerPublicImage E speakerID url) StatusExpectationFailed
        ''Couldn't update speaker internal image: '' (\<lambda>updatedSpeaker.
      notify_speaker E rq NotificationKindUpdatedPublicImage updatedSpeaker)))))"

definition setSpeakerCompanyImage :: "env \<Rightarrow> multipart \<Rightarrow> speaker handler" where
  "setSpeakerCompanyImage E form rq =
     (let speakerID = id_var E rq ''id'' in
      existing_speaker E speakerID (
      with_image E form (\<lambda>_. exceeded ImageMaxSize) ''Invalid payload: '' not_an_image
        (\<lambda>currentEvent bytes objectSize kind.
      orFail (UploadSpeakerCompanyImage E (ev_ID currentEvent) speakerID bytes objectSize kind)
        StatusExpectationFailed ''Couldn't upload file: '' (\<lambda>url.
      orFail (Speakers_UpdateSpeakerCompanyImage E speakerID url) StatusExpectationFailed
        ''Couldn't update speaker internal image: '' (\<lambda>updatedSpeaker.
      notify_speaker E rq NotificationKindUpdatedCompanyImage updatedSpeaker)))))"

section \<open>Flights\<close>

definition addSpeakerFlightInfo :: "env \<Rightarrow> err + CreateFlightInfoData \<Rightarrow> speaker handler" where
  "addSpeakerFlightInfo E body rq =
     (let speakerID = id_var E rq ''id'' in
      existing_speaker E speakerID (
      orFailR (CreateFlightInfoData_ParseBody body) StatusBadRequest ''Could not parse body: '' (\<lambda>cfid.
      orFail (FlightInfo_CreateFlightInfo E cfid) StatusExpectationFailed
        ''Could not create flight info: '' (\<lambda>newFlightInfo.
      onErr (Speakers_AddSpeakerFlightInfo E speakerID (fi_ID newFlightInfo))
        (\<lambda>e. failing StatusExpectationFailed ''Could not add flight info to speaker: '' e
          (discardE (FlightInfo_DeleteFlightInfo E (fi_ID newFlightInfo)))) (\<lambda>updatedSpeaker.
      notify_speaker E rq NotificationKindUpdatedParticipation updatedSpeaker)))))"

text \<open>When the flight cannot be deleted its reference is put back.\<close>

definition deleteSpeakerFlightInfo :: "env \<Rightarrow> speaker handler" where
  "deleteSpeakerFlightInfo E rq =
     (let speakerID = id_var E rq ''id''; flightInfoID = id_var E rq ''flightInfoID'' in
      existing_speaker E speakerID (
      bindE (discardE (FlightInfo_GetFlightInfo E flightInfoID)) (\<lambda>_.
      orFail (Speakers_RemoveSpeakerFlightInfo E speakerID flightInfoID) StatusExpectationFailed
        ''Could not remove flight info from speaker: '' (\<lambda>updatedSpeaker.
      onErr (FlightInfo_DeleteFlightInfo E flightInfoID)
        (\<lambda>e. failing StatusExpectationFailed ''Could not delete flight info: '' e
          (discardE (Speakers_AddSpeakerFlightInfo E speakerID flightInfoID))) (\<lambda>_.
      notify_speaker E rq NotificationKindUpdatedParticipation updatedSpeaker)))))"

section \<open>Mails\<close>

definition updateSpeakerGmailThreadIds :: "env \<Rightarrow> err + string list \<Rightarrow> speaker handler" where
  "updateSpeakerGmailThreadIds E body rq =
     onErr (liftR (env_fromHex E (rq_vars rq ''id'')))
       (\<lambda>_. retE (Failure StatusBadRequest ''Invalid speaker id'')) (\<lambda>speakerID.
     if rq_credentials rq = None then retE (Failure StatusUnauthorized ''Authentication failed'')
     else
       orFail (Speakers_GetSpeaker E speakerID) StatusNotFound ''Speaker not found: '' (\<lambda>_.
       orFailR body StatusBadRequest ''Could not parse body: '' (\<lambda>gmailThreadIds.
       orFail (Speakers_UpdateSpeakerGmailThreadIds E speakerID gmailThreadIds) StatusExpectationFailed
         ''Could not update gmail thread IDs: '' (\<lambda>speaker. retE (Reply speaker)))))"

definition syncSpeakerGmailMessages :: "env \<Rightarrow> err + gmailMessageData list \<Rightarrow> syncResult handler" where
  "syncSpeakerGmailMessages E body rq =
     onErr (liftR (env_fromHex E (rq_vars rq ''id'')))
       (\<lambda>_. retE (Failure StatusBadRequest ''Invalid speaker id'')) (\<lambda>speakerID.
     case rq_credentials rq of
       None \<Rightarrow> retE (Failure StatusUnauthorized ''Authentication failed'')
     | Some credentials \<Rightarrow>
         orFail (Speakers_GetSpeaker E speakerID) StatusNotFound ''Speaker not found: '' (\<lambda>_.
         orFailR body StatusBadRequest ''Could not parse body: '' (\<lambda>messages.
         bindE (onErr (Threads_GetThreadsByGmailMessageIds E (map gmd_MessageId messages))
           (\<lambda>_. retE Map.empty) retE) (\<lambda>existingThreads.
         bindE (sync_messages E (ac_ID credentials) (Speakers_AddThread E speakerID) existingThreads messages 0)
           (\<lambda>syncedCount.
         retE (Reply \<lparr>sr_synced = syncedCount, sr_total = length messages\<rparr>))))))"

end
