(* ===== verification/EventDays.thy ===== *)
theory EventDays
  imports Records
begin

text \<open>
  The length of an event in days (\<^verbatim>\<open>DurationInDays\<close>, \<^verbatim>\<open>models/event.go\<close>). The code steps from the first moment
  of the event by 24 hours until the \<^emph>\<open>day of the month\<close> is that of the last moment. The loop has no bound,
  so it is a partial function whose value \<open>None\<close> means that it does not return; it is shown to return
  always, and to be right for events of at most 28 days.

  \<^verbatim>\<open>time.Time.Day\<close> is the day of the month in the Gregorian calendar, in UTC (the database gives times
  in UTC). Counted from the first of March of a year divisible by 400, years, centuries and cycles
  of 400 years end with their leap day, so each is cut off by a division.
\<close>

section \<open>The day of the month\<close>

definition day_length :: int where
  "day_length = 1000 * 60 * 60 * 24"

text \<open>Days since the first of March of the year 0, from milliseconds since 1970.\<close>

definition day_number :: "time \<Rightarrow> int" where
  "day_number t = t div day_length + 719468"

text \<open>What is left of \<open>d\<close> after up to three periods of length \<open>K\<close>; the fourth may be a day longer.\<close>

definition rest :: "int \<Rightarrow> int \<Rightarrow> int" where
  "rest K d = d - K * min 3 (d div K)"

definition day_of_century :: "int \<Rightarrow> int" where
  "day_of_century z = rest 36524 (z mod 146097)"

definition day_of_year :: "int \<Rightarrow> int" where
  "day_of_year z = rest 365 (day_of_century z mod 1461)"

text \<open>The months from March on have 31, 30, 31, 30, 31, 31, 30, 31, 30, 31, 31 days.\<close>

definition day_of_month :: "int \<Rightarrow> int" where
  "day_of_month y = (let month = (5 * y + 2) div 153 in y - (153 * month + 2) div 5 + 1)"

definition Time_Day :: "time \<Rightarrow> int" where
  "Time_Day t = day_of_month (day_of_year (day_number t))"

lemma calendar_examples:
  "Time_Day 0 = 1" "Time_Day 951782400000 = 29" "Time_Day 951868800000 = 1"
  "Time_Day 1709164800000 = 29" "Time_Day 1740787199999 = 28" "Time_Day 1740787200000 = 1"
  by code_simp+

section \<open>The loop\<close>

partial_function (option) count_days :: "time \<Rightarrow> time \<Rightarrow> int \<Rightarrow> int option" where
  "count_days start end result =
     (if Time_Day start \<noteq> Time_Day end then count_days (start + day_length) end (result + 1)
      else Some result)"

definition Event_DurationInDays :: "event \<Rightarrow> (err + int) option" where
  "Event_DurationInDays e = (case (ev_Begin e, ev_End e) of
     (Some start, Some end) \<Rightarrow> map_option Inr (count_days start end 1)
   | _ \<Rightarrow> Some (Inl (Err (''event's dates not set'' @ [CHR 0x27]))))"

definition EventPublic_DurationInDays :: "eventPublic \<Rightarrow> (err + int) option" where
  "EventPublic_DurationInDays e = (case (evp_Begin e, evp_End e) of
     (Some start, Some end) \<Rightarrow> map_option Inr (count_days start end 1)
   | _ \<Rightarrow> Some (Inl (Err (''event's dates not set'' @ [CHR 0x27]))))"

section \<open>From one day to the next\<close>

lemma rest_eq:
  assumes "0 < K" "0 \<le> d" "d \<le> 4 * K"
  shows "rest K d = (if d = 4 * K then K else d mod K)"
proof (cases "d = 4 * K")
  case True
  with assms show ?thesis by (simp add: rest_def)
next
  case False
  with assms have "d < 4 * K" by simp
  then have "\<not> 4 \<le> d div K"
    using mult_right_mono [of 4 "d div K" K] div_mult_mod_eq [of d K] pos_mod_sign [of K d] assms(1)
    by linarith
  then have "min 3 (d div K) = d div K" by simp
  with False show ?thesis
    by (simp only: rest_def minus_mult_div_eq_mod if_False)
qed

lemma mod_next: "0 < K \<Longrightarrow> (d + 1) mod K = (if d mod K = K - 1 then 0 else d mod K + 1)" for d K :: int
  by (smt (verit, best) mod_add_left_eq mod_pos_pos_trivial mod_self pos_mod_bound pos_mod_sign)

lemma rest_next:
  assumes "0 < K" "0 \<le> d" "d < 4 * K"
  shows "rest K (d + 1) = rest K d + 1 \<or> rest K (d + 1) = 0 \<and> rest K d = K - 1"
proof (cases "d + 1 = 4 * K")
  case True
  then have "d = (K - 1) + 3 * K" by simp
  then have "d mod K = (K - 1) mod K" by (simp only: mod_mult_self1)
  also have "(K - 1) mod K = K - 1"
    using assms(1) by (intro mod_pos_pos_trivial) simp_all
  finally have "d mod K = K - 1" .
  with True assms show ?thesis by (simp add: rest_eq)
next
  case False
  with assms show ?thesis by (simp add: rest_eq mod_next)
qed

lemma rest_bounds:
  assumes "0 < K" "0 \<le> d" "d \<le> 4 * K"
  shows "0 \<le> rest K d" "rest K d \<le> K"
  using assms pos_mod_bound [of K d] pos_mod_sign [of K d] by (auto simp: rest_eq less_imp_le)

lemma day_of_century_next:
  "day_of_century (z + 1) = day_of_century z + 1 \<or>
   day_of_century (z + 1) = 0 \<and> day_of_century z \<in> {36523, 36524}"
proof (cases "z mod 146097 = 146096")
  case True
  then show ?thesis
    by (simp add: day_of_century_def mod_next rest_eq)
next
  case False
  moreover have "0 \<le> z mod 146097" "z mod 146097 < 146097" by simp_all
  ultimately show ?thesis
    using rest_next [of 36524 "z mod 146097"] by (auto simp: day_of_century_def mod_next)
qed

lemma day_of_year_next:
  "day_of_year (z + 1) = day_of_year z + 1 \<or>
   day_of_year (z + 1) = 0 \<and> day_of_year z \<in> {364, 365}"
proof -
  let ?d = "day_of_century z"
  have "rest 365 ((?d + 1) mod 1461) = rest 365 (?d mod 1461) + 1 \<or>
    rest 365 ((?d + 1) mod 1461) = 0 \<and> rest 365 (?d mod 1461) \<in> {364, 365}"
  proof (cases "?d mod 1461 = 1460")
    case True
    then show ?thesis by (simp add: mod_next rest_eq)
  next
    case False
    moreover have "0 \<le> ?d mod 1461" "?d mod 1461 < 1461" by simp_all
    ultimately show ?thesis
      using rest_next [of 365 "?d mod 1461"] by (auto simp: mod_next)
  qed
  then have same: "rest 365 ((?d + 1) mod 1461) \<in> {rest 365 (?d mod 1461) + 1, 0}"
    "rest 365 ((?d + 1) mod 1461) \<noteq> rest 365 (?d mod 1461) + 1 \<longrightarrow> rest 365 (?d mod 1461) \<in> {364, 365}" by blast+
  have ends: "rest 365 (36523 mod 1461) = 364" "rest 365 (36524 mod 1461) = 365" "rest 365 (0 mod 1461) = 0"
    by (simp_all add: rest_eq)
  from day_of_century_next [of z]
  consider "day_of_century (z + 1) = ?d + 1" | "day_of_century (z + 1) = 0" "?d = 36523" | "day_of_century (z + 1) = 0" "?d = 36524"
    by blast
  then show ?thesis
  proof cases
    case 1
    then show ?thesis unfolding day_of_year_def 1 using same by blast
  next
    case 2
    then show ?thesis unfolding day_of_year_def 2 ends by blast
  next
    case 3
    then show ?thesis unfolding day_of_year_def 3 ends by blast
  qed
qed

lemma day_of_year_bounds: "0 \<le> day_of_year z" "day_of_year z \<le> 365"
  using rest_bounds [of 365 "day_of_century z mod 1461"] pos_mod_bound [of 1461 "day_of_century z"]
  by (simp_all add: day_of_year_def)

text \<open>The months: a finite check.\<close>

lemma months:
  "list_all (\<lambda>y. day_of_month (y + 1) = day_of_month y + 1 \<or> day_of_month (y + 1) = 1 \<and> 28 \<le> day_of_month y)
     (upto 0 364)"
  "list_all (\<lambda>y. 1 \<le> day_of_month y \<and> day_of_month y \<le> 31) (upto 0 365)"
  by code_simp+

definition Day :: "int \<Rightarrow> int" where
  "Day z = day_of_month (day_of_year z)"

lemma Time_Day_eq: "Time_Day t = Day (day_number t)"
  by (simp add: Time_Day_def Day_def)

lemma Day_next: "Day (z + 1) = Day z + 1 \<or> Day (z + 1) = 1 \<and> 28 \<le> Day z"
proof -
  let ?y = "day_of_year z"
  have ends: "day_of_month 0 = 1" "day_of_month 364 = 28" "day_of_month 365 = 29"
    by code_simp+
  show ?thesis
  proof (cases "day_of_year (z + 1) = ?y + 1")
    case True
    with day_of_year_bounds(2) [of "z + 1"] have "?y \<in> set (upto 0 364)"
      using day_of_year_bounds(1) [of z] by simp
    then show ?thesis
      using months(1) True by (auto simp: Day_def list_all_iff)
  next
    case False
    then show ?thesis using day_of_year_next [of z] ends by (auto simp: Day_def)
  qed
qed

lemma Day_bounds: "1 \<le> Day z" "Day z \<le> 31"
  using months(2) day_of_year_bounds [of z] by (auto simp: Day_def list_all_iff)

lemma Day_period: "Day (z + 146097 * k) = Day z"
  by (simp add: Day_def day_of_year_def day_of_century_def)

text \<open>Within four weeks no day of the month comes twice.\<close>

lemma Day_apart: "Day (z + int k) = Day z + int k \<or> Day (z + int k) + 28 \<le> Day z + int k \<and> Day (z + int k) \<le> int k"
  if "k < 28"
  using that
proof (induction k)
  case 0
  then show ?case by simp
next
  case (Suc k)
  have next_day: "Day (z + int (Suc k)) = Day (z + int k + 1)"
    by (rule arg_cong [where f = Day]) simp
  show ?case
    using Suc Day_next [of "z + int k"] unfolding next_day by auto
qed

lemma Day_distinct: "Day (z + int k) \<noteq> Day z" if "0 < k" "k < 28"
  using Day_apart [of k z] that by auto

section \<open>The loop returns\<close>

lemma day_number_add: "day_number (t + day_length * k) = day_number t + k"
  by (simp add: day_number_def day_length_def)

lemma count_days_steps:
  "(\<And>i. i < k \<Longrightarrow> Day (day_number start + int i) \<noteq> Time_Day end) \<Longrightarrow>
   Day (day_number start + int k) = Time_Day end \<Longrightarrow>
   count_days start end result = Some (result + int k)"
proof (induction k arbitrary: start result)
  case 0
  then show ?case by (simp add: count_days.simps Time_Day_eq)
next
  case (Suc k)
  have num: "day_number (start + day_length) = day_number start + 1"
    using day_number_add [of start 1] by simp
  have "count_days (start + day_length) end (result + 1) = Some (result + 1 + int k)"
  proof (rule Suc.IH)
    fix i assume "i < k"
    then show "Day (day_number (start + day_length) + int i) \<noteq> Time_Day end"
      using Suc.prems(1) [of "Suc i"] by (simp add: num add.assoc)
  next
    show "Day (day_number (start + day_length) + int k) = Time_Day end"
      using Suc.prems(2) by (simp add: num add.assoc)
  qed
  moreover have "Time_Day start \<noteq> Time_Day end"
    using Suc.prems(1) [of 0] by (simp add: Time_Day_eq)
  ultimately show ?case
    by (subst count_days.simps) simp
qed

lemma count_days_returns:
  "\<exists>k. count_days start end result = Some (result + int k) \<and> int k < 146097"
proof -
  let ?z = "day_number start" and ?d = "day_number end - day_number start"
  let ?P = "\<lambda>k. Day (?z + int k) = Time_Day end"
  have "day_number end = ?z + ?d mod 146097 + 146097 * (?d div 146097)"
    using div_mult_mod_eq [of ?d 146097] by linarith
  then have "?P (nat (?d mod 146097))"
    using Day_period [of "?z + ?d mod 146097" "?d div 146097"] by (simp add: Time_Day_eq)
  then have least: "?P (LEAST k. ?P k)" "(LEAST k. ?P k) \<le> nat (?d mod 146097)"
    by (rule LeastI, rule Least_le)
  have "count_days start end result = Some (result + int (LEAST k. ?P k))"
    using least(1) by (rule count_days_steps [rotated]) (drule not_less_Least, simp)
  moreover have "int (LEAST k. ?P k) < 146097"
    using least(2) pos_mod_bound [of 146097 ?d] by linarith
  ultimately show ?thesis by blast
qed

text \<open>
  C29: The loop of \<^verbatim>\<open>DurationInDays\<close> returns for every event, whatever its two dates are (also when the end is
  before the beginning): with dates it gives at least 1, and less than the days of 400 years; without them
  it gives the error.
\<close>

theorem DurationInDays_terminates:
  "\<exists>r. Event_DurationInDays e = Some r \<and>
     (case r of
        Inl x \<Rightarrow> (ev_Begin e = None \<or> ev_End e = None) \<and> x = Err (''event's dates not set'' @ [CHR 0x27])
      | Inr n \<Rightarrow> ev_Begin e \<noteq> None \<and> ev_End e \<noteq> None \<and> 1 \<le> n \<and> n \<le> 146097)"
proof (cases "ev_Begin e"; cases "ev_End e")
  fix start "end" assume "ev_Begin e = Some start" "ev_End e = Some end"
  with count_days_returns [of start "end" 1] show ?thesis
    by (force simp: Event_DurationInDays_def)
qed (simp_all add: Event_DurationInDays_def)

text \<open>
  C30: The number of days is right for an event of up to 28 days, counting every day it touches. (A longer
  one can be counted wrong: the loop stops at the first day with the same number in its month.)
\<close>

theorem DurationInDays_counts:
  assumes "ev_Begin e = Some start" "ev_End e = Some end"
    and "0 \<le> end div day_length - start div day_length" "end div day_length - start div day_length < 28"
  shows "Event_DurationInDays e = Some (Inr (end div day_length - start div day_length + 1))"
proof -
  define k where "k = nat (end div day_length - start div day_length)"
  have k: "day_number start + int k = day_number end" "k < 28"
    using assms(3,4) by (simp_all add: k_def day_number_def)
  have "count_days start end 1 = Some (1 + int k)"
  proof (rule count_days_steps)
    fix i assume "i < k"
    moreover from k have "k - i < 28" by linarith
    ultimately show "Day (day_number start + int i) \<noteq> Time_Day end"
      using Day_distinct [of "k - i" "day_number start + int i"] k by (auto simp: Time_Day_eq of_nat_diff)
  qed (simp add: k Time_Day_eq)
  moreover have "1 + int k = end div day_length - start div day_length + 1"
    using assms(3) by (simp add: k_def)
  ultimately show ?thesis
    by (simp add: assms Event_DurationInDays_def)
qed

definition january :: event where
  "january = \<lparr>ev_ID = 30, ev_Name = ''SINFO 30'', ev_Begin = Some 1672531200000, ev_End = Some 1672963200000,
     ev_Themes = [], ev_Packages = [], ev_Items = [], ev_Meetings = [], ev_Sessions = [], ev_Teams = [],
     ev_CalendarUrl = []\<rparr>"

text \<open>From the first of January 2023 to the sixth: six days.\<close>

theorem DurationInDays_counts_witness:
  "Event_DurationInDays january = Some (Inr 6)"
  using DurationInDays_counts [of january 1672531200000 1672963200000]
  by (simp add: january_def day_length_def)

text \<open>From the first of January to the first of February: one day.\<close>

lemma long_event_miscounted:
  "Event_DurationInDays (january\<lparr>ev_End := Some (1672531200000 + 31 * day_length)\<rparr>) = Some (Inr 1)"
proof -
  have "Time_Day 1672531200000 = 1" "Time_Day 1675209600000 = 1" by code_simp+
  then show ?thesis
    by (simp add: january_def day_length_def Event_DurationInDays_def count_days.simps)
qed

end
