(* ===== verification/EventHandlers.thy ===== *)
theory EventHandlers
  imports ThreadHandling PublicSessions EventDays Companies
begin

text \<open>
  The handlers on events (\<^verbatim>\<open>router/events.go\<close>), one definition each. Most work on the current event. The
  calendar file is written by a library: what it makes of the name of the calendar and its entries is a
  parameter, \<open>serialize\<close>.
\<close>

section \<open>Reading\<close>

definition getEvents :: "env \<Rightarrow> event list handler" where
  "getEvents E rq =
     query_value rq ''before'' (env_parseTime E) StatusBadRequest ''Invalid date format (before): '' (\<lambda>before.
     query_value rq ''after'' (env_parseTime E) StatusBadRequest ''Invalid date format (after): '' (\<lambda>after.
     query_value rq ''during'' (env_parseTime E) StatusBadRequest ''Invalid date format (during): '' (\<lambda>during.
     orFail (Events_GetEvents E \<lparr>geo_Name = optional_text rq ''name'', geo_Before = before, geo_After = after,
         geo_During = during\<rparr>) StatusExpectationFailed ''Unable to make query do database: ''
       (\<lambda>events. retE (Reply events)))))"

text \<open>A value that does not parse counts as absent.\<close>

definition optional_bool :: "request \<Rightarrow> string \<Rightarrow> bool option" where
  "optional_bool rq name = (case ParseBool (rq_query rq name) of Inl _ \<Rightarrow> None | Inr b \<Rightarrow> Some b)"

definition getEventsPublic :: "env \<Rightarrow> eventPublic list handler" where
  "getEventsPublic E rq =
     orFail (Events_GetPublicEvents E \<lparr>gpe_Current = optional_bool rq ''current'',
         gpe_PastEvents = optional_bool rq ''pastEvents''\<rparr>) StatusExpectationFailed
       ''Unable to make query do database: '' (\<lambda>events. retE (Reply events))"

definition getLatestEvent :: "env \<Rightarrow> event handler" where
  "getLatestEvent E rq =
     orFail (Events_GetCurrentEvent E) StatusNotFound ''Could not find latest event: '' (\<lambda>event. retE (Reply event))"

definition getEvent :: "env \<Rightarrow> event handler" where
  "getEvent E rq =
     orFailR (Atoi (rq_vars rq ''id'')) StatusNotFound ''Could not find event: '' (\<lambda>i.
     orFail (Events_GetEvent E i) StatusNotFound ''Could not find event: '' (\<lambda>event. retE (Reply event)))"

section \<open>Creating, updating, deleting\<close>

definition createEvent :: "env \<Rightarrow> err + CreateEventData \<Rightarrow> event handler" where
  "createEvent E body rq =
     orFailR (CreateEventData_ParseBody body) StatusBadRequest ''Could not parse body: '' (\<lambda>ced.
     orFail (Events_CreateEvent E ced) StatusBadRequest ''Could not create event: ''
       (\<lambda>newEvent. retE (Reply newEvent)))"

definition updateEvent :: "env \<Rightarrow> err + UpdateEventData \<Rightarrow> event handler" where
  "updateEvent E body rq =
     orFail (Events_GetCurrentEvent E) StatusExpectationFailed ''Could not find current event: '' (\<lambda>currentEvent.
     bindE (getsE (\<lambda>w. env_now E (w_tick w))) (\<lambda>now.
     orFailR (UpdateEventData_ParseBody now body) StatusBadRequest ''Could not parse body: '' (\<lambda>ued.
     orFail (Events_UpdateEvent E (ev_ID currentEvent) ued) StatusExpectationFailed
       ''Could not update event: '' (\<lambda>updatedEvent. retE (Reply updatedEvent)))))"

definition deleteEvent :: "env \<Rightarrow> event handler" where
  "deleteEvent E rq =
     orFailR (Atoi (rq_vars rq ''id'')) StatusNotFound ''Could not convert event ID to integer: '' (\<lambda>i.
     orFail (Events_DeleteEvent E i) StatusNotFound ''Could not delete event: '' (\<lambda>event. retE (Reply event)))"

text \<open>The handlers that change the current event find it first, and answer 404 without one.\<close>

abbreviation on_current_event :: "env \<Rightarrow> (event \<Rightarrow> (world, 'a reply) smonad) \<Rightarrow> (world, 'a reply) smonad" where
  "on_current_event E k \<equiv>
     orFail (Events_GetCurrentEvent E) StatusNotFound ''Could not find current event: '' k"

text \<open>
  The number of themes must be that of the days, except that none may be given. (That the loop behind
  \<open>DurationInDays\<close> does not return is a value of its model, which it never has.)
\<close>

definition updateEventThemes :: "env \<Rightarrow> err + UpdateEventThemesData \<Rightarrow> event handler" where
  "updateEventThemes E body rq =
     on_current_event E (\<lambda>currentEvent.
     orFailR (UpdateEventThemesData_ParseBody body) StatusBadRequest ''Could not parse body: '' (\<lambda>uetd.
     orFailR (case Event_DurationInDays currentEvent of None \<Rightarrow> Inl (Fatal ''does not return'') | Some r \<Rightarrow> r)
       StatusBadRequest ''Event without dates yet: '' (\<lambda>days.
     if (case uetd_Themes uetd of None \<Rightarrow> False
         | Some themes \<Rightarrow> length themes > 0 \<and> int (length themes) \<noteq> days)
     then retE (Failure StatusBadRequest
       (''Number of themes must be equal to the event's duration ('' @ int_string days @ '' days).''))
     else
       orFail (Events_UpdateThemes E (ev_ID currentEvent) uetd) StatusExpectationFailed
         ''Could not update event's themes: '' (\<lambda>updatedEvent. retE (Reply updatedEvent)))))"

section \<open>Packages, items, sessions, meetings, teams\<close>

definition addPackageToEvent :: "env \<Rightarrow> err + AddEventPackageData \<Rightarrow> event handler" where
  "addPackageToEvent E body rq =
     on_current_event E (\<lambda>currentEvent.
     orFailR (AddEventPackageData_ParseBody body) StatusBadRequest ''Could not parse body: '' (\<lambda>aepd.
     bindE (deref (aepd_Template aepd)) (\<lambda>template.
     orFail (Packages_GetPackage E template) StatusNotFound ''Package not found: '' (\<lambda>_.
     orFail (Events_AddPackage E (ev_ID currentEvent) aepd) StatusExpectationFailed
       ''Could not save package on event: '' (\<lambda>newEvent. retE (Reply newEvent))))))"

definition removePackageFromEvent :: "env \<Rightarrow> event handler" where
  "removePackageFromEvent E rq =
     on_current_event E (\<lambda>currentEvent.
     orFail (Events_RemovePackage E (ev_ID currentEvent) (id_var E rq ''id'')) StatusExpectationFailed
       ''Could not remove package from the current event: '' (\<lambda>newEvent. retE (Reply newEvent)))"

definition updatePackageFromEvent :: "env \<Rightarrow> err + UpdateEventPackageData \<Rightarrow> event handler" where
  "updatePackageFromEvent E body rq =
     on_current_event E (\<lambda>currentEvent.
     orFailR (UpdateEventPackageData_ParseBody body) StatusBadRequest ''Could not parse body: '' (\<lambda>uepd.
     orFail (Events_UpdatePackage E (ev_ID currentEvent) (id_var E rq ''id'') uepd) StatusExpectationFailed
       ''Could not update template on the current event: '' (\<lambda>newEvent. retE (Reply newEvent))))"

definition addItemToEvent :: "env \<Rightarrow> err + AddEventItemData \<Rightarrow> event handler" where
  "addItemToEvent E body rq =
     on_current_event E (\<lambda>currentEvent.
     orFailR (AddEventItemData_ParseBody body) StatusBadRequest ''Could not parse body: '' (\<lambda>aeid.
     bindE (deref (aeid_ItemID aeid)) (\<lambda>itemID.
     orFail (Items_GetItem E itemID) StatusNotFound ''Could not find item: '' (\<lambda>_.
     orFail (Events_AddItem E (ev_ID currentEvent) aeid) StatusExpectationFailed
       ''Could not save item on event: '' (\<lambda>updatedEvent. retE (Reply updatedEvent))))))"

definition removeItemToEvent :: "env \<Rightarrow> event handler" where
  "removeItemToEvent E rq =
     on_current_event E (\<lambda>currentEvent.
     orFail (Events_RemoveItem E (ev_ID currentEvent) (id_var E rq ''id'')) StatusExpectationFailed
       ''Could not remove item from event: '' (\<lambda>updatedEvent. retE (Reply updatedEvent)))"

text \<open>A session that cannot be listed in the event is deleted again.\<close>

definition addSessionToEvent :: "env \<Rightarrow> err + CreateSessionData \<Rightarrow> event handler" where
  "addSessionToEvent E body rq =
     on_current_event E (\<lambda>currentEvent.
     orFail (CreateSessionData_ParseBody E body) StatusBadRequest ''Could not parse body: '' (\<lambda>csd.
     orFail (Sessions_CreateSession E csd) StatusExpectationFailed ''Could not create session: '' (\<lambda>createdSession.
     onErr (Events_AddSession E (ev_ID currentEvent) (se_ID createdSession))
       (\<lambda>e. failing StatusExpectationFailed ''Could not save session on event: '' e
         (discardE (Sessions_DeleteSession E (se_ID createdSession)))) (\<lambda>updatedEvent.
     reply_and_notify E rq updatedEvent
       ((notification_data NotificationKindCreated)\<lparr>cnd_Session := Some (se_ID createdSession)\<rparr>)))))"

text \<open>A meeting that cannot be listed is left.\<close>

definition addMeetingToEvent :: "env \<Rightarrow> err + CreateMeetingData \<Rightarrow> event handler" where
  "addMeetingToEvent E body rq =
     on_current_event E (\<lambda>currentEvent.
     orFailR (CreateMeetingData_ParseBody body) StatusBadRequest ''Could not parse body: '' (\<lambda>cmd.
     orFail (Meetings_CreateMeeting E cmd) StatusExpectationFailed ''Could not create a new meeting: '' (\<lambda>newMeeting.
     orFail (Events_AddMeeting E (ev_ID currentEvent) (me_ID newMeeting)) StatusExpectationFailed
       ''Could not save meeting on event: '' (\<lambda>updatedEvent. retE (Reply updatedEvent)))))"

definition removeMeetingFromEvent :: "env \<Rightarrow> event handler" where
  "removeMeetingFromEvent E rq =
     (let meetingID = id_var E rq ''id'' in
      on_current_event E (\<lambda>currentEvent.
      orFail (Meetings_GetMeeting E meetingID) StatusNotFound ''Could not find meeting: '' (\<lambda>_.
      orFail (Events_RemoveMeeting E (ev_ID currentEvent) meetingID) StatusExpectationFailed
        ''Could not remove meeting from event: '' (\<lambda>updatedEvent.
      orFail (Meetings_DeleteMeeting E meetingID) StatusExpectationFailed ''Could not delete meeting: '' (\<lambda>_.
      retE (Reply updatedEvent))))))"

definition removeTeamFromEvent :: "env \<Rightarrow> event handler" where
  "removeTeamFromEvent E rq =
     (let teamID = id_var E rq ''id'' in
      on_current_event E (\<lambda>currentEvent.
      orFail (Teams_GetTeam E teamID) StatusNotFound ''Could not find team: '' (\<lambda>_.
      orFail (Events_RemoveTeam E (ev_ID currentEvent) teamID) StatusExpectationFailed
        ''Could not remove team from event: '' (\<lambda>updatedEvent. retE (Reply updatedEvent)))))"

section \<open>The calendar\<close>

record calendarEntry =
  ce_ID :: string
  ce_Created :: time
  ce_DtStamp :: time
  ce_Summary :: string
  ce_Description :: string
  ce_Location :: string
  ce_StartAt :: time
  ce_EndAt :: time

definition session_kind_name :: "sessionKind \<Rightarrow> string" where
  "session_kind_name kind =
     (if kind = SessionKindTalk then ''Keynote''
      else if kind = SessionKindWorkshop then ''Workshop''
      else if kind = SessionKindPresentation then ''Presentation''
      else ''Session'')"

fun speaker_names :: "speakerPublic list \<Rightarrow> string \<Rightarrow> string" where
  "speaker_names [] speakerNames = speakerNames"
| "speaker_names (s # ss) speakerNames = speaker_names ss (speakerNames @ sp_pub_Name s @ '', '')"

text \<open>
  Workshops and presentations are those of a company, all other sessions of speakers; both are followed
  without a check. The slice that takes off the last comma is out of range when there was none.
\<close>

definition session_summary :: "sessionPublic \<Rightarrow> err + string" where
  "session_summary session =
     (let kind = sep_Kind session; dash = '' - '' @ session_kind_name kind in
      if kind = SessionKindWorkshop \<or> kind = SessionKindPresentation
      then (case sep_Company session of
          None \<Rightarrow> Inl (Panic ''nil pointer dereference'')
        | Some c \<Rightarrow> Inr (cop_Name c @ dash))
      else (case sep_Speakers session of
          None \<Rightarrow> Inl (Panic ''nil pointer dereference'')
        | Some ss \<Rightarrow>
            let speakerNames = speaker_names ss [] in
            if length speakerNames < 2 then Inl (Panic ''slice bounds out of range'')
            else Inr (take (length speakerNames - 2) speakerNames @ dash)))"

definition calendar_entry :: "env \<Rightarrow> nat \<Rightarrow> event \<Rightarrow> sessionPublic \<Rightarrow> err + calendarEntry" where
  "calendar_entry E t currentEvent session = (case session_summary session of
     Inl e \<Rightarrow> Inl e
   | Inr summary \<Rightarrow> Inr \<lparr>
       ce_ID = ''sinfo-'' @ int_string (ev_ID currentEvent) @ ''-'' @ env_hex E (sep_ID session),
       ce_Created = env_now E t, ce_DtStamp = env_now E t, ce_Summary = summary,
       ce_Description = session_kind_name (sep_Kind session) @ '' Title:'' @ [CHR 0x0A] @ sep_Title session @
         [CHR 0x0A, CHR 0x0A] @ ''Description:'' @ [CHR 0x0A] @ sep_Description session,
       ce_Location = sep_Place session, ce_StartAt = sep_Begin session, ce_EndAt = sep_End session\<rparr>)"

fun calendar_entries ::
  "env \<Rightarrow> nat \<Rightarrow> event \<Rightarrow> sessionPublic list \<Rightarrow> calendarEntry list \<Rightarrow> err + calendarEntry list" where
  "calendar_entries E t currentEvent [] entries = Inr entries"
| "calendar_entries E t currentEvent (s # ss) entries = (case calendar_entry E t currentEvent s of
     Inl e \<Rightarrow> Inl e
   | Inr entry \<Rightarrow> calendar_entries E t currentEvent ss (entries @ [entry]))"

definition updateCalendar :: "(string \<Rightarrow> calendarEntry list \<Rightarrow> string) \<Rightarrow> env \<Rightarrow> event handler" where
  "updateCalendar serialize E rq =
     on_current_event E (\<lambda>currentEvent.
     orFail (Sessions_GetPublicSessions E \<lparr>gssp_EventID = None, gssp_Kind = None, gssp_Company = None,
         gssp_Speaker = None\<rparr>) StatusExpectationFailed ''Could not get sessions: '' (\<lambda>sessions.
     bindE (getsE w_tick) (\<lambda>t.
     bindE (liftR (calendar_entries E t currentEvent sessions [])) (\<lambda>entries.
     let calendarString = serialize (''SINFO '' @ int_string (ev_ID currentEvent) @ '' Sessions'') entries in
     orFail (UploadCalendarFile E (ev_ID currentEvent) calendarString (int (length calendarString))
         ''text/calendar'') StatusExpectationFailed ''Couldn't upload file: '' (\<lambda>url.
     orFail (Events_UpdateCalendar E (ev_ID currentEvent) url) StatusExpectationFailed
       ''Could not update event's calendar: '' (\<lambda>updatedEvent. retE (Reply updatedEvent)))))))"

text \<open>The reply stands for the redirection to the file.\<close>

definition getEventCalendar :: "env \<Rightarrow> string handler" where
  "getEventCalendar E rq =
     orFail (Events_GetCurrentEvent E) StatusNotFound ''Could not find event: '' (\<lambda>currentEvent.
     if ev_CalendarUrl currentEvent = [] then retE (Failure StatusNotFound ''Calendar file not found'')
     else retE (Reply (ev_CalendarUrl currentEvent)))"

section \<open>The mails linked to an event\<close>

record linkedGmailThreadInfo =
  lgi_ThreadID :: string
  lgi_EntityType :: string
  lgi_EntityID :: string
  lgi_EntityName :: string
  lgi_EntityImage :: string

record linkedGmailThreadsResponse =
  lgr_ThreadIDs :: "string list"
  lgr_Details :: "linkedGmailThreadInfo list"

type_synonym linked = "string set \<times> linkedGmailThreadsResponse"

text \<open>The threads of one participation; \<open>info\<close> is the entry of a thread. The set holds those seen.\<close>

fun link_threads :: "(string \<Rightarrow> linkedGmailThreadInfo) \<Rightarrow> string list \<Rightarrow> linked \<Rightarrow> linked" where
  "link_threads info [] acc = acc"
| "link_threads info (threadID # ts) (threadIDSet, response) =
     link_threads info ts
       (if threadID \<notin> threadIDSet
        then (insert threadID threadIDSet,
              response\<lparr>lgr_ThreadIDs := lgr_ThreadIDs response @ [threadID],
                       lgr_Details := lgr_Details response @ [info threadID]\<rparr>)
        else (threadIDSet, response))"

fun link_participations ::
  "int \<Rightarrow> (string \<Rightarrow> linkedGmailThreadInfo) \<Rightarrow> (int \<times> string list) list \<Rightarrow> linked \<Rightarrow> linked" where
  "link_participations eventID info [] acc = acc"
| "link_participations eventID info ((event, threads) # ps) acc =
     link_participations eventID info ps
       (if event = eventID \<and> length threads > 0 then link_threads info threads acc else acc)"

definition company_info :: "env \<Rightarrow> company \<Rightarrow> string \<Rightarrow> linkedGmailThreadInfo" where
  "company_info E c threadID = \<lparr>lgi_ThreadID = threadID, lgi_EntityType = ''company'',
     lgi_EntityID = env_hex E (co_ID c), lgi_EntityName = co_Name c,
     lgi_EntityImage = cim_Public (co_Images c)\<rparr>"

definition speaker_info :: "env \<Rightarrow> speaker \<Rightarrow> string \<Rightarrow> linkedGmailThreadInfo" where
  "speaker_info E s threadID = \<lparr>lgi_ThreadID = threadID, lgi_EntityType = ''speaker'',
     lgi_EntityID = env_hex E (s_ID s), lgi_EntityName = s_Name s,
     lgi_EntityImage = sim_Speaker (s_Images s)\<rparr>"

fun link_companies :: "env \<Rightarrow> int \<Rightarrow> company list \<Rightarrow> linked \<Rightarrow> linked" where
  "link_companies E eventID [] acc = acc"
| "link_companies E eventID (c # cs) acc =
     link_companies E eventID cs (link_participations eventID (company_info E c)
       (map (\<lambda>p. (cp_Event p, cp_GmailThreadIds p)) (co_Participations c)) acc)"

fun link_speakers :: "env \<Rightarrow> int \<Rightarrow> speaker list \<Rightarrow> linked \<Rightarrow> linked" where
  "link_speakers E eventID [] acc = acc"
| "link_speakers E eventID (s # ss) acc =
     link_speakers E eventID ss (link_participations eventID (speaker_info E s)
       (map (\<lambda>p. (sp_Event p, sp_GmailThreadIds p)) (s_Participations s)) acc)"

definition getLinkedGmailThreads :: "env \<Rightarrow> linkedGmailThreadsResponse handler" where
  "getLinkedGmailThreads E rq =
     orFailR (Atoi (rq_vars rq ''id'')) StatusBadRequest ''Invalid event ID: '' (\<lambda>eventID.
     orFail (Companies_GetCompanies E \<lparr>gcomp_EventID = Some eventID, gcomp_IsPartner = None, gcomp_MemberID = None,
         gcomp_Name = None, gcomp_NumRequests = None, gcomp_MaxCompInRequest = None, gcomp_SortingMethod = None\<rparr>)
       StatusInternalServerError ''Failed to get companies: '' (\<lambda>companies.
     let acc = link_companies E eventID companies ({}, \<lparr>lgr_ThreadIDs = [], lgr_Details = []\<rparr>) in
     orFail (Speakers_GetSpeakers E \<lparr>gspo_EventID = Some eventID, gspo_MemberID = None, gspo_Name = None,
         gspo_NumRequests = None, gspo_MaxSpeaksInRequest = None, gspo_SortingMethod = None\<rparr>)
       StatusInternalServerError ''Failed to get speakers: '' (\<lambda>speakers.
     retE (Reply (snd (link_speakers E eventID speakers acc))))))"

end
