(* ===== verification/TeamHandlers.thy ===== *)
theory TeamHandlers
  imports ThreadHandling CoordinationTeams
begin

text \<open>
  The handlers on teams (\<^verbatim>\<open>router/team.go\<close>) and coordination teams (\<^verbatim>\<open>router/coordination_team.go\<close>), one
  definition each.
\<close>

section \<open>Teams\<close>

definition getTeams :: "env \<Rightarrow> team list handler" where
  "getTeams E rq =
     query_value rq ''member'' (env_fromHex E) StatusBadRequest ''Invalid member ID format: '' (\<lambda>memberID.
     query_value rq ''event'' Atoi StatusBadRequest ''Invalid event ID format: '' (\<lambda>eventID.
     orFail (Teams_GetTeams E \<lparr>gto_Name = optional_text rq ''name'', gto_Event = eventID, gto_Member = memberID,
         gto_MemberName = optional_text rq ''memberName''\<rparr>) StatusExpectationFailed
       ''Unable to make query do database: '' (\<lambda>teams. retE (Reply teams))))"

definition createTeam :: "env \<Rightarrow> err + CreateTeamData \<Rightarrow> team handler" where
  "createTeam E body rq =
     orFailR (CreateTeamData_ParseBody body) StatusBadRequest ''Could not parse body: '' (\<lambda>ctd.
     orFail (Teams_CreateTeam E ctd) StatusBadRequest ''Could not create team: '' (\<lambda>newTeam. retE (Reply newTeam)))"

definition getTeam :: "env \<Rightarrow> team handler" where
  "getTeam E rq =
     orFail (Teams_GetTeam E (id_var E rq ''id'')) StatusNotFound ''Could not find team: '' (\<lambda>team. retE (Reply team))"

definition deleteTeam :: "env \<Rightarrow> team handler" where
  "deleteTeam E rq =
     orFail (Teams_DeleteTeam E (id_var E rq ''id'')) StatusNotFound ''Could not find team: ''
       (\<lambda>team. retE (Reply team))"

definition updateTeam :: "env \<Rightarrow> err + CreateTeamData \<Rightarrow> team handler" where
  "updateTeam E body rq =
     orFailR (CreateTeamData_ParseBody body) StatusBadRequest ''Could not parse body: '' (\<lambda>ctd.
     orFail (Teams_UpdateTeam E (id_var E rq ''id'') ctd) StatusNotFound ''Could not update team: ''
       (\<lambda>updatedTeam. retE (Reply updatedTeam)))"

definition addTeamMember :: "env \<Rightarrow> err + CreateTeamMemberData \<Rightarrow> team handler" where
  "addTeamMember E body rq =
     orFailR (CreateTeamMemberData_ParseBody body) StatusBadRequest ''Could not parse body: '' (\<lambda>ctmd.
     onErr (Teams_AddTeamMember E (id_var E rq ''id'') ctmd)
       (\<lambda>e. if err_text e = ''Duplicate member'' then retE (Failure StatusBadRequest (err_text e))
          else retE (Failure StatusNotFound (''Team or member not found: '' @ err_text e)))
       (\<lambda>team. retE (Reply team)))"

definition updateTeamMemberRole :: "env \<Rightarrow> err + UpdateTeamMemberData \<Rightarrow> team handler" where
  "updateTeamMemberRole E body rq =
     orFailR (UpdateTeamMemberData_ParseBody body) StatusBadRequest ''Could not parse body: '' (\<lambda>utmd.
     orFail (Teams_UpdateTeamMemberRole E (id_var E rq ''id'') (id_var E rq ''memberID'') utmd) StatusNotFound
       ''Team or member not found: '' (\<lambda>team. retE (Reply team)))"

definition deleteTeamMember :: "env \<Rightarrow> team handler" where
  "deleteTeamMember E rq =
     orFail (Teams_DeleteTeamMember E (id_var E rq ''id'') (id_var E rq ''memberID'')) StatusNotFound
       ''Team or member not found: '' (\<lambda>team. retE (Reply team))"

text \<open>The meeting is made before the team is looked for, and left when there is none.\<close>

definition addTeamMeeting :: "env \<Rightarrow> err + CreateMeetingData \<Rightarrow> team handler" where
  "addTeamMeeting E body rq =
     orFailR (CreateMeetingData_ParseBody body) StatusBadRequest ''Could not parse body: '' (\<lambda>cmd.
     orFail (Meetings_CreateMeeting E cmd) StatusExpectationFailed ''Could not create team: '' (\<lambda>meeting.
     orFail (Teams_AddMeeting E (id_var E rq ''id'') (me_ID meeting)) StatusNotFound ''Could not find team: ''
       (\<lambda>team. retE (Reply team))))"

definition deleteTeamMeeting :: "env \<Rightarrow> meeting handler" where
  "deleteTeamMeeting E rq =
     orFail (Teams_DeleteTeamMeeting E (id_var E rq ''id'') (id_var E rq ''meetingID'')) StatusNotFound []
       (\<lambda>meeting. retE (Reply meeting))"

section \<open>Coordination teams\<close>

text \<open>These handlers refuse a malformed ID instead of reading it as the nil one.\<close>

abbreviation with_hex ::
  "env \<Rightarrow> string \<Rightarrow> string \<Rightarrow> (oid \<Rightarrow> (world, 'a reply) smonad) \<Rightarrow> (world, 'a reply) smonad" where
  "with_hex E s msg k \<equiv> orFailR (env_fromHex E s) StatusBadRequest msg k"

definition getCoordinationTeams :: "env \<Rightarrow> coordinationTeam list handler" where
  "getCoordinationTeams E rq =
     orFail (CoordinationTeams_GetAllCoordinationTeams E) StatusInternalServerError
       ''Could not query coordination teams: '' (\<lambda>teams. retE (Reply teams))"

text \<open>Whether a member is a coordinator in some team of the event; a team that cannot be read is passed over.\<close>

fun is_coordinator :: "env \<Rightarrow> oid \<Rightarrow> oid list \<Rightarrow> (world, bool) smonad" where
  "is_coordinator E memberID [] = retE False"
| "is_coordinator E memberID (teamID # ts) =
     onErr (Teams_GetTeam E teamID) (\<lambda>_. is_coordinator E memberID ts) (\<lambda>team.
     if memberID \<in> set (map tm_Member (Team_GetMembersByRole team RoleCoordinator)) then retE True
     else is_coordinator E memberID ts)"

definition createCoordinationTeam :: "env \<Rightarrow> err + string \<Rightarrow> coordinationTeam handler" where
  "createCoordinationTeam E body rq =
     orFailR body StatusBadRequest ''Could not parse body: '' (\<lambda>coordinator.
     if length coordinator = 0 then retE (Failure StatusBadRequest ''invalid coordinator'')
     else
       with_hex E coordinator ''Invalid coordinator id: '' (\<lambda>memberID.
       orFail (Events_GetCurrentEvent E) StatusInternalServerError ''Could not determine current event: '' (\<lambda>event.
       bindE (is_coordinator E memberID (ev_Teams event)) (\<lambda>isCoordinator.
       if \<not> isCoordinator
       then retE (Failure StatusBadRequest ''member is not a coordinator in the current event'')
       else
         orFail (Members_GetMember E memberID) StatusInternalServerError
           ''Could not fetch coordinator member: '' (\<lambda>member.
         orFail (CoordinationTeams_CreateCoordinationTeam E (mb_Name member)) StatusInternalServerError
           ''Could not create coordination team: '' (\<lambda>ct.
         orFail (CoordinationTeams_SetCoordinator E (cot_ID ct)
             \<lparr>tm_Member = memberID, tm_Role = RoleCoordinator\<rparr> (mb_Name member)) StatusInternalServerError
           ''Could not set coordinator: '' (\<lambda>ct. retE (Reply ct))))))))"

definition deleteCoordinationTeam :: "env \<Rightarrow> coordinationTeam handler" where
  "deleteCoordinationTeam E rq =
     with_hex E (rq_vars rq ''id'') ''Invalid id format: '' (\<lambda>i.
     orFail (CoordinationTeams_DeleteCoordinationTeam E i) StatusInternalServerError
       ''Could not delete coordination team: '' (\<lambda>ct. retE (Reply ct)))"

definition getCoordinationTeam :: "env \<Rightarrow> coordinationTeam handler" where
  "getCoordinationTeam E rq =
     with_hex E (rq_vars rq ''id'') ''Invalid id format: '' (\<lambda>i.
     orFail (CoordinationTeams_GetCoordinationTeam E i) StatusNotFound
       ''Could not find coordination team: '' (\<lambda>ct. retE (Reply ct)))"

definition getMyCoordinationTeams :: "env \<Rightarrow> coordinationTeam list handler" where
  "getMyCoordinationTeams E rq = (case rq_credentials rq of
     None \<Rightarrow> retE (Failure StatusUnauthorized ''invalid credentials'')
   | Some credentials \<Rightarrow>
       orFail (CoordinationTeams_GetCoordinationTeamsByCoordinator E (ac_ID credentials))
         StatusInternalServerError ''Could not query coordination teams: '' (\<lambda>teams. retE (Reply teams)))"

definition updateCoordinationTeam :: "env \<Rightarrow> err + string \<Rightarrow> coordinationTeam handler" where
  "updateCoordinationTeam E body rq =
     with_hex E (rq_vars rq ''id'') ''Invalid id format: '' (\<lambda>i.
     orFailR body StatusBadRequest ''Could not parse body: '' (\<lambda>name.
     if length name = 0 then retE (Failure StatusBadRequest ''invalid name'')
     else
       orFail (CoordinationTeams_UpdateName E i name) StatusInternalServerError
         ''Could not update coordination team: '' (\<lambda>ct. retE (Reply ct))))"

definition addCoordinatedTeam :: "env \<Rightarrow> err + string \<Rightarrow> coordinationTeam handler" where
  "addCoordinatedTeam E body rq =
     with_hex E (rq_vars rq ''id'') ''Invalid id format: '' (\<lambda>i.
     orFailR body StatusBadRequest ''Could not parse body: '' (\<lambda>member.
     with_hex E member ''Invalid member id: '' (\<lambda>memberID.
     orFail (CoordinationTeams_AddCoordinatedMember E i memberID) StatusInternalServerError
       ''Could not add coordinated team: '' (\<lambda>ct. retE (Reply ct)))))"

definition removeCoordinatedTeam :: "env \<Rightarrow> coordinationTeam handler" where
  "removeCoordinatedTeam E rq =
     with_hex E (rq_vars rq ''id'') ''Invalid id format: '' (\<lambda>i.
     with_hex E (rq_vars rq ''memberID'') ''Invalid member id format: '' (\<lambda>memberID.
     orFail (CoordinationTeams_RemoveCoordinatedMember E i memberID) StatusInternalServerError
       ''Could not remove coordinated team: '' (\<lambda>ct. retE (Reply ct))))"

record setCoordinatorBody =
  scb_Member :: string
  scb_Name :: string

definition setCoordinator :: "env \<Rightarrow> err + setCoordinatorBody \<Rightarrow> coordinationTeam handler" where
  "setCoordinator E body rq =
     with_hex E (rq_vars rq ''id'') ''Invalid id format: '' (\<lambda>i.
     orFailR body StatusBadRequest ''Could not parse body: '' (\<lambda>body.
     with_hex E (scb_Member body) ''Invalid member id: '' (\<lambda>memberID.
     orFail (Events_GetCurrentEvent E) StatusInternalServerError ''Could not determine current event: '' (\<lambda>event.
     bindE (is_coordinator E memberID (ev_Teams event)) (\<lambda>isCoordinator.
     if \<not> isCoordinator
     then retE (Failure StatusBadRequest ''member is not a coordinator in the current event'')
     else
       let finish = (\<lambda>name.
         orFail (CoordinationTeams_SetCoordinator E i \<lparr>tm_Member = memberID, tm_Role = RoleCoordinator\<rparr> name)
           StatusInternalServerError ''Could not set coordinator: '' (\<lambda>ct. retE (Reply ct))) in
       if length (scb_Name body) = 0 then
         orFail (Members_GetMember E memberID) StatusInternalServerError ''Could not fetch coordinator member: ''
           (\<lambda>member. finish (mb_Name member))
       else finish (scb_Name body))))))"

definition removeCoordinator :: "env \<Rightarrow> coordinationTeam handler" where
  "removeCoordinator E rq =
     with_hex E (rq_vars rq ''id'') ''Invalid id format: '' (\<lambda>i.
     with_hex E (rq_vars rq ''memberID'') ''Invalid member id format: '' (\<lambda>memberID.
     orFail (CoordinationTeams_RemoveCoordinator E i memberID) StatusInternalServerError
       ''Could not remove coordinator: '' (\<lambda>ct. retE (Reply ct))))"

end
