(* ===== verification/MemberHandlers.thy ===== *)
theory MemberHandlers
  imports ThreadHandling Companies Speakers
begin

text \<open>
  The handlers on members (\<^verbatim>\<open>router/member.go\<close>) and on the member who is logged in (\<^verbatim>\<open>router/me.go\<close>), one
  definition each.
\<close>

abbreviation StatusNotAcceptable :: nat where "StatusNotAcceptable \<equiv> 406"

text \<open>A member with the contact document the database keeps beside it.\<close>

record memberWithContact =
  mwc_Member :: member
  mwc_Contact :: contact

section \<open>Members\<close>

text \<open>
  The error of \<^verbatim>\<open>strconv.Atoi\<close> is dropped: what is no number is read as 0, and one out of range as the
  nearest that is in it.
\<close>

definition event_or_zero :: "request \<Rightarrow> int option" where
  "event_or_zero rq =
     (let event = rq_query rq ''event'' in
      if length event > 0
      then Some (case Atoi event of
          Inr i \<Rightarrow> i
        | Inl e \<Rightarrow>
            if e \<noteq> Err ''value out of range'' then 0
            else if hd event = CHR ''-'' then - (2 ^ 63) else 2 ^ 63 - 1)
      else None)"

definition getMembers :: "env \<Rightarrow> member list handler" where
  "getMembers E rq =
     orFail (Members_GetMembers E \<lparr>gmbo_Name = optional_text rq ''name'', gmbo_Event = event_or_zero rq\<rparr>)
       StatusExpectationFailed ''Unable to make query do database: '' (\<lambda>members. retE (Reply members))"

definition createMember :: "env \<Rightarrow> err + CreateMemberData \<Rightarrow> member handler" where
  "createMember E body rq =
     orFailR (CreateMemberData_ParseBody body) StatusBadRequest ''Could not parse body: '' (\<lambda>cmd.
     orFail (Members_CreateMember E cmd) StatusBadRequest ''Could not create member: ''
       (\<lambda>newMember. retE (Reply newMember)))"

definition member_and_contact :: "env \<Rightarrow> oid \<Rightarrow> (world, memberWithContact reply) smonad" where
  "member_and_contact E i =
     orFail (Members_GetMember E i) StatusNotFound ''Could not find member: '' (\<lambda>member.
     orFail (Contacts_GetContact E (mb_Contact member)) StatusNotFound ''Could not find contact: '' (\<lambda>contact.
     retE (Reply \<lparr>mwc_Member = member, mwc_Contact = contact\<rparr>)))"

definition getMember :: "env \<Rightarrow> memberWithContact handler" where
  "getMember E rq = member_and_contact E (id_var E rq ''id'')"

definition updateMember :: "env \<Rightarrow> err + UpdateMemberData \<Rightarrow> member handler" where
  "updateMember E body rq =
     (let i = id_var E rq ''id'' in
      orFail (Members_GetMember E i) StatusNotFound ''Invalid member ID: '' (\<lambda>_.
      orFailR (UpdateMemberData_ParseBody body) StatusBadRequest ''Could not parse body: '' (\<lambda>umd.
      orFail (Members_UpdateMember E i umd) StatusNotFound ''Could not update member: ''
        (\<lambda>updatedMember. retE (Reply updatedMember)))))"

definition upload_member_image ::
  "env \<Rightarrow> multipart \<Rightarrow> oid \<Rightarrow> string \<Rightarrow> (world, member reply) smonad" where
  "upload_member_image E form memberID failed =
     orFail (Members_GetMember E memberID) StatusNotFound ''Invalid member ID: '' (\<lambda>_.
     with_image E form (\<lambda>_. exceeded ImageMaxSize) ''Invalid payload: '' not_an_image
       (\<lambda>currentEvent bytes objectSize kind.
     orFail (UploadMemberImage E (ev_ID currentEvent) memberID bytes objectSize kind)
       StatusExpectationFailed ''Couldn't upload file: '' (\<lambda>url.
     orFail (Members_UpdateImage E memberID url) StatusExpectationFailed failed
       (\<lambda>updatedMember. retE (Reply updatedMember)))))"

definition setMemberImage :: "env \<Rightarrow> multipart \<Rightarrow> member handler" where
  "setMemberImage E form rq =
     upload_member_image E form (id_var E rq ''id'') ''Couldn't update member internal image: ''"

definition deleteMember :: "env \<Rightarrow> member handler" where
  "deleteMember E rq =
     onErr (Members_DeleteMember E (id_var E rq ''id''))
       (\<lambda>e. let msg = ''Error deleting member: '' @ err_text e in
          if err_text e = ''Member associated'' then retE (Failure StatusNotAcceptable msg)
          else retE (Failure StatusNotFound msg))
       (\<lambda>deletedMember. retE (Reply deletedMember))"

definition getMemberRole :: "env \<Rightarrow> teamRole handler" where
  "getMemberRole E rq =
     orFail (Members_GetMember E (id_var E rq ''id'')) StatusNotFound ''Member not found: '' (\<lambda>member.
     orFail (Members_GetMemberAuthCredentials E (mb_SINFOID member)) StatusExpectationFailed
       ''Error getting member credentials: '' (\<lambda>credentials. retE (Reply (ac_Role credentials))))"

definition getMembersParticipations :: "env \<Rightarrow> memberEventTeam list handler" where
  "getMembersParticipations E rq =
     orFail (Members_GetMembersParticipations E (id_var E rq ''id'')) StatusNotFound ''Member not found: ''
       (\<lambda>membersEventsTeams. retE (Reply membersEventsTeams))"

text \<open>There is no \<^verbatim>\<open>return\<close> behind the error, so \<^verbatim>\<open>null\<close> follows the message.\<close>

definition getMembersPublic :: "env \<Rightarrow> memberPublic list handler" where
  "getMembersPublic E rq =
     onErr (Members_GetMembersPublic E \<lparr>gmbo_Name = optional_text rq ''name'', gmbo_Event = event_or_zero rq\<rparr>)
       (\<lambda>e. retE (Failure StatusExpectationFailed
          (''Unable to make query do database: '' @ err_text e @ [CHR 0x0A] @ ''null'')))
       (\<lambda>members. retE (Reply members))"

section \<open>The member who is logged in\<close>

definition getMe :: "env \<Rightarrow> memberWithContact handler" where
  "getMe E rq = with_credentials rq (\<lambda>credentials. member_and_contact E (ac_ID credentials))"

definition setMyImage :: "env \<Rightarrow> multipart \<Rightarrow> member handler" where
  "setMyImage E form rq = with_credentials rq (\<lambda>credentials.
     upload_member_image E form (ac_ID credentials) ''Couldn't update member's image: '')"

definition updateMe :: "env \<Rightarrow> err + UpdateMemberData \<Rightarrow> member handler" where
  "updateMe E body rq = with_credentials rq (\<lambda>credentials.
     orFailR (UpdateMemberData_ParseBody body) StatusBadRequest ''Could not parse body: '' (\<lambda>umd.
     orFail (Members_UpdateMember E (ac_ID credentials) umd) StatusNotFound ''Could not update me: ''
       (\<lambda>updatedMember. retE (Reply updatedMember))))"

record responsibilities =
  rsp_companies :: "company list"
  rsp_speakers :: "speaker list"

definition getResponsibilities :: "env \<Rightarrow> responsibilities handler" where
  "getResponsibilities E rq = with_credentials rq (\<lambda>credentials.
     query_value rq ''event'' Atoi StatusBadRequest ''Invalid event ID format: '' (\<lambda>eventID.
     orFail (Companies_GetCompanies E \<lparr>gcomp_EventID = eventID, gcomp_IsPartner = None,
         gcomp_MemberID = Some (ac_ID credentials), gcomp_Name = None, gcomp_NumRequests = None,
         gcomp_MaxCompInRequest = None, gcomp_SortingMethod = None\<rparr>) StatusExpectationFailed
       ''Unable to get companies: '' (\<lambda>companies.
     orFail (Speakers_GetSpeakers E \<lparr>gspo_EventID = eventID, gspo_MemberID = Some (ac_ID credentials),
         gspo_Name = None, gspo_NumRequests = None, gspo_MaxSpeaksInRequest = None,
         gspo_SortingMethod = None\<rparr>) StatusExpectationFailed
       ''Unable to get speakers: '' (\<lambda>speakers.
     retE (Reply \<lparr>rsp_companies = companies, rsp_speakers = speakers\<rparr>)))))"

definition getMyNotifications :: "env \<Rightarrow> memberNotification list handler" where
  "getMyNotifications E rq = with_credentials rq (\<lambda>credentials.
     let memberID = ac_ID credentials in
     orFail (Members_GetMember E memberID) StatusNotFound ''Could not find member: '' (\<lambda>_.
     orFail (Notifications_GetMemberNotifications E memberID) StatusExpectationFailed
       ''Could not find get notifications: '' (\<lambda>notifications. retE (Reply notifications))))"

text \<open>The notification is that of the path: nothing asks whose it is.\<close>

definition deleteMyNotification :: "env \<Rightarrow> notification handler" where
  "deleteMyNotification E rq = with_credentials rq (\<lambda>credentials.
     let i = id_var E rq ''id'' in
     orFail (Members_GetMember E (ac_ID credentials)) StatusNotFound ''Could not find member: '' (\<lambda>_.
     orFail (Notifications_GetNotification E i) StatusNotFound ''Notification not found: '' (\<lambda>_.
     orFail (Notifications_DeleteNotification E i) StatusExpectationFailed
       ''Could not delete notification: '' (\<lambda>notification. retE (Reply notification)))))"

definition deleteAllMyNotifications :: "env \<Rightarrow> nat handler" where
  "deleteAllMyNotifications E rq = with_credentials rq (\<lambda>credentials.
     let memberID = ac_ID credentials in
     orFail (Members_GetMember E memberID) StatusNotFound ''Could not find member: '' (\<lambda>_.
     orFail (Notifications_DeleteAllMemberNotifications E memberID) StatusExpectationFailed
       ''Could not delete notifications: '' (\<lambda>count. retE (Reply count))))"

end
