(* ===== verification/CommunicationHandlers.thy ===== *)
theory CommunicationHandlers
  imports ThreadHandling CompanyParticipations SpeakerParticipations
begin

text \<open>
  The handlers on meetings (\<^verbatim>\<open>router/meetings.go\<close>), threads (\<^verbatim>\<open>router/thread.go\<close>) and posts
  (\<^verbatim>\<open>router/post.go\<close>), one definition each.
\<close>

section \<open>Meetings\<close>

definition about_meeting :: "notificationKind \<Rightarrow> oid \<Rightarrow> CreateNotificationData" where
  "about_meeting kind i = (notification_data kind)\<lparr>cnd_Meeting := Some i\<rparr>"

abbreviation notify_meeting ::
  "env \<Rightarrow> request \<Rightarrow> notificationKind \<Rightarrow> meeting \<Rightarrow> (world, meeting reply) smonad" where
  "notify_meeting E rq kind m \<equiv> reply_and_notify E rq m (about_meeting kind (me_ID m))"

abbreviation existing_meeting ::
  "env \<Rightarrow> oid \<Rightarrow> (world, 'a reply) smonad \<Rightarrow> (world, 'a reply) smonad" where
  "existing_meeting E i k \<equiv>
     orFail (Meetings_GetMeeting E i) StatusNotFound ''Invalid meeting ID: '' (\<lambda>_. k)"

text \<open>
  Two handlers go on after the answer to an error, with a nil meeting: they write \<^verbatim>\<open>null\<close> and then follow
  the pointer if there is someone to name as the author of a notification.
\<close>

definition go_on_without :: "request \<Rightarrow> nat \<Rightarrow> string \<Rightarrow> (world, 'a reply) smonad" where
  "go_on_without rq status msg = (case rq_credentials rq of
     None \<Rightarrow> retE (Failure status (msg @ [CHR 0x0A] @ ''null''))
   | Some _ \<Rightarrow> throwE (Panic ''nil pointer dereference''))"

definition getMeeting :: "env \<Rightarrow> meeting handler" where
  "getMeeting E rq =
     orFail (Meetings_GetMeeting E (id_var E rq ''id'')) StatusNotFound ''Could not find meeting: ''
       (\<lambda>meeting. retE (Reply meeting))"

definition deleteMeeting :: "env \<Rightarrow> meeting handler" where
  "deleteMeeting E rq =
     orFail (Meetings_DeleteMeeting E (id_var E rq ''id'')) StatusNotFound ''Could not find meeting: '' (\<lambda>meeting.
     notify_meeting E rq NotificationKindDeleted meeting)"

definition createMeeting :: "env \<Rightarrow> err + CreateMeetingData \<Rightarrow> meeting handler" where
  "createMeeting E body rq =
     orFailR (CreateMeetingData_ParseBody body) StatusBadRequest ''Could not parse body: '' (\<lambda>cmd.
     onErr (Meetings_CreateMeeting E cmd)
       (\<lambda>e. go_on_without rq StatusExpectationFailed (''Could not create team: '' @ err_text e))
       (\<lambda>meeting. notify_meeting E rq NotificationKindCreated meeting))"

text \<open>The kind is checked after the post is made. The notification names a speaker, with the ID of the meeting.\<close>

definition addMeetingThread :: "env \<Rightarrow> err + addThreadData \<Rightarrow> meeting handler" where
  "addMeetingThread E body rq =
     (let meetingID = id_var E rq ''id'' in
      existing_meeting E meetingID (
      orFailR (addThreadData_ParseBody body) StatusBadRequest ''Could not parse body: '' (\<lambda>atd.
      with_credentials rq (\<lambda>credentials.
      bindE (deref (atd_Text atd)) (\<lambda>text.
      orFail (Posts_CreatePost E \<lparr>cpo_Member = ac_ID credentials, cpo_Text = text\<rparr>) StatusExpectationFailed
        ''Could not create post: '' (\<lambda>newPost.
      bindE (deref (atd_Kind atd)) (\<lambda>kind.
      if kind \<noteq> ThreadKindMeeting
      then retE (Failure StatusInternalServerError ''Kind of thread must be meeting'')
      else
        onErr (Threads_CreateThread E \<lparr>ctd_Entry = po_ID newPost, ctd_Meeting = None, ctd_Kind = kind,
            ctd_GmailMessageId = [], ctd_Posted = None\<rparr>)
          (\<lambda>e. failing StatusExpectationFailed ''Could not create thread: '' e (clean_up_post E (po_ID newPost)))
          (\<lambda>newThread.
        onErr (Meetings_AddThread E meetingID (th_ID newThread))
          (\<lambda>e. failing StatusExpectationFailed ''Could not add thread to meeting: '' e
            (bindE (clean_up_post E (po_ID newPost)) (\<lambda>_. clean_up_thread E (th_ID newThread))))
          (\<lambda>updatedMeeting.
        reply_and_notify E rq updatedMeeting ((notification_data NotificationKindCreated)
          \<lparr>cnd_Speaker := Some (me_ID updatedMeeting), cnd_Thread := Some (th_ID newThread)\<rparr>))))))))))"

definition deleteMeetingThread :: "env \<Rightarrow> (meeting option) handler" where
  "deleteMeetingThread E rq =
     (let threadID = id_var E rq ''threadID'' in
      with_credentials rq (\<lambda>_.
      orFail (Threads_DeleteThread E threadID) StatusNotFound ''Thread not found: '' (\<lambda>_.
      orFail (Meetings_DeleteMeetingThread E (id_var E rq ''id'') threadID) StatusNotFound
        ''Meeting or thread not found: '' (\<lambda>meeting. retE (Reply meeting)))))"

definition getMeetings :: "env \<Rightarrow> meeting list handler" where
  "getMeetings E rq =
     query_value rq ''team'' (env_fromHex E) StatusBadRequest ''Error parsing query: '' (\<lambda>teamID.
     query_value rq ''company'' (env_fromHex E) StatusBadRequest ''Error parsing query: '' (\<lambda>companyID.
     query_value rq ''event'' Atoi StatusBadRequest ''Error parsing query: '' (\<lambda>eventID.
     orFail (Meetings_GetMeetings E \<lparr>gmo_Event = eventID, gmo_Team = teamID, gmo_Company = companyID\<rparr>)
       StatusNotFound ''Event, company or team not found: '' (\<lambda>meetings. retE (Reply meetings)))))"

definition updateMeeting :: "env \<Rightarrow> err + UpdateMeetingData \<Rightarrow> meeting handler" where
  "updateMeeting E body rq =
     (let i = id_var E rq ''id'' in
      orFail (Meetings_GetMeeting E i) StatusNotFound ''Could not find meeting: '' (\<lambda>_.
      orFailR (UpdateMeetingData_ParseBody body) StatusBadRequest ''Could not parse body: '' (\<lambda>umd.
      orFail (Meetings_UpdateMeeting E umd i) StatusExpectationFailed ''Could not update meeting: ''
        (\<lambda>meeting. retE (Reply meeting)))))"

text \<open>\<open>isPdf\<close> is the library's test of the file type.\<close>

definition uploadMeetingMinute :: "(string \<Rightarrow> bool) \<Rightarrow> env \<Rightarrow> multipart \<Rightarrow> meeting handler" where
  "uploadMeetingMinute isPdf E form rq =
     (let meetingID = id_var E rq ''id'' in
      existing_meeting E meetingID (
      with_file form MinuteMaxSize (\<lambda>_. exceeded MinuteMaxSize) ''Invalid payload: '' (\<lambda>file.
      orFail (Events_GetCurrentEvent E) StatusExpectationFailed ''Couldn't fetch current event: '' (\<lambda>currentEvent.
      orFailR (up_Data file) StatusExpectationFailed ''Unable to read the file: '' (\<lambda>bytes.
      if \<not> isPdf bytes then retE (Failure StatusBadRequest ''Not a pdf'')
      else
        orFailR (env_matchType E bytes) StatusExpectationFailed ''Unable to get file type: '' (\<lambda>kind.
        orFail (UploadMeetingMinute E (ev_ID currentEvent) meetingID bytes (up_Size file) kind)
          StatusExpectationFailed ''Couldn't upload file: '' (\<lambda>url.
        orFail (Meetings_UploadMeetingMinute E meetingID url) StatusExpectationFailed
          ''Couldn't update speaker internal image: '' (\<lambda>updatedMeeting.
        notify_meeting E rq NotificationKindUploadedMeetingMinute updatedMeeting))))))))"

definition deleteMeetingMinute :: "env \<Rightarrow> meeting handler" where
  "deleteMeetingMinute E rq =
     (let meetingID = id_var E rq ''id'' in
      existing_meeting E meetingID (
      orFail (Events_GetCurrentEvent E) StatusExpectationFailed ''Couldn't fetch current event: '' (\<lambda>currentEvent.
      orFail (DeleteMeetingMinute E (ev_ID currentEvent) meetingID) StatusExpectationFailed
        ''Couldn't upload file: '' (\<lambda>_.
      orFail (Meetings_DeleteMeetingMinute E meetingID) StatusExpectationFailed
        ''Couldn't delete meeting minutes: '' (\<lambda>updatedMeeting.
      notify_meeting E rq NotificationKindDeletedMeetingMinute updatedMeeting)))))"

definition addMeetingParticipant :: "env \<Rightarrow> err + MeetingParticipantData \<Rightarrow> meeting handler" where
  "addMeetingParticipant E body rq =
     (let meetingID = id_var E rq ''id'' in
      existing_meeting E meetingID (
      orFailR (MeetingParticipantData_ParseBody body) StatusBadRequest ''Could not parse body: '' (\<lambda>cmd.
      orFail (Meetings_AddMeetingParticipant E meetingID cmd) StatusExpectationFailed
        ''Could not add participant to meeting: '' (\<lambda>meeting.
      notify_meeting E rq NotificationKindCreated meeting))))"

definition deleteMeetingParticipant :: "env \<Rightarrow> err + MeetingParticipantData \<Rightarrow> meeting handler" where
  "deleteMeetingParticipant E body rq =
     (let meetingID = id_var E rq ''id'' in
      existing_meeting E meetingID (
      orFailR (MeetingParticipantData_ParseBody body) StatusBadRequest ''Could not parse body: '' (\<lambda>cmd.
      onErr (Meetings_DeleteMeetingParticipant E meetingID cmd)
        (\<lambda>e. go_on_without rq StatusExpectationFailed (''Could not add participant to meeting: '' @ err_text e))
        (\<lambda>meeting. notify_meeting E rq NotificationKindCreated meeting))))"

section \<open>Threads\<close>

definition getThread :: "env \<Rightarrow> thread handler" where
  "getThread E rq =
     orFail (Threads_GetThread E (id_var E rq ''id'')) StatusNotFound ''Could not find thread: ''
       (\<lambda>thread. retE (Reply thread))"

definition addCommentToThreadData_ParseBody :: "err + string option \<Rightarrow> err + string" where
  "addCommentToThreadData_ParseBody body = (case body of
     Inl e \<Rightarrow> Inl e
   | Inr None \<Rightarrow> Inl (Err ''invalid text'')
   | Inr (Some text) \<Rightarrow> Inr text)"

text \<open>
  After the reply: the speaker, else the company, else the meeting that has the thread is looked for and
  named in the notification. An error ends the search; with nobody found, nobody is told.
\<close>

definition notify_of_comment ::
  "env \<Rightarrow> authorizationCredentials \<Rightarrow> oid \<Rightarrow> CreateNotificationData \<Rightarrow> (world, unit) smonad" where
  "notify_of_comment E credentials threadID cnd =
     onErr (Speakers_FindThread E threadID) (\<lambda>_. retE ()) (\<lambda>speaker. case speaker of
       Some s \<Rightarrow> Notifications_Notify E (ac_ID credentials) (cnd\<lparr>cnd_Speaker := Some (s_ID s)\<rparr>)
     | None \<Rightarrow>
     onErr (Companies_FindThread E threadID) (\<lambda>_. retE ()) (\<lambda>company. case company of
       Some c \<Rightarrow> Notifications_Notify E (ac_ID credentials) (cnd\<lparr>cnd_Company := Some (co_ID c)\<rparr>)
     | None \<Rightarrow>
     onErr (Meetings_FindThread E threadID) (\<lambda>_. retE ()) (\<lambda>meeting. case meeting of
       Some m \<Rightarrow> Notifications_Notify E (ac_ID credentials) (cnd\<lparr>cnd_Meeting := Some (me_ID m)\<rparr>)
     | None \<Rightarrow> retE ())))"

definition addCommentToThread :: "env \<Rightarrow> err + string option \<Rightarrow> thread handler" where
  "addCommentToThread E body rq =
     (let threadID = id_var E rq ''id'' in
      orFailR (addCommentToThreadData_ParseBody body) StatusBadRequest ''Could not parse body: '' (\<lambda>text.
      with_credentials rq (\<lambda>credentials.
      orFail (Posts_CreatePost E \<lparr>cpo_Member = ac_ID credentials, cpo_Text = text\<rparr>) StatusExpectationFailed
        ''Could not create post: '' (\<lambda>newPost.
      onErr (Threads_AddCommentToThread E threadID (po_ID newPost))
        (\<lambda>e. failing StatusExpectationFailed ''Could not add post to thread: '' e
          (clean_up_post E (po_ID newPost))) (\<lambda>updatedThread.
      bindE (notify_of_comment E credentials threadID ((notification_data NotificationKindCreated)
        \<lparr>cnd_Thread := Some (th_ID updatedThread), cnd_Post := Some (po_ID newPost)\<rparr>)) (\<lambda>_.
      retE (Reply updatedThread)))))))"

text \<open>
  When the post cannot be deleted it is put back into the thread; the handler goes on after that and
  writes the thread behind the message (the status has been sent).
\<close>

definition removeCommentFromThread :: "env \<Rightarrow> thread handler" where
  "removeCommentFromThread E rq =
     (let threadID = id_var E rq ''threadID''; postID = id_var E rq ''postID'';
          cnd = (\<lambda>thread. (notification_data NotificationKindDeleted)
            \<lparr>cnd_Thread := Some (th_ID thread), cnd_Post := Some postID\<rparr>) in
      orFail (Threads_GetThread E threadID) StatusNotFound ''Thread not found: '' (\<lambda>_.
      orFail (Posts_GetPost E postID) StatusNotFound ''Post not found: '' (\<lambda>_.
      orFail (Threads_RemoveCommentFromThread E threadID postID) StatusExpectationFailed
        ''Could not remove post from thread: '' (\<lambda>updatedThread.
      onErr (Posts_DeletePost E postID)
        (\<lambda>e. bindE (discardE (Threads_AddCommentToThread E threadID postID)) (\<lambda>_.
           bindE (reply_and_notify E rq updatedThread (cnd updatedThread)) (\<lambda>_.
           retE (Failure StatusExpectationFailed (''Could not delete post: '' @ err_text e)))))
        (\<lambda>_. reply_and_notify E rq updatedThread (cnd updatedThread))))))"

text \<open>Only an administrator (access level 0) or the author of the first post may change or delete a thread.\<close>

definition as_author ::
  "env \<Rightarrow> authorizationCredentials \<Rightarrow> oid \<Rightarrow> (world, 'a reply) smonad \<Rightarrow> (world, 'a reply) smonad" where
  "as_author E credentials threadID k =
     orFail (Threads_GetThread E threadID) StatusNotFound ''Thread not found: '' (\<lambda>t.
     orFail (Posts_GetPost E (th_Entry t)) StatusNotFound ''Post not found: '' (\<lambda>p.
     if TeamRole_AccessLevel (ac_Role credentials) \<noteq> 0 \<and> po_Member p \<noteq> ac_ID credentials
     then retE (Failure StatusForbidden ''Unauthorized'')
     else k))"

definition updateThread :: "env \<Rightarrow> err + UpdateThreadData \<Rightarrow> thread handler" where
  "updateThread E body rq =
     (let i = id_var E rq ''id'' in
      case rq_credentials rq of
        None \<Rightarrow> retE (Failure StatusUnauthorized ''Authentication failed'')
      | Some credentials \<Rightarrow>
          as_author E credentials i (
          orFailR (UpdateThreadData_ParseBody body) StatusBadRequest ''Could not parse body: '' (\<lambda>utd.
          orFail (Threads_UpdateThread E i utd) StatusNotFound ''Could not find thread or meeting: ''
            (\<lambda>thread. retE (Reply thread)))))"

definition deleteThread :: "env \<Rightarrow> thread handler" where
  "deleteThread E rq =
     onErr (liftR (env_fromHex E (rq_vars rq ''id'')))
       (\<lambda>_. retE (Failure StatusBadRequest ''Invalid thread id'')) (\<lambda>i.
     case rq_credentials rq of
       None \<Rightarrow> retE (Failure StatusUnauthorized ''Authentication failed'')
     | Some credentials \<Rightarrow>
         as_author E credentials i (
         orFail (Threads_DeleteThread E i) StatusNotFound ''Could not delete thread: ''
           (\<lambda>thread. retE (Reply thread))))"

section \<open>Posts\<close>

definition getPost :: "env \<Rightarrow> post handler" where
  "getPost E rq =
     orFail (Posts_GetPost E (id_var E rq ''id'')) StatusNotFound ''Could not find post: ''
       (\<lambda>post. retE (Reply post))"

text \<open>The thread of a post, and the speaker or else the company it belongs to; errors count as not found.\<close>

definition found :: "(world, 'a option) smonad \<Rightarrow> (world, 'a option) smonad" where
  "found m = onErr m (\<lambda>_. retE None) retE"

definition post_context :: "env \<Rightarrow> oid \<Rightarrow> (world, oid option \<times> oid option \<times> oid option) smonad" where
  "post_context E postID =
     bindE (found (Threads_FindByPost E postID)) (\<lambda>thread. case thread of
       None \<Rightarrow> retE (None, None, None)
     | Some thread \<Rightarrow>
         bindE (found (Speakers_FindThread E (th_ID thread))) (\<lambda>sp.
         bindE (found (Companies_FindThread E (th_ID thread))) (\<lambda>co.
         let speakerID = map_option s_ID sp;
             companyID = (if speakerID = None then map_option co_ID co else None) in
         retE (Some (th_ID thread), speakerID, companyID))))"

record updatedPost =
  upp_post :: post
  upp_thread :: "string option"
  upp_speaker :: "string option"
  upp_company :: "string option"

definition updatePost :: "env \<Rightarrow> err + UpdatePostData \<Rightarrow> updatedPost handler" where
  "updatePost E body rq =
     (let postID = id_var E rq ''id'' in
      orFail (Posts_GetPost E postID) StatusNotFound ''Could not find post: '' (\<lambda>post.
      with_credentials rq (\<lambda>credentials.
      if ac_ID credentials \<noteq> po_Member post \<and> ac_Role credentials \<noteq> RoleAdmin
      then retE (Failure StatusUnauthorized ''Not the author of the post and not admin'')
      else
        orFailR (UpdatePostData_ParseBody body) StatusBadRequest ''Could not parse body: '' (\<lambda>upd.
        orFail (Posts_UpdatePost E postID upd) StatusExpectationFailed ''Could not update post: '' (\<lambda>updatedPost.
        bindE (post_context E (po_ID updatedPost)) (\<lambda>(threadID, speakerID, companyID).
        bindE (Notifications_Notify E (ac_ID credentials) ((notification_data NotificationKindUpdated)
          \<lparr>cnd_Post := Some (po_ID updatedPost), cnd_Thread := threadID, cnd_Speaker := speakerID,
            cnd_Company := companyID\<rparr>)) (\<lambda>_.
        retE (Reply \<lparr>upp_post = updatedPost, upp_thread = map_option (env_hex E) threadID,
          upp_speaker = map_option (env_hex E) speakerID,
          upp_company = map_option (env_hex E) companyID\<rparr>))))))))"

end
