(* ===== verification/CatalogueHandlers.thy ===== *)
theory CatalogueHandlers
  imports ThreadHandling Catalogue Billing PublicSessions Templates
begin

text \<open>
  The remaining handlers: items and their categories (\<^verbatim>\<open>router/items.go\<close>), packages (\<^verbatim>\<open>packages.go\<close>), contacts
  (\<^verbatim>\<open>contacts.go\<close>), company representatives (\<^verbatim>\<open>companyreps.go\<close>), bills (\<^verbatim>\<open>billings.go\<close>), flights
  (\<^verbatim>\<open>flightinfo.go\<close>), sessions (\<^verbatim>\<open>session.go\<close>) and templates (\<^verbatim>\<open>templates.go\<close>). The collection of categories is
  taken to be initialised (\<^verbatim>\<open>mongodb/init.go\<close> does so). Filling a template and fetching its file, which work
  on a cache and an HTTP client of third parties, are not modelled.
\<close>

section \<open>Items\<close>

definition createItem :: "env \<Rightarrow> err + CreateItemData \<Rightarrow> item handler" where
  "createItem E body rq =
     orFailR (CreateItemData_ParseBody body) StatusBadRequest ''Could not parse body: '' (\<lambda>cid.
     orFail (Items_CreateItem E cid) StatusExpectationFailed ''Could not create item: ''
       (\<lambda>newItem. retE (Reply newItem)))"

definition getItems :: "env \<Rightarrow> item list handler" where
  "getItems E rq =
     orFail (Items_GetItems E \<lparr>gio_Name = optional_text rq ''name'', gio_Type = optional_text rq ''type''\<rparr>)
       StatusNotFound ''Could not get items: '' (\<lambda>items. retE (Reply items))"

definition getItem :: "env \<Rightarrow> item handler" where
  "getItem E rq =
     orFail (Items_GetItem E (id_var E rq ''id'')) StatusNotFound ''Could not find item: '' (\<lambda>item. retE (Reply item))"

definition updateItem :: "env \<Rightarrow> err + UpdateItemData \<Rightarrow> item handler" where
  "updateItem E body rq =
     orFailR (UpdateItemData_ParseBody body) StatusBadRequest ''Could not parse body: '' (\<lambda>uid.
     orFail (Items_UpdateItem E (id_var E rq ''id'') uid) StatusNotFound ''Could not update item: ''
       (\<lambda>updatedItem. retE (Reply updatedItem)))"

definition deleteItem :: "env \<Rightarrow> item handler" where
  "deleteItem E rq =
     orFail (Items_DeleteItem E (id_var E rq ''id'')) StatusNotFound ''Could not find item: ''
       (\<lambda>item. retE (Reply item))"

definition uploadItemImage :: "env \<Rightarrow> multipart \<Rightarrow> item handler" where
  "uploadItemImage E form rq =
     (let itemID = id_var E rq ''id'' in
      orFail (Items_GetItem E itemID) StatusNotFound ''Invalid item ID: '' (\<lambda>_.
      with_image E form (\<lambda>e. ''Error parsing form: '' @ err_text e) ''Invalid payload: '' not_an_image
        (\<lambda>currentEvent bytes objectSize kind.
      orFail (UploadItemImage E (ev_ID currentEvent) itemID bytes objectSize kind)
        StatusExpectationFailed ''Couldn't upload file: '' (\<lambda>url.
      orFail (Items_UpdateItemImage E itemID url) StatusExpectationFailed ''Couldn't update item image: ''
        (\<lambda>updatedItem. retE (Reply updatedItem))))))"

definition getItemCategories :: "env \<Rightarrow> (string \<times> string) list handler" where
  "getItemCategories E rq =
     orFail (Categories_GetCategories E) StatusInternalServerError ''Could not get categories: ''
       (\<lambda>cats. retE (Reply cats))"

definition createItemCategory :: "env \<Rightarrow> err + string \<Rightarrow> string handler" where
  "createItemCategory E body rq =
     orFailR body StatusBadRequest ''Could not parse body: '' (\<lambda>name.
     if length name = 0 then retE (Failure StatusBadRequest ''invalid name'')
     else
       orFail (Categories_CreateCategory E name) StatusExpectationFailed ''Could not create category: ''
         (\<lambda>_. retE (Reply ''ok'')))"

definition updateItemCategory :: "env \<Rightarrow> err + string \<Rightarrow> string handler" where
  "updateItemCategory E body rq =
     onErr (liftR (env_fromHex E (rq_vars rq ''id'')))
       (\<lambda>_. retE (Failure StatusBadRequest ''invalid id'')) (\<lambda>i.
     orFailR body StatusBadRequest ''Could not parse body: '' (\<lambda>name.
     if length name = 0 then retE (Failure StatusBadRequest ''invalid name'')
     else
       orFail (Categories_UpdateCategory E i name) StatusInternalServerError ''Could not update category: ''
         (\<lambda>_. retE (Reply ''ok''))))"

definition deleteItemCategory :: "env \<Rightarrow> string handler" where
  "deleteItemCategory E rq =
     onErr (liftR (env_fromHex E (rq_vars rq ''id'')))
       (\<lambda>_. retE (Failure StatusBadRequest ''invalid id'')) (\<lambda>i.
     onErr (Categories_DeleteCategory E i)
       (\<lambda>e. if e = ErrNoDocuments then retE (Failure StatusNotFound ''category not found'')
          else retE (Failure StatusInternalServerError (''Could not delete category: '' @ err_text e)))
       (\<lambda>_. retE (Reply ''ok'')))"

section \<open>Packages\<close>

definition createPackage :: "env \<Rightarrow> err + CreatePackageData \<Rightarrow> package handler" where
  "createPackage E body rq =
     orFail (CreatePackageData_ParseBody E body) StatusBadRequest ''Could not parse body: '' (\<lambda>cpd.
     orFail (Packages_CreatePackage E cpd) StatusExpectationFailed ''Could not create package: ''
       (\<lambda>newPackage. retE (Reply newPackage)))"

definition updatePackageItems :: "env \<Rightarrow> err + UpdatePackageItemsData \<Rightarrow> package handler" where
  "updatePackageItems E body rq =
     (let i = id_var E rq ''id'' in
      orFail (Packages_GetPackage E i) StatusNotFound ''Package not found: '' (\<lambda>_.
      orFail (UpdatePackageItemsData_ParseBody E body) StatusBadRequest ''Could not parse body: '' (\<lambda>upid.
      orFail (Packages_UpdatePackageItems E i upid) StatusExpectationFailed
        ''Could not update package's items: '' (\<lambda>updatedPackage. retE (Reply updatedPackage)))))"

definition updatePackage :: "env \<Rightarrow> err + UpdatePackageData \<Rightarrow> package handler" where
  "updatePackage E body rq =
     (let i = id_var E rq ''id'' in
      orFail (Packages_GetPackage E i) StatusNotFound ''Package not found: '' (\<lambda>_.
      orFailR (UpdatePackageData_ParseBody body) StatusBadRequest ''Could not parse body: '' (\<lambda>upd.
      orFail (Packages_UpdatePackage E i upd) StatusExpectationFailed
        ''Could not update package: '' (\<lambda>updatedPackage. retE (Reply updatedPackage)))))"

definition getPackages :: "env \<Rightarrow> package list handler" where
  "getPackages E rq =
     query_value rq ''price'' Atoi StatusBadRequest ''Invalid query (bad price): '' (\<lambda>price.
     query_value rq ''vat'' Atoi StatusBadRequest ''Invalid query (bad VAT): '' (\<lambda>vat.
     orFail (Packages_GetPackages E \<lparr>gpo_Name = optional_text rq ''name'', gpo_Price = price, gpo_VAT = vat\<rparr>)
       StatusExpectationFailed ''Could not get packages: '' (\<lambda>packages. retE (Reply packages))))"

definition getPackage :: "env \<Rightarrow> package handler" where
  "getPackage E rq =
     orFail (Packages_GetPackage E (id_var E rq ''id'')) StatusNotFound ''Unable to get package: ''
       (\<lambda>p. retE (Reply p))"

definition deleteItemPackage :: "env \<Rightarrow> package handler" where
  "deleteItemPackage E rq =
     orFail (Packages_DeleteItemPackage E (id_var E rq ''id'') (id_var E rq ''itemID'')) StatusNotFound
       ''Could not find package: '' (\<lambda>p. retE (Reply p))"

definition deletePackage :: "env \<Rightarrow> package handler" where
  "deletePackage E rq =
     orFail (Packages_DeletePackage E (id_var E rq ''id'')) StatusNotFound ''Could not find package: ''
       (\<lambda>p. retE (Reply p))"

section \<open>Contacts\<close>

text \<open>There is no \<^verbatim>\<open>return\<close> behind the error, so \<^verbatim>\<open>null\<close> follows the message.\<close>

definition getContacts :: "env \<Rightarrow> contact list handler" where
  "getContacts E rq =
     onErr (Contacts_GetContacts E \<lparr>gco_Phone = optional_text rq ''phone'', gco_Mail = optional_text rq ''mail''\<rparr>)
       (\<lambda>e. retE (Failure StatusExpectationFailed
          (''Unable to make query do database: '' @ err_text e @ [CHR 0x0A] @ ''null'')))
       (\<lambda>contacts. retE (Reply contacts))"

definition updateContact :: "env \<Rightarrow> err + CreateContactData \<Rightarrow> contact handler" where
  "updateContact E body rq =
     orFailR (CreateContactData_ParseBody body) StatusBadRequest ''Could not parse body: '' (\<lambda>ccd.
     orFail (Contacts_UpdateContact E (id_var E rq ''id'') ccd) StatusNotFound ''Could not update contact: ''
       (\<lambda>newContact. retE (Reply newContact)))"

definition getContact :: "env \<Rightarrow> contact handler" where
  "getContact E rq =
     orFail (Contacts_GetContact E (id_var E rq ''id'')) StatusNotFound ''Could not find contact: ''
       (\<lambda>contact. retE (Reply contact))"

text \<open>The body of the following four is checked for empty strings here; no route leads to them.\<close>

definition with_body ::
  "err + 'b \<Rightarrow> ('b \<Rightarrow> bool) \<Rightarrow> ('b \<Rightarrow> (world, 'a reply) smonad) \<Rightarrow> (world, 'a reply) smonad" where
  "with_body body bad k =
     orFailR body StatusBadRequest ''Could not parse body: '' (\<lambda>data.
     if bad data then retE (Failure StatusBadRequest ''Could not parse body'') else k data)"

definition addPhone :: "env \<Rightarrow> err + contactPhone \<Rightarrow> contact handler" where
  "addPhone E body rq =
     with_body body (\<lambda>phone. length (cph_Phone phone) = 0) (\<lambda>phone.
     orFail (Contacts_AddPhone E (id_var E rq ''id'') phone) StatusNotFound ''Could not find contact: ''
       (\<lambda>contact. retE (Reply contact)))"

definition addMail :: "env \<Rightarrow> err + contactMail \<Rightarrow> contact handler" where
  "addMail E body rq =
     with_body body (\<lambda>mail. length (cma_Mail mail) = 0) (\<lambda>mail.
     orFail (Contacts_AddMail E (id_var E rq ''id'') mail) StatusNotFound ''Could not find contact: ''
       (\<lambda>contact. retE (Reply contact)))"

definition updatePhone :: "env \<Rightarrow> err + UpdatePhonesData \<Rightarrow> contact handler" where
  "updatePhone E body rq =
     with_body body (\<lambda>data. has_empty_phone (upd_Phones data)) (\<lambda>data.
     orFail (Contacts_UpdatePhoneNumbers E (id_var E rq ''id'') data) StatusNotFound
       ''Could not find contact: '' (\<lambda>contact. retE (Reply contact)))"

definition updateMail :: "env \<Rightarrow> err + UpdateMailsData \<Rightarrow> contact handler" where
  "updateMail E body rq =
     with_body body (\<lambda>data. has_empty_mail (umd_Mails data)) (\<lambda>data.
     orFail (Contacts_UpdateMailList E (id_var E rq ''id'') data) StatusNotFound
       ''Could not find contact: '' (\<lambda>contact. retE (Reply contact)))"

definition updateSocials :: "env \<Rightarrow> err + contactSocials \<Rightarrow> contact handler" where
  "updateSocials E body rq =
     orFailR body StatusBadRequest ''Could not parse body: '' (\<lambda>data.
     orFail (Contacts_UpdateSocials E (id_var E rq ''id'') data) StatusNotFound ''Could not find contact: ''
       (\<lambda>contact. retE (Reply contact)))"

section \<open>Company representatives\<close>

fun company_reps :: "env \<Rightarrow> oid list \<Rightarrow> companyRep list \<Rightarrow> (world, companyRep list) smonad" where
  "company_reps E [] reps = retE reps"
| "company_reps E (repID # rs) reps =
     bindE (CompanyReps_GetCompanyRep E repID) (\<lambda>rep. company_reps E rs (reps @ [rep]))"

definition getCompanyReps :: "env \<Rightarrow> companyRep list handler" where
  "getCompanyReps E rq =
     (let companyID = rq_query rq ''company'' in
      if companyID = [] then retE (Failure StatusBadRequest ''Company ID is required'')
      else
        onErr (liftR (env_fromHex E companyID)) (\<lambda>_. retE (Failure StatusBadRequest ''Invalid company ID'')) (\<lambda>i.
        orFail (Companies_GetCompany E i) StatusExpectationFailed ''Unexpected error: '' (\<lambda>company.
        orFail (company_reps E (co_Employers company) []) StatusExpectationFailed ''Unexpected error: ''
          (\<lambda>reps. retE (Reply reps)))))"

definition getCompanyRep :: "env \<Rightarrow> companyRep handler" where
  "getCompanyRep E rq =
     orFail (CompanyReps_GetCompanyRep E (id_var E rq ''id'')) StatusNotFound ''CompanyRep not found: ''
       (\<lambda>rep. retE (Reply rep))"

definition updateCompanyRep :: "env \<Rightarrow> err + CreateCompanyRepData \<Rightarrow> companyRep handler" where
  "updateCompanyRep E body rq =
     orFailR body StatusBadRequest ''Could not parse body: '' (\<lambda>ccrd.
     orFail (CompanyReps_UpdateCompanyRep E (id_var E rq ''id'') ccrd) StatusNotFound ''CompanyRep not found: ''
       (\<lambda>rep. retE (Reply rep)))"

section \<open>Bills and flights\<close>

definition getBillings :: "env \<Rightarrow> billing list handler" where
  "getBillings E rq = with_credentials rq (\<lambda>credentials.
     query_value rq ''after'' (env_parseTime E) StatusBadRequest ''Invalid date format (after): '' (\<lambda>after.
     query_value rq ''before'' (env_parseTime E) StatusBadRequest ''Invalid date format (before): '' (\<lambda>before.
     query_value rq ''valueGreaterThan'' Atoi StatusBadRequest ''Invalid value (greater): '' (\<lambda>vgt.
     query_value rq ''valueLessThan'' Atoi StatusBadRequest ''Invalid value (less): '' (\<lambda>vlt.
     query_value rq ''event'' Atoi StatusBadRequest ''Invalid value (event): '' (\<lambda>event.
     query_value rq ''company'' (env_fromHex E) StatusBadRequest ''Invalid value (company): '' (\<lambda>companyID.
     orFail (Billings_GetBillings E \<lparr>gbo_After = after, gbo_Before = before, gbo_ValueGreaterThan = vgt,
         gbo_ValueLessThan = vlt, gbo_Event = event, gbo_Company = companyID,
         gbo_Role = Some (ac_Role credentials)\<rparr>)
       StatusExpectationFailed ''unexpected error found: '' (\<lambda>billings. retE (Reply billings)))))))))"

definition getBilling :: "env \<Rightarrow> billing handler" where
  "getBilling E rq =
     orFail (Billings_GetBilling E (id_var E rq ''id'')) StatusNotFound ''Billing not found: ''
       (\<lambda>billing. retE (Reply billing))"

definition updateBilling :: "env \<Rightarrow> err + CreateBillingData \<Rightarrow> billing handler" where
  "updateBilling E body rq =
     orFailR (CreateBillingData_ParseBody body) StatusBadRequest ''Could not parse body: '' (\<lambda>cbd.
     orFail (Billings_UpdateBilling E (id_var E rq ''id'') cbd) StatusNotFound ''Billing not found: ''
       (\<lambda>newBilling. retE (Reply newBilling)))"

definition getFlightInfo :: "env \<Rightarrow> flightInfo handler" where
  "getFlightInfo E rq =
     orFail (FlightInfo_GetFlightInfo E (id_var E rq ''id'')) StatusNotFound ''Could not find flight info: ''
       (\<lambda>flightInfo. retE (Reply flightInfo))"

definition updateFlightInfo :: "env \<Rightarrow> err + CreateFlightInfoData \<Rightarrow> flightInfo handler" where
  "updateFlightInfo E body rq =
     (let i = id_var E rq ''id'' in
      orFail (FlightInfo_GetFlightInfo E i) StatusNotFound ''Could not find flight info: '' (\<lambda>_.
      orFailR (CreateFlightInfoData_ParseBody body) StatusBadRequest ''Could not parse body: '' (\<lambda>ufid.
      orFail (FlightInfo_UpdateFlightInfo E i ufid) StatusExpectationFailed
        ''Could not update flight info: '' (\<lambda>updatedFlightInfo. retE (Reply updatedFlightInfo)))))"

section \<open>Sessions\<close>

definition getSession :: "env \<Rightarrow> session handler" where
  "getSession E rq =
     orFail (Sessions_GetSession E (id_var E rq ''id'')) StatusNotFound ''Could not find session: ''
       (\<lambda>session. retE (Reply session))"

text \<open>A value of the query that cannot be read makes the answer an empty list.\<close>

definition value_or_none ::
  "request \<Rightarrow> string \<Rightarrow> (string \<Rightarrow> err + 'b) \<Rightarrow> ('b option \<Rightarrow> (world, 'a list reply) smonad) \<Rightarrow>
   (world, 'a list reply) smonad" where
  "value_or_none rq name convert k =
     (let s = rq_query rq name in
      if length s > 0 then onErr (liftR (convert s)) (\<lambda>_. retE (Reply [])) (\<lambda>x. k (Some x)) else k None)"

definition event_or_none ::
  "env \<Rightarrow> request \<Rightarrow> (int option \<Rightarrow> (world, 'a list reply) smonad) \<Rightarrow> (world, 'a list reply) smonad" where
  "event_or_none E rq k = value_or_none rq ''event'' Atoi (\<lambda>event. case event of
       None \<Rightarrow> k None
     | Some eventValue \<Rightarrow> onErr (Events_GetEvent E eventValue) (\<lambda>_. retE (Reply [])) (\<lambda>_. k (Some eventValue)))"

definition getSessions :: "env \<Rightarrow> session list handler" where
  "getSessions E rq =
     event_or_none E rq (\<lambda>event.
     value_or_none rq ''before'' (env_parseTime E) (\<lambda>before.
     value_or_none rq ''after'' (env_parseTime E) (\<lambda>after.
     value_or_none rq ''kind'' SessionKind_Parse (\<lambda>kind.
     value_or_none rq ''company'' (env_fromHex E) (\<lambda>company.
     value_or_none rq ''speaker'' (env_fromHex E) (\<lambda>speaker.
     orFail (Sessions_GetSessions E \<lparr>gso_Event = event, gso_Before = before, gso_After = after,
         gso_Place = optional_text rq ''place'', gso_Kind = kind, gso_Company = company, gso_Speaker = speaker\<rparr>)
       StatusExpectationFailed ''Unable to make query do database: '' (\<lambda>sessions. retE (Reply sessions))))))))"

definition getSessionPublic :: "env \<Rightarrow> sessionPublic handler" where
  "getSessionPublic E rq =
     orFail (Sessions_GetSessionPublic E (id_var E rq ''id'')) StatusNotFound ''Could not find session: ''
       (\<lambda>session. retE (Reply session))"

text \<open>Here an error of the database is an empty list too.\<close>

definition getPublicSessions :: "env \<Rightarrow> sessionPublic list handler" where
  "getPublicSessions E rq =
     event_or_none E rq (\<lambda>event.
     value_or_none rq ''kind'' SessionKind_Parse (\<lambda>kind.
     value_or_none rq ''company'' (env_fromHex E) (\<lambda>company.
     value_or_none rq ''speaker'' (env_fromHex E) (\<lambda>speaker.
     onErr (Sessions_GetPublicSessions E \<lparr>gssp_EventID = event, gssp_Kind = kind, gssp_Company = company,
         gssp_Speaker = speaker\<rparr>)
       (\<lambda>_. retE (Reply [])) (\<lambda>sessions. retE (Reply sessions))))))"

definition updateSession :: "env \<Rightarrow> err + CreateSessionData \<Rightarrow> session handler" where
  "updateSession E body rq =
     (let sessionID = id_var E rq ''id'' in
      orFail (Sessions_GetSession E sessionID) StatusNotFound ''Could not find session: '' (\<lambda>_.
      bindE (getsE (\<lambda>w. env_now E (w_tick w))) (\<lambda>now.
      orFailR (UpdateSessionData_ParseBody now body) StatusBadRequest ''Could not parse body: '' (\<lambda>usd.
      orFail (Sessions_UpdateSession E sessionID usd) StatusExpectationFailed ''Could not create session: ''
        (\<lambda>updatedSession.
      reply_and_notify E rq updatedSession
        ((notification_data NotificationKindUpdated)\<lparr>cnd_Session := Some (se_ID updatedSession)\<rparr>))))))"

definition deleteSession :: "env \<Rightarrow> session handler" where
  "deleteSession E rq =
     orFail (Sessions_DeleteSession E (id_var E rq ''id'')) StatusNotFound ''Error deleting session: ''
       (\<lambda>deletedSession. retE (Reply deletedSession))"

section \<open>Templates\<close>

definition addOrdinal :: "int \<Rightarrow> string" where
  "addOrdinal n =
     (if 11 \<le> n \<and> n \<le> 13 then int_string n @ ''th''
      else
        let last = sgn n * (\<bar>n\<bar> mod 10) in
        if last = 1 then int_string n @ ''st''
        else if last = 2 then int_string n @ ''nd''
        else if last = 3 then int_string n @ ''rd''
        else int_string n @ ''th'')"

text \<open>What a template may use, from the requirements the client sends; a later one of a name wins.\<close>

record testPage =
  pg_Speaker :: string
  pg_MemberName :: string
  pg_Company :: string
  pg_Paragraph :: string
  pg_Edition :: int
  pg_EditionOrdinal :: string
  pg_EventStart :: time
  pg_EventEnd :: time

fun fill_page :: "requirement list \<Rightarrow> testPage \<Rightarrow> testPage" where
  "fill_page [] tPage = tPage"
| "fill_page (r # rs) tPage = fill_page rs
     (if rq_Name r = ''speakerName'' then tPage\<lparr>pg_Speaker := rq_StringValue r\<rparr>
      else if rq_Name r = ''userName'' then tPage\<lparr>pg_MemberName := rq_StringValue r\<rparr>
      else if rq_Name r = ''companyName'' then tPage\<lparr>pg_Company := rq_StringValue r\<rparr>
      else if rq_Name r = ''initialParagraph'' then tPage\<lparr>pg_Paragraph := rq_StringValue r\<rparr>
      else if rq_Name r = ''eventEdition'' then tPage\<lparr>pg_Edition := rq_IntegerValue r\<rparr>
      else if rq_Name r = ''eventEditionOrdinal''
        then tPage\<lparr>pg_EditionOrdinal := addOrdinal (rq_IntegerValue r)\<rparr>
      else if rq_Name r = ''eventStart'' then tPage\<lparr>pg_EventStart := rq_DateValue r\<rparr>
      else if rq_Name r = ''eventEnd'' then tPage\<lparr>pg_EventEnd := rq_DateValue r\<rparr>
      else tPage)"

text \<open>These handlers answer with a fixed message, without the error's own.\<close>

definition orSay ::
  "(world, 'b) smonad \<Rightarrow> nat \<Rightarrow> string \<Rightarrow> ('b \<Rightarrow> (world, 'a reply) smonad) \<Rightarrow> (world, 'a reply) smonad" where
  "orSay m status msg k = onErr m (\<lambda>_. retE (Failure status msg)) k"

text \<open>
  The client that downloads the template and the template engine are third-party packages: \<open>download\<close> is the outcome of
  the request and of reading its answer, \<open>parse\<close> that of parsing and of executing. The page is put in the cache of
  filled templates, a variable of the package, under a fresh UUID, and the answer is that UUID; the cache
  keeps it for a minute.
\<close>

definition empty_page :: testPage where
  "empty_page = \<lparr>pg_Speaker = [], pg_MemberName = [], pg_Company = [], pg_Paragraph = [], pg_Edition = 0,
     pg_EditionOrdinal = [], pg_EventStart = - 62135596800000, pg_EventEnd = - 62135596800000\<rparr>"

definition templateExpiration :: time where
  "templateExpiration = 60 * 1000"

definition fillTemplate ::
  "(string \<Rightarrow> err + err + string) \<Rightarrow> (string \<Rightarrow> err + (testPage \<Rightarrow> err + string)) \<Rightarrow>
   env \<Rightarrow> err + TemplateData \<Rightarrow> string handler" where
  "fillTemplate download parse E body rq =
     orSay (Templates_GetTemplate E (id_var E rq ''id'')) StatusNotFound ''Unable to get template'' (\<lambda>templateObject.
     orSay (liftR (TemplateData_ParseFillBody body)) StatusBadRequest ''Could not parse body'' (\<lambda>ftd.
     bindE (deref (tpd_Requirements ftd)) (\<lambda>requirements.
     let tPage = fill_page requirements empty_page in
     orSay (liftR (download (te_Url templateObject))) StatusNotFound ''Unable to download template'' (\<lambda>resp.
     orSay (liftR resp) StatusExpectationFailed ''Unable to download template'' (\<lambda>b.
     orSay (liftR (parse b)) StatusExpectationFailed ''Error parsing template'' (\<lambda>execute.
     orSay (liftR (execute tPage)) StatusExpectationFailed ''Error executing template'' (\<lambda>buf.
     bindE (getsE w_tick) (\<lambda>t.
     let uuid = env_newUUID E t in
     bindE (modifyE (\<lambda>w. w\<lparr>templateCache := (uuid, buf, env_now E t + templateExpiration) # templateCache w\<rparr>)) (\<lambda>_.
     retE (Reply uuid))))))))))"

definition getFilledTemplate :: "env \<Rightarrow> string handler" where
  "getFilledTemplate E rq =
     bindE (getsE (\<lambda>w. env_cacheGet E (env_now E (w_tick w)) (templateCache w) (rq_vars rq ''uuid''))) (\<lambda>template.
     retE (case template of
       None \<Rightarrow> Failure StatusNotFound ''Template unavailable''
     | Some page \<Rightarrow> Reply page))"

definition getTemplates :: "env \<Rightarrow> template list handler" where
  "getTemplates E rq =
     (let event = rq_query rq ''event'' in
      orSay (if length event > 0 then bindE (liftR (Atoi event)) (\<lambda>i. retE (Some i)) else retE None)
        StatusBadRequest ''Invalid event ID format'' (\<lambda>eventID.
      orSay (Templates_GetTemplates E \<lparr>gtp_EventID = eventID, gtp_Name = optional_text rq ''name''\<rparr>)
        StatusExpectationFailed ''Unable to get templates'' (\<lambda>templates. retE (Reply templates))))"

text \<open>A file with the type its header names; the form is the name it gives and the file.\<close>

record templateFile =
  tf_Data :: "err + string"
  tf_MIME :: string

type_synonym template_form = "err + string \<times> (err + templateFile)"

definition event_number :: "request \<Rightarrow> (int \<Rightarrow> (world, 'a reply) smonad) \<Rightarrow> (world, 'a reply) smonad" where
  "event_number rq k =
     (let eventStr = rq_query rq ''event'' in
      if eventStr = [] then retE (Failure StatusBadRequest ''missing event query parameter'')
      else orSay (liftR (Atoi eventStr)) StatusBadRequest ''invalid event id'' k)"

definition store_template_file ::
  "env \<Rightarrow> int \<Rightarrow> oid \<Rightarrow> err + templateFile \<Rightarrow> (world, template reply) smonad" where
  "store_template_file E eventID templateId formFile =
     orSay (liftR formFile) StatusBadRequest ''file field is required'' (\<lambda>file.
     orSay (liftR (tf_Data file)) StatusInternalServerError ''unable to read file'' (\<lambda>b.
     let mime = (if tf_MIME file = [] then ''application/octet-stream'' else tf_MIME file) in
     orSay (UploadTemplateFile E eventID (env_hex E templateId) b (int (length b)) mime) StatusBadGateway
       ''unable to upload to spaces'' (\<lambda>url.
     orSay (Templates_UpdateTemplateUrl E templateId url) StatusInternalServerError
       ''unable to update template url in db'' (\<lambda>updated. retE (Reply updated)))))"

definition uploadTemplateFile :: "env \<Rightarrow> template_form \<Rightarrow> template handler" where
  "uploadTemplateFile E form rq =
     orSay (liftR (env_fromHex E (rq_vars rq ''id''))) StatusBadRequest ''invalid template id'' (\<lambda>templateId.
     event_number rq (\<lambda>eventID.
     orSay (liftR form) StatusBadRequest ''invalid multipart form'' (\<lambda>(_, formFile).
     store_template_file E eventID templateId formFile)))"

text \<open>A template found by a pattern made of the name; without one, a new template is made before the file is looked at.\<close>

definition template_by_name :: "env \<Rightarrow> string \<Rightarrow> int \<Rightarrow> (oid \<Rightarrow> (world, 'a reply) smonad) \<Rightarrow> (world, 'a reply) smonad" where
  "template_by_name E name eventID k =
     orSay (Templates_GetTemplates E \<lparr>gtp_EventID = Some eventID, gtp_Name = Some name\<rparr>)
       StatusInternalServerError ''unable to lookup template'' (\<lambda>templates. case templates of
         t # _ \<Rightarrow> k (te_ID t)
       | [] \<Rightarrow>
           let kind = (if Contains (ToLower name) ''company contract'' then ''companyContract'' else []) in
           bindE (getsE w_tick) (\<lambda>t.
           orSay (Templates_CreateTemplate E \<lparr>te_ID = env_newObjectID E t, te_Name = name, te_Url = [],
               te_Event = eventID, te_Requirements = [], te_Kind = kind\<rparr>) StatusInternalServerError
             ''unable to create template'' (\<lambda>created. k (te_ID created))))"

definition uploadTemplateFileByName :: "env \<Rightarrow> template_form \<Rightarrow> template handler" where
  "uploadTemplateFileByName E form rq =
     event_number rq (\<lambda>eventID.
     orSay (liftR form) StatusBadRequest ''invalid multipart form'' (\<lambda>(formName, formFile).
     let name = (if formName = [] then rq_query rq ''name'' else formName) in
     if name = [] then retE (Failure StatusBadRequest ''template name is required'')
     else template_by_name E name eventID (\<lambda>templateId. store_template_file E eventID templateId formFile)))"

text \<open>The file of a template is fetched from the object store and passed on under the template's name.\<close>

record httpResponse =
  hr_StatusCode :: nat
  hr_ContentType :: string
  hr_Body :: string

record download =
  dl_ContentType :: string
  dl_ContentDisposition :: string
  dl_Body :: string

definition downloadTemplateFile :: "(string \<Rightarrow> err + httpResponse) \<Rightarrow> env \<Rightarrow> download handler" where
  "downloadTemplateFile http_get E rq =
     orSay (liftR (env_fromHex E (rq_vars rq ''id''))) StatusBadRequest ''invalid template id'' (\<lambda>templateId.
     orSay (Templates_GetTemplate E templateId) StatusNotFound ''template not found'' (\<lambda>tmpl.
     if te_Url tmpl = [] then retE (Failure StatusNotFound ''template has no associated file URL'')
     else case http_get (te_Url tmpl) of
       Inl _ \<Rightarrow> retE (Failure StatusBadGateway ''unable to download template file'')
     | Inr resp \<Rightarrow>
         if hr_StatusCode resp \<ge> 400
         then retE (Failure StatusBadGateway ''unable to download template file'')
         else
           let filename = (if te_Name tmpl = [] then ''template.docx'' else te_Name tmpl) in
           retE (Reply \<lparr>dl_ContentType = hr_ContentType resp,
             dl_ContentDisposition = ''attachment; filename='' @ [CHR 0x22] @ filename @ [CHR 0x22],
             dl_Body = hr_Body resp\<rparr>)))"

end
