(* ===== verification/Footprints.thy ===== *)
theory Footprints
  imports PublicSpeakers PublicSessions Members CoordinationTeams Notifications Templates Catalogue Billing
    SpeakerParticipations CompanyParticipations ThreadHandling
begin

text \<open>
  Footprints: which parts of the state a program may change. A part is the documents of one collection,
  the cached public pages, or the cache of filled templates. That a program changes no part outside \<open>S\<close> is \<open>keeps (outside S v)\<close>, for every
  state \<open>v\<close>: a run that starts with the parts of \<open>v\<close> outside \<open>S\<close> ends with them. So the rules of \<open>keeps\<close>
  combine footprints, and no contract of the driver is needed: a call writes its own collection only.
  Each function of the data layer has one, in the collection \<open>footprints\<close>.
\<close>

section \<open>The parts of the state\<close>

datatype part =
    CompanyDocs | SpeakerDocs | EventDocs | TeamDocs | MemberDocs | ItemDocs | CategoryDocs |
  PackageDocs | MeetingDocs | ContactDocs | ThreadDocs | PostDocs | FlightDocs | SessionDocs |
  BillingDocs | RepDocs | NotificationDocs | TemplateDocs | CoordinationDocs | Caches |
  FilledPages

fun same_part :: "world \<Rightarrow> world \<Rightarrow> part \<Rightarrow> bool" where
  "same_part v w CompanyDocs = (w_companies v = w_companies w)"
| "same_part v w SpeakerDocs = (w_speakers v = w_speakers w)"
| "same_part v w EventDocs = (w_events v = w_events w)"
| "same_part v w TeamDocs = (w_teams v = w_teams w)"
| "same_part v w MemberDocs = (w_members v = w_members w)"
| "same_part v w ItemDocs = (w_items v = w_items w)"
| "same_part v w CategoryDocs = (w_categories v = w_categories w)"
| "same_part v w PackageDocs = (w_packages v = w_packages w)"
| "same_part v w MeetingDocs = (w_meetings v = w_meetings w)"
| "same_part v w ContactDocs = (w_contacts v = w_contacts w)"
| "same_part v w ThreadDocs = (w_threads v = w_threads w)"
| "same_part v w PostDocs = (w_posts v = w_posts w)"
| "same_part v w FlightDocs = (w_flightInfo v = w_flightInfo w)"
| "same_part v w SessionDocs = (w_sessions v = w_sessions w)"
| "same_part v w BillingDocs = (w_billings v = w_billings w)"
| "same_part v w RepDocs = (w_companyReps v = w_companyReps w)"
| "same_part v w NotificationDocs = (w_notifications v = w_notifications w)"
| "same_part v w TemplateDocs = (w_templates v = w_templates w)"
| "same_part v w CoordinationDocs = (w_coordinationTeams v = w_coordinationTeams w)"
| "same_part v w Caches = (currentPublicEvent v = currentPublicEvent w \<and>
     currentPublicCompanies v = currentPublicCompanies w \<and> currentPublicSpeakers v = currentPublicSpeakers w \<and>
     currentPublicMembers v = currentPublicMembers w \<and> currentPublicSessions v = currentPublicSessions w)"
| "same_part v w FilledPages = (templateCache v = templateCache w)"

definition outside :: "part set \<Rightarrow> world \<Rightarrow> world \<Rightarrow> bool" where
  "outside S v w \<longleftrightarrow> (\<forall>p. p \<notin> S \<longrightarrow> same_part v w p)"

lemma same_part_refl [simp]: "same_part v v p"
  by (cases p) simp_all

lemma same_part_trans: "same_part u v p \<Longrightarrow> same_part v w p \<Longrightarrow> same_part u w p"
  by (cases p) simp_all

lemma outside_refl [simp]: "outside S v v"
  by (simp add: outside_def)

lemma outside_mono: "outside S v w \<Longrightarrow> S \<subseteq> T \<Longrightarrow> outside T v w"
  by (auto simp: outside_def)

lemma same_part_tick [simp]: "same_part v (tickw w) p = same_part v w p"
  by (cases p) simp_all

lemma outside_tick [simp]: "outside S v (tickw w) = outside S v w"
  by (simp add: outside_def)

text \<open>Writing a part that may change.\<close>

lemma same_part_docs:
  "p \<noteq> CompanyDocs \<Longrightarrow> same_part v (w\<lparr>w_companies := ds0\<rparr>) p = same_part v w p"
  "p \<noteq> SpeakerDocs \<Longrightarrow> same_part v (w\<lparr>w_speakers := ds1\<rparr>) p = same_part v w p"
  "p \<noteq> EventDocs \<Longrightarrow> same_part v (w\<lparr>w_events := ds2\<rparr>) p = same_part v w p"
  "p \<noteq> TeamDocs \<Longrightarrow> same_part v (w\<lparr>w_teams := ds3\<rparr>) p = same_part v w p"
  "p \<noteq> MemberDocs \<Longrightarrow> same_part v (w\<lparr>w_members := ds4\<rparr>) p = same_part v w p"
  "p \<noteq> ItemDocs \<Longrightarrow> same_part v (w\<lparr>w_items := ds5\<rparr>) p = same_part v w p"
  "p \<noteq> CategoryDocs \<Longrightarrow> same_part v (w\<lparr>w_categories := ds6\<rparr>) p = same_part v w p"
  "p \<noteq> PackageDocs \<Longrightarrow> same_part v (w\<lparr>w_packages := ds7\<rparr>) p = same_part v w p"
  "p \<noteq> MeetingDocs \<Longrightarrow> same_part v (w\<lparr>w_meetings := ds8\<rparr>) p = same_part v w p"
  "p \<noteq> ContactDocs \<Longrightarrow> same_part v (w\<lparr>w_contacts := ds9\<rparr>) p = same_part v w p"
  "p \<noteq> ThreadDocs \<Longrightarrow> same_part v (w\<lparr>w_threads := ds10\<rparr>) p = same_part v w p"
  "p \<noteq> PostDocs \<Longrightarrow> same_part v (w\<lparr>w_posts := ds11\<rparr>) p = same_part v w p"
  "p \<noteq> FlightDocs \<Longrightarrow> same_part v (w\<lparr>w_flightInfo := ds12\<rparr>) p = same_part v w p"
  "p \<noteq> SessionDocs \<Longrightarrow> same_part v (w\<lparr>w_sessions := ds13\<rparr>) p = same_part v w p"
  "p \<noteq> BillingDocs \<Longrightarrow> same_part v (w\<lparr>w_billings := ds14\<rparr>) p = same_part v w p"
  "p \<noteq> RepDocs \<Longrightarrow> same_part v (w\<lparr>w_companyReps := ds15\<rparr>) p = same_part v w p"
  "p \<noteq> NotificationDocs \<Longrightarrow> same_part v (w\<lparr>w_notifications := ds16\<rparr>) p = same_part v w p"
  "p \<noteq> TemplateDocs \<Longrightarrow> same_part v (w\<lparr>w_templates := ds17\<rparr>) p = same_part v w p"
  "p \<noteq> CoordinationDocs \<Longrightarrow> same_part v (w\<lparr>w_coordinationTeams := ds18\<rparr>) p = same_part v w p"
  "p \<noteq> Caches \<Longrightarrow> same_part v (w\<lparr>currentPublicEvent := c0\<rparr>) p = same_part v w p"
  "p \<noteq> Caches \<Longrightarrow> same_part v (w\<lparr>currentPublicCompanies := c1\<rparr>) p = same_part v w p"
  "p \<noteq> Caches \<Longrightarrow> same_part v (w\<lparr>currentPublicSpeakers := c2\<rparr>) p = same_part v w p"
  "p \<noteq> Caches \<Longrightarrow> same_part v (w\<lparr>currentPublicMembers := c3\<rparr>) p = same_part v w p"
  "p \<noteq> Caches \<Longrightarrow> same_part v (w\<lparr>currentPublicSessions := c4\<rparr>) p = same_part v w p"
  "p \<noteq> FilledPages \<Longrightarrow> same_part v (w\<lparr>templateCache := c5\<rparr>) p = same_part v w p"
  by (cases p; simp)+

lemma outside_docs [simp]:
  "CompanyDocs \<in> S \<Longrightarrow> outside S v (w\<lparr>w_companies := ds0\<rparr>) = outside S v w"
  "SpeakerDocs \<in> S \<Longrightarrow> outside S v (w\<lparr>w_speakers := ds1\<rparr>) = outside S v w"
  "EventDocs \<in> S \<Longrightarrow> outside S v (w\<lparr>w_events := ds2\<rparr>) = outside S v w"
  "TeamDocs \<in> S \<Longrightarrow> outside S v (w\<lparr>w_teams := ds3\<rparr>) = outside S v w"
  "MemberDocs \<in> S \<Longrightarrow> outside S v (w\<lparr>w_members := ds4\<rparr>) = outside S v w"
  "ItemDocs \<in> S \<Longrightarrow> outside S v (w\<lparr>w_items := ds5\<rparr>) = outside S v w"
  "CategoryDocs \<in> S \<Longrightarrow> outside S v (w\<lparr>w_categories := ds6\<rparr>) = outside S v w"
  "PackageDocs \<in> S \<Longrightarrow> outside S v (w\<lparr>w_packages := ds7\<rparr>) = outside S v w"
  "MeetingDocs \<in> S \<Longrightarrow> outside S v (w\<lparr>w_meetings := ds8\<rparr>) = outside S v w"
  "ContactDocs \<in> S \<Longrightarrow> outside S v (w\<lparr>w_contacts := ds9\<rparr>) = outside S v w"
  "ThreadDocs \<in> S \<Longrightarrow> outside S v (w\<lparr>w_threads := ds10\<rparr>) = outside S v w"
  "PostDocs \<in> S \<Longrightarrow> outside S v (w\<lparr>w_posts := ds11\<rparr>) = outside S v w"
  "FlightDocs \<in> S \<Longrightarrow> outside S v (w\<lparr>w_flightInfo := ds12\<rparr>) = outside S v w"
  "SessionDocs \<in> S \<Longrightarrow> outside S v (w\<lparr>w_sessions := ds13\<rparr>) = outside S v w"
  "BillingDocs \<in> S \<Longrightarrow> outside S v (w\<lparr>w_billings := ds14\<rparr>) = outside S v w"
  "RepDocs \<in> S \<Longrightarrow> outside S v (w\<lparr>w_companyReps := ds15\<rparr>) = outside S v w"
  "NotificationDocs \<in> S \<Longrightarrow> outside S v (w\<lparr>w_notifications := ds16\<rparr>) = outside S v w"
  "TemplateDocs \<in> S \<Longrightarrow> outside S v (w\<lparr>w_templates := ds17\<rparr>) = outside S v w"
  "CoordinationDocs \<in> S \<Longrightarrow> outside S v (w\<lparr>w_coordinationTeams := ds18\<rparr>) = outside S v w"
  "Caches \<in> S \<Longrightarrow> outside S v (w\<lparr>currentPublicEvent := c0\<rparr>) = outside S v w"
  "Caches \<in> S \<Longrightarrow> outside S v (w\<lparr>currentPublicCompanies := c1\<rparr>) = outside S v w"
  "Caches \<in> S \<Longrightarrow> outside S v (w\<lparr>currentPublicSpeakers := c2\<rparr>) = outside S v w"
  "Caches \<in> S \<Longrightarrow> outside S v (w\<lparr>currentPublicMembers := c3\<rparr>) = outside S v w"
  "Caches \<in> S \<Longrightarrow> outside S v (w\<lparr>currentPublicSessions := c4\<rparr>) = outside S v w"
  "FilledPages \<in> S \<Longrightarrow> outside S v (w\<lparr>templateCache := c5\<rparr>) = outside S v w"
  unfolding outside_def by (metis same_part_docs)+

section \<open>Rules\<close>

named_theorems footprints \<open>what a program leaves unchanged\<close>

lemma keeps_prod [keeps_rules]: "(\<And>a b. keeps I (k a b)) \<Longrightarrow> keeps I (case p of (a, b) \<Rightarrow> k a b)"
  by (cases p) simp

lemma keeps_sum [keeps_rules]:
  "(\<And>a. keeps I (k a)) \<Longrightarrow> (\<And>b. keeps I (l b)) \<Longrightarrow> keeps I (case r of Inl a \<Rightarrow> k a | Inr b \<Rightarrow> l b)"
  by (cases r) simp_all

lemma keeps_list [keeps_rules]:
  "keeps I m \<Longrightarrow> (\<And>x xs. keeps I (k x xs)) \<Longrightarrow> keeps I (case l of [] \<Rightarrow> m | x # xs \<Rightarrow> k x xs)"
  by (cases l) simp_all

lemma keeps_reply [keeps_rules]:
  "(\<And>x. keeps I (k x)) \<Longrightarrow> (\<And>s t. keeps I (l s t)) \<Longrightarrow>
   keeps I (case r of Reply x \<Rightarrow> k x | Failure s t \<Rightarrow> l s t)"
  by (cases r) simp_all

lemma keeps_err [keeps_rules]:
  "keeps I a \<Longrightarrow> (\<And>s. keeps I (b s)) \<Longrightarrow> (\<And>s. keeps I (c s)) \<Longrightarrow> (\<And>s. keeps I (d s)) \<Longrightarrow>
   (\<And>s. keeps I (f s)) \<Longrightarrow> (\<And>s. keeps I (g s)) \<Longrightarrow>
   keeps I (case e of ErrNoDocuments \<Rightarrow> a | CommandError s \<Rightarrow> b s | DriverError s \<Rightarrow> c s
     | Err s \<Rightarrow> d s | Panic s \<Rightarrow> f s | Fatal s \<Rightarrow> g s)"
  by (cases e) simp_all

lemma keeps_FindCursor [keeps_rules]:
  "(\<And>s. I (tick h s) = I s) \<Longrightarrow> keeps I (FindCursor h f)"
  by (auto simp: keeps_def wp_def FindCursor_def split: sum.splits)

lemma keeps_pages [keeps_rules]:
  assumes "\<And>s. I (tick h s) = I s"
  shows "keeps I (find_page h f skip limit)" and "keeps I (aggregate_page h f rank skip limit)"
  unfolding find_page_def aggregate_page_def by (rule keeps_rules | simp add: assms)+

lemma keeps_parts [keeps_rules]:
  "keeps I m \<Longrightarrow> (\<And>x. keeps I (k x)) \<Longrightarrow> keeps I (orFail m s t k)"
  "(\<And>x. keeps I (k' x)) \<Longrightarrow> keeps I (orFailR r s t k')"
  "(\<And>x. keeps I (l x)) \<Longrightarrow> keeps I (query_value rq n c s t l)"
  "(\<And>x. keeps I (cr x)) \<Longrightarrow> keeps I (with_credentials rq cr)"
  "keeps I m' \<Longrightarrow> (\<And>x. keeps I (j x)) \<Longrightarrow> keeps I (thenR m' j)"
  "keeps I undo \<Longrightarrow> keeps I (failing s t e undo)"
  "(\<And>x. keeps I (up x)) \<Longrightarrow> keeps I (with_file form limit unparsed invalid up)"
  unfolding orFail_def orFailR_def query_value_def with_credentials_def thenR_def failing_def with_file_def
  by (intro keeps_rules; assumption)+

section \<open>Lookups, events, contacts, the catalogue, bills\<close>

lemma footprints_Lookups [footprints]:
  "keeps (outside S v) (Companies_GetCompany E i)"
  "keeps (outside S v) (Speakers_GetSpeaker E i)"
  "keeps (outside S v) (Members_GetMember E i)"
  "keeps (outside S v) (Sessions_GetSession E i)"
  unfolding Companies_GetCompany_def Speakers_GetSpeaker_def Members_GetMember_def
    Sessions_GetSession_def
  by (rule keeps_rules footprints keeps_store keeps_modifyE | assumption | simp)+

lemma footprints_Events [footprints]:
  "Caches \<in> S \<Longrightarrow> keeps (outside S v) ResetCurrentPublicEvent"
  "keeps (outside S v) (Events_GetCurrentEvent E)"
  "EventDocs \<in> S \<Longrightarrow> Caches \<in> S \<Longrightarrow> keeps (outside S v) (Events_CreateEvent E x0)"
  "keeps (outside S v) (Events_GetEvents E x1)"
  "keeps (outside S v) (Events_GetPublicEvents E x2)"
  "keeps (outside S v) (Events_GetEvent E n)"
  "EventDocs \<in> S \<Longrightarrow> Caches \<in> S \<Longrightarrow> keeps (outside S v) (Events_UpdateEvent E n x3)"
  "EventDocs \<in> S \<Longrightarrow> Caches \<in> S \<Longrightarrow> keeps (outside S v) (Events_DeleteEvent E n)"
  "EventDocs \<in> S \<Longrightarrow> Caches \<in> S \<Longrightarrow> keeps (outside S v) (Events_UpdateThemes E n x4)"
  "EventDocs \<in> S \<Longrightarrow> keeps (outside S v) (Events_UpdateTeams E n x5)"
  "EventDocs \<in> S \<Longrightarrow> keeps (outside S v) (Events_AddPackage E n x6)"
  "EventDocs \<in> S \<Longrightarrow> keeps (outside S v) (Events_AddSession E n i)"
  "EventDocs \<in> S \<Longrightarrow> keeps (outside S v) (Events_RemovePackage E n i)"
  "EventDocs \<in> S \<Longrightarrow> keeps (outside S v) (Events_UpdatePackage E n i x7)"
  "EventDocs \<in> S \<Longrightarrow> keeps (outside S v) (Events_AddItem E n x8)"
  "EventDocs \<in> S \<Longrightarrow> keeps (outside S v) (Events_RemoveItem E n i)"
  "EventDocs \<in> S \<Longrightarrow> keeps (outside S v) (Events_AddMeeting E n i)"
  "EventDocs \<in> S \<Longrightarrow> keeps (outside S v) (Events_RemoveMeeting E n i)"
  "EventDocs \<in> S \<Longrightarrow> keeps (outside S v) (Events_RemoveTeam E n i)"
  "EventDocs \<in> S \<Longrightarrow> keeps (outside S v) (Events_UpdateCalendar E n s)"
  unfolding ResetCurrentPublicEvent_def Events_GetCurrentEvent_def Events_CreateEvent_def
    Events_GetEvents_def Events_GetPublicEvents_def Events_GetEvent_def Events_UpdateEvent_def
    Events_DeleteEvent_def Events_UpdateThemes_def Events_UpdateTeams_def Events_AddPackage_def
    Events_AddSession_def Events_RemovePackage_def Events_UpdatePackage_def Events_AddItem_def
    Events_RemoveItem_def Events_AddMeeting_def Events_RemoveMeeting_def Events_RemoveTeam_def
    Events_UpdateCalendar_def
  by (rule keeps_rules footprints keeps_store keeps_modifyE | assumption | simp)+

lemma footprints_Contacts [footprints]:
  "keeps (outside S v) (Contacts_GetContact E i)"
  "keeps (outside S v) (Contacts_GetContacts E x0)"
  "ContactDocs \<in> S \<Longrightarrow> keeps (outside S v) (Contacts_CreateContact E x1)"
  "ContactDocs \<in> S \<Longrightarrow> keeps (outside S v) (Contacts_UpdateContact E i x1)"
  "ContactDocs \<in> S \<Longrightarrow> keeps (outside S v) (Contacts_AddPhone E i x2)"
  "ContactDocs \<in> S \<Longrightarrow> keeps (outside S v) (Contacts_AddMail E i x3)"
  "ContactDocs \<in> S \<Longrightarrow> keeps (outside S v) (Contacts_UpdatePhoneNumbers E i x4)"
  "ContactDocs \<in> S \<Longrightarrow> keeps (outside S v) (Contacts_UpdateMailList E i x5)"
  "ContactDocs \<in> S \<Longrightarrow> keeps (outside S v) (Contacts_UpdateSocials E i x6)"
  "ContactDocs \<in> S \<Longrightarrow> keeps (outside S v) (Contacts_DeleteContact E i)"
  "keeps (outside S v) (CompanyReps_GetCompanyRep E i)"
  "keeps (outside S v) (CompanyReps_GetCompanyReps E x7)"
  "ContactDocs \<in> S \<Longrightarrow> RepDocs \<in> S \<Longrightarrow> keeps (outside S v) (CompanyReps_CreateCompanyRep E x8)"
  "ContactDocs \<in> S \<Longrightarrow> RepDocs \<in> S \<Longrightarrow> keeps (outside S v) (CompanyReps_UpdateCompanyRep E i x8)"
  "RepDocs \<in> S \<Longrightarrow> keeps (outside S v) (CompanyReps_DeleteCompanyRep E i)"
  unfolding Contacts_GetContact_def Contacts_GetContacts_def Contacts_CreateContact_def
    Contacts_UpdateContact_def Contacts_AddPhone_def Contacts_AddMail_def
    Contacts_UpdatePhoneNumbers_def Contacts_UpdateMailList_def Contacts_UpdateSocials_def
    Contacts_DeleteContact_def CompanyReps_GetCompanyRep_def CompanyReps_GetCompanyReps_def
    CompanyReps_CreateCompanyRep_def CompanyReps_UpdateCompanyRep_def CompanyReps_DeleteCompanyRep_def
  by (rule keeps_rules footprints keeps_store keeps_modifyE | assumption | simp)+

lemma footprints_Catalogue [footprints]:
  "ItemDocs \<in> S \<Longrightarrow> keeps (outside S v) (Items_CreateItem E x0)"
  "keeps (outside S v) (Items_GetItem E i)"
  "ItemDocs \<in> S \<Longrightarrow> keeps (outside S v) (Items_UpdateItem E i x1)"
  "ItemDocs \<in> S \<Longrightarrow> keeps (outside S v) (Items_DeleteItem E i)"
  "keeps (outside S v) (Items_GetItems E x2)"
  "ItemDocs \<in> S \<Longrightarrow> keeps (outside S v) (Items_UpdateItemImage E i s)"
  "keeps (outside S v) (Categories_GetCategories E)"
  "CategoryDocs \<in> S \<Longrightarrow> keeps (outside S v) (Categories_CreateCategory E s)"
  "CategoryDocs \<in> S \<Longrightarrow> keeps (outside S v) (Categories_UpdateCategory E i s)"
  "CategoryDocs \<in> S \<Longrightarrow> keeps (outside S v) (Categories_DeleteCategory E i)"
  "keeps (outside S v) (check_item E i)"
  "keeps (outside S v) (CreatePackageData_ParseBody E body0)"
  "PackageDocs \<in> S \<Longrightarrow> keeps (outside S v) (Packages_CreatePackage E x3)"
  "keeps (outside S v) (Packages_GetPackage E i)"
  "keeps (outside S v) (UpdatePackageItemsData_ParseBody E body1)"
  "PackageDocs \<in> S \<Longrightarrow> keeps (outside S v) (Packages_UpdatePackageItems E i x4)"
  "PackageDocs \<in> S \<Longrightarrow> keeps (outside S v) (Packages_UpdatePackage E i x5)"
  "PackageDocs \<in> S \<Longrightarrow> keeps (outside S v) (Packages_DeletePackage E i)"
  "PackageDocs \<in> S \<Longrightarrow> keeps (outside S v) (Packages_DeleteItemPackage E i i')"
  "keeps (outside S v) (Packages_GetPackages E x6)"
  unfolding Items_CreateItem_def Items_GetItem_def Items_UpdateItem_def Items_DeleteItem_def
    Items_GetItems_def Items_UpdateItemImage_def Categories_GetCategories_def
    Categories_CreateCategory_def Categories_UpdateCategory_def Categories_DeleteCategory_def
    check_item_def CreatePackageData_ParseBody_def Packages_CreatePackage_def Packages_GetPackage_def
    UpdatePackageItemsData_ParseBody_def Packages_UpdatePackageItems_def Packages_UpdatePackage_def
    Packages_DeletePackage_def Packages_DeleteItemPackage_def Packages_GetPackages_def
  by (rule keeps_rules footprints keeps_store keeps_modifyE | assumption | simp)+

lemma footprints_Billing [footprints]:
  "keeps (outside S v) (Billings_GetBillings E x0)"
  "keeps (outside S v) (Billings_GetBilling E i)"
  "keeps (outside S v) (billing_status x1)"
  "BillingDocs \<in> S \<Longrightarrow> keeps (outside S v) (Billings_CreateBilling E x1)"
  "BillingDocs \<in> S \<Longrightarrow> keeps (outside S v) (Billings_UpdateBilling E i x1)"
  "BillingDocs \<in> S \<Longrightarrow> keeps (outside S v) (Billings_DeleteBilling E i)"
  "FlightDocs \<in> S \<Longrightarrow> keeps (outside S v) (FlightInfo_CreateFlightInfo E x2)"
  "keeps (outside S v) (FlightInfo_GetFlightInfo E i)"
  "FlightDocs \<in> S \<Longrightarrow> keeps (outside S v) (FlightInfo_DeleteFlightInfo E i)"
  "FlightDocs \<in> S \<Longrightarrow> keeps (outside S v) (FlightInfo_UpdateFlightInfo E i x2)"
  unfolding Billings_GetBillings_def Billings_GetBilling_def billing_status_def
    Billings_CreateBilling_def Billings_UpdateBilling_def Billings_DeleteBilling_def
    FlightInfo_CreateFlightInfo_def FlightInfo_GetFlightInfo_def FlightInfo_DeleteFlightInfo_def
    FlightInfo_UpdateFlightInfo_def
  by (rule keeps_rules footprints keeps_store keeps_modifyE | assumption | simp)+

section \<open>Sessions, companies, speakers\<close>

lemma footprints_Sessions1 [footprints]:
  "Caches \<in> S \<Longrightarrow> keeps (outside S v) ResetCurrentPublicSessions"
  "keeps (outside S v) (check_speaker E i)"
  "keeps (outside S v) (check_company E i)"
  "keeps (outside S v) (CreateSessionData_ParseBody E body0)"
  "SessionDocs \<in> S \<Longrightarrow> Caches \<in> S \<Longrightarrow> keeps (outside S v) (Sessions_CreateSession E x0)"
  "SessionDocs \<in> S \<Longrightarrow> Caches \<in> S \<Longrightarrow> keeps (outside S v) (Sessions_UpdateSession E i x0)"
  "SessionDocs \<in> S \<Longrightarrow> keeps (outside S v) (Sessions_DeleteSession E i)"
  "keeps (outside S v) (keep_session x1 x2)"
  unfolding ResetCurrentPublicSessions_def check_speaker_def check_company_def
    CreateSessionData_ParseBody_def Sessions_CreateSession_def Sessions_UpdateSession_def
    Sessions_DeleteSession_def keep_session_def
  by (rule keeps_rules footprints keeps_store keeps_modifyE | assumption | simp)+

lemma footprints_select_sessions [footprints]:
  "keeps (outside S v) (select_sessions E x0 x1 x2)"
  by (induction x1 arbitrary: x2; (rule keeps_rules footprints | simp split del: if_split)+)

lemma footprints_Sessions2 [footprints]:
  "keeps (outside S v) (Sessions_GetSessions E x0)"
  unfolding Sessions_GetSessions_def
  by (rule keeps_rules footprints keeps_store keeps_modifyE | assumption | simp)+

lemma footprints_Companies1 [footprints]:
  "Caches \<in> S \<Longrightarrow> keeps (outside S v) ResetCurrentPublicCompanies"
  "CompanyDocs \<in> S \<Longrightarrow> ContactDocs \<in> S \<Longrightarrow> Caches \<in> S \<Longrightarrow> keeps (outside S v) (Companies_CreateCompany E x0)"
  "keeps (outside S v) (Companies_GetCompanies E x1)"
  "keeps (outside S v) (Companies_GetCompaniesByMembers E x2 x3)"
  "keeps (outside S v) (participation_package E x4)"
  unfolding ResetCurrentPublicCompanies_def Companies_CreateCompany_def Companies_GetCompanies_def
    Companies_GetCompaniesByMembers_def participation_package_def
  by (rule keeps_rules footprints keeps_store keeps_modifyE | assumption | simp)+

lemma footprints_companyToPublic_loop [footprints]:
  "keeps (outside S v) (companyToPublic_loop E x0 x1 x2 x3)"
  by (induction x1 arbitrary: x2 x3; (rule keeps_rules footprints | simp split del: if_split)+)

lemma footprints_Companies2 [footprints]:
  "keeps (outside S v) (companyToPublic E x0 x1)"
  unfolding companyToPublic_def
  by (rule keeps_rules footprints keeps_store keeps_modifyE | assumption | simp)+

lemma footprints_public_companies [footprints]:
  "keeps (outside S v) (public_companies E n x0 x1)"
  by (induction x0 arbitrary: x1; (rule keeps_rules footprints | simp split del: if_split)+)

lemma footprints_Companies3 [footprints]:
  "Caches \<in> S \<Longrightarrow> keeps (outside S v) (Companies_GetPublicCompanies E x0)"
  "keeps (outside S v) (Companies_GetCompanyPublic E i)"
  unfolding Companies_GetPublicCompanies_def Companies_GetCompanyPublic_def
  by (rule keeps_rules footprints keeps_store keeps_modifyE | assumption | simp)+

lemma footprints_CompanyParticipations [footprints]:
  "CompanyDocs \<in> S \<Longrightarrow> keeps (outside S v) (Companies_Subscribe E i i')"
  "CompanyDocs \<in> S \<Longrightarrow> keeps (outside S v) (Companies_Unsubscribe E i i')"
  "CompanyDocs \<in> S \<Longrightarrow> Caches \<in> S \<Longrightarrow> keeps (outside S v) (Companies_AddParticipation E i i' x0)"
  "CompanyDocs \<in> S \<Longrightarrow> Caches \<in> S \<Longrightarrow> keeps (outside S v) (Companies_StepStatus E i n)"
  "keeps (outside S v) (Companies_GetCompanyParticipationStatusValidSteps E i)"
  "keeps (outside S v) (UpdateCompanyParticipationData_ParseBody E body0)"
  "CompanyDocs \<in> S \<Longrightarrow> Caches \<in> S \<Longrightarrow> keeps (outside S v) (Companies_UpdateCompanyParticipation E i x1)"
  "CompanyDocs \<in> S \<Longrightarrow> keeps (outside S v) (Companies_UpdateCompanyGmailThreadIds E i x2)"
  "CompanyDocs \<in> S \<Longrightarrow> Caches \<in> S \<Longrightarrow> keeps (outside S v) (Companies_UpdateCompanyParticipationStatus E i x3)"
  "CompanyDocs \<in> S \<Longrightarrow> keeps (outside S v) (Companies_AddThread E i i')"
  "CompanyDocs \<in> S \<Longrightarrow> keeps (outside S v) (Companies_RemoveCommunication E i i')"
  "CompanyDocs \<in> S \<Longrightarrow> keeps (outside S v) (Companies_AddSubscriber E i i')"
  "CompanyDocs \<in> S \<Longrightarrow> keeps (outside S v) (Companies_RemoveSubscriber E i i')"
  "CompanyDocs \<in> S \<Longrightarrow> Caches \<in> S \<Longrightarrow> keeps (outside S v) (Companies_UpdatePackage E i i')"
  "CompanyDocs \<in> S \<Longrightarrow> Caches \<in> S \<Longrightarrow> keeps (outside S v) (Companies_UpdateBilling E i i' n)"
  "CompanyDocs \<in> S \<Longrightarrow> keeps (outside S v) (Companies_RemoveCompanyParticipationBilling E i n)"
  "CompanyDocs \<in> S \<Longrightarrow> Caches \<in> S \<Longrightarrow> keeps (outside S v) (Companies_AnnounceAcceptedCompanies E)"
  "CompanyDocs \<in> S \<Longrightarrow> Caches \<in> S \<Longrightarrow> keeps (outside S v) (Companies_UpdateCompany E i x4)"
  "CompanyDocs \<in> S \<Longrightarrow> Caches \<in> S \<Longrightarrow> keeps (outside S v) (Companies_UpdateCompanyInternalImage E i s)"
  "CompanyDocs \<in> S \<Longrightarrow> Caches \<in> S \<Longrightarrow> keeps (outside S v) (Companies_UpdateCompanyPublicImage E i s)"
  "CompanyDocs \<in> S \<Longrightarrow> ContactDocs \<in> S \<Longrightarrow> RepDocs \<in> S \<Longrightarrow> keeps (outside S v) (Companies_AddEmployer E i x5)"
  "CompanyDocs \<in> S \<Longrightarrow> RepDocs \<in> S \<Longrightarrow> keeps (outside S v) (Companies_RemoveEmployer E i i')"
  "keeps (outside S v) (UpdateEmployersOrderData_ParseBody E body1)"
  "CompanyDocs \<in> S \<Longrightarrow> keeps (outside S v) (Companies_UpdateEmployersOrder E i x6)"
  "CompanyDocs \<in> S \<Longrightarrow> keeps (outside S v) (Companies_DeleteCompanyThread E i i')"
  "CompanyDocs \<in> S \<Longrightarrow> keeps (outside S v) (Companies_DeleteCompanyParticipation E i n)"
  "CompanyDocs \<in> S \<Longrightarrow> ContactDocs \<in> S \<Longrightarrow> SessionDocs \<in> S \<Longrightarrow> keeps (outside S v) (Companies_DeleteCompany E i)"
  "keeps (outside S v) (Companies_FindThread E i)"
  unfolding Companies_Subscribe_def Companies_Unsubscribe_def Companies_AddParticipation_def
    Companies_StepStatus_def Companies_GetCompanyParticipationStatusValidSteps_def
    UpdateCompanyParticipationData_ParseBody_def Companies_UpdateCompanyParticipation_def
    Companies_UpdateCompanyGmailThreadIds_def Companies_UpdateCompanyParticipationStatus_def
    Companies_AddThread_def Companies_RemoveCommunication_def Companies_AddSubscriber_def
    Companies_RemoveSubscriber_def Companies_UpdatePackage_def Companies_UpdateBilling_def
    Companies_RemoveCompanyParticipationBilling_def Companies_AnnounceAcceptedCompanies_def
    Companies_UpdateCompany_def Companies_UpdateCompanyInternalImage_def
    Companies_UpdateCompanyPublicImage_def Companies_AddEmployer_def Companies_RemoveEmployer_def
    UpdateEmployersOrderData_ParseBody_def Companies_UpdateEmployersOrder_def
    Companies_DeleteCompanyThread_def Companies_DeleteCompanyParticipation_def
    Companies_DeleteCompany_def Companies_FindThread_def
  by (rule keeps_rules footprints keeps_store keeps_modifyE | assumption | simp)+

lemma footprints_Speakers [footprints]:
  "Caches \<in> S \<Longrightarrow> keeps (outside S v) ResetCurrentPublicSpeakers"
  "SpeakerDocs \<in> S \<Longrightarrow> ContactDocs \<in> S \<Longrightarrow> Caches \<in> S \<Longrightarrow> keeps (outside S v) (Speakers_CreateSpeaker E x0)"
  "keeps (outside S v) (Speakers_GetSpeakers E x1)"
  "keeps (outside S v) (Speakers_GetSpeakersByMembers E x2 x3)"
  "Caches \<in> S \<Longrightarrow> keeps (outside S v) (Speakers_GetPublicSpeakers E x4)"
  "keeps (outside S v) (Speakers_GetSpeakerPublic E i)"
  "SpeakerDocs \<in> S \<Longrightarrow> Caches \<in> S \<Longrightarrow> keeps (outside S v) (Speakers_UpdateSpeaker E i x5)"
  "SpeakerDocs \<in> S \<Longrightarrow> keeps (outside S v) (Speakers_UpdateSpeakerInternalImage E i s)"
  "SpeakerDocs \<in> S \<Longrightarrow> Caches \<in> S \<Longrightarrow> keeps (outside S v) (Speakers_UpdateSpeakerCompanyImage E i s)"
  "SpeakerDocs \<in> S \<Longrightarrow> Caches \<in> S \<Longrightarrow> keeps (outside S v) (Speakers_UpdateSpeakerPublicImage E i s)"
  unfolding ResetCurrentPublicSpeakers_def Speakers_CreateSpeaker_def Speakers_GetSpeakers_def
    Speakers_GetSpeakersByMembers_def Speakers_GetPublicSpeakers_def Speakers_GetSpeakerPublic_def
    Speakers_UpdateSpeaker_def Speakers_UpdateSpeakerInternalImage_def
    Speakers_UpdateSpeakerCompanyImage_def Speakers_UpdateSpeakerPublicImage_def
  by (rule keeps_rules footprints keeps_store keeps_modifyE | assumption | simp)+

lemma footprints_SpeakerParticipations [footprints]:
  "SpeakerDocs \<in> S \<Longrightarrow> keeps (outside S v) (Speakers_Subscribe E i i')"
  "SpeakerDocs \<in> S \<Longrightarrow> keeps (outside S v) (Speakers_Unsubscribe E i i')"
  "SpeakerDocs \<in> S \<Longrightarrow> Caches \<in> S \<Longrightarrow> keeps (outside S v) (Speakers_AddParticipation E i i')"
  "keeps (outside S v) (UpdateSpeakerParticipationData_ParseBody E body0)"
  "SpeakerDocs \<in> S \<Longrightarrow> Caches \<in> S \<Longrightarrow> keeps (outside S v) (Speakers_UpdateSpeakerParticipation E i x0)"
  "SpeakerDocs \<in> S \<Longrightarrow> Caches \<in> S \<Longrightarrow> keeps (outside S v) (Speakers_StepStatus E i n)"
  "keeps (outside S v) (Speakers_GetSpeakerParticipationStatusValidSteps E i)"
  "SpeakerDocs \<in> S \<Longrightarrow> keeps (outside S v) (Speakers_UpdateSpeakerGmailThreadIds E i x1)"
  "SpeakerDocs \<in> S \<Longrightarrow> Caches \<in> S \<Longrightarrow> keeps (outside S v) (Speakers_UpdateSpeakerParticipationStatus E i x2)"
  "SpeakerDocs \<in> S \<Longrightarrow> keeps (outside S v) (Speakers_DeleteSpeakerThread E i i')"
  "SpeakerDocs \<in> S \<Longrightarrow> keeps (outside S v) (Speakers_AddSpeakerFlightInfo E i i')"
  "SpeakerDocs \<in> S \<Longrightarrow> keeps (outside S v) (Speakers_RemoveSpeakerFlightInfo E i i')"
  "SpeakerDocs \<in> S \<Longrightarrow> keeps (outside S v) (Speakers_AddThread E i i')"
  "SpeakerDocs \<in> S \<Longrightarrow> keeps (outside S v) (Speakers_RemoveCommunication E i i')"
  "keeps (outside S v) (Speakers_FindThread E i)"
  "SpeakerDocs \<in> S \<Longrightarrow> keeps (outside S v) (Speakers_RemoveSpeakerParticipation E i n)"
  "SpeakerDocs \<in> S \<Longrightarrow> ContactDocs \<in> S \<Longrightarrow> SessionDocs \<in> S \<Longrightarrow> keeps (outside S v) (Speakers_DeleteSpeaker E i)"
  unfolding Speakers_Subscribe_def Speakers_Unsubscribe_def Speakers_AddParticipation_def
    UpdateSpeakerParticipationData_ParseBody_def Speakers_UpdateSpeakerParticipation_def
    Speakers_StepStatus_def Speakers_GetSpeakerParticipationStatusValidSteps_def
    Speakers_UpdateSpeakerGmailThreadIds_def Speakers_UpdateSpeakerParticipationStatus_def
    Speakers_DeleteSpeakerThread_def Speakers_AddSpeakerFlightInfo_def
    Speakers_RemoveSpeakerFlightInfo_def Speakers_AddThread_def Speakers_RemoveCommunication_def
    Speakers_FindThread_def Speakers_RemoveSpeakerParticipation_def Speakers_DeleteSpeaker_def
  by (rule keeps_rules footprints keeps_store keeps_modifyE | assumption | simp)+

lemma footprints_PublicSessions1 [footprints]:
  "keeps (outside S v) (session_company E x0 x1)"
  unfolding session_company_def
  by (rule keeps_rules footprints keeps_store keeps_modifyE | assumption | simp)+

lemma footprints_session_speakers [footprints]:
  "keeps (outside S v) (session_speakers E x0 x1 x2)"
  by (induction x1 arbitrary: x2; (rule keeps_rules footprints | simp split del: if_split)+)

lemma footprints_PublicSessions2 [footprints]:
  "keeps (outside S v) (sessionToPublic E x0 x1)"
  "keeps (outside S v) (Sessions_GetSessionPublic E i)"
  unfolding sessionToPublic_def Sessions_GetSessionPublic_def
  by (rule keeps_rules footprints keeps_store keeps_modifyE | assumption | simp)+

lemma footprints_public_sessions [footprints]:
  "keeps (outside S v) (public_sessions E n x0 x1)"
  by (induction x0 arbitrary: x1; (rule keeps_rules footprints | simp split del: if_split)+)

lemma footprints_PublicSessions3 [footprints]:
  "Caches \<in> S \<Longrightarrow> keeps (outside S v) (Sessions_GetPublicSessions E x0)"
  unfolding Sessions_GetPublicSessions_def
  by (rule keeps_rules footprints keeps_store keeps_modifyE | assumption | simp)+

section \<open>Communications, teams, members\<close>

lemma footprints_Communications1 [footprints]:
  "keeps (outside S v) (Posts_GetPost E i)"
  "PostDocs \<in> S \<Longrightarrow> keeps (outside S v) (Posts_CreatePost E x0)"
  "PostDocs \<in> S \<Longrightarrow> keeps (outside S v) (Posts_DeletePost E i)"
  "PostDocs \<in> S \<Longrightarrow> keeps (outside S v) (Posts_UpdatePost E i x1)"
  "MeetingDocs \<in> S \<Longrightarrow> keeps (outside S v) (Meetings_CreateMeeting E x2)"
  "keeps (outside S v) (Meetings_GetMeeting E i)"
  "MeetingDocs \<in> S \<Longrightarrow> keeps (outside S v) (Meetings_DeleteMeeting E i)"
  "MeetingDocs \<in> S \<Longrightarrow> keeps (outside S v) (Meetings_UpdateMeeting E x3 i)"
  "MeetingDocs \<in> S \<Longrightarrow> keeps (outside S v) (Meetings_UploadMeetingMinute E i s)"
  "MeetingDocs \<in> S \<Longrightarrow> keeps (outside S v) (Meetings_DeleteMeetingMinute E i)"
  "MeetingDocs \<in> S \<Longrightarrow> keeps (outside S v) (Meetings_AddMeetingParticipant E i x4)"
  "MeetingDocs \<in> S \<Longrightarrow> keeps (outside S v) (Meetings_DeleteMeetingParticipant E i x4)"
  "MeetingDocs \<in> S \<Longrightarrow> keeps (outside S v) (Meetings_AddThread E i i')"
  "keeps (outside S v) (Meetings_FindThread E i)"
  "MeetingDocs \<in> S \<Longrightarrow> keeps (outside S v) (Meetings_DeleteMeetingThread E i i')"
  "keeps (outside S v) (Threads_GetThread E i)"
  "ThreadDocs \<in> S \<Longrightarrow> keeps (outside S v) (Threads_CreateThread E x5)"
  "keeps (outside S v) (Threads_GetThreadByGmailMessageId E s)"
  "keeps (outside S v) (Threads_GetThreadsByGmailMessageIds E x6)"
  "PostDocs \<in> S \<Longrightarrow> keeps (outside S v) (delete_post_leniently E i)"
  "SpeakerDocs \<in> S \<Longrightarrow> ThreadDocs \<in> S \<Longrightarrow> PostDocs \<in> S \<Longrightarrow> keeps (outside S v) (Threads_DeleteThread E i)"
  "ThreadDocs \<in> S \<Longrightarrow> keeps (outside S v) (Threads_AddCommentToThread E i i')"
  "ThreadDocs \<in> S \<Longrightarrow> keeps (outside S v) (Threads_RemoveCommentFromThread E i i')"
  "MeetingDocs \<in> S \<Longrightarrow> ThreadDocs \<in> S \<Longrightarrow> keeps (outside S v) (Threads_UpdateThread E i x7)"
  "keeps (outside S v) (Threads_FindByPost E i)"
  "keeps (outside S v) (Teams_GetTeam E i)"
  unfolding Posts_GetPost_def Posts_CreatePost_def Posts_DeletePost_def Posts_UpdatePost_def
    Meetings_CreateMeeting_def Meetings_GetMeeting_def Meetings_DeleteMeeting_def
    Meetings_UpdateMeeting_def Meetings_UploadMeetingMinute_def Meetings_DeleteMeetingMinute_def
    Meetings_AddMeetingParticipant_def Meetings_DeleteMeetingParticipant_def Meetings_AddThread_def
    Meetings_FindThread_def Meetings_DeleteMeetingThread_def Threads_GetThread_def
    Threads_CreateThread_def Threads_GetThreadByGmailMessageId_def
    Threads_GetThreadsByGmailMessageIds_def delete_post_leniently_def Threads_DeleteThread_def
    Threads_AddCommentToThread_def Threads_RemoveCommentFromThread_def Threads_UpdateThread_def
    Threads_FindByPost_def Teams_GetTeam_def
  by (rule keeps_rules footprints keeps_store keeps_modifyE | assumption | simp)+

lemma footprints_thread_meetings [footprints]:
  "keeps (outside S v) (thread_meetings E x0 x0')"
  by (induction x0 arbitrary: x0'; (rule keeps_rules footprints | simp split del: if_split)+)

lemma footprints_company_meetings [footprints]:
  "keeps (outside S v) (company_meetings E x0 x1 x2)"
  by (induction x1 arbitrary: x2; (rule keeps_rules footprints | simp split del: if_split)+)

lemma footprints_get_meetings [footprints]:
  "keeps (outside S v) (get_meetings E x0 x1)"
  by (induction x0 arbitrary: x1; (rule keeps_rules footprints | simp split del: if_split)+)

lemma footprints_Communications2 [footprints]:
  "keeps (outside S v) (Meetings_GetMeetings E x0)"
  unfolding Meetings_GetMeetings_def
  by (rule keeps_rules footprints keeps_store keeps_modifyE | assumption | simp)+

lemma footprints_Teams [footprints]:
  "keeps (outside S v) (Members_GetMembers E x0)"
  "EventDocs \<in> S \<Longrightarrow> TeamDocs \<in> S \<Longrightarrow> keeps (outside S v) (Teams_CreateTeam E x1)"
  "keeps (outside S v) (Teams_GetTeams E x2)"
  "TeamDocs \<in> S \<Longrightarrow> keeps (outside S v) (Teams_DeleteTeam E i)"
  "TeamDocs \<in> S \<Longrightarrow> keeps (outside S v) (Teams_UpdateTeam E i x1)"
  "TeamDocs \<in> S \<Longrightarrow> keeps (outside S v) (Teams_AddTeamMember E i x3)"
  "TeamDocs \<in> S \<Longrightarrow> keeps (outside S v) (Teams_UpdateTeamMemberRole E i i' x4)"
  "TeamDocs \<in> S \<Longrightarrow> keeps (outside S v) (Teams_DeleteTeamMember E i i')"
  "TeamDocs \<in> S \<Longrightarrow> keeps (outside S v) (Teams_AddMeeting E i i')"
  "TeamDocs \<in> S \<Longrightarrow> keeps (outside S v) (Teams_DeleteTeamMeeting E i i')"
  "keeps (outside S v) (Teams_GetMembersByRole E x5)"
  unfolding Members_GetMembers_def Teams_CreateTeam_def Teams_GetTeams_def Teams_DeleteTeam_def
    Teams_UpdateTeam_def Teams_AddTeamMember_def Teams_UpdateTeamMemberRole_def
    Teams_DeleteTeamMember_def Teams_AddMeeting_def Teams_DeleteTeamMeeting_def
    Teams_GetMembersByRole_def
  by (rule keeps_rules footprints keeps_store keeps_modifyE | assumption | simp)+

lemma footprints_CoordinationTeams [footprints]:
  "keeps (outside S v) (CoordinationTeams_GetCoordinationTeam E i)"
  "CoordinationDocs \<in> S \<Longrightarrow> keeps (outside S v) (CoordinationTeams_CreateCoordinationTeam E s)"
  "keeps (outside S v) (CoordinationTeams_GetCoordinationTeamsByMember E i)"
  "keeps (outside S v) (CoordinationTeams_GetCoordinationTeamsByCoordinator E i)"
  "CoordinationDocs \<in> S \<Longrightarrow> keeps (outside S v) (set_and_get E i x0)"
  "CoordinationDocs \<in> S \<Longrightarrow> keeps (outside S v) (CoordinationTeams_AddCoordinatedMember E i i')"
  "CoordinationDocs \<in> S \<Longrightarrow> keeps (outside S v) (CoordinationTeams_RemoveCoordinatedMember E i i')"
  "CoordinationDocs \<in> S \<Longrightarrow> keeps (outside S v) (CoordinationTeams_SetCoordinator E i x1 s)"
  "CoordinationDocs \<in> S \<Longrightarrow> keeps (outside S v) (CoordinationTeams_RemoveCoordinator E i i')"
  "CoordinationDocs \<in> S \<Longrightarrow> keeps (outside S v) (CoordinationTeams_UpdateName E i s)"
  "keeps (outside S v) (CoordinationTeams_GetAllCoordinationTeams E)"
  "CoordinationDocs \<in> S \<Longrightarrow> keeps (outside S v) (CoordinationTeams_DeleteCoordinationTeam E i)"
  unfolding CoordinationTeams_GetCoordinationTeam_def CoordinationTeams_CreateCoordinationTeam_def
    CoordinationTeams_GetCoordinationTeamsByMember_def
    CoordinationTeams_GetCoordinationTeamsByCoordinator_def set_and_get_def
    CoordinationTeams_AddCoordinatedMember_def CoordinationTeams_RemoveCoordinatedMember_def
    CoordinationTeams_SetCoordinator_def CoordinationTeams_RemoveCoordinator_def
    CoordinationTeams_UpdateName_def CoordinationTeams_GetAllCoordinationTeams_def
    CoordinationTeams_DeleteCoordinationTeam_def
  by (rule keeps_rules footprints keeps_store keeps_modifyE | assumption | simp)+

lemma footprints_Members1 [footprints]:
  "Caches \<in> S \<Longrightarrow> keeps (outside S v) ResetCurrentPublicMembers"
  "keeps (outside S v) (member_socials E x0)"
  unfolding ResetCurrentPublicMembers_def member_socials_def refuse_if_found_def
  by (rule keeps_rules footprints keeps_store keeps_modifyE | assumption | simp)+

lemma footprints_convertToPublicMembers_loop [footprints]:
  "keeps (outside S v) (convertToPublicMembers_loop E x0 x1)"
  by (induction x0 arbitrary: x1; (rule keeps_rules footprints | simp split del: if_split)+)

lemma footprints_Members2 [footprints]:
  "keeps (outside S v) (convertToPublicMembers E x0)"
  "keeps (outside S v) (Members_GetMemberBySinfoID E s)"
  unfolding convertToPublicMembers_def Members_GetMemberBySinfoID_def refuse_if_found_def
  by (rule keeps_rules footprints keeps_store keeps_modifyE | assumption | simp)+

lemma footprints_member_credentials [footprints]:
  "keeps (outside S v) (member_credentials E n x0 x1)"
  by (induction x0 arbitrary: x1; (rule keeps_rules footprints | simp split del: if_split)+)

lemma footprints_Members3 [footprints]:
  "keeps (outside S v) (Members_GetMemberAuthCredentials E s)"
  unfolding Members_GetMemberAuthCredentials_def refuse_if_found_def
  by (rule keeps_rules footprints keeps_store keeps_modifyE | assumption | simp)+

lemma footprints_event_team [footprints]:
  "keeps (outside S v) (event_team E i n x0)"
  by (induction x0; (rule keeps_rules footprints | simp split del: if_split)+)

lemma footprints_event_teams [footprints]:
  "keeps (outside S v) (event_teams E i x0 x1)"
  by (induction x0 arbitrary: x1; (rule keeps_rules footprints | simp split del: if_split)+)

lemma footprints_Members4 [footprints]:
  "keeps (outside S v) (Members_GetMembersParticipations E i)"
  unfolding Members_GetMembersParticipations_def refuse_if_found_def
  by (rule keeps_rules footprints keeps_store keeps_modifyE | assumption | simp)+

lemma footprints_team_public_members [footprints]:
  "keeps (outside S v) (team_public_members E s x0 x1)"
  by (induction x0 arbitrary: x1; (rule keeps_rules footprints | simp split del: if_split)+)

lemma footprints_event_public_members [footprints]:
  "keeps (outside S v) (event_public_members E x0 x1)"
  by (induction x0 arbitrary: x1; (rule keeps_rules footprints | simp split del: if_split)+)

lemma footprints_Members5 [footprints]:
  "Caches \<in> S \<Longrightarrow> keeps (outside S v) (Members_GetMembersPublic E x0)"
  "MemberDocs \<in> S \<Longrightarrow> ContactDocs \<in> S \<Longrightarrow> Caches \<in> S \<Longrightarrow> keeps (outside S v) (Members_CreateMember E x1)"
  "MemberDocs \<in> S \<Longrightarrow> Caches \<in> S \<Longrightarrow> keeps (outside S v) (Members_UpdateImage E i s)"
  "MemberDocs \<in> S \<Longrightarrow> Caches \<in> S \<Longrightarrow> keeps (outside S v) (Members_UpdateMember E i x2)"
  "MemberDocs \<in> S \<Longrightarrow> keeps (outside S v) (Members_AddNotification E i i')"
  "MemberDocs \<in> S \<Longrightarrow> keeps (outside S v) (Members_DeleteMember E i)"
  unfolding Members_GetMembersPublic_def Members_CreateMember_def Members_UpdateImage_def
    Members_UpdateMember_def Members_AddNotification_def Members_DeleteMember_def refuse_if_found_def
  by (rule keeps_rules footprints keeps_store keeps_modifyE | assumption | simp)+

section \<open>Notifications and templates\<close>

lemma footprints_Notifications [footprints]:
  "keeps (outside S v) (Notifications_GetNotification E i)"
  "NotificationDocs \<in> S \<Longrightarrow> keeps (outside S v) (Notifications_NotifyMember E i x0)"
  "NotificationDocs \<in> S \<Longrightarrow> keeps (outside S v) (notify_subscribers E i x0 x1)"
  "NotificationDocs \<in> S \<Longrightarrow> keeps (outside S v) (notify_admins E x0)"
  "NotificationDocs \<in> S \<Longrightarrow> keeps (outside S v) (notify_coordinators E i x0)"
  "NotificationDocs \<in> S \<Longrightarrow> keeps (outside S v) (notify_tagged E x0 x2)"
  "keeps (outside S v) (notified_post E x0)"
  "NotificationDocs \<in> S \<Longrightarrow> keeps (outside S v) (Notifications_Notify E i x0)"
  "keeps (outside S v) (Notifications_GetMemberNotifications E i)"
  "NotificationDocs \<in> S \<Longrightarrow> keeps (outside S v) (Notifications_DeleteNotification E i)"
  "NotificationDocs \<in> S \<Longrightarrow> keeps (outside S v) (Notifications_DeleteAllMemberNotifications E i)"
  unfolding Notifications_GetNotification_def Notifications_NotifyMember_def notify_subscribers_def
    notify_admins_def notify_coordinators_def notify_tagged_def notified_post_def
    Notifications_Notify_def Notifications_GetMemberNotifications_def
    Notifications_DeleteNotification_def Notifications_DeleteAllMemberNotifications_def by_ids_def
  by (rule keeps_rules footprints keeps_store keeps_modifyE | assumption | simp)+

lemma footprints_Templates [footprints]:
  "TemplateDocs \<in> S \<Longrightarrow> keeps (outside S v) (Templates_UpdateTemplateUrl E i s)"
  "keeps (outside S v) (Templates_GetTemplate E i)"
  "keeps (outside S v) (Templates_GetTemplates E x0)"
  "TemplateDocs \<in> S \<Longrightarrow> keeps (outside S v) (Templates_CreateTemplate E x1)"
  "TemplateDocs \<in> S \<Longrightarrow> keeps (outside S v) (Templates_UpdateTemplate E i x2)"
  unfolding Templates_UpdateTemplateUrl_def Templates_GetTemplate_def Templates_GetTemplates_def
    Templates_CreateTemplate_def Templates_UpdateTemplate_def
  by (rule keeps_rules footprints keeps_store keeps_modifyE | assumption | simp)+

end
