(* ===== verification/ContractHandlers.thy ===== *)
theory ContractHandlers
  imports CompanyHandlers Templates GoStrings
begin

text \<open>
  The contract of a company (\<^verbatim>\<open>router/contract.go\<close>): the choice of the template by event, kind and language,
  the values put in, the name of the file. The library that edits documents, the temporary files it works on and
  the download are parameters. Strings are of ASCII characters but for the sign of the currency.
  The two functions that draw a PDF are called from nowhere and are not modelled.
\<close>

section \<open>The name of the template\<close>

text \<open>
  The pattern \<^verbatim>\<open>(?i)\b(w1|w2|...)\b\<close> somewhere in a string: one of the words, between two boundaries. A boundary
  lies where a character of a word and one of none, or an end of the string, meet.
\<close>

definition letters :: string where
  "letters = upper_letters @ lower_letters"

definition is_word :: "char \<Rightarrow> bool" where
  "is_word c \<longleftrightarrow> c \<in> set letters \<or> c \<in> set ''0123456789_''"

definition boundary :: "char option \<Rightarrow> char option \<Rightarrow> bool" where
  "boundary a b \<longleftrightarrow> (case a of None \<Rightarrow> False | Some c \<Rightarrow> is_word c) \<noteq> (case b of None \<Rightarrow> False | Some c \<Rightarrow> is_word c)"

definition first_char :: "string \<Rightarrow> char option" where
  "first_char s = (case s of [] \<Rightarrow> None | c # _ \<Rightarrow> Some c)"

definition word_here :: "string list \<Rightarrow> char option \<Rightarrow> string \<Rightarrow> bool" where
  "word_here ws prev s \<longleftrightarrow> (\<exists>w \<in> set ws. HasPrefix s w \<and> boundary prev (first_char s) \<and>
     boundary (if w = [] then prev else Some (last w)) (first_char (drop (length w) s)))"

fun match_word :: "string list \<Rightarrow> char option \<Rightarrow> string \<Rightarrow> bool" where
  "match_word ws prev [] = word_here ws prev []"
| "match_word ws prev (c # cs) = (word_here ws prev (c # cs) \<or> match_word ws (Some c) cs)"

definition reEn :: "string \<Rightarrow> bool" where
  "reEn name = match_word [''en'', ''english'', ''ingles''] None (ToLower name)"

definition rePt :: "string \<Rightarrow> bool" where
  "rePt name = match_word [''pt'', ''pt_pt'', ''ptbr'', ''pt_br'', ''portuguese'', ''portugues''] None (ToLower name)"

definition is_contract :: "template \<Rightarrow> bool" where
  "is_contract t \<longleftrightarrow> ToLower (te_Kind t) = ''companycontract''"

definition in_language :: "string \<Rightarrow> template \<Rightarrow> bool" where
  "in_language lowerLang t = (let name = ToLower (te_Name t) in if lowerLang = ''pt'' then rePt name else reEn name)"

section \<open>Numbers and file names\<close>

text \<open>\<^verbatim>\<open>%d\<close> and \<^verbatim>\<open>%02d\<close>; Go's division and remainder cut towards zero.\<close>

fun digits_of :: "nat \<Rightarrow> string" where
  "digits_of n = (if n < 10 then [''0123456789'' ! n] else digits_of (n div 10) @ [''0123456789'' ! (n mod 10)])"

declare digits_of.simps [simp del]

definition format_d :: "int \<Rightarrow> string" where
  "format_d n = (if n < 0 then CHR ''-'' # digits_of (nat (- n)) else digits_of (nat n))"

definition format_02d :: "int \<Rightarrow> string" where
  "format_02d n = (if 0 \<le> n \<and> n < 10 then CHR ''0'' # format_d n else format_d n)"

definition packagePrice :: "int \<Rightarrow> string" where
  "packagePrice price = format_d (sgn price * (\<bar>price\<bar> div 100)) @ ''.'' @
     format_02d (sgn price * (\<bar>price\<bar> mod 100)) @ [CHR 0xE2, CHR 0x82, CHR 0xAC]"

definition file_char :: "char \<Rightarrow> bool" where
  "file_char c \<longleftrightarrow> c \<in> set letters \<or> c \<in> set ''0123456789-_''"

text \<open>A run of other characters becomes one dash.\<close>

fun dash_runs :: "bool \<Rightarrow> string \<Rightarrow> string" where
  "dash_runs in_run [] = []"
| "dash_runs in_run (c # cs) =
     (if file_char c then c # dash_runs False cs
      else if in_run then dash_runs True cs else CHR ''-'' # dash_runs True cs)"

definition is_dash :: "char \<Rightarrow> bool" where
  "is_dash c \<longleftrightarrow> c \<in> set ''-_''"

definition sanitizeFilename :: "string \<Rightarrow> string" where
  "sanitizeFilename name =
     (if name = [] then ''contract''
      else rev (dropWhile is_dash (rev (dropWhile is_dash (dash_runs False name)))))"

section \<open>Filling the document\<close>

text \<open>
  The temporary file (the errors of creating, writing and closing it, and whether it is there then), the library
  for documents, the order in which \<^verbatim>\<open>range\<close> goes through a map, and reading the result.
\<close>

record 'd docxTools =
  dt_TempFile :: "string option"
  dt_Write :: "string option"
  dt_Close :: "string option"
  dt_missing :: "string option"
  dt_ReadDocxFile :: "string \<Rightarrow> err + 'd"
  dt_Replace :: "string \<Rightarrow> string \<Rightarrow> 'd \<Rightarrow> 'd"
  dt_range :: "(string \<times> string) list \<Rightarrow> (string \<times> string) list"
  dt_WriteToFile :: "'d \<Rightarrow> err + 'd"
  dt_ReadFile :: "'d \<Rightarrow> err + string"

definition replaceDocxPlaceholders ::
  "'d docxTools \<Rightarrow> string \<Rightarrow> (string \<times> string) list \<Rightarrow> (string \<times> string) list \<Rightarrow> err + string" where
  "replaceDocxPlaceholders D docxBytes replacements plain =
     (case dt_TempFile D of Some e \<Rightarrow> Inl (Err (''failed to create temp file: '' @ e)) | None \<Rightarrow>
      case dt_Write D of Some e \<Rightarrow> Inl (Err (''failed to write docx bytes to temp file: '' @ e)) | None \<Rightarrow>
      case dt_Close D of Some e \<Rightarrow> Inl (Err (''failed to close temp file: '' @ e)) | None \<Rightarrow>
      case dt_missing D of Some tmpSrcName \<Rightarrow>
        Inl (Err (''docx temp file does not exist after simple close: '' @ tmpSrcName)) | None \<Rightarrow>
      case dt_ReadDocxFile D docxBytes of Inl e \<Rightarrow> Inl e | Inr ed \<Rightarrow>
      let ed = fold (\<lambda>(k, v). dt_Replace D k v) (dt_range D replacements) ed;
          ed = fold (\<lambda>(k, v) d. dt_Replace D k v (dt_Replace D (''{{'' @ k @ ''}}'') v d)) (dt_range D plain) ed in
      case dt_WriteToFile D ed of Inl e \<Rightarrow> Inl e | Inr out \<Rightarrow> dt_ReadFile D out)"

section \<open>The handler\<close>

text \<open>The decoder's error is dropped: the request is what the decoder leaves.\<close>

record contractRequest =
  crq_Language :: string
  crq_EventID :: int

record contract =
  ctr_filename :: string
  ctr_bytes :: string

text \<open>\<^verbatim>\<open>defer\<close> of a function that recovers: a panic is answered with 500.\<close>

definition recovering :: "(world, 'a reply) smonad \<Rightarrow> (world, 'a reply) smonad" where
  "recovering m = (\<lambda>w. case m w of
     (Inl (Panic _), w') \<Rightarrow> (Inr (Failure 500 ''internal server error''), w')
   | r \<Rightarrow> r)"

definition contract_name :: "company \<Rightarrow> string" where
  "contract_name company = (if cbi_Name (co_BillingInfo company) \<noteq> [] then cbi_Name (co_BillingInfo company)
     else co_Name company)"

text \<open>The package of the first participation in the event, by name and price; empty when there is none to read.\<close>

fun contract_package :: "env \<Rightarrow> int \<Rightarrow> companyParticipation list \<Rightarrow> (world, string \<times> string) smonad" where
  "contract_package E eventID [] = retE ([], [])"
| "contract_package E eventID (p # ps) =
     (if cp_Event p = eventID
      then case cp_Package p of
          None \<Rightarrow> retE ([], [])
        | Some pkgID \<Rightarrow> onErr (Packages_GetPackage E pkgID) (\<lambda>_. retE ([], []))
            (\<lambda>pkg. retE (pk_Name pkg, packagePrice (pk_Price pkg)))
      else contract_package E eventID ps)"

definition replacementsPlain :: "company \<Rightarrow> string \<Rightarrow> string \<Rightarrow> (string \<times> string) list" where
  "replacementsPlain company packageName price =
    [(''companyNif'', cbi_TIN (co_BillingInfo company)),
     (''companyAddress'', cbi_Address (co_BillingInfo company)),
     (''companyName'', contract_name company),
     (''packageName'', packageName),
     (''packagePrice'', price)]"

definition replacements :: "company \<Rightarrow> string \<Rightarrow> string \<Rightarrow> (string \<times> string) list" where
  "replacements company packageName price =
     map (\<lambda>(k, v). (''{{'' @ k @ ''}}'', v)) (replacementsPlain company packageName price)"

text \<open>The steps once the template is chosen.\<close>

definition fill_contract ::
  "'d docxTools \<Rightarrow> (string \<Rightarrow> err + nat \<times> (err + string)) \<Rightarrow> env \<Rightarrow> company \<Rightarrow> int \<Rightarrow> template \<Rightarrow>
   (world, contract reply) smonad" where
  "fill_contract D http_get E company eventID t =
     (if te_Url t = [] then retE (Failure 422 ''template has no URL'')
      else case http_get (te_Url t) of
        Inl _ \<Rightarrow> retE (Failure 502 ''unable to download template'')
      | Inr (status, body) \<Rightarrow>
          if status \<ge> 400 then retE (Failure 502 ''unable to download template'')
          else case body of
            Inl _ \<Rightarrow> retE (Failure 500 ''unable to read template'')
          | Inr b \<Rightarrow>
              bindE (contract_package E eventID (co_Participations company)) (\<lambda>(packageName, price).
              if packageName = []
              then retE (Failure 422 (''company has no package for event '' @ format_d eventID))
              else
                orFail (liftR (replaceDocxPlaceholders D b (replacements company packageName price)
                    (replacementsPlain company packageName price)))
                  500 ''error processing template: '' (\<lambda>modifiedDocx.
                retE (Reply \<lparr>ctr_filename = ''contract-'' @ sanitizeFilename (contract_name company) @ ''.docx'',
                  ctr_bytes = modifiedDocx\<rparr>))))"

definition generateCompanyContractDocx ::
  "'d docxTools \<Rightarrow> (string \<Rightarrow> err + nat \<times> (err + string)) \<Rightarrow> env \<Rightarrow> contractRequest \<Rightarrow> contract handler" where
  "generateCompanyContractDocx D http_get E req rq = recovering (
     if rq_vars rq ''id'' = [] then retE (Failure 400 ''company id missing in path'')
     else case env_fromHex E (rq_vars rq ''id'') of
       Inl _ \<Rightarrow> retE (Failure 400 ''invalid company id'')
     | Inr companyID \<Rightarrow>
     orFail (Companies_GetCompany E companyID) 404 ''unable to find company: '' (\<lambda>company.
     if crq_EventID req = 0 then retE (Failure 400 ''eventId is required'')
     else if TrimSpace (crq_Language req) = [] then retE (Failure 400 ''language is required'')
     else
       let eventID = crq_EventID req;
           lowerLang = ToLower (TrimSpace (crq_Language req)) in
       if lowerLang \<noteq> ''en'' \<and> lowerLang \<noteq> ''pt''
       then retE (Failure 422 ''unsupported language; allowed values are: en, pt'')
       else
         onErr (Templates_GetTemplates E \<lparr>gtp_EventID = Some eventID, gtp_Name = None\<rparr>)
           (\<lambda>_. retE (Failure 500 ''unable to retrieve templates for event'')) (\<lambda>templates.
         let eventTemplates = filter is_contract templates;
             candidates = filter (in_language lowerLang) eventTemplates in
         if eventTemplates = []
         then retE (Failure 422 (''no companyContract template found for event '' @ format_d eventID))
         else case candidates of
           [] \<Rightarrow> retE (Failure 422
             (''no companyContract template found for event '' @ format_d eventID @ '' and language '' @ lowerLang))
         | _ # _ # _ \<Rightarrow> retE (Failure 409
             (''multiple companyContract templates found for event '' @ format_d eventID @
              '' and language '' @ lowerLang @ ''; expected exactly one''))
         | [t] \<Rightarrow> fill_contract D http_get E company eventID t)))"

end
