(* ===== verification/OAuth.thy ===== *)
theory OAuth
  imports Http GoStrings
begin

text \<open>
  The login through the web (\<^verbatim>\<open>auth/oauth2.go\<close>, \<^verbatim>\<open>router/auth.go\<close>): the state kept in a cookie, which holds the
  address to return to, and the two redirects. The random bytes, the page of Google and the user a code
  stands for (\<open>env_userByCode\<close>) are parameters.
\<close>

section \<open>The address to return to\<close>

text \<open>
  \<^verbatim>\<open>.*\<close> under the flag \<^verbatim>\<open>U\<close>: the shortest text without a line break behind which the rest matches. \<open>k\<close> is the rest
  of the pattern, of what has been read and what is left.
\<close>

fun shortest :: "(string \<Rightarrow> string \<Rightarrow> string option) \<Rightarrow> string \<Rightarrow> string \<Rightarrow> string option" where
  "shortest k r [] = k r []"
| "shortest k r (c # s) = (case k r (c # s) of
     Some u \<Rightarrow> Some u
   | None \<Rightarrow> if c = CHR 0x0A then None else shortest k (r @ [c]) s)"

text \<open>\<^verbatim>\<open>\/?\|.*\<close>\<close>

definition url_end :: "string \<Rightarrow> string \<Rightarrow> string option" where
  "url_end url s = (if HasPrefix s ''|'' \<or> HasPrefix s ''/|'' then Some url else None)"

text \<open>\<^verbatim>\<open>sinfo\.org)(\/.*)?)\/?\|.*\<close>\<close>

definition sinfo_host :: "string \<Rightarrow> string \<Rightarrow> string option" where
  "sinfo_host r s =
     (if HasPrefix s ''sinfo.org'' then
        let host = r @ ''sinfo.org''; path = drop (length ''sinfo.org'') s in
        case url_end host path of
          Some u \<Rightarrow> Some u
        | None \<Rightarrow> if HasPrefix path ''/'' then shortest url_end (host @ ''/'') (drop 1 path) else None
      else None)"

text \<open>The group \<^verbatim>\<open>url\<close> of \<^verbatim>\<open>URLRegexCompiler\<close>, in production and otherwise.\<close>

definition URLRegexCompiler :: "bool \<Rightarrow> string \<Rightarrow> string option" where
  "URLRegexCompiler production s =
     (if production then
        case shortest sinfo_host [] s of
          Some u \<Rightarrow> Some u
        | None \<Rightarrow> if HasPrefix s ''https://'' then shortest sinfo_host ''https://'' (drop 8 s) else None
      else shortest url_end [] s)"

section \<open>The handlers\<close>

definition generateStateOauthCookie :: "string \<Rightarrow> string \<Rightarrow> string" where
  "generateStateOauthCookie random url = url @ ''|'' @ random"

record LoginInformation =
  li_State :: string
  li_AuthURL :: string

definition Login :: "(string \<Rightarrow> string) \<Rightarrow> string \<Rightarrow> string \<Rightarrow> LoginInformation" where
  "Login AuthCodeURL random url =
     (let state = generateStateOauthCookie random url in \<lparr>li_State = state, li_AuthURL = AuthCodeURL state\<rparr>)"

text \<open>A redirect, with the cookie that goes with it and when that runs out.\<close>

record redirect =
  rd_Code :: nat
  rd_URL :: string
  rd_Cookie :: "(string \<times> time) option"

definition oauthGoogleLogin ::
  "string \<Rightarrow> (string \<Rightarrow> string) \<Rightarrow> string \<Rightarrow> env \<Rightarrow> redirect handler" where
  "oauthGoogleLogin AuthRedirectionURL AuthCodeURL random E rq =
     (let url = rq_query rq ''redirect'';
          url = (if length url = 0 then AuthRedirectionURL @ ''/login'' else url);
          information = Login AuthCodeURL random url in
      bindE (getsE w_tick) (\<lambda>t.
      let expiration = env_now E t + 365 * 24 * 60 * 60 * 1000 in
      retE (Reply \<lparr>rd_Code = 307, rd_URL = li_AuthURL information,
        rd_Cookie = Some (li_State information, expiration)\<rparr>)))"

text \<open>
  The cookie is an error or its value. Where the login fails after that, it is logged and nothing is answered
  (\<open>None\<close>).
\<close>

definition oauthGoogleCallback :: "env \<Rightarrow> string + string \<Rightarrow> redirect option handler" where
  "oauthGoogleCallback E cookie rq = (case cookie of
     Inl e \<Rightarrow> retE (Failure StatusUnauthorized (''Invalid cookie on oauth google callback: '' @ e))
   | Inr oauthState \<Rightarrow>
       if rq_query rq ''state'' \<noteq> oauthState then retE (Reply None)
       else case URLRegexCompiler (env_production E) oauthState of
         None \<Rightarrow> retE (Reply None)
       | Some url \<Rightarrow>
           bindE (getsE w_tick) (\<lambda>t.
           bindE (token_for E (env_userByCode E t (rq_query rq ''code''))) (\<lambda>token. case token of
             None \<Rightarrow> retE (Reply None)
           | Some token \<Rightarrow> retE (Reply (Some \<lparr>rd_Code = 308, rd_URL = url @ ''/'' @ token, rd_Cookie = None\<rparr>)))))"

end
