(* ===== verification/HandlerFootprints.thy ===== *)
theory HandlerFootprints
  imports Footprints Routes CompanyHandlers SpeakerHandlers EventHandlers TeamHandlers MemberHandlers
    CommunicationHandlers CatalogueHandlers ContractHandlers OAuth
begin

text \<open>
  The footprints of the handlers, and what they say about the table of routes: which parts of the state a
  request may change, given the role the route asks for.
\<close>

section \<open>The frame\<close>

lemma keeps_answers [keeps_rules]:
  "(\<And>x. keeps I (k x)) \<Longrightarrow> keeps I (with_body body bad k)"
  "(\<And>x. keeps I (l x)) \<Longrightarrow> keeps I (value_or_none rq n c l)"
  "keeps I m \<Longrightarrow> (\<And>x. keeps I (k' x)) \<Longrightarrow> keeps I (orSay m s t k')"
  "(\<And>x. keeps I (j x)) \<Longrightarrow> keeps I (event_number rq j)"
  "keeps I m' \<Longrightarrow> keeps I (found m')"
  "keeps I (go_on_without rq s t)"
  unfolding with_body_def value_or_none_def orSay_def event_number_def found_def go_on_without_def
  by (rule keeps_rules | assumption)+

section \<open>Tokens, files, threads\<close>

lemma footprints_Http [footprints]:
  "keeps (outside S v) (SignJWT E x0)"
  "keeps (outside S v) (ParseJWT E s)"
  "(\<And>x. keeps (outside S v) (m0 x)) \<Longrightarrow> keeps (outside S v) (checkAccessLevelWrapper E x1 m0 rq)"
  "(\<And>x. keeps (outside S v) (m0 x)) \<Longrightarrow> keeps (outside S v) (authMember E m0 rq)"
  "(\<And>x. keeps (outside S v) (m0 x)) \<Longrightarrow> keeps (outside S v) (authTeamLeader E m0 rq)"
  "(\<And>x. keeps (outside S v) (m0 x)) \<Longrightarrow> keeps (outside S v) (authCoordinator E m0 rq)"
  "(\<And>x. keeps (outside S v) (m0 x)) \<Longrightarrow> keeps (outside S v) (authAdmin E m0 rq)"
  "NotificationDocs \<in> S \<Longrightarrow> keeps (outside S v) (reply_and_notify E q x2 x3)"
  "keeps (outside S v) (token_for E body0)"
  "keeps (outside S v) (generateJwt E body0 rq)"
  "keeps (outside S v) (generateJwtAuthCode E body0 rq)"
  "keeps (outside S v) (verifyToken E rq)"
  unfolding SignJWT_def ParseJWT_def checkAccessLevelWrapper_def authMember_def authTeamLeader_def
    authCoordinator_def authAdmin_def reply_and_notify_def token_for_def generateJwt_def
    generateJwtAuthCode_def verifyToken_def Let_def
  by (rule keeps_rules footprints keeps_store keeps_modifyE | assumption | simp)+

lemma footprints_Spaces [footprints]:
  "keeps (outside S v) (uploadImage E s s' n s'')"
  "keeps (outside S v) (deleteObject E s)"
  "keeps (outside S v) (UploadCompanyPublicImage E n i s n' s')"
  "keeps (outside S v) (UploadCompanyInternalImage E n i s n' s')"
  "keeps (outside S v) (UploadSpeakerPublicImage E n i s n' s')"
  "keeps (outside S v) (UploadSpeakerInternalImage E n i s n' s')"
  "keeps (outside S v) (UploadSpeakerCompanyImage E n i s n' s')"
  "keeps (outside S v) (UploadMemberImage E n i s n' s')"
  "keeps (outside S v) (UploadMeetingMinute E n i s n' s')"
  "keeps (outside S v) (DeleteMeetingMinute E n i)"
  "keeps (outside S v) (UploadItemImage E n i s n' s')"
  "keeps (outside S v) (UploadTemplateFile E n s s' n' s'')"
  "keeps (outside S v) (UploadCalendarFile E n s n' s')"
  "keeps (outside S v) m0 \<Longrightarrow> (\<And>x y z u. keeps (outside S v) (m1 x y z u)) \<Longrightarrow> keeps (outside S v) (with_image E form x0 s m0 m1)"
  unfolding uploadImage_def deleteObject_def UploadCompanyPublicImage_def UploadCompanyInternalImage_def
    UploadSpeakerPublicImage_def UploadSpeakerInternalImage_def UploadSpeakerCompanyImage_def
    UploadMemberImage_def UploadMeetingMinute_def DeleteMeetingMinute_def UploadItemImage_def
    UploadTemplateFile_def UploadCalendarFile_def with_image_def
  by (rule keeps_rules footprints keeps_store keeps_modifyE | assumption | simp)+

lemma footprints_ThreadHandling1 [footprints]:
  "PostDocs \<in> S \<Longrightarrow> keeps (outside S v) (clean_up_post E i)"
  "MeetingDocs \<in> S \<Longrightarrow> keeps (outside S v) (clean_up_meeting E x0)"
  "SpeakerDocs \<in> S \<Longrightarrow> ThreadDocs \<in> S \<Longrightarrow> PostDocs \<in> S \<Longrightarrow> keeps (outside S v) (clean_up_thread E i)"
  unfolding clean_up_post_def clean_up_meeting_def clean_up_thread_def
  by (rule keeps_rules footprints keeps_store keeps_modifyE | assumption | simp)+

lemma footprints_thread_entries [footprints]:
  "(\<And>x. keeps (outside S v) (m0 x)) \<Longrightarrow> keeps (outside S v) (thread_entries E m0 x0 x1)"
  by (induction x0 arbitrary: x1; (rule keeps_rules footprints | simp split del: if_split)+)

lemma footprints_participation_threads [footprints]:
  "(\<And>x. keeps (outside S v) (m0 x)) \<Longrightarrow> keeps (outside S v) (participation_threads E m0 x0 x1)"
  by (induction E m0 x0 x1 rule: participation_threads.induct; (rule keeps_rules footprints | simp split del: if_split)+)

lemma footprints_ThreadHandling2 [footprints]:
  "SpeakerDocs \<in> S \<Longrightarrow> ThreadDocs \<in> S \<Longrightarrow> PostDocs \<in> S \<Longrightarrow> (\<And>x. keeps (outside S v) (m0 x)) \<Longrightarrow> keeps (outside S v) (sync_message E i m0 x0 x1)"
  unfolding sync_message_def
  by (rule keeps_rules footprints keeps_store keeps_modifyE | assumption | simp)+

lemma footprints_sync_messages [footprints]:
  "SpeakerDocs \<in> S \<Longrightarrow> ThreadDocs \<in> S \<Longrightarrow> PostDocs \<in> S \<Longrightarrow> (\<And>x. keeps (outside S v) (m0 x)) \<Longrightarrow> keeps (outside S v) (sync_messages E i m0 x0 x1 k)"
  by (induction x1 arbitrary: k; (rule keeps_rules footprints | simp split del: if_split)+)

section \<open>Handlers\<close>

lemma footprints_CompanyHandlers1 [footprints]:
  "keeps (outside S v) (getCompany E rq)"
  "keeps (outside S v) (getCompanies E rq)"
  "Caches \<in> S \<Longrightarrow> keeps (outside S v) (getCompaniesPublic E rq)"
  "keeps (outside S v) (getCompaniesByMembers E body0 rq)"
  "keeps (outside S v) (getCompanyPublic E rq)"
  "CompanyDocs \<in> S \<Longrightarrow> ContactDocs \<in> S \<Longrightarrow> NotificationDocs \<in> S \<Longrightarrow> Caches \<in> S \<Longrightarrow> keeps (outside S v) (createCompany E body1 rq)"
  "CompanyDocs \<in> S \<Longrightarrow> NotificationDocs \<in> S \<Longrightarrow> Caches \<in> S \<Longrightarrow> keeps (outside S v) (updateCompany E body2 rq)"
  "CompanyDocs \<in> S \<Longrightarrow> ContactDocs \<in> S \<Longrightarrow> SessionDocs \<in> S \<Longrightarrow> NotificationDocs \<in> S \<Longrightarrow> keeps (outside S v) (deleteCompany E rq)"
  "CompanyDocs \<in> S \<Longrightarrow> NotificationDocs \<in> S \<Longrightarrow> Caches \<in> S \<Longrightarrow> keeps (outside S v) (addCompanyParticipation E body3 rq)"
  "CompanyDocs \<in> S \<Longrightarrow> NotificationDocs \<in> S \<Longrightarrow> Caches \<in> S \<Longrightarrow> keeps (outside S v) (updateCompanyParticipation E body4 rq)"
  "CompanyDocs \<in> S \<Longrightarrow> keeps (outside S v) (deleteCompanyParticipation E rq)"
  "CompanyDocs \<in> S \<Longrightarrow> NotificationDocs \<in> S \<Longrightarrow> Caches \<in> S \<Longrightarrow> keeps (outside S v) (setCompanyStatus E rq)"
  "CompanyDocs \<in> S \<Longrightarrow> NotificationDocs \<in> S \<Longrightarrow> Caches \<in> S \<Longrightarrow> keeps (outside S v) (stepCompanyStatus E rq)"
  "keeps (outside S v) (getCompanyValidSteps E rq)"
  "CompanyDocs \<in> S \<Longrightarrow> Caches \<in> S \<Longrightarrow> keeps (outside S v) (announceAcceptedCompanies E rq)"
  "CompanyDocs \<in> S \<Longrightarrow> keeps (outside S v) (subscribeToCompany E rq)"
  "CompanyDocs \<in> S \<Longrightarrow> keeps (outside S v) (unsubscribeToCompany E rq)"
  "CompanyDocs \<in> S \<Longrightarrow> SpeakerDocs \<in> S \<Longrightarrow> ThreadDocs \<in> S \<Longrightarrow> PostDocs \<in> S \<Longrightarrow> keeps (outside S v) (deleteCompanyThread E rq)"
  "MeetingDocs \<in> S \<Longrightarrow> PostDocs \<in> S \<Longrightarrow> (\<And>x. keeps (outside S v) (m0 x)) \<Longrightarrow> keeps (outside S v) (new_meeting_or_clean_up E i x0 m0)"
  "CompanyDocs \<in> S \<Longrightarrow> SpeakerDocs \<in> S \<Longrightarrow> MeetingDocs \<in> S \<Longrightarrow> ThreadDocs \<in> S \<Longrightarrow> PostDocs \<in> S \<Longrightarrow> NotificationDocs \<in> S \<Longrightarrow> keeps (outside S v) (addCompanyThread E body5 rq)"
  "CompanyDocs \<in> S \<Longrightarrow> keeps (outside S v) (forget_company_thread E i i')"
  "CompanyDocs \<in> S \<Longrightarrow> keeps (outside S v) (getCompanyThreads E rq)"
  "CompanyDocs \<in> S \<Longrightarrow> PackageDocs \<in> S \<Longrightarrow> NotificationDocs \<in> S \<Longrightarrow> Caches \<in> S \<Longrightarrow> keeps (outside S v) (addCompanyPackage E body6 rq)"
  "CompanyDocs \<in> S \<Longrightarrow> NotificationDocs \<in> S \<Longrightarrow> Caches \<in> S \<Longrightarrow> keeps (outside S v) (setCompanyPackage E rq)"
  "CompanyDocs \<in> S \<Longrightarrow> PackageDocs \<in> S \<Longrightarrow> BillingDocs \<in> S \<Longrightarrow> NotificationDocs \<in> S \<Longrightarrow> Caches \<in> S \<Longrightarrow> keeps (outside S v) (addCompanyParticipationBilling E body7 rq)"
  "CompanyDocs \<in> S \<Longrightarrow> BillingDocs \<in> S \<Longrightarrow> NotificationDocs \<in> S \<Longrightarrow> keeps (outside S v) (deleteCompanyParticipationBilling E rq)"
  "CompanyDocs \<in> S \<Longrightarrow> NotificationDocs \<in> S \<Longrightarrow> Caches \<in> S \<Longrightarrow> keeps (outside S v) (setCompanyPrivateImage E form rq)"
  "CompanyDocs \<in> S \<Longrightarrow> NotificationDocs \<in> S \<Longrightarrow> Caches \<in> S \<Longrightarrow> keeps (outside S v) (setCompanyPublicImage E form rq)"
  unfolding getCompany_def getCompanies_def getCompaniesPublic_def getCompaniesByMembers_def
    getCompanyPublic_def createCompany_def updateCompany_def deleteCompany_def
    addCompanyParticipation_def updateCompanyParticipation_def deleteCompanyParticipation_def
    setCompanyStatus_def stepCompanyStatus_def getCompanyValidSteps_def announceAcceptedCompanies_def
    subscribeToCompany_def unsubscribeToCompany_def deleteCompanyThread_def new_meeting_or_clean_up_def
    addCompanyThread_def forget_company_thread_def getCompanyThreads_def addCompanyPackage_def
    setCompanyPackage_def addCompanyParticipationBilling_def deleteCompanyParticipationBilling_def
    setCompanyPrivateImage_def setCompanyPublicImage_def
  by (rule keeps_rules footprints keeps_store keeps_modifyE | assumption | simp)+

lemma footprints_employer_reps [footprints]:
  "keeps (outside S v) (employer_reps E x0 x1)"
  by (induction x0 arbitrary: x1; (rule keeps_rules footprints | simp split del: if_split)+)

lemma footprints_CompanyHandlers2 [footprints]:
  "keeps (outside S v) (getCompanyEmployers E rq)"
  "CompanyDocs \<in> S \<Longrightarrow> ContactDocs \<in> S \<Longrightarrow> RepDocs \<in> S \<Longrightarrow> keeps (outside S v) (addEmployer E x0 rq)"
  "CompanyDocs \<in> S \<Longrightarrow> RepDocs \<in> S \<Longrightarrow> keeps (outside S v) (removeEmployer E rq)"
  "CompanyDocs \<in> S \<Longrightarrow> keeps (outside S v) (updateEmployersOrder E body0 rq)"
  "CompanyDocs \<in> S \<Longrightarrow> keeps (outside S v) (updateCompanyGmailThreadIds E body1 rq)"
  "CompanyDocs \<in> S \<Longrightarrow> SpeakerDocs \<in> S \<Longrightarrow> ThreadDocs \<in> S \<Longrightarrow> PostDocs \<in> S \<Longrightarrow> keeps (outside S v) (syncCompanyGmailMessages E body2 rq)"
  unfolding getCompanyEmployers_def addEmployer_def removeEmployer_def updateEmployersOrder_def
    updateCompanyGmailThreadIds_def syncCompanyGmailMessages_def
  by (rule keeps_rules footprints keeps_store keeps_modifyE | assumption | simp)+

lemma footprints_SpeakerHandlers [footprints]:
  "keeps (outside S v) (getSpeaker E rq)"
  "keeps (outside S v) (getSpeakerPublic E rq)"
  "keeps (outside S v) (getSpeakers E rq)"
  "Caches \<in> S \<Longrightarrow> keeps (outside S v) (getSpeakersPublic E rq)"
  "keeps (outside S v) (getSpeakersByMembers E body0 rq)"
  "SpeakerDocs \<in> S \<Longrightarrow> ContactDocs \<in> S \<Longrightarrow> NotificationDocs \<in> S \<Longrightarrow> Caches \<in> S \<Longrightarrow> keeps (outside S v) (createSpeaker E body1 rq)"
  "SpeakerDocs \<in> S \<Longrightarrow> NotificationDocs \<in> S \<Longrightarrow> Caches \<in> S \<Longrightarrow> keeps (outside S v) (updateSpeaker E body2 rq)"
  "SpeakerDocs \<in> S \<Longrightarrow> ContactDocs \<in> S \<Longrightarrow> SessionDocs \<in> S \<Longrightarrow> NotificationDocs \<in> S \<Longrightarrow> keeps (outside S v) (deleteSpeaker E rq)"
  "SpeakerDocs \<in> S \<Longrightarrow> NotificationDocs \<in> S \<Longrightarrow> Caches \<in> S \<Longrightarrow> keeps (outside S v) (addSpeakerParticipation E rq)"
  "SpeakerDocs \<in> S \<Longrightarrow> NotificationDocs \<in> S \<Longrightarrow> Caches \<in> S \<Longrightarrow> keeps (outside S v) (updateSpeakerParticipation E body3 rq)"
  "SpeakerDocs \<in> S \<Longrightarrow> keeps (outside S v) (removeSpeakerParticipation E rq)"
  "SpeakerDocs \<in> S \<Longrightarrow> NotificationDocs \<in> S \<Longrightarrow> Caches \<in> S \<Longrightarrow> keeps (outside S v) (stepSpeakerStatus E rq)"
  "keeps (outside S v) (getSpeakerValidSteps E rq)"
  "SpeakerDocs \<in> S \<Longrightarrow> NotificationDocs \<in> S \<Longrightarrow> Caches \<in> S \<Longrightarrow> keeps (outside S v) (setSpeakerStatus E rq)"
  "SpeakerDocs \<in> S \<Longrightarrow> keeps (outside S v) (subscribeToSpeaker E rq)"
  "SpeakerDocs \<in> S \<Longrightarrow> keeps (outside S v) (unsubscribeToSpeaker E rq)"
  "SpeakerDocs \<in> S \<Longrightarrow> ThreadDocs \<in> S \<Longrightarrow> PostDocs \<in> S \<Longrightarrow> keeps (outside S v) (deleteSpeakerThread E rq)"
  "MeetingDocs \<in> S \<Longrightarrow> PostDocs \<in> S \<Longrightarrow> (\<And>x. keeps (outside S v) (m0 x)) \<Longrightarrow> keeps (outside S v) (new_meeting E i x0 m0)"
  "SpeakerDocs \<in> S \<Longrightarrow> MeetingDocs \<in> S \<Longrightarrow> ThreadDocs \<in> S \<Longrightarrow> PostDocs \<in> S \<Longrightarrow> NotificationDocs \<in> S \<Longrightarrow> keeps (outside S v) (addSpeakerThread E body4 rq)"
  "SpeakerDocs \<in> S \<Longrightarrow> keeps (outside S v) (forget_speaker_thread E i i')"
  "SpeakerDocs \<in> S \<Longrightarrow> keeps (outside S v) (getSpeakerThreads E rq)"
  "SpeakerDocs \<in> S \<Longrightarrow> NotificationDocs \<in> S \<Longrightarrow> keeps (outside S v) (setSpeakerPrivateImage E form rq)"
  "SpeakerDocs \<in> S \<Longrightarrow> NotificationDocs \<in> S \<Longrightarrow> Caches \<in> S \<Longrightarrow> keeps (outside S v) (setSpeakerPublicImage E form rq)"
  "SpeakerDocs \<in> S \<Longrightarrow> NotificationDocs \<in> S \<Longrightarrow> Caches \<in> S \<Longrightarrow> keeps (outside S v) (setSpeakerCompanyImage E form rq)"
  "SpeakerDocs \<in> S \<Longrightarrow> FlightDocs \<in> S \<Longrightarrow> NotificationDocs \<in> S \<Longrightarrow> keeps (outside S v) (addSpeakerFlightInfo E body5 rq)"
  "SpeakerDocs \<in> S \<Longrightarrow> FlightDocs \<in> S \<Longrightarrow> NotificationDocs \<in> S \<Longrightarrow> keeps (outside S v) (deleteSpeakerFlightInfo E rq)"
  "SpeakerDocs \<in> S \<Longrightarrow> keeps (outside S v) (updateSpeakerGmailThreadIds E body6 rq)"
  "SpeakerDocs \<in> S \<Longrightarrow> ThreadDocs \<in> S \<Longrightarrow> PostDocs \<in> S \<Longrightarrow> keeps (outside S v) (syncSpeakerGmailMessages E body7 rq)"
  unfolding getSpeaker_def getSpeakerPublic_def getSpeakers_def getSpeakersPublic_def
    getSpeakersByMembers_def createSpeaker_def updateSpeaker_def deleteSpeaker_def
    addSpeakerParticipation_def updateSpeakerParticipation_def removeSpeakerParticipation_def
    stepSpeakerStatus_def getSpeakerValidSteps_def setSpeakerStatus_def subscribeToSpeaker_def
    unsubscribeToSpeaker_def deleteSpeakerThread_def new_meeting_def addSpeakerThread_def
    forget_speaker_thread_def getSpeakerThreads_def setSpeakerPrivateImage_def setSpeakerPublicImage_def
    setSpeakerCompanyImage_def addSpeakerFlightInfo_def deleteSpeakerFlightInfo_def
    updateSpeakerGmailThreadIds_def syncSpeakerGmailMessages_def
  by (rule keeps_rules footprints keeps_store keeps_modifyE | assumption | simp)+

lemma footprints_EventHandlers [footprints]:
  "keeps (outside S v) (getEvents E rq)"
  "keeps (outside S v) (getEventsPublic E rq)"
  "keeps (outside S v) (getLatestEvent E rq)"
  "keeps (outside S v) (getEvent E rq)"
  "EventDocs \<in> S \<Longrightarrow> Caches \<in> S \<Longrightarrow> keeps (outside S v) (createEvent E body0 rq)"
  "EventDocs \<in> S \<Longrightarrow> Caches \<in> S \<Longrightarrow> keeps (outside S v) (updateEvent E body1 rq)"
  "EventDocs \<in> S \<Longrightarrow> Caches \<in> S \<Longrightarrow> keeps (outside S v) (deleteEvent E rq)"
  "EventDocs \<in> S \<Longrightarrow> Caches \<in> S \<Longrightarrow> keeps (outside S v) (updateEventThemes E body2 rq)"
  "EventDocs \<in> S \<Longrightarrow> keeps (outside S v) (addPackageToEvent E body3 rq)"
  "EventDocs \<in> S \<Longrightarrow> keeps (outside S v) (removePackageFromEvent E rq)"
  "EventDocs \<in> S \<Longrightarrow> keeps (outside S v) (updatePackageFromEvent E body4 rq)"
  "EventDocs \<in> S \<Longrightarrow> keeps (outside S v) (addItemToEvent E body5 rq)"
  "EventDocs \<in> S \<Longrightarrow> keeps (outside S v) (removeItemToEvent E rq)"
  "EventDocs \<in> S \<Longrightarrow> SessionDocs \<in> S \<Longrightarrow> NotificationDocs \<in> S \<Longrightarrow> Caches \<in> S \<Longrightarrow> keeps (outside S v) (addSessionToEvent E body6 rq)"
  "EventDocs \<in> S \<Longrightarrow> MeetingDocs \<in> S \<Longrightarrow> keeps (outside S v) (addMeetingToEvent E body7 rq)"
  "EventDocs \<in> S \<Longrightarrow> MeetingDocs \<in> S \<Longrightarrow> keeps (outside S v) (removeMeetingFromEvent E rq)"
  "EventDocs \<in> S \<Longrightarrow> keeps (outside S v) (removeTeamFromEvent E rq)"
  "EventDocs \<in> S \<Longrightarrow> Caches \<in> S \<Longrightarrow> keeps (outside S v) (updateCalendar x0 E rq)"
  "keeps (outside S v) (getEventCalendar E rq)"
  "keeps (outside S v) (getLinkedGmailThreads E rq)"
  unfolding getEvents_def getEventsPublic_def getLatestEvent_def getEvent_def createEvent_def
    updateEvent_def deleteEvent_def updateEventThemes_def addPackageToEvent_def
    removePackageFromEvent_def updatePackageFromEvent_def addItemToEvent_def removeItemToEvent_def
    addSessionToEvent_def addMeetingToEvent_def removeMeetingFromEvent_def removeTeamFromEvent_def
    updateCalendar_def getEventCalendar_def getLinkedGmailThreads_def
  by (rule keeps_rules footprints keeps_store keeps_modifyE | assumption | simp)+

lemma footprints_TeamHandlers1 [footprints]:
  "keeps (outside S v) (getTeams E rq)"
  "EventDocs \<in> S \<Longrightarrow> TeamDocs \<in> S \<Longrightarrow> keeps (outside S v) (createTeam E body0 rq)"
  "keeps (outside S v) (getTeam E rq)"
  "TeamDocs \<in> S \<Longrightarrow> keeps (outside S v) (deleteTeam E rq)"
  "TeamDocs \<in> S \<Longrightarrow> keeps (outside S v) (updateTeam E body0 rq)"
  "TeamDocs \<in> S \<Longrightarrow> keeps (outside S v) (addTeamMember E body1 rq)"
  "TeamDocs \<in> S \<Longrightarrow> keeps (outside S v) (updateTeamMemberRole E body2 rq)"
  "TeamDocs \<in> S \<Longrightarrow> keeps (outside S v) (deleteTeamMember E rq)"
  "TeamDocs \<in> S \<Longrightarrow> MeetingDocs \<in> S \<Longrightarrow> keeps (outside S v) (addTeamMeeting E body3 rq)"
  "TeamDocs \<in> S \<Longrightarrow> keeps (outside S v) (deleteTeamMeeting E rq)"
  "keeps (outside S v) (getCoordinationTeams E rq)"
  unfolding getTeams_def createTeam_def getTeam_def deleteTeam_def updateTeam_def addTeamMember_def
    updateTeamMemberRole_def deleteTeamMember_def addTeamMeeting_def deleteTeamMeeting_def
    getCoordinationTeams_def Let_def
  by (rule keeps_rules footprints keeps_store keeps_modifyE | assumption | simp)+

lemma footprints_is_coordinator [footprints]:
  "keeps (outside S v) (is_coordinator E i x0)"
  by (induction x0; (rule keeps_rules footprints | simp split del: if_split)+)

lemma footprints_TeamHandlers2 [footprints]:
  "CoordinationDocs \<in> S \<Longrightarrow> keeps (outside S v) (createCoordinationTeam E body0 rq)"
  "CoordinationDocs \<in> S \<Longrightarrow> keeps (outside S v) (deleteCoordinationTeam E rq)"
  "keeps (outside S v) (getCoordinationTeam E rq)"
  "keeps (outside S v) (getMyCoordinationTeams E rq)"
  "CoordinationDocs \<in> S \<Longrightarrow> keeps (outside S v) (updateCoordinationTeam E body0 rq)"
  "CoordinationDocs \<in> S \<Longrightarrow> keeps (outside S v) (addCoordinatedTeam E body0 rq)"
  "CoordinationDocs \<in> S \<Longrightarrow> keeps (outside S v) (removeCoordinatedTeam E rq)"
  "CoordinationDocs \<in> S \<Longrightarrow> keeps (outside S v) (setCoordinator E body1 rq)"
  "CoordinationDocs \<in> S \<Longrightarrow> keeps (outside S v) (removeCoordinator E rq)"
  unfolding createCoordinationTeam_def deleteCoordinationTeam_def getCoordinationTeam_def
    getMyCoordinationTeams_def updateCoordinationTeam_def addCoordinatedTeam_def
    removeCoordinatedTeam_def setCoordinator_def removeCoordinator_def Let_def
  by (rule keeps_rules footprints keeps_store keeps_modifyE | assumption | simp)+

lemma footprints_MemberHandlers [footprints]:
  "keeps (outside S v) (getMembers E rq)"
  "MemberDocs \<in> S \<Longrightarrow> ContactDocs \<in> S \<Longrightarrow> Caches \<in> S \<Longrightarrow> keeps (outside S v) (createMember E body0 rq)"
  "keeps (outside S v) (member_and_contact E i)"
  "keeps (outside S v) (getMember E rq)"
  "MemberDocs \<in> S \<Longrightarrow> Caches \<in> S \<Longrightarrow> keeps (outside S v) (updateMember E body1 rq)"
  "MemberDocs \<in> S \<Longrightarrow> Caches \<in> S \<Longrightarrow> keeps (outside S v) (upload_member_image E form i s)"
  "MemberDocs \<in> S \<Longrightarrow> Caches \<in> S \<Longrightarrow> keeps (outside S v) (setMemberImage E form rq)"
  "MemberDocs \<in> S \<Longrightarrow> keeps (outside S v) (deleteMember E rq)"
  "keeps (outside S v) (getMemberRole E rq)"
  "keeps (outside S v) (getMembersParticipations E rq)"
  "Caches \<in> S \<Longrightarrow> keeps (outside S v) (getMembersPublic E rq)"
  "keeps (outside S v) (getMe E rq)"
  "MemberDocs \<in> S \<Longrightarrow> Caches \<in> S \<Longrightarrow> keeps (outside S v) (setMyImage E form rq)"
  "MemberDocs \<in> S \<Longrightarrow> Caches \<in> S \<Longrightarrow> keeps (outside S v) (updateMe E body1 rq)"
  "keeps (outside S v) (getResponsibilities E rq)"
  "keeps (outside S v) (getMyNotifications E rq)"
  "NotificationDocs \<in> S \<Longrightarrow> keeps (outside S v) (deleteMyNotification E rq)"
  "NotificationDocs \<in> S \<Longrightarrow> keeps (outside S v) (deleteAllMyNotifications E rq)"
  unfolding getMembers_def createMember_def member_and_contact_def getMember_def updateMember_def
    upload_member_image_def setMemberImage_def deleteMember_def getMemberRole_def
    getMembersParticipations_def getMembersPublic_def getMe_def setMyImage_def updateMe_def
    getResponsibilities_def getMyNotifications_def deleteMyNotification_def deleteAllMyNotifications_def
  by (rule keeps_rules footprints keeps_store keeps_modifyE | assumption | simp)+

lemma footprints_CommunicationHandlers [footprints]:
  "keeps (outside S v) (getMeeting E rq)"
  "MeetingDocs \<in> S \<Longrightarrow> NotificationDocs \<in> S \<Longrightarrow> keeps (outside S v) (deleteMeeting E rq)"
  "MeetingDocs \<in> S \<Longrightarrow> NotificationDocs \<in> S \<Longrightarrow> keeps (outside S v) (createMeeting E body0 rq)"
  "SpeakerDocs \<in> S \<Longrightarrow> MeetingDocs \<in> S \<Longrightarrow> ThreadDocs \<in> S \<Longrightarrow> PostDocs \<in> S \<Longrightarrow> NotificationDocs \<in> S \<Longrightarrow> keeps (outside S v) (addMeetingThread E body1 rq)"
  "SpeakerDocs \<in> S \<Longrightarrow> MeetingDocs \<in> S \<Longrightarrow> ThreadDocs \<in> S \<Longrightarrow> PostDocs \<in> S \<Longrightarrow> keeps (outside S v) (deleteMeetingThread E rq)"
  "keeps (outside S v) (getMeetings E rq)"
  "MeetingDocs \<in> S \<Longrightarrow> keeps (outside S v) (updateMeeting E body2 rq)"
  "MeetingDocs \<in> S \<Longrightarrow> NotificationDocs \<in> S \<Longrightarrow> keeps (outside S v) (uploadMeetingMinute x0 E form rq)"
  "MeetingDocs \<in> S \<Longrightarrow> NotificationDocs \<in> S \<Longrightarrow> keeps (outside S v) (deleteMeetingMinute E rq)"
  "MeetingDocs \<in> S \<Longrightarrow> NotificationDocs \<in> S \<Longrightarrow> keeps (outside S v) (addMeetingParticipant E body3 rq)"
  "MeetingDocs \<in> S \<Longrightarrow> NotificationDocs \<in> S \<Longrightarrow> keeps (outside S v) (deleteMeetingParticipant E body3 rq)"
  "keeps (outside S v) (getThread E rq)"
  "NotificationDocs \<in> S \<Longrightarrow> keeps (outside S v) (notify_of_comment E x1 i x2)"
  "ThreadDocs \<in> S \<Longrightarrow> PostDocs \<in> S \<Longrightarrow> NotificationDocs \<in> S \<Longrightarrow> keeps (outside S v) (addCommentToThread E body4 rq)"
  "ThreadDocs \<in> S \<Longrightarrow> PostDocs \<in> S \<Longrightarrow> NotificationDocs \<in> S \<Longrightarrow> keeps (outside S v) (removeCommentFromThread E rq)"
  "keeps (outside S v) m0 \<Longrightarrow> keeps (outside S v) (as_author E x1 i m0)"
  "MeetingDocs \<in> S \<Longrightarrow> ThreadDocs \<in> S \<Longrightarrow> keeps (outside S v) (updateThread E body5 rq)"
  "SpeakerDocs \<in> S \<Longrightarrow> ThreadDocs \<in> S \<Longrightarrow> PostDocs \<in> S \<Longrightarrow> keeps (outside S v) (deleteThread E rq)"
  "keeps (outside S v) (getPost E rq)"
  "keeps (outside S v) (post_context E i)"
  "PostDocs \<in> S \<Longrightarrow> NotificationDocs \<in> S \<Longrightarrow> keeps (outside S v) (updatePost E body6 rq)"
  unfolding getMeeting_def deleteMeeting_def createMeeting_def addMeetingThread_def
    deleteMeetingThread_def getMeetings_def updateMeeting_def uploadMeetingMinute_def
    deleteMeetingMinute_def addMeetingParticipant_def deleteMeetingParticipant_def getThread_def
    notify_of_comment_def addCommentToThread_def removeCommentFromThread_def as_author_def
    updateThread_def deleteThread_def getPost_def post_context_def updatePost_def
  by (rule keeps_rules footprints keeps_store keeps_modifyE | assumption | simp)+

lemma footprints_CatalogueHandlers1 [footprints]:
  "ItemDocs \<in> S \<Longrightarrow> keeps (outside S v) (createItem E body0 rq)"
  "keeps (outside S v) (getItems E rq)"
  "keeps (outside S v) (getItem E rq)"
  "ItemDocs \<in> S \<Longrightarrow> keeps (outside S v) (updateItem E body1 rq)"
  "ItemDocs \<in> S \<Longrightarrow> keeps (outside S v) (deleteItem E rq)"
  "ItemDocs \<in> S \<Longrightarrow> keeps (outside S v) (uploadItemImage E form rq)"
  "keeps (outside S v) (getItemCategories E rq)"
  "CategoryDocs \<in> S \<Longrightarrow> keeps (outside S v) (createItemCategory E body2 rq)"
  "CategoryDocs \<in> S \<Longrightarrow> keeps (outside S v) (updateItemCategory E body2 rq)"
  "CategoryDocs \<in> S \<Longrightarrow> keeps (outside S v) (deleteItemCategory E rq)"
  "PackageDocs \<in> S \<Longrightarrow> keeps (outside S v) (createPackage E body3 rq)"
  "PackageDocs \<in> S \<Longrightarrow> keeps (outside S v) (updatePackageItems E body4 rq)"
  "PackageDocs \<in> S \<Longrightarrow> keeps (outside S v) (updatePackage E body5 rq)"
  "keeps (outside S v) (getPackages E rq)"
  "keeps (outside S v) (getPackage E rq)"
  "PackageDocs \<in> S \<Longrightarrow> keeps (outside S v) (deleteItemPackage E rq)"
  "PackageDocs \<in> S \<Longrightarrow> keeps (outside S v) (deletePackage E rq)"
  "keeps (outside S v) (getContacts E rq)"
  "ContactDocs \<in> S \<Longrightarrow> keeps (outside S v) (updateContact E body6 rq)"
  "keeps (outside S v) (getContact E rq)"
  "ContactDocs \<in> S \<Longrightarrow> keeps (outside S v) (addPhone E body7 rq)"
  "ContactDocs \<in> S \<Longrightarrow> keeps (outside S v) (addMail E body8 rq)"
  "ContactDocs \<in> S \<Longrightarrow> keeps (outside S v) (updatePhone E body9 rq)"
  "ContactDocs \<in> S \<Longrightarrow> keeps (outside S v) (updateMail E body10 rq)"
  "ContactDocs \<in> S \<Longrightarrow> keeps (outside S v) (updateSocials E body11 rq)"
  unfolding createItem_def getItems_def getItem_def updateItem_def deleteItem_def uploadItemImage_def
    getItemCategories_def createItemCategory_def updateItemCategory_def deleteItemCategory_def
    createPackage_def updatePackageItems_def updatePackage_def getPackages_def getPackage_def
    deleteItemPackage_def deletePackage_def getContacts_def updateContact_def getContact_def
    addPhone_def addMail_def updatePhone_def updateMail_def updateSocials_def
  by (rule keeps_rules footprints keeps_store keeps_modifyE | assumption | simp)+

lemma footprints_company_reps [footprints]:
  "keeps (outside S v) (company_reps E x0 x1)"
  by (induction x0 arbitrary: x1; (rule keeps_rules footprints | simp split del: if_split)+)

lemma footprints_CatalogueHandlers2 [footprints]:
  "keeps (outside S v) (getCompanyReps E rq)"
  "keeps (outside S v) (getCompanyRep E rq)"
  "ContactDocs \<in> S \<Longrightarrow> RepDocs \<in> S \<Longrightarrow> keeps (outside S v) (updateCompanyRep E body0 rq)"
  "keeps (outside S v) (getBillings E rq)"
  "keeps (outside S v) (getBilling E rq)"
  "BillingDocs \<in> S \<Longrightarrow> keeps (outside S v) (updateBilling E body1 rq)"
  "keeps (outside S v) (getFlightInfo E rq)"
  "FlightDocs \<in> S \<Longrightarrow> keeps (outside S v) (updateFlightInfo E body2 rq)"
  "keeps (outside S v) (getSession E rq)"
  "(\<And>x. keeps (outside S v) (m0 x)) \<Longrightarrow> keeps (outside S v) (event_or_none E q m0)"
  "keeps (outside S v) (getSessions E rq)"
  "keeps (outside S v) (getSessionPublic E rq)"
  "Caches \<in> S \<Longrightarrow> keeps (outside S v) (getPublicSessions E rq)"
  "SessionDocs \<in> S \<Longrightarrow> NotificationDocs \<in> S \<Longrightarrow> Caches \<in> S \<Longrightarrow> keeps (outside S v) (updateSession E body3 rq)"
  "SessionDocs \<in> S \<Longrightarrow> keeps (outside S v) (deleteSession E rq)"
  "FilledPages \<in> S \<Longrightarrow> keeps (outside S v) (fillTemplate x0 x1 E body4 rq)"
  "keeps (outside S v) (getFilledTemplate E rq)"
  "keeps (outside S v) (getTemplates E rq)"
  "TemplateDocs \<in> S \<Longrightarrow> keeps (outside S v) (store_template_file E n i body5)"
  "TemplateDocs \<in> S \<Longrightarrow> keeps (outside S v) (uploadTemplateFile E x3 rq)"
  "TemplateDocs \<in> S \<Longrightarrow> (\<And>x. keeps (outside S v) (m1 x)) \<Longrightarrow> keeps (outside S v) (template_by_name E s n m1)"
  "TemplateDocs \<in> S \<Longrightarrow> keeps (outside S v) (uploadTemplateFileByName E x3 rq)"
  "keeps (outside S v) (downloadTemplateFile x4 E rq)"
  unfolding getCompanyReps_def getCompanyRep_def updateCompanyRep_def getBillings_def getBilling_def
    updateBilling_def getFlightInfo_def updateFlightInfo_def getSession_def event_or_none_def
    getSessions_def getSessionPublic_def getPublicSessions_def updateSession_def deleteSession_def
    fillTemplate_def getFilledTemplate_def getTemplates_def store_template_file_def
    uploadTemplateFile_def template_by_name_def uploadTemplateFileByName_def downloadTemplateFile_def
  by (rule keeps_rules footprints keeps_store keeps_modifyE | assumption | simp)+

section \<open>Contracts and the login\<close>

lemma keeps_recovering [keeps_rules]: "keeps I m \<Longrightarrow> keeps I (recovering m)"
  by (auto simp: keeps_def wp_def recovering_def split: prod.splits sum.splits err.splits)

lemma footprints_contract_package [footprints]: "keeps (outside S v) (contract_package E ev ps)"
  by (induction ps; (rule keeps_rules footprints | simp split del: if_split)+)

lemma footprints_contract [footprints]:
  "keeps (outside S v) (fill_contract D http_get E company ev t)"
  "keeps (outside S v) (generateCompanyContractDocx D http_get E req rq)"
  "keeps (outside S v) (oauthGoogleLogin x0 x1 s E rq)"
  "keeps (outside S v) (oauthGoogleCallback E cookie rq)"
  unfolding fill_contract_def generateCompanyContractDocx_def oauthGoogleLogin_def oauthGoogleCallback_def Let_def
  by (rule keeps_rules footprints | simp)+

end
