(* ===== verification/Requests.thy ===== *)
theory Requests
  imports HandlerFootprints HttpProperties
begin

text \<open>
  Requests: the table of routes (\<^verbatim>\<open>router/init.go\<close>) with the handlers behind it. \<open>serves E path name h\<close> says that
  \<open>h\<close> is the handler of that name, for some body of the request; \<open>step\<close> is the service taking one request on
  one of its routes, behind the check its route asks for. Requests are taken one after the other, and the
  hourly cleaning of the caches of public pages (\<^verbatim>\<open>mongodb/init.go\<close>) falls between them.
\<close>

section \<open>The handlers by name\<close>

text \<open>A handler, with its answers reduced to their status and message.\<close>

definition erase :: "'a handler \<Rightarrow> unit handler" where
  "erase h rq = bindE (h rq) (\<lambda>r. retE (map_reply (\<lambda>_. ()) r))"

lemma keeps_erase [keeps_rules]: "keeps I (h rq) \<Longrightarrow> keeps I (erase h rq)"
  unfolding erase_def by (intro keeps_rules)

inductive serves_public :: "env \<Rightarrow> string \<Rightarrow> unit handler \<Rightarrow> bool" for E where
  "serves_public E ''getCompaniesPublic'' (erase (getCompaniesPublic E))"
| "serves_public E ''getSpeakersPublic'' (erase (getSpeakersPublic E))"
| "serves_public E ''getEventsPublic'' (erase (getEventsPublic E))"
| "serves_public E ''getMembersPublic'' (erase (getMembersPublic E))"
| "serves_public E ''getPublicSessions'' (erase (getPublicSessions E))"
| "serves_public E ''getCompanyPublic'' (erase (getCompanyPublic E))"
| "serves_public E ''getSessionPublic'' (erase (getSessionPublic E))"
| "serves_public E ''getSpeakerPublic'' (erase (getSpeakerPublic E))"
| "serves_public E ''getLatestEvent'' (erase (getLatestEvent E))"
| "serves_public E ''getEventCalendar'' (erase (getEventCalendar E))"
| "serves_public E ''oauthGoogleLogin'' (erase (oauthGoogleLogin x0 x1 x2 E))"
| "serves_public E ''oauthGoogleCallback'' (erase (oauthGoogleCallback E x0))"
| "serves_public E ''verifyToken'' (erase (verifyToken E))"
| "serves_public E ''generateJwt'' (erase (generateJwt E body0))"
| "serves_public E ''generateJwtAuthCode'' (erase (generateJwtAuthCode E body0))"
| "serves_public E ''getTemplates'' (erase (getTemplates E))"
| "serves_public E ''fillTemplate'' (erase (fillTemplate x0 x1 E body0))"
| "serves_public E ''getFilledTemplate'' (erase (getFilledTemplate E))"
| "serves_public E ''uploadTemplateFile'' (erase (uploadTemplateFile E x0))"
| "serves_public E ''uploadTemplateFileByName'' (erase (uploadTemplateFileByName E x0))"
| "serves_public E ''downloadTemplateFile'' (erase (downloadTemplateFile x0 E))"

inductive serves_company :: "env \<Rightarrow> string \<Rightarrow> unit handler \<Rightarrow> bool" for E where
  "serves_company E ''getCompanies'' (erase (getCompanies E))"
| "serves_company E ''createCompany'' (erase (createCompany E body0))"
| "serves_company E ''getCompany'' (erase (getCompany E))"
| "serves_company E ''updateCompany'' (erase (updateCompany E body0))"
| "serves_company E ''deleteCompany'' (erase (deleteCompany E))"
| "serves_company E ''getCompaniesByMembers'' (erase (getCompaniesByMembers E body0))"
| "serves_company E ''announceAcceptedCompanies'' (erase (announceAcceptedCompanies E))"
| "serves_company E ''subscribeToCompany'' (erase (subscribeToCompany E))"
| "serves_company E ''unsubscribeToCompany'' (erase (unsubscribeToCompany E))"
| "serves_company E ''setCompanyPrivateImage'' (erase (setCompanyPrivateImage E form))"
| "serves_company E ''setCompanyPublicImage'' (erase (setCompanyPublicImage E form))"
| "serves_company E ''addCompanyParticipation'' (erase (addCompanyParticipation E body0))"
| "serves_company E ''updateCompanyParticipation'' (erase (updateCompanyParticipation E body0))"
| "serves_company E ''deleteCompanyParticipation'' (erase (deleteCompanyParticipation E))"
| "serves_company E ''deleteCompanyThread'' (erase (deleteCompanyThread E))"
| "serves_company E ''getCompanyValidSteps'' (erase (getCompanyValidSteps E))"
| "serves_company E ''generateCompanyContractDocx'' (erase (generateCompanyContractDocx (x0 :: string docxTools) x1 E x2))"
| "serves_company E ''setCompanyStatus'' (erase (setCompanyStatus E))"
| "serves_company E ''stepCompanyStatus'' (erase (stepCompanyStatus E))"
| "serves_company E ''addCompanyPackage'' (erase (addCompanyPackage E body0))"
| "serves_company E ''setCompanyPackage'' (erase (setCompanyPackage E))"
| "serves_company E ''addCompanyParticipationBilling'' (erase (addCompanyParticipationBilling E body0))"
| "serves_company E ''deleteCompanyParticipationBilling'' (erase (deleteCompanyParticipationBilling E))"
| "serves_company E ''getCompanyThreads'' (erase (getCompanyThreads E))"
| "serves_company E ''addCompanyThread'' (erase (addCompanyThread E body0))"
| "serves_company E ''updateCompanyGmailThreadIds'' (erase (updateCompanyGmailThreadIds E body0))"
| "serves_company E ''syncCompanyGmailMessages'' (erase (syncCompanyGmailMessages E body0))"
| "serves_company E ''getCompanyEmployers'' (erase (getCompanyEmployers E))"
| "serves_company E ''updateEmployersOrder'' (erase (updateEmployersOrder E body0))"
| "serves_company E ''addEmployer'' (erase (addEmployer E x0))"
| "serves_company E ''removeEmployer'' (erase (removeEmployer E))"

inductive serves_speaker :: "env \<Rightarrow> string \<Rightarrow> unit handler \<Rightarrow> bool" for E where
  "serves_speaker E ''getSpeakers'' (erase (getSpeakers E))"
| "serves_speaker E ''createSpeaker'' (erase (createSpeaker E body0))"
| "serves_speaker E ''getSpeaker'' (erase (getSpeaker E))"
| "serves_speaker E ''getSpeakersByMembers'' (erase (getSpeakersByMembers E body0))"
| "serves_speaker E ''deleteSpeaker'' (erase (deleteSpeaker E))"
| "serves_speaker E ''updateSpeaker'' (erase (updateSpeaker E body0))"
| "serves_speaker E ''subscribeToSpeaker'' (erase (subscribeToSpeaker E))"
| "serves_speaker E ''unsubscribeToSpeaker'' (erase (unsubscribeToSpeaker E))"
| "serves_speaker E ''addSpeakerParticipation'' (erase (addSpeakerParticipation E))"
| "serves_speaker E ''updateSpeakerParticipation'' (erase (updateSpeakerParticipation E body0))"
| "serves_speaker E ''deleteSpeakerThread'' (erase (deleteSpeakerThread E))"
| "serves_speaker E ''getSpeakerValidSteps'' (erase (getSpeakerValidSteps E))"
| "serves_speaker E ''stepSpeakerStatus'' (erase (stepSpeakerStatus E))"
| "serves_speaker E ''setSpeakerStatus'' (erase (setSpeakerStatus E))"
| "serves_speaker E ''addSpeakerFlightInfo'' (erase (addSpeakerFlightInfo E body0))"
| "serves_speaker E ''deleteSpeakerFlightInfo'' (erase (deleteSpeakerFlightInfo E))"
| "serves_speaker E ''setSpeakerPrivateImage'' (erase (setSpeakerPrivateImage E form))"
| "serves_speaker E ''setSpeakerPublicImage'' (erase (setSpeakerPublicImage E form))"
| "serves_speaker E ''setSpeakerCompanyImage'' (erase (setSpeakerCompanyImage E form))"
| "serves_speaker E ''getSpeakerThreads'' (erase (getSpeakerThreads E))"
| "serves_speaker E ''addSpeakerThread'' (erase (addSpeakerThread E body0))"
| "serves_speaker E ''updateSpeakerGmailThreadIds'' (erase (updateSpeakerGmailThreadIds E body0))"
| "serves_speaker E ''syncSpeakerGmailMessages'' (erase (syncSpeakerGmailMessages E body0))"
| "serves_speaker E ''removeSpeakerParticipation'' (erase (removeSpeakerParticipation E))"
| "serves_speaker E ''getFlightInfo'' (erase (getFlightInfo E))"
| "serves_speaker E ''updateFlightInfo'' (erase (updateFlightInfo E body0))"

inductive serves_event :: "env \<Rightarrow> string \<Rightarrow> unit handler \<Rightarrow> bool" for E where
  "serves_event E ''getEvents'' (erase (getEvents E))"
| "serves_event E ''createEvent'' (erase (createEvent E body0))"
| "serves_event E ''updateEvent'' (erase (updateEvent E body0))"
| "serves_event E ''getEvent'' (erase (getEvent E))"
| "serves_event E ''deleteEvent'' (erase (deleteEvent E))"
| "serves_event E ''getLinkedGmailThreads'' (erase (getLinkedGmailThreads E))"
| "serves_event E ''updateEventThemes'' (erase (updateEventThemes E body0))"
| "serves_event E ''addPackageToEvent'' (erase (addPackageToEvent E body0))"
| "serves_event E ''removePackageFromEvent'' (erase (removePackageFromEvent E))"
| "serves_event E ''updatePackageFromEvent'' (erase (updatePackageFromEvent E body0))"
| "serves_event E ''addItemToEvent'' (erase (addItemToEvent E body0))"
| "serves_event E ''removeItemToEvent'' (erase (removeItemToEvent E))"
| "serves_event E ''addMeetingToEvent'' (erase (addMeetingToEvent E body0))"
| "serves_event E ''removeMeetingFromEvent'' (erase (removeMeetingFromEvent E))"
| "serves_event E ''addSessionToEvent'' (erase (addSessionToEvent E body0))"
| "serves_event E ''removeTeamFromEvent'' (erase (removeTeamFromEvent E))"
| "serves_event E ''updateCalendar'' (erase (updateCalendar x0 E))"

inductive serves_team :: "env \<Rightarrow> string \<Rightarrow> unit handler \<Rightarrow> bool" for E where
  "serves_team E ''getTeams'' (erase (getTeams E))"
| "serves_team E ''createTeam'' (erase (createTeam E body0))"
| "serves_team E ''getTeam'' (erase (getTeam E))"
| "serves_team E ''deleteTeam'' (erase (deleteTeam E))"
| "serves_team E ''updateTeam'' (erase (updateTeam E body0))"
| "serves_team E ''addTeamMember'' (erase (addTeamMember E body0))"
| "serves_team E ''updateTeamMemberRole'' (erase (updateTeamMemberRole E body0))"
| "serves_team E ''deleteTeamMember'' (erase (deleteTeamMember E))"
| "serves_team E ''addTeamMeeting'' (erase (addTeamMeeting E body0))"
| "serves_team E ''deleteTeamMeeting'' (erase (deleteTeamMeeting E))"
| "serves_team E ''getCoordinationTeams'' (erase (getCoordinationTeams E))"
| "serves_team E ''getMyCoordinationTeams'' (erase (getMyCoordinationTeams E))"
| "serves_team E ''createCoordinationTeam'' (erase (createCoordinationTeam E body0))"
| "serves_team E ''getCoordinationTeam'' (erase (getCoordinationTeam E))"
| "serves_team E ''updateCoordinationTeam'' (erase (updateCoordinationTeam E body0))"
| "serves_team E ''deleteCoordinationTeam'' (erase (deleteCoordinationTeam E))"
| "serves_team E ''addCoordinatedTeam'' (erase (addCoordinatedTeam E body0))"
| "serves_team E ''removeCoordinatedTeam'' (erase (removeCoordinatedTeam E))"
| "serves_team E ''setCoordinator'' (erase (setCoordinator E body0))"
| "serves_team E ''removeCoordinator'' (erase (removeCoordinator E))"

inductive serves_member :: "env \<Rightarrow> string \<Rightarrow> unit handler \<Rightarrow> bool" for E where
  "serves_member E ''getMe'' (erase (getMe E))"
| "serves_member E ''updateMe'' (erase (updateMe E body0))"
| "serves_member E ''getResponsibilities'' (erase (getResponsibilities E))"
| "serves_member E ''setMyImage'' (erase (setMyImage E form))"
| "serves_member E ''getMyNotifications'' (erase (getMyNotifications E))"
| "serves_member E ''deleteMyNotification'' (erase (deleteMyNotification E))"
| "serves_member E ''deleteAllMyNotifications'' (erase (deleteAllMyNotifications E))"
| "serves_member E ''getMembers'' (erase (getMembers E))"
| "serves_member E ''createMember'' (erase (createMember E body0))"
| "serves_member E ''getMember'' (erase (getMember E))"
| "serves_member E ''getMemberRole'' (erase (getMemberRole E))"
| "serves_member E ''getMembersParticipations'' (erase (getMembersParticipations E))"
| "serves_member E ''updateMember'' (erase (updateMember E body0))"
| "serves_member E ''deleteMember'' (erase (deleteMember E))"
| "serves_member E ''setMemberImage'' (erase (setMemberImage E form))"

inductive serves_catalogue :: "env \<Rightarrow> string \<Rightarrow> unit handler \<Rightarrow> bool" for E where
  "serves_catalogue E ''getItemCategories'' (erase (getItemCategories E))"
| "serves_catalogue E ''createItemCategory'' (erase (createItemCategory E body0))"
| "serves_catalogue E ''updateItemCategory'' (erase (updateItemCategory E body0))"
| "serves_catalogue E ''deleteItemCategory'' (erase (deleteItemCategory E))"
| "serves_catalogue E ''getItems'' (erase (getItems E))"
| "serves_catalogue E ''createItem'' (erase (createItem E body0))"
| "serves_catalogue E ''getItem'' (erase (getItem E))"
| "serves_catalogue E ''updateItem'' (erase (updateItem E body0))"
| "serves_catalogue E ''deleteItem'' (erase (deleteItem E))"
| "serves_catalogue E ''uploadItemImage'' (erase (uploadItemImage E form))"
| "serves_catalogue E ''createPackage'' (erase (createPackage E body0))"
| "serves_catalogue E ''getPackages'' (erase (getPackages E))"
| "serves_catalogue E ''getPackage'' (erase (getPackage E))"
| "serves_catalogue E ''updatePackage'' (erase (updatePackage E body0))"
| "serves_catalogue E ''updatePackageItems'' (erase (updatePackageItems E body0))"
| "serves_catalogue E ''deleteItemPackage'' (erase (deleteItemPackage E))"
| "serves_catalogue E ''deletePackage'' (erase (deletePackage E))"
| "serves_catalogue E ''getContacts'' (erase (getContacts E))"
| "serves_catalogue E ''getContact'' (erase (getContact E))"
| "serves_catalogue E ''updateContact'' (erase (updateContact E body0))"
| "serves_catalogue E ''getSessions'' (erase (getSessions E))"
| "serves_catalogue E ''getSession'' (erase (getSession E))"
| "serves_catalogue E ''updateSession'' (erase (updateSession E body0))"
| "serves_catalogue E ''deleteSession'' (erase (deleteSession E))"
| "serves_catalogue E ''getBillings'' (erase (getBillings E))"
| "serves_catalogue E ''getBilling'' (erase (getBilling E))"
| "serves_catalogue E ''updateBilling'' (erase (updateBilling E body0))"
| "serves_catalogue E ''getCompanyReps'' (erase (getCompanyReps E))"
| "serves_catalogue E ''getCompanyRep'' (erase (getCompanyRep E))"
| "serves_catalogue E ''updateCompanyRep'' (erase (updateCompanyRep E body0))"

inductive serves_communication :: "env \<Rightarrow> string \<Rightarrow> unit handler \<Rightarrow> bool" for E where
  "serves_communication E ''getMeetings'' (erase (getMeetings E))"
| "serves_communication E ''createMeeting'' (erase (createMeeting E body0))"
| "serves_communication E ''getMeeting'' (erase (getMeeting E))"
| "serves_communication E ''deleteMeeting'' (erase (deleteMeeting E))"
| "serves_communication E ''updateMeeting'' (erase (updateMeeting E body0))"
| "serves_communication E ''addMeetingThread'' (erase (addMeetingThread E body0))"
| "serves_communication E ''deleteMeetingThread'' (erase (deleteMeetingThread E))"
| "serves_communication E ''uploadMeetingMinute'' (erase (uploadMeetingMinute x0 E form))"
| "serves_communication E ''deleteMeetingMinute'' (erase (deleteMeetingMinute E))"
| "serves_communication E ''addMeetingParticipant'' (erase (addMeetingParticipant E body0))"
| "serves_communication E ''deleteMeetingParticipant'' (erase (deleteMeetingParticipant E body0))"
| "serves_communication E ''getThread'' (erase (getThread E))"
| "serves_communication E ''addCommentToThread'' (erase (addCommentToThread E body0))"
| "serves_communication E ''removeCommentFromThread'' (erase (removeCommentFromThread E))"
| "serves_communication E ''updateThread'' (erase (updateThread E body0))"
| "serves_communication E ''deleteThread'' (erase (deleteThread E))"
| "serves_communication E ''getPost'' (erase (getPost E))"
| "serves_communication E ''updatePost'' (erase (updatePost E body0))"

text \<open>By the prefix of the subrouter that has the route.\<close>

inductive serves :: "env \<Rightarrow> string \<Rightarrow> string \<Rightarrow> unit handler \<Rightarrow> bool" for E where
  "serves_public E name h \<Longrightarrow> path \<in> {''public'', ''auth'', ''templates''} \<Longrightarrow> serves E path name h"
| "serves_company E name h \<Longrightarrow> path = ''companies'' \<Longrightarrow> serves E path name h"
| "serves_speaker E name h \<Longrightarrow> path \<in> {''speakers'', ''flightInfo''} \<Longrightarrow> serves E path name h"
| "serves_event E name h \<Longrightarrow> path = ''events'' \<Longrightarrow> serves E path name h"
| "serves_team E name h \<Longrightarrow> path \<in> {''teams'', ''coordinationTeams''} \<Longrightarrow> serves E path name h"
| "serves_member E name h \<Longrightarrow> path \<in> {''me'', ''members''} \<Longrightarrow> serves E path name h"
| "serves_catalogue E name h \<Longrightarrow> path \<in> {''items'', ''packages'', ''contacts'', ''sessions'', ''billings'', ''companyReps''} \<Longrightarrow> serves E path name h"
| "serves_communication E name h \<Longrightarrow> path \<in> {''meetings'', ''threads'', ''posts''} \<Longrightarrow> serves E path name h"

text \<open>
  Which parts of the state each handler may change, as a table: a specification the handlers are shown
  to meet. A handler that only reads has none; the cached public pages are a part of their own.
\<close>

definition public_footprints :: "(string \<times> part list) list" where
  "public_footprints =
    [(''getCompaniesPublic'', [Caches]),
     (''getSpeakersPublic'', [Caches]),
     (''getEventsPublic'', []),
     (''getMembersPublic'', [Caches]),
     (''getPublicSessions'', [Caches]),
     (''getCompanyPublic'', []),
     (''getSessionPublic'', []),
     (''getSpeakerPublic'', []),
     (''getLatestEvent'', []),
     (''getEventCalendar'', []),
     (''oauthGoogleLogin'', []),
     (''oauthGoogleCallback'', []),
     (''verifyToken'', []),
     (''generateJwt'', []),
     (''generateJwtAuthCode'', []),
     (''getTemplates'', []),
     (''fillTemplate'', [FilledPages]),
     (''getFilledTemplate'', []),
     (''uploadTemplateFile'', [TemplateDocs]),
     (''uploadTemplateFileByName'', [TemplateDocs]),
     (''downloadTemplateFile'', [])]"

definition company_footprints :: "(string \<times> part list) list" where
  "company_footprints =
    [(''getCompanies'', []),
     (''createCompany'', [CompanyDocs, ContactDocs, NotificationDocs, Caches]),
     (''getCompany'', []),
     (''updateCompany'', [CompanyDocs, NotificationDocs, Caches]),
     (''deleteCompany'', [CompanyDocs, ContactDocs, SessionDocs, NotificationDocs]),
     (''getCompaniesByMembers'', []),
     (''announceAcceptedCompanies'', [CompanyDocs, Caches]),
     (''subscribeToCompany'', [CompanyDocs]),
     (''unsubscribeToCompany'', [CompanyDocs]),
     (''setCompanyPrivateImage'', [CompanyDocs, NotificationDocs, Caches]),
     (''setCompanyPublicImage'', [CompanyDocs, NotificationDocs, Caches]),
     (''addCompanyParticipation'', [CompanyDocs, NotificationDocs, Caches]),
     (''updateCompanyParticipation'', [CompanyDocs, NotificationDocs, Caches]),
     (''deleteCompanyParticipation'', [CompanyDocs]),
     (''deleteCompanyThread'', [CompanyDocs, SpeakerDocs, ThreadDocs, PostDocs]),
     (''getCompanyValidSteps'', []),
     (''generateCompanyContractDocx'', []),
     (''setCompanyStatus'', [CompanyDocs, NotificationDocs, Caches]),
     (''stepCompanyStatus'', [CompanyDocs, NotificationDocs, Caches]),
     (''addCompanyPackage'', [CompanyDocs, PackageDocs, NotificationDocs, Caches]),
     (''setCompanyPackage'', [CompanyDocs, NotificationDocs, Caches]),
     (''addCompanyParticipationBilling'', [CompanyDocs, PackageDocs, BillingDocs, NotificationDocs, Caches]),
     (''deleteCompanyParticipationBilling'', [CompanyDocs, BillingDocs, NotificationDocs]),
     (''getCompanyThreads'', [CompanyDocs]),
     (''addCompanyThread'', [CompanyDocs, SpeakerDocs, MeetingDocs, ThreadDocs, PostDocs, NotificationDocs]),
     (''updateCompanyGmailThreadIds'', [CompanyDocs]),
     (''syncCompanyGmailMessages'', [CompanyDocs, SpeakerDocs, ThreadDocs, PostDocs]),
     (''getCompanyEmployers'', []),
     (''updateEmployersOrder'', [CompanyDocs]),
     (''addEmployer'', [CompanyDocs, ContactDocs, RepDocs]),
     (''removeEmployer'', [CompanyDocs, RepDocs])]"

definition speaker_footprints :: "(string \<times> part list) list" where
  "speaker_footprints =
    [(''getSpeakers'', []),
     (''createSpeaker'', [SpeakerDocs, ContactDocs, NotificationDocs, Caches]),
     (''getSpeaker'', []),
     (''getSpeakersByMembers'', []),
     (''deleteSpeaker'', [SpeakerDocs, ContactDocs, SessionDocs, NotificationDocs]),
     (''updateSpeaker'', [SpeakerDocs, NotificationDocs, Caches]),
     (''subscribeToSpeaker'', [SpeakerDocs]),
     (''unsubscribeToSpeaker'', [SpeakerDocs]),
     (''addSpeakerParticipation'', [SpeakerDocs, NotificationDocs, Caches]),
     (''updateSpeakerParticipation'', [SpeakerDocs, NotificationDocs, Caches]),
     (''deleteSpeakerThread'', [SpeakerDocs, ThreadDocs, PostDocs]),
     (''getSpeakerValidSteps'', []),
     (''stepSpeakerStatus'', [SpeakerDocs, NotificationDocs, Caches]),
     (''setSpeakerStatus'', [SpeakerDocs, NotificationDocs, Caches]),
     (''addSpeakerFlightInfo'', [SpeakerDocs, FlightDocs, NotificationDocs]),
     (''deleteSpeakerFlightInfo'', [SpeakerDocs, FlightDocs, NotificationDocs]),
     (''setSpeakerPrivateImage'', [SpeakerDocs, NotificationDocs]),
     (''setSpeakerPublicImage'', [SpeakerDocs, NotificationDocs, Caches]),
     (''setSpeakerCompanyImage'', [SpeakerDocs, NotificationDocs, Caches]),
     (''getSpeakerThreads'', [SpeakerDocs]),
     (''addSpeakerThread'', [SpeakerDocs, MeetingDocs, ThreadDocs, PostDocs, NotificationDocs]),
     (''updateSpeakerGmailThreadIds'', [SpeakerDocs]),
     (''syncSpeakerGmailMessages'', [SpeakerDocs, ThreadDocs, PostDocs]),
     (''removeSpeakerParticipation'', [SpeakerDocs]),
     (''getFlightInfo'', []),
     (''updateFlightInfo'', [FlightDocs])]"

definition event_footprints :: "(string \<times> part list) list" where
  "event_footprints =
    [(''getEvents'', []),
     (''createEvent'', [EventDocs, Caches]),
     (''updateEvent'', [EventDocs, Caches]),
     (''getEvent'', []),
     (''deleteEvent'', [EventDocs, Caches]),
     (''getLinkedGmailThreads'', []),
     (''updateEventThemes'', [EventDocs, Caches]),
     (''addPackageToEvent'', [EventDocs]),
     (''removePackageFromEvent'', [EventDocs]),
     (''updatePackageFromEvent'', [EventDocs]),
     (''addItemToEvent'', [EventDocs]),
     (''removeItemToEvent'', [EventDocs]),
     (''addMeetingToEvent'', [EventDocs, MeetingDocs]),
     (''removeMeetingFromEvent'', [EventDocs, MeetingDocs]),
     (''addSessionToEvent'', [EventDocs, SessionDocs, NotificationDocs, Caches]),
     (''removeTeamFromEvent'', [EventDocs]),
     (''updateCalendar'', [EventDocs, Caches])]"

definition team_footprints :: "(string \<times> part list) list" where
  "team_footprints =
    [(''getTeams'', []),
     (''createTeam'', [EventDocs, TeamDocs]),
     (''getTeam'', []),
     (''deleteTeam'', [TeamDocs]),
     (''updateTeam'', [TeamDocs]),
     (''addTeamMember'', [TeamDocs]),
     (''updateTeamMemberRole'', [TeamDocs]),
     (''deleteTeamMember'', [TeamDocs]),
     (''addTeamMeeting'', [TeamDocs, MeetingDocs]),
     (''deleteTeamMeeting'', [TeamDocs]),
     (''getCoordinationTeams'', []),
     (''getMyCoordinationTeams'', []),
     (''createCoordinationTeam'', [CoordinationDocs]),
     (''getCoordinationTeam'', []),
     (''updateCoordinationTeam'', [CoordinationDocs]),
     (''deleteCoordinationTeam'', [CoordinationDocs]),
     (''addCoordinatedTeam'', [CoordinationDocs]),
     (''removeCoordinatedTeam'', [CoordinationDocs]),
     (''setCoordinator'', [CoordinationDocs]),
     (''removeCoordinator'', [CoordinationDocs])]"

definition member_footprints :: "(string \<times> part list) list" where
  "member_footprints =
    [(''getMe'', []),
     (''updateMe'', [MemberDocs, Caches]),
     (''getResponsibilities'', []),
     (''setMyImage'', [MemberDocs, Caches]),
     (''getMyNotifications'', []),
     (''deleteMyNotification'', [NotificationDocs]),
     (''deleteAllMyNotifications'', [NotificationDocs]),
     (''getMembers'', []),
     (''createMember'', [MemberDocs, ContactDocs, Caches]),
     (''getMember'', []),
     (''getMemberRole'', []),
     (''getMembersParticipations'', []),
     (''updateMember'', [MemberDocs, Caches]),
     (''deleteMember'', [MemberDocs]),
     (''setMemberImage'', [MemberDocs, Caches])]"

definition catalogue_footprints :: "(string \<times> part list) list" where
  "catalogue_footprints =
    [(''getItemCategories'', []),
     (''createItemCategory'', [CategoryDocs]),
     (''updateItemCategory'', [CategoryDocs]),
     (''deleteItemCategory'', [CategoryDocs]),
     (''getItems'', []),
     (''createItem'', [ItemDocs]),
     (''getItem'', []),
     (''updateItem'', [ItemDocs]),
     (''deleteItem'', [ItemDocs]),
     (''uploadItemImage'', [ItemDocs]),
     (''createPackage'', [PackageDocs]),
     (''getPackages'', []),
     (''getPackage'', []),
     (''updatePackage'', [PackageDocs]),
     (''updatePackageItems'', [PackageDocs]),
     (''deleteItemPackage'', [PackageDocs]),
     (''deletePackage'', [PackageDocs]),
     (''getContacts'', []),
     (''getContact'', []),
     (''updateContact'', [ContactDocs]),
     (''getSessions'', []),
     (''getSession'', []),
     (''updateSession'', [SessionDocs, NotificationDocs, Caches]),
     (''deleteSession'', [SessionDocs]),
     (''getBillings'', []),
     (''getBilling'', []),
     (''updateBilling'', [BillingDocs]),
     (''getCompanyReps'', []),
     (''getCompanyRep'', []),
     (''updateCompanyRep'', [ContactDocs, RepDocs])]"

definition communication_footprints :: "(string \<times> part list) list" where
  "communication_footprints =
    [(''getMeetings'', []),
     (''createMeeting'', [MeetingDocs, NotificationDocs]),
     (''getMeeting'', []),
     (''deleteMeeting'', [MeetingDocs, NotificationDocs]),
     (''updateMeeting'', [MeetingDocs]),
     (''addMeetingThread'', [SpeakerDocs, MeetingDocs, ThreadDocs, PostDocs, NotificationDocs]),
     (''deleteMeetingThread'', [SpeakerDocs, MeetingDocs, ThreadDocs, PostDocs]),
     (''uploadMeetingMinute'', [MeetingDocs, NotificationDocs]),
     (''deleteMeetingMinute'', [MeetingDocs, NotificationDocs]),
     (''addMeetingParticipant'', [MeetingDocs, NotificationDocs]),
     (''deleteMeetingParticipant'', [MeetingDocs, NotificationDocs]),
     (''getThread'', []),
     (''addCommentToThread'', [ThreadDocs, PostDocs, NotificationDocs]),
     (''removeCommentFromThread'', [ThreadDocs, PostDocs, NotificationDocs]),
     (''updateThread'', [MeetingDocs, ThreadDocs]),
     (''deleteThread'', [SpeakerDocs, ThreadDocs, PostDocs]),
     (''getPost'', []),
     (''updatePost'', [PostDocs, NotificationDocs])]"

text \<open>A handler that changes at most what the table lists under its name.\<close>

definition within :: "(string \<times> part list) list \<Rightarrow> string \<Rightarrow> unit handler \<Rightarrow> bool" where
  "within T name h \<longleftrightarrow>
     (\<exists>ps. map_of T name = Some ps \<and> (\<forall>S v rq. set ps \<subseteq> S \<longrightarrow> keeps (outside S v) (h rq)))"

lemma withinI:
  assumes "map_of T name = Some ps" and "\<And>S v rq. set ps \<subseteq> S \<Longrightarrow> keeps (outside S v) (h rq)"
  shows "within T name h"
  using assms by (auto simp: within_def)

lemma within_public: "serves_public E name h \<Longrightarrow> within public_footprints name h"
  by (induction rule: serves_public.induct; rule withinI, simp add: public_footprints_def,
      (rule keeps_rules footprints | simp)+)

lemma within_company: "serves_company E name h \<Longrightarrow> within company_footprints name h"
  by (induction rule: serves_company.induct; rule withinI, simp add: company_footprints_def,
      (rule keeps_rules footprints | simp)+)

lemma within_speaker: "serves_speaker E name h \<Longrightarrow> within speaker_footprints name h"
  by (induction rule: serves_speaker.induct; rule withinI, simp add: speaker_footprints_def,
      (rule keeps_rules footprints | simp)+)

lemma within_event: "serves_event E name h \<Longrightarrow> within event_footprints name h"
  by (induction rule: serves_event.induct; rule withinI, simp add: event_footprints_def,
      (rule keeps_rules footprints | simp)+)

lemma within_team: "serves_team E name h \<Longrightarrow> within team_footprints name h"
  by (induction rule: serves_team.induct; rule withinI, simp add: team_footprints_def,
      (rule keeps_rules footprints | simp)+)

lemma within_member: "serves_member E name h \<Longrightarrow> within member_footprints name h"
  by (induction rule: serves_member.induct; rule withinI, simp add: member_footprints_def,
      (rule keeps_rules footprints | simp)+)

lemma within_catalogue: "serves_catalogue E name h \<Longrightarrow> within catalogue_footprints name h"
  by (induction rule: serves_catalogue.induct; rule withinI, simp add: catalogue_footprints_def,
      (rule keeps_rules footprints | simp)+)

lemma within_communication: "serves_communication E name h \<Longrightarrow> within communication_footprints name h"
  by (induction rule: serves_communication.induct; rule withinI, simp add: communication_footprints_def,
      (rule keeps_rules footprints | simp)+)

section \<open>Steps of the service\<close>

fun access_of :: "route \<Rightarrow> access" where
  "access_of (_, _, a, _) = a"

fun guarded :: "env \<Rightarrow> access \<Rightarrow> 'a handler \<Rightarrow> 'a handler" where
  "guarded E Open h = h"
| "guarded E (Requires role) h = checkAccessLevelWrapper E role h"

text \<open>One request on one of the routes. The credentials of a request are put there by the check only.\<close>

inductive step :: "env \<Rightarrow> request \<Rightarrow> world \<Rightarrow> world \<Rightarrow> bool" for E where
  "(path, rs) \<in> set subrouters \<Longrightarrow> route \<in> set rs \<Longrightarrow> serves E path (handler_of route) h \<Longrightarrow>
   rq_credentials rq = None \<Longrightarrow> step E rq w (snd (guarded E (access_of route) h rq w))"

definition CleanupCache :: "(world, unit) smonad" where
  "CleanupCache = bindE ResetCurrentPublicEvent (\<lambda>_. bindE ResetCurrentPublicCompanies (\<lambda>_.
     bindE ResetCurrentPublicMembers (\<lambda>_. bindE ResetCurrentPublicSpeakers (\<lambda>_. ResetCurrentPublicSessions))))"

inductive requests :: "env \<Rightarrow> request list \<Rightarrow> world \<Rightarrow> world \<Rightarrow> bool" for E where
  "requests E [] w w"
| "step E rq w w' \<Longrightarrow> requests E rqs w' w'' \<Longrightarrow> requests E (rq # rqs) w w''"
| "requests E rqs (snd (CleanupCache w)) w' \<Longrightarrow> requests E rqs w w'"

text \<open>Every route is served.\<close>

abbreviation all_served :: "(string \<Rightarrow> unit handler \<Rightarrow> bool) \<Rightarrow> route list \<Rightarrow> bool" where
  "all_served S rs \<equiv> list_all (\<lambda>route. \<exists>h. S (handler_of route) h) rs"

lemma routes_served:
  "all_served (serves_public E) publicRouter"
  "all_served (serves_public E) authRouter" "all_served (serves_public E) templatesRouter"
  "all_served (serves_company E) companyRouter"
  "all_served (serves_speaker E) speakerRouter" "all_served (serves_speaker E) flightInfoRouter"
  "all_served (serves_event E) eventRouter"
  "all_served (serves_team E) teamRouter" "all_served (serves_team E) coordRouter"
  "all_served (serves_member E) meRouter" "all_served (serves_member E) memberRouter"
  "all_served (serves_catalogue E) itemRouter" "all_served (serves_catalogue E) packageRouter"
  "all_served (serves_catalogue E) contactRouter" "all_served (serves_catalogue E) sessionsRouter"
  "all_served (serves_catalogue E) billingsRouter" "all_served (serves_catalogue E) repsRouter"
  "all_served (serves_communication E) meetingRouter" "all_served (serves_communication E) threadRouter"
  "all_served (serves_communication E) postRouter"
  by (unfold subrouter_defs, simp_all,
      (intro conjI; rule exI; rule serves_public.intros serves_company.intros serves_speaker.intros serves_event.intros
        serves_team.intros serves_member.intros serves_catalogue.intros serves_communication.intros)+)

lemma keeps_run: "keeps I m \<Longrightarrow> I w \<Longrightarrow> I (snd (m w))"
  by (cases "m w") (auto simp: keeps_def wp_def split: sum.splits)

definition footprints_table :: "(string \<times> part list) list" where
  "footprints_table = public_footprints @ company_footprints @ speaker_footprints @ event_footprints @
     team_footprints @ member_footprints @ catalogue_footprints @ communication_footprints"

text \<open>
  C3: no handler changes a part of the state that the table of footprints does not list under its name, whatever
  the request, its body, and the answers of the database, errors included.
\<close>

theorem handlers_meet_footprints:
  assumes "serves E path name h"
  shows "\<exists>ps. (name, ps) \<in> set footprints_table \<and> outside (set ps) w (snd (h rq w))"
proof -
  have held: "\<exists>ps. (name, ps) \<in> set T \<and> outside (set ps) w (snd (h rq w))" if meets: "within T name h" for T
  proof -
    obtain ps where entry: "map_of T name = Some ps" and ps: "keeps (outside (set ps) w) (h rq)"
      using meets unfolding within_def by blast
    from keeps_run [OF ps] map_of_SomeD [OF entry] show ?thesis by auto
  qed
  show ?thesis
    using assms
    by cases (auto simp: footprints_table_def dest!: held within_public within_company within_speaker within_event within_team
        within_member within_catalogue within_communication)
qed

theorem handlers_meet_footprints_witness:
  "\<exists>ps. (''deleteTeam'', ps) \<in> set footprints_table \<and>
     outside (set ps) staff_world (snd (erase (deleteTeam local_env) (request_with ''token'') staff_world))"
  by (rule handlers_meet_footprints [of _ "''teams''"]) (simp add: serves.simps serves_team.simps)

section \<open>What a request may change\<close>

text \<open>What the routes of each access may change, and what a request may, by the role its token gives.\<close>

definition member_parts :: "part list" where
  "member_parts = [CompanyDocs, SpeakerDocs, TeamDocs, MemberDocs, MeetingDocs, ContactDocs, ThreadDocs, PostDocs,
     FlightDocs, RepDocs, NotificationDocs, Caches, FilledPages]"

fun allowed :: "access \<Rightarrow> part set" where
  "allowed Open = {Caches, FilledPages}"
| "allowed (Requires role) =
     (if role = RoleMember then set member_parts
      else if role = RoleTeamLeader then insert EventDocs (set member_parts)
      else if role = RoleCoordinator \<or> role = RoleAdmin then UNIV
      else {Caches, FilledPages})"

definition token_role :: "env \<Rightarrow> request \<Rightarrow> world \<Rightarrow> teamRole option" where
  "token_role E rq w =
     (if length (rq_Authorization rq) = 0 then None
      else case fst (ParseJWT E (rq_Authorization rq) w) of Inl _ \<Rightarrow> None | Inr cr \<Rightarrow> Some (ac_Role cr))"

definition meets :: "(string \<times> part list) list \<Rightarrow> route \<Rightarrow> bool" where
  "meets T route = (case map_of T (handler_of route) of
     None \<Rightarrow> True | Some ps \<Rightarrow> set ps \<subseteq> allowed (access_of route))"

lemma tables_meet:
  "list_all (meets public_footprints) publicRouter" "list_all (meets public_footprints) authRouter" "list_all (meets public_footprints) templatesRouter"
  "list_all (meets company_footprints) companyRouter"
  "list_all (meets speaker_footprints) speakerRouter" "list_all (meets speaker_footprints) flightInfoRouter"
  "list_all (meets event_footprints) eventRouter"
  "list_all (meets team_footprints) teamRouter" "list_all (meets team_footprints) coordRouter"
  "list_all (meets member_footprints) meRouter" "list_all (meets member_footprints) memberRouter"
  "list_all (meets catalogue_footprints) itemRouter" "list_all (meets catalogue_footprints) packageRouter" "list_all (meets catalogue_footprints) contactRouter" "list_all (meets catalogue_footprints) sessionsRouter" "list_all (meets catalogue_footprints) billingsRouter" "list_all (meets catalogue_footprints) repsRouter"
  "list_all (meets communication_footprints) meetingRouter" "list_all (meets communication_footprints) threadRouter" "list_all (meets communication_footprints) postRouter"
  by (simp_all add: meets_def member_parts_def subrouter_defs public_footprints_def company_footprints_def
    speaker_footprints_def event_footprints_def team_footprints_def member_footprints_def
    catalogue_footprints_def communication_footprints_def)

lemma meets_within:
  assumes "list_all (meets T) rs" and "route \<in> set rs" and "within T (handler_of route) h"
  shows "keeps (outside (allowed (access_of route)) v) (h rq)"
  using assms by (auto simp: list_all_iff meets_def within_def)

lemmas routes_meet =
  meets_within [OF tables_meet(1) _ within_public] meets_within [OF tables_meet(2) _ within_public]
  meets_within [OF tables_meet(3) _ within_public] meets_within [OF tables_meet(4) _ within_company]
  meets_within [OF tables_meet(5) _ within_speaker] meets_within [OF tables_meet(6) _ within_speaker]
  meets_within [OF tables_meet(7) _ within_event] meets_within [OF tables_meet(8) _ within_team]
  meets_within [OF tables_meet(9) _ within_team] meets_within [OF tables_meet(10) _ within_member]
  meets_within [OF tables_meet(11) _ within_member] meets_within [OF tables_meet(12) _ within_catalogue]
  meets_within [OF tables_meet(13) _ within_catalogue] meets_within [OF tables_meet(14) _ within_catalogue]
  meets_within [OF tables_meet(15) _ within_catalogue] meets_within [OF tables_meet(16) _ within_catalogue]
  meets_within [OF tables_meet(17) _ within_catalogue] meets_within [OF tables_meet(18) _ within_communication]
  meets_within [OF tables_meet(19) _ within_communication] meets_within [OF tables_meet(20) _ within_communication]

lemma handler_allowed:
  assumes "(path, rs) \<in> set subrouters" and "route \<in> set rs" and "serves E path (handler_of route) h"
  shows "keeps (outside (allowed (access_of route)) v) (h rq)"
  using assms(3)
proof cases
qed (use assms(1,2) in \<open>auto simp: subrouters_def intro: routes_meet\<close>)

lemma allowed_mono:
  "CheckAccessLevel required cr \<Longrightarrow> allowed (Requires required) \<subseteq> allowed (Requires (ac_Role cr))"
  by (cases required; cases "ac_Role cr") (auto simp: CheckAccessLevel_iff IsValidRole_iff)

lemma run_ParseJWT: "outside {} w (snd (ParseJWT E s w))"
  by (rule keeps_run [OF footprints_Http(2)]) simp

abbreviation role_parts :: "teamRole option \<Rightarrow> part set" where
  "role_parts r \<equiv> case r of None \<Rightarrow> {Caches, FilledPages} | Some role \<Rightarrow> allowed (Requires role)"

lemma role_parts_cases: "outside {} w v \<Longrightarrow> outside (role_parts r) w v" "outside {Caches, FilledPages} w v \<Longrightarrow> outside (role_parts r) w v"
  by (erule outside_mono, auto simp: member_parts_def split: option.split)+

lemma protected_within:
  assumes "env_authentication E" and "\<And>rq v. keeps (outside (allowed (Requires role)) v) (h rq)"
  shows "outside (role_parts (token_role E rq w)) w (snd (checkAccessLevelWrapper E role h rq w))"
proof (cases "length (rq_Authorization rq) = 0")
  case True
  then show ?thesis by (simp add: checkAccessLevelWrapper_def assms(1) retE_def)
next
  case False
  note unfolded = checkAccessLevelWrapper_def assms(1) orFail_def onErr_def retE_def False Let_def
  obtain r w1 where run: "ParseJWT E (rq_Authorization rq) w = (r, w1)" by force
  have same: "outside {} w w1" using run_ParseJWT [of w E "rq_Authorization rq"] run by simp
  show ?thesis
  proof (cases r)
    case (Inl e)
    with same show ?thesis by (simp add: unfolded run role_parts_cases)
  next
    case (Inr cr)
    then have role: "token_role E rq w = Some (ac_Role cr)" using run False by (simp add: token_role_def)
    show ?thesis
    proof (cases "CheckAccessLevel role cr")
      case False
      with same Inr show ?thesis by (simp add: unfolded run role_parts_cases)
    next
      case True
      have "outside (allowed (Requires role)) w w1" using same by (rule outside_mono) simp
      then have "outside (allowed (Requires role)) w (snd (h (rq\<lparr>rq_credentials := Some cr\<rparr>) w1))"
        by (rule keeps_run [OF assms(2)])
      with True Inr show ?thesis
        using allowed_mono [OF True] by (auto simp: unfolded run role simp del: allowed.simps intro: outside_mono)
    qed
  qed
qed

text \<open>
  C2: what a request may change. With authentication on, a request changes the parts of the state that the role
  its token vouches for may change, and one without a token that verifies changes the cached public pages and the
  cache of filled templates only: the route that fills a template is open, and puts the page in that cache. So a
  member leaves the events, the catalogue, the sessions, the bills, the document templates and the coordination teams
  as they are, and a team leader all of these but the events.
\<close>

theorem request_within_role:
  assumes "env_authentication E" and "step E rq w w'"
  shows "outside (case token_role E rq w of None \<Rightarrow> {Caches, FilledPages} | Some role \<Rightarrow> allowed (Requires role)) w w'"
  using assms(2)
proof cases
  case (1 path rs route h)
  note allowed = handler_allowed [OF 1(2-4)]
  show ?thesis
  proof (cases "access_of route")
    case Open
    then have "outside {Caches, FilledPages} w w'" using keeps_run [OF allowed [of w rq]] 1(1) by simp
    then show ?thesis by (rule role_parts_cases)
  next
    case (Requires role)
    with 1(1) allowed show ?thesis using protected_within [OF assms(1), of role h rq w] by simp
  qed
qed

text \<open>A request without a token asks to delete a team, which is for administrators.\<close>

theorem request_within_role_witness:
  "outside {Caches, FilledPages} staff_world
     (snd (guarded local_env (Requires RoleAdmin) (erase (deleteTeam local_env)) (request_with []) staff_world))"
proof -
  have "step local_env (request_with []) staff_world
      (snd (guarded local_env (access_of (DELETE, [Var ''id''], Requires RoleAdmin, ''deleteTeam''))
         (erase (deleteTeam local_env)) (request_with []) staff_world))"
    by (rule step.intros [of "''teams''" teamRouter])
      (simp_all add: subrouters_def teamRouter_def request_with_def serves.simps serves_team.simps)
  from request_within_role [OF _ this] show ?thesis
    by (simp add: local_env_def token_role_def request_with_def)
qed

end
