(* ===== verification/ServiceInvariant.thy ===== *)
theory ServiceInvariant
  imports Requests SpeakerProperties CompanyProperties PublicCompanies
begin

text \<open>
  What holds of the service whatever it is asked: an invariant of the companies, the speakers, the teams, the
  coordination teams and the events that every handler keeps, and so every state has that requests lead to.
\<close>

section \<open>The invariant\<close>

definition event_inv :: "world \<Rightarrow> bool" where
  "event_inv w \<longleftrightarrow> distinct (map ev_ID (w_events w))"

definition service_inv :: "world \<Rightarrow> bool" where
  "service_inv w \<longleftrightarrow> company_inv w \<and> speaker_inv w \<and> team_inv w \<and> coordination_inv w \<and> event_inv w"

lemma service_inv_tick [simp]: "service_inv (tickw w) = service_inv w" "event_inv (tickw w) = event_inv w"
  by (simp_all add: service_inv_def event_inv_def)

lemma keeps_serviceI:
  assumes "keeps company_inv m" "keeps speaker_inv m" "keeps team_inv m" "keeps coordination_inv m" "keeps event_inv m"
  shows "keeps service_inv m"
  using assms by (auto simp: keeps_def wp_def service_inv_def split: prod.splits sum.splits)

text \<open>A part of the invariant needs a proof only for the programs that write the documents it is about.\<close>

lemma inv_outside:
  "outside S v w \<Longrightarrow> CompanyDocs \<notin> S \<Longrightarrow> company_inv w = company_inv v"
  "outside S v w \<Longrightarrow> SpeakerDocs \<notin> S \<Longrightarrow> speaker_inv w = speaker_inv v"
  "outside S v w \<Longrightarrow> TeamDocs \<notin> S \<Longrightarrow> team_inv w = team_inv v"
  "outside S v w \<Longrightarrow> CoordinationDocs \<notin> S \<Longrightarrow> coordination_inv w = coordination_inv v"
  "outside S v w \<Longrightarrow> EventDocs \<notin> S \<Longrightarrow> event_inv w = event_inv v"
  by (auto simp: outside_def company_inv_def speaker_inv_def team_inv_def coordination_inv_def event_inv_def
      dest: spec [of _ CompanyDocs] spec [of _ SpeakerDocs] spec [of _ TeamDocs] spec [of _ CoordinationDocs]
        spec [of _ EventDocs])

lemma keeps_framed:
  assumes "\<And>v. keeps (outside S v) m" and "\<And>v w. outside S v w \<Longrightarrow> I w = I v"
  shows "keeps I m"
proof (rule keepsI)
  fix s assume "I s"
  have "wp m (\<lambda>_. outside S s) (\<lambda>_. outside S s) s" by (rule wp_keeps [OF assms(1)]) simp
  then show "wp m (\<lambda>_. I) (\<lambda>_. I) s" by (rule wp_mono) (use assms(2) \<open>I s\<close> in auto)
qed

lemma keeps_inv_framed:
  assumes "\<And>v. keeps (outside S v) m"
  shows "CompanyDocs \<notin> S \<Longrightarrow> keeps company_inv m" and "SpeakerDocs \<notin> S \<Longrightarrow> keeps speaker_inv m"
    and "TeamDocs \<notin> S \<Longrightarrow> keeps team_inv m" and "CoordinationDocs \<notin> S \<Longrightarrow> keeps coordination_inv m"
    and "EventDocs \<notin> S \<Longrightarrow> keeps event_inv m"
  by (rule keeps_framed [OF assms], erule inv_outside, assumption)+

lemma keeps_service_other:
  assumes "\<And>v. keeps (outside (- {CompanyDocs, SpeakerDocs, TeamDocs, CoordinationDocs, EventDocs}) v) m"
  shows "keeps service_inv m"
  by (rule keeps_serviceI; rule keeps_inv_framed [OF assms]; simp)

lemma keeps_service_company:
  assumes "keeps company_inv m" and "\<And>v. keeps (outside (- {SpeakerDocs, TeamDocs, CoordinationDocs, EventDocs}) v) m"
  shows "keeps service_inv m"
  by (rule keeps_serviceI [OF assms(1)]; rule keeps_inv_framed [OF assms(2)]; simp)

lemma keeps_service_speaker:
  assumes "keeps speaker_inv m" and "\<And>v. keeps (outside (- {CompanyDocs, TeamDocs, CoordinationDocs, EventDocs}) v) m"
  shows "keeps service_inv m"
  by (rule keeps_serviceI [OF _ assms(1)]; rule keeps_inv_framed [OF assms(2)]; simp)

lemma keeps_service_team:
  assumes "keeps team_inv m" and "\<And>v. keeps (outside (- {CompanyDocs, SpeakerDocs, CoordinationDocs, EventDocs}) v) m"
  shows "keeps service_inv m"
  by (rule keeps_serviceI [OF _ _ assms(1)]; rule keeps_inv_framed [OF assms(2)]; simp)

lemma keeps_service_coordination:
  assumes "keeps coordination_inv m" and "\<And>v. keeps (outside (- {CompanyDocs, SpeakerDocs, TeamDocs, EventDocs}) v) m"
  shows "keeps service_inv m"
  by (rule keeps_serviceI [OF _ _ _ assms(1)]; rule keeps_inv_framed [OF assms(2)]; simp)

lemma keeps_service_event:
  assumes "keeps event_inv m" and "\<And>v. keeps (outside (- {CompanyDocs, SpeakerDocs, TeamDocs, CoordinationDocs}) v) m"
  shows "keeps service_inv m"
  by (rule keeps_serviceI [OF _ _ _ _ assms(1)]; rule keeps_inv_framed [OF assms(2)]; simp)

section \<open>Writing a collection\<close>

text \<open>
  An invariant that asks of a collection that IDs be distinct and each document meet \<open>P\<close>, and of the rest of the
  state something else: which calls on the collection keep it.
\<close>

locale kept_collection = collection h
  for h :: "('s, 'k, 'a) handle" +
  fixes idf :: "'a \<Rightarrow> 'k" and P :: "'a \<Rightarrow> bool" and I :: "'s \<Rightarrow> bool" and R :: "'s \<Rightarrow> bool"
  assumes I_iff: "I w \<longleftrightarrow> distinct (map idf (docs_of h w)) \<and> (\<forall>d \<in> set (docs_of h w). P d) \<and> R w"
    and R_put [simp]: "R (put_docs h ds w) = R w" and R_tick [simp]: "R (tick h w) = R w"
begin

lemma I_put: "I w \<Longrightarrow> distinct (map idf ds) \<Longrightarrow> (\<forall>d \<in> set ds. P d) \<Longrightarrow> I (put_docs h ds (tick h w))"
  by (simp add: I_iff)

lemma I_tick [simp]: "I (tick h w) = I w"
  by (simp add: I_iff)

lemma I_replaced:
  assumes "I w" and "replaces f u (docs_of h w) y ds"
    and "\<And>d. idf (u d) = idf d" and "\<And>d. f d \<Longrightarrow> P d \<Longrightarrow> P (u d)"
  shows "I (put_docs h ds (tick h w))"
proof (rule I_put [OF assms(1)])
  obtain pre x post where "docs_of h w = pre @ x # post" "ds = pre @ u x # post" "f x"
    using assms(2) by (auto simp: replaces_def)
  with assms(1) show "distinct (map idf ds)" and "\<forall>d \<in> set ds. P d"
    by (auto simp: I_iff assms(3) intro: assms(4))
qed

lemma I_removed: "I w \<Longrightarrow> removes f (docs_of h w) y ds \<Longrightarrow> I (put_docs h ds (tick h w))"
  by (rule I_put) (auto simp: I_iff removes_def)

lemma keeps_updates:
  assumes "driver_spec bad idf (drv h)"
    and "\<And>d. idf (u d) = idf d" and "\<And>d. f d \<Longrightarrow> P d \<Longrightarrow> P (u d)"
  shows "keeps I (FindOneAndUpdate h f u)" and "keeps I (UpdateOne h f u)" and "keeps I (UpdateMany h f u)"
proof -
  show "keeps I (FindOneAndUpdate h f u)"
    by (rule keepsI, rule wp_FindOneAndUpdate [OF assms(1)]) (auto intro: I_replaced assms(2,3))
  show "keeps I (UpdateOne h f u)"
    by (rule keepsI, rule wp_UpdateOne [OF assms(1)]) (auto intro: I_replaced assms(2,3))
  show "keeps I (UpdateMany h f u)"
  proof (rule keepsI, rule wp_UpdateMany [OF assms(1)], goal_cases)
    case (1 w)
    have "map idf (map (\<lambda>x. if f x then u x else x) (docs_of h w)) = map idf (docs_of h w)"
      by (simp add: assms(2))
    with 1 show ?case by (intro I_put) (auto simp: I_iff intro: assms(3) simp del: map_map)
  next
    case (2 w e part)
    have "map idf (map (\<lambda>x. if f x \<and> part x then u x else x) (docs_of h w)) = map idf (docs_of h w)"
      by (simp add: assms(2))
    with 2 show ?case by (intro I_put) (auto simp: I_iff intro: assms(3) simp del: map_map)
  qed
qed

lemma keeps_deletes:
  assumes "driver_spec bad idf (drv h)"
  shows "keeps I (FindOneAndDelete h f)" and "keeps I (DeleteOne h f)"
proof -
  show "keeps I (FindOneAndDelete h f)"
    by (rule keepsI, rule wp_FindOneAndDelete [OF assms]) (auto intro: I_removed)
  show "keeps I (DeleteOne h f)"
    by (rule keepsI, rule wp_DeleteOne [OF assms]) (auto intro: I_removed)
qed

lemma keeps_inserts:
  assumes "driver_spec bad idf (drv h)"
  shows "(\<And>k. idf (mk k) = k) \<Longrightarrow> (\<And>k. P (mk k)) \<Longrightarrow> keeps I (InsertOne h mk)"
    and "P d \<Longrightarrow> keeps I (InsertDoc h d)"
proof -
  assume "\<And>k. idf (mk k) = k" "\<And>k. P (mk k)"
  then show "keeps I (InsertOne h mk)"
    by (intro keepsI wp_InsertOne [OF assms]) (auto simp: I_iff intro: I_put)
next
  assume "P d"
  then show "keeps I (InsertDoc h d)"
    by (intro keepsI wp_InsertDoc [OF assms]) (auto simp: I_iff intro: I_put)
qed

end

abbreviation one_each :: "('p \<Rightarrow> 'k) \<Rightarrow> ('d \<Rightarrow> 'p list) \<Rightarrow> 'd \<Rightarrow> bool" where
  "one_each key parts d \<equiv> distinct (map key (parts d))"

interpretation kept_companies: kept_collection "Companies E" co_ID "one_each cp_Event co_Participations" service_inv
    "\<lambda>w. speaker_inv w \<and> team_inv w \<and> coordination_inv w \<and> event_inv w" for E
  by unfold_locales (auto simp: service_inv_def company_inv_def speaker_inv_def team_inv_def coordination_inv_def event_inv_def)

interpretation kept_speakers: kept_collection "Speakers E" s_ID "one_each sp_Event s_Participations" service_inv
    "\<lambda>w. company_inv w \<and> team_inv w \<and> coordination_inv w \<and> event_inv w" for E
  by unfold_locales (auto simp: service_inv_def company_inv_def speaker_inv_def team_inv_def coordination_inv_def event_inv_def)

interpretation kept_events: kept_collection "Events E" ev_ID "\<lambda>_. True" service_inv
    "\<lambda>w. company_inv w \<and> speaker_inv w \<and> team_inv w \<and> coordination_inv w" for E
  by unfold_locales (auto simp: service_inv_def company_inv_def speaker_inv_def team_inv_def coordination_inv_def event_inv_def)

interpretation kept_teams: kept_collection "Teams E" team_ID "one_each tm_Member team_Members" service_inv
    "\<lambda>w. company_inv w \<and> speaker_inv w \<and> coordination_inv w \<and> event_inv w" for E
  by unfold_locales (auto simp: service_inv_def company_inv_def speaker_inv_def team_inv_def coordination_inv_def event_inv_def)

interpretation kept_coordination: kept_collection "CoordinationTeams E" cot_ID "\<lambda>c. distinct (cot_CoordinatedMembers c)"
    service_inv "\<lambda>w. company_inv w \<and> speaker_inv w \<and> team_inv w \<and> event_inv w" for E
  by unfold_locales (auto simp: service_inv_def company_inv_def speaker_inv_def team_inv_def coordination_inv_def event_inv_def)

lemma driver_companies: "mongo_spec bad E \<Longrightarrow> driver_spec bad co_ID (drv (Companies E))"
  and driver_speakers: "mongo_spec bad E \<Longrightarrow> driver_spec bad s_ID (drv (Speakers E))"
  and driver_events: "mongo_spec bad E \<Longrightarrow> driver_spec bad ev_ID (drv (Events E))"
  and driver_teams: "mongo_spec bad E \<Longrightarrow> driver_spec bad team_ID (drv (Teams E))"
  and driver_coordination: "mongo_spec bad E \<Longrightarrow> driver_spec bad cot_ID (drv (CoordinationTeams E))"
  by (auto dest: mongo_drv)

text \<open>The calls that write these collections.\<close>

lemmas service_calls =
  kept_companies.keeps_updates [OF driver_companies] kept_companies.keeps_deletes [OF driver_companies]
  kept_companies.keeps_inserts [OF driver_companies]
  kept_speakers.keeps_updates [OF driver_speakers] kept_speakers.keeps_deletes [OF driver_speakers]
  kept_speakers.keeps_inserts [OF driver_speakers]
  kept_events.keeps_updates [OF driver_events] kept_events.keeps_deletes [OF driver_events]
  kept_events.keeps_inserts [OF driver_events]
  kept_teams.keeps_updates [OF driver_teams] kept_teams.keeps_deletes [OF driver_teams]
  kept_teams.keeps_inserts [OF driver_teams]
  kept_coordination.keeps_updates [OF driver_coordination] kept_coordination.keeps_deletes [OF driver_coordination]
  kept_coordination.keeps_inserts [OF driver_coordination]

lemma distinct_addToSetDoc:
  "key x \<notin> key ` set xs \<Longrightarrow> distinct (map key xs) \<Longrightarrow> distinct (map key (addToSetDoc same x xs))"
  by (auto simp: addToSetDoc_def)

lemma event_of_announced: "cp_Event (if b then p\<lparr>cp_Status := st\<rparr> else p) = cp_Event p"
  by simp

lemmas document_simps = on_participation_def on_speech_def on_speeches_def map_positional pull_def distinct_map_filter
  filtered_def forget_thread_def distinct_addToSetDoc o_def event_of_announced set_company_fields_def set_speaker_fields_def
  company_of_def speaker_of_def new_speech_def team_of_def coordinationTeam_of_def new_event_def

lemma service_events:
  assumes "mongo_spec bad E"
  shows "keeps service_inv (Events_CreateEvent E x0)"
    and "keeps service_inv (Events_UpdateEvent E n x1)"
    and "keeps service_inv (Events_DeleteEvent E n)"
    and "keeps service_inv (Events_UpdateThemes E n x2)"
    and "keeps service_inv (Events_UpdateTeams E n x3)"
    and "keeps service_inv (Events_AddPackage E n x4)"
    and "keeps service_inv (Events_AddSession E n i)"
    and "keeps service_inv (Events_RemovePackage E n i)"
    and "keeps service_inv (Events_UpdatePackage E n i x5)"
    and "keeps service_inv (Events_AddItem E n x6)"
    and "keeps service_inv (Events_RemoveItem E n i)"
    and "keeps service_inv (Events_AddMeeting E n i)"
    and "keeps service_inv (Events_RemoveMeeting E n i)"
    and "keeps service_inv (Events_RemoveTeam E n i)"
    and "keeps service_inv (Events_UpdateCalendar E n s)"
  unfolding Events_CreateEvent_def Events_UpdateEvent_def Events_DeleteEvent_def Events_UpdateThemes_def
    Events_UpdateTeams_def Events_AddPackage_def Events_AddSession_def Events_RemovePackage_def
    Events_UpdatePackage_def Events_AddItem_def Events_RemoveItem_def Events_AddMeeting_def
    Events_RemoveMeeting_def Events_RemoveTeam_def Events_UpdateCalendar_def
  by (rule keeps_rules service_calls [OF assms] | (rule keeps_service_other; rule footprints keeps_store keeps_modifyE; simp; fail) | simp add: document_simps)+

lemma service_companies:
  assumes "mongo_spec bad E"
  shows "keeps service_inv (Companies_CreateCompany E x0)"
    and "keeps service_inv (Companies_Subscribe E i i')"
    and "keeps service_inv (Companies_Unsubscribe E i i')"
    and "keeps service_inv (Companies_AddParticipation E i i' x1)"
    and "keeps service_inv (Companies_StepStatus E i n)"
    and "keeps service_inv (Companies_UpdateCompanyParticipation E i x2)"
    and "keeps service_inv (Companies_UpdateCompanyGmailThreadIds E i x3)"
    and "keeps service_inv (Companies_UpdateCompanyParticipationStatus E i x4)"
    and "keeps service_inv (Companies_AddThread E i i')"
    and "keeps service_inv (Companies_RemoveCommunication E i i')"
    and "keeps service_inv (Companies_AddSubscriber E i i')"
    and "keeps service_inv (Companies_RemoveSubscriber E i i')"
    and "keeps service_inv (Companies_UpdatePackage E i i')"
    and "keeps service_inv (Companies_UpdateBilling E i i' n)"
    and "keeps service_inv (Companies_RemoveCompanyParticipationBilling E i n)"
    and "keeps service_inv (Companies_AnnounceAcceptedCompanies E)"
    and "keeps service_inv (Companies_UpdateCompany E i x5)"
    and "keeps service_inv (Companies_UpdateCompanyInternalImage E i s)"
    and "keeps service_inv (Companies_UpdateCompanyPublicImage E i s)"
    and "keeps service_inv (Companies_AddEmployer E i x6)"
    and "keeps service_inv (Companies_RemoveEmployer E i i')"
    and "keeps service_inv (Companies_UpdateEmployersOrder E i x7)"
    and "keeps service_inv (Companies_DeleteCompanyThread E i i')"
    and "keeps service_inv (Companies_DeleteCompanyParticipation E i n)"
    and "keeps service_inv (Companies_DeleteCompany E i)"
  unfolding Companies_CreateCompany_def Companies_Subscribe_def Companies_Unsubscribe_def
    Companies_AddParticipation_def Companies_StepStatus_def Companies_UpdateCompanyParticipation_def
    Companies_UpdateCompanyGmailThreadIds_def Companies_UpdateCompanyParticipationStatus_def
    Companies_AddThread_def Companies_RemoveCommunication_def Companies_AddSubscriber_def
    Companies_RemoveSubscriber_def Companies_UpdatePackage_def Companies_UpdateBilling_def
    Companies_RemoveCompanyParticipationBilling_def Companies_AnnounceAcceptedCompanies_def
    Companies_UpdateCompany_def Companies_UpdateCompanyInternalImage_def
    Companies_UpdateCompanyPublicImage_def Companies_AddEmployer_def Companies_RemoveEmployer_def
    Companies_UpdateEmployersOrder_def Companies_DeleteCompanyThread_def
    Companies_DeleteCompanyParticipation_def Companies_DeleteCompany_def
  by (rule keeps_rules service_calls [OF assms] | (rule keeps_service_other; rule footprints keeps_store keeps_modifyE; simp; fail) | simp add: document_simps)+

lemma service_speakers:
  assumes "mongo_spec bad E"
  shows "keeps service_inv (Speakers_CreateSpeaker E x0)"
    and "keeps service_inv (Speakers_UpdateSpeaker E i x1)"
    and "keeps service_inv (Speakers_UpdateSpeakerInternalImage E i s)"
    and "keeps service_inv (Speakers_UpdateSpeakerCompanyImage E i s)"
    and "keeps service_inv (Speakers_UpdateSpeakerPublicImage E i s)"
    and "keeps service_inv (Speakers_Subscribe E i i')"
    and "keeps service_inv (Speakers_Unsubscribe E i i')"
    and "keeps service_inv (Speakers_AddParticipation E i i')"
    and "keeps service_inv (Speakers_UpdateSpeakerParticipation E i x2)"
    and "keeps service_inv (Speakers_StepStatus E i n)"
    and "keeps service_inv (Speakers_UpdateSpeakerGmailThreadIds E i x3)"
    and "keeps service_inv (Speakers_UpdateSpeakerParticipationStatus E i x4)"
    and "keeps service_inv (Speakers_DeleteSpeakerThread E i i')"
    and "keeps service_inv (Speakers_AddSpeakerFlightInfo E i i')"
    and "keeps service_inv (Speakers_RemoveSpeakerFlightInfo E i i')"
    and "keeps service_inv (Speakers_AddThread E i i')"
    and "keeps service_inv (Speakers_RemoveCommunication E i i')"
    and "keeps service_inv (Speakers_RemoveSpeakerParticipation E i n)"
    and "keeps service_inv (Speakers_DeleteSpeaker E i)"
  unfolding Speakers_CreateSpeaker_def Speakers_UpdateSpeaker_def
    Speakers_UpdateSpeakerInternalImage_def Speakers_UpdateSpeakerCompanyImage_def
    Speakers_UpdateSpeakerPublicImage_def Speakers_Subscribe_def Speakers_Unsubscribe_def
    Speakers_AddParticipation_def Speakers_UpdateSpeakerParticipation_def Speakers_StepStatus_def
    Speakers_UpdateSpeakerGmailThreadIds_def Speakers_UpdateSpeakerParticipationStatus_def
    Speakers_DeleteSpeakerThread_def Speakers_AddSpeakerFlightInfo_def
    Speakers_RemoveSpeakerFlightInfo_def Speakers_AddThread_def Speakers_RemoveCommunication_def
    Speakers_RemoveSpeakerParticipation_def Speakers_DeleteSpeaker_def
  by (rule keeps_rules service_calls [OF assms] | (rule keeps_service_other; rule footprints keeps_store keeps_modifyE; simp; fail) | simp add: document_simps)+

lemma service_others:
  assumes "mongo_spec bad E"
  shows "keeps service_inv (Threads_DeleteThread E i)"
    and "keeps service_inv (Teams_CreateTeam E x0)"
    and "keeps service_inv (Teams_DeleteTeam E i)"
    and "keeps service_inv (Teams_UpdateTeam E i x0)"
    and "keeps service_inv (Teams_UpdateTeamMemberRole E i i' x1)"
    and "keeps service_inv (Teams_AddMeeting E i i')"
    and "keeps service_inv (Teams_DeleteTeamMeeting E i i')"
    and "keeps service_inv (CoordinationTeams_CreateCoordinationTeam E s)"
    and "keeps service_inv (CoordinationTeams_DeleteCoordinationTeam E i)"
    and "keeps service_inv (clean_up_thread E i)"
    and "(\<And>x. keeps service_inv (m0 x)) \<Longrightarrow> keeps service_inv (sync_message E i m0 x2 x3)"
  unfolding Threads_DeleteThread_def Teams_CreateTeam_def Teams_DeleteTeam_def Teams_UpdateTeam_def
    Teams_UpdateTeamMemberRole_def Teams_AddMeeting_def Teams_DeleteTeamMeeting_def
    CoordinationTeams_CreateCoordinationTeam_def CoordinationTeams_DeleteCoordinationTeam_def
    clean_up_thread_def sync_message_def
  by (rule keeps_rules service_calls [OF assms] | (rule keeps_service_other; rule footprints keeps_store keeps_modifyE; simp; fail) | simp add: document_simps)+

lemma service_members:
  assumes "mongo_spec bad E"
  shows "keeps service_inv (Teams_AddTeamMember E i x)" and "keeps service_inv (Teams_DeleteTeamMember E i j)"
  by (rule keeps_service_team; rule keeps_team_members [OF assms] footprints; simp)+

lemma service_coordination:
  assumes "mongo_spec bad E"
  shows "keeps service_inv (CoordinationTeams_AddCoordinatedMember E i j)"
    and "keeps service_inv (CoordinationTeams_RemoveCoordinatedMember E i j)"
    and "keeps service_inv (CoordinationTeams_SetCoordinator E i x s)"
    and "keeps service_inv (CoordinationTeams_RemoveCoordinator E i j)"
    and "keeps service_inv (CoordinationTeams_UpdateName E i s)"
  by (rule keeps_service_coordination; rule keeps_coordination_updates [OF assms] footprints; simp)+

lemmas service_rules = service_calls service_events service_companies service_speakers service_others service_members
  service_coordination

section \<open>The handlers\<close>

lemma service_threads:
  assumes "\<And>x. keeps service_inv (forget x)"
  shows "keeps service_inv (thread_entries E forget ts comms)"
  by (induction ts arbitrary: comms;
      (rule keeps_rules assms | (rule keeps_service_other; rule footprints; simp; fail) | simp)+)

lemma service_participation_threads:
  assumes "\<And>x. keeps service_inv (forget x)"
  shows "keeps service_inv (participation_threads E forget ps comms)"
  by (induction ps arbitrary: comms; (rule keeps_rules service_threads assms | simp add: split_paired_all split: prod.split)+)

lemma service_sync:
  assumes "mongo_spec bad E" and "\<And>x. keeps service_inv (attach x)"
  shows "keeps service_inv (sync_messages E author attach existing msgs c)"
  by (induction msgs arbitrary: c; (rule keeps_rules service_others(11) [OF assms] | simp split del: if_split)+)

lemma service_frames:
  assumes "mongo_spec bad E"
  shows "keeps service_inv m \<Longrightarrow> (\<And>a b c d. keeps service_inv (k a b c d)) \<Longrightarrow>
      keeps service_inv (with_image E form unparsed invalid m k)"
    and "keeps service_inv n \<Longrightarrow> keeps service_inv (as_author E cr t n)"
    and "(\<And>x. keeps service_inv (l x)) \<Longrightarrow> keeps service_inv (new_meeting_or_clean_up E p atd l)"
    and "(\<And>x. keeps service_inv (l x)) \<Longrightarrow> keeps service_inv (new_meeting E p atd l)"
    and "keeps service_inv (forget_company_thread E c t)"
    and "keeps service_inv (forget_speaker_thread E s t)"
  unfolding with_image_def as_author_def new_meeting_or_clean_up_def new_meeting_def forget_company_thread_def
    forget_speaker_thread_def
  by ((rule keeps_rules service_rules [OF assms] | (rule keeps_service_other; rule footprints; simp; fail) | assumption
      | simp add: document_simps)+)

text \<open>
  A handler keeps the invariant if it writes none of these collections, or else by its own steps. The definitions
  of those that write some are unfolded, by subrouter.
\<close>

lemmas company_writers = createCompany_def updateCompany_def deleteCompany_def
  announceAcceptedCompanies_def subscribeToCompany_def unsubscribeToCompany_def
  setCompanyPrivateImage_def setCompanyPublicImage_def addCompanyParticipation_def
  updateCompanyParticipation_def deleteCompanyParticipation_def deleteCompanyThread_def
  setCompanyStatus_def stepCompanyStatus_def addCompanyPackage_def setCompanyPackage_def
  addCompanyParticipationBilling_def deleteCompanyParticipationBilling_def getCompanyThreads_def
  addCompanyThread_def updateCompanyGmailThreadIds_def syncCompanyGmailMessages_def
  updateEmployersOrder_def addEmployer_def removeEmployer_def

lemmas speaker_writers = createSpeaker_def deleteSpeaker_def updateSpeaker_def subscribeToSpeaker_def
  unsubscribeToSpeaker_def addSpeakerParticipation_def updateSpeakerParticipation_def
  deleteSpeakerThread_def stepSpeakerStatus_def setSpeakerStatus_def addSpeakerFlightInfo_def
  deleteSpeakerFlightInfo_def setSpeakerPrivateImage_def setSpeakerPublicImage_def
  setSpeakerCompanyImage_def getSpeakerThreads_def addSpeakerThread_def updateSpeakerGmailThreadIds_def
  syncSpeakerGmailMessages_def removeSpeakerParticipation_def

lemmas event_writers = createEvent_def updateEvent_def deleteEvent_def updateEventThemes_def
  addPackageToEvent_def removePackageFromEvent_def updatePackageFromEvent_def addItemToEvent_def
  removeItemToEvent_def addMeetingToEvent_def removeMeetingFromEvent_def addSessionToEvent_def
  removeTeamFromEvent_def updateCalendar_def

lemmas team_writers = createTeam_def deleteTeam_def updateTeam_def addTeamMember_def
  updateTeamMemberRole_def deleteTeamMember_def addTeamMeeting_def deleteTeamMeeting_def
  createCoordinationTeam_def updateCoordinationTeam_def deleteCoordinationTeam_def
  addCoordinatedTeam_def removeCoordinatedTeam_def setCoordinator_def removeCoordinator_def

lemmas communication_writers = addMeetingThread_def deleteMeetingThread_def deleteThread_def

lemmas handler_rules = service_rules service_frames service_sync

lemma service_public_handlers:
  assumes "mongo_spec bad E"
  shows "serves_public E name h \<Longrightarrow> keeps service_inv (h rq)"
  by (induction rule: serves_public.induct; rule keeps_erase, (rule keeps_service_other; rule footprints; simp))

lemma service_company_handlers:
  assumes "mongo_spec bad E"
  shows "serves_company E name h \<Longrightarrow> keeps service_inv (h rq)"
  by (induction rule: serves_company.induct; rule keeps_erase,
      ((rule keeps_service_other; rule footprints; simp; fail) |
       (unfold company_writers Let_def, (rule keeps_rules handler_rules [OF assms] service_participation_threads |
         (rule keeps_service_other; rule footprints; simp; fail) | assumption | simp add: document_simps)+)))

lemma service_speaker_handlers:
  assumes "mongo_spec bad E"
  shows "serves_speaker E name h \<Longrightarrow> keeps service_inv (h rq)"
  by (induction rule: serves_speaker.induct; rule keeps_erase,
      ((rule keeps_service_other; rule footprints; simp; fail) |
       (unfold speaker_writers Let_def, (rule keeps_rules handler_rules [OF assms] service_participation_threads |
         (rule keeps_service_other; rule footprints; simp; fail) | assumption | simp add: document_simps)+)))

lemma service_event_handlers:
  assumes "mongo_spec bad E"
  shows "serves_event E name h \<Longrightarrow> keeps service_inv (h rq)"
  by (induction rule: serves_event.induct; rule keeps_erase,
      ((rule keeps_service_other; rule footprints; simp; fail) |
       (unfold event_writers Let_def, (rule keeps_rules handler_rules [OF assms] service_participation_threads |
         (rule keeps_service_other; rule footprints; simp; fail) | assumption | simp add: document_simps)+)))

lemma service_team_handlers:
  assumes "mongo_spec bad E"
  shows "serves_team E name h \<Longrightarrow> keeps service_inv (h rq)"
  by (induction rule: serves_team.induct; rule keeps_erase,
      ((rule keeps_service_other; rule footprints; simp; fail) |
       (unfold team_writers Let_def, (rule keeps_rules handler_rules [OF assms] service_participation_threads |
         (rule keeps_service_other; rule footprints; simp; fail) | assumption | simp add: document_simps)+)))

lemma service_member_handlers:
  assumes "mongo_spec bad E"
  shows "serves_member E name h \<Longrightarrow> keeps service_inv (h rq)"
  by (induction rule: serves_member.induct; rule keeps_erase, (rule keeps_service_other; rule footprints; simp))

lemma service_catalogue_handlers:
  assumes "mongo_spec bad E"
  shows "serves_catalogue E name h \<Longrightarrow> keeps service_inv (h rq)"
  by (induction rule: serves_catalogue.induct; rule keeps_erase, (rule keeps_service_other; rule footprints; simp))

lemma service_communication_handlers:
  assumes "mongo_spec bad E"
  shows "serves_communication E name h \<Longrightarrow> keeps service_inv (h rq)"
  by (induction rule: serves_communication.induct; rule keeps_erase,
      ((rule keeps_service_other; rule footprints; simp; fail) |
       (unfold communication_writers Let_def, (rule keeps_rules handler_rules [OF assms] service_participation_threads |
         (rule keeps_service_other; rule footprints; simp; fail) | assumption | simp add: document_simps)+)))

lemma keeps_serves: "mongo_spec bad E \<Longrightarrow> serves E path name h \<Longrightarrow> keeps service_inv (h rq)"
  by (erule serves.cases) (auto intro: service_public_handlers service_company_handlers service_speaker_handlers
    service_event_handlers service_team_handlers service_member_handlers service_catalogue_handlers
    service_communication_handlers)

lemma keeps_guarded:
  assumes "\<And>rq. keeps service_inv (h rq)"
  shows "keeps service_inv (guarded E a h rq)"
proof (cases a)
  case (Requires role)
  show ?thesis
    unfolding Requires guarded.simps checkAccessLevelWrapper_def Let_def
    by (rule keeps_rules assms | (rule keeps_service_other; rule footprints; simp; fail))+
qed (simp add: assms)

section \<open>Sequences of requests\<close>

lemma step_keeps: "mongo_spec bad E \<Longrightarrow> step E rq w w' \<Longrightarrow> service_inv w \<Longrightarrow> service_inv w'"
  by (auto elim!: step.cases intro!: keeps_run [OF keeps_guarded] keeps_serves)

lemma CleanupCache_keeps: "service_inv w \<Longrightarrow> service_inv (snd (CleanupCache w))"
  unfolding CleanupCache_def
  by (rule keeps_run) (rule keeps_service_other, (rule keeps_rules footprints | simp)+)

text \<open>
  C1: whatever requests the service is sent, with whatever bodies and tokens, and whatever errors the database
  answers on the way, it keeps its invariant: no two events, companies, speakers, teams or coordination
  teams share an ID, no company and no speaker takes part in an event twice, and no team and no coordination
  team lists a member twice.
\<close>

theorem requests_keep_invariant:
  assumes "mongo_spec bad E" and "requests E rqs w w'" and "service_inv w"
  shows "service_inv w'"
  using assms(2,3) by (induction rule: requests.induct) (auto intro: step_keeps [OF assms(1)] CleanupCache_keeps)

theorem requests_keep_invariant_witness:
  "service_inv (snd (guarded local_env (Requires RoleCoordinator) (erase (deleteCompany local_env))
     (request_with ''token'') staff_world))"
proof -
  have step: "step local_env (request_with ''token'') staff_world
      (snd (guarded local_env (access_of (DELETE, [Var ''id''], Requires RoleCoordinator, ''deleteCompany''))
         (erase (deleteCompany local_env)) (request_with ''token'') staff_world))"
    by (rule step.intros [of "''companies''" companyRouter])
      (simp_all add: subrouters_def companyRouter_def request_with_def serves.simps serves_company.simps)
  have "service_inv staff_world"
    by (simp add: service_inv_def company_inv_def speaker_inv_def team_inv_def coordination_inv_def event_inv_def
        staff_world_def team_of_def)
  from requests_keep_invariant [OF local_env_up requests.intros(2) [OF step requests.intros(1)] this]
  show ?thesis by simp
qed

end
