(* ===== verification/ContractProperties.thy ===== *)
theory ContractProperties
  imports ContractHandlers CompanyProperties
begin

text \<open>Properties of the contracts: which template is taken, what the file is called, what a contract rests on.\<close>

section \<open>Languages\<close>

text \<open>The words of a name: its longest runs of letters, digits and underscores.\<close>

fun words_from :: "string \<Rightarrow> string \<Rightarrow> string list" where
  "words_from w [] = [w]"
| "words_from w (c # cs) = (if is_word c then words_from (w @ [c]) cs else w # words_from [] cs)"

abbreviation words_of :: "string \<Rightarrow> string list" where
  "words_of s \<equiv> words_from [] s"

lemma words_from_nonempty [simp]: "words_from w s \<noteq> []"
  by (induction s arbitrary: w) auto

lemma hd_words_from: "hd (words_from w s) = w @ takeWhile is_word s"
  by (induction s arbitrary: w) auto

lemma tl_words_from: "tl (words_from w s) = tl (words_from v s)"
  by (induction s arbitrary: v w) auto

lemma prefix_takeWhile:
  assumes "\<forall>c \<in> set w. P c"
  shows "HasPrefix s w \<and> (case drop (length w) s of [] \<Rightarrow> True | c # _ \<Rightarrow> \<not> P c) \<longleftrightarrow> takeWhile P s = w"
proof (intro iffI)
  assume *: "HasPrefix s w \<and> (case drop (length w) s of [] \<Rightarrow> True | c # _ \<Rightarrow> \<not> P c)"
  then obtain r where s: "s = w @ r" by (auto simp: HasPrefix_prefix prefix_def)
  with * have "takeWhile P r = []" by (cases r) auto
  with s assms show "takeWhile P s = w" by simp
next
  assume w: "takeWhile P s = w"
  then have s: "s = w @ dropWhile P s" by (metis takeWhile_dropWhile_id)
  then have "drop (length w) s = dropWhile P s" by (metis append_eq_conv_conj)
  moreover have "HasPrefix s w" using s by (metis HasPrefix_append)
  moreover have "\<not> P c" if "dropWhile P s = c # cs" for c cs
    using that hd_dropWhile [of P s] by auto
  ultimately show "HasPrefix s w \<and> (case drop (length w) s of [] \<Rightarrow> True | c # _ \<Rightarrow> \<not> P c)"
    by (auto split: list.split)
qed

definition plain_words :: "string list \<Rightarrow> bool" where
  "plain_words ws \<longleftrightarrow> (\<forall>w \<in> set ws. w \<noteq> [] \<and> (\<forall>c \<in> set w. is_word c))"

definition after_word :: "char option \<Rightarrow> bool" where
  "after_word prev \<longleftrightarrow> (case prev of None \<Rightarrow> False | Some c \<Rightarrow> is_word c)"

lemma word_here_iff:
  assumes "plain_words ws"
  shows "word_here ws prev s \<longleftrightarrow> \<not> after_word prev \<and> takeWhile is_word s \<in> set ws"
proof -
  have "HasPrefix s w \<and> boundary prev (first_char s) \<and>
      boundary (if w = [] then prev else Some (last w)) (first_char (drop (length w) s)) \<longleftrightarrow>
      \<not> after_word prev \<and> takeWhile is_word s = w" if "w \<in> set ws" for w
  proof -
    from that assms have w: "w \<noteq> []" "\<forall>c \<in> set w. is_word c" "is_word (last w)"
      by (auto simp: plain_words_def)
    have "boundary prev (first_char s) \<longleftrightarrow> \<not> after_word prev" if "HasPrefix s w"
      using that w by (cases w; cases s) (auto simp: boundary_def first_char_def after_word_def HasPrefix_def)
    moreover have "boundary (Some (last w)) (first_char r) \<longleftrightarrow> (case r of [] \<Rightarrow> True | c # _ \<Rightarrow> \<not> is_word c)" for r
      using w(3) by (cases r) (simp_all add: boundary_def first_char_def)
    ultimately show ?thesis
      using w(1) prefix_takeWhile [OF w(2), of s] by (simp only: if_False) blast
  qed
  then show ?thesis by (auto simp: word_here_def)
qed

lemma match_word_iff:
  assumes "plain_words ws"
  shows "match_word ws prev s \<longleftrightarrow>
    (\<exists>w \<in> set (if after_word prev then tl (words_of s) else words_of s). w \<in> set ws)"
proof (induction s arbitrary: prev)
  case Nil
  with assms show ?case by (auto simp: word_here_iff plain_words_def)
next
  case (Cons c cs)
  have next_word: "after_word (Some c) = is_word c" by (simp add: after_word_def)
  have split: "set (words_of (c # cs)) = insert (takeWhile is_word (c # cs)) (set (tl (words_of (c # cs))))"
    by (metis append_Nil hd_words_from list.collapse list.simps(15) words_from_nonempty)
  have "tl (words_of (c # cs)) = (if is_word c then tl (words_of cs) else words_of cs)"
    using tl_words_from [of "[c]" cs "[]"] by simp
  then have later: "match_word ws (Some c) cs \<longleftrightarrow> (\<exists>w \<in> set (tl (words_of (c # cs))). w \<in> set ws)"
    using Cons [of "Some c"] by (simp only: next_word)
  show ?case
    unfolding match_word.simps word_here_iff [OF assms] later by (cases "after_word prev")
      (simp_all del: words_from.simps takeWhile.simps add: split)
qed

text \<open>
  C36: a template is taken for a language if and only if one of the words of its name, its longest runs of letters,
  digits and underscores, is one of the names of the language. So a name that joins the language to the rest by an
  underscore, such as \<open>contract_en\<close>, is of no language.
\<close>

theorem template_language:
  "(in_language ''en'' t = (\<exists>w \<in> set (words_of (ToLower (te_Name t))). w \<in> {''en'', ''english'', ''ingles''})) \<and>
   (in_language ''pt'' t = (\<exists>w \<in> set (words_of (ToLower (te_Name t))).
      w \<in> {''pt'', ''pt_pt'', ''ptbr'', ''pt_br'', ''portuguese'', ''portugues''}))"
  by (rule conjI; simp only: in_language_def reEn_def rePt_def Let_def ToLower_idem)
    (subst match_word_iff; simp add: plain_words_def is_word_def letters_def upper_letters_def lower_letters_def after_word_def)+

section \<open>The name of the file\<close>

lemma file_char_dash: "file_char (CHR ''-'')"
  by (simp add: file_char_def)

lemma dash_runs_chars: "c \<in> set (dash_runs b s) \<Longrightarrow> file_char c"
  by (induction s arbitrary: b) (auto simp: file_char_dash split: if_splits)

lemma dash_runs_id: "\<forall>c \<in> set s. file_char c \<Longrightarrow> dash_runs b s = s"
  by (induction s arbitrary: b) auto

definition trimmed :: "(char \<Rightarrow> bool) \<Rightarrow> string \<Rightarrow> string" where
  "trimmed P s = rev (dropWhile P (rev (dropWhile P s)))"

lemma trimmed_ends:
  assumes "trimmed P s \<noteq> []"
  shows "\<not> P (hd (trimmed P s)) \<and> \<not> P (last (trimmed P s))"
proof -
  define t where "t = dropWhile P s"
  define r where "r = dropWhile P (rev t)"
  have trim: "trimmed P s = rev r" by (simp add: trimmed_def t_def r_def)
  then have r: "r \<noteq> []" using assms by simp
  then have t: "t \<noteq> []" by (auto simp: r_def)
  have "\<not> P (hd r)" using r unfolding r_def by (rule hd_dropWhile)
  moreover have "last r = hd t" using r t dropWhile_last [of P "rev t"] by (simp add: r_def last_rev)
  moreover have "\<not> P (hd t)" using t unfolding t_def by (rule hd_dropWhile)
  ultimately show ?thesis using r by (simp add: trim hd_rev last_rev)
qed

lemma trimmed_id: "s = [] \<or> \<not> P (hd s) \<and> \<not> P (last s) \<Longrightarrow> trimmed P s = s"
  by (auto simp: trimmed_def dropWhile_hd hd_rev)

lemma trimmed_chars: "c \<in> set (trimmed P s) \<Longrightarrow> c \<in> set s"
  by (auto simp: trimmed_def dest!: set_dropWhileD)

lemma trimmed_Nil: "trimmed P s = [] \<longleftrightarrow> (\<forall>c \<in> set s. P c)"
proof -
  have "set s = set (takeWhile P s) \<union> set (dropWhile P s)"
    by (metis set_append takeWhile_dropWhile_id)
  then show ?thesis by (auto simp: trimmed_def dest: set_takeWhileD)
qed

lemma sanitizeFilename_trimmed:
  "sanitizeFilename name = (if name = [] then ''contract'' else trimmed is_dash (dash_runs False name))"
  by (simp add: sanitizeFilename_def trimmed_def)

lemma sanitizeFilename_chars: "c \<in> set (sanitizeFilename name) \<Longrightarrow> file_char c"
  by (auto simp: sanitizeFilename_trimmed dest!: trimmed_chars dash_runs_chars split: if_splits)
    (simp_all add: file_char_def letters_def lower_letters_def)

lemma dash_runs_dashes:
  "(\<forall>c \<in> set (dash_runs b s). is_dash c) \<longleftrightarrow> (\<forall>c \<in> set s. file_char c \<longrightarrow> is_dash c)"
  by (induction s arbitrary: b) (auto simp: is_dash_def)

text \<open>
  C37: the name given to a file has only letters, digits, dashes and underscores, so that it cannot break out of the
  header it is put in, and neither begins nor ends with one of the last two; and a name made so is left as it is
  when it is sanitized again. Nothing is left of a name without a letter or digit, for which no default is given.
\<close>

theorem sanitizeFilename_safe:
  "(\<forall>c \<in> set (sanitizeFilename name). file_char c) \<and>
   (\<forall>s. sanitizeFilename name = s \<and> s \<noteq> [] \<longrightarrow>
     \<not> is_dash (hd s) \<and> \<not> is_dash (last s) \<and> sanitizeFilename s = s) \<and>
   (sanitizeFilename name = [] \<longleftrightarrow> name \<noteq> [] \<and> (\<forall>c \<in> set name. file_char c \<longrightarrow> is_dash c))"
proof (intro conjI allI impI)
  show "\<forall>c \<in> set (sanitizeFilename name). file_char c" by (simp add: sanitizeFilename_chars)
  show "sanitizeFilename name = [] \<longleftrightarrow> name \<noteq> [] \<and> (\<forall>c \<in> set name. file_char c \<longrightarrow> is_dash c)"
    by (simp add: sanitizeFilename_trimmed trimmed_Nil dash_runs_dashes)
  fix s assume s: "sanitizeFilename name = s \<and> s \<noteq> []"
  have "\<not> is_dash (hd s) \<and> \<not> is_dash (last s)"
  proof (cases "name = []")
    case True
    with s show ?thesis by (auto simp: sanitizeFilename_def is_dash_def)
  next
    case False
    with s show ?thesis using trimmed_ends [of is_dash "dash_runs False name"] by (simp add: sanitizeFilename_trimmed)
  qed
  moreover from this s have "sanitizeFilename s = s"
    by (auto simp: sanitizeFilename_trimmed [of s] sanitizeFilename_chars dash_runs_id trimmed_id)
  ultimately show "\<not> is_dash (hd s)" "\<not> is_dash (last s)" "sanitizeFilename s = s" by auto
qed

lemma sanitizeFilename_run: "sanitizeFilename ''../a b; c'' \<noteq> []"
  by code_simp

theorem sanitizeFilename_safe_witness:
  "list_all file_char (sanitizeFilename ''../a b; c'') \<and> \<not> is_dash (hd (sanitizeFilename ''../a b; c'')) \<and>
   sanitizeFilename (sanitizeFilename ''../a b; c'') = sanitizeFilename ''../a b; c''"
  using sanitizeFilename_safe [of "''../a b; c''"] sanitizeFilename_run unfolding list_all_iff by blast

section \<open>The price\<close>

lemma digits_value_append:
  "digits_value m (s @ t) = (case digits_value m s of None \<Rightarrow> None | Some k \<Rightarrow> digits_value k t)"
  by (induction m s rule: digits_value.induct) auto

lemma digits_value_digit: "k < 10 \<Longrightarrow> digits_value m [''0123456789'' ! k] = Some (10 * m + int k)"
  by (auto simp: less_Suc_eq numeral_eq_Suc)

lemma digits_value_of: "digits_value 0 (digits_of n) = Some (int n)"
proof (induction n rule: digits_of.induct)
  case (1 n)
  show ?case
  proof (cases "n < 10")
    case True
    then show ?thesis by (simp only: digits_of.simps [of n] if_True digits_value_digit) simp
  next
    case False
    have "digits_value (int (n div 10)) [''0123456789'' ! (n mod 10)] = Some (10 * int (n div 10) + int (n mod 10))"
      by (rule digits_value_digit) simp
    also have "10 * int (n div 10) + int (n mod 10) = int n" by (simp add: zdiv_int zmod_int)
    finally show ?thesis
      using False 1 [OF False] by (simp only: digits_of.simps [of n] if_False digits_value_append option.case)
  qed
qed

lemma format_02d:
  assumes "0 \<le> n" and "n < 100"
  shows "length (format_02d n) = 2" and "digits_value 0 (format_02d n) = Some n"
proof -
  have small: "digits_of k = [''0123456789'' ! k]" if "k < 10" for k
    using that by (simp only: digits_of.simps [of k] if_True)
  have "length (digits_of (nat n)) = 2" if "\<not> n < 10"
  proof -
    have "\<not> nat n < 10" "nat n div 10 < 10" using that assms by linarith+
    then show ?thesis by (simp only: digits_of.simps [of "nat n"] if_False small) simp
  qed
  moreover have "length (digits_of (nat n)) = 1" if "n < 10"
    using that assms by (simp add: small)
  ultimately show "length (format_02d n) = 2" using assms by (simp add: format_02d_def format_d_def)
  show "digits_value 0 (format_02d n) = Some n"
    using assms digits_value_of [of "nat n"] by (simp add: format_02d_def format_d_def)
qed

text \<open>
  The price in a contract, in euros with two digits for the cents, reads back as the price stored.
\<close>

theorem packagePrice_reads_back:
  assumes "0 \<le> price"
  shows "\<exists>euros cents. packagePrice price = euros @ ''.'' @ cents @ [CHR 0xE2, CHR 0x82, CHR 0xAC] \<and> length cents = 2 \<and>
     (\<exists>e c. digits_value 0 euros = Some e \<and> digits_value 0 cents = Some c \<and> 100 * e + c = price)"
proof -
  have "sgn price * (\<bar>price\<bar> div 100) = price div 100" "sgn price * (\<bar>price\<bar> mod 100) = price mod 100"
    using assms by (cases "price = 0"; simp)+
  then have "packagePrice price = format_d (price div 100) @ ''.'' @ format_02d (price mod 100) @ [CHR 0xE2, CHR 0x82, CHR 0xAC]"
    by (simp add: packagePrice_def)
  moreover have "digits_value 0 (format_d (price div 100)) = Some (price div 100)"
    using assms digits_value_of [of "nat (price div 100)"] by (simp add: format_d_def div_int_pos_iff not_less)
  moreover have "length (format_02d (price mod 100)) = 2" "digits_value 0 (format_02d (price mod 100)) = Some (price mod 100)"
    by (rule format_02d; simp)+
  moreover have "100 * (price div 100) + price mod 100 = price" by simp
  ultimately show ?thesis by blast
qed

theorem packagePrice_reads_back_witness:
  "\<exists>euros cents. packagePrice 150005 = euros @ ''.'' @ cents @ [CHR 0xE2, CHR 0x82, CHR 0xAC] \<and> length cents = 2 \<and>
     (\<exists>e c. digits_value 0 euros = Some e \<and> digits_value 0 cents = Some c \<and> 100 * e + c = 150005)"
  by (rule packagePrice_reads_back) simp

section \<open>The contract\<close>

lemma wp_recovering [simp]:
  "wp (recovering m) Q R w = wp m Q (\<lambda>e v. case e of Panic _ \<Rightarrow> Q (Failure 500 ''internal server error'') v | _ \<Rightarrow> R e v) w"
  by (simp add: wp_def recovering_def split: prod.split sum.split err.split)

lemma wp_contract_package:
  assumes "mongo_spec bad E"
    and "\<And>name price v. contents v = contents w \<Longrightarrow>
      (name \<noteq> [] \<Longrightarrow> \<exists>p pkg. find (\<lambda>p. cp_Event p = eventID) ps = Some p \<and> cp_Package p = Some (pk_ID pkg) \<and>
        pkg \<in> set (w_packages w) \<and> name = pk_Name pkg \<and> price = packagePrice (pk_Price pkg)) \<Longrightarrow> Q (name, price) v"
  shows "wp (contract_package E eventID ps) Q R w"
  using assms(2)
proof (induction ps)
  case (Cons p ps)
  show ?case
  proof (cases "cp_Event p = eventID")
    case True
    then show ?thesis
    proof (cases "cp_Package p")
      case (Some i)
      with True show ?thesis
        by (simp add: Packages_GetPackage_def)
          (rule wp_FindOne [OF mongo_drv(8) [OF assms(1)]], auto intro!: Cons.prems dest: mongo_spec_aborts [OF assms(1)])
    qed (simp add: Cons.prems)
  next
    case False
    then show ?thesis using Cons.IH Cons.prems by simp
  qed
qed simp

text \<open>A contract for a company: filled from the template with the package of its first participation in the event.\<close>

definition filled_for ::
  "'d docxTools \<Rightarrow> (string \<Rightarrow> err + nat \<times> (err + string)) \<Rightarrow> world \<Rightarrow> company \<Rightarrow> int \<Rightarrow> template \<Rightarrow> contract \<Rightarrow> bool" where
  "filled_for D http_get w company ev t f \<longleftrightarrow>
     (\<exists>status b p pkg. te_Url t \<noteq> [] \<and> http_get (te_Url t) = Inr (status, Inr b) \<and> status < 400 \<and>
       find (\<lambda>p. cp_Event p = ev) (co_Participations company) = Some p \<and>
       pkg \<in> set (w_packages w) \<and> cp_Package p = Some (pk_ID pkg) \<and> pk_Name pkg \<noteq> [] \<and>
       replaceDocxPlaceholders D b (replacements company (pk_Name pkg) (packagePrice (pk_Price pkg)))
         (replacementsPlain company (pk_Name pkg) (packagePrice (pk_Price pkg))) = Inr (ctr_bytes f) \<and>
       ctr_filename f = ''contract-'' @ sanitizeFilename (contract_name company) @ ''.docx'')"

lemma filled_for_tick [simp]: "filled_for D http_get (tickw w) = filled_for D http_get w"
  by (simp add: filled_for_def fun_eq_iff)

lemma wp_fill_contract:
  assumes "mongo_spec bad E"
    and "\<And>v r. contents v = contents w \<Longrightarrow> (\<And>f. r = Reply f \<Longrightarrow> filled_for D http_get w company ev t f) \<Longrightarrow> Q r v"
    and "\<And>v e. contents v = contents w \<Longrightarrow> aborts e \<Longrightarrow> R e v"
  shows "wp (fill_contract D http_get E company ev t) Q R w"
proof (cases "te_Url t = []")
  case True
  then show ?thesis by (auto simp: fill_contract_def intro!: assms(2))
next
  case url: False
  show ?thesis
  proof (cases "http_get (te_Url t)")
    case (Inl e)
    with url show ?thesis by (auto simp: fill_contract_def intro!: assms(2))
  next
    case (Inr answer)
    obtain status body where answer: "answer = (status, body)" by force
    show ?thesis
    proof (cases body)
      case (Inl e)
      with url Inr answer show ?thesis by (auto simp: fill_contract_def intro!: assms(2))
    next
      case b: (Inr b)
      note unfolded = fill_contract_def url Inr answer b orFail_def
      show ?thesis
      proof (cases "status < 400")
        case True
        show ?thesis
          using True
          by (simp add: unfolded, intro wp_contract_package [OF assms(1)])
            (auto intro!: assms(2,3) split: sum.split simp: orFail_def filled_for_def url Inr answer b True; blast)
      next
        case False
        then show ?thesis by (auto simp: unfolded intro!: assms(2))
      qed
    qed
  qed
qed


definition contract_template :: "world \<Rightarrow> int \<Rightarrow> string \<Rightarrow> template \<Rightarrow> bool" where
  "contract_template w ev lang t \<longleftrightarrow> lang \<in> {''en'', ''pt''} \<and> ev \<noteq> 0 \<and>
     filter (\<lambda>t. te_Event t = ev \<and> is_contract t \<and> in_language lang t) (w_templates w) = [t]"

lemma mset_filter_single:
  assumes "mset xs = mset (filter P ys)" and "filter Q (filter R xs) = [x]"
  shows "filter (\<lambda>y. P y \<and> R y \<and> Q y) ys = [x]"
proof -
  have "mset (filter (\<lambda>y. P y \<and> R y \<and> Q y) ys) = filter_mset Q (filter_mset R (mset (filter P ys)))"
    by (simp add: filter_filter_mset conj_ac)
  also have "\<dots> = mset (filter Q (filter R xs))"
    unfolding assms(1) [symmetric] by (simp only: mset_filter)
  finally have "mset (filter (\<lambda>y. P y \<and> R y \<and> Q y) ys) = mset [x]"
    by (simp only: assms(2))
  then show ?thesis by (simp only: mset.simps mset_single_iff)
qed

lemma wp_candidates:
  assumes "\<And>t. filter Q' (filter P' ts) = [t] \<Longrightarrow> wp (k t) Q R v" and "\<And>status msg. Q (Failure status msg) v"
  shows "wp (if filter P' ts = [] then retE (Failure s1 m1)
      else case filter Q' (filter P' ts) of
        [] \<Rightarrow> retE (Failure s2 m2) | _ # _ # _ \<Rightarrow> retE (Failure s3 m3) | [t] \<Rightarrow> k t) Q R v"
  using assms by (auto split: list.split)

lemma wp_if: "(b \<Longrightarrow> wp m Q R s) \<Longrightarrow> (\<not> b \<Longrightarrow> wp n Q R s) \<Longrightarrow> wp (if b then m else n) Q R s"
  by simp

lemma wp_onErrI:
  "wp m (\<lambda>a. wp (k a) Q R) (\<lambda>e s. if aborts e then R e s else wp (h e) Q R s) s \<Longrightarrow> wp (onErr m h k) Q R s"
  by simp

text \<open>
  C35: asking for the contract of a company changes nothing, and a contract is given only if the request names
  an event and a language, English or Portuguese, for which exactly one template of the kind is stored, whose file
  could be fetched; it is that file, filled with the billing data of the company and with the name and the price of
  the package of its first participation in the event, under a name made safe.
\<close>

theorem contract_correct:
  assumes "mongo_spec bad E" and "env_fromHex E (rq_vars rq ''id'') = Inr i"
  shows "wp (generateCompanyContractDocx D http_get E req rq)
    (\<lambda>r v. contents v = contents w \<and> (\<forall>f. r = Reply f \<longrightarrow>
       (\<exists>company t. company \<in> set (w_companies w) \<and> co_ID company = i \<and>
          contract_template w (crq_EventID req) (ToLower (TrimSpace (crq_Language req))) t \<and>
          filled_for D http_get w company (crq_EventID req) t f)))
    (\<lambda>e v. contents v = contents w \<and> aborts e) w"
proof -
  define Q where "Q r v \<longleftrightarrow> contents v = contents w \<and> (\<forall>f. r = Reply f \<longrightarrow>
       (\<exists>company t. company \<in> set (w_companies w) \<and> co_ID company = i \<and>
          contract_template w (crq_EventID req) (ToLower (TrimSpace (crq_Language req))) t \<and>
          filled_for D http_get w company (crq_EventID req) t f))" for r v
  have failed: "Q (Failure status msg) v" if "contents v = contents w" for status msg v
    using that by (simp add: Q_def)
  have aborted: "case e of Panic _ \<Rightarrow> Q (Failure 500 ''internal server error'') v | _ \<Rightarrow> contents v = contents w \<and> aborts e"
    if "contents v = contents w" "aborts e" for e v
    using that by (cases e) (simp_all add: failed)
  have "wp (generateCompanyContractDocx D http_get E req rq) Q (\<lambda>e v. contents v = contents w \<and> aborts e) w"
    unfolding generateCompanyContractDocx_def wp_recovering assms(2) sum.case orFail_def Companies_GetCompany_def
      Templates_GetTemplates_def Let_def
  proof ((rule wp_candidates wp_fill_contract [OF assms(1)] | rule wp_if wp_onErrI wp_FindOne [OF mongo_drv(1) [OF assms(1)]]
        wp_Find [OF mongo_drv(18) [OF assms(1)]] | (simp add: failed aborted; fail))+, goal_cases)
    case (1 company ts t v r)
    have "templates_filter E \<lparr>gtp_EventID = Some (crq_EventID req), gtp_Name = None\<rparr> = (\<lambda>t. te_Event t = crq_EventID req)"
      using 1(4) by (auto simp: templates_filter_def)
    with 1 mset_filter_single [OF 1(7,8)] show ?case
      unfolding Q_def contract_template_def by simp blast
  next
    case (5 e)
    then show ?case by (auto simp: failed mongo_spec_aborts [OF assms(1)])
  qed (auto simp: failed mongo_spec_aborts [OF assms(1)] aborted)
  then show ?thesis unfolding Q_def .
qed

text \<open>A company with a package in event 1, and an English template; the document is the text of what is put in.\<close>

definition contract_world :: world where
  "contract_world = (sample_world Accepted)\<lparr>
     w_companies := [(sample_company Accepted)\<lparr>co_Participations := [(new_participation 1 7 False)\<lparr>cp_Package := Some 6\<rparr>]\<rparr>],
     w_packages := [\<lparr>pk_ID = 6, pk_Name = ''Gold'', pk_Items = [], pk_Price = 150005, pk_VAT = 23\<rparr>],
     w_templates := [\<lparr>te_ID = 5, te_Name = ''contract en'', te_Url = ''u'', te_Event = 1, te_Requirements = [],
       te_Kind = ''companyContract''\<rparr>]\<rparr>"

definition plain_tools :: "string docxTools" where
  "plain_tools = \<lparr>dt_TempFile = None, dt_Write = None, dt_Close = None, dt_missing = None,
     dt_ReadDocxFile = Inr, dt_Replace = (\<lambda>k v d. if k = d then v else d), dt_range = (\<lambda>xs. xs), dt_WriteToFile = Inr, dt_ReadFile = Inr\<rparr>"

definition contract_request :: request where
  "contract_request = \<lparr>rq_Authorization = [], rq_vars = (\<lambda>_. ''aaaa''), rq_query = (\<lambda>_. []), rq_credentials = None\<rparr>"

abbreviation contract_asked :: "(err + contract reply) \<times> world" where
  "contract_asked \<equiv> generateCompanyContractDocx plain_tools (\<lambda>_. Inr (200, Inr ''{{packagePrice}}'')) local_env
     \<lparr>crq_Language = '' EN'', crq_EventID = 1\<rparr> contract_request contract_world"

lemma contract_asked_run:
  "fst contract_asked = Inr (Reply \<lparr>ctr_filename = ''contract-c.docx'',
     ctr_bytes = ''1500.05'' @ [CHR 0xE2, CHR 0x82, CHR 0xAC]\<rparr>)"
  by code_simp

theorem contract_correct_witness:
  "\<exists>company t. company \<in> set (w_companies contract_world) \<and> contract_template contract_world 1 ''en'' t \<and>
     filled_for plain_tools (\<lambda>_. Inr (200, Inr ''{{packagePrice}}'')) contract_world company 1 t
       \<lparr>ctr_filename = ''contract-c.docx'', ctr_bytes = ''1500.05'' @ [CHR 0xE2, CHR 0x82, CHR 0xAC]\<rparr>"
proof -
  have "env_fromHex local_env (rq_vars contract_request ''id'') = Inr 4"
    by (simp add: local_env_def contract_request_def)
  note correct = contract_correct [OF local_env_up this, of plain_tools "\<lambda>_. Inr (200, Inr ''{{packagePrice}}'')"
      "\<lparr>crq_Language = '' EN'', crq_EventID = 1\<rparr>" contract_world]
  have "ToLower (TrimSpace '' EN'') = ''en''" by code_simp
  with wp_Inr [OF correct, of _ "snd contract_asked"] contract_asked_run show ?thesis
    by (metis contractRequest.simps(1,2) prod.collapse)
qed

end
