(* ===== verification/OAuthProperties.thy ===== *)
theory OAuthProperties
  imports OAuth HttpProperties
begin

text \<open>Where the login sends whom: the address a state leads to, and who is given a token on the way.\<close>

section \<open>Where a state leads\<close>

text \<open>An address without its last slash.\<close>

definition unslashed :: "string \<Rightarrow> string" where
  "unslashed p = (if p \<noteq> [] \<and> last p = CHR ''/'' then butlast p else p)"

definition plain :: "string \<Rightarrow> bool" where
  "plain p \<longleftrightarrow> CHR ''|'' \<notin> set p \<and> CHR 0x0A \<notin> set p"

lemma plain_simps [simp]: "plain []" "plain (c # p) \<longleftrightarrow> c \<noteq> CHR ''|'' \<and> c \<noteq> CHR 0x0A \<and> plain p"
  by (auto simp: plain_def)

lemma unslashed_simps [simp]:
  "unslashed [] = []" "unslashed (a @ [c]) = (if c = CHR ''/'' then a else a @ [c])"
  "unslashed [c] = (if c = CHR ''/'' then [] else [c])"
  by (simp_all add: unslashed_def)

lemma unslashed_Cons: "p \<noteq> [] \<Longrightarrow> unslashed (c # p) = c # unslashed p"
  by (simp add: unslashed_def)

lemma unslashed_append: "p \<noteq> [] \<Longrightarrow> unslashed (a @ p) = a @ unslashed p"
  by (simp add: unslashed_def butlast_append)

lemma shortest_url_end: "plain p \<Longrightarrow> shortest url_end r (p @ CHR ''|'' # s) = Some (r @ unslashed p)"
proof (induction p arbitrary: r)
  case Nil
  then show ?case by (simp add: url_end_def HasPrefix_def)
next
  case (Cons c p)
  then show ?case by (cases p) (auto simp: url_end_def HasPrefix_def unslashed_Cons)
qed

definition sinfo_path :: "string \<Rightarrow> bool" where
  "sinfo_path b \<longleftrightarrow> b = [] \<or> hd b = CHR ''/''"

lemma sinfo_host_here:
  assumes "plain b" and "sinfo_path b"
  shows "sinfo_host r (''sinfo.org'' @ b @ CHR ''|'' # s) = Some (r @ unslashed (''sinfo.org'' @ b))"
proof (cases b)
  case Nil
  then show ?thesis by (simp add: sinfo_host_def url_end_def HasPrefix_def unslashed_def)
next
  case (Cons c p)
  with assms have c: "c = CHR ''/''" and p: "plain p" by (auto simp: sinfo_path_def)
  show ?thesis
  proof (cases p)
    case Nil
    with Cons c show ?thesis by (simp add: sinfo_host_def url_end_def HasPrefix_def unslashed_def)
  next
    case p': Cons
    then have "unslashed (''sinfo.org'' @ b) = ''sinfo.org/'' @ unslashed p"
      using Cons c by (simp add: unslashed_Cons)
    moreover have "url_end (r @ ''sinfo.org'') (b @ CHR ''|'' # s) = None"
      using Cons c p p' by (auto simp: url_end_def HasPrefix_def)
    ultimately show ?thesis
      using Cons c shortest_url_end [OF p, of "r @ ''sinfo.org/''" s]
      by (simp add: sinfo_host_def HasPrefix_def)
  qed
qed


lemma HasPrefix_plain:
  assumes "plain t" and "CHR ''|'' \<notin> set p"
  shows "HasPrefix (t @ CHR ''|'' # s) p \<longleftrightarrow> (\<exists>b. t = p @ b)"
proof
  assume "HasPrefix (t @ CHR ''|'' # s) p"
  then obtain q where "t @ CHR ''|'' # s = p @ q" by (auto simp: HasPrefix_prefix prefix_def)
  then obtain us where "t = p @ us \<or> p = t @ us \<and> CHR ''|'' # s = us @ q"
    by (auto simp: append_eq_append_conv2)
  with assms(2) show "\<exists>b. t = p @ b" by (cases us) auto
qed (auto simp: HasPrefix_prefix)

lemma sinfo_host_not_here:
  assumes "plain t" and "\<not> (\<exists>b. t = ''sinfo.org'' @ b \<and> sinfo_path b)"
  shows "sinfo_host r (t @ CHR ''|'' # s) = None"
proof (cases "HasPrefix (t @ CHR ''|'' # s) ''sinfo.org''")
  case True
  then obtain b where t: "t = ''sinfo.org'' @ b" using HasPrefix_plain [OF assms(1)] by auto
  with assms obtain c p where "b = c # p" "c \<noteq> CHR ''/''" "c \<noteq> CHR ''|''"
    by (cases b) (auto simp: sinfo_path_def)
  with t show ?thesis by (simp add: sinfo_host_def url_end_def HasPrefix_def)
qed (simp add: sinfo_host_def)

lemma shortest_sinfo_host:
  assumes "plain t" and "t = a @ ''sinfo.org'' @ b" and "sinfo_path b"
  shows "shortest sinfo_host r (t @ CHR ''|'' # s) = Some (r @ unslashed t)"
  using assms
proof (induction t arbitrary: r a)
  case (Cons c t)
  show ?case
  proof (cases "\<exists>b. c # t = ''sinfo.org'' @ b \<and> sinfo_path b")
    case True
    then obtain b' where "c # t = ''sinfo.org'' @ b'" "sinfo_path b'" by blast
    with Cons.prems(1) have "sinfo_host r (c # t @ CHR ''|'' # s) = Some (r @ unslashed (c # t))"
      using sinfo_host_here [of b' r s] by (metis append.assoc append_Cons plain_def UnCI set_append)
    then show ?thesis by simp
  next
    case False
    with Cons.prems(2,3) obtain a' where a: "a = c # a'" by (cases a) auto
    then have t: "t = a' @ ''sinfo.org'' @ b" using Cons.prems(2) by simp
    have "sinfo_host r (c # t @ CHR ''|'' # s) = None"
      using sinfo_host_not_here [OF Cons.prems(1) False, of r s] by simp
    moreover have "unslashed (c # t) = c # unslashed t" by (rule unslashed_Cons) (simp add: t)
    ultimately show ?thesis
      using Cons.IH [of a' "r @ [c]"] Cons.prems(1,3) t by simp
  qed
qed simp

text \<open>
  C32: the login returns where it was asked from. The state made for an address without a bar or a line break
  leads back to that address, without its last slash; in production the address has to name \<^verbatim>\<open>sinfo.org\<close>,
  at the end or before a slash.
\<close>

theorem login_returns:
  assumes "plain url" and "production \<Longrightarrow> \<exists>a b. url = a @ ''sinfo.org'' @ b \<and> sinfo_path b"
  shows "URLRegexCompiler production (li_State (Login AuthCodeURL random url)) = Some (unslashed url)"
proof (cases production)
  case True
  then obtain a b where "url = a @ ''sinfo.org'' @ b" "sinfo_path b" using assms(2) by blast
  with assms(1) True show ?thesis
    using shortest_sinfo_host [OF assms(1), of a b "[]" random]
    by (simp add: Login_def Let_def generateStateOauthCookie_def URLRegexCompiler_def)
next
  case False
  then show ?thesis
    using shortest_url_end [OF assms(1), of "[]" random]
    by (simp add: Login_def Let_def generateStateOauthCookie_def URLRegexCompiler_def)
qed

theorem login_returns_witness:
  "URLRegexCompiler True (li_State (Login id ''rnd'' ''https://deck.sinfo.org/login/'')) = Some ''https://deck.sinfo.org/login''"
proof -
  have "URLRegexCompiler True (li_State (Login id ''rnd'' ''https://deck.sinfo.org/login/'')) =
      Some (unslashed ''https://deck.sinfo.org/login/'')"
  proof (rule login_returns)
    show "\<exists>a b. ''https://deck.sinfo.org/login/'' = a @ ''sinfo.org'' @ b \<and> sinfo_path b"
      by (intro exI [of _ "''https://deck.''"] exI [of _ "''/login/''"]) (simp add: sinfo_path_def)
  qed simp
  then show ?thesis by (simp add: unslashed_def)
qed

text \<open>Any host will do in production that has \<^verbatim>\<open>sinfo.org\<close> in the path.\<close>

lemma login_returns_anywhere:
  assumes "plain host"
  shows "URLRegexCompiler True (li_State (Login AuthCodeURL random (''https://'' @ host @ ''/sinfo.org''))) =
    Some (''https://'' @ host @ ''/sinfo.org'')"
  using shortest_sinfo_host [of "''https://'' @ host @ ''/sinfo.org''" "''https://'' @ host @ ''/''" "[]" "[]" random] assms
  by (simp add: Login_def Let_def generateStateOauthCookie_def URLRegexCompiler_def sinfo_path_def plain_def unslashed_def)

lemma shortest_Some: "shortest k r s = Some u \<Longrightarrow> \<exists>p q. k (r @ p) q = Some u"
proof (induction s arbitrary: r)
  case Nil
  then show ?case by (metis append_Nil2 shortest.simps(1))
next
  case (Cons c s)
  show ?case
  proof (cases "k r (c # s)")
    case None
    with Cons.prems have "shortest k (r @ [c]) s = Some u" by (simp split: if_splits)
    from Cons.IH [OF this] show ?thesis by auto
  next
    case (Some v)
    with Cons.prems show ?thesis by (metis append_Nil2 option.simps(5) shortest.simps(2))
  qed
qed

lemma sinfo_host_Some:
  assumes "sinfo_host r s = Some u"
  shows "\<exists>b. u = r @ ''sinfo.org'' @ b \<and> sinfo_path b"
proof -
  let ?path = "drop (length ''sinfo.org'') s"
  consider "url_end (r @ ''sinfo.org'') ?path = Some u"
    | "shortest url_end (r @ ''sinfo.org'' @ ''/'') (drop 1 ?path) = Some u"
    using assms by (auto simp: sinfo_host_def Let_def split: if_splits option.splits)
  then show ?thesis
  proof cases
    case 1
    then have "u = r @ ''sinfo.org'' @ []" by (simp add: url_end_def split: if_splits)
    then show ?thesis by (metis sinfo_path_def)
  next
    case 2
    from shortest_Some [OF 2] obtain p where "u = r @ ''sinfo.org'' @ ''/'' @ p"
      by (auto simp: url_end_def split: if_splits)
    then show ?thesis by (intro exI [of _ "''/'' @ p"]) (simp add: sinfo_path_def)
  qed
qed

lemma URLRegexCompiler_sinfo:
  assumes "URLRegexCompiler True s = Some u"
  shows "\<exists>a b. u = a @ ''sinfo.org'' @ b \<and> sinfo_path b"
proof -
  obtain r where "\<exists>s. shortest sinfo_host r s = Some u"
    using assms by (auto simp: URLRegexCompiler_def split: option.splits if_splits)
  then obtain p q where "sinfo_host (r @ p) q = Some u" using shortest_Some by blast
  from sinfo_host_Some [OF this] obtain b where "u = (r @ p) @ ''sinfo.org'' @ b" "sinfo_path b" by blast
  then show ?thesis by blast
qed

text \<open>
  C33: nobody is sent on with a token but one who comes back with the state of their cookie and whose mail, as Google
  gives it, is that of somebody with a role in the current event; in production the address then names
  \<^verbatim>\<open>sinfo.org\<close>, at the end or before a slash. Nothing changes, and what fails is not answered.
\<close>

theorem callback_guarded:
  assumes "mongo_spec bad E" and "ids_ok w" and "jwt_library E" 
    and "\<forall>t code e. env_userByCode E t code = Inl e \<longrightarrow> \<not> aborts e"
  shows "wp (oauthGoogleCallback E cookie rq)
    (\<lambda>r v. contents v = contents w \<and> (\<forall>rd. r = Reply (Some rd) \<longrightarrow>
       cookie = Inr (rq_query rq ''state'') \<and>
       (\<exists>url token sid cr t. env_userByCode E t (rq_query rq ''code'') = Inr (sid @ ''@sinfo.org'') \<and>
          credentials_given bad w sid cr \<and> (\<exists>until. env_signClaims E cr until = Inr token) \<and>
          rd_URL rd = url @ ''/'' @ token \<and>
          (env_production E \<longrightarrow> (\<exists>a b. url = a @ ''sinfo.org'' @ b \<and> sinfo_path b)))))
    (\<lambda>_ _. False) w"
proof (cases cookie)
  case (Inl e)
  then show ?thesis by (simp add: oauthGoogleCallback_def)
next
  case (Inr state)
  show ?thesis
  proof (cases "URLRegexCompiler (env_production E) state")
    case None
    with Inr show ?thesis by (simp add: oauthGoogleCallback_def)
  next
    case (Some url)
    have url: "env_production E \<longrightarrow> (\<exists>a b. url = a @ ''sinfo.org'' @ b \<and> sinfo_path b)"
      using Some URLRegexCompiler_sinfo by auto
    show ?thesis
    proof (cases "env_userByCode E (w_tick w) (rq_query rq ''code'')")
      case Inl: (Inl e)
      with assms(4) have "\<not> aborts e" by blast
      with Inl Inr Some show ?thesis by (simp add: oauthGoogleCallback_def token_for_def)
    next
      case mail: (Inr mail)
      define K where "K rd \<longleftrightarrow> (\<exists>url token sid cr t. env_userByCode E t (rq_query rq ''code'') = Inr (sid @ ''@sinfo.org'') \<and>
          credentials_given bad w sid cr \<and> (\<exists>until. env_signClaims E cr until = Inr token) \<and>
          rd_URL rd = url @ ''/'' @ token \<and>
          (env_production E \<longrightarrow> (\<exists>a b. url = a @ ''sinfo.org'' @ b \<and> sinfo_path b)))" for rd :: redirect
      have K: "K rd" if "mail = sid @ ''@sinfo.org''" "credentials_given bad w sid cr" "env_signClaims E cr until = Inr s"
        "rd_URL rd = url @ ''/'' @ s" for rd :: redirect and sid cr until s
        unfolding K_def using that mail url by blast
      show ?thesis
        unfolding oauthGoogleCallback_def K_def [symmetric]
        by (simp add: Inr Some mail, intro impI wp_mono [OF wp_token_for [OF assms(1-3), of mail]])
          (auto split: option.splits intro: K)
    qed
  qed
qed

definition callback_request :: request where
  "callback_request = \<lparr>rq_Authorization = [], rq_vars = (\<lambda>_. []),
     rq_query = (\<lambda>v. if v = ''state'' then ''https://deck.sinfo.org/login|rnd'' else ''ann@sinfo.org''), rq_credentials = None\<rparr>"

lemma callback_run:
  "fst (oauthGoogleCallback local_env (Inr ''https://deck.sinfo.org/login|rnd'') callback_request staff_world) =
     Inr (Reply (Some \<lparr>rd_Code = 308, rd_URL = ''https://deck.sinfo.org/login/token'', rd_Cookie = None\<rparr>))"
  by code_simp

theorem callback_guarded_witness:
  "\<exists>sid cr. ''ann@sinfo.org'' = sid @ ''@sinfo.org'' \<and> credentials_given never staff_world sid cr"
proof -
  have "\<forall>t code e. env_userByCode local_env t code = Inl e \<longrightarrow> \<not> aborts e"
    by (simp add: local_env_def)
  note guarded = callback_guarded [where cookie = "Inr ''https://deck.sinfo.org/login|rnd''" and rq = callback_request,
      OF local_env_up staff_world_ids local_jwt this]
  have user: "env_userByCode local_env t (rq_query callback_request ''code'') = Inr ''ann@sinfo.org''" for t
    by (simp add: local_env_def callback_request_def)
  obtain v where run: "oauthGoogleCallback local_env (Inr ''https://deck.sinfo.org/login|rnd'') callback_request staff_world =
      (Inr (Reply (Some \<lparr>rd_Code = 308, rd_URL = ''https://deck.sinfo.org/login/token'', rd_Cookie = None\<rparr>)), v)"
    using callback_run by (metis prod.collapse)
  from wp_Inr [OF guarded run] obtain t sid cr where
    "env_userByCode local_env t (rq_query callback_request ''code'') = Inr (sid @ ''@sinfo.org'')"
    "credentials_given never staff_world sid cr" by blast
  then show ?thesis unfolding user by blast
qed

end
