(* ===== verification/HandlerProperties.thy ===== *)
theory HandlerProperties
  imports ContractProperties CommunicationProperties HandlerFootprints
begin

text \<open>
  Properties of the handlers that no single operation of the data layer has: what a handler undoes when it fails,
  which requests on threads and posts ask for the author, what the listings put together, and how long a filled
  template is given out.
\<close>

section \<open>Who is asked for the author of a thread\<close>

lemma wp_as_author:
  assumes "mongo_spec bad E"
    and "\<And>status msg v. contents v = contents w \<Longrightarrow> status \<in> {StatusNotFound, StatusForbidden} \<Longrightarrow> Q (Failure status msg) v"
    and "\<And>t p v. contents v = contents w \<Longrightarrow> t \<in> set (w_threads w) \<Longrightarrow> th_ID t = i \<Longrightarrow> p \<in> set (w_posts w) \<Longrightarrow>
      po_ID p = th_Entry t \<Longrightarrow> ac_Role cr = RoleAdmin \<or> po_Member p = ac_ID cr \<Longrightarrow> wp k Q R v"
  shows "wp (as_author E cr i k) Q R w"
proof -
  have level: "TeamRole_AccessLevel r = 0 \<longleftrightarrow> r = RoleAdmin" for r by (cases r) auto
  have quiet: "\<not> aborts e" if "bad e \<or> e = ErrNoDocuments \<and> none_matches f ds" for e and f :: "'x \<Rightarrow> bool" and ds
    using that mongo_spec_aborts [OF assms(1)] by auto
  show ?thesis
    unfolding as_author_def orFail_def Threads_GetThread_def Posts_GetPost_def
    by (rule wp_onErrI wp_if wp_FindOne [OF mongo_drv(11) [OF assms(1)]] wp_FindOne [OF mongo_drv(12) [OF assms(1)]])+
      (auto simp: level mongo_spec_aborts [OF assms(1)] intro: assms(2,3))
qed

text \<open>The credentials of a request are an administrator's or those of the author of the first post of the thread it names.\<close>

definition author_or_admin :: "env \<Rightarrow> request \<Rightarrow> world \<Rightarrow> bool" where
  "author_or_admin E rq w \<longleftrightarrow> (\<exists>cr t p. rq_credentials rq = Some cr \<and> t \<in> set (w_threads w) \<and> th_ID t = id_var E rq ''id'' \<and>
     p \<in> set (w_posts w) \<and> po_ID p = th_Entry t \<and> (ac_Role cr = RoleAdmin \<or> po_Member p = ac_ID cr))"

definition own_post_or_admin :: "env \<Rightarrow> request \<Rightarrow> world \<Rightarrow> bool" where
  "own_post_or_admin E rq w \<longleftrightarrow> (\<exists>cr p. rq_credentials rq = Some cr \<and> p \<in> set (w_posts w) \<and> po_ID p = id_var E rq ''id'' \<and>
     (ac_Role cr = RoleAdmin \<or> po_Member p = ac_ID cr))"

lemma wp_all: "wp m (\<lambda>_ _. True) (\<lambda>_ _. True) v"
  by (simp add: wp_def split: prod.split sum.split)

lemma lookup_None_absent: "lookup idf ds k = None \<Longrightarrow> k \<notin> idf ` set ds"
  by (auto simp: lookup_def map_of_eq_None_iff image_image)

text \<open>What a program keeps whose footprint leaves the threads, or the posts, alone.\<close>

lemma keeps_threads: "(\<And>v. keeps (outside (- {ThreadDocs}) v) m) \<Longrightarrow> keeps (\<lambda>v. I (w_threads v)) m"
proof (rule keepsI)
  fix w :: world assume keeps: "\<And>v. keeps (outside (- {ThreadDocs}) v) m" and I: "I (w_threads w)"
  have "wp m (\<lambda>_. outside (- {ThreadDocs}) w) (\<lambda>_. outside (- {ThreadDocs}) w) w"
    by (rule wp_keeps [OF keeps]) simp
  then show "wp m (\<lambda>_ v. I (w_threads v)) (\<lambda>_ v. I (w_threads v)) w"
    by (rule wp_mono) (use I in \<open>auto simp: outside_def dest: spec [of _ ThreadDocs]\<close>)
qed

lemma keeps_posts: "(\<And>v. keeps (outside (- {PostDocs}) v) m) \<Longrightarrow> keeps (\<lambda>v. I (w_posts v)) m"
proof (rule keepsI)
  fix w :: world assume keeps: "\<And>v. keeps (outside (- {PostDocs}) v) m" and I: "I (w_posts w)"
  have "wp m (\<lambda>_. outside (- {PostDocs}) w) (\<lambda>_. outside (- {PostDocs}) w) w"
    by (rule wp_keeps [OF keeps]) simp
  then show "wp m (\<lambda>_ v. I (w_posts v)) (\<lambda>_ v. I (w_posts v)) w"
    by (rule wp_mono) (use I in \<open>auto simp: outside_def dest: spec [of _ PostDocs]\<close>)
qed

lemma wp_thread_gone:
  assumes "mongo_spec bad E" and "\<forall>e. \<not> bad e" and "distinct (map th_ID (w_threads w))"
  shows "wp (Threads_DeleteThread E i) (\<lambda>_ v. i \<notin> th_ID ` set (w_threads v)) (\<lambda>_ v. i \<notin> th_ID ` set (w_threads v)) w"
  unfolding Threads_DeleteThread_def wp_bindE [of "FindOneAndDelete _ _"]
proof (rule wp_keyed_delete [OF threads.keyed_deleteI [OF mongo_drv(11) [OF assms(1)]]], goal_cases)
  case (2 t v)
  then have gone: "i \<notin> th_ID ` set (w_threads v)"
    using contents_eqD(11) [OF 2(2)] by (auto simp: remove_at_def)
  show ?case
    by (rule wp_keeps [where I = "\<lambda>v. i \<notin> th_ID ` set (w_threads v)", OF keeps_threads gone])
      (rule keeps_rules footprints keeps_store | simp)+
next
  case (3 e v)
  then show ?case using assms(2) contents_eqD(11) [OF 3(1)] by (auto dest: lookup_None_absent)
qed (simp_all add: assms(3))

text \<open>
  C38: which requests on threads and posts ask for the author. Those to delete and to update a thread and to update a
  post do: whatever they carry, they are answered with a failure and change nothing, or the thread or post named
  by the path is stored and the credentials are an administrator's or name the author (of a thread, the author of
  its first post). Two others, open to every member, do not. Deleting a thread of a meeting deletes whichever thread
  its path names, whoever began it and whether or not the meeting has it; removing a comment deletes whichever post its path
  names, with the thread in the path stored but the post anyone's and in any thread.
\<close>

theorem author_check_of_threads_and_posts:
  assumes "mongo_spec bad E"
  shows "wp (deleteThread E rq)
      (\<lambda>r v. contents v = contents w \<and> (\<exists>s m. r = Failure s m) \<or> author_or_admin E rq w)
      (\<lambda>_ v. contents v = contents w \<or> author_or_admin E rq w) w \<and>
    wp (updateThread E body rq)
      (\<lambda>r v. contents v = contents w \<and> (\<exists>s m. r = Failure s m) \<or> author_or_admin E rq w)
      (\<lambda>_ v. contents v = contents w \<or> author_or_admin E rq w) w \<and>
    wp (updatePost E post_body rq)
      (\<lambda>r v. contents v = contents w \<and> (\<exists>s m. r = Failure s m) \<or> own_post_or_admin E rq w)
      (\<lambda>_ v. contents v = contents w \<or> own_post_or_admin E rq w) w \<and>
    ((\<forall>e. \<not> bad e) \<and> rq_credentials rq \<noteq> None \<and> distinct (map th_ID (w_threads w)) \<longrightarrow>
      wp (deleteMeetingThread E rq) (\<lambda>_ v. id_var E rq ''threadID'' \<notin> th_ID ` set (w_threads v))
        (\<lambda>_ v. id_var E rq ''threadID'' \<notin> th_ID ` set (w_threads v)) w) \<and>
    ((\<forall>e. \<not> bad e) \<and> id_var E rq ''threadID'' \<in> th_ID ` set (w_threads w) \<and> distinct (map po_ID (w_posts w)) \<longrightarrow>
      wp (removeCommentFromThread E rq) (\<lambda>_ v. id_var E rq ''postID'' \<notin> po_ID ` set (w_posts v))
        (\<lambda>_ v. id_var E rq ''postID'' \<notin> po_ID ` set (w_posts v)) w)"
proof (intro conjI impI)
  let ?P = "\<lambda>r v. contents v = contents w \<and> (\<exists>s m. r = Failure s m) \<or> author_or_admin E rq w"
  let ?R = "\<lambda>v. contents v = contents w \<or> author_or_admin E rq w"
  have author: "wp (as_author E cr (id_var E rq ''id'') n) ?P (\<lambda>_. ?R) w"
    if "rq_credentials rq = Some cr" for cr and n :: "(world, thread reply) smonad"
  proof (rule wp_as_author [OF assms], goal_cases)
    case (2 t p v)
    with that have "author_or_admin E rq w" unfolding author_or_admin_def by blast
    then show ?case by (intro wp_mono [OF wp_all]) simp_all
  qed simp
  show "wp (deleteThread E rq) ?P (\<lambda>_. ?R) w"
  proof (cases "env_fromHex E (rq_vars rq ''id'')")
    case (Inr i)
    then have "i = id_var E rq ''id''" by (simp add: id_var_def)
    with Inr show ?thesis
      by (cases "rq_credentials rq") (simp_all add: deleteThread_def author)
  qed (simp add: deleteThread_def)
  show "wp (updateThread E body rq) ?P (\<lambda>_. ?R) w"
    by (cases "rq_credentials rq") (simp_all add: updateThread_def Let_def author)
  let ?O = "\<lambda>r v. contents v = contents w \<and> (\<exists>s m. r = Failure s m) \<or> own_post_or_admin E rq w"
  show "wp (updatePost E post_body rq) ?O (\<lambda>_ v. contents v = contents w \<or> own_post_or_admin E rq w) w"
    unfolding updatePost_def Let_def orFail_def Posts_GetPost_def
  proof (rule wp_onErrI wp_FindOne [OF mongo_drv(12) [OF assms]])+
    fix p assume p: "p \<in> set (docs_of (Posts E) w)" "po_ID p = id_var E rq ''id''"
    show "wp (with_credentials rq (\<lambda>credentials.
        if ac_ID credentials \<noteq> po_Member p \<and> ac_Role credentials \<noteq> RoleAdmin
        then retE (Failure StatusUnauthorized ''Not the author of the post and not admin'')
        else n credentials)) ?O (\<lambda>_ v. contents v = contents w \<or> own_post_or_admin E rq w) (tick (Posts E) w)"
      for n :: "authorizationCredentials \<Rightarrow> (world, updatedPost reply) smonad"
    proof (cases "rq_credentials rq")
      case (Some cr)
      show ?thesis
      proof (cases "ac_ID cr \<noteq> po_Member p \<and> ac_Role cr \<noteq> RoleAdmin")
        case False
        with Some p have "own_post_or_admin E rq w" unfolding own_post_or_admin_def by auto
        then show ?thesis by (intro wp_mono [OF wp_all]) simp_all
      qed (simp add: Some with_credentials_def)
    qed (simp add: with_credentials_def)
  qed (simp add: mongo_spec_aborts [OF assms])
next
  let ?i = "id_var E rq ''threadID''"
  let ?I = "\<lambda>v. ?i \<notin> th_ID ` set (w_threads v)"
  assume *: "(\<forall>e. \<not> bad e) \<and> rq_credentials rq \<noteq> None \<and> distinct (map th_ID (w_threads w))"
  then obtain cr where cr: "rq_credentials rq = Some cr" by blast
  have rest: "keeps ?I (orFail (Meetings_DeleteMeetingThread E (id_var E rq ''id'') ?i) StatusNotFound
      ''Meeting or thread not found: '' (\<lambda>meeting. retE (Reply meeting)))"
    unfolding orFail_def by (intro keeps_rules keeps_threads footprints) simp_all
  show "wp (deleteMeetingThread E rq) (\<lambda>_. ?I) (\<lambda>_. ?I) w"
    unfolding deleteMeetingThread_def Let_def with_credentials_def cr option.case orFail_def [of "Threads_DeleteThread _ _"]
    by (rule wp_onErrI, rule wp_mono [OF wp_thread_gone [OF assms]])
      (use * in \<open>auto intro: wp_keeps [OF rest]\<close>)
next
  let ?p = "id_var E rq ''postID''"
  let ?I = "\<lambda>v. ?p \<notin> po_ID ` set (w_posts v)"
  assume *: "(\<forall>e. \<not> bad e) \<and> id_var E rq ''threadID'' \<in> th_ID ` set (w_threads w) \<and> distinct (map po_ID (w_posts w))"
  have told: "keeps ?I (reply_and_notify E rq t d)" for t :: thread and d
    by (rule keeps_posts, (rule keeps_rules footprints | simp)+)
  have put_back: "keeps ?I (bindE (discardE (Threads_AddCommentToThread E t p))
      (\<lambda>_. bindE (reply_and_notify E rq y d) (\<lambda>_. retE r)))" for t p d and y :: thread and r :: "thread reply"
    by (rule keeps_posts, (rule keeps_rules footprints | simp)+)
  have deleted: "wp (onErr (Posts_DeletePost E ?p) A (\<lambda>_. reply_and_notify E rq y d)) (\<lambda>_. ?I) (\<lambda>_. ?I) v"
    if "distinct (map po_ID (w_posts v))" "\<And>e. keeps ?I (A e)" for A d v and y :: thread
  proof (rule wp_onErrI, rule wp_keyed_delete [OF keyed_communication_deletes(1) [OF assms]], goal_cases)
    case (2 x u)
    then have "?I u" using contents_eqD(12) [OF 2(2)] by (auto simp: remove_at_def)
    then show ?case by (rule wp_keeps [where I = ?I, OF told])
  next
    case (3 e u)
    then have "?I u" using contents_eqD(12) [OF 3(1)] * by (auto dest: lookup_None_absent)
    with 3 * wp_keeps [where I = ?I, OF that(2) [of e]] show ?case by auto
  qed (use that in simp)
  show "wp (removeCommentFromThread E rq) (\<lambda>_. ?I) (\<lambda>_. ?I) w"
    unfolding removeCommentFromThread_def Let_def orFail_def Threads_GetThread_def Posts_GetPost_def
      Threads_RemoveCommentFromThread_def
    by (rule deleted [OF _ put_back] wp_onErrI wp_FindOne [OF mongo_drv(11) [OF assms]] wp_FindOne [OF mongo_drv(12) [OF assms]]
        wp_FindOneAndUpdate [OF mongo_drv(11) [OF assms]])+ (use * in auto)
qed

text \<open>Member 9, a team leader, asks to delete thread 3, which member 7 began.\<close>

definition stranger :: request where
  "stranger = \<lparr>rq_Authorization = [], rq_vars = (\<lambda>_. ''aaa''), rq_query = (\<lambda>_. []), rq_credentials =
     Some \<lparr>ac_ID = 9, ac_SINFOID = [], ac_Role = RoleTeamLeader, ac_Team = []\<rparr>\<rparr>"

theorem author_check_of_threads_and_posts_witness:
  "contents (snd (deleteThread local_env stranger exchange_world)) = contents exchange_world \<and>
   wp (deleteMeetingThread local_env stranger) (\<lambda>_ v. 3 \<notin> th_ID ` set (w_threads v)) (\<lambda>_ v. 3 \<notin> th_ID ` set (w_threads v))
     exchange_world"
proof
  note check = author_check_of_threads_and_posts [OF local_env_up, of stranger exchange_world]
  have "\<not> author_or_admin local_env stranger exchange_world"
    by (auto simp: author_or_admin_def stranger_def exchange_world_def post_of_def)
  with conjunct1 [OF check] show "contents (snd (deleteThread local_env stranger exchange_world)) = contents exchange_world"
    by (auto simp: wp_def split: prod.splits sum.splits)
  have "id_var local_env stranger ''threadID'' = 3" by (simp add: id_var_def local_env_def stranger_def)
  with check show "wp (deleteMeetingThread local_env stranger) (\<lambda>_ v. 3 \<notin> th_ID ` set (w_threads v))
      (\<lambda>_ v. 3 \<notin> th_ID ` set (w_threads v)) exchange_world"
    by (simp add: stranger_def)
qed

section \<open>A thread is added or not\<close>

text \<open>What the clean-up undoes, when the database answers.\<close>

lemma put_same [simp]:
  "(contents v)\<lparr>w_posts := w_posts v\<rparr> = contents v" "(contents v)\<lparr>w_meetings := w_meetings v\<rparr> = contents v"
  "(contents v)\<lparr>w_speakers := w_speakers v\<rparr> = contents v"
  by (simp_all add: contents_def)

lemma remove_at_absent: "k \<notin> idf ` set ds \<Longrightarrow> remove_at idf k ds = ds"
  by (auto simp: remove_at_def filter_id_conv)

lemma remove_at_appended [simp]: "idf d \<notin> idf ` set ds \<Longrightarrow> remove_at idf (idf d) (ds @ [d]) = ds"
  by (auto simp: remove_at_def filter_id_conv) (metis imageI)

lemma wp_clean_up:
  assumes "mongo_spec bad E" and "\<forall>e. \<not> bad e"
  shows "distinct (map po_ID (w_posts v)) \<Longrightarrow>
      (\<And>v'. contents v' = (contents v)\<lparr>w_posts := remove_at po_ID i (w_posts v)\<rparr> \<Longrightarrow> Q () v') \<Longrightarrow> wp (clean_up_post E i) Q R v"
    and "distinct (map me_ID (w_meetings v)) \<Longrightarrow>
      (\<And>v'. contents v' = (contents v)\<lparr>w_meetings := remove_at me_ID i (w_meetings v)\<rparr> \<Longrightarrow> Q () v') \<Longrightarrow>
      wp (clean_up_meeting E (Some i)) Q R v"
proof -
  assume d: "distinct (map po_ID (w_posts v))"
    and Q: "\<And>v'. contents v' = (contents v)\<lparr>w_posts := remove_at po_ID i (w_posts v)\<rparr> \<Longrightarrow> Q () v'"
  show "wp (clean_up_post E i) Q R v"
    unfolding clean_up_post_def wp_discardE
  proof (rule wp_keyed_delete [OF keyed_communication_deletes(1) [OF assms(1)]], goal_cases)
    case (3 e v')
    with assms(2) have "e = ErrNoDocuments" "remove_at po_ID i (w_posts v) = w_posts v"
      by (auto intro: remove_at_absent dest: lookup_None_absent)
    with 3 show ?case by (simp add: Q)
  qed (simp_all add: d Q)
next
  assume d: "distinct (map me_ID (w_meetings v))"
    and Q: "\<And>v'. contents v' = (contents v)\<lparr>w_meetings := remove_at me_ID i (w_meetings v)\<rparr> \<Longrightarrow> Q () v'"
  show "wp (clean_up_meeting E (Some i)) Q R v"
    unfolding clean_up_meeting_def option.case wp_discardE
  proof (rule wp_keyed_delete [OF keyed_communication_deletes(2) [OF assms(1)]], goal_cases)
    case (3 e v')
    with assms(2) have "e = ErrNoDocuments" "remove_at me_ID i (w_meetings v) = w_meetings v"
      by (auto intro: remove_at_absent dest: lookup_None_absent)
    with 3 show ?case by (simp add: Q)
  qed (simp_all add: d Q)
qed

text \<open>A thread without comments whose first post is gone, and that no speaker mentions.\<close>

lemma wp_clean_up_thread:
  assumes "mongo_spec bad E" and "\<forall>e. \<not> bad e" and "distinct (map th_ID (w_threads v))" and "distinct (map po_ID (w_posts v))"
    and t: "lookup th_ID (w_threads v) i = Some t" "th_Comments t = []" "th_Entry t \<notin> po_ID ` set (w_posts v)"
    and unmentioned: "\<And>s p. s \<in> set (w_speakers v) \<Longrightarrow> p \<in> set (s_Participations s) \<Longrightarrow> i \<notin> set (sp_Communications p)"
    and Q: "\<And>v'. contents v' = (contents v)\<lparr>w_threads := remove_at th_ID i (w_threads v)\<rparr> \<Longrightarrow> Q () v'"
  shows "wp (clean_up_thread E i) Q R v"
  unfolding clean_up_thread_def wp_discardE Threads_DeleteThread_def wp_bindE
proof (rule wp_keyed_delete [OF threads.keyed_deleteI [OF mongo_drv(11) [OF assms(1)]]], goal_cases)
  case (2 t' v1)
  then have "t' = t" using t(1) by simp
  have posts: "w_posts v1 = w_posts v" and speakers: "w_speakers v1 = w_speakers v"
    using contents_eqD(12) [OF 2(2)] contents_eqD(2) [OF 2(2)] by simp_all
  let ?P = "\<lambda>v'. contents v' = (contents v)\<lparr>w_threads := remove_at th_ID i (w_threads v)\<rparr>"
  have "lookup po_ID (w_posts v1) (th_Entry t) = None"
    using t(3) posts by (auto simp: lookup_def map_of_eq_None_iff image_image)
  then have post: "wp (if th_Entry t \<noteq> NilObjectID then delete_post_leniently E (th_Entry t) else retE ()) (\<lambda>_. ?P) (\<lambda>_ _. False) v1"
    using 2(2) assms(2,4) posts unfolding delete_post_leniently_def
    by (auto intro!: wp_if wp_keyed_delete [OF keyed_communication_deletes(1) [OF assms(1)]])
  have forget: "wp (UpdateMany (Speakers E) (\<lambda>s. \<exists>p \<in> set (s_Participations s). i \<in> set (sp_Communications p)) (forget_thread i))
      (\<lambda>_. ?P) (\<lambda>_ _. False) v2" if "?P v2" for v2
  proof -
    have same: "w_speakers v2 = w_speakers v" using contents_eqD(2) [OF that] by simp
    have id: "(contents v)\<lparr>w_threads := x, w_speakers := w_speakers v\<rparr> = (contents v)\<lparr>w_threads := x\<rparr>" for x
      by (simp add: contents_def)
    from same have "map (\<lambda>s. if \<exists>p \<in> set (s_Participations s). i \<in> set (sp_Communications p) then forget_thread i s else s)
        (w_speakers v2) = w_speakers v2"
      using unmentioned by (intro map_idI) auto
    with that assms(2) show ?thesis
      by (intro wp_UpdateMany [OF mongo_drv(2) [OF assms(1)]]) (simp_all add: same id)
  qed
  show ?case
    unfolding \<open>t' = t\<close> t(2) forE.simps bindE_retE wp_bindE wp_retE
    by (rule wp_mono [OF post], rule wp_mono [OF forget]) (simp_all add: Q)
qed (use assms in auto)

text \<open>The documents of a world with other posts, meetings and threads.\<close>

definition with_docs :: "world \<Rightarrow> post list \<Rightarrow> meeting list \<Rightarrow> thread list \<Rightarrow> world" where
  "with_docs w ps ms ts = (contents w)\<lparr>w_posts := ps, w_meetings := ms, w_threads := ts\<rparr>"

lemma with_docs_same: "with_docs w (w_posts w) (w_meetings w) (w_threads w) = contents w"
  by (cases w) (simp add: with_docs_def contents_def)

lemma with_docs_change:
  assumes "contents v = with_docs w ps ms ts"
  shows "(contents v)\<lparr>w_posts := x\<rparr> = with_docs w x ms ts" and "(contents v)\<lparr>w_meetings := y\<rparr> = with_docs w ps y ts"
    and "(contents v)\<lparr>w_threads := z\<rparr> = with_docs w ps ms z"
  unfolding assms by (simp_all add: with_docs_def contents_def)

lemma with_docsD:
  assumes "contents v = with_docs w ps ms ts"
  shows "w_posts v = ps" and "w_meetings v = ms" and "w_threads v = ts" and "w_speakers v = w_speakers w"
  using contents_eqD(12) [OF assms] contents_eqD(9) [OF assms] contents_eqD(11) [OF assms] contents_eqD(2) [OF assms]
  by (simp_all add: with_docs_def)

text \<open>The IDs are distinct and speakers mention stored threads only.\<close>

definition threads_ok :: "world \<Rightarrow> bool" where
  "threads_ok w \<longleftrightarrow> distinct (map po_ID (w_posts w)) \<and> distinct (map me_ID (w_meetings w)) \<and> distinct (map th_ID (w_threads w)) \<and>
     (\<forall>s \<in> set (w_speakers w). \<forall>p \<in> set (s_Participations s). set (sp_Communications p) \<subseteq> th_ID ` set (w_threads w))"

definition pointed :: "meeting list \<Rightarrow> oid option \<Rightarrow> bool" where
  "pointed ms mp \<longleftrightarrow> (case mp of None \<Rightarrow> ms = [] | Some i \<Rightarrow> \<exists>m. ms = [m] \<and> me_ID m = i)"

lemma wp_clean_up_pointed:
  assumes "mongo_spec bad E" and "\<forall>e. \<not> bad e" and "threads_ok w" and "pointed ms mp" and "me_ID ` set ms \<inter> me_ID ` set (w_meetings w) = {}"
    and "contents v = with_docs w ps (w_meetings w @ ms) ts"
    and "\<And>v'. contents v' = with_docs w ps (w_meetings w) ts \<Longrightarrow> Q () v'"
  shows "wp (clean_up_meeting E mp) Q R v"
proof (cases mp)
  case None
  with assms show ?thesis by (simp add: clean_up_meeting_def pointed_def)
next
  case (Some i)
  with assms(4) obtain m where m: "ms = [m]" "i = me_ID m" by (auto simp: pointed_def)
  have "distinct (map me_ID (w_meetings v))"
    using assms(3,5) with_docsD(2) [OF assms(6)] m by (auto simp: threads_ok_def)
  then show ?thesis
    unfolding Some
    by (rule wp_clean_up(2) [OF assms(1,2)])
      (use assms(5,7) m with_docsD(2) [OF assms(6)] with_docs_change(2) [OF assms(6)] in auto)
qed

lemma wp_undo_all:
  assumes "mongo_spec bad E" and "\<forall>e. \<not> bad e" and ok: "threads_ok w"
    and v: "contents v = with_docs w (w_posts w @ [p]) (w_meetings w @ ms) (w_threads w @ [t])"
    and m: "pointed ms mp" "me_ID ` set ms \<inter> me_ID ` set (w_meetings w) = {}"
    and p: "po_ID p \<notin> po_ID ` set (w_posts w)"
    and t: "th_ID t \<notin> th_ID ` set (w_threads w)" "th_Comments t = []" "th_Entry t = po_ID p"
    and Q: "\<And>v'. contents v' = contents w \<Longrightarrow> Q () v'"
  shows "wp (bindE (clean_up_post E (po_ID p)) (\<lambda>_. bindE (clean_up_meeting E mp) (\<lambda>_. clean_up_thread E (th_ID t)))) Q R v"
  unfolding wp_bindE
proof (rule wp_clean_up(1) [OF assms(1,2)], goal_cases)
  case 1
  show ?case using ok p with_docsD(1) [OF v] by (auto simp: threads_ok_def)
next
  case (2 v1)
  then have v1: "contents v1 = with_docs w (w_posts w) (w_meetings w @ ms) (w_threads w @ [t])"
    using p with_docsD(1) [OF v] with_docs_change(1) [OF v] by simp
  show ?case
  proof (rule wp_clean_up_pointed [OF assms(1,2) ok m v1], rule wp_clean_up_thread [OF assms(1,2)])
    fix v2 assume v2: "contents v2 = with_docs w (w_posts w) (w_meetings w) (w_threads w @ [t])"
    note d = with_docsD [OF v2]
    show "distinct (map th_ID (w_threads v2))" "distinct (map po_ID (w_posts v2))" "th_Comments t = []"
      "th_Entry t \<notin> po_ID ` set (w_posts v2)"
      using ok t p d by (auto simp: threads_ok_def)
    have "lookup th_ID (w_threads w) (th_ID t) = None"
      using t(1) by (auto simp: lookup_def map_of_eq_None_iff image_image)
    then show "lookup th_ID (w_threads v2) (th_ID t) = Some t"
      using d by (simp add: lookup_def map_add_def)
    show "th_ID t \<notin> set (sp_Communications q)" if "s \<in> set (w_speakers v2)" "q \<in> set (s_Participations s)" for s q
      using ok t(1) that d by (auto simp: threads_ok_def)
    show "Q () v'" if "contents v' = (contents v2)\<lparr>w_threads := remove_at th_ID (th_ID t) (w_threads v2)\<rparr>" for v'
      using that t(1) d with_docs_change(3) [OF v2] with_docs_same by (intro Q) simp
  qed
qed

lemma wp_new_meeting_or_clean_up:
  assumes "mongo_spec bad E" and "\<forall>e. \<not> bad e" and "distinct (map po_ID (w_posts v))"
    and none: "wp (k None) Q R v"
    and some: "\<And>m v'. contents v' = (contents v)\<lparr>w_meetings := w_meetings v @ [m]\<rparr> \<Longrightarrow> me_ID m \<notin> me_ID ` set (w_meetings v) \<Longrightarrow>
      wp (k (Some (me_ID m))) Q R v'"
    and failed: "\<And>status msg v'. contents v' = (contents v)\<lparr>w_posts := remove_at po_ID i (w_posts v)\<rparr> \<Longrightarrow> Q (Failure status msg) v'"
    and abort: "\<And>e v'. aborts e \<Longrightarrow> R e v'"
  shows "wp (new_meeting_or_clean_up E i atd k) Q R v"
proof (cases "atd_Kind atd = Some ThreadKindMeeting")
  case True
  have clean: "wp (failing status msg e (clean_up_post E i)) Q R v" for status msg e
    unfolding failing_def wp_bindE by (rule wp_clean_up(1) [OF assms(1-3)]) (simp add: failed)
  show ?thesis
  proof (cases "atd_Meeting atd")
    case None
    with True show ?thesis by (simp add: new_meeting_or_clean_up_def abort)
  next
    case (Some data)
    show ?thesis
    proof (cases "CreateMeetingData_Validate data")
      case (Some e)
      with True \<open>atd_Meeting atd = Some data\<close> show ?thesis by (simp add: new_meeting_or_clean_up_def abort clean)
    next
      case valid: None
      then obtain title kind b e place where d: "cmd_Title data = Some title" "cmd_Kind data = Some kind"
        "cmd_Begin data = Some b" "cmd_End data = Some e" "cmd_Place data = Some place"
        by (auto simp: CreateMeetingData_Validate_def split: option.splits if_splits sum.splits)
      have made: "created (\<lambda>e. bad e \<or> e = Fatal ''CreateMeeting'') contents (Meetings E) me_ID
          (meeting_of title kind b e place (cmd_Participants data)) (\<lambda>w. w) (Meetings_CreateMeeting E data)"
        unfolding Meetings_CreateMeeting_def d deref_simps bindE_retE
        by (rule meetings.created_fatalI [OF mongo_drv(9) [OF assms(1)]])
          (use mongo_spec_aborts [OF assms(1)] in \<open>simp_all add: meeting_of_def\<close>)
      show ?thesis
        unfolding new_meeting_or_clean_up_def
      proof (simp add: True Some valid, rule wp_created [OF made], goal_cases)
        case (1 i v')
        have "me_ID (meeting_of title kind b e place (cmd_Participants data) i) = i" by (simp add: meeting_of_def)
        with 1 some [of v' "meeting_of title kind b e place (cmd_Participants data) i"] show ?case by simp
      qed (use assms(2) abort in auto)
    qed
  qed
qed (simp add: new_meeting_or_clean_up_def none)

lemma wp_getsE_bindE: "wp (k (f s)) Q R s \<Longrightarrow> wp (bindE (getsE f) k) Q R s"
  by simp

lemma wp_CreatePost:
  assumes "mongo_spec bad E" and "\<forall>e. \<not> bad e"
    and "\<And>p v'. contents v' = (contents v)\<lparr>w_posts := w_posts v @ [p]\<rparr> \<Longrightarrow> po_ID p \<notin> po_ID ` set (w_posts v) \<Longrightarrow> Q p v'"
  shows "wp (Posts_CreatePost E d) Q R v"
  unfolding Posts_CreatePost_def Posts_GetPost_def
proof (rule wp_getsE_bindE, rule wp_created [OF posts.createdI [OF mongo_drv(12) [OF assms(1)]]], goal_cases)
  case (2 i v')
  then show ?case using assms(3) [of v' "post_of d (env_now E (w_tick v)) i"] by (simp add: post_of_def)
qed (use assms(2) in \<open>auto simp: post_of_def\<close>)

lemma wp_CreateThread:
  assumes "mongo_spec bad E" and "\<forall>e. \<not> bad e"
    and "\<And>t v'. contents v' = (contents v)\<lparr>w_threads := w_threads v @ [t]\<rparr> \<Longrightarrow> th_ID t \<notin> th_ID ` set (w_threads v) \<Longrightarrow>
      th_Comments t = [] \<Longrightarrow> th_Entry t = ctd_Entry d \<Longrightarrow> Q t v'"
  shows "wp (Threads_CreateThread E d) Q R v"
  unfolding Threads_CreateThread_def Threads_GetThread_def Let_def
proof (rule wp_getsE_bindE, rule wp_created [OF threads.createdI [OF mongo_drv(11) [OF assms(1)]]], goal_cases)
  case (2 i v')
  let ?t = "thread_of d (case ctd_Posted d of None \<Rightarrow> env_now E (w_tick v) | Some x \<Rightarrow> x) i"
  from 2 show ?case using assms(3) [of v' ?t] by (simp add: thread_of_def)
qed (use assms(2) in \<open>auto simp: thread_of_def\<close>)

text \<open>The last steps: the thread, and its place in the participation.\<close>

definition attach_thread :: "env \<Rightarrow> request \<Rightarrow> oid \<Rightarrow> post \<Rightarrow> threadKind \<Rightarrow> oid option \<Rightarrow> (world, threadWithEntry reply) smonad" where
  "attach_thread E rq companyID newPost kind mp =
     onErr (Threads_CreateThread E \<lparr>ctd_Entry = po_ID newPost, ctd_Meeting = mp,
         ctd_Kind = kind, ctd_GmailMessageId = [], ctd_Posted = None\<rparr>)
       (\<lambda>e. failing StatusExpectationFailed ''Could not create thread: '' e
         (bindE (clean_up_post E (po_ID newPost)) (\<lambda>_. clean_up_meeting E mp))) (\<lambda>newThread.
     onErr (Companies_AddThread E companyID (th_ID newThread))
       (\<lambda>e. failing StatusExpectationFailed ''Could not add thread to company: '' e
         (bindE (clean_up_post E (po_ID newPost)) (\<lambda>_.
          bindE (clean_up_meeting E mp) (\<lambda>_.
          clean_up_thread E (th_ID newThread))))) (\<lambda>updatedCompany.
     reply_and_notify E rq (thread_with_entry newThread newPost)
       ((about_company NotificationKindCreated (co_ID updatedCompany))\<lparr>cnd_Thread := Some (th_ID newThread)\<rparr>)))"

definition undone_if_failed :: "world \<Rightarrow> 'a reply \<Rightarrow> world \<Rightarrow> bool" where
  "undone_if_failed w r v \<longleftrightarrow> (\<forall>status msg. r = Failure status msg \<longrightarrow> contents v = contents w)"

lemma undone_if_failed_simps [simp]:
  "undone_if_failed w (Reply x) v" "undone_if_failed w (Failure status msg) v = (contents v = contents w)"
  by (simp_all add: undone_if_failed_def)

lemma wp_reply_and_notify: "wp (reply_and_notify E rq x d) (undone_if_failed w) (\<lambda>_ _. True) v"
  unfolding reply_and_notify_def wp_bindE wp_retE by (rule wp_mono [OF wp_all]) simp_all

lemma AddThread_fails_unchanged:
  assumes "mongo_spec bad E"
    and "\<And>c v'. Q c v'" and "\<And>e v'. contents v' = contents v \<Longrightarrow> R e v'"
  shows "wp (Companies_AddThread E companyID i) Q R v"
  unfolding Companies_AddThread_def wp_bindE
  by (rule wp_GetCurrentEvent [OF assms(1)], rule wp_FindOneAndUpdate [OF mongo_drv(1) [OF assms(1)]])
    (rule assms(2) | rule assms(3), (assumption | simp only: companies.put_same_tick, simp))+

lemma wp_attach_thread:
  assumes "mongo_spec bad E" and "\<forall>e. \<not> bad e" and ok: "threads_ok w"
    and v: "contents v = with_docs w (w_posts w @ [p]) (w_meetings w @ ms) (w_threads w)"
    and m: "pointed ms mp" "me_ID ` set ms \<inter> me_ID ` set (w_meetings w) = {}"
    and p: "po_ID p \<notin> po_ID ` set (w_posts w)"
  shows "wp (attach_thread E rq companyID p kind mp) (undone_if_failed w) (\<lambda>_ _. True) v"
  unfolding attach_thread_def
proof (rule wp_onErrI wp_CreateThread [OF assms(1,2)] AddThread_fails_unchanged [OF assms(1)])+
  fix t v1 c v2 show "wp (reply_and_notify E rq (thread_with_entry t p)
      ((about_company NotificationKindCreated (co_ID c))\<lparr>cnd_Thread := Some (th_ID t)\<rparr>)) (undone_if_failed w) (\<lambda>_ _. True) v2"
    by (rule wp_reply_and_notify)
next
  fix t v1 e v2
  assume v1: "contents v1 = (contents v)\<lparr>w_threads := w_threads v @ [t]\<rparr>" and v2: "contents v2 = contents v1"
    and t: "th_ID t \<notin> th_ID ` set (w_threads v)" "th_Comments t = []"
      "th_Entry t = ctd_Entry \<lparr>ctd_Entry = po_ID p, ctd_Meeting = mp, ctd_Kind = kind, ctd_GmailMessageId = [], ctd_Posted = None\<rparr>"
  have "contents v2 = with_docs w (w_posts w @ [p]) (w_meetings w @ ms) (w_threads w @ [t])"
    using v1 v2 with_docs_change(3) [OF v] with_docsD(3) [OF v] by simp
  then have "wp (failing StatusExpectationFailed ''Could not add thread to company: '' e
      (bindE (clean_up_post E (po_ID p)) (\<lambda>_. bindE (clean_up_meeting E mp) (\<lambda>_. clean_up_thread E (th_ID t)))))
      (undone_if_failed w) (\<lambda>_ _. True) v2"
    unfolding failing_def wp_bindE [of _ "\<lambda>_. retE _"] wp_retE
    by (rule wp_undo_all [OF assms(1,2) ok _ m p]) (use t with_docsD(3) [OF v] in auto)
  then show "if aborts e then True else wp (failing StatusExpectationFailed ''Could not add thread to company: '' e
      (bindE (clean_up_post E (po_ID p)) (\<lambda>_. bindE (clean_up_meeting E mp) (\<lambda>_. clean_up_thread E (th_ID t)))))
      (undone_if_failed w) (\<lambda>_ _. True) v2" by (rule if_bool_eq_conj [THEN iffD2, OF conjI, OF impI impI, OF TrueI])
qed

text \<open>
  C39: adding a thread to a company is all or nothing. When the database answers, a request that is answered with an
  error, at whatever step, leaves every document as it was: the post, the meeting and the thread made before
  the failing step are taken back.
\<close>

theorem addCompanyThread_all_or_nothing:
  assumes "mongo_spec bad E" and "\<forall>e. \<not> bad e" and "threads_ok w"
  shows "wp (addCompanyThread E body rq)
    (\<lambda>r v. \<forall>status msg. r = Failure status msg \<longrightarrow> contents v = contents w) (\<lambda>_ _. True) w"
proof -
  have "wp (addCompanyThread E body rq) (undone_if_failed w) (\<lambda>_ _. True) w"
  proof (cases "env_fromHex E (rq_vars rq ''id'')")
    case (Inl e)
    then show ?thesis by (simp add: addCompanyThread_def)
  next
    case (Inr companyID)
    have found: "wp (orFailR (addThreadData_ParseBody body) StatusBadRequest ''Could not parse body: '' (\<lambda>atd.
        with_credentials rq (\<lambda>credentials. bindE (deref (atd_Text atd)) (\<lambda>text.
        orFail (Posts_CreatePost E \<lparr>cpo_Member = ac_ID credentials, cpo_Text = text\<rparr>) StatusExpectationFailed
          ''Could not create post: '' (\<lambda>newPost.
        new_meeting_or_clean_up E (po_ID newPost) atd (\<lambda>mp.
        bindE (deref (atd_Kind atd)) (\<lambda>kind. attach_thread E rq companyID newPost kind mp)))))))
      (undone_if_failed w) (\<lambda>_ _. True) v"
      if v: "contents v = contents w" for v
    proof (cases "addThreadData_ParseBody body")
      case (Inl e)
      with v show ?thesis by (simp add: orFailR_def orFail_def)
    next
      case (Inr atd)
      show ?thesis
      proof (cases "rq_credentials rq")
        case None
        with v Inr show ?thesis by (simp add: orFailR_def orFail_def with_credentials_def)
      next
        case (Some cr)
        have made: "wp (new_meeting_or_clean_up E (po_ID p) atd (\<lambda>mp.
            bindE (deref (atd_Kind atd)) (\<lambda>kind. attach_thread E rq companyID p kind mp))) (undone_if_failed w) (\<lambda>_ _. True) v1"
          if p: "contents v1 = (contents v)\<lparr>w_posts := w_posts v @ [p]\<rparr>" "po_ID p \<notin> po_ID ` set (w_posts v)" for p v1
        proof -
          have posts: "w_posts v = w_posts w" using contents_eqD(12) [OF v] by simp
          have v1: "contents v1 = with_docs w (w_posts w @ [p]) (w_meetings w) (w_threads w)"
            unfolding p(1) v posts with_docs_def by (cases w) (simp add: contents_def)
          note d = with_docsD [OF v1]
          have new: "po_ID p \<notin> po_ID ` set (w_posts w)" using p(2) posts by simp
          have attach: "wp (bindE (deref (atd_Kind atd)) (\<lambda>kind. attach_thread E rq companyID p kind mp))
              (undone_if_failed w) (\<lambda>_ _. True) v2"
            if "contents v2 = with_docs w (w_posts w @ [p]) (w_meetings w @ ms) (w_threads w)" "pointed ms mp"
              "me_ID ` set ms \<inter> me_ID ` set (w_meetings w) = {}" for v2 mp ms
            using wp_attach_thread [OF assms that new] by (cases "atd_Kind atd") simp_all
          show ?thesis
          proof (rule wp_new_meeting_or_clean_up [OF assms(1,2)])
            show "distinct (map po_ID (w_posts v1))" using assms(3) new d by (auto simp: threads_ok_def)
            show "wp (bindE (deref (atd_Kind atd)) (\<lambda>kind. attach_thread E rq companyID p kind None))
                (undone_if_failed w) (\<lambda>_ _. True) v1"
              by (rule attach [of _ "[]"]) (simp_all add: v1 pointed_def)
          next
            fix m v2 assume "contents v2 = (contents v1)\<lparr>w_meetings := w_meetings v1 @ [m]\<rparr>" "me_ID m \<notin> me_ID ` set (w_meetings v1)"
            then show "wp (bindE (deref (atd_Kind atd)) (\<lambda>kind. attach_thread E rq companyID p kind (Some (me_ID m))))
                (undone_if_failed w) (\<lambda>_ _. True) v2"
              by (intro attach [of _ "[m]"]) (simp_all add: d with_docs_change(2) [OF v1] pointed_def)
          next
            fix status msg v2 assume "contents v2 = (contents v1)\<lparr>w_posts := remove_at po_ID (po_ID p) (w_posts v1)\<rparr>"
            then show "undone_if_failed w (Failure status msg) v2"
              using new with_docs_same by (simp add: d with_docs_change(1) [OF v1])
          qed simp
        qed
        show ?thesis
          by (cases "atd_Text atd") (simp_all add: orFailR_def Inr Some with_credentials_def orFail_def wp_CreatePost [OF assms(1,2)] made)
      qed
    qed
    have "wp (FindOne (Companies E) (\<lambda>c. co_ID c = companyID)) (\<lambda>_ v. contents v = contents w)
        (\<lambda>e v. contents v = contents w) w"
      by (rule wp_FindOne [OF mongo_drv(1) [OF assms(1)]]) simp_all
    then have "wp (orFail (Companies_GetCompany E companyID) StatusNotFound ''Invalid company ID: '' (\<lambda>_. m)) (undone_if_failed w) (\<lambda>_ _. True) w"
      if "\<And>v. contents v = contents w \<Longrightarrow> wp m (undone_if_failed w) (\<lambda>_ _. True) v" for m :: "(world, threadWithEntry reply) smonad"
      unfolding orFail_def Companies_GetCompany_def wp_onErr by (rule wp_mono) (simp_all add: that)
    from this [OF found] show ?thesis
      unfolding addCompanyThread_def attach_thread_def [symmetric] Inr by simp
  qed
  then show ?thesis unfolding undone_if_failed_def .
qed

text \<open>Company 4 has no participation in event 2, the current one: the request fails at its last step, and nothing is left.\<close>

definition thread_request :: request where
  "thread_request = \<lparr>rq_Authorization = [], rq_vars = (\<lambda>_. ''aaaa''), rq_query = (\<lambda>_. []), rq_credentials =
     Some \<lparr>ac_ID = 9, ac_SINFOID = [], ac_Role = RoleMember, ac_Team = []\<rparr>\<rparr>"

definition thread_body :: "err + addThreadData" where
  "thread_body = Inr \<lparr>atd_Text = Some ''x'', atd_Meeting = Some sample_meeting_data, atd_Kind = Some ThreadKindMeeting\<rparr>"

definition later_world :: world where
  "later_world = (sample_world Accepted)\<lparr>w_events := [new_event 1 ''e'', new_event 2 ''f'']\<rparr>"

lemma thread_refused:
  "fst (addCompanyThread local_env thread_body thread_request later_world) =
     Inr (Failure StatusExpectationFailed ''Could not add thread to company: mongo: no documents in result'')"
  by code_simp

theorem addCompanyThread_all_or_nothing_witness:
  "contents (snd (addCompanyThread local_env thread_body thread_request later_world)) = contents later_world"
proof -
  have "threads_ok later_world" by (simp add: threads_ok_def later_world_def sample_world_def)
  from addCompanyThread_all_or_nothing [OF local_env_up _ this, of thread_body thread_request] thread_refused
  show ?thesis by (auto simp: wp_def never_simp split: prod.splits sum.splits)
qed

section \<open>The mails linked to an event\<close>

text \<open>The threads listed are those seen, once each, with one entry each, for which \<open>P\<close> holds.\<close>

definition linked_ok :: "(linkedGmailThreadInfo \<Rightarrow> bool) \<Rightarrow> linked \<Rightarrow> bool" where
  "linked_ok P acc \<longleftrightarrow> fst acc = set (lgr_ThreadIDs (snd acc)) \<and> distinct (lgr_ThreadIDs (snd acc)) \<and>
     map lgi_ThreadID (lgr_Details (snd acc)) = lgr_ThreadIDs (snd acc) \<and> (\<forall>d \<in> set (lgr_Details (snd acc)). P d)"

lemma link_threads_ok:
  assumes "linked_ok P acc" and "\<And>t. t \<in> set ts \<Longrightarrow> lgi_ThreadID (info t) = t \<and> P (info t)"
  shows "linked_ok P (link_threads info ts acc)" and "fst (link_threads info ts acc) = fst acc \<union> set ts"
proof -
  have "linked_ok P (link_threads info ts acc) \<and> fst (link_threads info ts acc) = fst acc \<union> set ts"
    using assms
  proof (induction info ts acc rule: link_threads.induct)
    case (2 info t ts S r)
    show ?case
    proof (cases "t \<in> S")
      case True
      with 2 show ?thesis by (auto simp: insert_absorb)
    next
      case False
      with "2.prems" have "linked_ok P (insert t S, r\<lparr>lgr_ThreadIDs := lgr_ThreadIDs r @ [t], lgr_Details := lgr_Details r @ [info t]\<rparr>)"
        by (auto simp: linked_ok_def)
      with 2 False show ?thesis by (auto simp: linked_ok_def)
    qed
  qed simp
  then show "linked_ok P (link_threads info ts acc)" "fst (link_threads info ts acc) = fst acc \<union> set ts" by auto
qed

definition event_mails :: "int \<Rightarrow> (int \<times> string list) list \<Rightarrow> string set" where
  "event_mails ev ps = (\<Union>(e, ts) \<in> set ps. if e = ev then set ts else {})"

lemma event_mails_simps [simp]:
  "event_mails ev [] = {}" "event_mails ev ((e, ts) # ps) = (if e = ev then set ts else {}) \<union> event_mails ev ps"
  by (auto simp: event_mails_def)

lemma link_participations_ok:
  assumes "linked_ok P acc" and "\<And>t. t \<in> event_mails ev ps \<Longrightarrow> lgi_ThreadID (info t) = t \<and> P (info t)"
  shows "linked_ok P (link_participations ev info ps acc) \<and>
    fst (link_participations ev info ps acc) = fst acc \<union> event_mails ev ps"
  using assms
proof (induction ev info ps acc rule: link_participations.induct)
  case (2 ev info e ts ps acc)
  show ?case
  proof (cases "e = ev \<and> length ts > 0")
    case True
    with 2 link_threads_ok [of P acc ts info] show ?thesis by auto
  next
    case False
    with 2 show ?thesis by auto
  qed
qed simp

abbreviation company_mails :: "int \<Rightarrow> company \<Rightarrow> string set" where
  "company_mails ev c \<equiv> event_mails ev (map (\<lambda>p. (cp_Event p, cp_GmailThreadIds p)) (co_Participations c))"

abbreviation speaker_mails :: "int \<Rightarrow> speaker \<Rightarrow> string set" where
  "speaker_mails ev s \<equiv> event_mails ev (map (\<lambda>p. (sp_Event p, sp_GmailThreadIds p)) (s_Participations s))"

lemma link_companies_ok:
  assumes "linked_ok P acc" and "\<And>c t. c \<in> set cs \<Longrightarrow> t \<in> company_mails ev c \<Longrightarrow> P (company_info E c t)"
  shows "linked_ok P (link_companies E ev cs acc) \<and>
    fst (link_companies E ev cs acc) = fst acc \<union> (\<Union>c \<in> set cs. company_mails ev c)"
  using assms
proof (induction E ev cs acc rule: link_companies.induct)
  case (2 E ev c cs acc)
  have "linked_ok P (link_participations ev (company_info E c) (map (\<lambda>p. (cp_Event p, cp_GmailThreadIds p)) (co_Participations c)) acc) \<and>
    fst (link_participations ev (company_info E c) (map (\<lambda>p. (cp_Event p, cp_GmailThreadIds p)) (co_Participations c)) acc) =
      fst acc \<union> company_mails ev c"
    by (rule link_participations_ok) (use "2.prems" in \<open>auto simp: company_info_def\<close>)
  with 2 show ?case by auto
qed simp

lemma link_speakers_ok:
  assumes "linked_ok P acc" and "\<And>s t. s \<in> set ss \<Longrightarrow> t \<in> speaker_mails ev s \<Longrightarrow> P (speaker_info E s t)"
  shows "linked_ok P (link_speakers E ev ss acc) \<and>
    fst (link_speakers E ev ss acc) = fst acc \<union> (\<Union>s \<in> set ss. speaker_mails ev s)"
  using assms
proof (induction E ev ss acc rule: link_speakers.induct)
  case (2 E ev s ss acc)
  have "linked_ok P (link_participations ev (speaker_info E s) (map (\<lambda>p. (sp_Event p, sp_GmailThreadIds p)) (s_Participations s)) acc) \<and>
    fst (link_participations ev (speaker_info E s) (map (\<lambda>p. (sp_Event p, sp_GmailThreadIds p)) (s_Participations s)) acc) =
      fst acc \<union> speaker_mails ev s"
    by (rule link_participations_ok) (use "2.prems" in \<open>auto simp: speaker_info_def\<close>)
  with 2 show ?case by auto
qed simp

lemma wp_companies_of:
  assumes "mongo_spec bad E"
    and "\<And>cs v. set cs = {c \<in> set (w_companies w). ev \<in> cp_Event ` set (co_Participations c)} \<Longrightarrow> contents v = contents w \<Longrightarrow> Q cs v"
    and "\<And>e v. contents v = contents w \<Longrightarrow> R e v"
  shows "wp (Companies_GetCompanies E \<lparr>gcomp_EventID = Some ev, gcomp_IsPartner = None, gcomp_MemberID = None,
    gcomp_Name = None, gcomp_NumRequests = None, gcomp_MaxCompInRequest = None, gcomp_SortingMethod = None\<rparr>) Q R w"
  unfolding Companies_GetCompanies_def find_page_def
  by (simp, rule wp_Find [OF mongo_drv(1) [OF assms(1)]], drule mset_eq_setD)
    (auto simp: companies_filter_def intro!: assms(2,3))

lemma wp_speakers_of:
  assumes "mongo_spec bad E"
    and "\<And>ss v. set ss = {s \<in> set (w_speakers w). ev \<in> sp_Event ` set (s_Participations s)} \<Longrightarrow> contents v = contents w \<Longrightarrow> Q ss v"
    and "\<And>e v. contents v = contents w \<Longrightarrow> R e v"
  shows "wp (Speakers_GetSpeakers E \<lparr>gspo_EventID = Some ev, gspo_MemberID = None, gspo_Name = None,
    gspo_NumRequests = None, gspo_MaxSpeaksInRequest = None, gspo_SortingMethod = None\<rparr>) Q R w"
  unfolding Speakers_GetSpeakers_def find_page_def
  by (simp, rule wp_Find [OF mongo_drv(2) [OF assms(1)]], drule mset_eq_setD)
    (auto simp: speakers_filter_def intro!: assms(2,3))

lemma no_mails: "ev \<notin> fst ` set ps \<Longrightarrow> event_mails ev ps = {}"
  by (auto simp: event_mails_def image_iff)

lemma mails_of_participants:
  "(\<Union>c \<in> {c \<in> set cs. ev \<in> cp_Event ` set (co_Participations c)}. company_mails ev c) = (\<Union>c \<in> set cs. company_mails ev c)"
  "(\<Union>s \<in> {s \<in> set ss. ev \<in> sp_Event ` set (s_Participations s)}. speaker_mails ev s) = (\<Union>s \<in> set ss. speaker_mails ev s)"
  using no_mails [of ev "map (\<lambda>p. (cp_Event p, cp_GmailThreadIds p)) (co_Participations c)" for c]
    no_mails [of ev "map (\<lambda>p. (sp_Event p, sp_GmailThreadIds p)) (s_Participations s)" for s]
  by (fastforce simp: image_image)+

text \<open>The entry of a mail names a stored company or speaker that is linked to it.\<close>

definition linked_to_stored :: "env \<Rightarrow> int \<Rightarrow> world \<Rightarrow> linkedGmailThreadInfo \<Rightarrow> bool" where
  "linked_to_stored E ev w d \<longleftrightarrow>
     (\<exists>c \<in> set (w_companies w). lgi_ThreadID d \<in> company_mails ev c \<and> d = company_info E c (lgi_ThreadID d)) \<or>
     (\<exists>s \<in> set (w_speakers w). lgi_ThreadID d \<in> speaker_mails ev s \<and> d = speaker_info E s (lgi_ThreadID d))"

text \<open>What the listing of the mails of an event should be.\<close>

definition exact_mails :: "env \<Rightarrow> int \<Rightarrow> world \<Rightarrow> linkedGmailThreadsResponse \<Rightarrow> bool" where
  "exact_mails E ev w x \<longleftrightarrow> distinct (lgr_ThreadIDs x) \<and> map lgi_ThreadID (lgr_Details x) = lgr_ThreadIDs x \<and>
     set (lgr_ThreadIDs x) = (\<Union>c \<in> set (w_companies w). company_mails ev c) \<union> (\<Union>s \<in> set (w_speakers w). speaker_mails ev s) \<and>
     (\<forall>d \<in> set (lgr_Details x). linked_to_stored E ev w d)"

lemma exact_mails_gathered:
  assumes cs: "set cs = {c \<in> set (w_companies w). ev \<in> cp_Event ` set (co_Participations c)}"
    and ss: "set ss = {s \<in> set (w_speakers w). ev \<in> sp_Event ` set (s_Participations s)}"
  shows "exact_mails E ev w (snd (link_speakers E ev ss (link_companies E ev cs ({}, \<lparr>lgr_ThreadIDs = [], lgr_Details = []\<rparr>))))"
proof -
  let ?start = "({}, \<lparr>lgr_ThreadIDs = [], lgr_Details = []\<rparr>) :: linked" and ?P = "linked_to_stored E ev w"
  have "linked_ok ?P (link_companies E ev cs ?start) \<and>
      fst (link_companies E ev cs ?start) = fst ?start \<union> (\<Union>c \<in> set cs. company_mails ev c)"
    by (rule link_companies_ok) (auto simp: cs linked_ok_def linked_to_stored_def company_info_def)
  moreover from this have "linked_ok ?P (link_speakers E ev ss (link_companies E ev cs ?start)) \<and>
      fst (link_speakers E ev ss (link_companies E ev cs ?start)) =
        fst (link_companies E ev cs ?start) \<union> (\<Union>s \<in> set ss. speaker_mails ev s)"
    by (intro link_speakers_ok) (auto simp: ss linked_to_stored_def speaker_info_def)
  ultimately have all: "fst (link_speakers E ev ss (link_companies E ev cs ?start)) =
      (\<Union>c \<in> set cs. company_mails ev c) \<union> (\<Union>s \<in> set ss. speaker_mails ev s)"
    and ok: "linked_ok ?P (link_speakers E ev ss (link_companies E ev cs ?start))" by simp_all
  from ok have "set (lgr_ThreadIDs (snd (link_speakers E ev ss (link_companies E ev cs ?start)))) =
      (\<Union>c \<in> set cs. company_mails ev c) \<union> (\<Union>s \<in> set ss. speaker_mails ev s)"
    unfolding all [symmetric] by (simp add: linked_ok_def)
  with ok show ?thesis by (simp add: exact_mails_def linked_ok_def cs ss mails_of_participants)
qed

text \<open>
  C40: the mails linked to an event are listed exactly. The answer names every mail thread that a participation of
  a company or of a speaker in the event links, and no other, each once; it has one entry per thread, in the same order,
  which tells a stored company or speaker that the thread is linked to. A thread that several share is told for one of them.
  Nothing is changed, and an id that is no number is refused.
\<close>

theorem linked_mails_exact:
  assumes "mongo_spec bad E"
  shows "wp (getLinkedGmailThreads E rq)
    (\<lambda>r v. contents v = contents w \<and> (case Atoi (rq_vars rq ''id'') of
        Inl _ \<Rightarrow> \<exists>msg. r = Failure StatusBadRequest msg
      | Inr ev \<Rightarrow> (\<exists>msg. r = Failure StatusInternalServerError msg) \<or> (\<exists>x. r = Reply x \<and> exact_mails E ev w x)))
    (\<lambda>_ v. contents v = contents w) w"
proof (cases "Atoi (rq_vars rq ''id'')")
  case (Inl e)
  then have "\<not> aborts e"
    by (cases "case rq_vars rq ''id'' of [] \<Rightarrow> (False, []) | c # cs \<Rightarrow>
        if c = CHR ''-'' then (True, cs) else if c = CHR ''+'' then (False, cs) else (False, rq_vars rq ''id'')")
      (auto simp: Atoi_def Let_def simp del: list.case split: option.splits if_split_asm)
  with Inl show ?thesis by (simp add: getLinkedGmailThreads_def orFailR_def orFail_def)
next
  case (Inr ev)
  show ?thesis
    unfolding getLinkedGmailThreads_def orFailR_def orFail_def Let_def Inr sum.case
    by (simp, rule wp_companies_of [OF assms], rule wp_speakers_of [OF assms])
      (auto dest: contents_eqD intro!: exact_mails_gathered)
qed

text \<open>Both companies are linked to mail \<open>b\<close>; it is listed once.\<close>

definition linked_company :: "oid \<Rightarrow> string list \<Rightarrow> company" where
  "linked_company i mails = (sample_company Accepted)\<lparr>co_ID := i,
     co_Participations := [(new_participation 1 7 False)\<lparr>cp_GmailThreadIds := mails\<rparr>]\<rparr>"

definition linked_world :: world where
  "linked_world = (sample_world Accepted)\<lparr>w_companies := [linked_company 4 [''a'', ''b''], linked_company 5 [''b'', ''c'']]\<rparr>"

definition linked_request :: request where
  "linked_request = \<lparr>rq_Authorization = [], rq_vars = (\<lambda>_. ''1''), rq_query = (\<lambda>_. []), rq_credentials = None\<rparr>"

lemma linked_answer:
  "case getLinkedGmailThreads local_env linked_request linked_world of
     (Inr (Reply x), _) \<Rightarrow> lgr_ThreadIDs x = [''a'', ''b'', ''c''] | _ \<Rightarrow> False"
  by code_simp

lemma linked_number: "Atoi (rq_vars linked_request ''id'') = Inr 1"
  by code_simp

theorem linked_mails_exact_witness:
  "\<exists>x. fst (getLinkedGmailThreads local_env linked_request linked_world) = Inr (Reply x) \<and>
     lgr_ThreadIDs x = [''a'', ''b'', ''c''] \<and> exact_mails local_env 1 linked_world x"
  using linked_mails_exact [OF local_env_up, of linked_request linked_world] linked_answer
  by (auto simp: wp_def linked_number split: prod.splits sum.splits reply.splits)

section \<open>A filled template is read back\<close>

lemma cache_found:
  assumes "cache_documented E" and "List.find (\<lambda>(key, _). key = k) sets = Some (k, page, expires)"
  shows "now < expires \<Longrightarrow> env_cacheGet E now sets k = Some page" and "expires < now \<Longrightarrow> env_cacheGet E now sets k = None"
  using assms(1) [unfolded cache_documented_def, THEN spec, of now, THEN spec, of sets, THEN spec, of k] assms(2) by auto

lemma find_newest:
  "k \<notin> fst ` set later \<Longrightarrow> List.find (\<lambda>(key, _). key = k) (later @ (k, x) # earlier) = Some (k, x)"
  by (induction later) auto

text \<open>
  C15: a filled template is served at its key for a minute. Of a stored template whose page can be fetched, parsed and
  executed, a request to fill it answers a key and stores the page under it; nothing else changes. As long as no later
  request uses the same key, and whatever else later requests store, the page is served at that key until a minute
  after it was filled, and is unavailable after.
\<close>

theorem filled_page_read_back:
  assumes "mongo_spec bad E" and "\<And>e. \<not> bad e" and "cache_documented E" and "distinct (map te_ID (w_templates w))"
    and "lookup te_ID (w_templates w) (id_var E rq ''id'') = Some tm"
    and "body = Inr \<lparr>tpd_Requirements = Some reqs\<rparr>"
    and "download (te_Url tm) = Inr (Inr b)" and "parse b = Inr execute" and "execute (fill_page reqs empty_page) = Inr page"
  shows "wp (fillTemplate download parse E body rq)
      (\<lambda>r v. \<exists>uuid expires. r = Reply uuid \<and> expires = env_now E (w_tick v) + 60 * 1000 \<and>
        contents v = (contents w)\<lparr>templateCache := (uuid, page, expires) # templateCache w\<rparr> \<and>
        (\<forall>u rq' later. templateCache u = later @ templateCache v \<and> uuid \<notin> fst ` set later \<and> rq_vars rq' ''uuid'' = uuid \<longrightarrow>
          (env_now E (w_tick u) < expires \<longrightarrow> getFilledTemplate E rq' u = (Inr (Reply page), u)) \<and>
          (expires < env_now E (w_tick u) \<longrightarrow>
            getFilledTemplate E rq' u = (Inr (Failure StatusNotFound ''Template unavailable''), u))))
      (\<lambda>_ _. False) w"
  unfolding fillTemplate_def orSay_def Templates_GetTemplate_def
proof (rule wp_onErrI, rule wp_FindOne [OF mongo_drv(18) [OF assms(1)]], goal_cases)
  case (1 x)
  with assms(4,5) have x: "x = tm" using lookup_in by fastforce
  have later: "getFilledTemplate E rq' u = (Inr (case env_cacheGet E (env_now E (w_tick u)) (templateCache u) (rq_vars rq' ''uuid'') of
      None \<Rightarrow> Failure StatusNotFound ''Template unavailable'' | Some page \<Rightarrow> Reply page), u)" for rq' u
    by (simp add: getFilledTemplate_def bindE_def getsE_def retE_def)
  show ?case
    by (simp add: x assms(6-9) TemplateData_ParseFillBody_def Let_def templateExpiration_def later
        cache_found [OF assms(3) find_newest])
next
  case (2 e)
  then show ?case using assms(2,5) by (auto dest: lookup_Some_in)
qed

text \<open>A letter to a company, for which the template names the company only.\<close>

definition letter_request :: "string \<Rightarrow> request" where
  "letter_request s = \<lparr>rq_Authorization = [], rq_vars = (\<lambda>_. s), rq_query = (\<lambda>_. []), rq_credentials = None\<rparr>"

definition letter :: template where
  "letter = \<lparr>te_ID = 4, te_Name = ''letter'', te_Url = ''url'', te_Event = 30, te_Requirements = [], te_Kind = []\<rparr>"

definition addressee :: requirement where
  "addressee = \<lparr>rq_Title = [], rq_Name = ''companyName'', rq_Type = [], rq_StringValue = ''Chip'',
     rq_IntegerValue = 0, rq_BoolValue = False, rq_DateValue = 0\<rparr>"

theorem filled_page_read_back_witness:
  "wp (fillTemplate (\<lambda>url. Inr (Inr ''file'')) (\<lambda>b. Inr (\<lambda>page. Inr (''Dear '' @ pg_Company page))) local_env
       (Inr \<lparr>tpd_Requirements = Some [addressee]\<rparr>) (letter_request ''1234''))
     (\<lambda>r v. \<exists>uuid. r = Reply uuid \<and>
        getFilledTemplate local_env (letter_request uuid) v = (Inr (Reply ''Dear Chip''), v) \<and>
        fst (getFilledTemplate local_env (letter_request uuid) (v\<lparr>w_tick := w_tick v + 60001\<rparr>)) =
          Inr (Failure StatusNotFound ''Template unavailable''))
     (\<lambda>_ _. False) (empty_world\<lparr>w_templates := [letter]\<rparr>)"
proof (rule wp_mono [OF filled_page_read_back [OF local_env_up never_simp in_memory_cache,
      where tm = letter and reqs = "[addressee]" and b = "''file''" and page = "''Dear Chip''"
        and execute = "\<lambda>page. Inr (''Dear '' @ pg_Company page)"]], goal_cases)
  case (8 r v)
  then obtain uuid expires where r: "r = Reply uuid" and e: "expires = int (w_tick v) + 60 * 1000"
    and served: "\<And>u rq'. templateCache u = templateCache v \<Longrightarrow> rq_vars rq' ''uuid'' = uuid \<Longrightarrow>
      (int (w_tick u) < expires \<longrightarrow> getFilledTemplate local_env rq' u = (Inr (Reply ''Dear Chip''), u)) \<and>
      (expires < int (w_tick u) \<longrightarrow>
        getFilledTemplate local_env rq' u = (Inr (Failure StatusNotFound ''Template unavailable''), u))"
    unfolding local_env_def by force
  from served [of v "letter_request uuid"] served [of "v\<lparr>w_tick := w_tick v + 60001\<rparr>" "letter_request uuid"] show ?case
    by (intro exI [of _ uuid]) (simp add: r e letter_request_def)
qed (simp_all add: local_env_def letter_def addressee_def lookup_def letter_request_def id_var_def empty_page_def)

end
