(* ===== verification/Google.thy ===== *)
theory Google
  imports Http
begin

text \<open>
  What the service asks Google for (\<^verbatim>\<open>google/api.go\<close>): the user behind a code, an access token or an identity
  token. The OAuth and HTTP clients, the JSON decoder and the check of identity tokens are parameters, the record
  \<open>googleServices\<close>; \<open>served_by_google\<close> ties the parameters of the login handlers to the functions here.
\<close>

record UserData =
  ud_ID :: string
  ud_Email :: string
  ud_Verified :: bool
  ud_Picture :: string
  ud_HD :: string

text \<open>A claim of an identity token is a JSON value; only its type matters.\<close>

datatype claim = StringClaim string | BoolClaim bool | OtherClaim

record idPayload =
  ip_Subject :: string
  ip_Claims :: "string \<Rightarrow> claim option"

text \<open>\<open>gs_Get\<close>: the error of \<^verbatim>\<open>http.Get\<close>, or the outcome of reading the body.\<close>

record googleServices =
  gs_Exchange :: "string \<Rightarrow> err + string"
  gs_Get :: "string \<Rightarrow> err + err + string"
  gs_Unmarshal :: "string \<Rightarrow> err + UserData"
  gs_Validate :: "string \<Rightarrow> string \<Rightarrow> err + idPayload"

definition oauthGoogleURLAPI :: string where
  "oauthGoogleURLAPI = ''https://www.googleapis.com/oauth2/v2/userinfo?access_token=''"

definition GetUserDataWithToken :: "googleServices \<Rightarrow> string \<Rightarrow> err + UserData" where
  "GetUserDataWithToken G token = (case gs_Get G (oauthGoogleURLAPI @ token) of
     Inl e \<Rightarrow> Inl (Err (''failed getting user info: '' @ err_text e))
   | Inr (Inl e) \<Rightarrow> Inl (Err (''failed read response: '' @ err_text e))
   | Inr (Inr body) \<Rightarrow> (case gs_Unmarshal G body of
       Inl e \<Rightarrow> Inl (Err (''failed to parse response from google for user data: '' @ err_text e))
     | Inr result \<Rightarrow> Inr result))"

definition GetUserData :: "googleServices \<Rightarrow> string \<Rightarrow> err + UserData" where
  "GetUserData G code = (case gs_Exchange G code of
     Inl e \<Rightarrow> Inl (Err (''code exchange wrong: '' @ err_text e))
   | Inr AccessToken \<Rightarrow> (case gs_Get G (oauthGoogleURLAPI @ AccessToken) of
       Inl e \<Rightarrow> Inl (Err (''failed getting user info: '' @ err_text e))
     | Inr (Inl e) \<Rightarrow> Inl (Err (''failed read response: '' @ err_text e))
     | Inr (Inr body) \<Rightarrow> (case gs_Unmarshal G body of
         Inl e \<Rightarrow> Inl (Err (''failed to parse response from google for user data: '' @ err_text e))
       | Inr result \<Rightarrow> Inr result)))"

text \<open>\<^verbatim>\<open>claims[name].(string)\<close> and \<^verbatim>\<open>claims[name].(bool)\<close>, which panic on anything else.\<close>

definition string_claim :: "idPayload \<Rightarrow> string \<Rightarrow> err + string" where
  "string_claim payload name = (case ip_Claims payload name of
     Some (StringClaim s) \<Rightarrow> Inr s | _ \<Rightarrow> Inl (Panic ''interface conversion''))"

definition bool_claim :: "idPayload \<Rightarrow> string \<Rightarrow> err + bool" where
  "bool_claim payload name = (case ip_Claims payload name of
     Some (BoolClaim b) \<Rightarrow> Inr b | _ \<Rightarrow> Inl (Panic ''interface conversion''))"

definition GetUserDataFromGoogleJWT :: "googleServices \<Rightarrow> string \<Rightarrow> string \<Rightarrow> err + UserData" where
  "GetUserDataFromGoogleJWT G GoogleOAuthClientID token = (case gs_Validate G token GoogleOAuthClientID of
     Inl e \<Rightarrow> Inl (Err (''failed to validate ID token: '' @ err_text e))
   | Inr payload \<Rightarrow> (case string_claim payload ''email'' of Inl e \<Rightarrow> Inl e
     | Inr email \<Rightarrow> (case bool_claim payload ''email_verified'' of Inl e \<Rightarrow> Inl e
     | Inr verified \<Rightarrow> (case string_claim payload ''picture'' of Inl e \<Rightarrow> Inl e
     | Inr picture \<Rightarrow> (case string_claim payload ''hd'' of Inl e \<Rightarrow> Inl e
     | Inr hostedDomain \<Rightarrow> Inr \<lparr>ud_ID = ip_Subject payload, ud_Email = email, ud_Verified = verified, ud_Picture = picture,
         ud_HD = hostedDomain\<rparr>)))))"

section \<open>The logins\<close>

definition email_of :: "err + UserData \<Rightarrow> err + string" where
  "email_of r = map_sum id ud_Email r"

text \<open>The environment answers the logins by asking Google, which may answer differently from time to time.\<close>

definition served_by_google :: "(nat \<Rightarrow> googleServices) \<Rightarrow> string \<Rightarrow> env \<Rightarrow> bool" where
  "served_by_google G clientID E \<longleftrightarrow>
     env_userByCode E = (\<lambda>t code. email_of (GetUserData (G t) code)) \<and>
     env_userByToken E = (\<lambda>t token. email_of (GetUserDataWithToken (G t) token)) \<and>
     env_userByJWT E = (\<lambda>t token. email_of (GetUserDataFromGoogleJWT (G t) clientID token))"

lemma string_claim_Inr [simp]: "string_claim payload name = Inr s \<longleftrightarrow> ip_Claims payload name = Some (StringClaim s)"
  by (auto simp: string_claim_def split: option.split claim.split)

lemma bool_claim_Inr [simp]: "bool_claim payload name = Inr b \<longleftrightarrow> ip_Claims payload name = Some (BoolClaim b)"
  by (auto simp: bool_claim_def split: option.split claim.split)

lemma claim_Inl [simp]:
  "string_claim payload name = Inl e \<longleftrightarrow> e = Panic ''interface conversion'' \<and> (\<forall>s. ip_Claims payload name \<noteq> Some (StringClaim s))"
  "bool_claim payload name = Inl e \<longleftrightarrow> e = Panic ''interface conversion'' \<and> (\<forall>b. ip_Claims payload name \<noteq> Some (BoolClaim b))"
  by (auto simp: string_claim_def bool_claim_def split: option.splits claim.splits)

text \<open>The four claims the code takes for granted.\<close>

definition complete_claims :: "idPayload \<Rightarrow> bool" where
  "complete_claims payload \<longleftrightarrow> (\<exists>email. ip_Claims payload ''email'' = Some (StringClaim email)) \<and>
     (\<exists>b. ip_Claims payload ''email_verified'' = Some (BoolClaim b)) \<and>
     (\<exists>p. ip_Claims payload ''picture'' = Some (StringClaim p)) \<and> (\<exists>d. ip_Claims payload ''hd'' = Some (StringClaim d))"

lemma GetUserDataFromGoogleJWT_complete:
  assumes "gs_Validate G token clientID = Inr payload"
  shows "if complete_claims payload
    then \<exists>d. GetUserDataFromGoogleJWT G clientID token = Inr d \<and> ip_Claims payload ''email'' = Some (StringClaim (ud_Email d))
    else GetUserDataFromGoogleJWT G clientID token = Inl (Panic ''interface conversion'')"
  using assms by (auto simp: GetUserDataFromGoogleJWT_def complete_claims_def split: sum.split)

text \<open>
  C34: the login with an identity token looks at the mail address alone, and takes the other claims for granted. Once Google
  has validated the token, the handler panics exactly if a claim is missing or of another type: a personal Google
  account, whose tokens have no claim \<^verbatim>\<open>hd\<close>, ends the request so. With all four claims the answer is the one for the
  address, whatever \<^verbatim>\<open>email_verified\<close> and \<^verbatim>\<open>hd\<close> say; and a token Google refuses is answered with nothing.
\<close>

theorem identity_login:
  assumes "served_by_google G clientID E"
  shows "generateJwtAuthCode E (Inr token) rq w = (case gs_Validate (G (w_tick w)) token clientID of
      Inl _ \<Rightarrow> (Inr (Reply None), w)
    | Inr payload \<Rightarrow>
        if complete_claims payload
        then bindE (token_for E (string_claim payload ''email'')) (\<lambda>t. retE (Reply t)) w
        else (Inl (Panic ''interface conversion''), w))"
proof -
  have run: "generateJwtAuthCode E (Inr token) rq w =
      bindE (token_for E (email_of (GetUserDataFromGoogleJWT (G (w_tick w)) clientID token))) (\<lambda>t. retE (Reply t)) w"
    using assms by (simp add: generateJwtAuthCode_def served_by_google_def orFailR_def orFail_def onErr_def liftR_def bindE_def getsE_def)
  show ?thesis
  proof (cases "gs_Validate (G (w_tick w)) token clientID")
    case Inl
    then show ?thesis
      by (simp add: run GetUserDataFromGoogleJWT_def email_of_def token_for_def bindE_def retE_def)
  next
    case (Inr payload)
    show ?thesis
    proof (cases "complete_claims payload")
      case True
      with GetUserDataFromGoogleJWT_complete [OF Inr] obtain d
        where "GetUserDataFromGoogleJWT (G (w_tick w)) clientID token = Inr d" "ip_Claims payload ''email'' = Some (StringClaim (ud_Email d))"
        by auto
      then show ?thesis by (simp add: run Inr True email_of_def string_claim_def)
    next
      case False
      with GetUserDataFromGoogleJWT_complete [OF Inr] show ?thesis by (simp add: run Inr False email_of_def token_for_def bindE_def throwE_def)
    qed
  qed
qed

text \<open>An address that is not verified logs in; an account without \<^verbatim>\<open>hd\<close> makes the handler panic.\<close>

definition sample_google :: "bool \<Rightarrow> googleServices" where
  "sample_google personal = \<lparr>gs_Exchange = Inr, gs_Get = (\<lambda>u. Inr (Inr u)), gs_Unmarshal = (\<lambda>_. Inl (Err [])),
     gs_Validate = (\<lambda>_ _. Inr \<lparr>ip_Subject = ''1'', ip_Claims =
       (\<lambda>n. if n = ''email'' then Some (StringClaim ''ana@sinfo.org'') else if n = ''email_verified'' then Some (BoolClaim False)
        else if n = ''picture'' then Some (StringClaim []) else if n = ''hd'' \<and> \<not> personal then Some (StringClaim []) else None)\<rparr>)\<rparr>"

definition google_env :: "bool \<Rightarrow> env" where
  "google_env personal = local_env
     \<lparr>env_userByCode := (\<lambda>_ code. email_of (GetUserData (sample_google personal) code)),
      env_userByToken := (\<lambda>_ token. email_of (GetUserDataWithToken (sample_google personal) token)),
      env_userByJWT := (\<lambda>_ token. email_of (GetUserDataFromGoogleJWT (sample_google personal) ''deck'' token))\<rparr>"

theorem identity_login_witness:
  "generateJwtAuthCode (google_env True) (Inr ''t'') \<lparr>rq_Authorization = [], rq_vars = (\<lambda>_. []), rq_query = (\<lambda>_. []),
      rq_credentials = None\<rparr> empty_world = (Inl (Panic ''interface conversion''), empty_world) \<and>
   generateJwtAuthCode (google_env False) (Inr ''t'') \<lparr>rq_Authorization = [], rq_vars = (\<lambda>_. []), rq_query = (\<lambda>_. []),
      rq_credentials = None\<rparr> empty_world = bindE (token_for (google_env False) (Inr ''ana@sinfo.org'')) (\<lambda>t. retE (Reply t)) empty_world"
proof -
  have served: "served_by_google (\<lambda>_. sample_google personal) ''deck'' (google_env personal)" for personal
    by (simp add: served_by_google_def google_env_def)
  show ?thesis
    unfolding identity_login [OF served] by (auto simp: sample_google_def complete_claims_def string_claim_def)
qed

end
