(* ===== verification/StartUp.thy ===== *)
theory StartUp
  imports Spaces GoStrings
begin

text \<open>
  How the service starts (\<^verbatim>\<open>main.go\<close>, \<^verbatim>\<open>config/config.go\<close>, \<^verbatim>\<open>mongodb/init.go\<close>, \<^verbatim>\<open>spaces/init.go\<close>, and the
  two initialisers of \<^verbatim>\<open>auth/\<close>): reading the configuration, connecting, seeding the item categories, choosing the
  address files are served from. Its state is the record \<open>process\<close>; \<^verbatim>\<open>log.Fatal\<close> is the error \<open>Fatal\<close>. The packages the
  code calls for it (viper, godotenv, the clients of MongoDB, MinIO and DigitalOcean) are parameters, the record \<open>platform\<close>.
\<close>

type_synonym environ = "string \<Rightarrow> string option"

record cdn =
  cdn_Origin :: string
  cdn_CustomDomain :: string

text \<open>
  viper's lookups take the prefix that is set and the environment; \<open>pf_Load\<close> is what loading a file makes of the
  environment, \<open>pf_InsertMany\<close> the error of the command and the documents after it.
\<close>

record platform =
  pf_IsNotExist :: "string \<Rightarrow> bool"
  pf_Load :: "string \<Rightarrow> environ \<Rightarrow> environ"
  pf_IsSet :: "string \<Rightarrow> environ \<Rightarrow> string \<Rightarrow> bool"
  pf_GetString :: "string \<Rightarrow> environ \<Rightarrow> string \<Rightarrow> string"
  pf_GetBool :: "string \<Rightarrow> environ \<Rightarrow> string \<Rightarrow> bool"
  pf_NewClient :: "string \<Rightarrow> err option"
  pf_Connect :: "err option"
  pf_Ping :: "err option"
  pf_CountDocuments :: "itemCategory list \<Rightarrow> err + nat"
  pf_InsertMany :: "string list \<Rightarrow> itemCategory list \<Rightarrow> err option \<times> itemCategory list"
  pf_CDNs :: "string \<Rightarrow> err + cdn list"
  pf_minio :: "string \<Rightarrow> string \<Rightarrow> string \<Rightarrow> err option"
  pf_BucketExists :: "string \<Rightarrow> err + bool"

section \<open>The state of the process\<close>

record config =
  cf_Testing :: bool
  cf_Authentication :: bool
  cf_Production :: bool
  cf_Host :: string
  cf_Port :: string
  cf_CallBackURL :: string
  cf_DatabaseURI :: string
  cf_DatabaseName :: string
  cf_GoogleOAuthClientID :: string
  cf_GoogleOAuthClientSecret :: string
  cf_JWTSecret :: string
  cf_DOPAT :: string
  cf_SpacesName :: string
  cf_SpacesSecret :: string
  cf_SpacesKey :: string
  cf_AuthRedirectionURL :: string

text \<open>The values the variables of the package have before anything runs.\<close>

definition initial_config :: config where
  "initial_config = \<lparr>cf_Testing = False, cf_Authentication = True, cf_Production = False, cf_Host = ''localhost'',
     cf_Port = ''8080'', cf_CallBackURL = ''http://localhost:8080'', cf_DatabaseURI = ''mongodb://localhost:27017'',
     cf_DatabaseName = ''deck2'', cf_GoogleOAuthClientID = [], cf_GoogleOAuthClientSecret = [], cf_JWTSecret = [],
     cf_DOPAT = [], cf_SpacesName = [], cf_SpacesSecret = [], cf_SpacesKey = [], cf_AuthRedirectionURL = []\<rparr>"

record spaces =
  spc_accessKey :: string
  spc_secret :: string
  spc_name :: string
  spc_endpoint :: string
  spc_cdnBaseURL :: string
  spc_pat :: string
  spc_basePath :: string

record oauthConfig =
  oc_RedirectURL :: string
  oc_ClientID :: string
  oc_ClientSecret :: string

record process =
  pr_environ :: environ
  pr_config :: config
  pr_spaces :: spaces
  pr_OauthConfig :: "oauthConfig option"
  pr_jwtSecret :: string
  pr_world :: world

section \<open>The configuration\<close>

definition keyPrefix :: string where
  "keyPrefix = ''DECK2''"

text \<open>\<^verbatim>\<open>set\<close> and \<^verbatim>\<open>setBool\<close>; \<open>assign\<close> is the variable the pointer names. The prefix is set when they are called.\<close>

definition config_set :: "platform \<Rightarrow> (string \<Rightarrow> config \<Rightarrow> config) \<Rightarrow> string \<Rightarrow> bool \<Rightarrow> (process, unit) smonad" where
  "config_set P assign key mandatory =
     bindE (getsE pr_environ) (\<lambda>env.
     if pf_IsSet P keyPrefix env (keyPrefix @ ''_'' @ key) then
       modifyE (pr_config_update (assign (pf_GetString P keyPrefix env (keyPrefix @ ''_'' @ key))))
     else if pf_IsSet P keyPrefix env key then modifyE (pr_config_update (assign (pf_GetString P keyPrefix env key)))
     else if mandatory then throwE (Fatal (key @ '' not set''))
     else retE ())"

definition config_setBool :: "platform \<Rightarrow> (bool \<Rightarrow> config \<Rightarrow> config) \<Rightarrow> string \<Rightarrow> bool \<Rightarrow> (process, unit) smonad" where
  "config_setBool P assign key mandatory =
     bindE (getsE pr_environ) (\<lambda>env.
     if pf_IsSet P keyPrefix env (keyPrefix @ ''_'' @ key) then
       modifyE (pr_config_update (assign (pf_GetBool P keyPrefix env (keyPrefix @ ''_'' @ key))))
     else if pf_IsSet P keyPrefix env key then modifyE (pr_config_update (assign (pf_GetBool P keyPrefix env key)))
     else if mandatory then throwE (Fatal (key @ '' not set''))
     else retE ())"

definition InitializeConfig :: "platform \<Rightarrow> string option \<Rightarrow> (process, unit) smonad" where
  "InitializeConfig P filename =
     (let file = (case filename of None \<Rightarrow> False | Some f \<Rightarrow> f \<noteq> []) in
     bindE (if file
         then bindE (deref filename) (\<lambda>f. if pf_IsNotExist P f then retE () else modifyE (pr_environ_update (pf_Load P f)))
         else retE ()) (\<lambda>_.
     bindE (config_set P (\<lambda>v c. c\<lparr>cf_Host := v\<rparr>) ''HOST'' False) (\<lambda>_.
     bindE (config_set P (\<lambda>v c. c\<lparr>cf_Port := v\<rparr>) ''PORT'' False) (\<lambda>_.
     bindE (config_set P (\<lambda>v c. c\<lparr>cf_DatabaseURI := v\<rparr>) ''DB_URL'' False) (\<lambda>_.
     bindE (config_set P (\<lambda>v c. c\<lparr>cf_DatabaseName := v\<rparr>) ''DB_NAME'' False) (\<lambda>_.
     bindE (config_set P (\<lambda>v c. c\<lparr>cf_CallBackURL := v\<rparr>) ''CALLBACK_URL'' False) (\<lambda>_.
     bindE (config_set P (\<lambda>v c. c\<lparr>cf_GoogleOAuthClientID := v\<rparr>) ''GOOGLE_OAUTH_CLIENT_ID'' True) (\<lambda>_.
     bindE (config_set P (\<lambda>v c. c\<lparr>cf_GoogleOAuthClientSecret := v\<rparr>) ''GOOGLE_OAUTH_CLIENT_SECRET'' True) (\<lambda>_.
     bindE (config_set P (\<lambda>v c. c\<lparr>cf_JWTSecret := v\<rparr>) ''JWT_SECRET'' True) (\<lambda>_.
     bindE (config_set P (\<lambda>v c. c\<lparr>cf_DOPAT := v\<rparr>) ''DO_PAT'' True) (\<lambda>_.
     bindE (config_set P (\<lambda>v c. c\<lparr>cf_SpacesName := v\<rparr>) ''DO_SPACES_NAME'' True) (\<lambda>_.
     bindE (config_set P (\<lambda>v c. c\<lparr>cf_SpacesKey := v\<rparr>) ''DO_SPACES_KEY'' True) (\<lambda>_.
     bindE (config_set P (\<lambda>v c. c\<lparr>cf_SpacesSecret := v\<rparr>) ''DO_SPACES_SECRET'' True) (\<lambda>_.
     bindE (config_set P (\<lambda>v c. c\<lparr>cf_AuthRedirectionURL := v\<rparr>) ''AUTH_REDIRECTION_URL'' True) (\<lambda>_.
     config_setBool P (\<lambda>v c. c\<lparr>cf_Production := v\<rparr>) ''PRODUCTION'' False)))))))))))))))"

definition SetTestingEnv :: "(process, unit) smonad" where
  "SetTestingEnv = modifyE (pr_config_update (\<lambda>c. c\<lparr>cf_Testing := True, cf_Authentication := False,
     cf_DatabaseName := ''deck2_testing''\<rparr>))"

section \<open>Login, database, file storage\<close>

definition InitializeOAuth2 :: "(process, unit) smonad" where
  "InitializeOAuth2 = modifyE (\<lambda>p. p\<lparr>pr_OauthConfig := Some
     \<lparr>oc_RedirectURL = cf_CallBackURL (pr_config p) @ ''/auth/callback'',
      oc_ClientID = cf_GoogleOAuthClientID (pr_config p), oc_ClientSecret = cf_GoogleOAuthClientSecret (pr_config p)\<rparr>\<rparr>)"

definition InitializeJWT :: "(process, unit) smonad" where
  "InitializeJWT = modifyE (\<lambda>p. p\<lparr>pr_jwtSecret := cf_JWTSecret (pr_config p)\<rparr>)"

definition fatal_if :: "string \<Rightarrow> err option \<Rightarrow> (process, unit) smonad" where
  "fatal_if msg r = (case r of None \<Rightarrow> retE () | Some e \<Rightarrow> throwE (Fatal (msg @ err_text e)))"

definition defaultCats :: "string list" where
  "defaultCats = [''Publicity'', ''Merchandise'', ''Stands'', ''Talk'', ''Sponsorship'', ''Service'', ''Other'']"

text \<open>The default categories are inserted when there are none; what fails is logged.\<close>

definition seed_categories :: "platform \<Rightarrow> (process, unit) smonad" where
  "seed_categories P =
     bindE (getsE (\<lambda>p. w_categories (pr_world p))) (\<lambda>stored.
     case pf_CountDocuments P stored of
       Inl _ \<Rightarrow> retE ()
     | Inr cnt \<Rightarrow>
         if cnt = 0
         then modifyE (\<lambda>p. p\<lparr>pr_world := (pr_world p)\<lparr>w_categories := snd (pf_InsertMany P defaultCats stored)\<rparr>\<rparr>)
         else retE ())"

definition InitializeDatabase :: "platform \<Rightarrow> (process, unit) smonad" where
  "InitializeDatabase P =
     bindE (getsE pr_config) (\<lambda>c.
     bindE (fatal_if [] (pf_NewClient P (cf_DatabaseURI c))) (\<lambda>_.
     bindE (fatal_if [] (pf_Connect P)) (\<lambda>_.
     bindE (fatal_if [] (pf_Ping P)) (\<lambda>_.
     seed_categories P))))"

text \<open>The last CDN whose origin contains the name of the bucket wins.\<close>

fun choose_cdn :: "string \<Rightarrow> cdn list \<Rightarrow> string \<times> string \<Rightarrow> string \<times> string" where
  "choose_cdn name [] (endpoint, cdnBaseURL) = (endpoint, cdnBaseURL)"
| "choose_cdn name (cdn # cdns) (endpoint, cdnBaseURL) = choose_cdn name cdns
     (if Contains (cdn_Origin cdn) name then
        let endpoint = (if HasPrefix (cdn_Origin cdn) (name @ ''.'') then drop (length name + 1) (cdn_Origin cdn)
                        else cdn_Origin cdn) in
        (endpoint, if cdn_CustomDomain cdn \<noteq> [] then cdn_CustomDomain cdn else name @ ''.'' @ endpoint)
      else (endpoint, cdnBaseURL))"

definition InitializeSpaces :: "platform \<Rightarrow> (process, unit) smonad" where
  "InitializeSpaces P =
     bindE (modifyE (\<lambda>p. p\<lparr>pr_spaces := (pr_spaces p)\<lparr>spc_accessKey := cf_SpacesKey (pr_config p),
         spc_secret := cf_SpacesSecret (pr_config p), spc_name := cf_SpacesName (pr_config p)\<rparr>\<rparr>)) (\<lambda>_.
     bindE (modifyE (\<lambda>p. if \<not> cf_Production (pr_config p)
         then p\<lparr>pr_spaces := (pr_spaces p)\<lparr>spc_basePath := ''deck2-dev''\<rparr>\<rparr> else p)) (\<lambda>_.
     bindE (modifyE (\<lambda>p. p\<lparr>pr_spaces := (pr_spaces p)\<lparr>spc_pat := cf_DOPAT (pr_config p)\<rparr>\<rparr>)) (\<lambda>_.
     bindE (getsE pr_spaces) (\<lambda>s.
     case pf_CDNs P (spc_pat s) of
       Inl e \<Rightarrow> throwE (Fatal (''failed listing DigitalOcean CDNs: '' @ err_text e))
     | Inr cdns \<Rightarrow>
         if length cdns = 0 then throwE (Fatal ''no CDNs returned by DigitalOcean for token owner'')
         else
           let (endpoint, cdnBaseURL) = choose_cdn (spc_name s) cdns (spc_endpoint s, spc_cdnBaseURL s) in
           bindE (modifyE (\<lambda>p. p\<lparr>pr_spaces := (pr_spaces p)\<lparr>spc_endpoint := endpoint, spc_cdnBaseURL := cdnBaseURL\<rparr>\<rparr>)) (\<lambda>_.
           if cdnBaseURL = [] \<or> endpoint = [] then throwE (Fatal (''no CDN or endpoint found for Spaces bucket '' @ spc_name s))
           else
             bindE (fatal_if ''failed initializing MinIO client: '' (pf_minio P endpoint (spc_accessKey s) (spc_secret s))) (\<lambda>_.
             case pf_BucketExists P (spc_name s) of
               Inl e \<Rightarrow> throwE (Fatal (''error checking bucket existence: '' @ err_text e))
             | Inr existing \<Rightarrow> if \<not> existing then throwE (Fatal ''missing bucket'') else retE ()))))))"

text \<open>From the flags to the point where requests are served.\<close>

definition main :: "platform \<Rightarrow> bool \<Rightarrow> string \<Rightarrow> (process, unit) smonad" where
  "main P production file =
     bindE (InitializeConfig P (Some file)) (\<lambda>_.
     bindE (if production then modifyE (pr_config_update (\<lambda>c. c\<lparr>cf_Production := True\<rparr>)) else retE ()) (\<lambda>_.
     onErr InitializeOAuth2 (\<lambda>e. throwE (Fatal (err_text e))) (\<lambda>_.
     bindE InitializeJWT (\<lambda>_.
     bindE (InitializeDatabase P) (\<lambda>_.
     InitializeSpaces P)))))"

text \<open>The values the package variables of \<^verbatim>\<open>spaces/\<close> and the others have before anything runs.\<close>

definition fresh_process :: "environ \<Rightarrow> world \<Rightarrow> process" where
  "fresh_process env w = \<lparr>pr_environ = env, pr_config = initial_config,
     pr_spaces = \<lparr>spc_accessKey = [], spc_secret = [], spc_name = [], spc_endpoint = [], spc_cdnBaseURL = [],
       spc_pat = [], spc_basePath = ''deck2''\<rparr>,
     pr_OauthConfig = None, pr_jwtSecret = [], pr_world = w\<rparr>"

end
