(* ===== verification/StartUpProperties.thy ===== *)
theory StartUpProperties
  imports StartUp
begin

text \<open>What holds of a service that has started: what it was configured with, where files go, what it did to the database.\<close>

section \<open>The configuration\<close>

text \<open>The value of a key: of the variable with the prefix, or else without.\<close>

definition read_key :: "platform \<Rightarrow> (string \<Rightarrow> environ \<Rightarrow> string \<Rightarrow> 'v) \<Rightarrow> environ \<Rightarrow> string \<Rightarrow> 'v option" where
  "read_key P getv env key =
     (if pf_IsSet P keyPrefix env (keyPrefix @ ''_'' @ key) then Some (getv keyPrefix env (keyPrefix @ ''_'' @ key))
      else if pf_IsSet P keyPrefix env key then Some (getv keyPrefix env key) else None)"

abbreviation read_string :: "platform \<Rightarrow> environ \<Rightarrow> string \<Rightarrow> string option" where
  "read_string P \<equiv> read_key P (pf_GetString P)"

lemma wp_config_set [simp]:
  "wp (config_set P assign key m) Q R p = (case read_string P (pr_environ p) key of
     Some v \<Rightarrow> Q () (pr_config_update (assign v) p)
   | None \<Rightarrow> if m then R (Fatal (key @ '' not set'')) p else Q () p)"
  by (simp add: config_set_def read_key_def)

lemma wp_config_setBool [simp]:
  "wp (config_setBool P assign key m) Q R p = (case read_key P (pf_GetBool P) (pr_environ p) key of
     Some v \<Rightarrow> Q () (pr_config_update (assign v) p)
   | None \<Rightarrow> if m then R (Fatal (key @ '' not set'')) p else Q () p)"
  by (simp add: config_setBool_def read_key_def)

definition mandatory_keys :: "string list" where
  "mandatory_keys = [''GOOGLE_OAUTH_CLIENT_ID'', ''GOOGLE_OAUTH_CLIENT_SECRET'', ''JWT_SECRET'', ''DO_PAT'',
     ''DO_SPACES_NAME'', ''DO_SPACES_KEY'', ''DO_SPACES_SECRET'', ''AUTH_REDIRECTION_URL'']"

definition missing_keys :: "platform \<Rightarrow> environ \<Rightarrow> string list" where
  "missing_keys P env = filter (\<lambda>k. read_string P env k = None) mandatory_keys"

definition or_else :: "'v option \<Rightarrow> 'v \<Rightarrow> 'v" where
  "or_else r old = (case r of Some v \<Rightarrow> v | None \<Rightarrow> old)"

lemma or_else_simps [simp]: "or_else (Some v) old = v" "or_else None old = old"
  by (simp_all add: or_else_def)

definition configured :: "platform \<Rightarrow> environ \<Rightarrow> config \<Rightarrow> config" where
  "configured P env c = c\<lparr>
     cf_Production := or_else (read_key P (pf_GetBool P) env ''PRODUCTION'') (cf_Production c),
     cf_Host := or_else (read_string P env ''HOST'') (cf_Host c),
     cf_Port := or_else (read_string P env ''PORT'') (cf_Port c),
     cf_CallBackURL := or_else (read_string P env ''CALLBACK_URL'') (cf_CallBackURL c),
     cf_DatabaseURI := or_else (read_string P env ''DB_URL'') (cf_DatabaseURI c),
     cf_DatabaseName := or_else (read_string P env ''DB_NAME'') (cf_DatabaseName c),
     cf_GoogleOAuthClientID := or_else (read_string P env ''GOOGLE_OAUTH_CLIENT_ID'') (cf_GoogleOAuthClientID c),
     cf_GoogleOAuthClientSecret := or_else (read_string P env ''GOOGLE_OAUTH_CLIENT_SECRET'') (cf_GoogleOAuthClientSecret c),
     cf_JWTSecret := or_else (read_string P env ''JWT_SECRET'') (cf_JWTSecret c),
     cf_DOPAT := or_else (read_string P env ''DO_PAT'') (cf_DOPAT c),
     cf_SpacesName := or_else (read_string P env ''DO_SPACES_NAME'') (cf_SpacesName c),
     cf_SpacesSecret := or_else (read_string P env ''DO_SPACES_SECRET'') (cf_SpacesSecret c),
     cf_SpacesKey := or_else (read_string P env ''DO_SPACES_KEY'') (cf_SpacesKey c),
     cf_AuthRedirectionURL := or_else (read_string P env ''AUTH_REDIRECTION_URL'') (cf_AuthRedirectionURL c)\<rparr>"

definition loaded :: "platform \<Rightarrow> string \<Rightarrow> environ \<Rightarrow> environ" where
  "loaded P file env = (if file \<noteq> [] \<and> \<not> pf_IsNotExist P file then pf_Load P file env else env)"

text \<open>An optional variable that is not set keeps its value; the first mandatory one that is not set ends the process.\<close>

lemma config_same [simp]: "pr_config_update (\<lambda>c. c) p = p"
  by (cases p) simp

lemma optional_fields:
  "(case r of None \<Rightarrow> c | Some v \<Rightarrow> c\<lparr>cf_Host := v\<rparr>) = c\<lparr>cf_Host := or_else r (cf_Host c)\<rparr>"
  "(case r of None \<Rightarrow> c | Some v \<Rightarrow> c\<lparr>cf_Port := v\<rparr>) = c\<lparr>cf_Port := or_else r (cf_Port c)\<rparr>"
  "(case r of None \<Rightarrow> c | Some v \<Rightarrow> c\<lparr>cf_DatabaseURI := v\<rparr>) = c\<lparr>cf_DatabaseURI := or_else r (cf_DatabaseURI c)\<rparr>"
  "(case r of None \<Rightarrow> c | Some v \<Rightarrow> c\<lparr>cf_DatabaseName := v\<rparr>) = c\<lparr>cf_DatabaseName := or_else r (cf_DatabaseName c)\<rparr>"
  "(case r of None \<Rightarrow> c | Some v \<Rightarrow> c\<lparr>cf_CallBackURL := v\<rparr>) = c\<lparr>cf_CallBackURL := or_else r (cf_CallBackURL c)\<rparr>"
  "(case b of None \<Rightarrow> c | Some v \<Rightarrow> c\<lparr>cf_Production := v\<rparr>) = c\<lparr>cf_Production := or_else b (cf_Production c)\<rparr>"
  by (cases c; simp split: option.split)+

lemma wp_set_optional:
  "wp (config_set P assign key False) Q R p = Q () (pr_config_update (\<lambda>c. case read_string P (pr_environ p) key of
     Some v \<Rightarrow> assign v c | None \<Rightarrow> c) p)"
  by (simp split: option.split)

lemma wp_setBool_optional:
  "wp (config_setBool P assign key False) Q R p = Q () (pr_config_update (\<lambda>c. case read_key P (pf_GetBool P) (pr_environ p) key of
     Some v \<Rightarrow> assign v c | None \<Rightarrow> c) p)"
  by (simp split: option.split)

lemma wp_set_mandatory:
  "wp (config_set P assign key True) Q R p = (case read_string P (pr_environ p) key of
     Some v \<Rightarrow> Q () (pr_config_update (assign v) p) | None \<Rightarrow> R (Fatal (key @ '' not set'')) p)"
  by (simp split: option.split)

lemma wp_load:
  "wp (if file \<noteq> [] then bindE (deref (Some file)) (\<lambda>f. if pf_IsNotExist P f then retE () else modifyE (pr_environ_update (pf_Load P f)))
      else retE ()) Q R p = Q () (p\<lparr>pr_environ := loaded P file (pr_environ p)\<rparr>)"
  by (cases p) (simp add: loaded_def deref_def)

lemma wp_InitializeConfig:
  assumes "\<And>p'. missing_keys P (loaded P file (pr_environ p)) = [] \<Longrightarrow>
      p' = p\<lparr>pr_environ := loaded P file (pr_environ p), pr_config := configured P (loaded P file (pr_environ p)) (pr_config p)\<rparr> \<Longrightarrow> Q () p'"
    and "\<And>p' e. missing_keys P (loaded P file (pr_environ p)) \<noteq> [] \<Longrightarrow>
      e = Fatal (hd (missing_keys P (loaded P file (pr_environ p))) @ '' not set'') \<Longrightarrow> pr_world p' = pr_world p \<Longrightarrow> R e p'"
  shows "wp (InitializeConfig P (Some file)) Q R p"
  unfolding InitializeConfig_def Let_def option.case wp_bindE wp_load
    wp_set_optional wp_setBool_optional wp_set_mandatory
  by (auto simp: optional_fields missing_keys_def mandatory_keys_def configured_def intro!: assms split: option.splits)

section \<open>Which variables count\<close>

text \<open>viper's documentation: with a prefix set, a key in upper case is the variable that has the prefix and \<open>_\<close> before it; an empty one is not set.\<close>

definition upper_key :: "string \<Rightarrow> bool" where
  "upper_key key \<longleftrightarrow> set key \<inter> set lower_letters = {}"

definition viper_documented :: "platform \<Rightarrow> bool" where
  "viper_documented P \<longleftrightarrow> (\<forall>prefix env key. upper_key prefix \<and> upper_key key \<longrightarrow>
     (pf_IsSet P prefix env key \<longleftrightarrow> (\<exists>v. env (prefix @ ''_'' @ key) = Some v \<and> v \<noteq> [])) \<and>
     (\<forall>v. env (prefix @ ''_'' @ key) = Some v \<and> v \<noteq> [] \<longrightarrow> pf_GetString P prefix env key = v))"

text \<open>
  The lookup with the prefix adds it twice, the one without adds it once: \<^verbatim>\<open>HOST\<close> is read from \<^verbatim>\<open>DECK2_DECK2_HOST\<close> or
  \<^verbatim>\<open>DECK2_HOST\<close>, and a variable \<^verbatim>\<open>HOST\<close> is never looked at.
\<close>

lemma prefixed_variables_only:
  assumes "viper_documented P" and "upper_key key"
  shows "read_string P env key = (case env (''DECK2_DECK2_'' @ key) of
      Some v \<Rightarrow> if v \<noteq> [] then Some v else (case env (''DECK2_'' @ key) of Some [] \<Rightarrow> None | r \<Rightarrow> r)
    | None \<Rightarrow> (case env (''DECK2_'' @ key) of Some [] \<Rightarrow> None | r \<Rightarrow> r))"
proof -
  have "upper_key keyPrefix" "upper_key (keyPrefix @ ''_'' @ key)"
    using assms(2) by (auto simp: upper_key_def keyPrefix_def lower_letters_def)
  with assms show ?thesis
    unfolding viper_documented_def read_key_def
    by (auto simp: keyPrefix_def split: option.split list.split)
qed

section \<open>The address of the files\<close>

definition cdn_addresses :: "string \<Rightarrow> cdn \<Rightarrow> string \<times> string" where
  "cdn_addresses name d =
     (let endpoint = (if HasPrefix (cdn_Origin d) (name @ ''.'') then drop (length name + 1) (cdn_Origin d) else cdn_Origin d) in
      (endpoint, if cdn_CustomDomain d \<noteq> [] then cdn_CustomDomain d else name @ ''.'' @ endpoint))"

lemma choose_cdn_last:
  "choose_cdn name ds start = (let ms = filter (\<lambda>d. Contains (cdn_Origin d) name) ds in
     if ms = [] then start else cdn_addresses name (last ms))"
proof (induction ds arbitrary: start)
  case Nil
  then show ?case by (cases start) simp
next
  case (Cons d ds)
  show ?case
  proof (cases start)
    case (Pair e c)
    show ?thesis by (simp add: Pair Cons.IH Let_def cdn_addresses_def)
  qed
qed

text \<open>A bucket is served from the address of another whose name contains its own, if that comes last.\<close>

lemma other_bucket:
  "choose_cdn ''deck'' [\<lparr>cdn_Origin = ''deck.fra1'', cdn_CustomDomain = []\<rparr>, \<lparr>cdn_Origin = ''olddeck.fra1'', cdn_CustomDomain = ''old.org''\<rparr>]
     ([], []) = (''olddeck.fra1'', ''old.org'')"
  by code_simp

section \<open>Starting\<close>

text \<open>
  What MongoDB documents of the two commands of the seeding: a count counts the documents, and an ordered insertion
  of many adds documents for the names, in order, up to the first that fails.
\<close>

definition seeding_documented :: "platform \<Rightarrow> bool" where
  "seeding_documented P \<longleftrightarrow> (\<forall>ds n. pf_CountDocuments P ds = Inr n \<longrightarrow> n = length ds) \<and>
     (\<forall>ns ds. \<exists>k new. snd (pf_InsertMany P ns ds) = ds @ new \<and> map cat_Name new = take k ns \<and>
        (fst (pf_InsertMany P ns ds) = None \<longrightarrow> k = length ns))"

text \<open>The categories are those stored, or, if none were, an initial part of the default ones.\<close>

definition seeded :: "world \<Rightarrow> world \<Rightarrow> bool" where
  "seeded w w' \<longleftrightarrow> w' = w \<or> w_categories w = [] \<and> (\<exists>k new. w' = w\<lparr>w_categories := new\<rparr> \<and> map cat_Name new = take k defaultCats)"

lemma seeded_refl [simp]: "seeded w w"
  by (simp add: seeded_def)

lemma wp_InitializeDatabase:
  assumes "seeding_documented P"
    and "\<And>w'. seeded (pr_world p) w' \<Longrightarrow> Q () (p\<lparr>pr_world := w'\<rparr>)" and "\<And>msg. R (Fatal msg) p"
  shows "wp (InitializeDatabase P) Q R p"
proof -
  have same: "Q () p" using assms(2) [of "pr_world p"] by simp
  have fresh: "Q () (p\<lparr>pr_world := (pr_world p)\<lparr>w_categories := snd (pf_InsertMany P defaultCats (w_categories (pr_world p)))\<rparr>\<rparr>)"
    if "pf_CountDocuments P (w_categories (pr_world p)) = Inr 0"
  proof (rule assms(2))
    from that assms(1) have "0 = length (w_categories (pr_world p))" unfolding seeding_documented_def by blast
    then have "w_categories (pr_world p) = []" by simp
    with assms(1) show "seeded (pr_world p) ((pr_world p)\<lparr>w_categories := snd (pf_InsertMany P defaultCats (w_categories (pr_world p)))\<rparr>)"
      unfolding seeded_def seeding_documented_def by (metis append_Nil)
  qed
  show ?thesis
    using same fresh assms(3)
    by (auto simp: InitializeDatabase_def fatal_if_def seed_categories_def split: option.split sum.split)
qed

text \<open>What a started service keeps: \<open>c\<close> is its configuration.\<close>

definition spaces_of :: "platform \<Rightarrow> config \<Rightarrow> spaces \<Rightarrow> bool" where
  "spaces_of P c s \<longleftrightarrow> spc_name s = cf_SpacesName c \<and> spc_basePath s = (if cf_Production c then ''deck2'' else ''deck2-dev'') \<and>
     (\<exists>ds ms. pf_CDNs P (cf_DOPAT c) = Inr ds \<and> ms = filter (\<lambda>d. Contains (cdn_Origin d) (cf_SpacesName c)) ds \<and> ms \<noteq> [] \<and>
       (spc_endpoint s, spc_cdnBaseURL s) = cdn_addresses (cf_SpacesName c) (last ms)) \<and>
     spc_endpoint s \<noteq> [] \<and> spc_cdnBaseURL s \<noteq> [] \<and> pf_BucketExists P (cf_SpacesName c) = Inr True"

lemma wp_InitializeSpaces:
  assumes "spc_basePath (pr_spaces p) = ''deck2''" and "spc_endpoint (pr_spaces p) = []" and "spc_cdnBaseURL (pr_spaces p) = []"
    and "\<And>s. spaces_of P (pr_config p) s \<Longrightarrow> Q () (p\<lparr>pr_spaces := s\<rparr>)" and "\<And>msg s. R (Fatal msg) (p\<lparr>pr_spaces := s\<rparr>)"
  shows "wp (InitializeSpaces P) Q R p"
proof -
  obtain env c s oc js w where p: "p = \<lparr>pr_environ = env, pr_config = c, pr_spaces = s, pr_OauthConfig = oc, pr_jwtSecret = js, pr_world = w\<rparr>"
    by (cases p) auto
  have found: "filter (\<lambda>d. Contains (cdn_Origin d) name) ds \<noteq> []"
    if "choose_cdn name ds ([], []) = (e, u)" "u \<noteq> []" for name ds e u
    using that by (auto simp: choose_cdn_last Let_def split: if_splits)
  have last: "cdn_addresses name (last (filter (\<lambda>d. Contains (cdn_Origin d) name) ds)) = (e, u)"
    if "choose_cdn name ds ([], []) = (e, u)" "u \<noteq> []" for name ds e u
    using that by (auto simp: choose_cdn_last Let_def split: if_splits)
  show ?thesis
    using assms found last
    by (auto simp: p InitializeSpaces_def fatal_if_def spaces_of_def Let_def split: sum.split option.split prod.split)
qed

text \<open>
  C31: a service that starts is configured and has its checks on. Whatever the environment, the file and the answers of
  the platform, \<open>main\<close> either ends in a fatal error or goes on to serve requests, and then every mandatory key was set, the
  configuration is what the variables say (the flag for production may only switch it on), requests are authenticated,
  tokens are signed with the secret and logins use the client that were read, files go under \<^verbatim>\<open>deck2\<close> in production and \<^verbatim>\<open>deck2-dev\<close>
  otherwise, at the address of the last CDN whose origin contains the name of the bucket, which exists. The documents are those stored
  before, but for the categories, which are seeded if there were none. A key that is missing ends the
  process, naming the first such key, before the database is touched.
\<close>

theorem started_service:
  assumes "seeding_documented P"
  shows "wp (main P production file)
    (\<lambda>_ p'. missing_keys P (loaded P file env) = [] \<and>
      (\<exists>c. c = configured P (loaded P file env) initial_config \<and>
        pr_config p' = (if production then c\<lparr>cf_Production := True\<rparr> else c)) \<and>
      cf_Authentication (pr_config p') \<and> pr_jwtSecret p' = cf_JWTSecret (pr_config p') \<and>
      map_option oc_ClientID (pr_OauthConfig p') = Some (cf_GoogleOAuthClientID (pr_config p')) \<and>
      spaces_of P (pr_config p') (pr_spaces p') \<and> seeded w (pr_world p'))
    (\<lambda>e p'. \<exists>msg. e = Fatal msg \<and> seeded w (pr_world p') \<and>
      (case missing_keys P (loaded P file env) of [] \<Rightarrow> True | k # _ \<Rightarrow> msg = k @ '' not set'' \<and> pr_world p' = w))
    (fresh_process env w)"
  unfolding main_def wp_bindE
proof (rule wp_InitializeConfig, goal_cases)
  case (1 p')
  then show ?case
    by (auto simp: InitializeOAuth2_def InitializeJWT_def fresh_process_def initial_config_def configured_def
        intro!: wp_InitializeDatabase [OF assms] wp_InitializeSpaces)
next
  case (2 p' e)
  then show ?case by (auto simp: fresh_process_def neq_Nil_conv)
qed

text \<open>A platform on which everything works, with the variables of the test set-up and an empty database.\<close>

definition local_platform :: platform where
  "local_platform = \<lparr>pf_IsNotExist = (\<lambda>_. True), pf_Load = (\<lambda>_ env. env),
     pf_IsSet = (\<lambda>prefix env key. env (prefix @ ''_'' @ key) \<notin> {None, Some []}),
     pf_GetString = (\<lambda>prefix env key. case env (prefix @ ''_'' @ key) of None \<Rightarrow> [] | Some v \<Rightarrow> v),
     pf_GetBool = (\<lambda>prefix env key. env (prefix @ ''_'' @ key) = Some ''true''),
     pf_NewClient = (\<lambda>_. None), pf_Connect = None, pf_Ping = None, pf_CountDocuments = (\<lambda>ds. Inr (length ds)),
     pf_InsertMany = (\<lambda>ns ds. (None, ds @ map (\<lambda>n. \<lparr>cat_ID = 1, cat_Name = n\<rparr>) ns)),
     pf_CDNs = (\<lambda>_. Inr [\<lparr>cdn_Origin = ''name.fra1'', cdn_CustomDomain = []\<rparr>]), pf_minio = (\<lambda>_ _ _. None),
     pf_BucketExists = (\<lambda>_. Inr True)\<rparr>"

definition test_environ :: "string list \<Rightarrow> environ" where
  "test_environ keys = (\<lambda>v. if v \<in> (\<lambda>k. ''DECK2_'' @ k) ` set keys then Some ''name'' else None)"

lemma local_platform_documented: "seeding_documented local_platform" "viper_documented local_platform"
  by (auto simp: seeding_documented_def viper_documented_def local_platform_def comp_def intro!: exI [of _ "length _"]
      split: option.split)

theorem started_service_witness:
  "(case main local_platform False ''.env'' (fresh_process (test_environ mandatory_keys) empty_world) of
      (Inr _, p') \<Rightarrow> pr_jwtSecret p' = cf_JWTSecret (pr_config p') \<and> cf_Authentication (pr_config p') \<and>
        spaces_of local_platform (pr_config p') (pr_spaces p')
    | _ \<Rightarrow> False) \<and>
   (case main local_platform False ''.env'' (fresh_process (test_environ (tl mandatory_keys)) empty_world) of
      (Inl e, p') \<Rightarrow> e = Fatal ''GOOGLE_OAUTH_CLIENT_ID not set'' \<and> pr_world p' = empty_world | _ \<Rightarrow> False)"
proof
  let ?start = "fresh_process (test_environ mandatory_keys) empty_world"
  have runs: "case fst (main local_platform False ''.env'' ?start) of Inr _ \<Rightarrow> True | Inl _ \<Rightarrow> False"
    by code_simp
  obtain r p' where run: "main local_platform False ''.env'' ?start = (r, p')" by fastforce
  with runs have r: "r = Inr ()" by (auto split: sum.splits)
  from started_service [OF local_platform_documented(1), of False "''.env''" "test_environ mandatory_keys" empty_world]
  show "case main local_platform False ''.env'' ?start of
      (Inr _, p') \<Rightarrow> pr_jwtSecret p' = cf_JWTSecret (pr_config p') \<and> cf_Authentication (pr_config p') \<and>
        spaces_of local_platform (pr_config p') (pr_spaces p')
    | _ \<Rightarrow> False"
    unfolding wp_def run r prod.case sum.case by blast
next
  let ?start = "fresh_process (test_environ (tl mandatory_keys)) empty_world"
  have missing: "missing_keys local_platform (loaded local_platform ''.env'' (test_environ (tl mandatory_keys))) =
      [''GOOGLE_OAUTH_CLIENT_ID'']"
    by code_simp
  obtain r p' where run: "main local_platform False ''.env'' ?start = (r, p')" by fastforce
  from started_service [OF local_platform_documented(1), of False "''.env''" "test_environ (tl mandatory_keys)" empty_world]
  show "case main local_platform False ''.env'' ?start of
      (Inl e, p') \<Rightarrow> e = Fatal ''GOOGLE_OAUTH_CLIENT_ID not set'' \<and> pr_world p' = empty_world | _ \<Rightarrow> False"
    unfolding wp_def run missing by (cases r) auto
qed

text \<open>Starting a second time, or another instance on the same database, adds no categories to those there are.\<close>

lemma seeded_once: "seeded w v \<Longrightarrow> w_categories v \<noteq> [] \<Longrightarrow> seeded v u \<Longrightarrow> u = v"
  by (auto simp: seeded_def)

text \<open>The directory the handlers store files under (theory Spaces) is the one that was set up.\<close>

lemma basePath_agrees: "spaces_of P c s \<Longrightarrow> env_production E = cf_Production c \<Longrightarrow> spc_basePath s = basePath E"
  by (auto simp: spaces_of_def basePath_def)

end
