(* ===== verification/Spec2Isabelle.thy ===== *)
theory Spec2Isabelle
  imports PublicCompanies PublicSpeakers SpeakerProperties PublicSessions Catalogue Billing
    CommunicationProperties TeamProperties MemberProperties HttpProperties Routes Templates
    CompanyHandlers SpeakerHandlers EventHandlers TeamHandlers MemberHandlers
    CommunicationHandlers CatalogueHandlers ServiceInvariant ContractProperties OAuthProperties
    HandlerProperties NotificationProperties EventDays Google StartUpProperties
begin

text \<open>
  Deck2: the backend of the planning tool of an event (\<^verbatim>\<open>backend/src\<close>, written in Go). It keeps the
  companies, speakers, sessions, teams, members and the catalogue of an event in a MongoDB
  database, with the threads, meetings and notifications about them, and serves them over HTTP to its members, by role, and
  some public pages to everybody. This library models its documents (\<^verbatim>\<open>models/\<close>), its data layer (\<^verbatim>\<open>mongodb/\<close>), its login
  and access check (\<^verbatim>\<open>auth/\<close>, \<^verbatim>\<open>google/\<close>), the routes and every handler behind them (\<^verbatim>\<open>router/\<close>), the paths of the
  stored files (\<^verbatim>\<open>spaces/\<close>) and the start of the process (\<^verbatim>\<open>main.go\<close>, \<^verbatim>\<open>config/\<close>).

  \<^bold>\<open>How the code is read.\<close> A function of the data layer, and a handler, is a program of the error and state monad of
  theory Prelude: it takes the state of the service (\<open>world\<close>: the documents of every collection and the
  cached public pages) and gives a value or an error with the new state. Go's error values
  are \<open>Err\<close>, its panics (a nil pointer followed, an index out of range) \<open>Panic\<close>, and \<^verbatim>\<open>log.Fatal\<close> is
  \<open>Fatal\<close>. The database driver is not part of the source. Theory Driver takes it as a parameter: one
  function per driver call, and \<open>driver_spec\<close> states what the driver documents about each (which
  documents a query may answer, what an update replaces, what an error leaves behind).
  \<open>local_driver\<close> meets it, so the theorems can be used. \<open>mongo_spec bad E\<close> says that every
  collection of the environment \<open>E\<close> behaves so and fails with errors in \<open>bad\<close> only. A handler takes a request (header,
  path, query, credentials) and gives a reply: an answer, or a failure with its status and message; the body, where it has
  one, is an argument, decoded. JWT, Google, the object store, hashes, regular expressions of the database and the clock are
  further parameters in \<open>E\<close>.

  \<^bold>\<open>Theories.\<close>
  \<^item> Shared: Prelude (the monad, its weakest preconditions, programs that keep an invariant, MongoDB's
    array operators), GoStrings, Driver (the driver, its contract, and abstract operations, read, update, delete by key,
    create, that most functions implement), Paging, Records (one record per struct), World (collections and state), Lookups.
  \<^item> State machines and enumerations (\<^verbatim>\<open>models/\<close>): ParticipationStatus, Roles, Kinds, EventDays (the length of an event).
  \<^item> Data layer, a theory per file of \<^verbatim>\<open>mongodb/\<close>: Events, Contacts, Catalogue, Billing, Sessions, Companies and
    CompanyParticipations, Speakers and SpeakerParticipations, Communications (posts, meetings, threads), Teams, CoordinationTeams,
    Members, Notifications, Templates. Participations is the locale of what companies and speakers share.
  \<^item> HTTP: Http (requests, replies, tokens, the access check), Routes (the table of \<^verbatim>\<open>router/init.go\<close>), Spaces (files),
    ThreadHandling, and CompanyHandlers, SpeakerHandlers, EventHandlers, TeamHandlers, MemberHandlers, CommunicationHandlers,
    CatalogueHandlers and ContractHandlers, with a definition per handler, by its name in Go; OAuth (the redirects of the login), Google.
    Requests ties routes to handlers: \<open>step\<close> is one request, \<open>requests\<close> any sequence of them with the hourly
    clean-up of the caches in between.
  \<^item> StartUp: from \<open>main\<close> to the point where requests are served.
  \<^item> Theorems across a component: CompanyProperties, PublicCompanies, SpeakerProperties, PublicSpeakers, PublicSessions,
    CommunicationProperties, TeamProperties, MemberProperties, NotificationProperties, HttpProperties, HandlerProperties,
    ContractProperties, OAuthProperties, StartUpProperties, and across all of them Footprints, HandlerFootprints, Requests,
    ServiceInvariant.

  \<^bold>\<open>What the theorems show.\<close> Operations of the data layer implement abstract ones or have their
  result, effect and errors stated in full; participations move along the state machine only, companies and speakers keep at most
  one per event, teams list a member once; prices stay in range; the public pages show what
  they should, or the theorem says what they show instead; notifications reach the subscribers, once, and nobody else. Whatever
  sequence of requests arrives, the invariant of the service holds (\<open>requests_keep_invariant\<close>), every
  handler changes only the parts of the state its entry in the table names (\<open>handlers_meet_footprints\<close>), and so a request changes
  no more than its role may (\<open>request_within_role\<close>). Threads are changed by their authors and by administrators, a handler that fails
  leaves nothing half done or the theorem says what it leaves; a contract and a list of mails hold what they should; the login
  returns where it came from. A process that serves requests is configured and checks them (\<open>started_service\<close>).
  Where the code departs from its own comments or panics, a theorem states what it does.

  \<^bold>\<open>Bounds.\<close> Most loops of the code run over a list or a string and are structural; the search for tags in a text and the
  digits of a number end by a measure. The loop over the days of an event has no bound in the code: it is a partial
  function and is proved to return. No fuel is used. Times are integers (milliseconds); Go \<^verbatim>\<open>int\<close>s are unbounded but where pages
  are computed from two numbers of the request, whose product wraps at 64 bits, and where a number is parsed, which is checked against
  64 bits.

  \<^bold>\<open>Not modelled\<close>: drawing a contract as a PDF (two functions that nothing calls); printing the contents of the object
  store; log lines, headers and the encoding of replies; the indexes the service asks the database for; the
  web client and the vendored packages. Requests are taken one after another: what two handlers do to
  the same document at once is not modelled.
\<close>

end
